(* ===== verification/StrUtil.thy ===== *)
theory StrUtil
  imports Prelude "HOL-Library.Sublist"
begin

text \<open>
  The operations of \<open>str\<close> and of the integer parsers of the Rust standard library that the
  sources use: \<open>split\<close> by a character and by a pattern, \<open>contains\<close>, \<open>starts_with\<close>, \<open>trim\<close>,
  \<open>replace\<close>, \<open>to_string\<close> and \<open>parse\<close> of signed integers, with the round trip of the last two.
  A string is the list of its characters; \<open>parse_signed b\<close> is \<open>parse::<i32>()\<close> for \<open>b = 31\<close>
  and \<open>parse::<i64>()\<close> for \<open>b = 63\<close>.
\<close>

section \<open>Splitting and searching\<close>

fun split_on :: "char \<Rightarrow> string \<Rightarrow> string list" where
  "split_on c [] = [[]]"
| "split_on c (x # xs) =
    (if x = c then [] # split_on c xs
     else case split_on c xs of [] \<Rightarrow> [[x]] | w # ws \<Rightarrow> (x # w) # ws)"

definition starts_with :: "string \<Rightarrow> string \<Rightarrow> bool" where
  "starts_with p s \<longleftrightarrow> take (length p) s = p"

fun contains_str :: "string \<Rightarrow> string \<Rightarrow> bool" where
  "contains_str p [] = (p = [])"
| "contains_str p (x # xs) = (starts_with p (x # xs) \<or> contains_str p xs)"

text \<open>Splitting by a non-empty pattern, left to right, without overlaps.\<close>

function split_str :: "string \<Rightarrow> string \<Rightarrow> string list" where
  "split_str p s =
    (if p = [] \<or> s = [] then [s]
     else if starts_with p s then [] # split_str p (drop (length p) s)
     else case split_str p (tl s) of [] \<Rightarrow> [[hd s]] | w # ws \<Rightarrow> (hd s # w) # ws)"
  by pat_completeness auto
termination by (relation "measure (length \<circ> snd)") auto

declare split_str.simps [simp del]

fun join :: "string \<Rightarrow> string list \<Rightarrow> string" where
  "join sep [] = []"
| "join sep [x] = x"
| "join sep (x # y # ys) = x @ sep @ join sep (y # ys)"

definition replace_str :: "string \<Rightarrow> string \<Rightarrow> string \<Rightarrow> string" where
  "replace_str p r s = join r (split_str p s)"

definition is_ws :: "char \<Rightarrow> bool" where
  "is_ws c \<longleftrightarrow> of_char c \<in> {9, 10, 11, 12, 13, 32 :: nat}"

definition trim :: "string \<Rightarrow> string" where
  "trim s = rev (dropWhile is_ws (rev (dropWhile is_ws s)))"

definition trim_end :: "string \<Rightarrow> string" where
  "trim_end s = rev (dropWhile is_ws (rev s))"

definition ends_with :: "string \<Rightarrow> string \<Rightarrow> bool" where
  "ends_with p s \<longleftrightarrow> starts_with (rev p) (rev s)"

definition to_lowercase :: "string \<Rightarrow> string" where
  "to_lowercase s = map (\<lambda>c. if 65 \<le> (of_char c :: nat) \<and> (of_char c :: nat) \<le> 90 then char_of (of_char c + 32 :: nat) else c) s"

text \<open>\<open>str::lines\<close>: ends at a newline, without a carriage return before it; no empty last line.\<close>

definition strip_cr :: "string \<Rightarrow> string" where
  "strip_cr l = (if l \<noteq> [] \<and> last l = CHR 0x0D then butlast l else l)"

definition str_lines :: "string \<Rightarrow> string list" where
  "str_lines s =
    (let ls = split_on (CHR 0x0A) s
     in map strip_cr (butlast ls) @ (if last ls = [] then [] else [last ls]))"

lemma takeWhile_all: "c \<notin> set s \<Longrightarrow> takeWhile (\<lambda>x. x \<noteq> c) s = s"
  by (auto simp: takeWhile_eq_all_conv)

lemma split_on_neq_Nil [simp]: "split_on c s \<noteq> []"
  by (induction s) (auto split: list.splits)

lemma split_on_free: "c \<notin> set s \<Longrightarrow> split_on c s = [s]"
  by (induction s) auto

lemma split_on_append:
  "c \<notin> set s \<Longrightarrow> split_on c (s @ c # t) = s # split_on c t"
  by (induction s) auto

lemma split_on_parts_free: "w \<in> set (split_on c s) \<Longrightarrow> c \<notin> set w"
  by (induction s arbitrary: w) (auto split: list.splits if_splits)

lemma join_split_on: "join [c] (split_on c s) = s"
proof (induction s)
  case (Cons x xs)
  obtain w ws where "split_on c xs = w # ws" by (cases "split_on c xs") auto
  with Cons.IH show ?case by (cases ws) auto
qed simp

lemma join_lines:
  assumes "list_all (\<lambda>l. CHR 0x0A \<notin> set l \<and> CHR 0x0D \<notin> set l \<and> l \<noteq> []) ls"
  shows "str_lines (join [CHR 0x0A] ls) = ls"
proof -
  have split: "split_on (CHR 0x0A) (join [CHR 0x0A] ls) = ls" if "ls \<noteq> []"
    using that assms by (induction ls rule: induct_list012) (auto simp: split_on_free split_on_append)
  have cr: "strip_cr l = l" if "l \<in> set ls" for l
    using that assms last_in_set [of l] unfolding strip_cr_def list_all_iff by metis
  show ?thesis
  proof (cases "ls = []")
    case False
    have "last ls \<noteq> []" using assms False by (auto simp: list_all_iff)
    moreover have "map strip_cr (butlast ls) = butlast ls"
      using cr by (auto intro: map_idI dest: in_set_butlastD)
    ultimately show ?thesis using split [OF False] False by (simp add: str_lines_def)
  qed (simp add: str_lines_def)
qed

section \<open>UTF-8\<close>

text \<open>The check of \<open>String::from_utf8\<close> and \<open>decode_utf8\<close>: the well-formed byte sequences of UTF-8.\<close>

definition byte_in :: "nat \<Rightarrow> nat \<Rightarrow> char \<Rightarrow> bool" where
  "byte_in lo hi c \<longleftrightarrow> lo \<le> (of_char c :: nat) \<and> (of_char c :: nat) \<le> hi"

fun valid_utf8 :: "string \<Rightarrow> bool" where
  "valid_utf8 [] = True"
| "valid_utf8 (a # s) =
    (if byte_in 0 0x7F a then valid_utf8 s
     else case s of
       [] \<Rightarrow> False
     | b # s1 \<Rightarrow>
         if byte_in 0xC2 0xDF a then byte_in 0x80 0xBF b \<and> valid_utf8 s1
         else case s1 of
           [] \<Rightarrow> False
         | c # s2 \<Rightarrow>
             if byte_in 0xE0 0xEF a then
               (if byte_in 0xE0 0xE0 a then byte_in 0xA0 0xBF b
                else if byte_in 0xED 0xED a then byte_in 0x80 0x9F b
                else byte_in 0x80 0xBF b) \<and> byte_in 0x80 0xBF c \<and> valid_utf8 s2
             else case s2 of
               [] \<Rightarrow> False
             | d # s3 \<Rightarrow>
                 byte_in 0xF0 0xF4 a
                 \<and> (if byte_in 0xF0 0xF0 a then byte_in 0x90 0xBF b
                    else if byte_in 0xF4 0xF4 a then byte_in 0x80 0x8F b
                    else byte_in 0x80 0xBF b)
                 \<and> byte_in 0x80 0xBF c \<and> byte_in 0x80 0xBF d \<and> valid_utf8 s3)"

section \<open>Decimal numbers\<close>

definition digit_char :: "nat \<Rightarrow> char" where
  "digit_char d = char_of (48 + d)"

definition digit_val :: "char \<Rightarrow> nat option" where
  "digit_val c = (if 48 \<le> (of_char c :: nat) \<and> (of_char c :: nat) \<le> 57
     then Some (of_char c - 48) else None)"

fun show_nat :: "nat \<Rightarrow> string" where
  "show_nat n = (if n < 10 then [digit_char n] else show_nat (n div 10) @ [digit_char (n mod 10)])"

declare show_nat.simps [simp del]

definition show_int :: "int \<Rightarrow> string" where
  "show_int i = (if i < 0 then CHR ''-'' # show_nat (nat (- i)) else show_nat (nat i))"

fun parse_digits :: "nat \<Rightarrow> string \<Rightarrow> nat option" where
  "parse_digits acc [] = Some acc"
| "parse_digits acc (c # cs) =
    (case digit_val c of None \<Rightarrow> None | Some d \<Rightarrow> parse_digits (10 * acc + d) cs)"

definition parse_nat :: "string \<Rightarrow> nat option" where
  "parse_nat s = (if s = [] then None else parse_digits 0 s)"

definition parse_signed :: "nat \<Rightarrow> string \<Rightarrow> int option" where
  "parse_signed b s =
    (case (case s of
             [] \<Rightarrow> None
           | c # cs \<Rightarrow>
               if c = CHR ''+'' then map_option int (parse_nat cs)
               else if c = CHR ''-'' then map_option (\<lambda>n. - int n) (parse_nat cs)
               else map_option int (parse_nat s)) of
       None \<Rightarrow> None
     | Some i \<Rightarrow> if - (2 ^ b) \<le> i \<and> i < 2 ^ b then Some i else None)"

text \<open>\<open>parse\<close> of an unsigned integer of \<open>b\<close> bits.\<close>

definition parse_unsigned :: "nat \<Rightarrow> string \<Rightarrow> nat option" where
  "parse_unsigned b s =
    (case parse_nat (if s \<noteq> [] \<and> hd s = CHR ''+'' then tl s else s) of
       None \<Rightarrow> None
     | Some n \<Rightarrow> if n < 2 ^ b then Some n else None)"

lemma of_char_digit_char: "d < 10 \<Longrightarrow> (of_char (digit_char d) :: nat) = 48 + d"
  by (simp add: digit_char_def)

lemma digit_val_digit_char [simp]: "d < 10 \<Longrightarrow> digit_val (digit_char d) = Some d"
  by (simp add: digit_val_def of_char_digit_char)

lemma parse_digits_append:
  "parse_digits acc (xs @ ys) =
    (case parse_digits acc xs of None \<Rightarrow> None | Some a \<Rightarrow> parse_digits a ys)"
  by (induction xs arbitrary: acc) (auto split: option.splits)

lemma show_nat_neq_Nil [simp]: "show_nat n \<noteq> []"
  by (subst show_nat.simps) simp

lemma parse_digits_show_nat: "parse_digits 0 (show_nat n) = Some n"
proof (induction n rule: show_nat.induct)
  case (1 n)
  then show ?case
    by (subst show_nat.simps) (auto simp: parse_digits_append)
qed

lemma parse_nat_show_nat [simp]: "parse_nat (show_nat n) = Some n"
  by (simp add: parse_nat_def parse_digits_show_nat)

lemma set_show_nat: "set (show_nat n) \<subseteq> digit_char ` {..<10}"
proof (induction n rule: show_nat.induct)
  case (1 n)
  have "n mod 10 < 10" by simp
  with 1 show ?case by (subst show_nat.simps) auto
qed

lemma digit_char_neq:
  assumes "d < 10" "(of_char c :: nat) < 48 \<or> 57 < (of_char c :: nat)"
  shows "digit_char d \<noteq> c"
  using assms of_char_digit_char [of d] by auto

lemma not_in_show_nat:
  assumes "(of_char c :: nat) < 48 \<or> 57 < (of_char c :: nat)"
  shows "c \<notin> set (show_nat n)"
  using set_show_nat [of n] digit_char_neq [OF _ assms] by blast

lemma show_nat_no_sep [simp]:
  "CHR ''.'' \<notin> set (show_nat n)" "CHR ''-'' \<notin> set (show_nat n)"
  "CHR '':'' \<notin> set (show_nat n)" "CHR ''+'' \<notin> set (show_nat n)" "CHR '']'' \<notin> set (show_nat n)"
  by (rule not_in_show_nat, simp add: of_char_def)+

lemma parse_signed_show_nat:
  assumes "n < 2 ^ b"
  shows "parse_signed b (show_nat n) = Some (int n)"
proof -
  obtain c cs where s: "show_nat n = c # cs" by (cases "show_nat n") auto
  then have "c \<noteq> CHR ''+''" "c \<noteq> CHR ''-''"
    using show_nat_no_sep [of n] by auto
  moreover have "int n < 2 ^ b" using assms by (metis of_nat_less_iff of_nat_numeral of_nat_power)
  moreover have "- (2 ^ b) \<le> int n" by (meson dual_order.trans neg_le_0_iff_le of_nat_0_le_iff zero_le_numeral zero_le_power)
  ultimately show ?thesis
    using parse_nat_show_nat [of n] unfolding parse_signed_def s by simp
qed

end
