(* ===== verification/BytesCodec.thy ===== *)
theory BytesCodec
  imports Prelude
begin

text \<open>
  The packet codec of \<open>libs/hbb_common/src/bytes_codec.rs\<close>: a length prefix of one to four
  bytes whose two low bits give its size, then the payload. The decoder is incremental: it
  keeps the announced length in its state between calls.
\<close>

section \<open>State and operations\<close>

datatype decode_state = Head | Data nat

datatype io_error = InvalidData string | InvalidInput string

record bytes_codec =
  codec_state :: decode_state
  codec_raw :: bool
  max_packet_length :: nat

text \<open>\<open>usize::MAX\<close> on the 64-bit targets.\<close>

definition usize_max :: nat where
  "usize_max = 2 ^ 64 - 1"

definition codec_new :: bytes_codec where
  "codec_new = \<lparr>codec_state = Head, codec_raw = False, max_packet_length = usize_max\<rparr>"

definition set_raw :: "bytes_codec \<Rightarrow> bytes_codec" where
  "set_raw c = c\<lparr>codec_raw := True\<rparr>"

definition set_max_packet_length :: "nat \<Rightarrow> bytes_codec \<Rightarrow> bytes_codec" where
  "set_max_packet_length n c = c\<lparr>max_packet_length := n\<rparr>"

definition head_number :: "nat \<Rightarrow> bytes \<Rightarrow> nat" where
  "head_number head_len src =
    (let n = unat (src ! 0);
         n = (if 1 < head_len then n OR push_bit 8 (unat (src ! 1)) else n);
         n = (if 2 < head_len then n OR push_bit 16 (unat (src ! 2)) else n);
         n = (if 3 < head_len then n OR push_bit 24 (unat (src ! 3)) else n)
     in n)"

definition decode_head :: "bytes_codec \<Rightarrow> bytes \<Rightarrow> io_error + (nat option \<times> bytes)" where
  "decode_head c src =
    (if src = [] then Inr (None, src)
     else
       let head_len = unat ((src ! 0 AND 3) + 1) in
       if length src < head_len then Inr (None, src)
       else
         let n = drop_bit 2 (head_number head_len src)
         in if max_packet_length c < n then Inl (InvalidData ''Too big packet'')
            else Inr (Some n, drop head_len src))"

definition decode_data :: "nat \<Rightarrow> bytes \<Rightarrow> bytes option \<times> bytes" where
  "decode_data n src =
    (if length src < n then (None, src) else (Some (take n src), drop n src))"

text \<open>
  \<open>Decoder::decode\<close>: the result, the codec after the call and the bytes left in the source
  buffer. An error of \<open>decode_head\<close> leaves both unchanged.
\<close>

definition decode ::
  "bytes_codec \<Rightarrow> bytes \<Rightarrow> (io_error + bytes option) \<times> bytes_codec \<times> bytes" where
  "decode c src =
    (if codec_raw c then (if src \<noteq> [] then (Inr (Some src), c, []) else (Inr None, c, src))
     else
       let finish = (\<lambda>n c src.
             case decode_data n src of
               (Some data, src') \<Rightarrow> (Inr (Some data), c\<lparr>codec_state := Head\<rparr>, src')
             | (None, src') \<Rightarrow> (Inr None, c, src'))
       in case codec_state c of
            Head \<Rightarrow>
              (case decode_head c src of
                 Inl e \<Rightarrow> (Inl e, c, src)
               | Inr (None, src') \<Rightarrow> (Inr None, c, src')
               | Inr (Some n, src') \<Rightarrow> finish n (c\<lparr>codec_state := Data n\<rparr>) src')
          | Data n \<Rightarrow> finish n c src)"

definition encode :: "bytes_codec \<Rightarrow> bytes \<Rightarrow> bytes \<Rightarrow> io_error + bytes" where
  "encode c data buf =
    (if codec_raw c then Inr (buf @ data)
     else
       let len = length data in
       if len \<le> 0x3F then
         Inr (buf @ [of_nat (push_bit 2 len)] @ data)
       else if len \<le> 0x3FFF then
         Inr (buf @ le_bytes 2 (unat ((of_nat (push_bit 2 len) :: u16) OR 1)) @ data)
       else if len \<le> 0x3FFFFF then
         let h = (of_nat (push_bit 2 len) :: u32) OR 2 in
         Inr (buf @ le_bytes 2 (unat (ucast (h AND 0xFFFF) :: u16))
                @ [ucast (drop_bit 16 h)] @ data)
       else if len \<le> 0x3FFFFFFF then
         Inr (buf @ le_bytes 4 (unat ((of_nat (push_bit 2 len) :: u32) OR 3)) @ data)
       else Inl (InvalidInput ''Overflow''))"


section \<open>The header\<close>

text \<open>
  Reference form of the header: the little endian bytes of \<open>4 * len + (k - 1)\<close>, where \<open>k\<close> is
  the number of header bytes.
\<close>

definition header_size :: "nat \<Rightarrow> nat" where
  "header_size len = (if len \<le> 0x3F then 1 else if len \<le> 0x3FFF then 2
                      else if len \<le> 0x3FFFFF then 3 else 4)"

definition frame_header :: "nat \<Rightarrow> bytes" where
  "frame_header len = le_bytes (header_size len) (4 * len + (header_size len - 1))"

definition frame :: "bytes \<Rightarrow> bytes" where
  "frame data = frame_header (length data) @ data"

definition head_len :: "bytes \<Rightarrow> nat" where
  "head_len src = unat (src ! 0) mod 4 + 1"

lemma unat_head_len: "unat ((src ! 0 AND 3) + 1 :: u8) = head_len src"
proof -
  have "unat (src ! 0 AND 3) < 4" by (simp add: unat_and_3)
  then show ?thesis by (simp add: unat_word_ariths unat_and_3 head_len_def)
qed

lemma length_frame_header [simp]: "length (frame_header len) = header_size len"
  by (simp add: frame_header_def)

lemma header_size_bounds: "1 \<le> header_size len" "header_size len \<le> 4"
  by (simp_all add: header_size_def)

lemma head_number_le_val:
  assumes "head_len src \<le> length src" "src \<noteq> []"
  shows "head_number (head_len src) src = le_val (take (head_len src) src)"
proof -
  have b: "unat (src ! i) < 256" for i by (rule unat_u8_less)
  have c: "head_len src = 1 \<or> head_len src = 2 \<or> head_len src = 3 \<or> head_len src = 4"
    unfolding head_len_def by (simp; presburger)
  have o1: "unat (src ! 0) OR push_bit 8 x = unat (src ! 0) + 256 * x" for x
    using b[of 0] by (simp add: or_push_bit_nat)
  have o2: "(unat (src ! 0) + 256 * unat (src ! 1)) OR push_bit 16 x
              = unat (src ! 0) + 256 * unat (src ! 1) + 65536 * x" for x
    using b[of 0] b[of 1] by (subst or_push_bit_nat) auto
  have o3: "(unat (src ! 0) + 256 * unat (src ! 1) + 65536 * unat (src ! 2)) OR push_bit 24 x
              = unat (src ! 0) + 256 * unat (src ! 1) + 65536 * unat (src ! 2) + 16777216 * x" for x
    using b[of 0] b[of 1] b[of 2] by (subst or_push_bit_nat) auto
  have t1: "le_val (take 1 src) = unat (src ! 0)"
    using le_val_take_Suc [of 0 src] assms by simp
  have t2: "2 \<le> length src \<Longrightarrow> le_val (take 2 src) = unat (src ! 0) + 256 * unat (src ! 1)"
    using le_val_take_Suc [of 1 src] t1 by (simp add: numeral_2_eq_2 [symmetric])
  have t3: "3 \<le> length src \<Longrightarrow> le_val (take 3 src)
      = unat (src ! 0) + 256 * unat (src ! 1) + 65536 * unat (src ! 2)"
    using le_val_take_Suc [of 2 src] t2 by simp
  have t4: "4 \<le> length src \<Longrightarrow> le_val (take 4 src)
      = unat (src ! 0) + 256 * unat (src ! 1) + 65536 * unat (src ! 2) + 16777216 * unat (src ! 3)"
    using le_val_take_Suc [of 3 src] t3 by simp
  show ?thesis
    using c assms(1)
  proof (elim disjE)
    assume "head_len src = 1" then show ?thesis using t1 by (simp add: head_number_def)
  next
    assume "head_len src = 2"
    then show ?thesis using t2 assms(1) by (simp add: head_number_def o1)
  next
    assume "head_len src = 3"
    then show ?thesis using t3 assms(1) by (simp add: head_number_def o1 o2 [simplified])
  next
    assume "head_len src = 4"
    then show ?thesis using t4 assms(1)
      by (simp add: head_number_def o1 o2 [simplified] o3 [simplified])
  qed
qed

lemma decode_head_short:
  "src = [] \<or> length src < head_len src \<Longrightarrow> decode_head c src = Inr (None, src)"
  by (auto simp: decode_head_def unat_head_len)

lemma decode_head_full:
  assumes "src \<noteq> []" "head_len src \<le> length src"
  shows "decode_head c src =
    (let n = le_val (take (head_len src) src) div 4
     in if max_packet_length c < n then Inl (InvalidData ''Too big packet'')
        else Inr (Some n, drop (head_len src) src))"
  using assms
  by (simp add: decode_head_def unat_head_len Let_def
      head_number_le_val drop_bit_eq_div)


text \<open>\<open>encode\<close> computes the reference frame.\<close>

lemma unat_shifted_or:
  fixes w :: "'a::len word"
  assumes "4 * len < 2 ^ LENGTH('a)" "t < 4" "unat w = t"
  shows "unat (of_nat (push_bit 2 len) OR w) = 4 * len + t"
proof -
  have "unat (of_nat (push_bit 2 len) :: 'a word) = push_bit 2 len"
  proof -
    have "push_bit 2 len < 2 ^ LENGTH('a)"
      using assms(1) by (simp add: push_bit_eq_mult mult.commute)
    then show ?thesis by (simp only: unat_of_nat mod_less)
  qed
  then have "unat ((of_nat (push_bit 2 len) :: 'a word) OR w) = t OR push_bit 2 len"
    using assms(3) by (simp add: unsigned_or_eq or.commute)
  also have "\<dots> = t + 4 * len"
    using assms(2) by (simp add: or_push_bit_nat)
  finally show ?thesis by simp
qed

lemma le_bytes_3_split:
  fixes h :: u32
  assumes "unat h < 2 ^ 24"
  shows "le_bytes 2 (unat (ucast (h AND 0xFFFF) :: u16)) @ [ucast (drop_bit 16 h)]
           = le_bytes 3 (unat h)"
proof -
  have m: "unat (h AND 0xFFFF) = unat h mod 65536"
    using unat_and_mask [of h 16] by (simp add: mask_eq_exp_minus_1)
  then have lo: "unat (ucast (h AND 0xFFFF) :: u16) = unat h mod 65536"
    by (simp add: unsigned_ucast_eq take_bit_nat_def)
  have hi: "(ucast (drop_bit 16 h) :: u8) = of_nat (unat h div 65536)"
    by (rule word_unat_eq_iff [THEN iffD2])
       (simp add: unsigned_ucast_eq unsigned_drop_bit_eq take_bit_nat_def drop_bit_eq_div unat_of_nat
         unat_div_distrib)
  have "unat h div 256 div 256 = unat h div 65536" by (simp add: div_mult2_eq)
  moreover have "unat h div 65536 mod 256 = unat h div 65536" using assms by simp
  moreover have "unat h mod 65536 mod 256 = unat h mod 256"
    by (simp add: mod_mod_cancel)
  moreover have "unat h mod 65536 div 256 mod 256 = unat h div 256 mod 256"
    using mod_mult2_eq [of "unat h" 256 256] by simp
  ultimately show ?thesis
    by (simp add: lo hi numeral_2_eq_2 numeral_3_eq_3)
qed

lemma encode_eq:
  assumes "\<not> codec_raw c"
  shows "encode c data buf =
    (if length data \<le> 0x3FFFFFFF then Inr (buf @ frame data)
     else Inl (InvalidInput ''Overflow''))"
proof -
  let ?len = "length data"
  have e1: "[of_nat (push_bit 2 ?len)] = le_bytes 1 (4 * ?len)" if "?len \<le> 0x3F"
    using that by (simp add: push_bit_eq_mult mult.commute)
  have e2: "unat ((of_nat (push_bit 2 ?len) :: u16) OR 1) = 4 * ?len + 1" if "?len \<le> 0x3FFF"
    using that by (intro unat_shifted_or) auto
  define h :: u32 where "h = of_nat (push_bit 2 ?len) OR 2"
  have e3: "unat h = 4 * ?len + 2" if "?len \<le> 0x3FFFFF"
    unfolding h_def using that by (intro unat_shifted_or) auto
  have e4: "unat ((of_nat (push_bit 2 ?len) :: u32) OR 3) = 4 * ?len + 3" if "?len \<le> 0x3FFFFFFF"
    using that by (intro unat_shifted_or) auto
  have s3: "le_bytes 2 (unat (ucast (h AND 0xFFFF) :: u16)) @ (ucast (drop_bit 16 h) # data)
              = le_bytes 3 (4 * ?len + 2) @ data" if "?len \<le> 0x3FFFFF"
  proof -
    have "unat h < 2 ^ 24" using e3 that by simp
    from le_bytes_3_split [OF this] show ?thesis
      by (metis append.assoc append_Cons append_Nil e3 that)
  qed
  consider "?len \<le> 0x3F" | "0x3F < ?len" "?len \<le> 0x3FFF" | "0x3FFF < ?len" "?len \<le> 0x3FFFFF"
    | "0x3FFFFF < ?len" by linarith
  then show ?thesis
    using assms e1
    by cases (simp_all add: encode_def Let_def e2 s3 h_def [symmetric] e4 frame_def
        frame_header_def header_size_def add.commute del: le_bytes.simps)
qed

lemma head_of_frame_header:
  "head_len (frame_header len @ xs) = header_size len"
  "frame_header len @ xs \<noteq> []"
proof -
  have k: "header_size len = 1 \<or> header_size len = 2 \<or> header_size len = 3 \<or> header_size len = 4"
    by (auto simp: header_size_def)
  obtain k where k': "header_size len = Suc k" using header_size_bounds(1)[of len]
    by (cases "header_size len") auto
  have "(4 * len + (header_size len - 1)) mod 256 mod 4 = (header_size len - 1) mod 4"
    by (simp add: mod_mod_cancel)
  then show "head_len (frame_header len @ xs) = header_size len"
    using k by (auto simp: head_len_def frame_header_def k' simp del: One_nat_def)
  show "frame_header len @ xs \<noteq> []" by (simp add: frame_header_def k')
qed

lemma frame_header_value:
  assumes "len \<le> 0x3FFFFFFF"
  shows "le_val (frame_header len) div 4 = len"
proof -
  have "4 * len + (header_size len - 1) < 256 ^ header_size len"
    using assms by (auto simp: header_size_def)
  moreover have "header_size len - 1 < 4" using header_size_bounds[of len] by simp
  ultimately show ?thesis by (simp add: frame_header_def byte_simps)
qed

lemma decode_head_frame_header:
  assumes "len \<le> 0x3FFFFFFF"
  shows "decode_head c (frame_header len @ xs) =
    (if max_packet_length c < len then Inl (InvalidData ''Too big packet'') else Inr (Some len, xs))"
  by (subst decode_head_full)
     (use assms head_of_frame_header [of len xs] in
      \<open>simp_all add: frame_header_value del: append_is_Nil_conv\<close>)


section \<open>Incremental decoding\<close>

text \<open>
  How one call of \<open>decode\<close> behaves when more bytes have arrived: a packet that was complete
  stays the same packet, a refused header stays refused, and a call that returned \<open>None\<close> has
  lost nothing, whatever it moved from the buffer into the codec's state.
\<close>

lemma head_len_append: "xs \<noteq> [] \<Longrightarrow> head_len (xs @ ys) = head_len xs"
  by (simp add: head_len_def nth_append)

lemma decode_head_cases:
  obtains (Short) "src = [] \<or> length src < head_len src" "decode_head c src = Inr (None, src)"
        "\<And>ys. src \<noteq> [] \<Longrightarrow> head_len (src @ ys) = head_len src"
  | (TooBig) "\<And>ys. decode_head c (src @ ys) = Inl (InvalidData ''Too big packet'')"
  | (Full) n where "src \<noteq> []" "head_len src \<le> length src" "n \<le> max_packet_length c"
        "\<And>ys. decode_head c (src @ ys) = Inr (Some n, drop (head_len src) src @ ys)"
proof (cases "src = [] \<or> length src < head_len src")
  case True
  then show ?thesis using Short decode_head_short head_len_append by blast
next
  case False
  let ?n = "le_val (take (head_len src) src) div 4"
  have d: "decode_head c (src @ ys) = (if max_packet_length c < ?n
      then Inl (InvalidData ''Too big packet'') else Inr (Some ?n, drop (head_len src) src @ ys))" for ys
    using False by (subst decode_head_full) (auto simp: head_len_append Let_def)
  show ?thesis
  proof (cases "max_packet_length c < ?n")
    case True then show ?thesis using TooBig d by simp
  next
    case nb: False
    then show ?thesis using Full [of ?n] d False by simp
  qed
qed

lemma decode_raw_unchanged: "decode c src = (res, c', r) \<Longrightarrow> codec_raw c' = codec_raw c"
  by (auto simp: decode_def decode_data_def Let_def split: if_splits decode_state.splits
      sum.splits prod.splits option.splits)

lemma decode_max_unchanged:
  "decode c src = (res, c', r) \<Longrightarrow> max_packet_length c' = max_packet_length c"
  by (auto simp: decode_def decode_data_def Let_def split: if_splits decode_state.splits
      sum.splits prod.splits option.splits)

lemma decode_Data:
  assumes "\<not> codec_raw c" "codec_state c = Data n"
  shows "decode c src = (if length src < n then (Inr None, c, src)
                         else (Inr (Some (take n src)), c\<lparr>codec_state := Head\<rparr>, drop n src))"
  using assms by (simp add: decode_def decode_data_def)

lemma decode_Head:
  assumes "\<not> codec_raw c" "codec_state c = Head"
  shows "decode c src = (case decode_head c src of
           Inl e \<Rightarrow> (Inl e, c, src)
         | Inr (None, src') \<Rightarrow> (Inr None, c, src')
         | Inr (Some n, src') \<Rightarrow> decode (c\<lparr>codec_state := Data n\<rparr>) src')"
  using assms
  by (auto simp: decode_def decode_data_def Let_def split: sum.splits prod.splits option.splits)

lemmas decode_simps = decode_Data decode_Head

lemma decode_append:
  assumes "\<not> codec_raw c" "decode c xs = (res, c', r)"
  shows "decode c (xs @ ys) =
    (case res of
       Inl e \<Rightarrow> (Inl e, c, xs @ ys)
     | Inr (Some m) \<Rightarrow> (Inr (Some m), c', r @ ys)
     | Inr None \<Rightarrow> decode c' (r @ ys))"
proof (cases "codec_state c")
  case (Data n)
  then show ?thesis using assms by (auto simp: decode_Data split: if_splits)
next
  case Head
  show ?thesis
  proof (cases rule: decode_head_cases [of xs c])
    case Short
    then show ?thesis using assms Head
      by (auto simp: decode_Head split: sum.splits option.splits prod.splits)
  next
    case TooBig
    then show ?thesis using TooBig [of "[]"] assms Head by (auto simp: decode_Head)
  next
    case (Full n)
    then show ?thesis using Full(4) [of "[]"] assms Head
      by (auto simp: decode_Head decode_Data split: if_splits)
  qed
qed

lemma decode_error_unchanged: "decode c src = (Inl e, c', r) \<Longrightarrow> c' = c \<and> r = src"
  by (auto simp: decode_def decode_data_def Let_def split: if_splits decode_state.splits
      sum.splits prod.splits option.splits)

text \<open>
  The reading loop around a \<open>Decoder\<close>: it calls \<open>decode\<close> until it returns \<open>None\<close> or fails,
  then waits for the next chunk of the socket.
\<close>

definition pending :: "bytes_codec \<Rightarrow> nat" where
  "pending c = (case codec_state c of Head \<Rightarrow> 0 | Data _ \<Rightarrow> 1)"

lemma decode_Some_decreases:
  assumes "decode c src = (Inr (Some m), c', r)"
  shows "2 * length r + pending c' < 2 * length src + pending c"
proof (cases "codec_raw c")
  case True
  then show ?thesis using assms by (auto simp: decode_def split: if_splits)
next
  case False
  show ?thesis
  proof (cases "codec_state c")
    case (Data n)
    then show ?thesis using assms False
      by (auto simp: decode_Data pending_def split: if_splits)
  next
    case Head
    show ?thesis
      by (cases rule: decode_head_cases [of src c])
         (use assms False Head in \<open>auto simp: decode_Head decode_Data pending_def
             head_len_def split: if_splits dest!: meta_spec [where x = "[]"]\<close>)
  qed
qed

function drain :: "bytes_codec \<Rightarrow> bytes \<Rightarrow> bytes list \<times> io_error option \<times> bytes_codec \<times> bytes" where
  "drain c src =
    (case decode c src of
       (Inl e, c', src') \<Rightarrow> ([], Some e, c', src')
     | (Inr None, c', src') \<Rightarrow> ([], None, c', src')
     | (Inr (Some m), c', src') \<Rightarrow>
         (case drain c' src' of (ms, e, c'', r) \<Rightarrow> (m # ms, e, c'', r)))"
  by pat_completeness auto
termination
  by (relation "measure (\<lambda>(c, src). 2 * length src + pending c)")
     (auto dest: decode_Some_decreases [OF sym])

declare drain.simps [simp del]

fun feed :: "bytes_codec \<Rightarrow> bytes \<Rightarrow> bytes list \<Rightarrow> bytes list \<times> io_error option \<times> bytes_codec \<times> bytes" where
  "feed c buf [] = ([], None, c, buf)"
| "feed c buf (chunk # chunks) =
    (case drain c (buf @ chunk) of
       (ms, Some e, c', r) \<Rightarrow> (ms, Some e, c', r)
     | (ms, None, c', r) \<Rightarrow>
         (case feed c' r chunks of (ms', e, c'', r') \<Rightarrow> (ms @ ms', e, c'', r')))"


section \<open>Chunking does not matter\<close>

lemma drain_Inl: "decode c src = (Inl e, c', r) \<Longrightarrow> drain c src = ([], Some e, c', r)"
  by (subst drain.simps) simp

lemma drain_None: "decode c src = (Inr None, c', r) \<Longrightarrow> drain c src = ([], None, c', r)"
  by (subst drain.simps) simp

lemma drain_Some: "decode c src = (Inr (Some m), c', r) \<Longrightarrow>
    drain c src = (case drain c' r of (ms, e, c'', r') \<Rightarrow> (m # ms, e, c'', r'))"
  by (subst drain.simps) simp

lemmas drain_step = drain_Inl drain_None drain_Some

lemma drain_induct [case_names Err None Some]:
  assumes "\<And>c src e c' r. decode c src = (Inl e, c', r) \<Longrightarrow> P c src"
    and "\<And>c src c' r. decode c src = (Inr None, c', r) \<Longrightarrow> P c src"
    and "\<And>c src m c' r. decode c src = (Inr (Some m), c', r) \<Longrightarrow> P c' r \<Longrightarrow> P c src"
  shows "P c src"
proof (induction c src rule: drain.induct)
  case (1 c src)
  obtain res c1 r1 where d: "decode c src = (res, c1, r1)" by (metis prod_cases3)
  consider e where "res = Inl e" | "res = Inr None" | m where "res = Inr (Some m)"
    by (metis option.exhaust sum.exhaust)
  then show ?case
  proof cases
    case (3 m)
    with d "1.IH" have "P c1 r1" by force
    with 3 d assms(3) show ?thesis by simp
  qed (use d assms(1,2) in simp_all)
qed

lemma drain_append:
  assumes "\<not> codec_raw c" "drain c xs = (ms, e, c', r)"
  shows "drain c (xs @ ys) =
    (case e of Some e' \<Rightarrow> (ms, e, c', r @ ys)
     | None \<Rightarrow> (case drain c' (r @ ys) of (ms', e', c'', r') \<Rightarrow> (ms @ ms', e', c'', r')))"
  using assms
proof (induction c xs arbitrary: ms rule: drain_induct)
  case (Err c src e' c1 r1)
  then show ?case
    using decode_append [OF Err.prems(1) Err.hyps, of ys] decode_error_unchanged [OF Err.hyps]
    by (auto simp: drain_Inl)
next
  case (None c src c1 r1)
  have "decode c (src @ ys) = decode c1 (r1 @ ys)"
    using decode_append [OF None.prems(1) None.hyps, of ys] by simp
  then have "drain c (src @ ys) = drain c1 (r1 @ ys)"
    by (simp add: drain.simps [of c "src @ ys"] drain.simps [of c1 "r1 @ ys"])
  with None show ?case by (auto simp: drain_None split: prod.splits)
next
  case (Some c src m c1 r1)
  have nr: "\<not> codec_raw c1" using decode_raw_unchanged [OF Some.hyps] Some.prems(1) by simp
  obtain ms1 where d1: "drain c1 r1 = (ms1, e, c', r)" and ms: "ms = m # ms1"
    using Some.prems(2) by (auto simp: drain_Some [OF Some.hyps] split: prod.splits)
  show ?case
    using decode_append [OF Some.prems(1) Some.hyps, of ys] Some.IH [OF nr d1] ms
    by (auto simp: drain_Some split: option.splits prod.splits)
qed

lemma decode_None_again:
  assumes "\<not> codec_raw c" "decode c src = (Inr None, c', r)"
  shows "decode c' r = (Inr None, c', r)"
  using decode_append [OF assms, of "[]"] assms(2) by simp

lemma drain_quiescent:
  "drain c src = (ms, None, c', r) \<Longrightarrow> \<not> codec_raw c \<Longrightarrow>
     drain c' r = ([], None, c', r) \<and> \<not> codec_raw c'"
proof (induction c src arbitrary: ms rule: drain_induct)
  case (None c src c1 r1)
  then have "decode c1 r1 = (Inr None, c1, r1)" by (blast intro: decode_None_again)
  with None show ?case using decode_raw_unchanged [OF None.hyps] by (auto simp: drain_None)
next
  case (Some c src m c1 r1)
  then show ?case
    using decode_raw_unchanged [OF Some.hyps] by (auto simp: drain_Some split: prod.splits)
qed (auto simp: drain_Inl)

lemma feed_drain:
  assumes "\<not> codec_raw c" "drain c buf = ([], None, c, buf)"
    "drain c (buf @ concat chunks) = (ms, e, c', r)"
  shows "\<exists>c'' r'. feed c buf chunks = (ms, e, c'', r') \<and> (e = None \<longrightarrow> c'' = c' \<and> r' = r)"
  using assms
proof (induction chunks arbitrary: c buf ms)
  case Nil
  then show ?case by simp
next
  case (Cons chunk chunks)
  obtain ms1 e1 c1 r1 where d: "drain c (buf @ chunk) = (ms1, e1, c1, r1)" by (metis prod_cases4)
  note da = drain_append [OF Cons.prems(1) d, of "concat chunks"]
  show ?case
  proof (cases e1)
    case (Some x)
    then show ?thesis using d da Cons.prems(3) by auto
  next
    case None
    obtain ms2 where d2: "drain c1 (r1 @ concat chunks) = (ms2, e, c', r)" and "ms = ms1 @ ms2"
      using da None Cons.prems(3) by (auto split: prod.splits)
    moreover have "drain c1 r1 = ([], None, c1, r1)" "\<not> codec_raw c1"
      using drain_quiescent d None Cons.prems(1) by blast+
    ultimately show ?thesis using Cons.IH [OF _ _ d2] d None by auto
  qed
qed

lemma decode_frame:
  assumes "\<not> codec_raw c" "codec_state c = Head"
    "length data \<le> 0x3FFFFFFF" "length data \<le> max_packet_length c"
  shows "decode c (frame data @ rest) = (Inr (Some data), c, rest)"
  using assms by (auto simp: decode_Head decode_Data frame_def decode_head_frame_header)

lemma decode_nil:
  "\<not> codec_raw c \<Longrightarrow> codec_state c = Head \<Longrightarrow> decode c [] = (Inr None, c, [])"
  by (simp add: decode_Head decode_head_short)

lemma drain_frames:
  assumes "\<not> codec_raw c" "codec_state c = Head"
    "\<forall>m \<in> set msgs. length m \<le> 0x3FFFFFFF \<and> length m \<le> max_packet_length c"
  shows "drain c (concat (map frame msgs)) = (msgs, None, c, [])"
  using assms
  by (induction msgs) (auto simp: drain_None decode_nil drain_Some decode_frame)


section \<open>Properties\<close>

fun encode_all :: "bytes_codec \<Rightarrow> bytes list \<Rightarrow> bytes \<Rightarrow> io_error + bytes" where
  "encode_all c [] buf = Inr buf"
| "encode_all c (m # ms) buf =
    (case encode c m buf of Inl e \<Rightarrow> Inl e | Inr buf' \<Rightarrow> encode_all c ms buf')"

lemma encode_all_frames:
  assumes "\<not> codec_raw c" "encode_all c ms buf = Inr out"
  shows "out = buf @ concat (map frame ms) \<and> (\<forall>m \<in> set ms. length m \<le> 0x3FFFFFFF)"
  using assms
proof (induction ms arbitrary: buf)
  case (Cons m ms)
  then have m: "length m \<le> 0x3FFFFFFF"
    and rest: "encode_all c ms (buf @ frame m) = Inr out"
    by (auto simp: encode_eq split: if_splits)
  from Cons.IH [OF Cons.prems(1) rest] m show ?case by simp
qed simp

lemma codec_new_simps [simp]:
  "codec_state codec_new = Head" "\<not> codec_raw codec_new"
  "max_packet_length codec_new = usize_max"
  by (simp_all add: codec_new_def)

lemma feed_encode_all:
  assumes "encode_all codec_new msgs [] = Inr stream" "concat chunks = stream"
  shows "feed codec_new [] chunks = (msgs, None, codec_new, [])"
proof -
  have fr: "stream = concat (map frame msgs)" and len: "\<forall>m \<in> set msgs. length m \<le> 0x3FFFFFFF"
    using encode_all_frames [OF _ assms(1)] by simp_all
  then have "\<forall>m \<in> set msgs. length m \<le> 0x3FFFFFFF \<and> length m \<le> max_packet_length codec_new"
    by (auto simp: usize_max_def)
  then have "drain codec_new ([] @ concat chunks) = (msgs, None, codec_new, [])"
    using drain_frames [of codec_new msgs] assms(2) fr by simp
  from feed_drain [OF _ _ this] show ?thesis
    by (auto simp: drain_None decode_nil)
qed

definition codec_ok :: "bytes_codec \<Rightarrow> bool" where
  "codec_ok c \<longleftrightarrow> (case codec_state c of Head \<Rightarrow> True | Data n \<Rightarrow> n \<le> max_packet_length c)"

text \<open>
  encoding a payload of at most 2^30 - 1 bytes with a codec that is not in raw mode appends
  one frame to the output buffer, and decoding that frame, whatever follows it in the stream,
  returns exactly the payload, leaves exactly what follows and returns the codec to its state
  before the call.
\<close>

theorem codec_roundtrip:
  assumes "\<not> codec_raw c" "codec_state c = Head"
    and "length data \<le> 0x3FFFFFFF" "length data \<le> max_packet_length c"
  shows "\<exists>fr. encode c data buf = Inr (buf @ fr) \<and> fr \<noteq> [] \<and>
           decode c (fr @ rest) = (Inr (Some data), c, rest)"
proof (intro exI conjI)
  show "encode c data buf = Inr (buf @ frame data)" using assms by (simp add: encode_eq)
  show "frame data \<noteq> []"
    using head_of_frame_header(2) [of "length data" data] by (simp add: frame_def)
  show "decode c (frame data @ rest) = (Inr (Some data), c, rest)"
    using assms by (rule decode_frame)
qed

theorem codec_roundtrip_witness:
  "\<exists>fr. encode codec_new [7, 8, 9] [1] = Inr ([1] @ fr) \<and> fr \<noteq> [] \<and>
     decode codec_new (fr @ [5]) = (Inr (Some [7, 8, 9]), codec_new, [5])"
  by (rule codec_roundtrip) (simp_all add: usize_max_def)

text \<open>
  C6: a stream of encoded packets is recovered whatever way the network cuts it: for every list
  of chunks whose concatenation is the encoder's output, the reading loop of a fresh codec
  delivers exactly the packets that were encoded, in order, reports no error and ends with an
  empty buffer and a codec in its initial state.
\<close>

theorem codec_chunking_independent:
  assumes "encode_all codec_new msgs [] = Inr stream" "concat chunks = stream"
  shows "feed codec_new [] chunks = (msgs, None, codec_new, [])"
  using assms by (rule feed_encode_all)

theorem codec_chunking_independent_witness:
  "feed codec_new [] [[12, 7], [8, 9, 4], [], [5]] = ([[7, 8, 9], [5]], None, codec_new, [])"
  by (rule codec_chunking_independent [OF _ refl])
     (simp add: encode_all.simps encode_def Let_def push_bit_eq_mult)

text \<open>
  no packet larger than the configured maximum is ever delivered: if the length kept in the
  codec's state respects the maximum, then so does the length kept after any call of \<open>decode\<close>
  on any bytes, an error leaves codec and buffer untouched, and every packet returned in framed
  mode is at most that long and is taken from the front of what was buffered.
\<close>

theorem codec_packet_bound:
  assumes "codec_ok c" "\<not> codec_raw c" "decode c src = (res, c', r)"
  shows "codec_ok c' \<and> max_packet_length c' = max_packet_length c \<and>
    (case res of
       Inl e \<Rightarrow> c' = c \<and> r = src
     | Inr None \<Rightarrow> length r \<le> length src
     | Inr (Some m) \<Rightarrow> length m \<le> max_packet_length c \<and> codec_state c' = Head \<and>
         (\<exists>hd. src = hd @ m @ r \<and> length hd \<le> 4))"
proof (cases "codec_state c")
  case (Data n)
  then show ?thesis using assms
    by (auto simp: decode_Data codec_ok_def split: if_splits intro: exI [of _ "[]"])
next
  case Head
  show ?thesis
  proof (cases rule: decode_head_cases [of src c])
    case Short
    then show ?thesis using assms Head by (auto simp: decode_Head)
  next
    case TooBig
    then show ?thesis using TooBig [of "[]"] assms Head by (auto simp: decode_Head)
  next
    case (Full n)
    have 4: "length (take (head_len src) src) \<le> 4" by (simp add: head_len_def)
    have "src = take (head_len src) src @ take n (drop (head_len src) src)
              @ drop (head_len src + n) src"
      by (metis append_take_drop_id drop_drop add.commute)
    then show ?thesis using Full(3) Full(4) [of "[]"] assms Head 4
      by (auto simp: decode_Head decode_Data codec_ok_def add.commute split: if_splits
          intro!: exI [of _ "take (head_len src) src"])
  qed
qed

theorem codec_packet_bound_witness:
  "codec_ok codec_new \<and> max_packet_length codec_new = max_packet_length codec_new \<and>
    (case Inr (Some [7]) :: io_error + bytes option of
       Inl e \<Rightarrow> codec_new = codec_new \<and> [9] = [4, 7, 9 :: u8]
     | Inr None \<Rightarrow> length [9 :: u8] \<le> length [4, 7, 9 :: u8]
     | Inr (Some m) \<Rightarrow> length m \<le> max_packet_length codec_new \<and> codec_state codec_new = Head \<and>
         (\<exists>hd. [4, 7, 9] = hd @ m @ [9] \<and> length hd \<le> 4))"
  by (rule codec_packet_bound)
     (simp_all add: codec_ok_def codec_new_def usize_max_def decode_def decode_head_def
       decode_data_def head_number_def)

end
