(* ===== verification/AddrMangle.thy ===== *)
theory AddrMangle
  imports StrUtil
begin

text \<open>
  The address obfuscation of \<open>libs/hbb_common/src/lib.rs\<close> (\<open>AddrMangle\<close>, \<open>try_into_v4\<close>) and
  its version comparison (\<open>get_version_number\<close>, \<open>get_version_from_url\<close>). The clock read by
  \<open>AddrMangle::encode\<close> is the argument \<open>micros\<close>; the arithmetic is that of 128-bit and 64-bit
  integers, and \<open>checks\<close> says whether the build has overflow checks (a debug build panics,
  which is \<open>None\<close>; a release build wraps).
\<close>

section \<open>Socket addresses\<close>

type_synonym u128 = "128 word"

datatype ipv4_addr = Ipv4Addr u8 u8 u8 u8

datatype socket_addr =
  V4 (v4_ip: ipv4_addr) (v4_port: u16)
| V6 (v6_ip: u128) (v6_port: u16) (v6_flowinfo: u32) (v6_scope_id: u32)

fun octets4 :: "ipv4_addr \<Rightarrow> bytes" where
  "octets4 (Ipv4Addr a b c d) = [a, b, c, d]"

definition octets6 :: "u128 \<Rightarrow> bytes" where
  "octets6 ip = be_bytes 16 (unat ip)"

text \<open>
  \<open>Ipv6Addr::to_ipv4\<close> of the standard library: \<open>::a.b.c.d\<close> and \<open>::ffff:a.b.c.d\<close> only.
\<close>

definition to_ipv4 :: "u128 \<Rightarrow> ipv4_addr option" where
  "to_ipv4 ip =
    (if drop_bit 32 ip = 0 \<or> drop_bit 32 ip = 0xFFFF
     then Some (Ipv4Addr (ucast (drop_bit 24 ip)) (ucast (drop_bit 16 ip))
                 (ucast (drop_bit 8 ip)) (ucast ip))
     else None)"

definition try_into_v4 :: "socket_addr \<Rightarrow> socket_addr" where
  "try_into_v4 addr =
    (case addr of
       V6 ip port flow scope \<Rightarrow>
         if ip \<noteq> 1 then
           (case to_ipv4 ip of Some v4 \<Rightarrow> V4 v4 port | None \<Rightarrow> addr)
         else addr
     | V4 ip port \<Rightarrow> addr)"

text \<open>\<open>Config::get_any_listen_addr\<close>.\<close>

definition get_any_listen_addr :: "bool \<Rightarrow> socket_addr" where
  "get_any_listen_addr is_ipv4 =
    (if is_ipv4 then V4 (Ipv4Addr 0 0 0 0) 0 else V6 0 0 0 0)"

section \<open>The mangled form\<close>

definition n_padding :: "bytes \<Rightarrow> nat" where
  "n_padding bs = length (takeWhile (\<lambda>b. b = 0) (rev bs))"

definition mangle_number :: "nat \<Rightarrow> ipv4_addr \<Rightarrow> u16 \<Rightarrow> u128" where
  "mangle_number micros ip4 p =
    (let tm = ucast (of_nat micros :: u32);
         ip = of_nat (le_val (octets4 ip4));
         port = ucast p
     in push_bit 49 (ip + tm) OR push_bit 17 tm OR (port + (tm AND 0xFFFF)))"

definition mangle_encode :: "nat \<Rightarrow> socket_addr \<Rightarrow> bytes" where
  "mangle_encode micros addr =
    (case try_into_v4 addr of
       V4 ip port \<Rightarrow>
         let bytes = le_bytes 16 (unat (mangle_number micros ip port))
         in take (16 - n_padding bytes) bytes
     | V6 ip port flow scope \<Rightarrow> octets6 ip @ le_bytes 2 (unat port))"

definition sub_u128 :: "bool \<Rightarrow> u128 \<Rightarrow> u128 \<Rightarrow> u128 option" where
  "sub_u128 checks a b = (if checks \<and> a < b then None else Some (a - b))"

definition mangle_decode :: "bool \<Rightarrow> bytes \<Rightarrow> socket_addr option" where
  "mangle_decode checks bytes =
    (if 16 < length bytes then
       if length bytes \<noteq> 18 then Some (get_any_listen_addr False)
       else
         let port = of_nat (le_val (drop 16 bytes));
             ip = of_nat (be_val (take 16 bytes))
         in Some (V6 ip port 0 0)
     else
       let padded = bytes @ replicate (16 - length bytes) 0;
           number = (of_nat (le_val padded) :: u128);
           tm = drop_bit 17 number AND 0xFFFFFFFF
       in case sub_u128 checks (drop_bit 49 number) tm of
            None \<Rightarrow> None
          | Some d \<Rightarrow>
              let ip = (ucast d :: u32)
              in case sub_u128 checks (number AND 0xFFFFFF) (tm AND 0xFFFF) of
                   None \<Rightarrow> None
                 | Some port \<Rightarrow>
                     Some (V4 (Ipv4Addr (ucast ip) (ucast (drop_bit 8 ip))
                                (ucast (drop_bit 16 ip)) (ucast (drop_bit 24 ip)))
                             (ucast port)))"


section \<open>The arithmetic of the round trip\<close>

lemma n_padding_le: "n_padding bs \<le> length bs"
  by (metis length_rev length_takeWhile_le n_padding_def)

lemma strip_padding:
  "take (length bs - n_padding bs) bs @ replicate (n_padding bs) 0 = bs"
proof -
  let ?tw = "takeWhile (\<lambda>b. b = 0) (rev bs)" and ?dw = "dropWhile (\<lambda>b. b = 0) (rev bs)"
  have "?tw = replicate (n_padding bs) 0"
    unfolding n_padding_def by (metis (mono_tags, lifting) replicate_length_same set_takeWhileD)
  moreover have split: "bs = rev ?dw @ rev ?tw"
    by (metis rev_append rev_rev_ident takeWhile_dropWhile_id)
  moreover have "take (length bs - n_padding bs) bs = rev ?dw"
  proof -
    have "length (rev ?dw) = length bs - n_padding bs"
      by (metis add_diff_cancel_right' length_append length_rev n_padding_def split)
    then show ?thesis by (metis append_eq_conv_conj split)
  qed
  ultimately show ?thesis by (metis rev_replicate)
qed

definition mangle_nat :: "nat \<Rightarrow> nat \<Rightarrow> nat \<Rightarrow> nat" where
  "mangle_nat tm ip port = (port + tm mod 2 ^ 16) + 2 ^ 17 * (tm + 2 ^ 32 * (ip + tm))"

lemma length_octets4: "length (octets4 ip) = 4"
  by (cases ip) simp

lemma le_val_octets4: "le_val (octets4 ip) < 2 ^ 32"
  using le_val_less [of "octets4 ip"] by (cases ip) simp

lemma unat_and_mask_lit:
  fixes w :: u128
  shows "unat (w AND 0xFFFF) = unat w mod 2 ^ 16"
    "unat (w AND 0xFFFFFF) = unat w mod 2 ^ 24"
    "unat (w AND 0xFFFFFFFF) = unat w mod 2 ^ 32"
  using unat_and_mask [of w 16] unat_and_mask [of w 24] unat_and_mask [of w 32]
  by (simp_all add: mask_eq_exp_minus_1)

lemma unat_mangle_number:
  "unat (mangle_number micros ip port)
     = mangle_nat (micros mod 2 ^ 32) (le_val (octets4 ip)) (unat port)"
proof -
  define t where "t = micros mod 2 ^ 32"
  define i where "i = le_val (octets4 ip)"
  let ?tm = "ucast (of_nat micros :: u32) :: u128" and ?ip = "of_nat i :: u128"
  let ?p = "ucast port :: u128"
  have t: "t < 2 ^ 32" and i: "i < 2 ^ 32" and p: "unat port < 2 ^ 16"
    using unsigned_less [of port, where ?'a = nat]
    by (simp_all add: t_def i_def le_val_octets4 [simplified])
  have tm: "unat ?tm = t" by (simp add: unat_ucast_up unat_of_nat_u32 t_def)
  have ip: "unat ?ip = i" using i by (simp add: unat_of_nat)
  have pp: "unat ?p = unat port" by (simp add: unat_ucast_up)
  have s: "unat (?ip + ?tm) = i + t" using t i by (subst unat_add_fits) (simp_all add: tm ip)
  have h: "unat (push_bit 49 (?ip + ?tm)) = push_bit 49 (i + t)"
    using t i by (subst unat_push_bit_fits) (simp_all add: s push_bit_eq_mult)
  have m: "unat (push_bit 17 ?tm) = push_bit 17 t"
    using t by (subst unat_push_bit_fits) (simp_all add: tm push_bit_eq_mult)
  have lo: "unat (?tm AND 0xFFFF) = t mod 2 ^ 16" by (simp only: unat_and_mask_lit tm)
  have l: "unat (?p + (?tm AND 0xFFFF)) = unat port + t mod 2 ^ 16"
  proof -
    have "t mod 2 ^ 16 < 2 ^ 16" by simp
    then show ?thesis using p by (subst unat_add_fits) (simp_all only: pp lo, simp)
  qed
  have l17: "unat port + t mod 2 ^ 16 < 2 ^ 17"
  proof -
    have "t mod 2 ^ 16 < 2 ^ 16" by simp
    moreover have "(2 :: nat) ^ 17 = 2 ^ 16 + 2 ^ 16" by simp
    ultimately show ?thesis using p by linarith
  qed
  have "unat (mangle_number micros ip port)
      = (push_bit 49 (i + t) OR push_bit 17 t) OR (unat port + t mod 2 ^ 16)"
    by (simp only: mangle_number_def Let_def unsigned_or_eq h m l i_def [symmetric] or.assoc)
  also have "\<dots> = (unat port + t mod 2 ^ 16) OR push_bit 17 (t OR push_bit 32 (i + t))"
    by (simp add: ac_simps push_bit_or)
  also have "\<dots> = mangle_nat t i (unat port)"
    using or_push_bit_nat [OF l17] or_push_bit_nat [OF t] by (simp only: mangle_nat_def)
  finally show ?thesis by (simp add: t_def i_def)
qed

lemma mangle_nat_fields:
  fixes t i p :: nat
  assumes t: "t < 2 ^ 32" and p: "p < 2 ^ 16"
  defines "v \<equiv> mangle_nat t i p"
  shows "v div 2 ^ 49 = i + t" and "v div 2 ^ 17 mod 2 ^ 32 = t"
    and "v mod 2 ^ 24 = p + t mod 2 ^ 16 + 2 ^ 17 * (t mod 2 ^ 7)"
proof -
  have m: "t mod 2 ^ 16 < 2 ^ 16" by simp
  then have l: "p + t mod 2 ^ 16 < 2 ^ 17" using p by simp
  let ?X = "t + 2 ^ 32 * (i + t)"
  have v: "v = (p + t mod 2 ^ 16) + 2 ^ 17 * ?X" by (simp only: v_def mangle_nat_def)
  have d: "v div 2 ^ 17 = ?X"
    using div_mult_self2 [of "2 ^ 17" "p + t mod 2 ^ 16" ?X] div_less [OF l] unfolding v by simp
  have r: "v mod 2 ^ 17 = p + t mod 2 ^ 16"
    using mod_mult_self2 [of "p + t mod 2 ^ 16" "2 ^ 17" ?X] mod_less [OF l] unfolding v by simp
  show "v div 2 ^ 17 mod 2 ^ 32 = t"
    using mod_mult_self2 [of t "2 ^ 32" "i + t"] mod_less [OF t] unfolding d by simp
  have "v div 2 ^ 49 = v div 2 ^ 17 div 2 ^ 32" by (simp add: div_mult2_eq [symmetric])
  also have "\<dots> = i + t"
    using div_mult_self2 [of "2 ^ 32" t "i + t"] div_less [OF t] unfolding d by simp
  finally show "v div 2 ^ 49 = i + t" .
  have "?X = t + 2 ^ 7 * (2 ^ 25 * (i + t))" by simp
  then have x: "?X mod 2 ^ 7 = t mod 2 ^ 7" by (metis mod_mult_self2)
  have "v mod (2 ^ 17 * 2 ^ 7) = 2 ^ 17 * (v div 2 ^ 17 mod 2 ^ 7) + v mod 2 ^ 17"
    by (rule mod_mult2_eq)
  also have "\<dots> = 2 ^ 17 * (t mod 2 ^ 7) + (p + t mod 2 ^ 16)" by (simp only: d r x)
  finally show "v mod 2 ^ 24 = p + t mod 2 ^ 16 + 2 ^ 17 * (t mod 2 ^ 7)" by simp
qed


section \<open>Decoding what was encoded\<close>

lemma sub_u128_fits:
  "unat b \<le> unat a \<Longrightarrow> \<exists>d. sub_u128 ck a b = Some d \<and> unat d = unat a - unat b"
  by (auto simp: sub_u128_def unat_sub word_le_nat_alt word_less_nat_alt)

lemma octets4_of_u32:
  assumes "unat (w :: u32) = le_val (octets4 ip)"
  shows "Ipv4Addr (ucast w) (ucast (drop_bit 8 w)) (ucast (drop_bit 16 w)) (ucast (drop_bit 24 w)) = ip"
proof -
  have "le_bytes 4 (unat w) = octets4 ip"
    using le_bytes_le_val [of "octets4 ip"] by (simp only: assms length_octets4)
  moreover have "le_bytes 4 (unat w) = [ucast w, ucast (drop_bit 8 w), ucast (drop_bit 16 w), ucast (drop_bit 24 w)]"
  proof -
    have 4: "(4 :: nat) = Suc (Suc (Suc (Suc 0)))" by simp
    show ?thesis
      by (simp only: 4 le_bytes.simps ucast_u8 unat_drop_bit div_mult2_eq [symmetric]) simp
  qed
  ultimately show ?thesis by (cases ip) simp
qed

lemma mangle_decode_short:
  assumes "length bs \<le> 16" "le_val (bs @ replicate (16 - length bs) 0) = mangle_nat t i (unat p)"
    and "t < 2 ^ 32" "i = le_val (octets4 ip)"
  shows "mangle_decode ck bs = Some (V4 ip p)"
proof -
  define v where "v = mangle_nat t i (unat p)"
  define number :: u128 where "number = of_nat v"
  define tm where "tm = drop_bit 17 number AND 0xFFFFFFFF"
  have pl: "unat p < 2 ^ 16" using unsigned_less [of p, where ?'a = nat] by simp
  note f = mangle_nat_fields [OF assms(3) pl, of i, folded v_def]
  have i: "i < 2 ^ 32" by (simp only: assms(4) le_val_octets4)
  have "v < 2 ^ 128"
    using le_val_less [of "bs @ replicate (16 - length bs) 0"] assms(1,2) by (simp add: v_def)
  then have n: "unat number = v" by (simp only: number_def unat_of_nat mod_less len_of_numeral_defs) simp
  have tm: "unat tm = t"
    by (simp only: tm_def unat_and_mask_lit unat_drop_bit n f)
  have hi: "unat (drop_bit 49 number) = i + t"
    by (simp only: unat_drop_bit n f)
  obtain d where d: "sub_u128 ck (drop_bit 49 number) tm = Some d" "unat d = i"
    using sub_u128_fits [of tm "drop_bit 49 number" ck] hi tm by auto
  have lo: "unat (number AND 0xFFFFFF) = unat p + t mod 2 ^ 16 + 2 ^ 17 * (t mod 2 ^ 7)"
    by (simp only: unat_and_mask_lit n f)
  have tl: "unat (tm AND 0xFFFF) = t mod 2 ^ 16" by (simp only: unat_and_mask_lit tm)
  obtain q where q: "sub_u128 ck (number AND 0xFFFFFF) (tm AND 0xFFFF) = Some q"
      "unat q = unat p + 2 ^ 17 * (t mod 2 ^ 7)"
    using sub_u128_fits [of "tm AND 0xFFFF" "number AND 0xFFFFFF" ck] lo tl by auto
  have "unat q = unat p + 2 ^ 16 * (2 * (t mod 2 ^ 7))" using q(2) by simp
  then have "unat q mod 2 ^ 16 = unat p"
    using mod_mult_self2 [of "unat p" "2 ^ 16" "2 * (t mod 2 ^ 7)"] mod_less [OF pl] by simp
  then have "unat (ucast q :: u16) = unat p" by (simp add: unsigned_ucast_eq take_bit_eq_mod)
  then have "(ucast q :: u16) = p" by (simp add: word_unat_eq_iff)
  moreover have "unat (ucast d :: u32) = le_val (octets4 ip)"
    using i d(2) assms(4) by (simp add: unsigned_ucast_eq take_bit_nat_eq_self)
  ultimately show ?thesis
    using assms(1,2) octets4_of_u32 [of "ucast d" ip] d(1) q(1)
    by (simp add: mangle_decode_def Let_def number_def [symmetric] v_def [symmetric] tm_def [symmetric])
qed


section \<open>Versions\<close>

fun version_fold :: "int \<Rightarrow> int \<Rightarrow> string list \<Rightarrow> int \<times> int" where
  "version_fold n l0 [] = (n, l0)"
| "version_fold n l0 (x # xs) =
    (let l = (case parse_signed 63 x of Some i \<Rightarrow> i | None \<Rightarrow> 0)
     in version_fold (wrap64 (wrap64 (n * 1000) + l)) l xs)"

definition get_version_number :: "string \<Rightarrow> int" where
  "get_version_number v =
    (let versions = split_on CHR ''-'' v;
         n = (case versions of
                [] \<Rightarrow> 0
              | v0 # _ \<Rightarrow>
                  (case version_fold 0 0 (split_on CHR ''.'' v0) of
                     (n, l) \<Rightarrow> wrap64 (wrap64 (n - l) + wrap64 (l * 10))))
     in case versions of
          _ # v1 # _ \<Rightarrow> wrap64 (n + (case parse_signed 63 v1 of Some i \<Rightarrow> i | None \<Rightarrow> 0))
        | _ \<Rightarrow> n)"

fun position :: "('a \<Rightarrow> bool) \<Rightarrow> 'a list \<Rightarrow> nat option" where
  "position P [] = None"
| "position P (x # xs) = (if P x then Some 0 else map_option Suc (position P xs))"

definition get_version_from_url :: "string \<Rightarrow> string" where
  "get_version_from_url url =
    (let n = length url
     in case position (\<lambda>x. x = CHR ''-'') (rev url) of
          Some a \<Rightarrow>
            (case position (\<lambda>x. x = CHR ''.'') (rev url) of
               Some b \<Rightarrow>
                 if b < a then
                   if parse_signed 31 (drop (n - b) url) \<noteq> None then drop (n - a) url
                   else take (a - b - 1) (drop (n - a) url)
                 else drop (n - a) url
             | None \<Rightarrow> [])
        | None \<Rightarrow> [])"

lemma position_append: "\<forall>x \<in> set xs. \<not> P x \<Longrightarrow> P y \<Longrightarrow> position P (xs @ y # ys) = Some (length xs)"
  by (induction xs) auto

lemma position_None: "position P xs = None \<longleftrightarrow> (\<forall>x \<in> set xs. \<not> P x)"
  by (induction xs) auto

lemma position_rev_last:
  "c \<notin> set v \<Longrightarrow> position (\<lambda>x. x = c) (rev (pre @ c # v)) = Some (length v)"
  using position_append [of "rev v" "\<lambda>x. x = c" c "rev pre"] by auto

definition version_string :: "nat \<Rightarrow> nat \<Rightarrow> nat \<Rightarrow> nat \<Rightarrow> string" where
  "version_string a b c p =
    show_nat a @ CHR ''.'' # show_nat b @ CHR ''.'' # show_nat c @ CHR ''-'' # show_nat p"

lemma split_version:
  "split_on CHR ''-'' (version_string a b c p)
     = [show_nat a @ CHR ''.'' # show_nat b @ CHR ''.'' # show_nat c, show_nat p]"
proof -
  let ?v = "show_nat a @ CHR ''.'' # show_nat b @ CHR ''.'' # show_nat c"
  have v: "version_string a b c p = ?v @ CHR ''-'' # show_nat p" by (simp add: version_string_def)
  have "CHR ''-'' \<notin> set ?v" by simp
  then show ?thesis unfolding v by (subst split_on_append) (simp_all add: split_on_free)
qed

lemma get_version_number_string:
  assumes "a < 2 ^ 31" "b < 1000" "c < 1000" "p < 1000"
  shows "get_version_number (version_string a b c p) = int (1000000 * a + 1000 * b + 10 * c + p)"
proof -
  have "split_on CHR ''.'' (show_nat a @ CHR ''.'' # show_nat b @ CHR ''.'' # show_nat c)
      = [show_nat a, show_nat b, show_nat c]"
    by (simp add: split_on_append split_on_free)
  then show ?thesis using assms
    by (simp add: get_version_number_def split_version parse_signed_show_nat Let_def)
qed

lemma version_from_url_no_dash:
  "CHR ''-'' \<notin> set url \<Longrightarrow> get_version_from_url url = []"
proof -
  assume "CHR ''-'' \<notin> set url"
  then have "position (\<lambda>x. x = CHR ''-'') (rev url) = None" by (auto simp: position_None)
  then show ?thesis by (simp add: get_version_from_url_def)
qed

lemma version_from_url_no_dot:
  assumes "CHR ''-'' \<notin> set v" "CHR ''.'' \<notin> set v" "CHR ''.'' \<notin> set pre"
  shows "get_version_from_url (pre @ CHR ''-'' # v) = []"
proof -
  have "position (\<lambda>x. x = CHR ''.'') (rev (pre @ CHR ''-'' # v)) = None"
    using assms by (auto simp: position_None)
  then show ?thesis by (simp add: get_version_from_url_def Let_def split: option.split)
qed


section \<open>Properties\<close>

text \<open>
  C29: an address survives its mangling: for every address and every reading of the clock, in a
  build with or without overflow checks, decoding the encoded bytes does not panic and returns
  the address after \<open>try_into_v4\<close>, without flow label and scope when it is an IPv6 address.
\<close>

theorem addr_mangle_roundtrip:
  "mangle_decode checks (mangle_encode micros addr) =
    Some (case try_into_v4 addr of V4 ip port \<Rightarrow> V4 ip port | V6 ip port flow scope \<Rightarrow> V6 ip port 0 0)"
proof (cases "try_into_v4 addr")
  case (V4 ip port)
  let ?bs = "le_bytes 16 (unat (mangle_number micros ip port))"
  let ?e = "take (16 - n_padding ?bs) ?bs"
  have pad: "n_padding ?bs \<le> 16" using n_padding_le [of ?bs] by simp
  then have "?e @ replicate (16 - length ?e) 0 = ?bs"
    using strip_padding [of ?bs] by simp
  then have "le_val (?e @ replicate (16 - length ?e) 0) = unat (mangle_number micros ip port)"
    using unsigned_less [of "mangle_number micros ip port", where ?'a = nat]
    by (simp add: le_val_le_bytes)
  then have "mangle_decode checks ?e = Some (V4 ip port)"
    by (intro mangle_decode_short [OF _ _ _ refl])
       (simp_all only: unat_mangle_number, simp_all)
  then show ?thesis using V4 by (simp add: mangle_encode_def Let_def)
next
  case (V6 ip port flow scope)
  have "unat ip < 256 ^ 16" using unsigned_less [of ip, where ?'a = nat] by simp
  then have "be_val (octets6 ip) = unat ip" by (simp add: octets6_def be_val_be_bytes)
  moreover have "unat port < 256 ^ 2" using unsigned_less [of port, where ?'a = nat] by simp
  then have "le_val (le_bytes 2 (unat port)) = unat port" by (simp add: le_val_le_bytes)
  moreover have "length (octets6 ip) = 16" by (simp add: octets6_def)
  ultimately show ?thesis using V6
    by (simp add: mangle_encode_def mangle_decode_def Let_def)
qed

text \<open>
  version numbers order versions: for versions \<open>a.b.c-p\<close> whose second part is below 1000,
  third below 100 and patch below 10, \<open>get_version_number\<close> of the printed versions compares as
  the tuples do lexicographically.
\<close>

theorem version_number_order:
  assumes "a < 2 ^ 31" "b < 1000" "c < 100" "p < 10"
    and "a' < 2 ^ 31" "b' < 1000" "c' < 100" "p' < 10"
  shows "get_version_number (version_string a b c p) < get_version_number (version_string a' b' c' p')
    \<longleftrightarrow> a < a' \<or> a = a' \<and> (b < b' \<or> b = b' \<and> (c < c' \<or> c = c' \<and> p < p'))"
proof -
  have "get_version_number (version_string a b c p) = int (1000000 * a + 1000 * b + 10 * c + p)"
    and "get_version_number (version_string a' b' c' p') = int (1000000 * a' + 1000 * b' + 10 * c' + p')"
    using assms by (simp_all add: get_version_number_string)
  then show ?thesis using assms by (simp only: of_nat_less_iff) linarith
qed

theorem version_number_order_witness:
  "get_version_number (version_string 1 1 9 2) < get_version_number (version_string 1 1 10 0)
    \<longleftrightarrow> (1 :: nat) < 1 \<or> (1 :: nat) = 1 \<and> ((1 :: nat) < 1 \<or> (1 :: nat) = 1 \<and>
      ((9 :: nat) < 10 \<or> (9 :: nat) = 10 \<and> (2 :: nat) < 0))"
  by (rule version_number_order) simp_all

text \<open>
  what \<open>get_version_from_url\<close> extracts from a file name with a version and an extension: of
  \<open>name-version.ext\<close> the version, and of \<open>name-1.2.3\<close>, where what follows the last dot is a
  number, all that follows the dash.
\<close>

theorem version_from_url_extension:
  assumes "CHR ''-'' \<notin> set w" "CHR ''-'' \<notin> set e" "CHR ''.'' \<notin> set e"
  shows "get_version_from_url (pre @ CHR ''-'' # w @ CHR ''.'' # e) =
    (if parse_signed 31 e \<noteq> None then w @ CHR ''.'' # e else w)"
proof -
  let ?url = "pre @ CHR ''-'' # w @ CHR ''.'' # e"
  have "position (\<lambda>x. x = CHR ''-'') (rev ?url) = Some (length (w @ CHR ''.'' # e))"
    by (rule position_rev_last) (use assms in simp)
  moreover have "position (\<lambda>x. x = CHR ''.'') (rev ?url) = Some (length e)"
    using position_rev_last [of "CHR ''.''" e "pre @ CHR ''-'' # w"] assms by simp
  ultimately show ?thesis by (simp add: get_version_from_url_def Let_def)
qed

theorem version_from_url_extension_witness:
  "get_version_from_url (''r'' @ CHR ''-'' # ''1.2.3'' @ CHR ''.'' # ''exe'') =
    (if parse_signed 31 ''exe'' \<noteq> None then ''1.2.3'' @ CHR ''.'' # ''exe'' else ''1.2.3'')"
  by (rule version_from_url_extension) simp_all

end
