(* ===== verification/PasswordSecurity.thy ===== *)
theory PasswordSecurity
  imports StrUtil
begin

text \<open>
  The encryption of stored secrets of \<open>libs/hbb_common/src/password_security.rs\<close>: a secret is
  stored as a two-character version followed by the Base64 text of a secretbox, and whatever
  does not decrypt is taken as it is. The secretbox and Base64 come from \<open>sodiumoxide\<close> and the
  key from the machine id: they are the fields of the record \<open>crypto\<close>, whose documented laws
  are the predicate \<open>crypto_ok\<close>. A Rust \<open>String\<close> is the list of its UTF-8 bytes, as characters.
\<close>

section \<open>The environment\<close>

record crypto =
  secretbox_seal :: "bytes \<Rightarrow> bytes \<Rightarrow> bytes \<Rightarrow> bytes"
  secretbox_open :: "bytes \<Rightarrow> bytes \<Rightarrow> bytes \<Rightarrow> bytes option"
  base64_encode :: "bytes \<Rightarrow> string"
  base64_decode :: "bytes \<Rightarrow> bytes option"
  from_utf8_lossy :: "bytes \<Rightarrow> string"
  machine_uuid :: bytes

definition as_bytes :: "string \<Rightarrow> bytes" where
  "as_bytes s = map (\<lambda>c. of_nat (of_char c)) s"

definition of_bytes :: "bytes \<Rightarrow> string" where
  "of_bytes bs = map (\<lambda>b. char_of (unat b)) bs"

text \<open>\<open>s.chars().count()\<close>: the bytes that are not UTF-8 continuation bytes.\<close>

definition chars_count :: "string \<Rightarrow> nat" where
  "chars_count s = length (filter (\<lambda>b. b AND 0xC0 \<noteq> 0x80) (as_bytes s))"

text \<open>
  What the code relies on: opening a sealed box with its nonce and key gives the message back, a
  box is longer than its message by the 16 bytes of the authenticator, and Base64 decodes what
  it encodes, to something that is empty only when it was.
\<close>

definition crypto_ok :: "crypto \<Rightarrow> bool" where
  "crypto_ok E \<longleftrightarrow>
    (\<forall>d n k. secretbox_open E (secretbox_seal E d n k) n k = Some d) \<and>
    (\<forall>d n k. length (secretbox_seal E d n k) = length d + 16) \<and>
    (\<forall>v. base64_decode E (as_bytes (base64_encode E v)) = Some v) \<and>
    (\<forall>v. base64_encode E v = [] \<longleftrightarrow> v = [])"

text \<open>A list of bytes that is a \<open>String\<close> survives \<open>String::from_utf8_lossy\<close>.\<close>

definition rust_string :: "crypto \<Rightarrow> string \<Rightarrow> bool" where
  "rust_string E s \<longleftrightarrow> from_utf8_lossy E (as_bytes s) = s"

section \<open>Operations\<close>

definition version_len :: nat where "version_len = 2"

definition resize :: "nat \<Rightarrow> bytes \<Rightarrow> bytes" where
  "resize n bs = take n bs @ replicate (n - length bs) 0"

definition symmetric_crypt :: "crypto \<Rightarrow> bytes \<Rightarrow> bool \<Rightarrow> bytes option" where
  "symmetric_crypt E data encrypt =
    (let key = resize 32 (machine_uuid E); nonce = replicate 24 0 in
     if encrypt then Some (secretbox_seal E data nonce key)
     else secretbox_open E data nonce key)"

definition encrypt :: "crypto \<Rightarrow> bytes \<Rightarrow> string option" where
  "encrypt E v = (if v \<noteq> [] then map_option (base64_encode E) (symmetric_crypt E v True) else None)"

definition decrypt :: "crypto \<Rightarrow> bytes \<Rightarrow> bytes option" where
  "decrypt E v =
    (if v \<noteq> [] then
       (case base64_decode E v of None \<Rightarrow> None | Some d \<Rightarrow> symmetric_crypt E d False)
     else None)"

definition decrypt_str_or_original :: "crypto \<Rightarrow> string \<Rightarrow> string \<Rightarrow> string \<times> bool \<times> bool" where
  "decrypt_str_or_original E s current_version =
    (case (if version_len < length s \<and> starts_with ''00'' s
           then decrypt E (as_bytes (drop version_len s)) else None) of
       Some v \<Rightarrow> (from_utf8_lossy E v, True, ''00'' \<noteq> current_version)
     | None \<Rightarrow> (s, False, s \<noteq> []))"

definition encrypt_str_or_original :: "crypto \<Rightarrow> string \<Rightarrow> string \<Rightarrow> nat \<Rightarrow> string" where
  "encrypt_str_or_original E s version max_len =
    (if fst (snd (decrypt_str_or_original E s version)) then s
     else if max_len < chars_count s then []
     else if version = ''00'' then
       (case encrypt E (as_bytes s) of Some e \<Rightarrow> version @ e | None \<Rightarrow> s)
     else s)"

definition decrypt_vec_or_original :: "crypto \<Rightarrow> bytes \<Rightarrow> string \<Rightarrow> bytes \<times> bool \<times> bool" where
  "decrypt_vec_or_original E v current_version =
    (case (if version_len < length v \<and> from_utf8_lossy E (take version_len v) = ''00''
           then decrypt E (drop version_len v) else None) of
       Some d \<Rightarrow> (d, True, ''00'' \<noteq> current_version)
     | None \<Rightarrow> (v, False, v \<noteq> []))"

definition encrypt_vec_or_original :: "crypto \<Rightarrow> bytes \<Rightarrow> string \<Rightarrow> nat \<Rightarrow> bytes" where
  "encrypt_vec_or_original E v version max_len =
    (if fst (snd (decrypt_vec_or_original E v version)) then v
     else if max_len < length v then []
     else if version = ''00'' then
       (case encrypt E v of Some e \<Rightarrow> as_bytes version @ as_bytes e | None \<Rightarrow> v)
     else v)"

section \<open>Lemmas\<close>

lemma as_bytes_append [simp]: "as_bytes (s @ t) = as_bytes s @ as_bytes t"
  by (simp add: as_bytes_def)

lemma length_as_bytes [simp]: "length (as_bytes s) = length s"
  by (simp add: as_bytes_def)

lemma as_bytes_Nil_iff [simp]: "as_bytes s = [] \<longleftrightarrow> s = []"
  by (simp add: as_bytes_def)

lemma of_bytes_as_bytes [simp]: "of_bytes (as_bytes s) = s"
proof -
  have "char_of (unat (of_nat (of_char c) :: u8)) = (c :: char)" for c
  proof -
    have "of_char c = (of_char c mod 256 :: nat)"
      using of_char_of [of "of_char c :: nat"] by simp
    then have "of_char c < (2 :: nat) ^ LENGTH(8)" by simp
    then show ?thesis by (simp only: unat_of_nat mod_less char_of_char)
  qed
  then show ?thesis by (simp add: of_bytes_def as_bytes_def o_def)
qed

lemma as_bytes_of_bytes [simp]: "as_bytes (of_bytes bs) = bs"
proof -
  have "(of_nat (of_char (char_of (unat b) :: char)) :: u8) = b" for b :: u8
    using unat_u8_less [of b] by (simp add: of_char_of)
  then show ?thesis by (simp add: of_bytes_def as_bytes_def o_def)
qed

lemma chars_count_le: "chars_count s \<le> length s"
  unfolding chars_count_def by (metis length_filter_le length_as_bytes)

lemma symmetric_crypt_roundtrip:
  "crypto_ok E \<Longrightarrow> symmetric_crypt E v True = Some c \<Longrightarrow> symmetric_crypt E c False = Some v"
  by (auto simp: symmetric_crypt_def crypto_ok_def Let_def)

lemma encrypt_Some:
  assumes "crypto_ok E" "v \<noteq> []"
  obtains e where "encrypt E v = Some e" "e \<noteq> []" "decrypt E (as_bytes e) = Some v"
proof -
  define c where "c = secretbox_seal E v (replicate 24 0) (resize 32 (machine_uuid E))"
  have c: "symmetric_crypt E v True = Some c" by (simp add: symmetric_crypt_def c_def)
  have "length c = length v + 16" using assms(1) by (simp add: c_def crypto_ok_def)
  then have "c \<noteq> []" by auto
  moreover have "base64_decode E (as_bytes (base64_encode E c)) = Some c"
    and "base64_encode E c = [] \<longleftrightarrow> c = []"
    using assms(1) by (simp_all add: crypto_ok_def)
  ultimately have "decrypt E (as_bytes (base64_encode E c)) = Some v" "base64_encode E c \<noteq> []"
    using symmetric_crypt_roundtrip [OF assms(1) c] by (simp_all add: decrypt_def)
  then show ?thesis using that [of "base64_encode E c"] assms(2) c by (simp add: encrypt_def)
qed

lemma decrypt_str_version:
  "decrypt E (as_bytes e) = Some v \<Longrightarrow> e \<noteq> [] \<Longrightarrow>
    decrypt_str_or_original E (''00'' @ e) cur = (from_utf8_lossy E v, True, ''00'' \<noteq> cur)"
  by (auto simp: decrypt_str_or_original_def version_len_def starts_with_def)

lemma decrypt_str_Nil [simp]: "decrypt_str_or_original E [] cur = ([], False, False)"
  by (simp add: decrypt_str_or_original_def)

lemma encrypt_str_Nil [simp]: "encrypt_str_or_original E [] ver n = []"
  by (simp add: encrypt_str_or_original_def encrypt_def as_bytes_def)

lemma encrypt_vec_Nil [simp]: "encrypt_vec_or_original E [] ver n = []"
  by (simp add: encrypt_vec_or_original_def decrypt_vec_or_original_def encrypt_def)

text \<open>A secret that can be stored: a string that is not itself an encrypted secret.\<close>

definition plain :: "crypto \<Rightarrow> nat \<Rightarrow> string \<Rightarrow> bool" where
  "plain E n s \<longleftrightarrow> rust_string E s \<and> chars_count s \<le> n \<and>
    \<not> fst (snd (decrypt_str_or_original E s ''00''))"

lemma encrypt_str_form:
  assumes "crypto_ok E" "plain E n s" "s \<noteq> []"
  obtains e where "encrypt_str_or_original E s ''00'' n = ''00'' @ e" "e \<noteq> []"
    "decrypt E (as_bytes e) = Some (as_bytes s)"
proof -
  obtain e where "encrypt E (as_bytes s) = Some e" "e \<noteq> []" "decrypt E (as_bytes e) = Some (as_bytes s)"
    using encrypt_Some [OF assms(1), of "as_bytes s"] assms(3) by auto
  then show ?thesis using that [of e] assms(2)
    by (simp add: encrypt_str_or_original_def plain_def)
qed

lemma decrypt_encrypt_str:
  assumes "crypto_ok E" "plain E n s"
  shows "decrypt_str_or_original E (encrypt_str_or_original E s ''00'' n) cur
    = (s, s \<noteq> [], s \<noteq> [] \<and> ''00'' \<noteq> cur)"
proof (cases "s = []")
  case False
  obtain e where "encrypt_str_or_original E s ''00'' n = ''00'' @ e" "e \<noteq> []"
      "decrypt E (as_bytes e) = Some (as_bytes s)"
    using encrypt_str_form [OF assms False] .
  then show ?thesis using assms(2) False decrypt_str_version
    by (simp add: plain_def rust_string_def)
qed simp

lemma decrypt_encrypt_vec:
  assumes "crypto_ok E" "rust_string E ''00''" "length v \<le> n"
    and "\<not> fst (snd (decrypt_vec_or_original E v ''00''))"
  shows "decrypt_vec_or_original E (encrypt_vec_or_original E v ''00'' n) cur
    = (v, v \<noteq> [], v \<noteq> [] \<and> ''00'' \<noteq> cur)"
proof (cases "v = []")
  case True
  then show ?thesis by (simp add: decrypt_vec_or_original_def)
next
  case False
  obtain e where e: "encrypt E v = Some e" "e \<noteq> []" "decrypt E (as_bytes e) = Some v"
    using encrypt_Some [OF assms(1) False] .
  then have "encrypt_vec_or_original E v ''00'' n = as_bytes ''00'' @ as_bytes e"
    using assms(3,4) by (simp add: encrypt_vec_or_original_def)
  moreover have "take 2 (as_bytes ''00'' @ as_bytes e) = as_bytes ''00''" by (simp add: as_bytes_def)
  ultimately show ?thesis using e False assms(2)
    by (simp add: decrypt_vec_or_original_def version_len_def rust_string_def)
qed

text \<open>An instance of the environment on which the hypotheses can be seen to hold together.\<close>

definition demo_crypto :: crypto where
  "demo_crypto = \<lparr>
     secretbox_seal = (\<lambda>d n k. replicate 16 7 @ map ((+) 1) d),
     secretbox_open = (\<lambda>c n k. if take 16 c = replicate 16 7 then Some (map (\<lambda>b. b - 1) (drop 16 c)) else None),
     base64_encode = of_bytes, base64_decode = Some,
     from_utf8_lossy = of_bytes, machine_uuid = [1, 2, 3]\<rparr>"

lemma demo_crypto_ok: "crypto_ok demo_crypto"
  by (auto simp: crypto_ok_def demo_crypto_def o_def) (simp add: of_bytes_def)+

lemma demo_rust_string: "rust_string demo_crypto s"
  by (simp add: rust_string_def demo_crypto_def)


section \<open>Properties\<close>

text \<open>
  C30: a secret survives being stored: for a string of at most \<open>max_len\<close> characters that is not
  itself an encrypted secret, decrypting its encryption gives it back, is reported as a
  decryption that needs no re-encryption under the same version and needs one under any other,
  and encrypting the result a second time changes nothing.
\<close>

theorem secret_str_roundtrip:
  assumes "crypto_ok E" "rust_string E s" "s \<noteq> []" "chars_count s \<le> max_len"
    and "\<not> fst (snd (decrypt_str_or_original E s ''00''))"
  shows "let e = encrypt_str_or_original E s ''00'' max_len in
    decrypt_str_or_original E e cur = (s, True, cur \<noteq> ''00'') \<and>
    starts_with ''00'' e \<and> encrypt_str_or_original E e ''00'' any_len = e"
proof -
  have p: "plain E max_len s" using assms by (simp add: plain_def)
  obtain e where e: "encrypt_str_or_original E s ''00'' max_len = ''00'' @ e"
    using encrypt_str_form [OF assms(1) p assms(3)] by blast
  have d: "decrypt_str_or_original E (''00'' @ e) c = (s, True, ''00'' \<noteq> c)" for c
    using decrypt_encrypt_str [OF assms(1) p, of c] assms(3) by (simp add: e)
  show ?thesis unfolding Let_def e
    using d [of "''00''"] d [of cur]
    by (auto simp: starts_with_def encrypt_str_or_original_def)
qed

theorem secret_str_roundtrip_witness:
  "let e = encrypt_str_or_original demo_crypto ''pw'' ''00'' 128 in
    decrypt_str_or_original demo_crypto e ''99'' = (''pw'', True, ''99'' \<noteq> ''00'') \<and>
    starts_with ''00'' e \<and> encrypt_str_or_original demo_crypto e ''00'' 1 = e"
  by (rule secret_str_roundtrip [OF demo_crypto_ok demo_rust_string])
     (simp_all add: chars_count_def as_bytes_def decrypt_str_or_original_def version_len_def)

text \<open>
  the same for a secret kept as bytes: at most \<open>max_len\<close> bytes that are not themselves an
  encrypted secret decrypt to themselves after encryption, without loss and without a request to
  store them again.
\<close>

theorem secret_vec_roundtrip:
  assumes "crypto_ok E" "rust_string E ''00''" "v \<noteq> []" "length v \<le> max_len"
    and "\<not> fst (snd (decrypt_vec_or_original E v ''00''))"
  shows "let e = encrypt_vec_or_original E v ''00'' max_len in
    decrypt_vec_or_original E e cur = (v, True, cur \<noteq> ''00'') \<and>
    encrypt_vec_or_original E e ''00'' any_len = e"
proof -
  let ?e = "encrypt_vec_or_original E v ''00'' max_len"
  have d: "decrypt_vec_or_original E ?e c = (v, True, ''00'' \<noteq> c)" for c
    using decrypt_encrypt_vec [OF assms(1,2,4,5), of c] assms(3) by simp
  show ?thesis unfolding Let_def
    using d [of "''00''"] d [of cur] by (auto simp: encrypt_vec_or_original_def [of E ?e])
qed

theorem secret_vec_roundtrip_witness:
  "let e = encrypt_vec_or_original demo_crypto [1, 2, 3] ''00'' 128 in
    decrypt_vec_or_original demo_crypto e ''00'' = ([1, 2, 3], True, ''00'' \<noteq> ''00'') \<and>
    encrypt_vec_or_original demo_crypto e ''00'' 1 = e"
  by (rule secret_vec_roundtrip [OF demo_crypto_ok demo_rust_string])
     (simp_all add: decrypt_vec_or_original_def version_len_def demo_crypto_def of_bytes_def
       char_of_def)

end
