(* ===== verification/Options.thy ===== *)
theory Options
  imports StrUtil
begin

text \<open>
  Layered options of \<open>libs/hbb_common/src/config.rs\<close>: a value set by the custom client
  (\<open>OVERWRITE_*\<close>) hides the saved one, which hides the default (\<open>DEFAULT_*\<close>); an overwritten key
  and a value equal to the default are not saved. The locale \<open>option_layer\<close> states what the four
  stores of the program (\<open>Config\<close>, \<open>LocalConfig\<close>, its Flutter options and \<open>UserDefaultConfig\<close>)
  share; the theories of these stores interpret it.
\<close>

section \<open>The layers\<close>

type_synonym smap = "string \<Rightarrow> string option"

definition get_or :: "smap \<Rightarrow> smap \<Rightarrow> smap \<Rightarrow> string \<Rightarrow> string option" where
  "get_or a b c k = (case a k of Some v \<Rightarrow> Some v | None \<Rightarrow>
     (case b k of Some v \<Rightarrow> Some v | None \<Rightarrow> c k))"

definition is_option_can_save :: "smap \<Rightarrow> string \<Rightarrow> smap \<Rightarrow> string \<Rightarrow> bool" where
  "is_option_can_save overwrite k defaults v =
    (if overwrite k \<noteq> None \<or> (case defaults k of None \<Rightarrow> False | Some x \<Rightarrow> x = v)
     then False else True)"

text \<open>\<open>unwrap_or_default\<close> of a string.\<close>

definition or_default :: "string option \<Rightarrow> string" where
  "or_default o' = (case o' of None \<Rightarrow> [] | Some v \<Rightarrow> v)"

text \<open>\<open>HashMap::retain\<close>.\<close>

definition retain_map :: "(string \<Rightarrow> string \<Rightarrow> bool) \<Rightarrow> smap \<Rightarrow> smap" where
  "retain_map P m = (\<lambda>k. case m k of None \<Rightarrow> None | Some v \<Rightarrow> if P k v then Some v else None)"

definition option2bool :: "string \<Rightarrow> string \<Rightarrow> bool" where
  "option2bool option value =
    (if starts_with ''enable-'' option then value \<noteq> ''N''
     else if starts_with ''allow-'' option \<or> option = ''stop-service'' \<or>
             option = ''direct-server'' \<or> option = ''force-always-relay''
          then value = ''Y''
     else value \<noteq> ''N'')"

section \<open>Lemmas\<close>

lemma is_option_can_save_iff:
  "is_option_can_save ow k df v \<longleftrightarrow> ow k = None \<and> df k \<noteq> Some v"
  by (auto simp: is_option_can_save_def split: option.splits)

lemma get_or_overwrite: "ow k = Some v \<Longrightarrow> get_or ow m df k = Some v"
  by (simp add: get_or_def)

lemma get_or_cong: "ow k = ow' k \<Longrightarrow> m k = m' k \<Longrightarrow> df k = df' k \<Longrightarrow> get_or ow m df k = get_or ow' m' df' k"
  by (simp add: get_or_def split: option.split)

section \<open>What an option store promises\<close>

text \<open>
  \<open>savable s k v\<close> says whether setting \<open>k\<close> to \<open>v\<close> is accepted, \<open>stored k v\<close> what is then kept
  for \<open>k\<close>.
\<close>

locale option_layer =
  fixes get :: "'s \<Rightarrow> string \<Rightarrow> string"
    and set_opt :: "string \<Rightarrow> string \<Rightarrow> 's \<Rightarrow> 's"
    and ow opts df :: "'s \<Rightarrow> smap"
    and savable :: "'s \<Rightarrow> string \<Rightarrow> string \<Rightarrow> bool"
    and stored :: "string \<Rightarrow> string \<Rightarrow> string option"
  assumes get_eq: "get s k = or_default (get_or (ow s) (opts s) (df s) k)"
    and opts_set: "opts (set_opt k v s) = (if savable s k v then (opts s)(k := stored k v) else opts s)"
    and ow_set: "ow (set_opt k v s) = ow s"
    and df_set: "df (set_opt k v s) = df s"
    and savable_set: "savable (set_opt k v s) = savable s"
begin

lemma get_overwrite: "ow s k = Some v \<Longrightarrow> get s k = v"
  by (simp add: get_eq get_or_def or_default_def)

lemma get_overwrite_set: "ow s k = Some v \<Longrightarrow> get (set_opt k' w s) k = v"
  by (simp add: get_overwrite ow_set)

lemma get_set_other: "k \<noteq> k' \<Longrightarrow> get (set_opt k v s) k' = get s k'"
  by (auto simp: get_eq opts_set ow_set df_set intro!: arg_cong [where f = or_default] get_or_cong)

lemma get_set_same:
  assumes "savable s k v" "ow s k = None"
  shows "get (set_opt k v s) k =
    (case stored k v of Some x \<Rightarrow> x | None \<Rightarrow> or_default (df s k))"
  using assms by (auto simp: get_eq get_or_def or_default_def opts_set ow_set df_set split: option.splits)

lemma get_set_rejected: "\<not> savable s k v \<Longrightarrow> get (set_opt k v s) k' = get s k'"
  by (simp add: get_eq get_or_def opts_set ow_set df_set)

lemma set_twice:
  "savable s k w \<Longrightarrow> opts (set_opt k w (set_opt k v s)) = opts (set_opt k w s)"
  by (simp add: opts_set savable_set fun_eq_iff)

lemma get_eqI:
  assumes "ow s = ow s'" "opts s = opts s'" "df s = df s'"
  shows "get s k = get s' k"
  using assms by (simp add: get_eq)

text \<open>
  The invariant of a store whose values come through \<open>set_opt\<close> only: no saved value belongs to an
  overwritten key and none is one that would not be accepted.
\<close>

definition saved_ok :: "'s \<Rightarrow> bool" where
  "saved_ok s \<longleftrightarrow> (\<forall>k v. opts s k = Some v \<longrightarrow> savable s k v)"

lemma saved_ok_set:
  assumes "saved_ok s" "\<And>w. stored k v = Some w \<Longrightarrow> savable s k v \<Longrightarrow> savable s k w"
  shows "saved_ok (set_opt k v s)"
  using assms by (auto simp: saved_ok_def opts_set savable_set)

lemma get_after_sets_overwritten:
  "ow s k = Some v \<Longrightarrow> get (fold (\<lambda>(k, v). set_opt k v) kvs s) k = v"
proof (induction kvs arbitrary: s)
  case (Cons kv kvs)
  then show ?case by (cases kv) (simp add: ow_set)
qed (simp add: get_overwrite)

end

end
