(* ===== verification/Config.thy ===== *)
theory Config
  imports Options PasswordSecurity AddrMangle
begin

text \<open>
  The global configuration of \<open>libs/hbb_common/src/config.rs\<close>: the lazily initialised globals and
  the files behind them are the fields of the record \<open>world\<close>, the locked sections of the sources
  its transformations. The files hold typed values (serde and confy are not modelled): a slot is
  missing, unreadable or holds what was written. Failing writes are the flag \<open>w_disk_ok\<close>; random
  draws and the network card's address are arguments.
\<close>

section \<open>Data\<close>

type_synonym key_pair = "bytes \<times> bytes"
type_synonym size = "int \<times> int \<times> int \<times> int"

datatype network_type = Direct | ProxySocks

record config =
  cfg_id :: string
  cfg_enc_id :: string
  cfg_password :: string
  cfg_salt :: string
  cfg_key_pair :: key_pair
  cfg_key_confirmed :: bool
  cfg_keys_confirmed :: "string \<Rightarrow> bool option"

record socks5_server =
  sk_proxy :: string
  sk_username :: string
  sk_password :: string

record config2 =
  c2_rendezvous_server :: string
  c2_nat_type :: int
  c2_serial :: int
  c2_unlock_pin :: string
  c2_trusted_devices :: string
  c2_socks :: "socks5_server option"
  c2_options :: smap

record local_config =
  lc_remote_id :: string
  lc_kb_layout_type :: string
  lc_size :: size
  lc_fav :: "string list"
  lc_options :: smap
  lc_ui_flutter :: smap

record user_default_config =
  ud_options :: smap

record trusted_device =
  td_hwid :: bytes
  td_time :: int
  td_id :: string
  td_name :: string
  td_platform :: string

text \<open>A file: missing, present but not readable as a value of its type, or holding a value.\<close>

datatype 'a slot = Absent | Unreadable | Stored 'a

record settings =
  overwrite_settings :: smap
  default_settings :: smap
  overwrite_display_settings :: smap
  default_display_settings :: smap
  overwrite_local_settings :: smap
  default_local_settings :: smap
  hard_settings :: smap

record world =
  w_config :: config
  w_config2 :: config2
  w_local :: local_config
  w_trusted :: "trusted_device list \<times> bool"
  w_online :: "(string \<times> int) list"
  w_key_pair :: "key_pair option"
  w_key_thread :: "key_pair list"
  w_user_default :: "user_default_config \<times> int"
  w_settings :: settings
  w_exe_rendezvous_server :: string
  w_prod_rendezvous_server :: string
  w_now :: int
  w_disk_ok :: bool
  d_config :: "config slot"
  d_config2 :: "config2 slot"
  d_local :: "local_config slot"
  d_default :: "user_default_config slot"

text \<open>What comes from other crates: cryptography, the JSON of the device list, the MAC address.\<close>

record env =
  e_crypto :: crypto
  e_td_to_json :: "trusted_device list \<Rightarrow> string"
  e_td_from_json :: "string \<Rightarrow> trusted_device list option"
  e_mac_address :: "bytes option"

definition default_config :: config where
  "default_config = \<lparr>cfg_id = [], cfg_enc_id = [], cfg_password = [], cfg_salt = [],
     cfg_key_pair = ([], []), cfg_key_confirmed = False, cfg_keys_confirmed = (\<lambda>_. None)\<rparr>"

definition default_config2 :: config2 where
  "default_config2 = \<lparr>c2_rendezvous_server = [], c2_nat_type = 0, c2_serial = 0, c2_unlock_pin = [],
     c2_trusted_devices = [], c2_socks = None, c2_options = (\<lambda>_. None)\<rparr>"

definition default_local_config :: local_config where
  "default_local_config = \<lparr>lc_remote_id = [], lc_kb_layout_type = [], lc_size = (0, 0, 0, 0),
     lc_fav = [], lc_options = (\<lambda>_. None), lc_ui_flutter = (\<lambda>_. None)\<rparr>"

definition default_user_default :: user_default_config where
  "default_user_default = \<lparr>ud_options = (\<lambda>_. None)\<rparr>"

definition serial :: int where "serial = 3"
definition encrypt_max_len :: nat where "encrypt_max_len = 128"
definition password_enc_version :: string where "password_enc_version = ''00''"

section \<open>Files\<close>

text \<open>\<open>load_path\<close>: a missing and an unreadable file both give the default value.\<close>

definition load_path :: "'a \<Rightarrow> 'a slot \<Rightarrow> 'a" where
  "load_path dflt f = (case f of Stored c \<Rightarrow> c | Absent \<Rightarrow> dflt | Unreadable \<Rightarrow> dflt)"

text \<open>\<open>store_path\<close>, whose failure \<open>Config::store_\<close> only logs.\<close>

definition store_path :: "bool \<Rightarrow> 'a \<Rightarrow> 'a slot \<Rightarrow> 'a slot" where
  "store_path ok c f = (if ok then Stored c else f)"

definition enc :: "env \<Rightarrow> string \<Rightarrow> string" where
  "enc E s = encrypt_str_or_original (e_crypto E) s password_enc_version encrypt_max_len"

definition dec :: "env \<Rightarrow> string \<Rightarrow> string \<times> bool \<times> bool" where
  "dec E s = decrypt_str_or_original (e_crypto E) s password_enc_version"

definition config2_store :: "env \<Rightarrow> config2 \<Rightarrow> world \<Rightarrow> world" where
  "config2_store E c w =
    (let c = c\<lparr>c2_socks := map_option (\<lambda>s. s\<lparr>sk_password := enc E (sk_password s)\<rparr>) (c2_socks c)\<rparr>;
         c = c\<lparr>c2_unlock_pin := enc E (c2_unlock_pin c)\<rparr>
     in w\<lparr>d_config2 := store_path (w_disk_ok w) c (d_config2 w)\<rparr>)"

definition config2_load :: "env \<Rightarrow> world \<Rightarrow> config2 \<times> world" where
  "config2_load E w =
    (let c = load_path default_config2 (d_config2 w);
         (c, store) = (case c2_socks c of
            None \<Rightarrow> (c, False)
          | Some socks \<Rightarrow>
              let (password, _, store2) = dec E (sk_password socks)
              in (c\<lparr>c2_socks := Some (socks\<lparr>sk_password := password\<rparr>)\<rparr>, store2));
         (unlock_pin, _, store2) = dec E (c2_unlock_pin c);
         c = c\<lparr>c2_unlock_pin := unlock_pin\<rparr>;
         store = (store \<or> store2)
     in (c, if store then config2_store E c w else w))"

definition config_store :: "env \<Rightarrow> config \<Rightarrow> world \<Rightarrow> world" where
  "config_store E c w =
    (let c = c\<lparr>cfg_password := enc E (cfg_password c)\<rparr>;
         c = c\<lparr>cfg_enc_id := enc E (cfg_id c)\<rparr>;
         c = c\<lparr>cfg_id := []\<rparr>
     in w\<lparr>d_config := store_path (w_disk_ok w) c (d_config w)\<rparr>)"

text \<open>
  \<open>get_auto_id\<close> of the desktop builds: 29 bits of the last four bytes of the MAC address.
\<close>

definition get_auto_id :: "env \<Rightarrow> string option" where
  "get_auto_id E =
    (case e_mac_address E of
       None \<Rightarrow> None
     | Some ma \<Rightarrow>
         let ident = foldl (\<lambda>i x. push_bit 8 i OR ucast x) (0 :: u32) (drop 2 ma)
         in Some (show_nat (unat (ident AND 0x1FFFFFFF))))"

text \<open>The loop \<open>for _ in 0..3\<close> of \<open>Config::load\<close>: each round asks for an id again.\<close>

fun try_auto_id :: "nat \<Rightarrow> env \<Rightarrow> string option" where
  "try_auto_id 0 E = None"
| "try_auto_id (Suc n) E = (case get_auto_id E of Some ident \<Rightarrow> Some ident | None \<Rightarrow> try_auto_id n E)"

definition config_load :: "env \<Rightarrow> world \<Rightarrow> config \<times> world" where
  "config_load E w =
    (let c = load_path default_config (d_config w);
         (password, _, store1) = dec E (cfg_password c);
         c = c\<lparr>cfg_password := password\<rparr>;
         (ident, encrypted, store2) = dec E (cfg_enc_id c);
         (c, id_valid, store) =
           (if encrypted then (c\<lparr>cfg_id := ident\<rparr>, True, store1 \<or> store2)
            else if cfg_id c \<noteq> [] \<and> cfg_enc_id c = [] \<and> \<not> fst (snd (dec E (cfg_id c)))
            then (c, True, True)
            else (c, False, store1));
         (c, store) =
           (if id_valid then (c, store)
            else case try_auto_id 3 E of
                   Some ident \<Rightarrow> (c\<lparr>cfg_id := ident\<rparr>, True)
                 | None \<Rightarrow> (c, store))
     in (c, if store then config_store E c w else w))"

definition local_store :: "local_config \<Rightarrow> world \<Rightarrow> world" where
  "local_store c w = w\<lparr>d_local := store_path (w_disk_ok w) c (d_local w)\<rparr>"

definition local_load :: "world \<Rightarrow> local_config" where
  "local_load w = load_path default_local_config (d_local w)"

definition user_default_load :: "world \<Rightarrow> user_default_config" where
  "user_default_load w = load_path default_user_default (d_default w)"

text \<open>The common end of the setters: the guarded global takes the new value and is stored.\<close>

definition put_config :: "env \<Rightarrow> config \<Rightarrow> world \<Rightarrow> world" where
  "put_config E c w = config_store E c (w\<lparr>w_config := c\<rparr>)"

definition put_config2 :: "env \<Rightarrow> config2 \<Rightarrow> world \<Rightarrow> world" where
  "put_config2 E c w = config2_store E c (w\<lparr>w_config2 := c\<rparr>)"

definition put_local :: "local_config \<Rightarrow> world \<Rightarrow> world" where
  "put_local c w = local_store c (w\<lparr>w_local := c\<rparr>)"

definition config_set :: "env \<Rightarrow> config \<Rightarrow> world \<Rightarrow> bool \<times> world" where
  "config_set E cfg w = (if w_config w = cfg then (False, w) else (True, put_config E cfg w))"

definition config2_set :: "env \<Rightarrow> config2 \<Rightarrow> world \<Rightarrow> bool \<times> world" where
  "config2_set E cfg w = (if w_config2 w = cfg then (False, w) else (True, put_config2 E cfg w))"

definition config_is_empty :: "config \<Rightarrow> bool" where
  "config_is_empty c \<longleftrightarrow> (cfg_id c = [] \<and> cfg_enc_id c = []) \<or> fst (cfg_key_pair c) = []"

end
