(* ===== verification/ConfigOps.thy ===== *)
theory ConfigOps
  imports Config
begin

text \<open>
  The operations of \<open>impl Config\<close> and \<open>impl LocalConfig\<close> in \<open>libs/hbb_common/src/config.rs\<close> on
  the global state: identity, latency, host keys, options, password, socks, trusted devices.
\<close>

section \<open>Options\<close>

definition get_option :: "world \<Rightarrow> string \<Rightarrow> string" where
  "get_option w k = or_default (get_or (overwrite_settings (w_settings w))
     (c2_options (w_config2 w)) (default_settings (w_settings w)) k)"

definition get_bool_option :: "world \<Rightarrow> string \<Rightarrow> bool" where
  "get_bool_option w k = option2bool k (get_option w k)"

definition set_option :: "env \<Rightarrow> string \<Rightarrow> string \<Rightarrow> world \<Rightarrow> world" where
  "set_option E k v w =
    (if \<not> is_option_can_save (overwrite_settings (w_settings w)) k (default_settings (w_settings w)) v
     then w
     else
       let config = w_config2 w; v2 = (if v = [] then None else Some v) in
       if v2 \<noteq> c2_options config k then
         put_config2 E (config\<lparr>c2_options :=
           (if v2 = None then (c2_options config)(k := None) else (c2_options config)(k := Some v))\<rparr>) w
       else w)"

definition get_options :: "world \<Rightarrow> smap" where
  "get_options w = default_settings (w_settings w) ++ c2_options (w_config2 w)
     ++ overwrite_settings (w_settings w)"

definition purify_options :: "world \<Rightarrow> smap \<Rightarrow> smap" where
  "purify_options w v = retain_map
     (\<lambda>k v. is_option_can_save (overwrite_settings (w_settings w)) k (default_settings (w_settings w)) v) v"

definition set_options :: "env \<Rightarrow> smap \<Rightarrow> world \<Rightarrow> world" where
  "set_options E v w =
    (let v = purify_options w v; config = w_config2 w in
     if c2_options config = v then w else put_config2 E (config\<lparr>c2_options := v\<rparr>) w)"

definition local_get_option :: "world \<Rightarrow> string \<Rightarrow> string" where
  "local_get_option w k = or_default (get_or (overwrite_local_settings (w_settings w))
     (lc_options (w_local w)) (default_local_settings (w_settings w)) k)"

definition local_get_option_from_file :: "world \<Rightarrow> string \<Rightarrow> string" where
  "local_get_option_from_file w k = or_default (get_or (overwrite_local_settings (w_settings w))
     (lc_options (local_load w)) (default_local_settings (w_settings w)) k)"

definition local_get_bool_option :: "world \<Rightarrow> string \<Rightarrow> bool" where
  "local_get_bool_option w k = option2bool k (local_get_option w k)"

definition local_set_option :: "string \<Rightarrow> string \<Rightarrow> world \<Rightarrow> world" where
  "local_set_option k v w =
    (if \<not> is_option_can_save (overwrite_local_settings (w_settings w)) k
            (default_local_settings (w_settings w)) v
     then w
     else
       let config = w_local w; m = lc_options config in
       if k = ''lang'' \<and> v = ''default'' then put_local (config\<lparr>lc_options := m(k := Some [])\<rparr>) w
       else
         let v2 = (if v = [] then None else Some v) in
         if v2 \<noteq> m k then
           put_local (config\<lparr>lc_options := (if v2 = None then m(k := None) else m(k := Some v))\<rparr>) w
         else w)"

definition get_flutter_option :: "world \<Rightarrow> string \<Rightarrow> string" where
  "get_flutter_option w k = or_default (get_or (overwrite_local_settings (w_settings w))
     (lc_ui_flutter (w_local w)) (default_local_settings (w_settings w)) k)"

definition set_flutter_option :: "string \<Rightarrow> string \<Rightarrow> world \<Rightarrow> world" where
  "set_flutter_option k v w =
    (let config = w_local w; m = lc_ui_flutter config; v2 = (if v = [] then None else Some v) in
     if v2 \<noteq> m k then
       put_local (config\<lparr>lc_ui_flutter := (if v2 = None then m(k := None) else m(k := Some v))\<rparr>) w
     else w)"

section \<open>Frame lemmas of the stores\<close>

lemma config2_store_frame [simp]:
  "w_config (config2_store E c w) = w_config w" "w_config2 (config2_store E c w) = w_config2 w"
  "w_local (config2_store E c w) = w_local w" "w_settings (config2_store E c w) = w_settings w"
  "w_trusted (config2_store E c w) = w_trusted w" "w_online (config2_store E c w) = w_online w"
  "w_now (config2_store E c w) = w_now w" "w_disk_ok (config2_store E c w) = w_disk_ok w"
  "d_config (config2_store E c w) = d_config w" "w_key_pair (config2_store E c w) = w_key_pair w"
  "w_exe_rendezvous_server (config2_store E c w) = w_exe_rendezvous_server w"
  "w_prod_rendezvous_server (config2_store E c w) = w_prod_rendezvous_server w"
  by (simp_all add: config2_store_def Let_def)

lemma config_store_frame [simp]:
  "w_config (config_store E c w) = w_config w" "w_config2 (config_store E c w) = w_config2 w"
  "w_local (config_store E c w) = w_local w" "w_settings (config_store E c w) = w_settings w"
  "w_trusted (config_store E c w) = w_trusted w" "w_online (config_store E c w) = w_online w"
  "w_now (config_store E c w) = w_now w" "w_disk_ok (config_store E c w) = w_disk_ok w"
  "d_config2 (config_store E c w) = d_config2 w" "w_key_pair (config_store E c w) = w_key_pair w"
  "w_exe_rendezvous_server (config_store E c w) = w_exe_rendezvous_server w"
  "w_prod_rendezvous_server (config_store E c w) = w_prod_rendezvous_server w"
  by (simp_all add: config_store_def Let_def)

lemma put_config_frame [simp]:
  "w_config (put_config E c w) = c" "w_config2 (put_config E c w) = w_config2 w"
  "w_local (put_config E c w) = w_local w" "w_settings (put_config E c w) = w_settings w"
  "w_trusted (put_config E c w) = w_trusted w" "w_online (put_config E c w) = w_online w"
  "w_now (put_config E c w) = w_now w" "w_disk_ok (put_config E c w) = w_disk_ok w"
  by (simp_all add: put_config_def)

lemma put_config2_frame [simp]:
  "w_config2 (put_config2 E c w) = c" "w_config (put_config2 E c w) = w_config w"
  "w_local (put_config2 E c w) = w_local w" "w_settings (put_config2 E c w) = w_settings w"
  "w_trusted (put_config2 E c w) = w_trusted w" "w_online (put_config2 E c w) = w_online w"
  "w_now (put_config2 E c w) = w_now w" "w_disk_ok (put_config2 E c w) = w_disk_ok w"
  "d_config (put_config2 E c w) = d_config w"
  "w_exe_rendezvous_server (put_config2 E c w) = w_exe_rendezvous_server w"
  "w_prod_rendezvous_server (put_config2 E c w) = w_prod_rendezvous_server w"
  by (simp_all add: put_config2_def)

lemma put_local_frame [simp]:
  "w_local (put_local c w) = c" "w_config (put_local c w) = w_config w"
  "w_config2 (put_local c w) = w_config2 w" "w_settings (put_local c w) = w_settings w"
  by (simp_all add: put_local_def local_store_def)

lemma set_option_settings [simp]: "w_settings (set_option E k v w) = w_settings w"
  by (simp add: set_option_def Let_def)

section \<open>The option stores are option layers\<close>

definition savable :: "world \<Rightarrow> string \<Rightarrow> string \<Rightarrow> bool" where
  "savable w k v \<longleftrightarrow> overwrite_settings (w_settings w) k = None \<and> default_settings (w_settings w) k \<noteq> Some v"

definition local_savable :: "world \<Rightarrow> string \<Rightarrow> string \<Rightarrow> bool" where
  "local_savable w k v \<longleftrightarrow> overwrite_local_settings (w_settings w) k = None \<and>
     default_local_settings (w_settings w) k \<noteq> Some v"

definition non_empty :: "string \<Rightarrow> string \<Rightarrow> string option" where
  "non_empty k v = (if v = [] then None else Some v)"

definition local_stored :: "string \<Rightarrow> string \<Rightarrow> string option" where
  "local_stored k v = (if k = ''lang'' \<and> v = ''default'' then Some [] else non_empty k v)"

interpretation cfg_opts: option_layer get_option "set_option E" "\<lambda>w. overwrite_settings (w_settings w)"
    "\<lambda>w. c2_options (w_config2 w)" "\<lambda>w. default_settings (w_settings w)" savable non_empty for E
  by unfold_locales
     (auto simp: get_option_def set_option_def Let_def is_option_can_save_iff savable_def
       non_empty_def fun_eq_iff)

interpretation local_opts: option_layer local_get_option local_set_option
    "\<lambda>w. overwrite_local_settings (w_settings w)" "\<lambda>w. lc_options (w_local w)"
    "\<lambda>w. default_local_settings (w_settings w)" local_savable local_stored
  by unfold_locales
     (auto simp: local_get_option_def local_set_option_def Let_def is_option_can_save_iff
       local_savable_def local_stored_def non_empty_def fun_eq_iff)

interpretation flutter_opts: option_layer get_flutter_option set_flutter_option
    "\<lambda>w. overwrite_local_settings (w_settings w)" "\<lambda>w. lc_ui_flutter (w_local w)"
    "\<lambda>w. default_local_settings (w_settings w)" "\<lambda>_ _ _. True" non_empty
  by unfold_locales
     (auto simp: get_flutter_option_def set_flutter_option_def Let_def non_empty_def fun_eq_iff)


section \<open>Servers\<close>

definition rendezvous_servers :: "string list" where
  "rendezvous_servers = [''rs-ny.rustdesk.com'']"

definition rendezvous_port :: nat where "rendezvous_port = 21116"

definition get_rendezvous_servers :: "world \<Rightarrow> string list" where
  "get_rendezvous_servers w =
    (let s = w_exe_rendezvous_server w in
     if s \<noteq> [] then [s]
     else let s = get_option w ''custom-rendezvous-server'' in
     if s \<noteq> [] then [s]
     else let s = w_prod_rendezvous_server w in
     if s \<noteq> [] then [s]
     else
       let ss = (if serial < c2_serial (w_config2 w)
           then filter (\<lambda>x. CHR ''.'' \<in> set x) (split_on CHR '','' (get_option w ''rendezvous-servers''))
           else [])
       in if ss \<noteq> [] then ss else rendezvous_servers)"

definition get_rendezvous_server :: "world \<Rightarrow> string" where
  "get_rendezvous_server w =
    (let s = w_exe_rendezvous_server w;
         s = (if s = [] then get_option w ''custom-rendezvous-server'' else s);
         s = (if s = [] then w_prod_rendezvous_server w else s);
         s = (if s = [] then c2_rendezvous_server (w_config2 w) else s);
         s = (if s = [] then (case get_rendezvous_servers w of [] \<Rightarrow> [] | x # _ \<Rightarrow> x) else s)
     in if CHR '':'' \<notin> set s then s @ CHR '':'' # show_nat rendezvous_port else s)"

text \<open>
  The map of latencies is the list of its entries in iteration order; inserting replaces the
  value of a present key.
\<close>

fun online_insert :: "string \<Rightarrow> int \<Rightarrow> (string \<times> int) list \<Rightarrow> (string \<times> int) list" where
  "online_insert h l [] = [(h, l)]"
| "online_insert h l ((h', l') # xs) = (if h' = h then (h, l) # xs else (h', l') # online_insert h l xs)"

definition i64_max :: int where "i64_max = 2 ^ 63 - 1"

text \<open>The loop of \<open>update_latency\<close>: the best host and delay so far.\<close>

fun best_host :: "(string \<times> int) list \<Rightarrow> string \<times> int \<Rightarrow> string \<times> int" where
  "best_host [] (host, delay) = (host, delay)"
| "best_host ((h, d) # xs) (host, delay) =
    best_host xs (if 0 < d \<and> d < delay then (h, d) else (host, delay))"

definition update_latency :: "env \<Rightarrow> string \<Rightarrow> int \<Rightarrow> world \<Rightarrow> world" where
  "update_latency E host latency w =
    (let w = w\<lparr>w_online := online_insert host latency (w_online w)\<rparr>;
         (host, _) = best_host (w_online w) ([], i64_max)
     in if host \<noteq> [] \<and> host \<noteq> c2_rendezvous_server (w_config2 w)
        then put_config2 E ((w_config2 w)\<lparr>c2_rendezvous_server := host\<rparr>) w
        else w)"

definition reset_online :: "world \<Rightarrow> world" where
  "reset_online w = w\<lparr>w_online := []\<rparr>"

definition get_online_state :: "world \<Rightarrow> int" where
  "get_online_state w = (case map snd (w_online w) of [] \<Rightarrow> 0 | x # xs \<Rightarrow> foldl max x xs)"

section \<open>Identity and keys\<close>

definition set_id :: "env \<Rightarrow> string \<Rightarrow> world \<Rightarrow> world" where
  "set_id E i w = (let config = w_config w in
     if i = cfg_id config then w else put_config E (config\<lparr>cfg_id := i\<rparr>) w)"

definition get_id :: "env \<Rightarrow> world \<Rightarrow> string \<times> world" where
  "get_id E w =
    (let i = cfg_id (w_config w) in
     if i = [] then
       (case get_auto_id E of Some tmp \<Rightarrow> (tmp, set_id E tmp w) | None \<Rightarrow> (i, w))
     else (i, w))"

definition get_id_or :: "string \<Rightarrow> world \<Rightarrow> string" where
  "get_id_or b w = (let a = cfg_id (w_config w) in if a = [] then b else a)"

text \<open>\<open>update_id\<close> with the number drawn from \<open>1_000_000_000..2_000_000_000\<close>.\<close>

definition update_id :: "env \<Rightarrow> nat \<Rightarrow> world \<Rightarrow> world" where
  "update_id E drawn w = (let (i, w) = get_id E w in set_id E (show_nat drawn) w)"

definition set_nat_type :: "env \<Rightarrow> int \<Rightarrow> world \<Rightarrow> world" where
  "set_nat_type E t w = (let config = w_config2 w in
     if t = c2_nat_type config then w else put_config2 E (config\<lparr>c2_nat_type := t\<rparr>) w)"

definition get_nat_type :: "world \<Rightarrow> int" where
  "get_nat_type w = c2_nat_type (w_config2 w)"

definition set_serial :: "env \<Rightarrow> int \<Rightarrow> world \<Rightarrow> world" where
  "set_serial E n w = (let config = w_config2 w in
     if n = c2_serial config then w else put_config2 E (config\<lparr>c2_serial := n\<rparr>) w)"

definition get_serial :: "world \<Rightarrow> int" where
  "get_serial w = max (c2_serial (w_config2 w)) serial"

definition get_key_confirmed :: "world \<Rightarrow> bool" where
  "get_key_confirmed w = cfg_key_confirmed (w_config w)"

definition set_key_confirmed :: "env \<Rightarrow> bool \<Rightarrow> world \<Rightarrow> world" where
  "set_key_confirmed E v w =
    (let config = w_config w in
     if cfg_key_confirmed config = v then w
     else
       let config = config\<lparr>cfg_key_confirmed := v\<rparr>;
           config = (if \<not> v then config\<lparr>cfg_keys_confirmed := (\<lambda>_. None)\<rparr> else config)
       in put_config E config w)"

definition get_host_key_confirmed :: "world \<Rightarrow> string \<Rightarrow> bool" where
  "get_host_key_confirmed w host \<longleftrightarrow> cfg_keys_confirmed (w_config w) host = Some True"

definition set_host_key_confirmed :: "env \<Rightarrow> string \<Rightarrow> bool \<Rightarrow> world \<Rightarrow> world" where
  "set_host_key_confirmed E host v w =
    (if get_host_key_confirmed w host = v then w
     else let config = w_config w in
       put_config E (config\<lparr>cfg_keys_confirmed := (cfg_keys_confirmed config)(host := Some v)\<rparr>) w)"

text \<open>
  \<open>get_key_pair\<close> reads the file and not the global; a generated pair is written to the global by a
  thread it starts, \<open>key_thread\<close>. The generated pair is the argument \<open>fresh\<close> (secret, public).
\<close>

definition get_key_pair :: "key_pair \<Rightarrow> world \<Rightarrow> key_pair \<times> world" where
  "get_key_pair fresh w =
    (case w_key_pair w of
       Some p \<Rightarrow> (p, w)
     | None \<Rightarrow>
         let config = load_path default_config (d_config w) in
         if fst (cfg_key_pair config) = []
         then (fresh, w\<lparr>w_key_pair := Some fresh, w_key_thread := w_key_thread w @ [fresh]\<rparr>)
         else (cfg_key_pair config, w\<lparr>w_key_pair := Some (cfg_key_pair config)\<rparr>))"

definition key_thread :: "env \<Rightarrow> world \<Rightarrow> world" where
  "key_thread E w =
    (case w_key_thread w of
       [] \<Rightarrow> w
     | p # ps \<Rightarrow> put_config E ((w_config w)\<lparr>cfg_key_pair := p\<rparr>) (w\<lparr>w_key_thread := ps\<rparr>))"

section \<open>Trusted devices\<close>

definition days_90 :: int where "days_90 = 90 * 24 * 60 * 60 * 1000"

definition outdate :: "int \<Rightarrow> trusted_device \<Rightarrow> bool" where
  "outdate now d \<longleftrightarrow> wrap64 (td_time d + days_90) < now"

definition trusted_max_len :: nat where "trusted_max_len = 1024 * 1024"

definition set_trusted_devices :: "env \<Rightarrow> trusted_device list \<Rightarrow> world \<Rightarrow> world" where
  "set_trusted_devices E trusted_devices w =
    (let trusted_devices = filter (\<lambda>d. \<not> outdate (w_now w) d) trusted_devices;
         devices = e_td_to_json E trusted_devices
     in if trusted_max_len < length devices then w
        else
          let devices = encrypt_str_or_original (e_crypto E) devices password_enc_version trusted_max_len;
              w = put_config2 E ((w_config2 w)\<lparr>c2_trusted_devices := devices\<rparr>) w
          in w\<lparr>w_trusted := (trusted_devices, True)\<rparr>)"

definition get_trusted_devices :: "env \<Rightarrow> world \<Rightarrow> trusted_device list \<times> world" where
  "get_trusted_devices E w =
    (let (devices, synced) = w_trusted w in
     if synced then (devices, w)
     else
       let (devices, succ, store) = dec E (c2_trusted_devices (w_config2 w)) in
       if succ then
         let devices = (case e_td_from_json E devices of None \<Rightarrow> [] | Some ds \<Rightarrow> ds);
             len = length devices;
             devices = filter (\<lambda>d. \<not> outdate (w_now w) d) devices;
             w = (if store \<or> length devices \<noteq> len then set_trusted_devices E devices w else w)
         in (devices, w\<lparr>w_trusted := (devices, True)\<rparr>)
       else ([], w))"

definition add_trusted_device :: "env \<Rightarrow> trusted_device \<Rightarrow> world \<Rightarrow> world" where
  "add_trusted_device E device w =
    (let (devices, w) = get_trusted_devices E w;
         devices = filter (\<lambda>d. td_hwid d \<noteq> td_hwid device) devices
     in set_trusted_devices E (devices @ [device]) w)"

definition remove_trusted_devices :: "env \<Rightarrow> bytes list \<Rightarrow> world \<Rightarrow> world" where
  "remove_trusted_devices E hwids w =
    (let (devices, w) = get_trusted_devices E w
     in set_trusted_devices E (filter (\<lambda>d. td_hwid d \<notin> set hwids) devices) w)"

definition clear_trusted_devices :: "env \<Rightarrow> world \<Rightarrow> world" where
  "clear_trusted_devices E w = set_trusted_devices E [] w"

section \<open>Passwords\<close>

definition set_permanent_password :: "env \<Rightarrow> string \<Rightarrow> world \<Rightarrow> world" where
  "set_permanent_password E password w =
    (if hard_settings (w_settings w) ''password'' = Some password then w
     else
       let config = w_config w in
       if password = cfg_password config then w
       else clear_trusted_devices E (put_config E (config\<lparr>cfg_password := password\<rparr>) w))"

definition get_permanent_password :: "world \<Rightarrow> string" where
  "get_permanent_password w =
    (let password = cfg_password (w_config w) in
     if password = [] then
       (case hard_settings (w_settings w) ''password'' of Some v \<Rightarrow> v | None \<Rightarrow> password)
     else password)"

definition password_chars :: string where
  "password_chars = ''23456789abcdefghijkmnpqrstuvwxyz''"

text \<open>\<open>get_auto_password\<close> with the random words it draws.\<close>

definition get_auto_password :: "nat list \<Rightarrow> string" where
  "get_auto_password draws = map (\<lambda>r. password_chars ! (r mod length password_chars)) draws"

definition set_salt :: "env \<Rightarrow> string \<Rightarrow> world \<Rightarrow> world" where
  "set_salt E salt w = (let config = w_config w in
     if salt = cfg_salt config then w else put_config E (config\<lparr>cfg_salt := salt\<rparr>) w)"

text \<open>\<open>get_salt\<close>: the six draws of \<open>get_auto_password(6)\<close> are an argument.\<close>

definition get_salt :: "env \<Rightarrow> nat list \<Rightarrow> world \<Rightarrow> string \<times> world" where
  "get_salt E draws w =
    (let salt = cfg_salt (w_config w) in
     if salt = [] then let salt = get_auto_password (take 6 draws) in (salt, set_salt E salt w)
     else (salt, w))"

definition get_unlock_pin :: "world \<Rightarrow> string" where
  "get_unlock_pin w = c2_unlock_pin (w_config2 w)"

definition set_unlock_pin :: "env \<Rightarrow> string \<Rightarrow> world \<Rightarrow> world" where
  "set_unlock_pin E pin w = (let config = w_config2 w in
     if pin = c2_unlock_pin config then w else put_config2 E (config\<lparr>c2_unlock_pin := pin\<rparr>) w)"

section \<open>Proxy\<close>

definition set_socks :: "env \<Rightarrow> socks5_server option \<Rightarrow> world \<Rightarrow> world" where
  "set_socks E socks w = (let config = w_config2 w in
     if c2_socks config = socks then w else put_config2 E (config\<lparr>c2_socks := socks\<rparr>) w)"

definition socks_from_settings :: "smap \<Rightarrow> socks5_server option" where
  "socks_from_settings settings =
    (case settings ''proxy-url'' of
       None \<Rightarrow> None
     | Some url \<Rightarrow> Some \<lparr>sk_proxy = url, sk_username = or_default (settings ''proxy-username''),
                           sk_password = or_default (settings ''proxy-password'')\<rparr>)"

definition or_else :: "'a option \<Rightarrow> 'a option \<Rightarrow> 'a option" where
  "or_else a b = (case a of Some x \<Rightarrow> Some x | None \<Rightarrow> b)"

definition get_socks :: "world \<Rightarrow> socks5_server option" where
  "get_socks w =
    or_else (or_else (socks_from_settings (overwrite_settings (w_settings w))) (c2_socks (w_config2 w)))
      (socks_from_settings (default_settings (w_settings w)))"

definition get_network_type :: "world \<Rightarrow> network_type" where
  "get_network_type w =
    (if overwrite_settings (w_settings w) ''proxy-url'' \<noteq> None then ProxySocks
     else if c2_socks (w_config2 w) \<noteq> None then ProxySocks
     else if default_settings (w_settings w) ''proxy-url'' \<noteq> None then ProxySocks
     else Direct)"

definition is_proxy :: "world \<Rightarrow> bool" where
  "is_proxy w \<longleftrightarrow> get_network_type w \<noteq> Direct"

section \<open>Local configuration\<close>

definition set_kb_layout_type :: "string \<Rightarrow> world \<Rightarrow> world" where
  "set_kb_layout_type t w = put_local ((w_local w)\<lparr>lc_kb_layout_type := t\<rparr>) w"

definition set_size :: "int \<Rightarrow> int \<Rightarrow> int \<Rightarrow> int \<Rightarrow> world \<Rightarrow> world" where
  "set_size x y wd ht w =
    (let config = w_local w; size = (x, y, wd, ht) in
     if size = lc_size config \<or> wd < 300 \<or> ht < 300 then w
     else put_local (config\<lparr>lc_size := size\<rparr>) w)"

definition set_remote_id :: "string \<Rightarrow> world \<Rightarrow> world" where
  "set_remote_id i w = (let config = w_local w in
     if i = lc_remote_id config then w else put_local (config\<lparr>lc_remote_id := i\<rparr>) w)"

definition set_fav :: "string list \<Rightarrow> world \<Rightarrow> world" where
  "set_fav fav w = (let config = w_local w in
     if lc_fav config = fav then w else put_local (config\<lparr>lc_fav := fav\<rparr>) w)"

section \<open>Hard settings\<close>

definition is_incoming_only :: "world \<Rightarrow> bool" where
  "is_incoming_only w \<longleftrightarrow> hard_settings (w_settings w) ''conn-type'' = Some ''incoming''"

definition is_outgoing_only :: "world \<Rightarrow> bool" where
  "is_outgoing_only w \<longleftrightarrow> hard_settings (w_settings w) ''conn-type'' = Some ''outgoing''"

definition is_some_hard_opton :: "world \<Rightarrow> string \<Rightarrow> bool" where
  "is_some_hard_opton w name \<longleftrightarrow> hard_settings (w_settings w) name = Some ''Y''"

end
