(* ===== verification/ConfigProps.thy ===== *)
theory ConfigProps
  imports ConfigOps
begin

text \<open>
  What the configuration guarantees: files read back as they were written, options obey their
  layers, the chosen server is the fastest one, the key pair is generated once, and a new
  password revokes the trusted devices.
\<close>

section \<open>Files\<close>

abbreviation plain_secret :: "env \<Rightarrow> string \<Rightarrow> bool" where
  "plain_secret E s \<equiv> plain (e_crypto E) encrypt_max_len s"

lemma dec_enc:
  assumes "crypto_ok (e_crypto E)" "plain_secret E s"
  shows "dec E (enc E s) = (s, s \<noteq> [], False)"
  using decrypt_encrypt_str [OF assms] by (simp add: dec_def enc_def password_enc_version_def)

lemma config_store_d: "w_disk_ok w \<Longrightarrow> d_config (config_store E c w) =
    Stored (c\<lparr>cfg_password := enc E (cfg_password c), cfg_enc_id := enc E (cfg_id c), cfg_id := []\<rparr>)"
  by (simp add: config_store_def store_path_def Let_def)

lemma config2_store_d: "w_disk_ok w \<Longrightarrow> d_config2 (config2_store E c w) =
    Stored (c\<lparr>c2_socks := map_option (\<lambda>s. s\<lparr>sk_password := enc E (sk_password s)\<rparr>) (c2_socks c),
              c2_unlock_pin := enc E (c2_unlock_pin c)\<rparr>)"
  by (simp add: config2_store_def store_path_def Let_def)

section \<open>The fastest server\<close>

lemma best_host_bound:
  assumes "best_host xs (h0, d0) = (h, d)"
  shows "d \<le> d0 \<and> (\<forall>(h', d') \<in> set xs. 0 < d' \<longrightarrow> d \<le> d') \<and>
    ((h, d) = (h0, d0) \<or> (h, d) \<in> set xs \<and> 0 < d \<and> d < d0)"
  using assms
proof (induction xs arbitrary: h0 d0)
  case (Cons x xs)
  obtain h1 d1 where x: "x = (h1, d1)" by (cases x)
  show ?case
  proof (cases "0 < d1 \<and> d1 < d0")
    case True
    then have "best_host xs (h1, d1) = (h, d)" using Cons.prems x by simp
    from Cons.IH [OF this] True show ?thesis by (auto simp: x)
  next
    case False
    then have "best_host xs (h0, d0) = (h, d)" using Cons.prems x by auto
    from Cons.IH [OF this] False show ?thesis by (auto simp: x)
  qed
qed simp

lemma set_online_insert: "(h, l) \<in> set (online_insert h l xs)"
  by (induction h l xs rule: online_insert.induct) auto

section \<open>Trusted devices\<close>

lemma set_trusted_devices_fits:
  assumes "length (e_td_to_json E (filter (\<lambda>d. \<not> outdate (w_now w) d) ds)) \<le> trusted_max_len"
  shows "w_trusted (set_trusted_devices E ds w) = (filter (\<lambda>d. \<not> outdate (w_now w) d) ds, True)"
  using assms by (simp add: set_trusted_devices_def Let_def)

lemma get_trusted_synced: "w_trusted w = (ds, True) \<Longrightarrow> get_trusted_devices E w = (ds, w)"
  by (simp add: get_trusted_devices_def)

lemma set_trusted_frame [simp]:
  "w_config (set_trusted_devices E ds w) = w_config w"
  "w_now (set_trusted_devices E ds w) = w_now w"
  "w_settings (set_trusted_devices E ds w) = w_settings w"
  by (simp_all add: set_trusted_devices_def Let_def)

lemma get_trusted_frame [simp]:
  "w_now (snd (get_trusted_devices E w)) = w_now w"
  "w_config (snd (get_trusted_devices E w)) = w_config w"
  by (simp_all add: get_trusted_devices_def Let_def split: prod.split)

text \<open>
  Once read, the list is served from memory as it is: a device that expires while the process
  runs stays in what \<open>get_trusted_devices\<close> returns.
\<close>

lemma trusted_devices_cached:
  "w_trusted w = (ds, True) \<Longrightarrow> fst (get_trusted_devices E (w\<lparr>w_now := t\<rparr>)) = ds"
  by (simp add: get_trusted_devices_def)

section \<open>A concrete world\<close>

definition no_settings :: settings where
  "no_settings = \<lparr>overwrite_settings = (\<lambda>_. None), default_settings = (\<lambda>_. None),
     overwrite_display_settings = (\<lambda>_. None), default_display_settings = (\<lambda>_. None),
     overwrite_local_settings = (\<lambda>_. None), default_local_settings = (\<lambda>_. None),
     hard_settings = (\<lambda>_. None)\<rparr>"

definition demo_world :: world where
  "demo_world = \<lparr>w_config = default_config, w_config2 = default_config2, w_local = default_local_config,
     w_trusted = ([], False), w_online = [], w_key_pair = None, w_key_thread = [],
     w_user_default = (default_user_default, 0), w_settings = no_settings,
     w_exe_rendezvous_server = [], w_prod_rendezvous_server = [], w_now = 0, w_disk_ok = True,
     d_config = Absent, d_config2 = Absent, d_local = Absent, d_default = Absent\<rparr>"

definition demo_env :: env where
  "demo_env = \<lparr>e_crypto = demo_crypto, e_td_to_json = (\<lambda>ds. ''[]''), e_td_from_json = (\<lambda>_. Some []),
     e_mac_address = Some [0, 1, 2, 3, 4, 5]\<rparr>"

lemma demo_env_simps [simp]:
  "e_crypto demo_env = demo_crypto" "e_td_to_json demo_env = (\<lambda>ds. ''[]'')"
  by (simp_all add: demo_env_def)

lemma demo_plain: "length s \<le> 2 \<Longrightarrow> plain demo_crypto encrypt_max_len s"
  using chars_count_le [of s]
  by (simp add: plain_def demo_rust_string encrypt_max_len_def decrypt_str_or_original_def version_len_def)


section \<open>Properties\<close>

text \<open>
  C12: the identity file reads back: loading what \<open>Config::store\<close> wrote gives the configuration
  that was stored, its id and password decrypted, with the encrypted id filled in, and does not
  write the file again; what is written holds no plain id and only the encrypted password.
\<close>

theorem config_store_load:
  assumes "crypto_ok (e_crypto E)" "w_disk_ok w"
    and "plain_secret E (cfg_password c)" "plain_secret E (cfg_id c)" "cfg_id c \<noteq> []"
  shows "config_load E (config_store E c w) = (c\<lparr>cfg_enc_id := enc E (cfg_id c)\<rparr>, config_store E c w) \<and>
    (\<exists>f. d_config (config_store E c w) = Stored f \<and> cfg_id f = [] \<and>
       cfg_password f = enc E (cfg_password c) \<and> cfg_key_pair f = cfg_key_pair c)"
proof -
  note d = config_store_d [OF assms(2), of E c]
  have "dec E (enc E (cfg_password c)) = (cfg_password c, cfg_password c \<noteq> [], False)"
    and "dec E (enc E (cfg_id c)) = (cfg_id c, True, False)"
    using dec_enc [OF assms(1,3)] dec_enc [OF assms(1,4)] assms(5) by simp_all
  then show ?thesis
    by (simp add: config_load_def load_path_def d Let_def)
qed

theorem config_store_load_witness:
  "config_load demo_env (config_store demo_env (default_config\<lparr>cfg_id := ''42'', cfg_password := ''pw''\<rparr>) demo_world)
     = (default_config\<lparr>cfg_id := ''42'', cfg_password := ''pw''\<rparr>\<lparr>cfg_enc_id := enc demo_env (cfg_id (default_config\<lparr>cfg_id := ''42'', cfg_password := ''pw''\<rparr>))\<rparr>,
        config_store demo_env (default_config\<lparr>cfg_id := ''42'', cfg_password := ''pw''\<rparr>) demo_world) \<and>
    (\<exists>f. d_config (config_store demo_env (default_config\<lparr>cfg_id := ''42'', cfg_password := ''pw''\<rparr>) demo_world) = Stored f \<and> cfg_id f = [] \<and>
       cfg_password f = enc demo_env (cfg_password (default_config\<lparr>cfg_id := ''42'', cfg_password := ''pw''\<rparr>)) \<and>
       cfg_key_pair f = cfg_key_pair (default_config\<lparr>cfg_id := ''42'', cfg_password := ''pw''\<rparr>))"
  by (rule config_store_load)
     (simp_all add: demo_crypto_ok demo_plain, simp_all add: demo_world_def)

text \<open>
  the second file reads back: loading what \<open>Config2::store\<close> wrote gives the stored value, the
  proxy password and the unlock pin decrypted, and does not write the file again.
\<close>

theorem config2_store_load:
  assumes "crypto_ok (e_crypto E)" "w_disk_ok w" "plain_secret E (c2_unlock_pin c)"
    and "\<forall>s. c2_socks c = Some s \<longrightarrow> plain_secret E (sk_password s)"
  shows "config2_load E (config2_store E c w) = (c, config2_store E c w)"
proof -
  note d = config2_store_d [OF assms(2), of E c]
  note pin = dec_enc [OF assms(1,3)]
  show ?thesis
  proof (cases "c2_socks c")
    case None
    then show ?thesis by (simp add: config2_load_def load_path_def d Let_def pin)
  next
    case (Some s)
    then have "dec E (enc E (sk_password s)) = (sk_password s, sk_password s \<noteq> [], False)"
      using dec_enc [OF assms(1)] assms(4) by simp
    then show ?thesis using Some
      by (simp add: config2_load_def load_path_def d Let_def pin)
  qed
qed

theorem config2_store_load_witness:
  "config2_load demo_env (config2_store demo_env (default_config2\<lparr>c2_unlock_pin := ''1''\<rparr>) demo_world)
     = (default_config2\<lparr>c2_unlock_pin := ''1''\<rparr>, config2_store demo_env (default_config2\<lparr>c2_unlock_pin := ''1''\<rparr>) demo_world)"
  by (rule config2_store_load)
     (simp_all add: demo_crypto_ok demo_plain, simp_all add: demo_world_def default_config2_def)

text \<open>
  what an option reads after it is set: other keys are untouched; a key fixed by the custom
  client, or a value equal to the default, is not accepted and everything reads as before;
  otherwise the key reads the value that was set, or its default when the value was empty.
\<close>

theorem get_option_after_set:
  "get_option (set_option E k v w) k' =
    (if k' = k \<and> overwrite_settings (w_settings w) k = None \<and> default_settings (w_settings w) k \<noteq> Some v
     then (if v = [] then or_default (default_settings (w_settings w) k) else v)
     else get_option w k')"
proof (cases "k' = k \<and> savable w k v")
  case True
  then show ?thesis
    using cfg_opts.get_set_same [of w k v E] by (simp add: savable_def non_empty_def)
next
  case False
  then show ?thesis
    using cfg_opts.get_set_other [of k k' E v w] cfg_opts.get_set_rejected [of w k v E k']
    by (auto simp: savable_def)
qed

text \<open>
  resetting an option to its default is lost: when a key has a default and a different saved
  value, setting it to the default is rejected and the key still reads the saved value.
\<close>

theorem set_option_default_ignored:
  assumes "default_settings (w_settings w) k = Some v" "overwrite_settings (w_settings w) k = None"
    and "c2_options (w_config2 w) k = Some u"
  shows "set_option E k v w = w \<and> get_option (set_option E k v w) k = u"
  using assms
  by (simp add: set_option_def is_option_can_save_iff get_option_def get_or_def or_default_def)

theorem set_option_default_ignored_witness:
  "let w = demo_world\<lparr>w_settings := no_settings\<lparr>default_settings := [''enable-abr'' \<mapsto> ''Y'']\<rparr>,
                      w_config2 := default_config2\<lparr>c2_options := [''enable-abr'' \<mapsto> ''N'']\<rparr>\<rparr>
   in set_option demo_env ''enable-abr'' ''Y'' w = w \<and>
      get_option (set_option demo_env ''enable-abr'' ''Y'' w) ''enable-abr'' = ''N''"
  unfolding Let_def
  by (rule set_option_default_ignored) (simp_all add: no_settings_def)

text \<open>
  the saved options stay clean: if no saved option is one that the custom client fixes or
  equals its default, then none is after \<open>set_option\<close>, and none is after \<open>set_options\<close> whatever was
  saved before; and an option the custom client fixes reads as fixed after any of them.
\<close>

theorem saved_options_clean:
  assumes "\<forall>k v. c2_options (w_config2 w) k = Some v \<longrightarrow>
      overwrite_settings (w_settings w) k = None \<and> default_settings (w_settings w) k \<noteq> Some v"
    and "w' = set_option E k0 v0 w \<or> w' = set_options E m w"
  shows "(\<forall>k v. c2_options (w_config2 w') k = Some v \<longrightarrow>
      overwrite_settings (w_settings w') k = None \<and> default_settings (w_settings w') k \<noteq> Some v) \<and>
    (\<forall>k v. overwrite_settings (w_settings w) k = Some v \<longrightarrow> get_option w' k = v)"
  using assms(2)
proof
  assume w': "w' = set_option E k0 v0 w"
  have "cfg_opts.saved_ok w" using assms(1) by (simp add: cfg_opts.saved_ok_def savable_def)
  then have "cfg_opts.saved_ok w'"
    unfolding w' by (rule cfg_opts.saved_ok_set) (auto simp: non_empty_def split: if_splits)
  then show ?thesis
    using cfg_opts.get_overwrite [of w'] by (auto simp: cfg_opts.saved_ok_def savable_def w')
next
  assume w': "w' = set_options E m w"
  then have s: "w_settings w' = w_settings w" and o: "c2_options (w_config2 w') = purify_options w m"
    by (auto simp: set_options_def Let_def)
  show ?thesis
    using cfg_opts.get_overwrite [of w']
    by (auto simp: o s purify_options_def retain_map_def is_option_can_save_iff split: option.splits if_splits)
qed

theorem saved_options_clean_witness:
  "let w = demo_world\<lparr>w_settings := no_settings\<lparr>overwrite_settings := [''k'' \<mapsto> ''v'']\<rparr>\<rparr>;
       w' = set_option demo_env ''k'' ''x'' w
   in (\<forall>k v. c2_options (w_config2 w') k = Some v \<longrightarrow>
      overwrite_settings (w_settings w') k = None \<and> default_settings (w_settings w') k \<noteq> Some v) \<and>
    (\<forall>k v. overwrite_settings (w_settings w) k = Some v \<longrightarrow> get_option w' k = v)"
  unfolding Let_def
  by (rule saved_options_clean [OF _ disjI1 [OF refl]]) (simp add: demo_world_def default_config2_def)

text \<open>
  \<open>update_latency\<close> selects the fastest server: afterwards the saved server is either the one
  before, when no named host answered in positive time, or a host with the least positive
  latency among all those recorded, the new record included.
\<close>

theorem update_latency_fastest:
  "let w' = update_latency E host latency w;
       best = (\<lambda>h d. (h, d) \<in> set (w_online w') \<and> 0 < d \<and> (\<forall>(h', d') \<in> set (w_online w'). 0 < d' \<longrightarrow> d \<le> d'))
   in (host, latency) \<in> set (w_online w') \<and>
      (c2_rendezvous_server (w_config2 w') = c2_rendezvous_server (w_config2 w)
         \<and> (\<forall>(h', d') \<in> set (w_online w'). h' \<noteq> [] \<and> 0 < d' \<and> d' < i64_max \<longrightarrow>
              (\<exists>h d. best h d \<and> (h = [] \<or> h = c2_rendezvous_server (w_config2 w))))
       \<or> (\<exists>d. best (c2_rendezvous_server (w_config2 w')) d))"
proof -
  define on where "on = online_insert host latency (w_online w)"
  obtain h d where b: "best_host on ([], i64_max) = (h, d)" by fastforce
  note best = best_host_bound [OF b]
  have on: "w_online (update_latency E host latency w) = on"
    by (simp add: update_latency_def Let_def on_def split: prod.split)
  show ?thesis
  proof (cases "h \<noteq> [] \<and> h \<noteq> c2_rendezvous_server (w_config2 w)")
    case True
    then have "c2_rendezvous_server (w_config2 (update_latency E host latency w)) = h"
      using b by (simp add: update_latency_def Let_def on_def)
    moreover have "(h, d) \<in> set on" "0 < d" using best True by auto
    ultimately show ?thesis
      using best set_online_insert [of host latency] unfolding Let_def on by (auto simp: on_def)
  next
    case False
    then have "c2_rendezvous_server (w_config2 (update_latency E host latency w))
        = c2_rendezvous_server (w_config2 w)"
      using b by (auto simp: update_latency_def Let_def on_def)
    moreover have "\<exists>h d. ((h, d) \<in> set on \<and> 0 < d \<and> (\<forall>(h', d') \<in> set on. 0 < d' \<longrightarrow> d \<le> d'))
        \<and> (h = [] \<or> h = c2_rendezvous_server (w_config2 w))"
      if "(h', d') \<in> set on" "0 < d'" "d' < i64_max" for h' d'
    proof -
      have "d \<le> d'" using best that by auto
      then have "(h, d) \<in> set on \<and> 0 < d" using best that by auto
      then show ?thesis using best False by blast
    qed
    ultimately show ?thesis
      using set_online_insert [of host latency] unfolding Let_def on by (fastforce simp: on_def)
  qed
qed

theorem update_latency_fastest_witness:
  "let w = demo_world\<lparr>w_online := [(''a:1'', 30), (''b:1'', 20)]\<rparr>; w' = update_latency demo_env ''a:1'' 10 w;
       best = (\<lambda>h d. (h, d) \<in> set (w_online w') \<and> 0 < d \<and> (\<forall>(h', d') \<in> set (w_online w'). 0 < d' \<longrightarrow> d \<le> d'))
   in (''a:1'', 10) \<in> set (w_online w') \<and>
      (c2_rendezvous_server (w_config2 w') = c2_rendezvous_server (w_config2 w)
         \<and> (\<forall>(h', d') \<in> set (w_online w'). h' \<noteq> [] \<and> 0 < d' \<and> d' < i64_max \<longrightarrow>
              (\<exists>h d. best h d \<and> (h = [] \<or> h = c2_rendezvous_server (w_config2 w))))
       \<or> (\<exists>d. best (c2_rendezvous_server (w_config2 w')) d))"
  using update_latency_fastest [of demo_env "''a:1''" 10 "demo_world\<lparr>w_online := [(''a:1'', 30), (''b:1'', 20)]\<rparr>"]
  by (simp only: Let_def)

text \<open>
  the proxy answer is consistent: the network type is a proxy exactly when there is a proxy to
  use, and a proxy fixed by the custom client is the one that is used.
\<close>

theorem network_type_get_socks:
  "(get_network_type w = ProxySocks \<longleftrightarrow> get_socks w \<noteq> None) \<and>
   (get_socks w = None \<longleftrightarrow> \<not> is_proxy w) \<and>
   (case overwrite_settings (w_settings w) ''proxy-url'' of
      Some url \<Rightarrow> map_option sk_proxy (get_socks w) = Some url
    | None \<Rightarrow> c2_socks (w_config2 w) \<noteq> None \<longrightarrow> get_socks w = c2_socks (w_config2 w))"
  by (auto simp: get_network_type_def is_proxy_def get_socks_def or_else_def socks_from_settings_def
      split: option.splits)

theorem network_type_get_socks_witness:
  "(get_network_type demo_world = ProxySocks \<longleftrightarrow> get_socks demo_world \<noteq> None) \<and>
   (get_socks demo_world = None \<longleftrightarrow> \<not> is_proxy demo_world) \<and>
   (case overwrite_settings (w_settings demo_world) ''proxy-url'' of
      Some url \<Rightarrow> map_option sk_proxy (get_socks demo_world) = Some url
    | None \<Rightarrow> c2_socks (w_config2 demo_world) \<noteq> None \<longrightarrow> get_socks demo_world = c2_socks (w_config2 demo_world))"
  by (rule network_type_get_socks)

text \<open>
  a new permanent password revokes trust: when the password really changes, it is the one in
  force afterwards and no device is trusted any more.
\<close>

theorem new_password_revokes_devices:
  assumes "password \<noteq> cfg_password (w_config w)" "password \<noteq> []"
    and "hard_settings (w_settings w) ''password'' \<noteq> Some password"
    and "length (e_td_to_json E []) \<le> trusted_max_len"
  shows "get_permanent_password (set_permanent_password E password w) = password \<and>
    fst (get_trusted_devices E (set_permanent_password E password w)) = []"
proof -
  let ?w = "set_permanent_password E password w"
  have w: "?w = set_trusted_devices E [] (put_config E ((w_config w)\<lparr>cfg_password := password\<rparr>) w)"
    using assms(1,3) by (simp add: set_permanent_password_def clear_trusted_devices_def)
  then have "w_trusted ?w = ([], True)"
    using assms(4) by (simp add: set_trusted_devices_fits)
  then show ?thesis
    using assms(2) by (simp add: get_trusted_synced get_permanent_password_def w)
qed

theorem new_password_revokes_devices_witness:
  "get_permanent_password (set_permanent_password demo_env ''new'' demo_world) = ''new'' \<and>
    fst (get_trusted_devices demo_env (set_permanent_password demo_env ''new'' demo_world)) = []"
  by (rule new_password_revokes_devices)
     (simp_all add: demo_world_def default_config_def no_settings_def trusted_max_len_def)

text \<open>
  trusting a device replaces its earlier record: after \<open>add_trusted_device\<close>, when the list fits
  in its file, the device's hardware id has exactly the new record, unless that record is already
  outdated, the other devices keep their order, and no outdated device is kept.
\<close>

theorem add_trusted_device_unique:
  assumes "\<forall>ds. length (e_td_to_json E ds) \<le> trusted_max_len"
  shows "let ds = fst (get_trusted_devices E (add_trusted_device E device w)) in
    filter (\<lambda>d. td_hwid d = td_hwid device) ds = (if outdate (w_now w) device then [] else [device]) \<and>
    filter (\<lambda>d. td_hwid d \<noteq> td_hwid device) ds =
      filter (\<lambda>d. \<not> outdate (w_now w) d) (filter (\<lambda>d. td_hwid d \<noteq> td_hwid device) (fst (get_trusted_devices E w))) \<and>
    (\<forall>d \<in> set ds. \<not> outdate (w_now w) d)"
proof -
  obtain ds w1 where g: "get_trusted_devices E w = (ds, w1)" by fastforce
  then have now: "w_now w1 = w_now w" by (metis get_trusted_frame(1) snd_conv)
  have "w_trusted (add_trusted_device E device w) =
      (filter (\<lambda>d. \<not> outdate (w_now w) d) (filter (\<lambda>d. td_hwid d \<noteq> td_hwid device) ds @ [device]), True)"
    using assms by (simp only: add_trusted_device_def g Let_def case_prod_conv set_trusted_devices_fits now)
  then have t: "fst (get_trusted_devices E (add_trusted_device E device w)) =
      filter (\<lambda>d. \<not> outdate (w_now w) d) (filter (\<lambda>d. td_hwid d \<noteq> td_hwid device) ds @ [device])"
    by (simp add: get_trusted_synced)
  have e: "filter (\<lambda>d. td_hwid d = h \<and> \<not> outdate n d \<and> td_hwid d \<noteq> h) xs = []" for h n xs
    by (simp add: filter_empty_conv)
  show ?thesis unfolding Let_def t g fst_conv
    by (auto simp: filter_empty_conv intro!: filter_cong)
qed

theorem add_trusted_device_unique_witness:
  "let ds = fst (get_trusted_devices demo_env (add_trusted_device demo_env
        \<lparr>td_hwid = [1], td_time = 0, td_id = [], td_name = [], td_platform = []\<rparr> demo_world)) in
    filter (\<lambda>d. td_hwid d = td_hwid \<lparr>td_hwid = [1], td_time = 0, td_id = [], td_name = [], td_platform = []\<rparr>) ds
      = (if outdate (w_now demo_world) \<lparr>td_hwid = [1], td_time = 0, td_id = [], td_name = [], td_platform = []\<rparr>
         then [] else [\<lparr>td_hwid = [1], td_time = 0, td_id = [], td_name = [], td_platform = []\<rparr>]) \<and>
    filter (\<lambda>d. td_hwid d \<noteq> td_hwid \<lparr>td_hwid = [1], td_time = 0, td_id = [], td_name = [], td_platform = []\<rparr>) ds =
      filter (\<lambda>d. \<not> outdate (w_now demo_world) d) (filter (\<lambda>d. td_hwid d \<noteq> td_hwid \<lparr>td_hwid = [1], td_time = 0, td_id = [], td_name = [], td_platform = []\<rparr>)
        (fst (get_trusted_devices demo_env demo_world))) \<and>
    (\<forall>d \<in> set ds. \<not> outdate (w_now demo_world) d)"
  by (rule add_trusted_device_unique) (simp add: trusted_max_len_def)

text \<open>
  the key pair is generated once: a second call returns the pair of the first, and when the
  thread that saves a generated pair has run, so does the first call of a later run of the
  program, which finds the pair in the file.
\<close>

theorem key_pair_persistent:
  assumes "w_key_pair w = None" "w_key_thread w = []" "w_disk_ok w" "fst fresh \<noteq> []"
  shows "let (p, w1) = get_key_pair fresh w; w2 = key_thread E w1 in
    fst (get_key_pair fresh' w1) = p \<and> fst (get_key_pair fresh' (w2\<lparr>w_key_pair := None\<rparr>)) = p \<and> fst p \<noteq> []"
proof (cases "fst (cfg_key_pair (load_path default_config (d_config w))) = []")
  case True
  then have "get_key_pair fresh w = (fresh, w\<lparr>w_key_pair := Some fresh, w_key_thread := [fresh]\<rparr>)"
    using assms by (simp add: get_key_pair_def Let_def)
  then show ?thesis using assms
    by (simp add: get_key_pair_def key_thread_def put_config_def config_store_def store_path_def load_path_def Let_def)
next
  case False
  then have "get_key_pair fresh w = (cfg_key_pair (load_path default_config (d_config w)),
      w\<lparr>w_key_pair := Some (cfg_key_pair (load_path default_config (d_config w)))\<rparr>)"
    using assms by (simp add: get_key_pair_def Let_def)
  then show ?thesis using assms False by (simp add: get_key_pair_def key_thread_def Let_def)
qed

theorem key_pair_persistent_witness:
  "let (p, w1) = get_key_pair ([1], [2]) demo_world; w2 = key_thread demo_env w1 in
    fst (get_key_pair ([3], [4]) w1) = p \<and> fst (get_key_pair ([3], [4]) (w2\<lparr>w_key_pair := None\<rparr>)) = p \<and> fst p \<noteq> []"
  by (rule key_pair_persistent) (simp_all add: demo_world_def)

end
