(* ===== verification/Access.thy ===== *)
theory Access
  imports ConfigProps
begin

text \<open>
  The access policy of \<open>libs/hbb_common/src/password_security.rs\<close>: which password may be used,
  how a connection is approved, and the temporary password, a global string that is the argument
  \<open>tmp\<close> here.
\<close>

section \<open>Modes\<close>

datatype verification_method =
  OnlyUseTemporaryPassword | OnlyUsePermanentPassword | UseBothPasswords

datatype approve_mode = ApproveBoth | ApprovePassword | ApproveClick

definition verification_method :: "world \<Rightarrow> verification_method" where
  "verification_method w =
    (let m = get_option w ''verification-method'' in
     if m = ''use-temporary-password'' then OnlyUseTemporaryPassword
     else if m = ''use-permanent-password'' then OnlyUsePermanentPassword
     else UseBothPasswords)"

definition temporary_password_length :: "world \<Rightarrow> nat" where
  "temporary_password_length w =
    (let l = get_option w ''temporary-password-length'' in
     if l = ''8'' then 8 else if l = ''10'' then 10 else 6)"

definition temporary_enabled :: "world \<Rightarrow> bool" where
  "temporary_enabled w \<longleftrightarrow> verification_method w \<noteq> OnlyUsePermanentPassword"

definition permanent_enabled :: "world \<Rightarrow> bool" where
  "permanent_enabled w \<longleftrightarrow> verification_method w \<noteq> OnlyUseTemporaryPassword"

definition has_valid_password :: "world \<Rightarrow> string \<Rightarrow> bool" where
  "has_valid_password w tmp \<longleftrightarrow>
    temporary_enabled w \<and> tmp \<noteq> [] \<or> permanent_enabled w \<and> get_permanent_password w \<noteq> []"

definition approve_mode :: "world \<Rightarrow> approve_mode" where
  "approve_mode w =
    (let m = get_option w ''approve-mode'' in
     if m = ''password'' then ApprovePassword
     else if m = ''click'' then ApproveClick
     else ApproveBoth)"

definition hide_cm :: "world \<Rightarrow> bool" where
  "hide_cm w \<longleftrightarrow> approve_mode w = ApprovePassword \<and>
     verification_method w = OnlyUsePermanentPassword \<and>
     option2bool ''allow-hide-cm'' (get_option w ''allow-hide-cm'')"

text \<open>\<open>update_temporary_password\<close>, with the endless supply of random words \<open>rng\<close>.\<close>

definition update_temporary_password :: "world \<Rightarrow> (nat \<Rightarrow> nat) \<Rightarrow> string" where
  "update_temporary_password w rng = get_auto_password (map rng [0..<temporary_password_length w])"

lemma length_password_chars: "length password_chars = 32"
  by (simp add: password_chars_def)

lemma get_auto_password_chars: "set (get_auto_password draws) \<subseteq> set password_chars"
  by (auto simp: get_auto_password_def length_password_chars intro!: nth_mem)

lemma temporary_password_length_pos: "temporary_password_length w \<in> {6, 8, 10}"
  by (simp add: temporary_password_length_def Let_def)


section \<open>Properties\<close>

text \<open>
  a renewed temporary password has the configured length of 6, 8 or 10 characters, holds only
  the unambiguous characters of the alphabet (none of 0, 1, l and o), and makes a password login
  possible whenever temporary passwords are enabled.
\<close>

theorem temporary_password_form:
  "let tmp = update_temporary_password w rng in
    length tmp = temporary_password_length w \<and> length tmp \<in> {6, 8, 10} \<and>
    {CHR ''0'', CHR ''1'', CHR ''l'', CHR ''o''} \<inter> set tmp = {} \<and>
    has_valid_password w tmp =
      (if temporary_enabled w then True else get_permanent_password w \<noteq> [])"
proof -
  let ?tmp = "update_temporary_password w rng"
  have len: "length ?tmp = temporary_password_length w"
    by (simp add: update_temporary_password_def get_auto_password_def)
  then have ne: "?tmp \<noteq> []" using temporary_password_length_pos [of w] by auto
  have "{CHR ''0'', CHR ''1'', CHR ''l'', CHR ''o''} \<inter> set password_chars = {}"
    by (simp add: password_chars_def)
  then have "{CHR ''0'', CHR ''1'', CHR ''l'', CHR ''o''} \<inter> set ?tmp = {}"
    using get_auto_password_chars unfolding update_temporary_password_def by fast
  moreover have "temporary_enabled w \<or> permanent_enabled w"
    by (cases "verification_method w") (simp_all add: temporary_enabled_def permanent_enabled_def)
  ultimately show ?thesis
    using len ne temporary_password_length_pos [of w] by (auto simp: Let_def has_valid_password_def)
qed

text \<open>
  the connection window is hidden only under the strict policy: when \<open>hide_cm\<close> holds, a click
  cannot approve a connection, temporary passwords are off, the option \<open>allow-hide-cm\<close> reads
  \<open>Y\<close>, and a password login is possible exactly when a permanent password is set; and turning the
  option off or any change of the verification method shows the window again.
\<close>

theorem hide_cm_strict:
  assumes "hide_cm w"
  shows "approve_mode w = ApprovePassword \<and> \<not> temporary_enabled w \<and>
    get_option w ''allow-hide-cm'' = ''Y'' \<and>
    (has_valid_password w tmp \<longleftrightarrow> get_permanent_password w \<noteq> []) \<and>
    \<not> (\<exists>v. v \<noteq> ''use-permanent-password'' \<and> savable w ''verification-method'' v \<and>
         default_settings (w_settings w) ''verification-method'' = None \<and>
         hide_cm (set_option E ''verification-method'' v w))"
proof (intro conjI notI)
  show "approve_mode w = ApprovePassword"
    "has_valid_password w tmp \<longleftrightarrow> get_permanent_password w \<noteq> []"
    using assms
    by (auto simp: hide_cm_def temporary_enabled_def permanent_enabled_def has_valid_password_def)
  show "get_option w ''allow-hide-cm'' = ''Y''"
    using assms by (auto simp: hide_cm_def option2bool_def starts_with_def)
next
  assume "temporary_enabled w"
  then show False using assms by (auto simp: hide_cm_def temporary_enabled_def)
next
  assume "\<exists>v. v \<noteq> ''use-permanent-password'' \<and> savable w ''verification-method'' v \<and>
         default_settings (w_settings w) ''verification-method'' = None \<and>
         hide_cm (set_option E ''verification-method'' v w)"
  then obtain v where v: "v \<noteq> ''use-permanent-password''" "savable w ''verification-method'' v"
    "default_settings (w_settings w) ''verification-method'' = None"
    "hide_cm (set_option E ''verification-method'' v w)" by blast
  then have "get_option (set_option E ''verification-method'' v w) ''verification-method'' = v"
    using cfg_opts.get_set_same [of w "''verification-method''" v E]
    by (simp add: savable_def non_empty_def or_default_def)
  then show False
    using v by (simp add: hide_cm_def verification_method_def split: if_splits)
qed

definition strict_world :: world where
  "strict_world = demo_world\<lparr>w_config2 := default_config2\<lparr>c2_options :=
     [''approve-mode'' \<mapsto> ''password'', ''verification-method'' \<mapsto> ''use-permanent-password'',
      ''allow-hide-cm'' \<mapsto> ''Y'']\<rparr>\<rparr>"

theorem hide_cm_strict_witness:
  "approve_mode strict_world = ApprovePassword \<and> \<not> temporary_enabled strict_world \<and>
    get_option strict_world ''allow-hide-cm'' = ''Y'' \<and>
    (has_valid_password strict_world ''abc'' \<longleftrightarrow> get_permanent_password strict_world \<noteq> []) \<and>
    \<not> (\<exists>v. v \<noteq> ''use-permanent-password'' \<and> savable strict_world ''verification-method'' v \<and>
         default_settings (w_settings strict_world) ''verification-method'' = None \<and>
         hide_cm (set_option demo_env ''verification-method'' v strict_world))"
  by (rule hide_cm_strict)
     (simp add: hide_cm_def approve_mode_def verification_method_def get_option_def get_or_def
       or_default_def option2bool_def starts_with_def strict_world_def demo_world_def no_settings_def)

end
