(* ===== verification/PeerConfig.thy ===== *)
theory PeerConfig
  imports Complex_Main ConfigProps "HOL-Library.AList" "HOL-Library.Countable"
begin

text \<open>
  The per-peer files and the user's defaults of \<open>libs/hbb_common/src/config.rs\<close>: \<open>PeerConfig\<close> with
  its directory of files, \<open>UserDefaultConfig\<close> and the default values that serde takes from it. An
  \<open>f64\<close> is a rational, an infinity or NaN; its parser and printer are parameters.
\<close>

section \<open>Floating point values\<close>

datatype f64 = NaN | PosInf | NegInf | Fin rat

fun f64_le :: "f64 \<Rightarrow> f64 \<Rightarrow> bool" where
  "f64_le NaN y = False"
| "f64_le x NaN = False"
| "f64_le NegInf y = True"
| "f64_le x PosInf = True"
| "f64_le (Fin a) (Fin b) = (a \<le> b)"
| "f64_le x y = False"

text \<open>\<open>as i32\<close>: towards zero, saturating, NaN to 0.\<close>

definition i32_sat :: "int \<Rightarrow> int" where
  "i32_sat i = max (- (2 ^ 31)) (min (2 ^ 31 - 1) i)"

fun f64_to_i32 :: "f64 \<Rightarrow> int" where
  "f64_to_i32 NaN = 0"
| "f64_to_i32 PosInf = 2 ^ 31 - 1"
| "f64_to_i32 NegInf = - (2 ^ 31)"
| "f64_to_i32 (Fin a) = i32_sat (if 0 \<le> a then \<lfloor>a\<rfloor> else - \<lfloor>- a\<rfloor>)"

record fmt =
  parse_f64 :: "string \<Rightarrow> f64 option"
  show_f64 :: "f64 \<Rightarrow> string"

section \<open>User defaults\<close>

definition get_after :: "world \<Rightarrow> user_default_config \<Rightarrow> string \<Rightarrow> string option" where
  "get_after w c k = get_or (overwrite_display_settings (w_settings w)) (ud_options c)
     (default_display_settings (w_settings w)) k"

definition get_string :: "world \<Rightarrow> user_default_config \<Rightarrow> string \<Rightarrow> string \<Rightarrow> string list \<Rightarrow> string" where
  "get_string w c key dflt others =
    (case get_after w c key of
       Some option \<Rightarrow> if option \<in> set others then option else dflt
     | None \<Rightarrow> dflt)"

definition get_double_string ::
  "fmt \<Rightarrow> world \<Rightarrow> user_default_config \<Rightarrow> string \<Rightarrow> f64 \<Rightarrow> f64 \<Rightarrow> f64 \<Rightarrow> string" where
  "get_double_string F w c key dflt lo hi =
    (case get_after w c key of
       Some option \<Rightarrow>
         let v = (case parse_f64 F option of Some v \<Rightarrow> v | None \<Rightarrow> dflt)
         in if f64_le lo v \<and> f64_le v hi then show_f64 F v else show_f64 F dflt
     | None \<Rightarrow> show_f64 F dflt)"

text \<open>\<open>UserDefaultConfig::get\<close> of the desktop builds.\<close>

definition user_default_get :: "fmt \<Rightarrow> world \<Rightarrow> user_default_config \<Rightarrow> string \<Rightarrow> string" where
  "user_default_get F w c key =
    (if key = ''view_style'' then get_string w c key ''original'' [''adaptive'']
     else if key = ''scroll_style'' then get_string w c key ''scrollauto'' [''scrollbar'']
     else if key = ''image_quality'' then get_string w c key ''balanced'' [''best'', ''low'', ''custom'']
     else if key = ''codec-preference'' then
       get_string w c key ''auto'' [''vp8'', ''vp9'', ''av1'', ''h264'', ''h265'']
     else if key = ''custom_image_quality'' then get_double_string F w c key (Fin 50) (Fin 10) (Fin 0xFFF)
     else if key = ''custom-fps'' then get_double_string F w c key (Fin 30) (Fin 5) (Fin 120)
     else if key = ''enable-file-copy-paste'' then get_string w c key ''Y'' [[], ''N'']
     else or_default (get_after w c key))"

text \<open>
  \<open>set\<close> changes the value it is called on and stores it; the state is that value with the world.
\<close>

definition user_default_store :: "user_default_config \<Rightarrow> world \<Rightarrow> world" where
  "user_default_store c w = w\<lparr>d_default := store_path (w_disk_ok w) c (d_default w)\<rparr>"

definition user_default_set ::
  "string \<Rightarrow> string \<Rightarrow> user_default_config \<times> world \<Rightarrow> user_default_config \<times> world" where
  "user_default_set key v s =
    (let (c, w) = s in
     if \<not> is_option_can_save (overwrite_display_settings (w_settings w)) key
          (default_display_settings (w_settings w)) v
     then (c, w)
     else
       let c = (if v = [] then c\<lparr>ud_options := (ud_options c)(key := None)\<rparr>
                else c\<lparr>ud_options := (ud_options c)(key := Some v)\<rparr>)
       in (c, user_default_store c w))"

text \<open>\<open>UserDefaultConfig::read\<close>: the cached value is read again after a second.\<close>

definition user_default_refresh :: "world \<Rightarrow> world" where
  "user_default_refresh w =
    (if 1000 < w_now w - snd (w_user_default w)
     then w\<lparr>w_user_default := (user_default_load w, w_now w)\<rparr> else w)"

definition user_default_read :: "fmt \<Rightarrow> string \<Rightarrow> world \<Rightarrow> string \<times> world" where
  "user_default_read F key w =
    (let w = user_default_refresh w in (user_default_get F w (fst (w_user_default w)) key, w))"

definition default_custom_image_quality :: "fmt \<Rightarrow> world \<Rightarrow> int list" where
  "default_custom_image_quality F w =
    (let f = (case parse_f64 F (fst (user_default_read F ''custom_image_quality'' w)) of
                Some f \<Rightarrow> f | None \<Rightarrow> Fin 50)
     in [f64_to_i32 f])"

text \<open>
  \<open>deserialize_custom_image_quality\<close>, on the outcome of deserialising the list itself.
\<close>

definition deserialize_custom_image_quality ::
  "fmt \<Rightarrow> world \<Rightarrow> (string + int list) \<Rightarrow> string + int list" where
  "deserialize_custom_image_quality F w r =
    (case r of
       Inl e \<Rightarrow> Inl e
     | Inr v \<Rightarrow> if length v = 1 \<and> 10 \<le> v ! 0 \<and> v ! 0 \<le> 0xFFF then Inr v
               else Inr (default_custom_image_quality F w))"

text \<open>The macro \<open>serde_field_string\<close>: a wrong type and an empty string both give the default.\<close>

definition deserialize_string_field :: "fmt \<Rightarrow> world \<Rightarrow> string \<Rightarrow> string option \<Rightarrow> string" where
  "deserialize_string_field F w key r =
    (let s = (case r of Some s \<Rightarrow> s | None \<Rightarrow> fst (user_default_read F key w))
     in if s = [] then fst (user_default_read F key w) else s)"

text \<open>The macro \<open>serde_field_bool\<close>: the default of a flag.\<close>

definition default_bool_field :: "fmt \<Rightarrow> world \<Rightarrow> string \<Rightarrow> bool" where
  "default_bool_field F w key \<longleftrightarrow> fst (user_default_read F key w) = ''Y''"

section \<open>Peer configuration\<close>

record peer_config =
  pc_password :: bytes
  pc_size :: size
  pc_size_ft :: size
  pc_size_pf :: size
  pc_view_style :: string
  pc_scroll_style :: string
  pc_image_quality :: string
  pc_custom_image_quality :: "int list"
  pc_flags :: "string \<Rightarrow> bool"
  pc_port_forwards :: "(int \<times> string \<times> int) list"
  pc_direct_failures :: int
  pc_keyboard_mode :: string
  pc_reverse_mouse_wheel :: string
  pc_displays_as_individual_windows :: string
  pc_use_all_my_displays :: string
  pc_custom_resolutions :: "string \<Rightarrow> (int \<times> int) option"
  pc_options :: smap
  pc_ui_flutter :: smap
  pc_username :: string
  pc_hostname :: string
  pc_platform :: string
  pc_write_jobs :: "string list"
  pc_read_jobs :: "string list"

definition default_options :: "fmt \<Rightarrow> world \<Rightarrow> smap" where
  "default_options F w = map_of (map (\<lambda>key. (key, fst (user_default_read F key w)))
     [''codec-preference'', ''custom-fps'', ''zoom-cursor'', ''touch-mode'', ''i444'',
      ''swap-left-right-mouse'', ''collapse_toolbar''])"

definition default_peer_config :: "fmt \<Rightarrow> world \<Rightarrow> peer_config" where
  "default_peer_config F w = (let rd = (\<lambda>k. fst (user_default_read F k w)) in
    \<lparr>pc_password = [], pc_size = (0, 0, 0, 0), pc_size_ft = (0, 0, 0, 0), pc_size_pf = (0, 0, 0, 0),
     pc_view_style = rd ''view_style'', pc_scroll_style = rd ''scroll_style'',
     pc_image_quality = rd ''image_quality'',
     pc_custom_image_quality = default_custom_image_quality F w,
     pc_flags = default_bool_field F w, pc_port_forwards = [], pc_direct_failures = 0,
     pc_keyboard_mode = [], pc_reverse_mouse_wheel = rd ''reverse_mouse_wheel'',
     pc_displays_as_individual_windows = rd ''displays_as_individual_windows'',
     pc_use_all_my_displays = rd ''use_all_my_displays_for_the_remote_session'',
     pc_custom_resolutions = (\<lambda>_. None), pc_options = default_options F w,
     pc_ui_flutter = (\<lambda>_. None), pc_username = [], pc_hostname = [], pc_platform = [],
     pc_write_jobs = [], pc_read_jobs = []\<rparr>)"

text \<open>The directory of peers: file names with their contents and modification times.\<close>

record peer_dir =
  pd_files :: "(string \<times> peer_config slot \<times> int) list"
  pd_new_stored :: "string list"

definition forbidden_id :: "string \<Rightarrow> bool" where
  "forbidden_id i \<longleftrightarrow> list_ex (\<lambda>c. c \<in> set ''<>:/|?*'' \<or> of_char c = (92 :: nat)) i"

text \<open>
  \<open>PeerConfig::path\<close>, the name below \<open>peers/\<close>; \<open>Config::with_extension\<close> appends \<open>.toml\<close> to a file
  name whether it has an extension or not.
\<close>

definition with_extension :: "string \<Rightarrow> string" where
  "with_extension name = name @ ''.toml''"

definition peer_path :: "env \<Rightarrow> string \<Rightarrow> string" where
  "peer_path E i =
    with_extension (if forbidden_id i then ''base64_'' @ base64_encode (e_crypto E) (as_bytes i) else i)"

definition secret_opts :: "string list" where
  "secret_opts = [''rdp_password'', ''os-username'', ''os-password'']"

definition map_opt :: "(string \<Rightarrow> string) \<Rightarrow> string \<Rightarrow> smap \<Rightarrow> smap" where
  "map_opt f k m = (case m k of Some v \<Rightarrow> m(k := Some (f v)) | None \<Rightarrow> m)"

definition peer_store :: "env \<Rightarrow> bool \<Rightarrow> int \<Rightarrow> peer_config \<Rightarrow> string \<Rightarrow> peer_dir \<Rightarrow> peer_dir" where
  "peer_store E ok now c i d =
    (let c = c\<lparr>pc_password := encrypt_vec_or_original (e_crypto E) (pc_password c) password_enc_version encrypt_max_len\<rparr>;
         c = c\<lparr>pc_options := fold (map_opt (enc E)) secret_opts (pc_options c)\<rparr>;
         d = (if ok then d\<lparr>pd_files := AList.update (peer_path E i) (Stored c, now) (pd_files d)\<rparr> else d)
     in d\<lparr>pd_new_stored := List.insert i (pd_new_stored d)\<rparr>)"

definition dec_opts :: "env \<Rightarrow> smap \<Rightarrow> smap \<times> bool" where
  "dec_opts E m = fold (\<lambda>k (m, store).
     case m k of
       Some v \<Rightarrow> (let (s, _, store2) = dec E v in (m(k := Some s), store \<or> store2))
     | None \<Rightarrow> (m, store)) secret_opts (m, False)"

definition peer_load ::
  "env \<Rightarrow> fmt \<Rightarrow> world \<Rightarrow> string \<Rightarrow> peer_dir \<Rightarrow> peer_config \<times> peer_dir" where
  "peer_load E F w i d =
    (case map_of (pd_files d) (peer_path E i) of
       Some (Stored c, _) \<Rightarrow>
         let (password, _, store) = decrypt_vec_or_original (e_crypto E) (pc_password c) password_enc_version;
             c = c\<lparr>pc_password := password\<rparr>;
             (opts, store2) = dec_opts E (pc_options c);
             c = c\<lparr>pc_options := opts\<rparr>
         in (c, if store \<or> store2 then peer_store E (w_disk_ok w) (w_now w) c i d else d)
     | _ \<Rightarrow> (default_peer_config F w, d))"

definition peer_remove :: "env \<Rightarrow> string \<Rightarrow> peer_dir \<Rightarrow> peer_dir" where
  "peer_remove E i d = d\<lparr>pd_files := AList.delete (peer_path E i) (pd_files d)\<rparr>"

definition peer_exists :: "env \<Rightarrow> string \<Rightarrow> peer_dir \<Rightarrow> bool" where
  "peer_exists E i d \<longleftrightarrow> map_of (pd_files d) (peer_path E i) \<noteq> None"

text \<open>\<open>PeerConfig::peers\<close>: the id of a file, then the loop over the listed files.\<close>

definition peer_id_of_file :: "env \<Rightarrow> string \<Rightarrow> string" where
  "peer_id_of_file E name =
    (let i = take (length name - 5) name in
     if starts_with ''base64_'' i \<and> length i \<noteq> 7 then
       from_utf8_lossy (e_crypto E)
         (case base64_decode (e_crypto E) (as_bytes (drop 7 i)) of Some b \<Rightarrow> b | None \<Rightarrow> [])
     else i)"

fun load_listed ::
  "env \<Rightarrow> fmt \<Rightarrow> world \<Rightarrow> (string \<times> string \<times> int) list \<Rightarrow> peer_dir
    \<Rightarrow> (string \<times> int \<times> peer_config) list \<times> peer_dir" where
  "load_listed E F w [] d = ([], d)"
| "load_listed E F w ((i, name, t) # fs) d =
    (let (c, d) = peer_load E F w i d;
         d = (if pc_platform c = [] then d\<lparr>pd_files := AList.delete name (pd_files d)\<rparr> else d);
         (rest, d) = load_listed E F w fs d
     in (if pc_platform c = [] then rest else (i, t, c) # rest, d))"

definition peers :: "env \<Rightarrow> fmt \<Rightarrow> world \<Rightarrow> string list option \<Rightarrow> peer_dir
    \<Rightarrow> (string \<times> int \<times> peer_config) list \<times> peer_dir" where
  "peers E F w filters d =
    (let names = filter (\<lambda>(name, _). ends_with ''.toml'' name \<and> name \<noteq> ''.toml'') (pd_files d);
         ids = map (\<lambda>(name, _, t). (peer_id_of_file E name, name, t)) names;
         ids = filter (\<lambda>(i, _). case filters of None \<Rightarrow> True | Some fs \<Rightarrow> i \<in> set fs) ids;
         (ps, d) = load_listed E F w ids d
     in (sort_key (\<lambda>(_, t, _). - t) ps, d))"


section \<open>Lemmas\<close>

interpretation user_defaults: option_layer "\<lambda>(c, w) k. or_default (get_after w c k)" user_default_set
    "\<lambda>(c, w). overwrite_display_settings (w_settings w)" "\<lambda>(c, w). ud_options c"
    "\<lambda>(c, w). default_display_settings (w_settings w)"
    "\<lambda>(c, w) k v. overwrite_display_settings (w_settings w) k = None \<and>
       default_display_settings (w_settings w) k \<noteq> Some v" non_empty
  by unfold_locales
     (auto simp: get_after_def user_default_set_def Let_def is_option_can_save_iff non_empty_def
       user_default_store_def split: prod.splits)

lemma get_string_valid: "get_string w c key dflt others \<in> insert dflt (set others)"
  by (auto simp: get_string_def split: option.splits)

lemma get_double_string_cases:
  obtains v where "get_double_string F w c key dflt lo hi = show_f64 F v"
    "v = dflt \<or> f64_le lo v \<and> f64_le v hi"
proof (cases "get_after w c key")
  case None
  then show ?thesis using that [of dflt] by (simp add: get_double_string_def)
next
  case (Some s)
  define v where "v = (case parse_f64 F s of Some v \<Rightarrow> v | None \<Rightarrow> dflt)"
  show ?thesis
  proof (cases "f64_le lo v \<and> f64_le v hi")
    case True
    then show ?thesis using that [of v] Some by (simp add: get_double_string_def v_def)
  next
    case False
    then show ?thesis using that [of dflt] Some by (auto simp: get_double_string_def v_def)
  qed
qed

lemma f64_le_Fin: "f64_le (Fin a) v \<Longrightarrow> f64_le v (Fin b) \<Longrightarrow> \<exists>q. v = Fin q \<and> a \<le> q \<and> q \<le> b"
  by (cases v) auto

lemma f64_to_i32_range:
  assumes "of_int lo \<le> q" "q \<le> of_int hi" "0 \<le> lo" "hi < 2 ^ 31"
  shows "lo \<le> f64_to_i32 (Fin q) \<and> f64_to_i32 (Fin q) \<le> hi"
proof -
  have "lo \<le> \<lfloor>q\<rfloor>" using assms(1) by (simp add: le_floor_iff)
  moreover have "\<lfloor>q\<rfloor> \<le> hi" using assms(2) by (meson floor_le_iff le_less_trans less_add_one)
  moreover have "0 \<le> q" using assms(1,3) by (meson of_int_0_le_iff order_trans)
  ultimately show ?thesis using assms(3,4) by (simp add: i32_sat_def)
qed

lemma default_custom_image_quality_range:
  assumes "\<forall>v. parse_f64 F (show_f64 F v) = Some v"
  shows "\<exists>q. default_custom_image_quality F w = [q] \<and> 10 \<le> q \<and> q \<le> 0xFFF"
proof -
  let ?w = "user_default_refresh w" and ?key = "''custom_image_quality''"
  obtain v where v: "get_double_string F ?w (fst (w_user_default ?w)) ?key (Fin 50) (Fin 10) (Fin 0xFFF) = show_f64 F v"
      "v = Fin 50 \<or> f64_le (Fin 10) v \<and> f64_le v (Fin 0xFFF)"
    using get_double_string_cases [of F ?w "fst (w_user_default ?w)" ?key "Fin 50" "Fin 10" "Fin 0xFFF"] by blast
  obtain q where q: "v = Fin q" "10 \<le> q" "q \<le> 0xFFF"
    using v(2) f64_le_Fin by force
  have "default_custom_image_quality F w = [f64_to_i32 v]"
    using v(1) assms
    by (simp add: default_custom_image_quality_def user_default_read_def user_default_get_def Let_def)
  then show ?thesis using f64_to_i32_range [of 10 q "0xFFF"] q by simp
qed

lemma map_opt_apply: "map_opt f k m k' = (if k' = k then map_option f (m k) else m k')"
  by (auto simp: map_opt_def split: option.splits)

lemma fold_map_opt: "distinct ks \<Longrightarrow> fold (map_opt f) ks m k = (if k \<in> set ks then map_option f (m k) else m k)"
  by (induction ks arbitrary: m) (auto simp: map_opt_apply)

definition dec_step :: "env \<Rightarrow> string \<Rightarrow> smap \<times> bool \<Rightarrow> smap \<times> bool" where
  "dec_step E k ms =
    (case fst ms k of
       Some v \<Rightarrow> ((fst ms)(k := Some (fst (dec E v))), snd ms \<or> snd (snd (dec E v)))
     | None \<Rightarrow> ms)"

lemma dec_opts_eq: "dec_opts E m = fold (dec_step E) secret_opts (m, False)"
  unfolding dec_opts_def
  by (rule arg_cong [where f = "\<lambda>f. fold f secret_opts (m, False)"])
     (auto simp: fun_eq_iff dec_step_def split: option.splits prod.splits)

lemma dec_opts_fold_enc:
  assumes "crypto_ok (e_crypto E)" "\<forall>k \<in> set ks. \<forall>v. m k = Some v \<longrightarrow> plain_secret E v" "distinct ks"
    and "\<And>k. m' k = (if k \<in> set ks then map_option (enc E) (m k) else m k)"
  shows "fold (dec_step E) ks (m', b) = (m, b)"
  using assms(2-4)
proof (induction ks arbitrary: m')
  case Nil
  then show ?case by (simp add: fun_eq_iff)
next
  case (Cons k ks)
  define m1 where "m1 = m'(k := m k)"
  have "fold (dec_step E) ks (m1, b) = (m, b)"
    by (rule Cons.IH) (use Cons.prems in \<open>auto simp: m1_def\<close>)
  moreover have "dec_step E k (m', b) = (m1, b)"
  proof (cases "m k")
    case None
    then show ?thesis using Cons.prems(3) [of k] by (simp add: dec_step_def m1_def fun_upd_idem)
  next
    case (Some v)
    then have "dec E (enc E v) = (v, v \<noteq> [], False)"
      using dec_enc [OF assms(1)] Cons.prems(1) by simp
    then show ?thesis using Some Cons.prems(3) [of k] by (simp add: dec_step_def m1_def)
  qed
  ultimately show ?case by simp
qed

text \<open>A peer configuration whose secrets can be stored.\<close>

definition storable_peer :: "env \<Rightarrow> peer_config \<Rightarrow> bool" where
  "storable_peer E c \<longleftrightarrow> length (pc_password c) \<le> encrypt_max_len \<and>
     \<not> fst (snd (decrypt_vec_or_original (e_crypto E) (pc_password c) ''00'')) \<and>
     (\<forall>k \<in> set secret_opts. \<forall>v. pc_options c k = Some v \<longrightarrow> plain_secret E v)"

lemma distinct_secret_opts: "distinct secret_opts"
  by (simp add: secret_opts_def)

definition demo_fmt :: fmt where
  "demo_fmt = \<lparr>parse_f64 = (\<lambda>s. Some (Fin 50)), show_f64 = (\<lambda>v. ''50'')\<rparr>"

text \<open>A printer and a parser that are inverse to each other: tallies of an enumeration of the rationals.\<close>

fun f64_tally :: "f64 \<Rightarrow> nat" where
  "f64_tally NaN = 0"
| "f64_tally PosInf = 1"
| "f64_tally NegInf = 2"
| "f64_tally (Fin q) = 3 + to_nat q"

definition counting_fmt :: fmt where
  "counting_fmt = \<lparr>
     parse_f64 = (\<lambda>s. let n = length s in Some (if n = 0 then NaN else if n = 1 then PosInf
        else if n = 2 then NegInf else Fin (from_nat (n - 3)))),
     show_f64 = (\<lambda>v. replicate (f64_tally v) CHR ''1'')\<rparr>"

lemma counting_fmt_roundtrip: "parse_f64 counting_fmt (show_f64 counting_fmt v) = Some v"
  by (cases v) (simp_all add: counting_fmt_def)


section \<open>Properties\<close>

text \<open>
  a peer's file reads back: loading what \<open>PeerConfig::store\<close> wrote gives the configuration
  that was stored, with its password and the three secret options decrypted, and does not write
  the file again.
\<close>

theorem peer_store_load:
  assumes "crypto_ok (e_crypto E)" "rust_string (e_crypto E) ''00''" "storable_peer E c"
  shows "peer_load E F w i (peer_store E True now c i d) = (c, peer_store E True now c i d)"
proof -
  define m' where "m' = fold (map_opt (enc E)) secret_opts (pc_options c)"
  have "\<And>k. m' k = (if k \<in> set secret_opts then map_option (enc E) (pc_options c k) else pc_options c k)"
    by (simp add: m'_def fold_map_opt distinct_secret_opts)
  then have "dec_opts E m' = (pc_options c, False)"
    unfolding dec_opts_eq using assms(1,3)
    by (intro dec_opts_fold_enc) (auto simp: storable_peer_def distinct_secret_opts)
  moreover have "decrypt_vec_or_original (e_crypto E)
      (encrypt_vec_or_original (e_crypto E) (pc_password c) ''00'' encrypt_max_len) ''00'' = (pc_password c, pc_password c \<noteq> [], False)"
    using decrypt_encrypt_vec [OF assms(1,2), of "pc_password c" encrypt_max_len "''00''"] assms(3)
    by (simp add: storable_peer_def)
  ultimately show ?thesis
    by (simp add: peer_load_def peer_store_def Let_def update_conv' m'_def [symmetric] password_enc_version_def)
qed

theorem peer_store_load_witness:
  "let c = (default_peer_config demo_fmt demo_world)\<lparr>pc_password := [1], pc_options := [''os-password'' \<mapsto> ''pw'']\<rparr>
   in peer_load demo_env demo_fmt demo_world ''7'' (peer_store demo_env True 5 c ''7'' \<lparr>pd_files = [], pd_new_stored = []\<rparr>)
     = (c, peer_store demo_env True 5 c ''7'' \<lparr>pd_files = [], pd_new_stored = []\<rparr>)"
  unfolding Let_def
  by (rule peer_store_load)
     (simp_all add: demo_crypto_ok demo_rust_string storable_peer_def secret_opts_def demo_plain
       decrypt_vec_or_original_def version_len_def, simp add: encrypt_max_len_def)

text \<open>
  the custom image quality is always usable: whatever list a file holds and whatever the user's
  defaults and the custom client say, deserialising it gives one number between 10 and 4095,
  provided \<open>f64\<close> values survive printing and parsing.
\<close>

theorem custom_image_quality_range:
  assumes "\<forall>v. parse_f64 F (show_f64 F v) = Some v"
  shows "\<exists>q. deserialize_custom_image_quality F w (Inr v) = Inr [q] \<and> 10 \<le> q \<and> q \<le> 0xFFF"
proof (cases "length v = 1 \<and> 10 \<le> v ! 0 \<and> v ! 0 \<le> 0xFFF")
  case True
  then obtain q where "v = [q]" by (auto simp: length_Suc_conv)
  with True show ?thesis by (simp add: deserialize_custom_image_quality_def)
next
  case False
  then show ?thesis
    using default_custom_image_quality_range [OF assms, of w]
    by (auto simp: deserialize_custom_image_quality_def)
qed

theorem custom_image_quality_range_witness:
  "\<exists>q. deserialize_custom_image_quality counting_fmt demo_world (Inr [7]) = Inr [q] \<and> 10 \<le> q \<and> q \<le> 0xFFF"
  by (rule custom_image_quality_range) (simp add: counting_fmt_roundtrip)

text \<open>
  C34: the user's defaults are validated when they are read: whatever is saved or fixed by the
  custom client, the view style, scroll style, image quality and codec preference read as one of
  their known names, and the frame rate as a printed number from 5 to 120.
\<close>

theorem user_default_get_valid:
  "user_default_get F w c ''view_style'' \<in> {''original'', ''adaptive''} \<and>
   user_default_get F w c ''scroll_style'' \<in> {''scrollauto'', ''scrollbar''} \<and>
   user_default_get F w c ''image_quality'' \<in> {''balanced'', ''best'', ''low'', ''custom''} \<and>
   user_default_get F w c ''codec-preference'' \<in> {''auto'', ''vp8'', ''vp9'', ''av1'', ''h264'', ''h265''} \<and>
   (\<exists>q. user_default_get F w c ''custom-fps'' = show_f64 F (Fin q) \<and> 5 \<le> q \<and> q \<le> 120)"
proof (intro conjI)
  obtain v where v: "get_double_string F w c ''custom-fps'' (Fin 30) (Fin 5) (Fin 120) = show_f64 F v"
      "v = Fin 30 \<or> f64_le (Fin 5) v \<and> f64_le v (Fin 120)"
    using get_double_string_cases [of F w c "''custom-fps''" "Fin 30" "Fin 5" "Fin 120"] by blast
  then obtain q where "v = Fin q" "5 \<le> q" "q \<le> 120" using f64_le_Fin by force
  then show "\<exists>q. user_default_get F w c ''custom-fps'' = show_f64 F (Fin q) \<and> 5 \<le> q \<and> q \<le> 120"
    using v(1) by (auto simp: user_default_get_def)
qed (use get_string_valid in \<open>force simp: user_default_get_def\<close>)+

text \<open>
  a peer id is recovered from the name of its file, for every id that is not empty and does not
  itself begin with the marker \<open>base64_\<close>, so two such ids never share a file.
\<close>

theorem peer_path_roundtrip:
  assumes "crypto_ok (e_crypto E)" "rust_string (e_crypto E) i" "\<not> starts_with ''base64_'' i"
  shows "peer_id_of_file E (peer_path E i) = i"
proof (cases "forbidden_id i")
  case True
  then have ne: "as_bytes i \<noteq> []" by (auto simp: forbidden_id_def)
  have "base64_encode (e_crypto E) (as_bytes i) \<noteq> []"
    and "base64_decode (e_crypto E) (as_bytes (base64_encode (e_crypto E) (as_bytes i))) = Some (as_bytes i)"
    using assms(1) ne unfolding crypto_ok_def by metis+
  then show ?thesis using True assms(2)
    by (simp add: peer_path_def peer_id_of_file_def with_extension_def starts_with_def rust_string_def)
next
  case False
  then show ?thesis using assms(3) by (simp add: peer_path_def peer_id_of_file_def with_extension_def)
qed

theorem peer_path_roundtrip_witness:
  "peer_id_of_file demo_env (peer_path demo_env ''a:1'') = ''a:1''"
  by (rule peer_path_roundtrip) (simp_all add: demo_crypto_ok demo_rust_string starts_with_def)

text \<open>
  the encoded file name can itself hold a path separator: the standard Base64 alphabet has the
  slash, as in the encoding \<open>Pz8/\<close> of three question marks, so the file of such an id is not in the
  directory of peers that \<open>peers\<close> lists.
\<close>

theorem peer_path_separator:
  assumes "base64_encode (e_crypto E) [63, 63, 63] = ''Pz8/''"
  shows "peer_path E ''???'' = ''base64_Pz8/.toml'' \<and> CHR ''/'' \<in> set (peer_path E ''???'')"
proof -
  have "as_bytes ''???'' = [63, 63, 63]" by (simp add: as_bytes_def)
  then show ?thesis using assms by (simp add: peer_path_def forbidden_id_def with_extension_def)
qed

theorem peer_path_separator_witness:
  "peer_path (demo_env\<lparr>e_crypto := demo_crypto\<lparr>base64_encode := (\<lambda>_. ''Pz8/'')\<rparr>\<rparr>) ''???'' = ''base64_Pz8/.toml'' \<and>
   CHR ''/'' \<in> set (peer_path (demo_env\<lparr>e_crypto := demo_crypto\<lparr>base64_encode := (\<lambda>_. ''Pz8/'')\<rparr>\<rparr>) ''???'')"
  by (rule peer_path_separator) simp

end
