(* ===== verification/LinuxSession.thy ===== *)
theory LinuxSession
  imports ConfigOps "HOL-Library.Multiset"
begin

text \<open>
  The sessions of a Linux desktop, \<open>libs/hbb_common/src/platform/linux.rs\<close>, and the signal handler of
  \<open>platform/mod.rs\<close>. The environment variables and the commands that can be run are arguments; a
  command is a function of its arguments, so the sessions stay as they are while the code looks at
  them, and its output is the text after \<open>from_utf8_lossy\<close>.
\<close>

section \<open>Commands\<close>

text \<open>The output of a program with its arguments, if it can be started, and of \<open>sh -c\<close>.\<close>

record linux_env =
  le_var :: "string \<Rightarrow> string option"
  le_run :: "string \<Rightarrow> string list \<Rightarrow> string option"

definition run_cmds :: "linux_env \<Rightarrow> string \<Rightarrow> string option" where
  "run_cmds E cmds = le_run E ''sh'' [''-c'', cmds]"

definition run_cmds_trim_newline :: "linux_env \<Rightarrow> string \<Rightarrow> string option" where
  "run_cmds_trim_newline E cmds =
    (case le_run E ''sh'' [''-c'', cmds] of
       None \<Rightarrow> None
     | Some out \<Rightarrow> Some (if ends_with [CHR 0x0A] out then butlast out else out))"

definition run_loginctl :: "linux_env \<Rightarrow> string list option \<Rightarrow> string option" where
  "run_loginctl E args =
    (let direct = le_run E ''loginctl'' (case args of Some a \<Rightarrow> a | None \<Rightarrow> [])
     in if le_var E ''FLATPAK_ID'' \<noteq> None then
          let l_args = (case args of Some a \<Rightarrow> ''loginctl '' @ join '' '' a | None \<Rightarrow> ''loginctl'') in
          (case le_run E ''flatpak-spawn'' [''--host'', l_args] of
             Some res \<Rightarrow> Some res
           | None \<Rightarrow> direct)
        else direct)"

text \<open>\<open>trim_matches\<close> by a character, \<open>split_whitespace\<close> and the n-th word of a line.\<close>

definition trim_char :: "char \<Rightarrow> string \<Rightarrow> string" where
  "trim_char c s = rev (dropWhile (\<lambda>x. x = c) (rev (dropWhile (\<lambda>x. x = c) s)))"

fun split_ws :: "string \<Rightarrow> string list" where
  "split_ws [] = [[]]"
| "split_ws (x # xs) =
    (if is_ws x then [] # split_ws xs
     else case split_ws xs of [] \<Rightarrow> [[x]] | w # ws \<Rightarrow> (x # w) # ws)"

definition split_whitespace :: "string \<Rightarrow> string list" where
  "split_whitespace s = filter (\<lambda>w. w \<noteq> []) (split_ws s)"

definition nth_word :: "nat \<Rightarrow> string \<Rightarrow> string" where
  "nth_word n s = (let ws = split_whitespace s in if n < length ws then ws ! n else [])"

record distro =
  di_name :: string
  di_version_id :: string

definition os_release :: "linux_env \<Rightarrow> string \<Rightarrow> string" where
  "os_release E cmd = trim_char CHR 0x22 (trim (case run_cmds E cmd of Some s \<Rightarrow> s | None \<Rightarrow> []))"

definition distro_new :: "linux_env \<Rightarrow> distro" where
  "distro_new E =
    \<lparr>di_name = os_release E ''awk -F'=' '/^NAME=/ {print $2}' /etc/os-release'',
     di_version_id = os_release E ''awk -F'=' '/^VERSION_ID=/ {print $2}' /etc/os-release''\<rparr>"

definition is_kde :: "linux_env \<Rightarrow> bool" where
  "is_kde E = (case le_var E ''XDG_CURRENT_DESKTOP'' of Some v \<Rightarrow> v = ''KDE'' | None \<Rightarrow> False)"

section \<open>Sessions\<close>

definition wayland :: string where "wayland = ''wayland''"
definition x11 :: string where "x11 = ''x11''"
definition invalid_session :: string where "invalid_session = ''4294967295''"

definition is_gdm_user :: "string \<Rightarrow> bool" where
  "is_gdm_user username \<longleftrightarrow> username = ''gdm''"

definition get_display_server_of_session :: "linux_env \<Rightarrow> string \<Rightarrow> string" where
  "get_display_server_of_session E session =
    (let display_server =
           (case run_loginctl E (Some [''show-session'', ''-p'', ''Type'', session]) of
              Some output \<Rightarrow> trim_end (replace_str ''Type='' [] output)
            | None \<Rightarrow> [])
     in if display_server = [] \<or> display_server = ''tty'' then
          (case le_var E ''XDG_SESSION_TYPE'' of
             Some sestype \<Rightarrow> if sestype \<noteq> [] then to_lowercase sestype else to_lowercase x11
           | None \<Rightarrow> to_lowercase x11)
        else to_lowercase display_server)"

definition is_active :: "linux_env \<Rightarrow> string \<Rightarrow> bool" where
  "is_active E sid =
    (case run_loginctl E (Some [''show-session'', ''-p'', ''State'', sid]) of
       Some output \<Rightarrow> contains_str ''active'' output
     | None \<Rightarrow> False)"

definition is_active_and_seat0 :: "linux_env \<Rightarrow> string \<Rightarrow> bool" where
  "is_active_and_seat0 E sid =
    (case run_loginctl E (Some [''show-session'', sid]) of
       Some output \<Rightarrow> contains_str ''State=active'' output \<and> contains_str ''Seat=seat0'' output
     | None \<Rightarrow> False)"

definition line_values :: "nat list \<Rightarrow> string \<Rightarrow> string list" where
  "line_values indices line = map (\<lambda>idx. nth_word idx line) indices"

definition ignore_loginctl_line :: "string \<Rightarrow> bool" where
  "ignore_loginctl_line line \<longleftrightarrow> contains_str ''sessions'' line \<or> length (split_on CHR '' '' line) < 4"

text \<open>The two loops over the lines of \<open>loginctl\<close>: the line they return the values of, if any.\<close>

fun seat0_loop :: "linux_env \<Rightarrow> bool \<Rightarrow> string list \<Rightarrow> string option" where
  "seat0_loop E ignore_gdm_wayland [] = None"
| "seat0_loop E ignore_gdm_wayland (line # lines) =
    (if ignore_loginctl_line line then seat0_loop E ignore_gdm_wayland lines
     else if contains_str ''seat0'' line then
       (case split_whitespace line of
          [] \<Rightarrow> seat0_loop E ignore_gdm_wayland lines
        | sid # _ \<Rightarrow>
            if is_active E sid then
              if ignore_gdm_wayland \<and> is_gdm_user (nth_word 2 line)
                 \<and> get_display_server_of_session E sid = wayland
              then seat0_loop E ignore_gdm_wayland lines
              else Some line
            else seat0_loop E ignore_gdm_wayland lines)
     else seat0_loop E ignore_gdm_wayland lines)"

fun any_seat_loop :: "linux_env \<Rightarrow> bool \<Rightarrow> string list \<Rightarrow> string option" where
  "any_seat_loop E ignore_gdm_wayland [] = None"
| "any_seat_loop E ignore_gdm_wayland (line # lines) =
    (if ignore_loginctl_line line then any_seat_loop E ignore_gdm_wayland lines
     else
       case split_whitespace line of
         [] \<Rightarrow> any_seat_loop E ignore_gdm_wayland lines
       | sid # _ \<Rightarrow>
           if is_active E sid then
             let d = get_display_server_of_session E sid in
             if ignore_gdm_wayland \<and> is_gdm_user (nth_word 2 line) \<and> d = wayland
             then any_seat_loop E ignore_gdm_wayland lines
             else if d = ''tty'' then any_seat_loop E ignore_gdm_wayland lines
             else Some line
           else any_seat_loop E ignore_gdm_wayland lines)"

definition values_of_seat0 :: "linux_env \<Rightarrow> nat list \<Rightarrow> bool \<Rightarrow> string list" where
  "values_of_seat0 E indices ignore_gdm_wayland =
    (case run_loginctl E None of
       None \<Rightarrow> line_values indices []
     | Some output \<Rightarrow>
         (case seat0_loop E ignore_gdm_wayland (str_lines output) of
            Some line \<Rightarrow> line_values indices line
          | None \<Rightarrow>
              (case any_seat_loop E ignore_gdm_wayland (str_lines output) of
                 Some line \<Rightarrow> line_values indices line
               | None \<Rightarrow> line_values indices [])))"

definition get_values_of_seat0 :: "linux_env \<Rightarrow> nat list \<Rightarrow> string list" where
  "get_values_of_seat0 E indices = values_of_seat0 E indices True"

definition get_values_of_seat0_with_gdm_wayland :: "linux_env \<Rightarrow> nat list \<Rightarrow> string list" where
  "get_values_of_seat0_with_gdm_wayland E indices = values_of_seat0 E indices False"

text \<open>The session \<open>get_display_server\<close> settles on; indexing its values with 0 is the \<open>hd\<close> of one value.\<close>

definition own_session :: "linux_env \<Rightarrow> string" where
  "own_session E =
    (let session = get_values_of_seat0 E [0] ! 0 in
     if session \<noteq> [] then session
     else
       let session = (case le_var E ''XDG_SESSION_ID'' of Some sid \<Rightarrow> sid | None \<Rightarrow> session) in
       if session \<noteq> [] then session
       else
         let session = (case run_cmds E ''cat /proc/self/sessionid'' of Some s \<Rightarrow> s | None \<Rightarrow> []) in
         if session = invalid_session then [] else session)"

definition get_display_server :: "linux_env \<Rightarrow> string" where
  "get_display_server E =
    (case le_var E ''RUSTDESK_FORCED_DISPLAY_SERVER'' of
       Some forced_display \<Rightarrow> forced_display
     | None \<Rightarrow>
         if run_loginctl E None = None then x11
         else
           let session = own_session E in
           if session = [] then (case le_var E ''XDG_SESSION_TYPE'' of Some t \<Rightarrow> t | None \<Rightarrow> ''x11'')
           else get_display_server_of_session E session)"

definition is_desktop_wayland :: "linux_env \<Rightarrow> bool" where
  "is_desktop_wayland E \<longleftrightarrow> get_display_server E = wayland"

definition is_x11_or_headless :: "linux_env \<Rightarrow> bool" where
  "is_x11_or_headless E \<longleftrightarrow> \<not> is_desktop_wayland E"

section \<open>Messages and crashes\<close>

text \<open>\<open>system_message\<close>: the commands, tried in the order of the hash map until one starts.\<close>

definition message_cmds :: "string \<Rightarrow> string \<Rightarrow> bool \<Rightarrow> (string \<times> string list) list" where
  "message_cmds title msg forever =
    [(''notify-send'', [title, msg]),
     (''zenity'', [''--info'', ''--timeout'', if forever then ''0'' else ''3'', ''--title'', title, ''--text'', msg]),
     (''kdialog'', [''--title'', title, ''--msgbox'', msg]),
     (''xmessage'', [''-center'', ''-timeout'', if forever then ''0'' else ''3'', title, msg])]"

fun try_spawn :: "(string \<Rightarrow> string list \<Rightarrow> bool) \<Rightarrow> (string \<times> string list) list \<Rightarrow> (string \<times> string list) option" where
  "try_spawn starts [] = None"
| "try_spawn starts ((k, v) # cmds) = (if starts k v then Some (k, v) else try_spawn starts cmds)"

text \<open>The handler of crashes: what of the call stack changes which option, and the message.\<close>

definition in_stack :: "(string \<Rightarrow> bool) \<Rightarrow> string list \<Rightarrow> bool" where
  "in_stack p stack \<longleftrightarrow> list_ex p stack"

definition names_software_render :: "string \<Rightarrow> bool" where
  "names_software_render s \<longleftrightarrow> contains_str ''nouveau_pushbuf_kick'' s \<or> contains_str ''nvidia'' (to_lowercase s)
    \<or> contains_str ''gdk_window_end_draw_frame'' s \<or> contains_str ''glGetString'' s"

definition names_hwcodec :: "string \<Rightarrow> bool" where
  "names_hwcodec s \<longleftrightarrow> contains_str ''nvidia'' (to_lowercase s) \<or> contains_str ''amf'' (to_lowercase s)
    \<or> contains_str ''mfx'' (to_lowercase s) \<or> contains_str ''cuProfilerStop'' s"

definition breakdown_signal_handler :: "env \<Rightarrow> string list \<Rightarrow> world \<Rightarrow> string \<times> world" where
  "breakdown_signal_handler E stack w =
    (let (info, w) =
           (if in_stack names_software_render stack
            then (''Always use software rendering will be set.'', set_option E ''allow-always-software-render'' ''Y'' w)
            else ([], w))
     in if in_stack names_hwcodec stack
        then (''Perhaps hwcodec causing the crash, disable it first'', set_option E ''enable-hwcodec'' ''N'' w)
        else (info, w))"

section \<open>The session of the seat\<close>

text \<open>What both loops ask of a line, and the session it begins with.\<close>

definition usable_session :: "linux_env \<Rightarrow> bool \<Rightarrow> string \<Rightarrow> bool" where
  "usable_session E ignore_gdm_wayland line \<longleftrightarrow>
    \<not> ignore_loginctl_line line \<and> split_whitespace line \<noteq> [] \<and> is_active E (nth_word 0 line)
    \<and> \<not> (ignore_gdm_wayland \<and> is_gdm_user (nth_word 2 line)
         \<and> get_display_server_of_session E (nth_word 0 line) = wayland)"

lemma nth_word_0: "split_whitespace line = sid # ws \<Longrightarrow> nth_word 0 line = sid"
  by (simp add: nth_word_def)

lemma nth_word_neq_Nil: "split_whitespace line \<noteq> [] \<Longrightarrow> nth_word 0 line \<noteq> []"
  by (cases "split_whitespace line")
    (auto simp: nth_word_def split_whitespace_def dest: filter_eq_ConsD)

lemma seat0_loop_find:
  "seat0_loop E ign lines = List.find (\<lambda>l. usable_session E ign l \<and> contains_str ''seat0'' l) lines"
  by (induction lines) (auto simp: usable_session_def nth_word_0 split: list.splits)

lemma any_seat_loop_find:
  "any_seat_loop E ign lines =
    List.find (\<lambda>l. usable_session E ign l \<and> get_display_server_of_session E (nth_word 0 l) \<noteq> ''tty'') lines"
  by (induction lines) (auto simp: usable_session_def nth_word_0 Let_def split: list.splits)

lemma nth_word_Nil [simp]: "nth_word n [] = []"
  by (simp add: nth_word_def split_whitespace_def)

text \<open>
  The line the values come from is the first usable one with the seat \<open>seat0\<close>, and without one the
  first usable one that is not a terminal.
\<close>

theorem seat0_values_first:
  "values_of_seat0 E indices ign =
    (case run_loginctl E None of
       None \<Rightarrow> map (\<lambda>_. []) indices
     | Some output \<Rightarrow>
         let lines = filter (usable_session E ign) (str_lines output);
             seated = filter (contains_str ''seat0'') lines;
             rest = filter (\<lambda>l. get_display_server_of_session E (nth_word 0 l) \<noteq> ''tty'') lines
         in case seated @ rest of
              [] \<Rightarrow> map (\<lambda>_. []) indices
            | line # _ \<Rightarrow> map (\<lambda>n. nth_word n line) indices)"
proof -
  have find: "List.find P xs = (case filter P xs of [] \<Rightarrow> None | x # _ \<Rightarrow> Some x)" for P and xs :: "string list"
    by (induction xs) auto
  show ?thesis
    by (auto simp: values_of_seat0_def seat0_loop_find any_seat_loop_find find line_values_def
        Let_def comp_def split: option.split list.split)
qed

text \<open>
  A session that is found for the seat is active, begins a line of \<open>loginctl\<close>, and is not the
  greeter of GDM on Wayland.
\<close>

theorem seat0_session_active:
  assumes "get_values_of_seat0 E [0] = [sid]" "sid \<noteq> []"
  shows "is_active E sid \<and>
    (\<exists>output line. run_loginctl E None = Some output \<and> line \<in> set (str_lines output) \<and> nth_word 0 line = sid
      \<and> \<not> (is_gdm_user (nth_word 2 line) \<and> get_display_server_of_session E sid = wayland))"
proof -
  obtain res line where out: "run_loginctl E None = Some res" "nth_word 0 line = sid"
    and found: "seat0_loop E True (str_lines res) = Some line \<or> any_seat_loop E True (str_lines res) = Some line"
    using assms by (auto simp: get_values_of_seat0_def values_of_seat0_def line_values_def split: option.splits)
  from found have "line \<in> set (str_lines res)" "usable_session E True line"
    by (auto simp: seat0_loop_find any_seat_loop_find find_Some_iff)
  with out show ?thesis by (auto simp: usable_session_def)
qed

definition demo_output :: string where
  "demo_output = ''SESSION UID USER SEAT TTY'' @ [CHR 0x0A] @ ''c1 120 gdm seat0 tty1'' @ [CHR 0x0A] @ ''2 1000 me seat0 tty2''"

definition demo_linux :: linux_env where
  "demo_linux = \<lparr>le_var = (\<lambda>_. None),
     le_run = (\<lambda>prog args. if prog \<noteq> ''loginctl'' then None
        else if args = [] then Some demo_output
        else if last args = ''c1'' \<and> args ! 2 = ''Type'' then Some ''Type=wayland''
        else if last args = ''2'' \<and> args ! 2 = ''Type'' then Some ''Type=x11''
        else if args ! 2 = ''State'' \<and> (last args = ''c1'' \<or> last args = ''2'') then Some ''State=active''
        else Some [])\<rparr>"

lemmas session_eval = get_values_of_seat0_def values_of_seat0_def demo_linux_def demo_output_def run_loginctl_def
  str_lines_def strip_cr_def ignore_loginctl_line_def starts_with_def split_whitespace_def is_ws_def
  of_char_def is_active_def is_gdm_user_def nth_word_def get_display_server_of_session_def replace_str_def
  split_str.simps trim_end_def to_lowercase_def wayland_def line_values_def

lemma demo_session: "get_values_of_seat0 demo_linux [0] = [''2'']"
  by (simp add: session_eval)

theorem seat0_session_active_witness: "is_active demo_linux ''2''"
  using seat0_session_active [of demo_linux "''2''"] demo_session by simp

text \<open>
  Without a type of the session in the environment, the second loop takes the session of a
  terminal: its display server is read as X11, so that the check for a terminal never holds.
\<close>

theorem tty_session_taken:
  assumes "\<not> ignore_loginctl_line line" "split_whitespace line = sid # ws" "is_active E sid"
    and "run_loginctl E (Some [''show-session'', ''-p'', ''Type'', sid]) = Some ''Type=tty''"
    and "le_var E ''XDG_SESSION_TYPE'' = None"
  shows "get_display_server_of_session E sid = ''x11'' \<and> any_seat_loop E ign (line # lines) = Some line"
proof -
  have "get_display_server_of_session E sid = ''x11''"
    using assms(4,5)
    by (simp add: get_display_server_of_session_def replace_str_def split_str.simps starts_with_def trim_end_def
        is_ws_def to_lowercase_def x11_def of_char_def)
  then show ?thesis using assms(1-3) by (simp add: wayland_def)
qed

definition ssh_linux :: linux_env where
  "ssh_linux = \<lparr>le_var = (\<lambda>_. None),
     le_run = (\<lambda>prog args. if prog \<noteq> ''loginctl'' then None
        else if args = [] then Some ''7 1000 me - pts/0''
        else if args ! 2 = ''Type'' then Some ''Type=tty'' else Some ''State=active'')\<rparr>"

theorem tty_session_taken_witness:
  "any_seat_loop ssh_linux True [''7 1000 me - pts/0''] = Some ''7 1000 me - pts/0''"
  using tty_session_taken [of "''7 1000 me - pts/0''" "''7''" "[''1000'', ''me'', ''-'', ''pts/0'']" ssh_linux True "[]"]
  by (simp add: ssh_linux_def ignore_loginctl_line_def starts_with_def split_whitespace_def is_ws_def of_char_def
      is_active_def run_loginctl_def del: any_seat_loop.simps)

section \<open>Messages and crashes, in any order\<close>

lemma try_spawn_None: "try_spawn starts cmds = None \<longleftrightarrow> (\<forall>c \<in> set cmds. \<not> starts (fst c) (snd c))"
  by (induction starts cmds rule: try_spawn.induct) auto

lemma try_spawn_Some: "try_spawn starts cmds = Some c \<Longrightarrow> c \<in> set cmds \<and> starts (fst c) (snd c)"
  by (induction starts cmds rule: try_spawn.induct) (auto split: if_splits)

text \<open>
  Whatever the order of the hash map, a message is shown when one of the commands can be started,
  by one that can, with the title and the text among its arguments.
\<close>

theorem message_any_order:
  assumes "mset cmds = mset (message_cmds title msg forever)"
  shows "case try_spawn starts cmds of
      None \<Rightarrow> list_all (\<lambda>(k, v). \<not> starts k v) (message_cmds title msg forever)
    | Some (k, v) \<Rightarrow> (k, v) \<in> set (message_cmds title msg forever) \<and> starts k v \<and> title \<in> set v \<and> msg \<in> set v"
proof -
  have "set cmds = set (message_cmds title msg forever)" using assms by (metis set_mset_mset)
  moreover have "\<forall>c \<in> set (message_cmds title msg forever). title \<in> set (snd c) \<and> msg \<in> set (snd c)"
    by (simp add: message_cmds_def)
  ultimately show ?thesis
    using try_spawn_None [of starts cmds] try_spawn_Some [of starts cmds]
    by (cases "try_spawn starts cmds") (fastforce simp: list_all_iff)+
qed

theorem message_any_order_witness:
  "try_spawn (\<lambda>k _. k = ''xmessage'') (rev (message_cmds ''t'' ''m'' True))
   = Some (''xmessage'', [''-center'', ''-timeout'', ''0'', ''t'', ''m''])"
  using message_any_order [of "rev (message_cmds ''t'' ''m'' True)" "''t''" "''m''" True "\<lambda>k _. k = ''xmessage''"]
  by (simp add: message_cmds_def)

text \<open>
  A crash with a frame of the nvidia driver sets both options, but the message tells only of the
  second.
\<close>

theorem crash_message_overwritten:
  assumes "s \<in> set stack" "contains_str ''nvidia'' (to_lowercase s)"
  shows "breakdown_signal_handler E stack w =
    (''Perhaps hwcodec causing the crash, disable it first'',
     set_option E ''enable-hwcodec'' ''N'' (set_option E ''allow-always-software-render'' ''Y'' w))"
  using assms
  by (auto simp: breakdown_signal_handler_def in_stack_def list_ex_iff names_software_render_def names_hwcodec_def)

theorem crash_message_overwritten_witness:
  "fst (breakdown_signal_handler E [''main'', ''NVIDIA_glx''] w) = ''Perhaps hwcodec causing the crash, disable it first''"
  using crash_message_overwritten [of "''NVIDIA_glx''" "[''main'', ''NVIDIA_glx'']" E w]
  by (simp add: to_lowercase_def of_char_def char_of_def bit_0 starts_with_def)

end
