(* ===== verification/FileTransfer.thy ===== *)
theory FileTransfer
  imports StrUtil
begin

text \<open>
  File transfer jobs of \<open>libs/hbb_common/src/fs.rs\<close>: the reading side that cuts files into blocks
  of 128 KiB, the writing side that appends them to a \<open>.download\<close> file and renames it, the
  confirmation state of a job and the loop over the jobs of a connection. The compressor, the
  files to read and the outcome of every disk operation are arguments or part of the state.
\<close>

section \<open>Data\<close>

datatype file_type = FtDir | FtDirLink | FtDirDrive | FtFile | FtFileLink

record file_entry =
  fe_name :: string
  fe_type :: file_type
  fe_is_hidden :: bool
  fe_size :: u64
  fe_modified_time :: u64

text \<open>
  An open file for reading: what is left of it, its metadata (modification time and length, or an
  error), and what the next calls of \<open>read\<close> do: fail, or return at most the given positive number
  of bytes; when the list is used up they return all that fits.
\<close>

record rfile =
  rf_rest :: bytes
  rf_meta :: "(u64 \<times> u64) option"
  rf_calls :: "nat option list"

datatype file_handle = Reading rfile | Writing string

record transfer_job =
  tj_id :: int
  tj_remote :: string
  tj_path :: string
  tj_show_hidden :: bool
  tj_is_remote :: bool
  tj_is_last_job :: bool
  tj_file_num :: int
  tj_files :: "file_entry list"
  tj_conn_id :: int
  tj_file :: "file_handle option"
  tj_total_size :: u64
  tj_finished_size :: u64
  tj_transferred :: u64
  tj_enable_overwrite_detection :: bool
  tj_file_confirmed :: bool
  tj_file_skipped :: bool
  tj_file_is_waiting :: bool
  tj_default_overwrite_strategy :: "bool option"

record block =
  bl_id :: int
  bl_file_num :: int
  bl_data :: bytes
  bl_compressed :: bool

datatype ft_msg =
  MDigest int int u64 u64
| MBlock block
| MError int string int
| MDone int int

datatype confirm_union = Skip bool | OffsetBlk nat | NoUnion

record zstd =
  z_compress :: "bytes \<Rightarrow> bytes option"
  z_decode_all :: "bytes \<Rightarrow> bytes option"

text \<open>\<open>compress\<close> and \<open>decompress\<close> of \<open>compress.rs\<close>: a failure gives an empty result.\<close>

definition compress :: "zstd \<Rightarrow> bytes \<Rightarrow> bytes" where
  "compress Z data = (case z_compress Z data of Some res \<Rightarrow> res | None \<Rightarrow> [])"

definition decompress :: "zstd \<Rightarrow> bytes \<Rightarrow> bytes" where
  "decompress Z data = (case z_decode_all Z data of Some res \<Rightarrow> res | None \<Rightarrow> [])"

section \<open>Names and paths\<close>

text \<open>\<open>Path::join\<close> on Unix: an absolute name replaces the path.\<close>

definition path_join :: "string \<Rightarrow> string \<Rightarrow> string" where
  "path_join p n =
    (if starts_with ''/'' n then n
     else if p = [] \<or> last p = CHR ''/'' then p @ n
     else p @ ''/'' @ n)"

definition tj_join :: "transfer_job \<Rightarrow> string \<Rightarrow> string" where
  "tj_join j name = (if name = [] then tj_path j else path_join (tj_path j) name)"

definition get_ext :: "string \<Rightarrow> string" where
  "get_ext name = (if CHR ''.'' \<in> set name then last (split_on CHR ''.'' name) else [])"

definition is_compressed_file :: "string \<Rightarrow> bool" where
  "is_compressed_file name \<longleftrightarrow>
    get_ext name \<in> {''xz'', ''gz'', ''zip'', ''7z'', ''rar'', ''bz2'', ''tgz'', ''png'', ''jpg''}"

section \<open>Construction and accessors\<close>

definition sum_sizes :: "file_entry list \<Rightarrow> u64" where
  "sum_sizes files = sum_list (map fe_size files)"

definition new_write ::
  "int \<Rightarrow> string \<Rightarrow> string \<Rightarrow> int \<Rightarrow> bool \<Rightarrow> bool \<Rightarrow> file_entry list \<Rightarrow> bool \<Rightarrow> transfer_job" where
  "new_write i remote path file_num show_hidden is_remote files detect =
    \<lparr>tj_id = i, tj_remote = remote, tj_path = path, tj_show_hidden = show_hidden, tj_is_remote = is_remote,
     tj_is_last_job = False, tj_file_num = file_num, tj_files = files, tj_conn_id = 0, tj_file = None,
     tj_total_size = sum_sizes files, tj_finished_size = 0, tj_transferred = 0,
     tj_enable_overwrite_detection = detect, tj_file_confirmed = False, tj_file_skipped = False,
     tj_file_is_waiting = False, tj_default_overwrite_strategy = None\<rparr>"

text \<open>\<open>new_read\<close>; \<open>get_files\<close> is \<open>get_recursive_files\<close>.\<close>

definition new_read ::
  "(string \<Rightarrow> bool \<Rightarrow> string + file_entry list) \<Rightarrow> int \<Rightarrow> string \<Rightarrow> string \<Rightarrow> int \<Rightarrow> bool \<Rightarrow> bool \<Rightarrow> bool
    \<Rightarrow> string + transfer_job" where
  "new_read get_files i remote path file_num show_hidden is_remote detect =
    (case get_files path show_hidden of
       Inl e \<Rightarrow> Inl e
     | Inr files \<Rightarrow> Inr (new_write i remote path file_num show_hidden is_remote files detect))"

definition set_file_confirmed :: "bool \<Rightarrow> transfer_job \<Rightarrow> transfer_job" where
  "set_file_confirmed b j = j\<lparr>tj_file_confirmed := b, tj_file_skipped := False\<rparr>"

definition set_file_is_waiting :: "bool \<Rightarrow> transfer_job \<Rightarrow> transfer_job" where
  "set_file_is_waiting b j = j\<lparr>tj_file_is_waiting := b\<rparr>"

definition job_skipped :: "transfer_job \<Rightarrow> bool" where
  "job_skipped j \<longleftrightarrow> tj_file_skipped j \<and> length (tj_files j) = 1"

definition job_completed :: "transfer_job \<Rightarrow> bool" where
  "job_completed j \<longleftrightarrow>
    \<not> tj_enable_overwrite_detection j \<or> (\<not> tj_file_confirmed j \<and> \<not> tj_file_is_waiting j)"

definition job_error :: "transfer_job \<Rightarrow> string option" where
  "job_error j = (if job_skipped j then Some ''skipped'' else None)"

definition set_file_skipped :: "transfer_job \<Rightarrow> transfer_job" where
  "set_file_skipped j =
    (let j = j\<lparr>tj_file := None\<rparr>;
         j = set_file_confirmed False j;
         j = set_file_is_waiting False j;
         j = j\<lparr>tj_file_num := tj_file_num j + 1\<rparr>
     in j\<lparr>tj_file_skipped := True\<rparr>)"

definition confirm :: "int \<Rightarrow> confirm_union \<Rightarrow> transfer_job \<Rightarrow> transfer_job" where
  "confirm r_file_num u j =
    (if tj_file_num j \<noteq> r_file_num then j
     else case u of
            Skip s \<Rightarrow> if s then set_file_skipped j else set_file_confirmed True j
          | OffsetBlk _ \<Rightarrow> set_file_confirmed True j
          | NoUnion \<Rightarrow> j)"

text \<open>\<open>file_num as usize < files.len()\<close>: a negative number becomes a huge one.\<close>

definition valid_num :: "int \<Rightarrow> transfer_job \<Rightarrow> bool" where
  "valid_num n j \<longleftrightarrow> 0 \<le> n \<and> nat n < length (tj_files j)"

section \<open>Reading\<close>

definition buf_size :: nat where "buf_size = 128 * 1024"

text \<open>One call of \<open>File::read\<close> with room for \<open>room\<close> bytes.\<close>

definition read_call :: "nat \<Rightarrow> rfile \<Rightarrow> (bytes \<times> rfile) option" where
  "read_call room h =
    (case rf_calls h of
       [] \<Rightarrow> Some (take room (rf_rest h), h\<lparr>rf_rest := drop room (rf_rest h)\<rparr>)
     | None # cs \<Rightarrow> None
     | Some c # cs \<Rightarrow>
         let n = min room (Suc c)
         in Some (take n (rf_rest h), h\<lparr>rf_rest := drop n (rf_rest h), rf_calls := cs\<rparr>))"

text \<open>The loop that fills the buffer: until end of file or \<open>BUF_SIZE\<close> bytes.\<close>

function read_loop :: "bytes \<Rightarrow> rfile \<Rightarrow> (bytes \<times> rfile) option" where
  "read_loop acc h =
    (case read_call (buf_size - length acc) h of
       None \<Rightarrow> None
     | Some (bs, h') \<Rightarrow>
         let acc' = acc @ bs in
         if bs = [] \<or> buf_size \<le> length acc' then Some (acc', h') else read_loop acc' h')"
  by pat_completeness auto
termination
  by (relation "measure (\<lambda>(acc, h). buf_size - length acc)") (auto simp flip: length_greater_0_conv)

declare read_loop.simps [simp del]

type_synonym stream = "bool \<times> ft_msg list"

definition stream_send :: "ft_msg \<Rightarrow> stream \<Rightarrow> stream option" where
  "stream_send m st = (if fst st then Some (fst st, snd st @ [m]) else None)"

text \<open>\<open>send_current_digest\<close>: an error when there is no file, no metadata, or the stream fails.\<close>

definition send_current_digest :: "transfer_job \<Rightarrow> stream \<Rightarrow> string + stream" where
  "send_current_digest j st =
    (case tj_file j of
       Some (Reading h) \<Rightarrow>
         (case rf_meta h of
            None \<Rightarrow> Inl ''metadata''
          | Some (mtime, len) \<Rightarrow>
              (case stream_send (MDigest (tj_id j) (tj_file_num j) mtime len) st of
                 None \<Rightarrow> Inl ''send'' | Some st' \<Rightarrow> Inr st'))
     | _ \<Rightarrow> Inl ''file is None'')"

text \<open>\<open>file_num += 1; file = None; file_confirmed = false; file_is_waiting = false\<close>.\<close>

definition next_file :: "transfer_job \<Rightarrow> transfer_job" where
  "next_file j = j\<lparr>tj_file_num := tj_file_num j + 1, tj_file := None,
     tj_file_confirmed := False, tj_file_is_waiting := False\<rparr>"

text \<open>
  \<open>TransferJob::read\<close>. The second part, \<open>read_block\<close>, is what follows once a file is open and
  confirmed; \<open>src\<close> opens files.
\<close>

definition read_block :: "zstd \<Rightarrow> transfer_job \<Rightarrow> (string + block option) \<times> transfer_job" where
  "read_block Z j =
    (let file_num = tj_file_num j; name = fe_name (tj_files j ! nat file_num) in
     case tj_file j of
       Some (Reading h) \<Rightarrow>
         (case read_loop [] h of
            None \<Rightarrow> (Inl ''read'', next_file j)
          | Some (buf, h') \<Rightarrow>
              let blk = (\<lambda>d c. \<lparr>bl_id = tj_id j, bl_file_num = file_num, bl_data = d, bl_compressed = c\<rparr>) in
              if buf = [] then (Inr (Some (blk [] False)), next_file j)
              else
                let j = j\<lparr>tj_file := Some (Reading h'), tj_finished_size := tj_finished_size j + of_nat (length buf)\<rparr>;
                    tmp = compress Z buf;
                    (data, compressed) =
                      (if \<not> is_compressed_file name \<and> length tmp < length buf then (tmp, True) else (buf, False))
                in (Inr (Some (blk data compressed)), j\<lparr>tj_transferred := tj_transferred j + of_nat (length data)\<rparr>))
     | _ \<Rightarrow> (Inl ''file is None'', j))"

definition tj_read ::
  "zstd \<Rightarrow> (string \<Rightarrow> rfile option) \<Rightarrow> transfer_job \<Rightarrow> stream
    \<Rightarrow> (string + block option) \<times> transfer_job \<times> stream" where
  "tj_read Z src j st =
    (if \<not> valid_num (tj_file_num j) j then (Inr None, j\<lparr>tj_file := None\<rparr>, st)
     else
       let name = fe_name (tj_files j ! nat (tj_file_num j));
           opened = (case tj_file j of
              Some f \<Rightarrow> Some j
            | None \<Rightarrow>
                (case src (tj_join j name) of
                   Some f \<Rightarrow> Some (j\<lparr>tj_file := Some (Reading f), tj_file_confirmed := False, tj_file_is_waiting := False\<rparr>)
                 | None \<Rightarrow> None))
       in case opened of
            None \<Rightarrow>
              (Inl ''open'', j\<lparr>tj_file_num := tj_file_num j + 1, tj_file_confirmed := False, tj_file_is_waiting := False\<rparr>, st)
          | Some j \<Rightarrow>
              if tj_enable_overwrite_detection j \<and> \<not> tj_file_confirmed j then
                (if \<not> tj_file_is_waiting j then
                   (case send_current_digest j st of
                      Inl e \<Rightarrow> (Inl e, j, st)
                    | Inr st \<Rightarrow> (Inr None, set_file_is_waiting True j, st))
                 else (Inr None, j, st))
              else (case read_block Z j of (r, j) \<Rightarrow> (r, j, st)))"

section \<open>Writing\<close>

record disk =
  dk_files :: "string \<Rightarrow> (bytes \<times> u64) option"
  dk_create_ok :: "string \<Rightarrow> bool"
  dk_write_ok :: bool
  dk_sync_ok :: bool
  dk_now :: u64

definition download_name :: "string \<Rightarrow> string" where
  "download_name p = p @ ''.download''"

definition disk_rename :: "string \<Rightarrow> string \<Rightarrow> disk \<Rightarrow> disk" where
  "disk_rename a b d =
    (case dk_files d a of
       None \<Rightarrow> d
     | Some f \<Rightarrow> d\<lparr>dk_files := (dk_files d)(a := None, b := Some f)\<rparr>)"

definition disk_set_mtime :: "string \<Rightarrow> u64 \<Rightarrow> disk \<Rightarrow> disk" where
  "disk_set_mtime p t d =
    (case dk_files d p of
       None \<Rightarrow> d
     | Some (c, _) \<Rightarrow> d\<lparr>dk_files := (dk_files d)(p := Some (c, t))\<rparr>)"

definition disk_append :: "string \<Rightarrow> bytes \<Rightarrow> disk \<Rightarrow> disk" where
  "disk_append p bs d =
    (case dk_files d p of
       None \<Rightarrow> d
     | Some (c, _) \<Rightarrow> d\<lparr>dk_files := (dk_files d)(p := Some (c @ bs, dk_now d))\<rparr>)"

definition modify_time :: "transfer_job \<Rightarrow> disk \<Rightarrow> disk" where
  "modify_time j d =
    (if valid_num (tj_file_num j) j then
       let entry = tj_files j ! nat (tj_file_num j); path = tj_join j (fe_name entry)
       in disk_set_mtime path (fe_modified_time entry) (disk_rename (download_name path) path d)
     else d)"

definition remove_download_file :: "transfer_job \<Rightarrow> disk \<Rightarrow> disk" where
  "remove_download_file j d =
    (if valid_num (tj_file_num j) j then
       let path = tj_join j (fe_name (tj_files j ! nat (tj_file_num j)))
       in d\<lparr>dk_files := (dk_files d)(download_name path := None)\<rparr>
     else d)"

text \<open>The part of \<open>write\<close> that turns to another file: the error, or the job with its new file.\<close>

definition switch_file :: "int \<Rightarrow> transfer_job \<Rightarrow> disk \<Rightarrow> (string + unit) \<times> transfer_job \<times> disk" where
  "switch_file n j d =
    (let d = modify_time j d in
     if tj_file j \<noteq> None \<and> \<not> dk_sync_ok d then (Inl ''sync'', j, d)
     else
       let j = j\<lparr>tj_file_num := n\<rparr>;
           path = download_name (tj_join j (fe_name (tj_files j ! nat n)))
       in if dk_create_ok d path
          then (Inr (), j\<lparr>tj_file := Some (Writing path)\<rparr>, d\<lparr>dk_files := (dk_files d)(path := Some ([], dk_now d))\<rparr>)
          else (Inl ''create'', j, d))"

definition tj_write :: "zstd \<Rightarrow> block \<Rightarrow> transfer_job \<Rightarrow> disk \<Rightarrow> (string + unit) \<times> transfer_job \<times> disk" where
  "tj_write Z b j d =
    (if bl_id b \<noteq> tj_id j then (Inl ''Wrong id'', j, d)
     else if \<not> valid_num (bl_file_num b) j then (Inl ''Wrong file number'', j, d)
     else
       case (if bl_file_num b \<noteq> tj_file_num j \<or> tj_file j = None
             then switch_file (bl_file_num b) j d else (Inr (), j, d)) of
         (Inl e, j, d) \<Rightarrow> (Inl e, j, d)
       | (Inr _, j, d) \<Rightarrow>
           (case tj_file j of
              Some (Writing p) \<Rightarrow>
                let data = (if bl_compressed b then decompress Z (bl_data b) else bl_data b) in
                if dk_write_ok d then
                  (Inr (), j\<lparr>tj_finished_size := tj_finished_size j + of_nat (length data),
                            tj_transferred := tj_transferred j + of_nat (length (bl_data b))\<rparr>,
                   disk_append p data d)
                else (Inl ''write'', j, d)
            | _ \<Rightarrow> (Inl ''file is None'', j, d)))"

section \<open>The jobs of a connection\<close>

definition remove_job :: "int \<Rightarrow> transfer_job list \<Rightarrow> transfer_job list" where
  "remove_job i jobs = filter (\<lambda>x. tj_id x \<noteq> i) jobs"

definition get_job :: "int \<Rightarrow> transfer_job list \<Rightarrow> transfer_job option" where
  "get_job i jobs = find (\<lambda>x. tj_id x = i) jobs"

text \<open>
  The loop of \<open>handle_read_jobs\<close>: the log of the last finished job, the ids of finished jobs, and
  \<open>None\<close> instead of the log when a send failed, which ends the function at once. \<open>ser\<close> is
  \<open>serialize_transfer_job\<close>.
\<close>

fun read_jobs ::
  "zstd \<Rightarrow> (string \<Rightarrow> rfile option) \<Rightarrow> (transfer_job \<Rightarrow> bool \<Rightarrow> bool \<Rightarrow> string \<Rightarrow> string)
    \<Rightarrow> string \<Rightarrow> int list \<Rightarrow> transfer_job list \<Rightarrow> stream
    \<Rightarrow> string option \<times> int list \<times> transfer_job list \<times> stream" where
  "read_jobs Z src ser log fin [] st = (Some log, fin, [], st)"
| "read_jobs Z src ser log fin (j # js) st =
    (if tj_is_last_job j then
       (case read_jobs Z src ser log fin js st of (l, f, js', st') \<Rightarrow> (l, f, j # js', st'))
     else
       case tj_read Z src j st of
         (r, j', st1) \<Rightarrow>
           (let (log', fin', m) =
              (case r of
                 Inl e \<Rightarrow> (log, fin, Some (MError (tj_id j') e (tj_file_num j')))
               | Inr (Some b) \<Rightarrow> (log, fin, Some (MBlock b))
               | Inr None \<Rightarrow>
                   if job_completed j' then
                     (case job_error j' of
                        Some err \<Rightarrow> (ser j' False False err, fin @ [tj_id j'], Some (MError (tj_id j') err (tj_file_num j')))
                      | None \<Rightarrow> (ser j' True False [], fin @ [tj_id j'], Some (MDone (tj_id j') (tj_file_num j'))))
                   else (log, fin, None))
            in case (case m of None \<Rightarrow> Some st1 | Some m \<Rightarrow> stream_send m st1) of
                 None \<Rightarrow> (None, fin', j' # js, st1)
               | Some st2 \<Rightarrow>
                   (case read_jobs Z src ser log' fin' js st2 of (l, f, js', st') \<Rightarrow> (l, f, j' # js', st'))))"

definition handle_read_jobs ::
  "zstd \<Rightarrow> (string \<Rightarrow> rfile option) \<Rightarrow> (transfer_job \<Rightarrow> bool \<Rightarrow> bool \<Rightarrow> string \<Rightarrow> string)
    \<Rightarrow> transfer_job list \<Rightarrow> stream \<Rightarrow> string option \<times> transfer_job list \<times> stream" where
  "handle_read_jobs Z src ser jobs st =
    (case read_jobs Z src ser [] [] jobs st of
       (None, fin, jobs, st) \<Rightarrow> (None, jobs, st)
     | (Some log, fin, jobs, st) \<Rightarrow> (Some log, fold remove_job fin jobs, st))"

text \<open>
  \<open>is_write_need_confirmation\<close>: \<open>local_file\<close> is \<open>None\<close> when no regular file exists at the path, and
  otherwise its modification time in seconds and nanoseconds and its length, or the error of asking
  for them. The times are compared as durations, so that the nanoseconds count.
\<close>

datatype digest_check = IsSame | NeedConfirm int int u64 u64 bool | NoSuchFile

definition is_write_need_confirmation ::
  "(string + u64 \<times> u32 \<times> u64) option \<Rightarrow> int \<Rightarrow> int \<Rightarrow> u64 \<Rightarrow> u64 \<Rightarrow> string + digest_check" where
  "is_write_need_confirmation local_file i file_num last_modified file_size =
    (case local_file of
       None \<Rightarrow> Inr NoSuchFile
     | Some (Inl e) \<Rightarrow> Inl e
     | Some (Inr (local_secs, local_nanos, len)) \<Rightarrow>
         Inr (NeedConfirm i file_num local_secs len
           (last_modified = local_secs \<and> local_nanos = 0 \<and> file_size = len)))"

definition can_enable_overwrite_detection :: "(string \<Rightarrow> int) \<Rightarrow> int \<Rightarrow> bool" where
  "can_enable_overwrite_detection version_number version \<longleftrightarrow> version_number ''1.1.10'' \<le> version"

end
