(* ===== verification/FileTransferProps.thy ===== *)
theory FileTransferProps
  imports FileTransfer
begin

text \<open>
  What a file transfer guarantees: the reading job cuts every file into blocks, the writing job
  puts the blocks together, so that files arrive with their contents and times; nothing is sent
  before a needed confirmation; and the loop over the jobs keeps and removes the right ones.
\<close>

section \<open>Cutting a file into blocks\<close>

lemma buf_size_pos: "0 < buf_size"
  by (simp add: buf_size_def)

lemma read_call_ok:
  assumes "None \<notin> set (rf_calls h)"
  obtains bs h' where "read_call room h = Some (bs, h')" "bs @ rf_rest h' = rf_rest h" "length bs \<le> room"
    "bs = [] \<longleftrightarrow> room = 0 \<or> rf_rest h = []" "None \<notin> set (rf_calls h')" "rf_meta h' = rf_meta h"
proof (cases "rf_calls h")
  case Nil
  show ?thesis
    by (rule that [of "take room (rf_rest h)" "h\<lparr>rf_rest := drop room (rf_rest h)\<rparr>"])
       (use Nil in \<open>auto simp: read_call_def\<close>)
next
  case (Cons c cs)
  then obtain n where c: "c = Some n" using assms by (cases c) auto
  show ?thesis
    by (rule that [of "take (min room (Suc n)) (rf_rest h)"
          "h\<lparr>rf_rest := drop (min room (Suc n)) (rf_rest h), rf_calls := cs\<rparr>"])
       (use Cons c assms in \<open>auto simp: read_call_def Let_def min_def\<close>)
qed

lemma read_loop_ok:
  assumes "None \<notin> set (rf_calls h)" "length acc \<le> buf_size"
  shows "\<exists>h'. read_loop acc h = Some (acc @ take (buf_size - length acc) (rf_rest h), h') \<and>
    rf_rest h' = drop (buf_size - length acc) (rf_rest h) \<and> None \<notin> set (rf_calls h')"
  using assms
proof (induction acc h rule: read_loop.induct)
  case (1 acc h)
  obtain bs h1 where c: "read_call (buf_size - length acc) h = Some (bs, h1)" "bs @ rf_rest h1 = rf_rest h"
      "length bs \<le> buf_size - length acc" "bs = [] \<longleftrightarrow> buf_size - length acc = 0 \<or> rf_rest h = []"
      "None \<notin> set (rf_calls h1)" "rf_meta h1 = rf_meta h"
    using read_call_ok [OF "1.prems"(1), of "buf_size - length acc"] by blast
  show ?case
  proof (cases "bs = [] \<or> buf_size \<le> length (acc @ bs)")
    case True
    then have l: "read_loop acc h = Some (acc @ bs, h1)"
      using c(1) by (subst read_loop.simps) (auto simp: Let_def)
    show ?thesis
    proof (cases "bs = []")
      case True
      then show ?thesis using l c(2,4,5) by auto
    next
      case False
      then have "length bs = buf_size - length acc"
        using \<open>bs = [] \<or> _\<close> c(3) by auto
      then have "bs = take (buf_size - length acc) (rf_rest h)" "rf_rest h1 = drop (buf_size - length acc) (rf_rest h)"
        using c(2) by (metis append_eq_conv_conj)+
      then show ?thesis using l c(5) by auto
    qed
  next
    case False
    then have l: "read_loop acc h = read_loop (acc @ bs) h1"
      using c(1) by (subst read_loop.simps) (auto simp: Let_def)
    obtain h' where h': "read_loop (acc @ bs) h1 = Some ((acc @ bs) @ take (buf_size - length (acc @ bs)) (rf_rest h1), h')"
        "rf_rest h' = drop (buf_size - length (acc @ bs)) (rf_rest h1)" "None \<notin> set (rf_calls h')"
      using "1.IH" [OF c(1) refl refl] False c(3,5) "1.prems"(2) by auto
    have "take (buf_size - length acc) (rf_rest h) = bs @ take (buf_size - length (acc @ bs)) (rf_rest h1)"
      and "drop (buf_size - length acc) (rf_rest h) = drop (buf_size - length (acc @ bs)) (rf_rest h1)"
      using c(3) by (simp_all add: c(2) [symmetric] diff_diff_left)
    then show ?thesis using l h' by auto
  qed
qed

function chunks :: "bytes \<Rightarrow> bytes list" where
  "chunks bs = (if bs = [] then [] else take buf_size bs # chunks (drop buf_size bs))"
  by pat_completeness auto
termination by (relation "measure length") (auto simp: buf_size_def)

declare chunks.simps [simp del]

lemma chunks_Nil [simp]: "chunks [] = []"
  by (subst chunks.simps) simp

lemma chunks_Cons: "bs \<noteq> [] \<Longrightarrow> chunks bs = take buf_size bs # chunks (drop buf_size bs)"
  by (subst chunks.simps) simp

lemma concat_chunks: "concat (chunks bs) = bs"
  by (induction bs rule: chunks.induct) (subst chunks.simps, auto)

definition data_block :: "zstd \<Rightarrow> int \<Rightarrow> int \<Rightarrow> string \<Rightarrow> bytes \<Rightarrow> block" where
  "data_block Z i n name buf =
    (if \<not> is_compressed_file name \<and> length (compress Z buf) < length buf
     then \<lparr>bl_id = i, bl_file_num = n, bl_data = compress Z buf, bl_compressed = True\<rparr>
     else \<lparr>bl_id = i, bl_file_num = n, bl_data = buf, bl_compressed = False\<rparr>)"

definition end_block :: "int \<Rightarrow> int \<Rightarrow> block" where
  "end_block i n = \<lparr>bl_id = i, bl_file_num = n, bl_data = [], bl_compressed = False\<rparr>"

definition file_blocks :: "zstd \<Rightarrow> int \<Rightarrow> int \<Rightarrow> string \<Rightarrow> bytes \<Rightarrow> block list" where
  "file_blocks Z i n name content = map (data_block Z i n name) (chunks content) @ [end_block i n]"

text \<open>What of a job its operations leave alone.\<close>

definition core :: "transfer_job \<Rightarrow> int \<times> file_entry list \<times> string \<times> bool" where
  "core j = (tj_id j, tj_files j, tj_path j, tj_enable_overwrite_detection j)"

lemma core_eq_simps:
  "core j' = core j \<Longrightarrow> tj_id j' = tj_id j \<and> tj_files j' = tj_files j \<and> tj_path j' = tj_path j \<and>
     tj_enable_overwrite_detection j' = tj_enable_overwrite_detection j"
  by (simp add: core_def)

lemma core_updates [simp]:
  "core (next_file j) = core j" "core (j\<lparr>tj_file := f\<rparr>) = core j"
  "core (j\<lparr>tj_finished_size := a\<rparr>) = core j" "core (j\<lparr>tj_transferred := a\<rparr>) = core j"
  "core (j\<lparr>tj_file_num := n\<rparr>) = core j" "core (j\<lparr>tj_file_confirmed := b\<rparr>) = core j"
  "core (j\<lparr>tj_file_is_waiting := b\<rparr>) = core j"
  by (simp_all add: core_def next_file_def)

lemma tj_join_core: "core j' = core j \<Longrightarrow> tj_join j' name = tj_join j name"
  by (simp add: tj_join_def core_def)

lemma valid_num_core: "core j' = core j \<Longrightarrow> valid_num n j' = valid_num n j"
  by (simp add: valid_num_def core_def)

abbreviation cur_name :: "transfer_job \<Rightarrow> string" where
  "cur_name j \<equiv> fe_name (tj_files j ! nat (tj_file_num j))"

section \<open>Reading a whole job\<close>

fun read_all ::
  "nat \<Rightarrow> zstd \<Rightarrow> (string \<Rightarrow> rfile option) \<Rightarrow> transfer_job \<Rightarrow> stream \<Rightarrow> block list \<times> transfer_job \<times> bool" where
  "read_all 0 Z src j st = ([], j, False)"
| "read_all (Suc k) Z src j st =
    (case tj_read Z src j st of
       (Inr (Some b), j', st') \<Rightarrow> (case read_all k Z src j' st' of (bs, r) \<Rightarrow> (b # bs, r))
     | (Inr None, j', st') \<Rightarrow> ([], j', True)
     | (Inl e, j', st') \<Rightarrow> ([], j', False))"

lemma tj_read_data:
  assumes "valid_num (tj_file_num j) j" "\<not> tj_enable_overwrite_detection j \<or> tj_file_confirmed j"
    and "tj_file j = Some (Reading h)" "None \<notin> set (rf_calls h)" "rf_rest h \<noteq> []"
  obtains h' where "rf_rest h' = drop buf_size (rf_rest h)" "None \<notin> set (rf_calls h')"
    and "tj_read Z src j st = (Inr (Some (data_block Z (tj_id j) (tj_file_num j) (cur_name j) (take buf_size (rf_rest h)))),
      j\<lparr>tj_file := Some (Reading h'), tj_finished_size := tj_finished_size j + of_nat (length (take buf_size (rf_rest h))),
        tj_transferred := tj_transferred j +
          of_nat (length (bl_data (data_block Z (tj_id j) (tj_file_num j) (cur_name j) (take buf_size (rf_rest h)))))\<rparr>, st)"
proof -
  obtain h' where h': "read_loop [] h = Some (take buf_size (rf_rest h), h')"
      "rf_rest h' = drop buf_size (rf_rest h)" "None \<notin> set (rf_calls h')"
    using read_loop_ok [OF assms(4), of "[]"] by auto
  have "take buf_size (rf_rest h) \<noteq> []" using assms(5) by (simp add: buf_size_def)
  then show ?thesis using that [of h'] h' assms(1-3)
    by (auto simp: tj_read_def Let_def read_block_def data_block_def)
qed

lemma tj_read_end:
  assumes "valid_num (tj_file_num j) j" "\<not> tj_enable_overwrite_detection j \<or> tj_file_confirmed j"
    and "tj_file j = Some (Reading h)" "None \<notin> set (rf_calls h)" "rf_rest h = []"
  shows "tj_read Z src j st = (Inr (Some (end_block (tj_id j) (tj_file_num j))), next_file j, st)"
proof -
  obtain h' where "read_loop [] h = Some ([], h')"
    using read_loop_ok [OF assms(4), of "[]"] assms(5) by auto
  then show ?thesis using assms(1-3)
    by (auto simp: tj_read_def Let_def read_block_def end_block_def)
qed

lemma read_file_run:
  assumes "valid_num (tj_file_num j) j" "\<not> tj_enable_overwrite_detection j"
    and "tj_file j = Some (Reading h)" "None \<notin> set (rf_calls h)"
  shows "\<exists>j'. core j' = core j \<and> tj_file_num j' = tj_file_num j + 1 \<and> tj_file j' = None \<and>
    (\<forall>k. read_all (Suc (length (chunks (rf_rest h)) + k)) Z src j st =
      (case read_all k Z src j' st of (bs, r) \<Rightarrow>
        (file_blocks Z (tj_id j) (tj_file_num j) (cur_name j) (rf_rest h) @ bs, r)))"
  using assms
proof (induction "rf_rest h" arbitrary: j h rule: chunks.induct)
  case 1
  show ?case
  proof (cases "rf_rest h = []")
    case True
    then show ?thesis
      using tj_read_end [OF "1.prems"(1) _ "1.prems"(3,4), of Z src st] "1.prems"(2)
      by (intro exI [of _ "next_file j"]) (auto simp: next_file_def file_blocks_def split: prod.split)
  next
    case False
    obtain h' where h': "rf_rest h' = drop buf_size (rf_rest h)" "None \<notin> set (rf_calls h')"
      and r: "tj_read Z src j st = (Inr (Some (data_block Z (tj_id j) (tj_file_num j) (cur_name j) (take buf_size (rf_rest h)))),
      j\<lparr>tj_file := Some (Reading h'), tj_finished_size := tj_finished_size j + of_nat (length (take buf_size (rf_rest h))),
        tj_transferred := tj_transferred j +
          of_nat (length (bl_data (data_block Z (tj_id j) (tj_file_num j) (cur_name j) (take buf_size (rf_rest h)))))\<rparr>, st)"
      using tj_read_data [OF "1.prems"(1) _ "1.prems"(3,4) False] "1.prems"(2) by metis
    define j1 where "j1 = j\<lparr>tj_file := Some (Reading h'), tj_finished_size := tj_finished_size j + of_nat (length (take buf_size (rf_rest h))),
        tj_transferred := tj_transferred j +
          of_nat (length (bl_data (data_block Z (tj_id j) (tj_file_num j) (cur_name j) (take buf_size (rf_rest h)))))\<rparr>"
    have c: "core j1 = core j" "tj_file_num j1 = tj_file_num j" "tj_file j1 = Some (Reading h')"
      by (simp_all add: j1_def core_def)
    note ce = core_eq_simps [OF c(1)]
    have v: "valid_num (tj_file_num j1) j1" "\<not> tj_enable_overwrite_detection j1"
      using "1.prems"(1,2) c ce by (simp_all add: valid_num_def)
    obtain j' where j': "core j' = core j1" "tj_file_num j' = tj_file_num j1 + 1" "tj_file j' = None"
      and run: "\<forall>k. read_all (Suc (length (chunks (rf_rest h')) + k)) Z src j1 st =
        (case read_all k Z src j' st of (bs, r) \<Rightarrow>
          (file_blocks Z (tj_id j1) (tj_file_num j1) (cur_name j1) (rf_rest h') @ bs, r))"
      using "1.hyps" [OF False h'(1) [symmetric] v c(3) h'(2)] by blast
    have "read_all (Suc (length (chunks (rf_rest h)) + k)) Z src j st =
      (case read_all k Z src j' st of (bs, r) \<Rightarrow>
        (file_blocks Z (tj_id j) (tj_file_num j) (cur_name j) (rf_rest h) @ bs, r))" for k
      using r run [rule_format, of k] False h'(1) c ce
      by (simp add: chunks_Cons file_blocks_def j1_def split: prod.splits)
    then show ?thesis using j' c by auto
  qed
qed


text \<open>Opening a file and reading from it is one call.\<close>

lemma tj_read_open:
  assumes "valid_num (tj_file_num j) j" "tj_file j = None" "src (tj_join j (cur_name j)) = Some h"
  shows "tj_read Z src j st = tj_read Z src
    (j\<lparr>tj_file := Some (Reading h), tj_file_confirmed := False, tj_file_is_waiting := False\<rparr>) st"
  using assms by (simp add: tj_read_def valid_num_def Let_def)

definition job_blocks :: "zstd \<Rightarrow> int \<Rightarrow> file_entry list \<Rightarrow> bytes list \<Rightarrow> nat \<Rightarrow> block list" where
  "job_blocks Z i files contents n =
    concat (map (\<lambda>k. file_blocks Z i (int k) (fe_name (files ! k)) (contents ! k)) [n..<length files])"

lemma read_job_run:
  assumes "\<not> tj_enable_overwrite_detection j" "tj_file j = None" "tj_file_num j = int n" "n \<le> length (tj_files j)"
    and src: "\<forall>k. n \<le> k \<and> k < length (tj_files j) \<longrightarrow>
      (\<exists>h. src (tj_join j (fe_name (tj_files j ! k))) = Some h \<and> None \<notin> set (rf_calls h) \<and> rf_rest h = contents ! k)"
  shows "\<exists>fuel j'. read_all fuel Z src j st = (job_blocks Z (tj_id j) (tj_files j) contents n, j', True)
    \<and> core j' = core j \<and> tj_file_num j' = int (length (tj_files j))"
  using assms
proof (induction "length (tj_files j) - n" arbitrary: j n)
  case 0
  then have "n = length (tj_files j)" by simp
  then have "read_all 1 Z src j st = ([], j\<lparr>tj_file := None\<rparr>, True)"
    using "0.prems"(3) by (simp add: tj_read_def valid_num_def)
  then show ?case using "0.prems" \<open>n = _\<close>
    by (intro exI [of _ 1] exI [of _ "j\<lparr>tj_file := None\<rparr>"]) (simp add: job_blocks_def)
next
  case (Suc m)
  then have n: "n < length (tj_files j)" by simp
  then have v: "valid_num (tj_file_num j) j" using Suc.prems(3) by (simp add: valid_num_def)
  obtain h where h: "src (tj_join j (cur_name j)) = Some h" "None \<notin> set (rf_calls h)" "rf_rest h = contents ! n"
    using Suc.prems(5) n Suc.prems(3) by auto
  define j0 where "j0 = j\<lparr>tj_file := Some (Reading h), tj_file_confirmed := False, tj_file_is_waiting := False\<rparr>"
  have c0: "core j0 = core j" "tj_file_num j0 = tj_file_num j" "tj_file j0 = Some (Reading h)"
    by (simp_all add: j0_def)
  note ce0 = core_eq_simps [OF c0(1)]
  obtain j1 where j1: "core j1 = core j0" "tj_file_num j1 = tj_file_num j0 + 1" "tj_file j1 = None"
    and run: "\<forall>k. read_all (Suc (length (chunks (rf_rest h)) + k)) Z src j0 st =
      (case read_all k Z src j1 st of (bs, r) \<Rightarrow>
        (file_blocks Z (tj_id j0) (tj_file_num j0) (cur_name j0) (rf_rest h) @ bs, r))"
    using read_file_run [of j0 h Z src st] v c0 ce0 h(2) Suc.prems(1) by (auto simp: valid_num_def)
  have c1: "core j1 = core j" using j1(1) c0(1) by simp
  note ce1 = core_eq_simps [OF c1]
  obtain fuel j' where f: "read_all fuel Z src j1 st = (job_blocks Z (tj_id j1) (tj_files j1) contents (Suc n), j', True)"
      "core j' = core j1" "tj_file_num j' = int (length (tj_files j1))"
  proof -
    have "m = length (tj_files j1) - Suc n" "tj_file_num j1 = int (Suc n)" "Suc n \<le> length (tj_files j1)"
      "\<not> tj_enable_overwrite_detection j1"
      "\<forall>k. Suc n \<le> k \<and> k < length (tj_files j1) \<longrightarrow>
        (\<exists>h. src (tj_join j1 (fe_name (tj_files j1 ! k))) = Some h \<and> None \<notin> set (rf_calls h) \<and> rf_rest h = contents ! k)"
      using Suc.hyps(2) Suc.prems n ce1 j1(2) c0(2) tj_join_core [OF c1] by auto
    with Suc.hyps(1) [of j1 "Suc n"] j1(3) that show ?thesis by blast
  qed
  have "read_all (Suc (length (chunks (rf_rest h)) + fuel)) Z src j st
      = read_all (Suc (length (chunks (rf_rest h)) + fuel)) Z src j0 st"
    using tj_read_open [of j src h Z st] v Suc.prems(2) h(1) by (simp add: j0_def)
  also have "\<dots> = (job_blocks Z (tj_id j) (tj_files j) contents n, j', True)"
    using run f(1) ce0 ce1 h(3) Suc.prems(3) c0(2) n
    by (simp add: job_blocks_def upt_conv_Cons)
  finally show ?case using f(2,3) c1 ce1 by metis
qed

section \<open>Writing a whole job\<close>

fun write_blocks :: "zstd \<Rightarrow> block list \<Rightarrow> transfer_job \<Rightarrow> disk \<Rightarrow> (string + unit) \<times> transfer_job \<times> disk" where
  "write_blocks Z [] j d = (Inr (), j, d)"
| "write_blocks Z (b # bs) j d =
    (case tj_write Z b j d of
       (Inl e, j', d') \<Rightarrow> (Inl e, j', d')
     | (Inr _, j', d') \<Rightarrow> write_blocks Z bs j' d')"

text \<open>The compressor works: it does not fail and what it makes is decompressed to the same.\<close>

definition zstd_ok :: "zstd \<Rightarrow> bool" where
  "zstd_ok Z \<longleftrightarrow> (\<forall>d. \<exists>r. z_compress Z d = Some r \<and> z_decode_all Z r = Some d)"

definition payload :: "zstd \<Rightarrow> block \<Rightarrow> bytes" where
  "payload Z b = (if bl_compressed b then decompress Z (bl_data b) else bl_data b)"

lemma payload_data_block: "zstd_ok Z \<Longrightarrow> payload Z (data_block Z i n name buf) = buf"
proof -
  assume "zstd_ok Z"
  then obtain r where "z_compress Z buf = Some r" "z_decode_all Z r = Some buf"
    unfolding zstd_ok_def by blast
  then show ?thesis by (simp add: payload_def data_block_def compress_def decompress_def)
qed

lemma payload_file_blocks:
  "zstd_ok Z \<Longrightarrow> concat (map (payload Z) (file_blocks Z i n name content)) = content"
proof -
  assume "zstd_ok Z"
  moreover have "payload Z (end_block i n) = []" by (simp add: payload_def end_block_def)
  ultimately show ?thesis
    by (simp add: file_blocks_def payload_data_block o_def concat_chunks)
qed

lemma file_blocks_ids:
  "b \<in> set (file_blocks Z i n name content) \<Longrightarrow> bl_id b = i \<and> bl_file_num b = n"
  by (auto simp: file_blocks_def data_block_def end_block_def split: if_splits)

lemma file_blocks_neq_Nil [simp]: "file_blocks Z i n name content \<noteq> []"
  by (simp add: file_blocks_def)

lemma write_blocks_append:
  assumes "write_blocks Z xs j d = (Inr (), j', d')"
  shows "write_blocks Z (xs @ ys) j d = write_blocks Z ys j' d'"
  using assms by (induction xs arbitrary: j d) (auto split: prod.splits sum.splits)

definition disk_flags :: "disk \<Rightarrow> (string \<Rightarrow> bool) \<times> bool \<times> bool" where
  "disk_flags d = (dk_create_ok d, dk_write_ok d, dk_sync_ok d)"

lemma modify_time_flags [simp]: "disk_flags (modify_time j d) = disk_flags d"
  by (simp add: modify_time_def disk_flags_def disk_set_mtime_def disk_rename_def Let_def split: option.splits)

lemma write_same_file:
  assumes "valid_num n j" "tj_file_num j = n" "tj_file j = Some (Writing p)"
    and "dk_files d p = Some (c, t)" "dk_write_ok d"
    and "\<forall>b \<in> set bs. bl_id b = tj_id j \<and> bl_file_num b = n"
  shows "\<exists>j' d' t'. write_blocks Z bs j d = (Inr (), j', d') \<and> core j' = core j \<and> tj_file_num j' = n \<and>
    tj_file j' = Some (Writing p) \<and> disk_flags d' = disk_flags d \<and>
    dk_files d' = (dk_files d)(p := Some (c @ concat (map (payload Z) bs), t'))"
  using assms
proof (induction bs arbitrary: j d c t)
  case Nil
  then show ?case by (intro exI [of _ j] exI [of _ d] exI [of _ t]) (simp add: fun_upd_idem)
next
  case (Cons b bs)
  define data where "data = payload Z b"
  define j1 where "j1 = j\<lparr>tj_finished_size := tj_finished_size j + of_nat (length data),
      tj_transferred := tj_transferred j + of_nat (length (bl_data b))\<rparr>"
  define d1 where "d1 = d\<lparr>dk_files := (dk_files d)(p := Some (c @ data, dk_now d))\<rparr>"
  have w: "tj_write Z b j d = (Inr (), j1, d1)"
    using Cons.prems by (simp add: tj_write_def j1_def d1_def data_def payload_def disk_append_def Let_def)
  have c1: "core j1 = core j" "tj_file_num j1 = n" "tj_file j1 = Some (Writing p)"
    using Cons.prems(2,3) by (simp_all add: j1_def)
  note ce = core_eq_simps [OF c1(1)]
  obtain j' d' t' where "write_blocks Z bs j1 d1 = (Inr (), j', d')" "core j' = core j1" "tj_file_num j' = n"
      "tj_file j' = Some (Writing p)" "disk_flags d' = disk_flags d1"
      "dk_files d' = (dk_files d1)(p := Some ((c @ data) @ concat (map (payload Z) bs), t'))"
  proof -
    have "valid_num n j1" "dk_files d1 p = Some (c @ data, dk_now d)" "dk_write_ok d1"
      "\<forall>b \<in> set bs. bl_id b = tj_id j1 \<and> bl_file_num b = n"
      using Cons.prems(1,5,6) ce by (simp_all add: d1_def valid_num_def)
    then show ?thesis using Cons.IH [of j1 d1 "c @ data" "dk_now d"] c1(2,3) that by blast
  qed
  moreover have "disk_flags d1 = disk_flags d" by (simp add: d1_def disk_flags_def)
  moreover have "dk_files d' = (dk_files d)(p := Some (c @ concat (map (payload Z) (b # bs)), t'))"
    using calculation(6) by (simp add: d1_def data_def)
  moreover have "write_blocks Z (b # bs) j d = (Inr (), j', d')" using w calculation(1) by simp
  ultimately show ?case using c1(1) by metis
qed

lemma switch_then_write:
  assumes "bl_id b = tj_id j" "bl_file_num b = n" "valid_num n j" "tj_file_num j \<noteq> n \<or> tj_file j = None"
    and "switch_file n j d = (Inr (), j1, d1)"
  shows "tj_write Z b j d = tj_write Z b j1 d1"
proof -
  obtain p where p: "tj_file j1 = Some (Writing p)"
    and c: "tj_id j1 = tj_id j" "tj_files j1 = tj_files j" "tj_file_num j1 = n"
    using assms(5) by (auto simp: switch_file_def Let_def split: if_splits)
  have v: "valid_num (bl_file_num b) j" "valid_num (bl_file_num b) j1"
    using assms(2,3) c by (simp_all add: valid_num_def)
  have yes: "(bl_file_num b \<noteq> tj_file_num j \<or> tj_file j = None) = True" using assms(2,4) by auto
  have no: "(bl_file_num b \<noteq> tj_file_num j1 \<or> tj_file j1 = None) = False" using assms(2) c p by auto
  show ?thesis
    unfolding tj_write_def yes no if_True if_False
    using assms(1,2,5) v c by simp
qed

lemma write_next_file:
  assumes "valid_num n j" "tj_file_num j \<noteq> n \<or> tj_file j = None" "tj_id j = i"
    and "\<forall>p. dk_create_ok d p" "dk_write_ok d" "zstd_ok Z" "dk_sync_ok d"
  defines "dl \<equiv> download_name (tj_join j (fe_name (tj_files j ! nat n)))"
  shows "\<exists>j' d' t. write_blocks Z (file_blocks Z i n name content) j d = (Inr (), j', d') \<and>
    core j' = core j \<and> tj_file_num j' = n \<and> tj_file j' = Some (Writing dl) \<and> disk_flags d' = disk_flags d \<and>
    dk_files d' = (dk_files (modify_time j d))(dl := Some (content, t))"
proof -
  let ?bs = "file_blocks Z i n name content" and ?d0 = "modify_time j d"
  define j1 where "j1 = j\<lparr>tj_file_num := n, tj_file := Some (Writing dl)\<rparr>"
  define d1 where "d1 = ?d0\<lparr>dk_files := (dk_files ?d0)(dl := Some ([], dk_now ?d0))\<rparr>"
  have fl: "dk_create_ok ?d0 = dk_create_ok d" "dk_write_ok ?d0 = dk_write_ok d" "dk_sync_ok ?d0 = dk_sync_ok d"
    using modify_time_flags [of j d] by (simp_all add: disk_flags_def)
  have sw: "switch_file n j d = (Inr (), j1, d1)"
    using assms(4,7) fl by (simp add: switch_file_def Let_def j1_def d1_def dl_def tj_join_def)
  obtain b bs where bs: "?bs = b # bs" by (cases ?bs) auto
  have ids: "\<forall>b \<in> set ?bs. bl_id b = i \<and> bl_file_num b = n" using file_blocks_ids by blast
  have "tj_write Z b j d = tj_write Z b j1 d1"
    using ids bs assms(1-3) sw by (intro switch_then_write) auto
  then have eq: "write_blocks Z ?bs j d = write_blocks Z ?bs j1 d1" by (simp add: bs)
  have "valid_num n j1" "tj_file_num j1 = n" "tj_file j1 = Some (Writing dl)" "tj_id j1 = i"
    using assms(1,3) by (simp_all add: j1_def valid_num_def)
  moreover have "dk_files d1 dl = Some ([], dk_now ?d0)" "dk_write_ok d1"
    using assms(5) fl by (simp_all add: d1_def)
  ultimately obtain j' d' t where r: "write_blocks Z ?bs j1 d1 = (Inr (), j', d')" "core j' = core j1"
      "tj_file_num j' = n" "tj_file j' = Some (Writing dl)" "disk_flags d' = disk_flags d1"
      "dk_files d' = (dk_files d1)(dl := Some ([] @ concat (map (payload Z) ?bs), t))"
    using write_same_file [of n j1 dl d1 "[]" "dk_now ?d0" ?bs Z] ids by auto
  have "dk_files d' = (dk_files ?d0)(dl := Some (content, t))"
    using r(6) by (simp add: d1_def payload_file_blocks assms(6))
  moreover have "disk_flags d1 = disk_flags d" by (simp add: d1_def disk_flags_def fl)
  moreover have "core j1 = core j" by (simp add: j1_def core_def)
  ultimately show ?thesis using eq r by auto
qed


lemma download_name_neq [simp]: "download_name p \<noteq> p" "p \<noteq> download_name p"
  by (simp_all add: download_name_def)

lemma modify_time_files:
  assumes "valid_num (tj_file_num j) j" "p = tj_join j (cur_name j)"
    and "dk_files d (download_name p) = Some (c, t)"
  shows "dk_files (modify_time j d) = (dk_files d)(download_name p := None,
    p := Some (c, fe_modified_time (tj_files j ! nat (tj_file_num j))))"
  using assms by (simp add: modify_time_def Let_def disk_rename_def disk_set_mtime_def)

text \<open>The places a job writes to do not get into each other's way.\<close>

definition separate_targets :: "transfer_job \<Rightarrow> bool" where
  "separate_targets j \<longleftrightarrow>
    (\<forall>a < length (tj_files j). \<forall>b < length (tj_files j).
       (a \<noteq> b \<longrightarrow> tj_join j (fe_name (tj_files j ! a)) \<noteq> tj_join j (fe_name (tj_files j ! b))) \<and>
       tj_join j (fe_name (tj_files j ! a)) \<noteq> download_name (tj_join j (fe_name (tj_files j ! b))))"

lemma write_job_run:
  assumes "tj_file j = None" "\<forall>p. dk_create_ok d p" "dk_write_ok d" "zstd_ok Z" "separate_targets j"
    and "k \<le> length (tj_files j)" "dk_sync_ok d"
  shows "\<exists>jk dk. write_blocks Z (concat (map (\<lambda>k. file_blocks Z (tj_id j) (int k) (fe_name (tj_files j ! k)) (contents ! k)) [0..<k])) j d
      = (Inr (), jk, dk) \<and> core jk = core j \<and> disk_flags dk = disk_flags d \<and>
    (k = 0 \<longrightarrow> tj_file jk = None) \<and> (0 < k \<longrightarrow> tj_file_num jk = int k - 1) \<and>
    (\<forall>m < k. dk_files (modify_time jk dk) (tj_join j (fe_name (tj_files j ! m)))
        = Some (contents ! m, fe_modified_time (tj_files j ! m)))"
  using assms(6)
proof (induction k)
  case 0
  then show ?case using assms(1) by simp
next
  case (Suc k)
  let ?blk = "\<lambda>k. file_blocks Z (tj_id j) (int k) (fe_name (tj_files j ! k)) (contents ! k)"
  let ?t = "\<lambda>k. tj_join j (fe_name (tj_files j ! k))"
  obtain jk dk where IH: "write_blocks Z (concat (map ?blk [0..<k])) j d = (Inr (), jk, dk)" "core jk = core j"
      "disk_flags dk = disk_flags d" "k = 0 \<longrightarrow> tj_file jk = None" "0 < k \<longrightarrow> tj_file_num jk = int k - 1"
      "\<forall>m < k. dk_files (modify_time jk dk) (?t m) = Some (contents ! m, fe_modified_time (tj_files j ! m))"
    using Suc.IH Suc.prems by auto
  note ce = core_eq_simps [OF IH(2)]
  have k: "valid_num (int k) jk" using Suc.prems ce by (simp add: valid_num_def)
  have turn: "tj_file_num jk \<noteq> int k \<or> tj_file jk = None" using IH(4,5) by (cases k) auto
  have fl: "\<forall>p. dk_create_ok dk p" "dk_write_ok dk" "dk_sync_ok dk" using IH(3) assms(2,3,7) by (simp_all add: disk_flags_def)
  obtain j' d' t where r: "write_blocks Z (?blk k) jk dk = (Inr (), j', d')" "core j' = core jk"
      "tj_file_num j' = int k" "disk_flags d' = disk_flags dk"
      "dk_files d' = (dk_files (modify_time jk dk))(download_name (?t k) := Some (contents ! k, t))"
    using write_next_file [OF k turn _ fl(1,2) assms(4) fl(3), of "tj_id j" "fe_name (tj_files j ! k)" "contents ! k"] ce
      tj_join_core [OF IH(2)] by auto
  have c: "core j' = core j" using r(2) IH(2) by simp
  note ce' = core_eq_simps [OF c]
  have run: "write_blocks Z (concat (map ?blk [0..<Suc k])) j d = (Inr (), j', d')"
    using write_blocks_append [OF IH(1), of "?blk k"] r(1) by simp
  have mt: "dk_files (modify_time j' d') = (dk_files d')(download_name (?t k) := None,
      ?t k := Some (contents ! k, fe_modified_time (tj_files j ! k)))"
    using modify_time_files [of j' "?t k" d' "contents ! k" t] Suc.prems r(3,5) ce' tj_join_core [OF c]
    by (simp add: valid_num_def)
  have "dk_files (modify_time j' d') (?t m) = Some (contents ! m, fe_modified_time (tj_files j ! m))" if "m < Suc k" for m
  proof (cases "m = k")
    case True
    then show ?thesis by (simp add: mt)
  next
    case False
    then have m: "m < k" using that by simp
    then have "?t m \<noteq> ?t k" "?t m \<noteq> download_name (?t k)"
      using assms(5) Suc.prems unfolding separate_targets_def by auto
    then show ?thesis using IH(6) m by (simp add: mt r(5))
  qed
  then show ?case using run c r(3,4) IH(3) by auto
qed

section \<open>The loop over the jobs\<close>

lemma tj_read_id: "tj_read Z src j st = (r, j', st') \<Longrightarrow> tj_id j' = tj_id j"
  by (auto simp: tj_read_def read_block_def next_file_def set_file_is_waiting_def Let_def
      split: if_splits option.splits file_handle.splits sum.splits prod.splits)

lemma tj_read_stream: "tj_read Z src j st = (r, j', st') \<Longrightarrow> fst st' = fst st \<and> (\<exists>new. snd st' = snd st @ new)"
  by (auto simp: tj_read_def read_block_def send_current_digest_def stream_send_def Let_def
      split: if_splits option.splits file_handle.splits sum.splits prod.splits)

definition finish_msg :: "int \<Rightarrow> ft_msg \<Rightarrow> bool" where
  "finish_msg i m \<longleftrightarrow> (\<exists>n. m = MDone i n) \<or> (\<exists>n. m = MError i ''skipped'' n)"

lemma read_jobs_finished:
  assumes "read_jobs Z src ser log fin jobs st = (Some log', fin', jobs', st')"
  shows "map tj_id jobs' = map tj_id jobs \<and> fst st' = fst st \<and>
    (\<exists>more new. fin' = fin @ more \<and> snd st' = snd st @ new \<and> (\<forall>i \<in> set more. \<exists>m \<in> set new. finish_msg i m))"
  using assms
proof (induction Z src ser log fin jobs st arbitrary: log' fin' jobs' st' rule: read_jobs.induct)
  case (2 Z src ser log fin j js st)
  show ?case
  proof (cases "tj_is_last_job j")
    case True
    then show ?thesis using 2 by (auto split: prod.splits)
  next
    case False
    obtain r j1 st1 where rd: "tj_read Z src j st = (r, j1, st1)" by (metis prod_cases3)
    obtain new1 where n1: "fst st1 = fst st" "snd st1 = snd st @ new1" "tj_id j1 = tj_id j"
      using tj_read_stream [OF rd] tj_read_id [OF rd] by blast
    define msg where "msg = (case r of
        Inl e \<Rightarrow> (log, fin, Some (MError (tj_id j1) e (tj_file_num j1)))
      | Inr (Some b) \<Rightarrow> (log, fin, Some (MBlock b))
      | Inr None \<Rightarrow>
          if job_completed j1 then
            (case job_error j1 of
               Some err \<Rightarrow> (ser j1 False False err, fin @ [tj_id j1], Some (MError (tj_id j1) err (tj_file_num j1)))
             | None \<Rightarrow> (ser j1 True False [], fin @ [tj_id j1], Some (MDone (tj_id j1) (tj_file_num j1))))
          else (log, fin, None))"
    obtain log1 fin1 m where m: "msg = (log1, fin1, m)" by (metis prod_cases3)
    obtain st2 where st2: "(case m of None \<Rightarrow> Some st1 | Some m \<Rightarrow> stream_send m st1) = Some st2"
      and rest: "\<exists>js'. read_jobs Z src ser log1 fin1 js st2 = (Some log', fin', js', st') \<and> jobs' = j1 # js'"
      using "2.prems" False rd m unfolding msg_def
      by (auto simp: Let_def split: option.splits prod.splits)
    obtain js' where js': "read_jobs Z src ser log1 fin1 js st2 = (Some log', fin', js', st')" "jobs' = j1 # js'"
      using rest by blast
    have IH: "map tj_id js' = map tj_id js \<and> fst st' = fst st2 \<and>
      (\<exists>more new. fin' = fin1 @ more \<and> snd st' = snd st2 @ new \<and> (\<forall>i \<in> set more. \<exists>m \<in> set new. finish_msg i m))"
      by (rule "2.IH"(2) [OF False rd [symmetric] refl refl m [unfolded msg_def, symmetric] refl st2 js'(1)])
    have fin1: "fst st2 = fst st1 \<and> (\<exists>new2. snd st2 = snd st1 @ new2 \<and>
        (fin1 = fin \<or> fin1 = fin @ [tj_id j] \<and> (\<exists>m \<in> set new2. finish_msg (tj_id j) m)))"
      using m st2 n1(3) unfolding msg_def
      by (auto simp: stream_send_def finish_msg_def job_error_def split: sum.splits option.splits if_splits)
    then show ?thesis using IH n1 js'(2) by (auto 4 3)
  qed
qed simp

lemma fold_remove_job: "map tj_id (fold remove_job fin jobs) = filter (\<lambda>i. i \<notin> set fin) (map tj_id jobs)"
  by (induction fin arbitrary: jobs) (auto simp: remove_job_def filter_map o_def intro!: arg_cong [where f = "map tj_id"] filter_cong)

text \<open>An instance: two files, the second read in short steps, sent without compression.\<close>

definition demo_zstd :: zstd where
  "demo_zstd = \<lparr>z_compress = Some, z_decode_all = Some\<rparr>"

definition demo_entry :: "string \<Rightarrow> u64 \<Rightarrow> file_entry" where
  "demo_entry n t = \<lparr>fe_name = n, fe_type = FtFile, fe_is_hidden = False, fe_size = 2, fe_modified_time = t\<rparr>"

definition demo_src :: "string \<Rightarrow> rfile option" where
  "demo_src = [''/a/x'' \<mapsto> \<lparr>rf_rest = [1, 2], rf_meta = None, rf_calls = []\<rparr>,
               ''/a/y'' \<mapsto> \<lparr>rf_rest = [3], rf_meta = None, rf_calls = [Some 0]\<rparr>]"

definition demo_disk :: disk where
  "demo_disk = \<lparr>dk_files = (\<lambda>_. None), dk_create_ok = (\<lambda>_. True), dk_write_ok = True, dk_sync_ok = True, dk_now = 9\<rparr>"

definition demo_sender :: transfer_job where
  "demo_sender = new_write 1 [] ''/a'' 0 False True [demo_entry ''x'' 5, demo_entry ''y'' 6] False"

definition demo_receiver :: transfer_job where
  "demo_receiver = new_write 1 [] ''/b'' 0 False False [demo_entry ''x'' 5, demo_entry ''y'' 6] False"


section \<open>A transfer from end to end\<close>

lemma transfer_run:
  assumes "tj_file jr = None" "tj_file_num jr = 0" "\<not> tj_enable_overwrite_detection jr"
    and "\<forall>k < length (tj_files jr). \<exists>h. src (tj_join jr (fe_name (tj_files jr ! k))) = Some h \<and>
      None \<notin> set (rf_calls h) \<and> rf_rest h = contents ! k"
    and "tj_file jw = None" "tj_id jw = tj_id jr" "tj_files jw = tj_files jr" "separate_targets jw"
    and "\<forall>p. dk_create_ok d p" "dk_write_ok d" "dk_sync_ok d" "zstd_ok Z"
  shows "\<exists>fuel blocks jr' jw' d'. read_all fuel Z src jr st = (blocks, jr', True) \<and>
    write_blocks Z blocks jw d = (Inr (), jw', d') \<and>
    (\<forall>k < length (tj_files jr). dk_files (modify_time jw' d') (tj_join jw (fe_name (tj_files jr ! k)))
       = Some (contents ! k, fe_modified_time (tj_files jr ! k)))"
proof -
  obtain fuel jr' where r: "read_all fuel Z src jr st = (job_blocks Z (tj_id jr) (tj_files jr) contents 0, jr', True)"
    using read_job_run [of jr 0 src contents Z st] assms(1-4) by auto
  obtain jw' d' where w: "write_blocks Z (concat (map (\<lambda>k. file_blocks Z (tj_id jw) (int k) (fe_name (tj_files jw ! k)) (contents ! k))
      [0..<length (tj_files jw)])) jw d = (Inr (), jw', d')"
    "\<forall>m < length (tj_files jw). dk_files (modify_time jw' d') (tj_join jw (fe_name (tj_files jw ! m)))
        = Some (contents ! m, fe_modified_time (tj_files jw ! m))"
    using write_job_run [OF assms(5,9,10,12,8) order.refl assms(11)] by blast
  have "write_blocks Z (job_blocks Z (tj_id jr) (tj_files jr) contents 0) jw d = (Inr (), jw', d')"
    using w(1) by (simp add: job_blocks_def assms(6,7))
  moreover have "\<forall>k < length (tj_files jr). dk_files (modify_time jw' d') (tj_join jw (fe_name (tj_files jr ! k)))
       = Some (contents ! k, fe_modified_time (tj_files jr ! k))"
    using w(2) by (simp add: assms(7))
  ultimately show ?thesis using r by blast
qed

section \<open>Waiting for the peer\<close>

text \<open>
  A session of one reading job: \<open>handle_read_jobs\<close> polls it, and in between the peer's answers reach
  \<open>confirm\<close>. The log has what was sent and what was answered, in order.
\<close>

datatype session_event = Poll | Answer int confirm_union

datatype session_entry = Sent ft_msg | Answered int confirm_union

definition session_step ::
  "zstd \<Rightarrow> (string \<Rightarrow> rfile option) \<Rightarrow> (transfer_job \<Rightarrow> bool \<Rightarrow> bool \<Rightarrow> string \<Rightarrow> string) \<Rightarrow> session_event
    \<Rightarrow> transfer_job list \<times> stream \<times> session_entry list \<Rightarrow> transfer_job list \<times> stream \<times> session_entry list" where
  "session_step Z src ser e s =
    (case s of (jobs, st, log) \<Rightarrow>
       (case e of
          Poll \<Rightarrow> (case handle_read_jobs Z src ser jobs st of
             (_, jobs', st') \<Rightarrow> (jobs', st', log @ map Sent (drop (length (snd st)) (snd st'))))
        | Answer n u \<Rightarrow> (map (confirm n u) jobs, st, log @ [Answered n u])))"

definition session ::
  "zstd \<Rightarrow> (string \<Rightarrow> rfile option) \<Rightarrow> (transfer_job \<Rightarrow> bool \<Rightarrow> bool \<Rightarrow> string \<Rightarrow> string) \<Rightarrow> session_event list
    \<Rightarrow> transfer_job \<Rightarrow> stream \<Rightarrow> transfer_job list \<times> stream \<times> session_entry list" where
  "session Z src ser evs j st = fold (session_step Z src ser) evs ([j], st, [])"

fun digests :: "session_entry list \<Rightarrow> int list" where
  "digests [] = []"
| "digests (Sent (MDigest _ n _ _) # es) = n # digests es"
| "digests (_ # es) = digests es"

text \<open>The digest of a file was sent, and the peer answered it after that; the answers that confirm.\<close>

definition settled :: "(confirm_union \<Rightarrow> bool) \<Rightarrow> int \<Rightarrow> session_entry list \<Rightarrow> bool" where
  "settled P n es \<longleftrightarrow> (\<exists>a b u. es = a @ b \<and> n \<in> set (digests a) \<and> Answered n u \<in> set b \<and> P u)"

definition confirms :: "confirm_union \<Rightarrow> bool" where
  "confirms u = (case u of Skip skip \<Rightarrow> \<not> skip | OffsetBlk _ \<Rightarrow> True | NoUnion \<Rightarrow> False)"

definition log_ok :: "session_entry list \<Rightarrow> bool" where
  "log_ok es \<longleftrightarrow> distinct (digests es) \<and>
     (\<forall>pre b post. es = pre @ Sent (MBlock b) # post \<longrightarrow> settled confirms (bl_file_num b) pre) \<and>
     (\<forall>pre i n post. es = pre @ Sent (MDone i n) # post \<longrightarrow> (\<forall>k \<in> set (digests pre). settled (\<lambda>u. u \<noteq> NoUnion) k pre))"

definition wait_inv :: "transfer_job \<Rightarrow> session_entry list \<Rightarrow> bool" where
  "wait_inv j es \<longleftrightarrow> tj_enable_overwrite_detection j \<and>
     (\<forall>n \<in> set (digests es). n \<le> tj_file_num j \<and> valid_num n j) \<and>
     (tj_file j \<noteq> None \<longrightarrow> tj_file_is_waiting j) \<and>
     (tj_file j \<noteq> None \<longleftrightarrow> tj_file_num j \<in> set (digests es)) \<and>
     (tj_file j \<noteq> None \<and> tj_file_confirmed j \<longrightarrow> settled confirms (tj_file_num j) es) \<and>
     (\<forall>n \<in> set (digests es). n < tj_file_num j \<longrightarrow> settled (\<lambda>u. u \<noteq> NoUnion) n es)"

lemma digests_append [simp]: "digests (a @ b) = digests a @ digests b"
  by (induction a rule: digests.induct) auto

lemma settled_append: "settled P n es \<Longrightarrow> settled P n (es @ x)"
  unfolding settled_def by (metis Un_iff append.assoc set_append)

lemma settled_answer: "n \<in> set (digests es) \<Longrightarrow> P u \<Longrightarrow> settled P n (es @ [Answered n u])"
  unfolding settled_def by (metis list.set_intros(1))

lemma settled_mono: "settled P n es \<Longrightarrow> (\<And>u. P u \<Longrightarrow> Q u) \<Longrightarrow> settled Q n es"
  unfolding settled_def by blast

lemma confirms_answers: "settled confirms n es \<Longrightarrow> settled (\<lambda>u. u \<noteq> NoUnion) n es"
  by (erule settled_mono) (auto simp: confirms_def)

lemma log_ok_snoc:
  assumes "log_ok es"
    and "\<And>i n t l. e = Sent (MDigest i n t l) \<Longrightarrow> n \<notin> set (digests es)"
    and "\<And>b. e = Sent (MBlock b) \<Longrightarrow> settled confirms (bl_file_num b) es"
    and "\<And>i n. e = Sent (MDone i n) \<Longrightarrow> \<forall>k \<in> set (digests es). settled (\<lambda>u. u \<noteq> NoUnion) k es"
  shows "log_ok (es @ [e])"
proof -
  have "distinct (digests (es @ [e]))"
    using assms(1,2) by (cases "[e]" rule: digests.cases) (auto simp: log_ok_def)
  moreover have "settled confirms (bl_file_num b) pre" if "es @ [e] = pre @ Sent (MBlock b) # post" for pre b post
    using that assms(1,3) by (cases post rule: rev_cases) (auto simp: log_ok_def)
  moreover have "\<forall>k \<in> set (digests pre). settled (\<lambda>u. u \<noteq> NoUnion) k pre"
    if "es @ [e] = pre @ Sent (MDone i n) # post" for pre i n post
    using that assms(1,4) by (cases post rule: rev_cases) (auto simp: log_ok_def)
  ultimately show ?thesis by (simp add: log_ok_def)
qed

lemma wait_inv_sent:
  assumes "wait_inv j es" "\<And>i n t l. m \<noteq> MDigest i n t l"
  shows "wait_inv j (es @ [Sent m])"
proof -
  have "digests [Sent m] = []" using assms(2) by (cases m) auto
  then show ?thesis using assms(1) by (simp add: wait_inv_def settled_append)
qed

lemma wait_inv_past:
  assumes "wait_inv j es" "tj_file_num j \<in> set (digests es) \<longrightarrow> settled (\<lambda>u. u \<noteq> NoUnion) (tj_file_num j) es"
    and "tj_file_num j' = tj_file_num j + 1" "tj_file j' = None" "tj_files j' = tj_files j" "tj_enable_overwrite_detection j'"
  shows "wait_inv j' es"
proof -
  have "settled (\<lambda>u. u \<noteq> NoUnion) n es \<and> n \<le> tj_file_num j \<and> valid_num n j" if "n \<in> set (digests es)" for n
    using assms(1,2) that by (cases "n = tj_file_num j") (force simp: wait_inv_def)+
  then show ?thesis using assms(3-6) by (fastforce simp: wait_inv_def valid_num_def)
qed

text \<open>What one \<open>read\<close> does to a job that keeps the invariant.\<close>

lemma read_block_inv:
  assumes "wait_inv j es" "tj_file j \<noteq> None" "tj_file_confirmed j" "read_block Z j = (r, j')"
  shows "wait_inv j' es \<and> r \<noteq> Inr None \<and> (\<forall>b. r = Inr (Some b) \<longrightarrow> settled confirms (bl_file_num b) es)"
proof -
  have s: "settled confirms (tj_file_num j) es" using assms(1-3) by (simp add: wait_inv_def)
  have nxt: "wait_inv (next_file j) es"
    using assms(1) confirms_answers [OF s] by (intro wait_inv_past [OF assms(1)]) (auto simp: wait_inv_def next_file_def)
  show ?thesis
    using assms nxt s
    by (auto simp: read_block_def Let_def wait_inv_def valid_num_def split: option.splits file_handle.splits if_splits prod.splits)
qed

lemma read_inv:
  assumes inv: "wait_inv j es" and meta: "\<forall>p h. src p = Some h \<longrightarrow> rf_meta h \<noteq> None"
    and r: "tj_read Z src j (True, msgs) = (r, j', st')"
  shows "\<exists>new. st' = (True, msgs @ new) \<and> wait_inv j' (es @ map Sent new) \<and>
    (new = [] \<or> (\<exists>t l. new = [MDigest (tj_id j) (tj_file_num j) t l] \<and> tj_file_num j \<notin> set (digests es) \<and> r = Inr None \<and> \<not> job_completed j')) \<and>
    (\<forall>b. r = Inr (Some b) \<longrightarrow> settled confirms (bl_file_num b) es) \<and>
    (r = Inr None \<and> job_completed j' \<longrightarrow> (\<forall>k \<in> set (digests es). settled (\<lambda>u. u \<noteq> NoUnion) k es))"
proof (cases "valid_num (tj_file_num j) j")
  case False
  then have "\<forall>n \<in> set (digests es). n < tj_file_num j" using inv by (fastforce simp: wait_inv_def)
  then show ?thesis using False inv r by (auto simp: tj_read_def wait_inv_def valid_num_def)
next
  case valid: True
  show ?thesis
  proof (cases "tj_file j")
    case None
    then have new: "tj_file_num j \<notin> set (digests es)" using inv by (simp add: wait_inv_def)
    show ?thesis
    proof (cases "src (tj_join j (cur_name j))")
      case fail: None
      have j': "j' = j\<lparr>tj_file_num := tj_file_num j + 1, tj_file_confirmed := False, tj_file_is_waiting := False\<rparr>"
        and r': "r = Inl ''open''" "st' = (True, msgs)"
        using None fail valid r by (auto simp: tj_read_def Let_def)
      have "wait_inv j' es"
        using new inv None by (intro wait_inv_past [OF inv]) (auto simp: wait_inv_def j')
      then show ?thesis using r' by simp
    next
      case (Some h)
      then obtain t l where m: "rf_meta h = Some (t, l)" using meta by force
      have "st' = (True, msgs @ [MDigest (tj_id j) (tj_file_num j) t l])" "r = Inr None"
        and j': "j' = j\<lparr>tj_file := Some (Reading h), tj_file_confirmed := False, tj_file_is_waiting := True\<rparr>"
        using r None Some valid inv m
        by (auto simp: tj_read_def Let_def wait_inv_def send_current_digest_def stream_send_def set_file_is_waiting_def)
      moreover have "wait_inv j' (es @ map Sent [MDigest (tj_id j) (tj_file_num j) t l])"
        using inv new valid unfolding j' by (auto simp: wait_inv_def valid_num_def settled_append)
      moreover have "\<not> job_completed j'" using inv by (simp add: j' job_completed_def wait_inv_def)
      ultimately show ?thesis using new by blast
    qed
  next
    case (Some f)
    then have w: "tj_file_is_waiting j" "tj_enable_overwrite_detection j" using inv by (auto simp: wait_inv_def)
    show ?thesis
    proof (cases "tj_file_confirmed j")
      case False
      then have "r = Inr None" "j' = j" "st' = (True, msgs)" using r Some valid w by (auto simp: tj_read_def Let_def)
      then show ?thesis using inv w by (auto simp: job_completed_def)
    next
      case True
      then have "read_block Z j = (r, j')" "st' = (True, msgs)"
        using r Some valid w by (auto simp: tj_read_def Let_def split: prod.splits)
      with read_block_inv [OF inv _ True] Some show ?thesis by auto
    qed
  qed
qed

lemma poll_inv:
  assumes inv: "wait_inv j es" "log_ok es" and meta: "\<forall>p h. src p = Some h \<longrightarrow> rf_meta h \<noteq> None"
    and p: "handle_read_jobs Z src ser [j] (True, msgs) = (l, jobs', st')"
  shows "\<exists>new. st' = (True, msgs @ new) \<and> log_ok (es @ map Sent new) \<and>
    (jobs' = [] \<or> (\<exists>j'. jobs' = [j'] \<and> wait_inv j' (es @ map Sent new)))"
proof (cases "tj_is_last_job j")
  case True
  then show ?thesis using assms by (auto simp: handle_read_jobs_def)
next
  case False
  obtain r j' st1 where r: "tj_read Z src j (True, msgs) = (r, j', st1)" by (metis prod_cases3)
  note one = read_inv [OF inv(1) meta r]
  have sent: "\<exists>new. st' = (True, msgs @ new) \<and> log_ok (es @ map Sent new) \<and>
      (jobs' = [] \<or> (\<exists>j'. jobs' = [j'] \<and> wait_inv j' (es @ map Sent new)))"
    if "st1 = (True, msgs)" "st' = (True, msgs @ [m])" "log_ok (es @ [Sent m])" "\<And>i n t l. m \<noteq> MDigest i n t l" "wait_inv j' es"
      "jobs' = [] \<or> jobs' = [j']" for m
    using that wait_inv_sent [OF that(5) that(4)] by (intro exI [of _ "[m]"]) auto
  show ?thesis
  proof (cases r)
    case (Inl e)
    then have "st1 = (True, msgs)" "wait_inv j' es" using one by auto
    then show ?thesis
      using p r Inl False log_ok_snoc [OF inv(2), of "Sent (MError (tj_id j') e (tj_file_num j'))"]
      by (intro sent [of "MError (tj_id j') e (tj_file_num j')"]) (auto simp: handle_read_jobs_def stream_send_def)
  next
    case (Inr bo)
    show ?thesis
    proof (cases bo)
      case (Some b)
      then have o: "st1 = (True, msgs)" "wait_inv j' es" "settled confirms (bl_file_num b) es" using one Inr by auto
      show ?thesis
        using p r Inr Some False o log_ok_snoc [OF inv(2), of "Sent (MBlock b)"]
        by (intro sent [of "MBlock b"]) (auto simp: handle_read_jobs_def stream_send_def)
    next
      case None
      show ?thesis
      proof (cases "job_completed j'")
        case True
        then have o: "st1 = (True, msgs)" "wait_inv j' es" "\<forall>k \<in> set (digests es). settled (\<lambda>u. u \<noteq> NoUnion) k es"
          using one Inr None by auto
        show ?thesis
        proof (cases "job_error j'")
          case (Some e)
          then show ?thesis
            using p r Inr None False True o log_ok_snoc [OF inv(2), of "Sent (MError (tj_id j') e (tj_file_num j'))"]
            by (intro sent [of "MError (tj_id j') e (tj_file_num j')"])
              (auto simp: handle_read_jobs_def stream_send_def remove_job_def)
        next
          case fine: None
          then show ?thesis
            using p r Inr None False True o log_ok_snoc [OF inv(2), of "Sent (MDone (tj_id j') (tj_file_num j'))"]
            by (intro sent [of "MDone (tj_id j') (tj_file_num j')"])
              (auto simp: handle_read_jobs_def stream_send_def remove_job_def)
        qed
      next
        case open_job: False
        then have e: "st' = st1" "jobs' = [j']" using p r Inr None False by (auto simp: handle_read_jobs_def)
        obtain new where new: "st1 = (True, msgs @ new)" "wait_inv j' (es @ map Sent new)"
          "new = [] \<or> (\<exists>t l. new = [MDigest (tj_id j) (tj_file_num j) t l] \<and> tj_file_num j \<notin> set (digests es))"
          using one by blast
        have "log_ok (es @ map Sent new)"
          using new(3) inv(2) log_ok_snoc [OF inv(2), of "Sent (hd new)"] by auto
        then show ?thesis using e new by blast
      qed
    qed
  qed
qed

lemma confirm_inv:
  assumes "wait_inv j es" shows "wait_inv (confirm n u j) (es @ [Answered n u])"
proof (cases "tj_file_num j = n \<and> u \<noteq> NoUnion")
  case False
  then have "confirm n u j = j" by (cases u) (auto simp: confirm_def)
  then show ?thesis using assms by (simp add: wait_inv_def settled_append)
next
  case True
  have out: "n + 1 \<notin> set (digests es)" using assms True by (auto simp: wait_inv_def)
  show ?thesis
  proof (cases "u = Skip True")
    case skip: True
    have "settled (\<lambda>u. u \<noteq> NoUnion) n (es @ [Answered n u])" if "n \<in> set (digests es)"
      by (rule settled_answer [OF that]) (simp add: skip)
    then show ?thesis
      using assms True skip out
      by (auto simp: wait_inv_def confirm_def set_file_skipped_def set_file_confirmed_def set_file_is_waiting_def
          valid_num_def settled_append order_le_less Let_def)
  next
    case False
    then have c: "confirms u" "confirm n u j = set_file_confirmed True j"
      using True by (cases u; simp add: confirms_def confirm_def)+
    then show ?thesis
      using assms True settled_answer [of n es confirms u]
      by (auto simp: wait_inv_def set_file_confirmed_def valid_num_def settled_append)
  qed
qed

definition session_inv :: "transfer_job list \<times> stream \<times> session_entry list \<Rightarrow> bool" where
  "session_inv s = (case s of (jobs, st, es) \<Rightarrow>
     fst st \<and> log_ok es \<and> (jobs = [] \<or> (\<exists>j. jobs = [j] \<and> wait_inv j es)))"

lemma session_step_inv:
  assumes "session_inv s" "\<forall>p h. src p = Some h \<longrightarrow> rf_meta h \<noteq> None"
  shows "session_inv (session_step Z src ser e s)"
proof -
  obtain jobs msgs es where s: "s = (jobs, (True, msgs), es)" "log_ok es"
    using assms(1) by (cases s) (auto simp: session_inv_def)
  show ?thesis
  proof (cases e)
    case (Answer n u)
    have "log_ok (es @ [Answered n u])" by (rule log_ok_snoc [OF s(2)]) simp_all
    then show ?thesis
      using assms(1) s confirm_inv by (auto simp: session_step_def session_inv_def Answer)
  next
    case Poll
    obtain l jobs' st' where h: "handle_read_jobs Z src ser jobs (True, msgs) = (l, jobs', st')" by (metis prod_cases3)
    show ?thesis
    proof (cases jobs)
      case Nil
      then show ?thesis using assms(1) s Poll by (auto simp: session_step_def session_inv_def handle_read_jobs_def)
    next
      case (Cons j js)
      then have "js = []" "wait_inv j es" using assms(1) s by (auto simp: session_inv_def)
      then show ?thesis
        using poll_inv [OF _ s(2) assms(2), of j Z ser msgs l jobs' st'] h s Poll Cons
        by (auto simp: session_step_def session_inv_def)
    qed
  qed
qed

lemma session_keeps_inv:
  assumes "\<forall>p h. src p = Some h \<longrightarrow> rf_meta h \<noteq> None"
  shows "session_inv s \<Longrightarrow> session_inv (fold (session_step Z src ser) evs s)"
  by (induction evs arbitrary: s) (simp_all add: session_step_inv [OF _ assms])

text \<open>A job that waits is left alone by further polls.\<close>

lemma waiting_polls:
  assumes "tj_enable_overwrite_detection j" "tj_file j \<noteq> None" "tj_file_is_waiting j" "\<not> tj_file_confirmed j"
    "valid_num (tj_file_num j) j" "\<not> tj_is_last_job j"
  shows "fold (session_step Z src ser) (replicate k Poll) ([j], st, es) = ([j], st, es)"
proof -
  have "tj_read Z src j st = (Inr None, j, st)" using assms by (auto simp: tj_read_def Let_def)
  then have "session_step Z src ser Poll ([j], st, es) = ([j], st, es)"
    using assms by (simp add: session_step_def handle_read_jobs_def job_completed_def)
  then show ?thesis by (induction k) simp_all
qed

lemma first_poll:
  assumes "tj_enable_overwrite_detection j" "tj_file j = None" "valid_num (tj_file_num j) j" "\<not> tj_is_last_job j"
    "src (tj_join j (cur_name j)) = Some h" "rf_meta h = Some (t, l)"
  shows "session_step Z src ser Poll ([j], (True, msgs), []) =
    ([j\<lparr>tj_file := Some (Reading h), tj_file_confirmed := False, tj_file_is_waiting := True\<rparr>],
     (True, msgs @ [MDigest (tj_id j) (tj_file_num j) t l]), [Sent (MDigest (tj_id j) (tj_file_num j) t l)])"
proof -
  let ?j = "j\<lparr>tj_file := Some (Reading h), tj_file_confirmed := False, tj_file_is_waiting := True\<rparr>"
  have "tj_read Z src j (True, msgs) = (Inr None, ?j, (True, msgs @ [MDigest (tj_id j) (tj_file_num j) t l]))"
    using assms by (simp add: tj_read_def Let_def send_current_digest_def stream_send_def set_file_is_waiting_def)
  moreover have "\<not> job_completed ?j" using assms(1) by (simp add: job_completed_def)
  ultimately show ?thesis using assms(4) by (simp add: session_step_def handle_read_jobs_def)
qed

lemma polls_send_digest:
  assumes "tj_enable_overwrite_detection j" "tj_file j = None" "valid_num (tj_file_num j) j" "\<not> tj_is_last_job j"
    "src (tj_join j (cur_name j)) = Some h" "rf_meta h = Some (t, l)"
  shows "session Z src ser (replicate (Suc k) Poll) j (True, msgs) =
    ([j\<lparr>tj_file := Some (Reading h), tj_file_confirmed := False, tj_file_is_waiting := True\<rparr>],
     (True, msgs @ [MDigest (tj_id j) (tj_file_num j) t l]), [Sent (MDigest (tj_id j) (tj_file_num j) t l)])"
  using first_poll [where Z = Z and ser = ser and msgs = msgs and src = src and h = h and t = t and l = l, OF assms] assms
    waiting_polls [of "j\<lparr>tj_file := Some (Reading h), tj_file_confirmed := False, tj_file_is_waiting := True\<rparr>" Z src ser k]
  by (simp add: session_def valid_num_def)

section \<open>Properties\<close>

text \<open>
  C3: a transfer delivers the files: when a reading job without overwrite detection can open and
  read all its files, in reads of whatever lengths, it ends after sending finitely many blocks;
  a writing job with the same id and file list that receives them in order accepts every block,
  and once the last file is put in its place every file has the contents that were read and the
  modification time that was announced.
\<close>

theorem transfer_end_to_end:
  assumes "tj_file jr = None" "tj_file_num jr = 0" "\<not> tj_enable_overwrite_detection jr"
    and "\<forall>k < length (tj_files jr). \<exists>h. src (tj_join jr (fe_name (tj_files jr ! k))) = Some h \<and>
      None \<notin> set (rf_calls h) \<and> rf_rest h = contents ! k"
    and "tj_file jw = None" "tj_id jw = tj_id jr" "tj_files jw = tj_files jr" "separate_targets jw"
    and "\<forall>p. dk_create_ok d p" "dk_write_ok d" "dk_sync_ok d" "zstd_ok Z"
  shows "\<exists>fuel blocks jr' jw' d'. read_all fuel Z src jr st = (blocks, jr', True) \<and>
    write_blocks Z blocks jw d = (Inr (), jw', d') \<and>
    (\<forall>k < length (tj_files jr). dk_files (modify_time jw' d') (tj_join jw (fe_name (tj_files jr ! k)))
       = Some (contents ! k, fe_modified_time (tj_files jr ! k)))"
  using transfer_run [OF assms] .

theorem transfer_end_to_end_witness:
  "\<exists>fuel blocks jr' jw' d'. read_all fuel demo_zstd demo_src demo_sender (True, []) = (blocks, jr', True) \<and>
    write_blocks demo_zstd blocks demo_receiver demo_disk = (Inr (), jw', d') \<and>
    (\<forall>k < length (tj_files demo_sender). dk_files (modify_time jw' d') (tj_join demo_receiver (fe_name (tj_files demo_sender ! k)))
       = Some ([[1, 2], [3]] ! k, fe_modified_time (tj_files demo_sender ! k)))"
proof (rule transfer_end_to_end)
  show "\<forall>k < length (tj_files demo_sender). \<exists>h. demo_src (tj_join demo_sender (fe_name (tj_files demo_sender ! k))) = Some h \<and>
      None \<notin> set (rf_calls h) \<and> rf_rest h = [[1, 2], [3]] ! k"
    by (simp add: demo_sender_def new_write_def demo_entry_def demo_src_def tj_join_def path_join_def starts_with_def
        less_Suc_eq numeral_2_eq_2)
  show "separate_targets demo_receiver"
    by (simp add: separate_targets_def demo_receiver_def new_write_def demo_entry_def tj_join_def path_join_def
        starts_with_def less_Suc_eq numeral_2_eq_2 download_name_def)
qed (simp_all add: demo_sender_def demo_receiver_def new_write_def demo_disk_def demo_zstd_def zstd_ok_def)

text \<open>
  C9: nothing is sent before the peer confirms. Take a reading job with overwrite detection, and any
  session of polls by \<open>handle_read_jobs\<close> and answers of the peer, whatever they are. The digest of a
  file is sent at most once; every block that is sent comes after the digest of its file and after an
  answer to that digest which lets the file be sent; and the job is reported done only after an answer
  to every digest. While the peer does not answer, any number of polls sends exactly one message, the
  digest of the current file, and the job is kept and not completed.
\<close>

theorem read_waits_for_confirmation:
  assumes "tj_enable_overwrite_detection j" "tj_file j = None"
    and "\<forall>p h. src p = Some h \<longrightarrow> rf_meta h \<noteq> None"
    and "session Z src ser evs j (True, msgs) = (jobs', st', es)"
  shows "distinct (digests es) \<and>
    (\<forall>pre b post. es = pre @ Sent (MBlock b) # post \<longrightarrow> settled confirms (bl_file_num b) pre) \<and>
    (\<forall>pre i n post. es = pre @ Sent (MDone i n) # post \<longrightarrow> (\<forall>k \<in> set (digests pre). settled (\<lambda>u. u \<noteq> NoUnion) k pre)) \<and>
    (\<forall>k h t l. evs = replicate (Suc k) Poll \<and> \<not> tj_is_last_job j \<and> valid_num (tj_file_num j) j \<and>
       src (tj_join j (cur_name j)) = Some h \<and> rf_meta h = Some (t, l) \<longrightarrow>
       es = [Sent (MDigest (tj_id j) (tj_file_num j) t l)] \<and> st' = (True, msgs @ [MDigest (tj_id j) (tj_file_num j) t l]) \<and>
       (\<exists>j'. jobs' = [j'] \<and> tj_file_is_waiting j' \<and> \<not> job_completed j'))"
proof -
  have "session_inv ([j], (True, msgs), [])"
    using assms(1,2) by (simp add: session_inv_def log_ok_def wait_inv_def)
  from session_keeps_inv [OF assms(3) this, of Z ser evs] have "log_ok es"
    using assms(4) by (simp add: session_def session_inv_def)
  moreover have "es = [Sent (MDigest (tj_id j) (tj_file_num j) t l)] \<and> st' = (True, msgs @ [MDigest (tj_id j) (tj_file_num j) t l]) \<and>
      (\<exists>j'. jobs' = [j'] \<and> tj_file_is_waiting j' \<and> \<not> job_completed j')"
    if "evs = replicate (Suc k) Poll \<and> \<not> tj_is_last_job j \<and> valid_num (tj_file_num j) j \<and>
       src (tj_join j (cur_name j)) = Some h \<and> rf_meta h = Some (t, l)" for k h t l
    using polls_send_digest [of j src h t l Z ser k msgs] that assms(1,2,4) by (auto simp: job_completed_def)
  ultimately show ?thesis unfolding log_ok_def by blast
qed

definition demo_asking :: transfer_job where
  "demo_asking = demo_sender\<lparr>tj_enable_overwrite_detection := True\<rparr>"

definition demo_asked_src :: "string \<Rightarrow> rfile option" where
  "demo_asked_src = [''/a/x'' \<mapsto> \<lparr>rf_rest = [1, 2], rf_meta = Some (5, 2), rf_calls = []\<rparr>]"

theorem read_waits_for_confirmation_witness:
  "\<exists>jobs' st'. session demo_zstd demo_asked_src (\<lambda>_ _ _ _. []) [Poll, Poll, Answer 0 (Skip False), Poll] demo_asking (True, [])
     = (jobs', st', [Sent (MDigest 1 0 5 2), Answered 0 (Skip False),
         Sent (MBlock \<lparr>bl_id = 1, bl_file_num = 0, bl_data = [1, 2], bl_compressed = False\<rparr>)]) \<and>
   settled confirms 0 [Sent (MDigest 1 0 5 2), Answered 0 (Skip False)]"
proof -
  let ?b = "\<lparr>bl_id = 1, bl_file_num = 0, bl_data = [1, 2], bl_compressed = False\<rparr>"
  let ?es = "[Sent (MDigest 1 0 5 2), Answered 0 (Skip False)] @ [Sent (MBlock ?b)]"
  let ?h = "\<lparr>rf_rest = [1, 2], rf_meta = Some (5, 2), rf_calls = []\<rparr>"
  have loop: "read_loop [] ?h = Some ([1, 2], ?h\<lparr>rf_rest := []\<rparr>)"
    by (simp add: read_loop.simps read_call_def buf_size_def)
  have name: "valid_num 0 demo_asking" "cur_name demo_asking = ''x''" "tj_join demo_asking ''x'' = ''/a/x''"
    by (simp_all add: demo_asking_def demo_sender_def new_write_def demo_entry_def valid_num_def tj_join_def path_join_def
        starts_with_def)
  obtain jobs' st' where s: "session demo_zstd demo_asked_src (\<lambda>_ _ _ _. []) [Poll, Poll, Answer 0 (Skip False), Poll]
      demo_asking (True, []) = (jobs', st', ?es)"
    by (simp add: session_def session_step_def handle_read_jobs_def tj_read_def read_block_def loop valid_num_def demo_asking_def
        demo_sender_def new_write_def demo_entry_def demo_asked_src_def tj_join_def path_join_def starts_with_def
        send_current_digest_def stream_send_def set_file_is_waiting_def job_completed_def confirm_def set_file_confirmed_def
        demo_zstd_def compress_def Let_def is_compressed_file_def get_ext_def)
  have "\<forall>pre b post. ?es = pre @ Sent (MBlock b) # post \<longrightarrow> settled confirms (bl_file_num b) pre"
    by (rule read_waits_for_confirmation [OF _ _ _ s, THEN conjunct2, THEN conjunct1])
      (simp_all add: demo_asking_def demo_sender_def new_write_def demo_asked_src_def)
  then have "settled confirms (bl_file_num ?b) [Sent (MDigest 1 0 5 2), Answered 0 (Skip False)]" by blast
  then show ?thesis using s by auto
qed

text \<open>
  the loop over the jobs finishes jobs properly: when \<open>handle_read_jobs\<close> returns a log, the
  jobs that are gone are those with the id of a finished job, the others stay in order, and for
  every finished job the peer has been sent that it is done, or that it was skipped.
\<close>

theorem handle_read_jobs_finished:
  assumes "handle_read_jobs Z src ser jobs st = (Some log, jobs', st')"
  shows "\<exists>fin new. map tj_id jobs' = filter (\<lambda>i. i \<notin> set fin) (map tj_id jobs) \<and>
    snd st' = snd st @ new \<and> (\<forall>i \<in> set fin. \<exists>m \<in> set new. (\<exists>n. m = MDone i n) \<or> (\<exists>n. m = MError i ''skipped'' n))"
proof -
  obtain fin jobs1 where r: "read_jobs Z src ser [] [] jobs st = (Some log, fin, jobs1, st')"
    and j: "jobs' = fold remove_job fin jobs1"
    using assms by (auto simp: handle_read_jobs_def split: prod.splits option.splits)
  from read_jobs_finished [OF r] j show ?thesis
    by (auto simp: fold_remove_job finish_msg_def)
qed

theorem handle_read_jobs_finished_witness:
  "\<exists>fin new. map tj_id ([] :: transfer_job list) = filter (\<lambda>i. i \<notin> set fin) (map tj_id [demo_sender\<lparr>tj_files := []\<rparr>]) \<and>
    snd (True, [MDone 1 0]) = snd (True, []) @ new \<and>
    (\<forall>i \<in> set fin. \<exists>m \<in> set new. (\<exists>n. m = MDone i n) \<or> (\<exists>n. m = MError i ''skipped'' n))"
  by (rule handle_read_jobs_finished [where Z = demo_zstd and src = demo_src and ser = "\<lambda>_ _ _ _. []" and log = "[]"])
     (simp add: handle_read_jobs_def demo_sender_def new_write_def tj_read_def valid_num_def job_completed_def
       job_error_def job_skipped_def stream_send_def remove_job_def)

text \<open>
  a writing job is not confined to its directory: when the file list, which comes from the peer,
  names a file by an absolute path, the block is written to that path, whatever the directory of
  the job, and the file is put there under its final name.
\<close>

theorem write_outside_directory:
  assumes "valid_num n j" "name = fe_name (tj_files j ! nat n)" "starts_with ''/'' name"
    and "tj_file j = None" "bl_id b = tj_id j" "bl_file_num b = n" "\<not> bl_compressed b"
    and "\<forall>p. dk_create_ok d p" "dk_write_ok d"
  shows "\<exists>j' d' t. tj_write Z b j d = (Inr (), j', d') \<and> dk_files d' (name @ ''.download'') = Some (bl_data b, t) \<and>
    dk_files (modify_time j' d') name = Some (bl_data b, fe_modified_time (tj_files j ! nat n))"
proof -
  have p: "tj_join x name = name" for x
    using assms(3) by (auto simp: tj_join_def path_join_def starts_with_def)
  define j1 where "j1 = j\<lparr>tj_file_num := n, tj_file := Some (Writing (download_name name))\<rparr>"
  let ?d0 = "modify_time j d"
  define d1 where "d1 = ?d0\<lparr>dk_files := (dk_files ?d0)(download_name name := Some ([], dk_now ?d0))\<rparr>"
  have fl: "dk_create_ok ?d0 = dk_create_ok d" "dk_write_ok ?d0 = dk_write_ok d" "dk_sync_ok ?d0 = dk_sync_ok d"
    using modify_time_flags [of j d] by (simp_all add: disk_flags_def)
  have sw: "switch_file n j d = (Inr (), j1, d1)"
    using assms(4,8) fl p by (simp add: switch_file_def Let_def j1_def d1_def assms(2) [symmetric])
  have "tj_write Z b j d = tj_write Z b j1 d1"
    using assms(1,4-6) sw by (intro switch_then_write) auto
  moreover obtain j' d' t where w: "write_blocks Z [b] j1 d1 = (Inr (), j', d')" "core j' = core j1"
      "tj_file_num j' = n" "dk_files d' = (dk_files d1)(download_name name := Some ([] @ concat (map (payload Z) [b]), t))"
    using write_same_file [of n j1 "download_name name" d1 "[]" "dk_now ?d0" "[b]" Z] assms(1,5,6,9) fl
    by (auto simp: j1_def d1_def valid_num_def)
  ultimately have wr: "tj_write Z b j d = (Inr (), j', d')" by (auto split: prod.splits sum.splits)
  note ce = core_eq_simps [OF w(2)]
  have f: "dk_files d' (download_name name) = Some (bl_data b, t)"
    using w(4) assms(7) by (simp add: payload_def)
  have "dk_files (modify_time j' d') = (dk_files d')(download_name name := None,
      name := Some (bl_data b, fe_modified_time (tj_files j' ! nat (tj_file_num j'))))"
    by (rule modify_time_files) (use w(3) ce f assms(1,2) p in \<open>simp_all add: j1_def valid_num_def\<close>)
  then have "dk_files (modify_time j' d') name = Some (bl_data b, fe_modified_time (tj_files j ! nat n))"
    using w(3) ce by (simp add: j1_def)
  then show ?thesis using wr f by (auto simp: download_name_def)
qed

theorem write_outside_directory_witness:
  "\<exists>j' d' t. tj_write demo_zstd \<lparr>bl_id = 1, bl_file_num = 0, bl_data = [7], bl_compressed = False\<rparr>
      (new_write 1 [] ''/b'' 0 False False [demo_entry ''/etc/x'' 5] False) demo_disk = (Inr (), j', d') \<and>
    dk_files d' (''/etc/x'' @ ''.download'') = Some (bl_data \<lparr>bl_id = 1, bl_file_num = 0, bl_data = [7], bl_compressed = False\<rparr>, t) \<and>
    dk_files (modify_time j' d') ''/etc/x'' = Some (bl_data \<lparr>bl_id = 1, bl_file_num = 0, bl_data = [7], bl_compressed = False\<rparr>,
      fe_modified_time (tj_files (new_write 1 [] ''/b'' 0 False False [demo_entry ''/etc/x'' 5] False) ! nat 0))"
  by (rule write_outside_directory)
     (simp_all add: new_write_def demo_entry_def valid_num_def demo_disk_def starts_with_def)

text \<open>
  the leftover of an aborted transfer replaces a good file: when a writing job receives its
  first block while a \<open>.download\<close> file of an earlier transfer is still there, that leftover is
  renamed to the final name, over whatever was there, before the new transfer begins.
\<close>

theorem stale_download_promoted:
  assumes "valid_num n j" "tj_file_num j = n" "tj_file j = None" "p = tj_join j (fe_name (tj_files j ! nat n))"
    and "dk_files d (download_name p) = Some (stale, t)" "dk_files d p = Some (good, t')"
    and "bl_id b = tj_id j" "bl_file_num b = n" "\<forall>p. dk_create_ok d p" "dk_write_ok d"
  shows "\<exists>j' d'. tj_write Z b j d = (Inr (), j', d') \<and>
    dk_files d' p = Some (stale, fe_modified_time (tj_files j ! nat n))"
proof -
  let ?d0 = "modify_time j d"
  define j1 where "j1 = j\<lparr>tj_file_num := n, tj_file := Some (Writing (download_name p))\<rparr>"
  define d1 where "d1 = ?d0\<lparr>dk_files := (dk_files ?d0)(download_name p := Some ([], dk_now ?d0))\<rparr>"
  have fl: "dk_create_ok ?d0 = dk_create_ok d" "dk_write_ok ?d0 = dk_write_ok d" "dk_sync_ok ?d0 = dk_sync_ok d"
    using modify_time_flags [of j d] by (simp_all add: disk_flags_def)
  have sw: "switch_file n j d = (Inr (), j1, d1)"
    using assms(3,4,9) fl by (simp add: switch_file_def Let_def j1_def d1_def tj_join_def)
  have "tj_write Z b j d = tj_write Z b j1 d1"
    using assms(1,3,7,8) sw by (intro switch_then_write) auto
  moreover obtain j' d' t2 where w: "write_blocks Z [b] j1 d1 = (Inr (), j', d')"
      "dk_files d' = (dk_files d1)(download_name p := Some ([] @ concat (map (payload Z) [b]), t2))"
    using write_same_file [of n j1 "download_name p" d1 "[]" "dk_now ?d0" "[b]" Z] assms(1,7,8,10) fl
    by (auto simp: j1_def d1_def valid_num_def)
  ultimately have wr: "tj_write Z b j d = (Inr (), j', d')" by (auto split: prod.splits sum.splits)
  have "dk_files ?d0 p = Some (stale, fe_modified_time (tj_files j ! nat n))"
    using modify_time_files [of j p d stale t] assms(1,2,4,5) by simp
  then have "dk_files d' p = Some (stale, fe_modified_time (tj_files j ! nat n))"
    by (simp add: w(2) d1_def)
  then show ?thesis using wr by blast
qed

theorem stale_download_promoted_witness:
  "\<exists>j' d'. tj_write demo_zstd \<lparr>bl_id = 1, bl_file_num = 0, bl_data = [7], bl_compressed = False\<rparr> demo_receiver
      (demo_disk\<lparr>dk_files := [''/b/x'' \<mapsto> ([1, 2, 3], 1), ''/b/x.download'' \<mapsto> ([1], 2)]\<rparr>) = (Inr (), j', d') \<and>
    dk_files d' ''/b/x'' = Some ([1], fe_modified_time (tj_files demo_receiver ! nat 0))"
  by (rule stale_download_promoted [where t = 2 and t' = 1 and good = "[1, 2, 3]"])
     (simp_all add: demo_receiver_def new_write_def demo_entry_def valid_num_def demo_disk_def tj_join_def path_join_def
       starts_with_def download_name_def)

text \<open>
  a failing compressor loses data silently: when compressing a block fails, \<open>read\<close> still
  reports success, advances in the file and counts the bytes as finished, and sends an empty block.
\<close>

theorem compress_failure_loses_block:
  assumes "valid_num (tj_file_num j) j" "\<not> tj_enable_overwrite_detection j \<or> tj_file_confirmed j"
    and "tj_file j = Some (Reading h)" "None \<notin> set (rf_calls h)" "rf_rest h \<noteq> []"
    and "z_compress Z (take buf_size (rf_rest h)) = None" "\<not> is_compressed_file (cur_name j)"
  shows "\<exists>b h' j'. tj_read Z src j st = (Inr (Some b), j', st) \<and> bl_data b = [] \<and>
    tj_file j' = Some (Reading h') \<and> rf_rest h' = drop buf_size (rf_rest h) \<and>
    tj_finished_size j' = tj_finished_size j + of_nat (length (take buf_size (rf_rest h)))"
proof -
  have b: "bl_data (data_block Z (tj_id j) (tj_file_num j) (cur_name j) (take buf_size (rf_rest h))) = []"
    using assms(5-7) by (simp add: data_block_def compress_def buf_size_def)
  show ?thesis by (rule tj_read_data [OF assms(1-5), of Z src st]) (use b in auto)
qed

theorem compress_failure_loses_block_witness:
  "\<exists>b h' j'. tj_read (demo_zstd\<lparr>z_compress := (\<lambda>_. None)\<rparr>) demo_src
      (demo_sender\<lparr>tj_file := Some (Reading \<lparr>rf_rest = [1, 2], rf_meta = None, rf_calls = []\<rparr>)\<rparr>) (True, []) = (Inr (Some b), j', (True, [])) \<and>
    bl_data b = [] \<and> tj_file j' = Some (Reading h') \<and>
    rf_rest h' = drop buf_size (rf_rest \<lparr>rf_rest = [1, 2], rf_meta = None, rf_calls = []\<rparr>) \<and>
    tj_finished_size j' = tj_finished_size (demo_sender\<lparr>tj_file := Some (Reading \<lparr>rf_rest = [1, 2], rf_meta = None, rf_calls = []\<rparr>)\<rparr>)
      + of_nat (length (take buf_size (rf_rest \<lparr>rf_rest = [1, 2], rf_meta = None, rf_calls = []\<rparr>)))"
  by (rule compress_failure_loses_block)
     (simp_all add: demo_sender_def new_write_def demo_entry_def valid_num_def is_compressed_file_def get_ext_def)

end
