(* ===== verification/AddressBook.thy ===== *)
theory AddressBook
  imports LinuxSession PeerConfig FileTransferProps
begin

text \<open>
  Where \<open>libs/hbb_common/src/config.rs\<close> keeps its files, and the encrypted caches of the address book
  and of the group, with the peers of the local network. Directories of the user, the parser of JSON,
  zstd and the secretbox are arguments; a file system says what can be created, opened and written.
\<close>

section \<open>Paths\<close>

datatype os = Windows | MacOs | Linux

text \<open>\<open>PathBuf::push\<close> and \<open>Path::parent\<close>.\<close>

definition path_push :: "string \<Rightarrow> string \<Rightarrow> string" where
  "path_push dir p =
    (if starts_with ''/'' p then p
     else if dir = [] \<or> ends_with ''/'' dir then dir @ p
     else dir @ ''/'' @ p)"

record user_dirs =
  dr_home :: "string option"
  dr_current :: "string option"
  dr_temp :: string
  dr_project_config :: "string \<Rightarrow> string \<Rightarrow> string option"

definition passwd_cmd :: "string \<Rightarrow> string" where
  "passwd_cmd user = ''getent passwd '' @ [CHR 0x27] @ user @ [CHR 0x27]
     @ '' | awk -F':' '{print $6}'' @ [CHR 0x27]"

definition patch :: "os \<Rightarrow> linux_env \<Rightarrow> string \<Rightarrow> string" where
  "patch s E path =
    (case s of
       Windows \<Rightarrow> replace_str (''system32'' @ [CHR 0x5C] @ ''config'' @ [CHR 0x5C] @ ''systemprofile'')
                    (''ServiceProfiles'' @ [CHR 0x5C] @ ''LocalService'') path
     | MacOs \<Rightarrow> replace_str ''Application Support'' ''Preferences'' path
     | Linux \<Rightarrow>
         if path = ''/root'' then
           (case run_cmds_trim_newline E ''whoami'' of
              None \<Rightarrow> path
            | Some user \<Rightarrow>
                if user \<noteq> ''root'' then
                  (case run_cmds_trim_newline E (passwd_cmd user) of
                     Some out \<Rightarrow> out
                   | None \<Rightarrow> ''/home/'' @ user)
                else path)
         else path)"

definition get_home :: "os \<Rightarrow> linux_env \<Rightarrow> user_dirs \<Rightarrow> string" where
  "get_home s E D =
    (case dr_home D of
       Some path \<Rightarrow> patch s E path
     | None \<Rightarrow> (case dr_current D of Some path \<Rightarrow> path | None \<Rightarrow> dr_temp D))"

definition config_path :: "os \<Rightarrow> linux_env \<Rightarrow> user_dirs \<Rightarrow> string \<Rightarrow> string \<Rightarrow> string \<Rightarrow> string" where
  "config_path s E D org app p =
    (case dr_project_config D (if s = MacOs then org else []) app of
       Some dir \<Rightarrow> path_push (patch s E dir) p
     | None \<Rightarrow> [])"

text \<open>\<open>Config::file_\<close>: the extension is appended to a name; without a directory there is no name.\<close>

definition config_file :: "os \<Rightarrow> linux_env \<Rightarrow> user_dirs \<Rightarrow> string \<Rightarrow> string \<Rightarrow> string \<Rightarrow> string" where
  "config_file s E D org app sfx =
    (let path = config_path s E D org app (app @ sfx) in if path = [] then [] else with_extension path)"

text \<open>\<open>log_path\<close> and \<open>ipc_path\<close> of Linux, and \<open>icon_path\<close> with whether its directory can be made.\<close>

definition log_path :: "linux_env \<Rightarrow> user_dirs \<Rightarrow> string \<Rightarrow> string" where
  "log_path E D app = path_push (get_home Linux E D) (''.local/share/logs/'' @ app)"

definition ipc_path :: "os \<Rightarrow> string \<Rightarrow> string \<Rightarrow> string" where
  "ipc_path s app postfix =
    (let b = [CHR 0x5C] in
     if s = Windows then b @ b @ ''.'' @ b @ ''pipe'' @ b @ app @ b @ ''query'' @ postfix
     else path_push (''/tmp/'' @ app) (''ipc'' @ postfix))"

definition icon_path :: "os \<Rightarrow> linux_env \<Rightarrow> user_dirs \<Rightarrow> string \<Rightarrow> string \<Rightarrow> (string \<Rightarrow> bool) \<Rightarrow> string" where
  "icon_path s E D org app can_create_dir =
    (let path = config_path s E D org app ''icons'' in if can_create_dir path then path else dr_temp D)"

section \<open>Data\<close>

record ab_peer =
  abp_id :: string
  abp_hash :: string
  abp_username :: string
  abp_hostname :: string
  abp_platform :: string
  abp_alias :: string
  abp_tags :: "string list"

record ab_entry =
  abe_guid :: string
  abe_name :: string
  abe_peers :: "ab_peer list"
  abe_tags :: "string list"
  abe_tag_colors :: string

definition personal :: "ab_entry \<Rightarrow> bool" where
  "personal e \<longleftrightarrow> abe_name e = ''My address book'' \<or> abe_name e = ''Legacy address book''"

record address_book =
  ab_access_token :: string
  ab_entries :: "ab_entry list"

record group_peer =
  gp_id :: string
  gp_username :: string
  gp_hostname :: string
  gp_platform :: string
  gp_login_name :: string

record group_user =
  gu_name :: string

record group_cache =
  gr_access_token :: string
  gr_users :: "group_user list"
  gr_peers :: "group_peer list"

definition default_ab :: address_book where
  "default_ab = \<lparr>ab_access_token = [], ab_entries = []\<rparr>"

definition default_group :: group_cache where
  "default_group = \<lparr>gr_access_token = [], gr_users = [], gr_peers = []\<rparr>"

text \<open>The macro \<open>deserialize_default\<close>: the value read, or the default of the type.\<close>

definition deserialize_default :: "'a \<Rightarrow> 'e + 'a \<Rightarrow> 'a" where
  "deserialize_default dflt r = (case r of Inr v \<Rightarrow> v | Inl _ \<Rightarrow> dflt)"

record discovery_peer =
  dp_id :: string
  dp_username :: string
  dp_hostname :: string
  dp_platform :: string
  dp_online :: bool
  dp_ip_mac :: smap

definition is_same_peer :: "discovery_peer \<Rightarrow> discovery_peer \<Rightarrow> bool" where
  "is_same_peer p other \<longleftrightarrow> dp_id p = dp_id other \<and> dp_username p = dp_username other"

definition lan_peers_load :: "discovery_peer list slot \<Rightarrow> discovery_peer list" where
  "lan_peers_load f = (case f of Stored ps \<Rightarrow> ps | _ \<Rightarrow> [])"

definition lan_peers_store :: "bool \<Rightarrow> discovery_peer list \<Rightarrow> discovery_peer list slot \<Rightarrow> discovery_peer list slot" where
  "lan_peers_store ok ps f = store_path ok ps f"

text \<open>The time of the last change in milliseconds, from the metadata (in milliseconds since 1970), if any.\<close>

definition lan_peers_modify_time :: "int option \<Rightarrow> string + nat" where
  "lan_peers_modify_time mtime =
    (case mtime of
       None \<Rightarrow> Inl ''No such file or directory''
     | Some t \<Rightarrow> if t < 0 then Inl ''second time provided was later than self'' else Inr (nat t mod 2 ^ 64))"

section \<open>The caches\<close>

text \<open>
  A file system with what can be created, opened, read to the end and removed, and how many bytes a
  write takes before it fails, if it does.
\<close>

record cache_fs =
  cf_files :: "string \<rightharpoonup> bytes"
  cf_can_create :: "string \<Rightarrow> bool"
  cf_can_read :: "string \<Rightarrow> bool"
  cf_can_remove :: "string \<Rightarrow> bool"
  cf_write_limit :: "nat option"

record cache_libs =
  cl_crypto :: crypto
  cl_zstd :: zstd

definition cache_max_len :: nat where "cache_max_len = 64 * 1024 * 1024"

definition remove_file :: "string \<Rightarrow> cache_fs \<Rightarrow> cache_fs" where
  "remove_file path w = (if cf_can_remove w path then w\<lparr>cf_files := (cf_files w)(path := None)\<rparr> else w)"

definition write_all :: "string \<Rightarrow> bytes \<Rightarrow> cache_fs \<Rightarrow> cache_fs" where
  "write_all path data w =
    w\<lparr>cf_files := (cf_files w)(path \<mapsto> (case cf_write_limit w of None \<Rightarrow> data | Some n \<Rightarrow> take n data))\<rparr>"

text \<open>The bodies of \<open>Ab::store\<close> and \<open>Group::store\<close>, and of their \<open>load\<close>: the same for both.\<close>

definition store_cache :: "cache_libs \<Rightarrow> string \<Rightarrow> string \<Rightarrow> cache_fs \<Rightarrow> cache_fs" where
  "store_cache L path json w =
    (if \<not> cf_can_create w path then w
     else
       let w = w\<lparr>cf_files := (cf_files w)(path \<mapsto> [])\<rparr>;
           data = compress (cl_zstd L) (as_bytes json)
       in if cache_max_len < length data then w
          else
            case symmetric_crypt (cl_crypto L) data True of
              Some data \<Rightarrow> write_all path data w
            | None \<Rightarrow> w)"

definition read_cache :: "cache_libs \<Rightarrow> (string \<Rightarrow> 'a option) \<Rightarrow> string \<Rightarrow> cache_fs \<Rightarrow> 'a option" where
  "read_cache L from_json path w =
    (case cf_files w path of
       None \<Rightarrow> None
     | Some data \<Rightarrow>
         if \<not> cf_can_read w path then None
         else
           case symmetric_crypt (cl_crypto L) data False of
             None \<Rightarrow> None
           | Some data \<Rightarrow> from_json (from_utf8_lossy (cl_crypto L) (decompress (cl_zstd L) data)))"

definition load_cache :: "cache_libs \<Rightarrow> (string \<Rightarrow> 'a option) \<Rightarrow> 'a \<Rightarrow> string \<Rightarrow> cache_fs \<Rightarrow> 'a \<times> cache_fs" where
  "load_cache L from_json dflt path w =
    (case read_cache L from_json path w of
       Some v \<Rightarrow> (v, w)
     | None \<Rightarrow> (dflt, remove_file path w))"

definition ab_path :: "os \<Rightarrow> linux_env \<Rightarrow> user_dirs \<Rightarrow> string \<Rightarrow> string \<Rightarrow> string" where
  "ab_path s E D org app = config_path s E D org app (app @ ''_ab'')"

definition group_path :: "os \<Rightarrow> linux_env \<Rightarrow> user_dirs \<Rightarrow> string \<Rightarrow> string \<Rightarrow> string" where
  "group_path s E D org app = config_path s E D org app (app @ ''_group'')"

definition ab_store :: "cache_libs \<Rightarrow> string \<Rightarrow> string \<Rightarrow> cache_fs \<Rightarrow> cache_fs" where
  "ab_store L path json w = store_cache L path json w"

definition ab_load :: "cache_libs \<Rightarrow> (string \<Rightarrow> address_book option) \<Rightarrow> string \<Rightarrow> cache_fs \<Rightarrow> address_book \<times> cache_fs" where
  "ab_load L from_json path w = load_cache L from_json default_ab path w"

definition ab_remove :: "string \<Rightarrow> cache_fs \<Rightarrow> cache_fs" where
  "ab_remove path w = remove_file path w"

definition group_store :: "cache_libs \<Rightarrow> string \<Rightarrow> string \<Rightarrow> cache_fs \<Rightarrow> cache_fs" where
  "group_store L path json w = store_cache L path json w"

definition group_load :: "cache_libs \<Rightarrow> (string \<Rightarrow> group_cache option) \<Rightarrow> string \<Rightarrow> cache_fs \<Rightarrow> group_cache \<times> cache_fs" where
  "group_load L from_json path w = load_cache L from_json default_group path w"

definition group_remove :: "string \<Rightarrow> cache_fs \<Rightarrow> cache_fs" where
  "group_remove path w = remove_file path w"

section \<open>What is stored is loaded\<close>

definition cache_libs_ok :: "cache_libs \<Rightarrow> bool" where
  "cache_libs_ok L \<longleftrightarrow> crypto_ok (cl_crypto L) \<and> zstd_ok (cl_zstd L)"

definition cache_writable :: "cache_libs \<Rightarrow> string \<Rightarrow> cache_fs \<Rightarrow> bool" where
  "cache_writable L path w \<longleftrightarrow> cache_libs_ok L \<and> cf_can_create w path \<and> cf_can_read w path \<and> cf_write_limit w = None"

definition cacheable :: "cache_libs \<Rightarrow> string \<Rightarrow> bool" where
  "cacheable L json \<longleftrightarrow>
    rust_string (cl_crypto L) json \<and> length (compress (cl_zstd L) (as_bytes json)) \<le> cache_max_len"

lemma store_cache_keeps [simp]:
  "cf_can_create (store_cache L path json w) = cf_can_create w"
  "cf_can_read (store_cache L path json w) = cf_can_read w"
  "cf_can_remove (store_cache L path json w) = cf_can_remove w"
  "cf_write_limit (store_cache L path json w) = cf_write_limit w"
  "p \<noteq> path \<Longrightarrow> cf_files (store_cache L path json w) p = cf_files w p"
  by (auto simp: store_cache_def write_all_def Let_def split: option.split)

lemma read_store_cache:
  assumes "cache_writable L path w" "cacheable L json"
  shows "read_cache L from_json path (store_cache L path json w) = from_json json"
proof -
  obtain c where c: "symmetric_crypt (cl_crypto L) (compress (cl_zstd L) (as_bytes json)) True = Some c"
    by (simp add: symmetric_crypt_def Let_def)
  have "symmetric_crypt (cl_crypto L) c False = Some (compress (cl_zstd L) (as_bytes json))"
    using assms(1) symmetric_crypt_roundtrip [OF _ c] by (simp add: cache_writable_def cache_libs_ok_def)
  moreover have "decompress (cl_zstd L) (compress (cl_zstd L) d) = d" for d
    using assms(1) by (auto simp: cache_writable_def cache_libs_ok_def zstd_ok_def compress_def decompress_def
        dest: spec [of _ d])
  moreover have "cf_files (store_cache L path json w) path = Some c"
    using assms c by (simp add: store_cache_def cache_writable_def cacheable_def write_all_def)
  ultimately show ?thesis
    using assms by (simp add: read_cache_def cache_writable_def cacheable_def rust_string_def)
qed

lemma read_cache_other:
  "p \<noteq> path \<Longrightarrow> read_cache L from_json p (store_cache L path json w) = read_cache L from_json p w"
  by (simp add: read_cache_def split: option.split)

text \<open>
  The contract of a cache file for the client that keeps it: on a file system that takes writes, a text
  that can be stored and means a value is loaded as that value.
\<close>

locale cache_file =
  fixes store :: "string \<Rightarrow> cache_fs \<Rightarrow> cache_fs" and load :: "cache_fs \<Rightarrow> 'a \<times> cache_fs"
    and writable :: "cache_fs \<Rightarrow> bool" and value_of :: "string \<Rightarrow> 'a option"
  assumes load_store: "\<lbrakk>writable w; value_of j = Some v\<rbrakk> \<Longrightarrow> load (store j w) = (v, store j w)"
    and store_writable: "writable w \<Longrightarrow> writable (store j w)"
begin

lemma fold_writable: "writable w \<Longrightarrow> writable (fold store js w)"
  by (induction js arbitrary: w) (simp_all add: store_writable)

lemma last_store_loaded:
  assumes "writable w" "value_of j = Some v"
  shows "load (fold store (js @ [j]) w) = (v, fold store (js @ [j]) w)"
  using load_store [OF fold_writable [OF assms(1)] assms(2)] by simp

lemma load_again:
  assumes "writable w" "value_of j = Some v" "load (store j w) = (u, w')"
  shows "load w' = (u, w')"
  using load_store [OF assms(1,2)] assms(3) by simp

end

definition json_value :: "cache_libs \<Rightarrow> (string \<Rightarrow> 'a option) \<Rightarrow> string \<Rightarrow> 'a option" where
  "json_value L from_json j = (if cacheable L j then from_json j else None)"

interpretation ab_file: cache_file "ab_store L path" "ab_load L from_json path" "cache_writable L path"
  "json_value L from_json" for L path from_json
  by unfold_locales
    (auto simp: ab_store_def ab_load_def load_cache_def read_store_cache json_value_def cache_writable_def
      split: if_splits)

interpretation group_file: cache_file "group_store L path" "group_load L from_json path" "cache_writable L path"
  "json_value L from_json" for L path from_json
  by unfold_locales
    (auto simp: group_store_def group_load_def load_cache_def read_store_cache json_value_def cache_writable_def
      split: if_splits)

text \<open>
  The address book that is loaded is the last one that was stored, however many were before it, and
  loading changes no file.
\<close>

theorem ab_last_store_loaded:
  assumes "cache_writable L path w" "cacheable L json" "from_json json = Some ab"
  shows "ab_load L from_json path (fold (ab_store L path) (jsons @ [json]) w) =
    (ab, fold (ab_store L path) (jsons @ [json]) w)"
  using assms by (intro ab_file.last_store_loaded) (auto simp: json_value_def)

definition demo_cache_libs :: cache_libs where
  "demo_cache_libs = \<lparr>cl_crypto = demo_crypto, cl_zstd = demo_zstd\<rparr>"

definition demo_cache_fs :: cache_fs where
  "demo_cache_fs = \<lparr>cf_files = (\<lambda>_. None), cf_can_create = (\<lambda>_. True), cf_can_read = (\<lambda>_. True),
     cf_can_remove = (\<lambda>_. True), cf_write_limit = None\<rparr>"

definition demo_ab_json :: "string \<Rightarrow> address_book option" where
  "demo_ab_json j = (if j = ''{}'' then Some default_ab
     else if j = ''token'' then Some \<lparr>ab_access_token = ''t'', ab_entries = []\<rparr> else None)"

lemma demo_writable: "cache_writable demo_cache_libs path demo_cache_fs"
  by (simp add: cache_writable_def demo_cache_libs_def demo_cache_fs_def cache_libs_ok_def demo_crypto_ok
      zstd_ok_def demo_zstd_def)

lemma demo_cacheable: "length j \<le> cache_max_len \<Longrightarrow> cacheable demo_cache_libs j"
  by (simp add: cacheable_def demo_cache_libs_def demo_rust_string compress_def demo_zstd_def as_bytes_def)

theorem ab_last_store_loaded_witness:
  "fst (ab_load demo_cache_libs demo_ab_json ''/c/App_ab''
     (fold (ab_store demo_cache_libs ''/c/App_ab'') [''{}'', ''token''] demo_cache_fs))
   = \<lparr>ab_access_token = ''t'', ab_entries = []\<rparr>"
  using ab_last_store_loaded [of demo_cache_libs "''/c/App_ab''" demo_cache_fs "''token''" demo_ab_json
      "\<lparr>ab_access_token = ''t'', ab_entries = []\<rparr>" "[''{}'']"]
  by (simp add: demo_writable demo_cacheable cache_max_len_def demo_ab_json_def)

text \<open>
  The caches of the address book and of the group are kept apart: whichever is stored first, both
  are loaded as they were stored.
\<close>

theorem caches_kept_apart:
  assumes "dr_project_config D (if s = MacOs then org else []) app = Some dir" "\<not> starts_with ''/'' app"
    and "pa = ab_path s E D org app" "pg = group_path s E D org app"
    and "cache_writable L pa w" "cache_writable L pg w"
    and "cacheable L ja" "ab_json ja = Some ab" "cacheable L jg" "gr_json jg = Some gr"
  shows "fst (ab_load L ab_json pa (group_store L pg jg (ab_store L pa ja w))) = ab
    \<and> fst (group_load L gr_json pg (ab_store L pa ja (group_store L pg jg w))) = gr"
proof -
  have "pa \<noteq> pg"
    using assms(1-4) by (auto simp: ab_path_def group_path_def config_path_def path_push_def split: if_splits)
  then show ?thesis
    using assms(5-)
    by (simp add: ab_load_def group_load_def load_cache_def ab_store_def group_store_def read_cache_other
        read_store_cache)
qed

definition demo_dirs :: user_dirs where
  "demo_dirs = \<lparr>dr_home = Some ''/home/me'', dr_current = None, dr_temp = ''/tmp'',
     dr_project_config = (\<lambda>_ app. Some (''/home/me/.config/'' @ app))\<rparr>"

theorem caches_kept_apart_witness:
  "fst (ab_load demo_cache_libs demo_ab_json (ab_path Linux demo_linux demo_dirs [] ''App'')
      (group_store demo_cache_libs (group_path Linux demo_linux demo_dirs [] ''App'') ''g''
        (ab_store demo_cache_libs (ab_path Linux demo_linux demo_dirs [] ''App'') ''{}'' demo_cache_fs))) = default_ab"
  using caches_kept_apart [of demo_dirs Linux "[]" "''App''" "''/home/me/.config/App''"
      "ab_path Linux demo_linux demo_dirs [] ''App''" demo_linux "group_path Linux demo_linux demo_dirs [] ''App''"
      demo_cache_libs demo_cache_fs "''{}''" demo_ab_json default_ab "''g''" "\<lambda>_. Some default_group" default_group]
  by (simp add: demo_writable demo_cacheable cache_max_len_def demo_ab_json_def demo_dirs_def starts_with_def)

text \<open>
  A text that is too large once compressed is not only not stored: the file is empty then, and the
  next load removes it, so the book that was kept before is lost.
\<close>

theorem too_large_book_lost:
  assumes "cf_can_create w path" "cf_can_remove w path"
    and "cache_max_len < length (compress (cl_zstd L) (as_bytes json))"
    and "\<And>n k. secretbox_open (cl_crypto L) [] n k = None"
  shows "ab_load L from_json path (ab_store L path json w) =
    (default_ab, w\<lparr>cf_files := (cf_files w)(path := None)\<rparr>)"
  using assms
  by (simp add: ab_load_def ab_store_def store_cache_def load_cache_def read_cache_def symmetric_crypt_def
      remove_file_def Let_def)

theorem too_large_book_lost_witness:
  "fst (ab_load demo_cache_libs demo_ab_json ''/c/App_ab''
     (ab_store demo_cache_libs ''/c/App_ab'' (replicate 67108865 CHR ''x'')
       (demo_cache_fs\<lparr>cf_files := [''/c/App_ab'' \<mapsto> [1, 2, 3]]\<rparr>)))
   = default_ab"
  by (subst too_large_book_lost)
    (simp_all add: demo_cache_libs_def demo_crypto_def compress_def demo_zstd_def as_bytes_def demo_cache_fs_def
      cache_max_len_def)

text \<open>
  A book that cannot be read at the moment is removed by the load that fails.
\<close>

theorem unreadable_book_removed:
  assumes "\<not> cf_can_read w path" "cf_can_remove w path"
  shows "ab_load L from_json path w = (default_ab, w\<lparr>cf_files := (cf_files w)(path := None)\<rparr>)"
  using assms by (simp add: ab_load_def load_cache_def read_cache_def remove_file_def split: option.split)

theorem unreadable_book_removed_witness:
  "cf_files (snd (ab_load demo_cache_libs demo_ab_json ''/c/App_ab''
     (demo_cache_fs\<lparr>cf_files := [''/c/App_ab'' \<mapsto> [1, 2, 3]], cf_can_read := (\<lambda>_. False)\<rparr>))) = (\<lambda>_. None)"
  using unreadable_book_removed [of "demo_cache_fs\<lparr>cf_files := [''/c/App_ab'' \<mapsto> [1, 2, 3]], cf_can_read := (\<lambda>_. False)\<rparr>"
      "''/c/App_ab''" demo_cache_libs demo_ab_json]
  by (simp add: demo_cache_fs_def)

text \<open>
  Two configuration files with different suffixes are different files, and none is a cache.
\<close>

theorem config_files_distinct:
  assumes "dr_project_config D (if s = MacOs then org else []) app = Some dir"
    and "\<not> starts_with ''/'' app" "app \<noteq> []" "config_file s E D org app a = config_file s E D org app b"
  shows "a = b \<and> config_file s E D org app a \<noteq> ab_path s E D org app
    \<and> config_file s E D org app a \<noteq> group_path s E D org app"
proof -
  let ?base = "let d = patch s E dir in if d = [] \<or> ends_with ''/'' d then d else d @ ''/''"
  have abs: "\<not> starts_with ''/'' (app @ t)" for t
    using assms(2,3) by (cases app) (auto simp: starts_with_def)
  have path: "config_path s E D org app (app @ t) = ?base @ app @ t" for t
    using assms(1) abs [of t] by (simp add: config_path_def path_push_def Let_def)
  then have cfile: "config_file s E D org app t = ?base @ app @ t @ ''.toml''" for t
    using assms(3) by (simp add: config_file_def with_extension_def)
  have "t @ ''.toml'' \<noteq> ''_ab''" "t @ ''.toml'' \<noteq> ''_group''" for t :: string
    using arg_cong [of "t @ ''.toml''" _ last] by fastforce+
  then show ?thesis
    using assms(4) by (simp add: cfile path ab_path_def group_path_def)
qed

theorem config_files_distinct_witness:
  "config_file Linux demo_linux demo_dirs [] ''App'' ''2'' \<noteq> ab_path Linux demo_linux demo_dirs [] ''App''"
  using config_files_distinct [of demo_dirs Linux "[]" "''App''" "''/home/me/.config/App''" demo_linux "''2''" "''2''"]
  by (simp add: demo_dirs_def starts_with_def)

end
