(* ===== verification/Tcp.thy ===== *)
theory Tcp
  imports BytesCodec PasswordSecurity AddrMangle
begin

text \<open>
  The framed stream of \<open>libs/hbb_common/src/tcp.rs\<close>: packets over the codec, optionally sealed by
  a secretbox whose nonces count the messages of each direction (\<open>Encrypt\<close>), the key handshake and
  the connection attempts. The cryptography is the record \<open>crypto\<close>; the socket calls are
  arguments. The locale \<open>framing\<close> is what the secure channel needs of the codec.
\<close>

section \<open>Message encryption\<close>

record encrypt_state =
  en_key :: bytes
  en_sent :: u64
  en_received :: u64

definition encrypt_new :: "bytes \<Rightarrow> encrypt_state" where
  "encrypt_new key = \<lparr>en_key = key, en_sent = 0, en_received = 0\<rparr>"

definition get_nonce :: "u64 \<Rightarrow> bytes" where
  "get_nonce seqnum = le_bytes 8 (unat seqnum) @ replicate 16 0"

definition encrypt_enc :: "crypto \<Rightarrow> bytes \<Rightarrow> encrypt_state \<Rightarrow> bytes \<times> encrypt_state" where
  "encrypt_enc C data s =
    (let s = s\<lparr>en_sent := en_sent s + 1\<rparr>;
         nonce = get_nonce (en_sent s)
     in (secretbox_seal C data nonce (en_key s), s))"

definition encrypt_dec :: "crypto \<Rightarrow> bytes \<Rightarrow> encrypt_state \<Rightarrow> (string + bytes) \<times> encrypt_state" where
  "encrypt_dec C bytes s =
    (if length bytes \<le> 1 then (Inr bytes, s)
     else
       let s = s\<lparr>en_received := en_received s + 1\<rparr>;
           nonce = get_nonce (en_received s)
       in case secretbox_open C bytes nonce (en_key s) of
            Some res \<Rightarrow> (Inr res, s)
          | None \<Rightarrow> (Inl ''decryption error'', s))"

text \<open>
  \<open>Encrypt::decode\<close>, the receiving side of the key exchange; \<open>box_open\<close> is \<open>box_::open\<close> with the
  arguments message, nonce, public and secret key.
\<close>

definition encrypt_decode ::
  "(bytes \<Rightarrow> bytes \<Rightarrow> bytes \<Rightarrow> bytes \<Rightarrow> bytes option) \<Rightarrow> bytes \<Rightarrow> bytes \<Rightarrow> bytes \<Rightarrow> string + bytes" where
  "encrypt_decode box_open symmetric_data their_pk_b our_sk_b =
    (if length their_pk_b \<noteq> 32 then
       Inl (''Handshake failed: pk length '' @ show_nat (length their_pk_b))
     else
       case box_open symmetric_data (replicate 24 0) their_pk_b our_sk_b of
         None \<Rightarrow> Inl ''Handshake failed: box decryption failure''
       | Some symmetric_key \<Rightarrow>
           if length symmetric_key \<noteq> 32
           then Inl ''Handshake failed: invalid secret key length from peer''
           else Inr symmetric_key)"

section \<open>The stream\<close>

text \<open>
  \<open>fs_in\<close> is the read buffer of \<open>Framed\<close>; what is written goes to the argument \<open>wire\<close>.
\<close>

record framed_stream =
  fs_codec :: bytes_codec
  fs_in :: bytes
  fs_addr :: socket_addr
  fs_key :: "encrypt_state option"
  fs_send_timeout :: nat

datatype net_error = Io io_error | Decrypt string | Elapsed

definition fs_from :: "socket_addr \<Rightarrow> framed_stream" where
  "fs_from addr = \<lparr>fs_codec = codec_new, fs_in = [], fs_addr = addr, fs_key = None, fs_send_timeout = 0\<rparr>"

definition fs_set_send_timeout :: "nat \<Rightarrow> framed_stream \<Rightarrow> framed_stream" where
  "fs_set_send_timeout ms s = s\<lparr>fs_send_timeout := ms\<rparr>"

definition fs_set_raw :: "framed_stream \<Rightarrow> framed_stream" where
  "fs_set_raw s = s\<lparr>fs_codec := set_raw (fs_codec s), fs_key := None\<rparr>"

definition fs_is_secured :: "framed_stream \<Rightarrow> bool" where
  "fs_is_secured s \<longleftrightarrow> fs_key s \<noteq> None"

definition fs_set_key :: "bytes \<Rightarrow> framed_stream \<Rightarrow> framed_stream" where
  "fs_set_key key s = s\<lparr>fs_key := Some (encrypt_new key)\<rparr>"

text \<open>
  \<open>send_bytes\<close>: \<open>slow\<close> says that the sink takes longer than the timeout, which counts only when one
  is set.
\<close>

definition fs_send_bytes :: "bool \<Rightarrow> bytes \<Rightarrow> framed_stream \<Rightarrow> bytes \<Rightarrow> net_error + bytes" where
  "fs_send_bytes slow bytes s wire =
    (if 0 < fs_send_timeout s \<and> slow then Inl Elapsed
     else case encode (fs_codec s) bytes wire of Inl e \<Rightarrow> Inl (Io e) | Inr wire' \<Rightarrow> Inr wire')"

definition fs_send_raw ::
  "crypto \<Rightarrow> bool \<Rightarrow> bytes \<Rightarrow> framed_stream \<Rightarrow> bytes \<Rightarrow> (net_error + bytes) \<times> framed_stream" where
  "fs_send_raw C slow msg s wire =
    (let (msg, s) = (case fs_key s of
           Some k \<Rightarrow> (let (m, k) = encrypt_enc C msg k in (m, s\<lparr>fs_key := Some k\<rparr>))
         | None \<Rightarrow> (msg, s))
     in (fs_send_bytes slow msg s wire, s))"

text \<open>\<open>next\<close> on what is buffered: \<open>Inr None\<close> when more bytes are needed.\<close>

definition fs_next :: "crypto \<Rightarrow> framed_stream \<Rightarrow> (net_error + bytes option) \<times> framed_stream" where
  "fs_next C s =
    (case decode (fs_codec s) (fs_in s) of
       (Inl e, c, r) \<Rightarrow> (Inl (Io e), s\<lparr>fs_codec := c, fs_in := r\<rparr>)
     | (Inr None, c, r) \<Rightarrow> (Inr None, s\<lparr>fs_codec := c, fs_in := r\<rparr>)
     | (Inr (Some m), c, r) \<Rightarrow>
         let s = s\<lparr>fs_codec := c, fs_in := r\<rparr> in
         (case fs_key s of
            None \<Rightarrow> (Inr (Some m), s)
          | Some k \<Rightarrow>
              (case encrypt_dec C m k of
                 (Inl e, k) \<Rightarrow> (Inl (Decrypt e), s\<lparr>fs_key := Some k\<rparr>)
               | (Inr d, k) \<Rightarrow> (Inr (Some d), s\<lparr>fs_key := Some k\<rparr>))))"

text \<open>
  \<open>send\<close> of a message, which may not serialise (a counter is then not used), and \<open>next_timeout\<close>, where the time may
  be over before a whole frame is buffered; what is buffered is kept.
\<close>

definition fs_send ::
  "crypto \<Rightarrow> bool \<Rightarrow> string + bytes \<Rightarrow> framed_stream \<Rightarrow> bytes \<Rightarrow> ((string + net_error) + bytes) \<times> framed_stream" where
  "fs_send C slow msg s wire =
    (case msg of
       Inl e \<Rightarrow> (Inl (Inl e), s)
     | Inr m \<Rightarrow> map_prod (map_sum Inr id) id (fs_send_raw C slow m s wire))"

definition fs_next_timeout :: "crypto \<Rightarrow> framed_stream \<Rightarrow> (net_error + bytes) option \<times> framed_stream" where
  "fs_next_timeout C s =
    (case fs_next C s of
       (Inl e, s) \<Rightarrow> (Some (Inl e), s)
     | (Inr (Some m), s) \<Rightarrow> (Some (Inr m), s)
     | (Inr None, s) \<Rightarrow> (None, s))"

text \<open>
  \<open>FramedStream::new\<close>: the resolved addresses in order; \<open>connect local remote\<close> is \<open>None\<close> when the
  socket cannot be made or connected in time, and otherwise what \<open>local_addr\<close> answers.
\<close>

fun fs_new ::
  "(socket_addr \<Rightarrow> socket_addr \<Rightarrow> (string + socket_addr) option) \<Rightarrow> socket_addr list
    \<Rightarrow> socket_addr option \<Rightarrow> string \<Rightarrow> string + framed_stream" where
  "fs_new connect [] local_addr remote = Inl (''Failed to connect to '' @ remote)"
| "fs_new connect (remote_addr # addrs) local_addr remote =
    (let local = (case local_addr of Some addr \<Rightarrow> addr | None \<Rightarrow>
           get_any_listen_addr (case remote_addr of V4 _ _ \<Rightarrow> True | V6 _ _ _ _ \<Rightarrow> False))
     in case connect local remote_addr of
          None \<Rightarrow> fs_new connect addrs local_addr remote
        | Some (Inl e) \<Rightarrow> Inl e
        | Some (Inr addr) \<Rightarrow> Inr (fs_from addr))"


section \<open>Sequences of messages\<close>

fun enc_seq :: "crypto \<Rightarrow> bytes list \<Rightarrow> encrypt_state \<Rightarrow> bytes list \<times> encrypt_state" where
  "enc_seq C [] k = ([], k)"
| "enc_seq C (m # ms) k =
    (let (c, k) = encrypt_enc C m k; (cs, k) = enc_seq C ms k in (c # cs, k))"

fun dec_seq :: "crypto \<Rightarrow> bytes list \<Rightarrow> encrypt_state \<Rightarrow> bytes list \<times> string option \<times> encrypt_state" where
  "dec_seq C [] k = ([], None, k)"
| "dec_seq C (c # cs) k =
    (case encrypt_dec C c k of
       (Inl e, k) \<Rightarrow> ([], Some e, k)
     | (Inr m, k) \<Rightarrow> (case dec_seq C cs k of (ms, e, k) \<Rightarrow> (m # ms, e, k)))"

fun fs_send_all ::
  "crypto \<Rightarrow> bytes list \<Rightarrow> framed_stream \<Rightarrow> bytes \<Rightarrow> (net_error + bytes) \<times> framed_stream" where
  "fs_send_all C [] s wire = (Inr wire, s)"
| "fs_send_all C (m # ms) s wire =
    (case fs_send_raw C False m s wire of
       (Inl e, s) \<Rightarrow> (Inl e, s)
     | (Inr wire, s) \<Rightarrow> fs_send_all C ms s wire)"

text \<open>The reading loop: what is buffered, then chunk after chunk, until an error.\<close>

lemma fs_next_decreases:
  assumes "fs_next C s = (Inr (Some m), s')"
  shows "2 * length (fs_in s') + pending (fs_codec s') < 2 * length (fs_in s) + pending (fs_codec s)"
proof -
  obtain f c r where d: "decode (fs_codec s) (fs_in s) = (Inr (Some f), c, r)"
    and s: "fs_codec s' = c" "fs_in s' = r"
    using assms unfolding fs_next_def
    by (auto simp: Let_def split: prod.splits sum.splits option.splits)
  show ?thesis using decode_Some_decreases [OF d] by (simp add: s)
qed

function fs_drain :: "crypto \<Rightarrow> framed_stream \<Rightarrow> bytes list \<times> net_error option \<times> framed_stream" where
  "fs_drain C s =
    (case fs_next C s of
       (Inl e, s') \<Rightarrow> ([], Some e, s')
     | (Inr None, s') \<Rightarrow> ([], None, s')
     | (Inr (Some m), s') \<Rightarrow> (case fs_drain C s' of (ms, e, s'') \<Rightarrow> (m # ms, e, s'')))"
  by pat_completeness auto
termination
  by (relation "measure (\<lambda>(C, s). 2 * length (fs_in s) + pending (fs_codec s))")
     (auto dest: fs_next_decreases [OF sym])

declare fs_drain.simps [simp del]

fun fs_feed :: "crypto \<Rightarrow> framed_stream \<Rightarrow> bytes list \<Rightarrow> bytes list \<times> net_error option \<times> framed_stream" where
  "fs_feed C s [] = ([], None, s)"
| "fs_feed C s (chunk # chunks) =
    (case fs_drain C (s\<lparr>fs_in := fs_in s @ chunk\<rparr>) of
       (ms, Some e, s') \<Rightarrow> (ms, Some e, s')
     | (ms, None, s') \<Rightarrow> (case fs_feed C s' chunks of (ms', e, s'') \<Rightarrow> (ms @ ms', e, s'')))"

section \<open>What the channel needs of the framing\<close>

locale framing =
  fixes pack :: "bytes list \<Rightarrow> io_error + bytes"
    and unpack :: "bytes list \<Rightarrow> bytes list \<times> io_error option"
  assumes unpack_pack: "pack ms = Inr out \<Longrightarrow> concat chunks = out \<Longrightarrow> unpack chunks = (ms, None)"
begin

lemma dec_enc_seq:
  assumes "crypto_ok C" "en_key r = en_key s" "en_received r = en_sent s" "enc_seq C msgs s = (cs, s')"
  shows "\<exists>r'. dec_seq C cs r = (msgs, None, r') \<and> en_key r' = en_key s' \<and> en_received r' = en_sent s'
    \<and> en_sent r' = en_sent r"
  using assms(2-4)
proof (induction msgs arbitrary: r s cs s')
  case (Cons m ms)
  define s1 where "s1 = s\<lparr>en_sent := en_sent s + 1\<rparr>"
  define c where "c = secretbox_seal C m (get_nonce (en_sent s1)) (en_key s)"
  obtain cs1 where e: "enc_seq C ms s1 = (cs1, s')" and cs: "cs = c # cs1"
    using Cons.prems(3) by (auto simp: encrypt_enc_def Let_def s1_def c_def split: prod.splits)
  define r1 where "r1 = r\<lparr>en_received := en_received r + 1\<rparr>"
  have "length c = length m + 16"
    and "secretbox_open C c (get_nonce (en_sent s1)) (en_key s) = Some m"
    using assms(1) by (simp_all add: crypto_ok_def c_def)
  then have d: "encrypt_dec C c r = (Inr m, r1)"
    using Cons.prems(1,2) by (simp add: encrypt_dec_def Let_def r1_def s1_def)
  have "en_key r1 = en_key s1" "en_received r1 = en_sent s1" "en_sent r1 = en_sent r"
    using Cons.prems(1,2) by (simp_all add: r1_def s1_def)
  then obtain r' where "dec_seq C cs1 r1 = (ms, None, r')" "en_key r' = en_key s'"
      "en_received r' = en_sent s'" "en_sent r' = en_sent r"
    using Cons.IH [OF _ _ e] by metis
  then show ?case by (simp add: cs d)
qed auto

text \<open>Messages sealed in order, framed, cut anywhere and opened in order come back.\<close>

lemma channel:
  assumes "crypto_ok C" "en_key r = en_key s" "en_received r = en_sent s"
    and "enc_seq C msgs s = (cs, s')" "pack cs = Inr out" "concat chunks = out"
  shows "\<exists>r'. dec_seq C (fst (unpack chunks)) r = (msgs, None, r') \<and> snd (unpack chunks) = None \<and>
    en_received r' = en_sent s'"
  using dec_enc_seq [OF assms(1-4)] unpack_pack [OF assms(5,6)] by auto

end

text \<open>The packet codec, read from a fresh state, is such a framing.\<close>

interpretation codec_framing: framing "\<lambda>ms. encode_all codec_new ms []"
    "\<lambda>chunks. (fst (feed codec_new [] chunks), fst (snd (feed codec_new [] chunks)))"
  by unfold_locales (simp add: feed_encode_all)

section \<open>The stream runs the channel\<close>

lemma dec_seq_append:
  assumes "dec_seq C (xs @ ys) k = (ds, None, k')"
  obtains d1 d2 k1 where "dec_seq C xs k = (d1, None, k1)" "dec_seq C ys k1 = (d2, None, k')" "ds = d1 @ d2"
  using assms
proof (induction xs arbitrary: k ds thesis)
  case (Cons x xs)
  obtain m k1 ds' where x: "encrypt_dec C x k = (Inr m, k1)"
    and rest: "dec_seq C (xs @ ys) k1 = (ds', None, k')" and ds: "ds = m # ds'"
    using Cons.prems(2) by (auto split: prod.splits sum.splits)
  obtain d1 d2 k2 where "dec_seq C xs k1 = (d1, None, k2)" "dec_seq C ys k2 = (d2, None, k')" "ds' = d1 @ d2"
    using Cons.IH [OF _ rest] by blast
  then show ?case using Cons.prems(1) [of "m # d1" k2 d2] x ds by simp
qed simp

lemma fs_drain_sealed:
  assumes "drain (fs_codec s) (fs_in s) = (ms, None, c', r)" "fs_key s = Some k"
    and "dec_seq C ms k = (ds, None, k')"
  shows "fs_drain C s = (ds, None, s\<lparr>fs_codec := c', fs_in := r, fs_key := Some k'\<rparr>)"
  using assms
proof (induction C s arbitrary: ms k ds rule: fs_drain.induct)
  case (1 C s)
  obtain res c1 r1 where d: "decode (fs_codec s) (fs_in s) = (res, c1, r1)" by (metis surj_pair)
  consider e where "res = Inl e" | "res = Inr None" | m where "res = Inr (Some m)"
    by (metis obj_sumE not_None_eq)
  then show ?case
  proof cases
    case (3 m)
    obtain ms1 where dr: "drain c1 r1 = (ms1, None, c', r)" and ms: "ms = m # ms1"
      using "1.prems"(1) drain_Some d 3 by (auto split: prod.splits)
    obtain x k1 ds1 where x: "encrypt_dec C m k = (Inr x, k1)"
      and dec: "dec_seq C ms1 k1 = (ds1, None, k')" and ds: "ds = x # ds1"
      using "1.prems"(3) ms by (auto split: prod.splits sum.splits)
    let ?s1 = "s\<lparr>fs_codec := c1, fs_in := r1, fs_key := Some k1\<rparr>"
    have n: "fs_next C s = (Inr (Some x), ?s1)"
      using d 3 x "1.prems"(2) by (simp add: fs_next_def Let_def)
    have "fs_drain C ?s1 = (ds1, None, ?s1\<lparr>fs_codec := c', fs_in := r, fs_key := Some k'\<rparr>)"
      by (rule "1.IH" [OF n [symmetric] refl refl]) (use dr dec in simp_all)
    then show ?thesis using n ds by (subst fs_drain.simps) simp
  next
    case 2
    then show ?thesis using "1.prems" d drain_None
      by (subst fs_drain.simps) (auto simp: fs_next_def)
  next
    case (1 e)
    then show ?thesis using "1.prems"(1) d drain_Inl by auto
  qed
qed

lemma fs_feed_sealed:
  assumes "feed (fs_codec s) (fs_in s) chunks = (ms, None, c', r)" "fs_key s = Some k"
    and "dec_seq C ms k = (ds, None, k')"
  shows "fs_feed C s chunks = (ds, None, s\<lparr>fs_codec := c', fs_in := r, fs_key := Some k'\<rparr>)"
  using assms
proof (induction chunks arbitrary: s ms k ds)
  case (Cons chunk chunks)
  obtain ms1 c1 r1 where d: "drain (fs_codec s) (fs_in s @ chunk) = (ms1, None, c1, r1)"
    using Cons.prems(1) by (auto split: prod.splits option.splits)
  obtain ms2 where f: "feed c1 r1 chunks = (ms2, None, c', r)" and ms: "ms = ms1 @ ms2"
    using Cons.prems(1) d by (auto split: prod.splits)
  obtain d1 d2 k1 where dd: "dec_seq C ms1 k = (d1, None, k1)" "dec_seq C ms2 k1 = (d2, None, k')" "ds = d1 @ d2"
    using dec_seq_append Cons.prems(3) ms by blast
  let ?s1 = "s\<lparr>fs_codec := c1, fs_in := r1, fs_key := Some k1\<rparr>"
  have dr: "fs_drain C (s\<lparr>fs_in := fs_in s @ chunk\<rparr>) = (d1, None, ?s1)"
    using fs_drain_sealed [of "s\<lparr>fs_in := fs_in s @ chunk\<rparr>" ms1 c1 r1 k C d1 k1] d dd(1) Cons.prems(2) by simp
  have "fs_feed C ?s1 chunks = (d2, None, ?s1\<lparr>fs_codec := c', fs_in := r, fs_key := Some k'\<rparr>)"
    by (rule Cons.IH) (use f dd in simp_all)
  then show ?case using dr dd(3) by simp
qed simp

lemma fs_send_all_sealed:
  assumes "fs_send_all C msgs s wire = (Inr out, s')" "fs_key s = Some k" "fs_codec s = c"
  shows "\<exists>cs k'. enc_seq C msgs k = (cs, k') \<and> encode_all c cs wire = Inr out \<and> fs_key s' = Some k'"
  using assms
proof (induction msgs arbitrary: s wire k)
  case (Cons m ms)
  obtain sealed k1 where e: "encrypt_enc C m k = (sealed, k1)" by fastforce
  let ?s1 = "s\<lparr>fs_key := Some k1\<rparr>"
  obtain w1 where w: "encode c sealed wire = Inr w1" and rest: "fs_send_all C ms ?s1 w1 = (Inr out, s')"
    using Cons.prems e
    by (auto simp: fs_send_raw_def fs_send_bytes_def Let_def split: sum.splits)
  show ?case using Cons.IH [OF rest] Cons.prems(3) e w by auto
qed simp

lemma unat_less_le_bytes_inj:
  "le_bytes 8 (unat (a :: u64)) = le_bytes 8 (unat b) \<longleftrightarrow> a = b"
proof -
  have "unat a < 256 ^ 8" "unat b < 256 ^ 8"
    using unsigned_less [of a, where ?'a = nat] unsigned_less [of b, where ?'a = nat] by simp_all
  then show ?thesis by (simp add: le_bytes_eq_iff word_unat_eq_iff)
qed

text \<open>Both ends of a concrete channel.\<close>

definition demo_end :: framed_stream where
  "demo_end = fs_set_key [1] (fs_from (V4 (Ipv4Addr 127 0 0 1) 5000))"

definition demo_wire :: bytes where
  "demo_wire = [68] @ replicate 16 7 @ [6] @ [72] @ replicate 16 7 @ [7, 8]"

definition demo_sent :: framed_stream where
  "demo_sent = demo_end\<lparr>fs_key := Some \<lparr>en_key = [1], en_sent = 2, en_received = 0\<rparr>\<rparr>"

lemma demo_send: "fs_send_all demo_crypto [[5], [6, 7]] demo_end [] = (Inr demo_wire, demo_sent)"
  by (simp add: demo_end_def demo_wire_def demo_sent_def fs_set_key_def fs_from_def fs_send_raw_def
      fs_send_bytes_def encrypt_enc_def encrypt_new_def Let_def demo_crypto_def encode_def push_bit_eq_mult)

lemma handshake_key:
  assumes "encrypt_decode box_open data pk sk = Inr key"
  shows "length key = 32 \<and> length pk = 32 \<and> box_open data (replicate 24 0) pk sk = Some key"
  using assms by (auto simp: encrypt_decode_def split: if_splits option.splits)

text \<open>Turning the stream raw gives up the key, and a raw stream passes bytes through.\<close>

lemma set_raw_not_secured: "\<not> fs_is_secured (fs_set_raw s)"
  by (simp add: fs_is_secured_def fs_set_raw_def)

lemma fs_new_first:
  assumes "\<forall>x \<in> set xs. connect (case local of Some l \<Rightarrow> l | None \<Rightarrow>
      get_any_listen_addr (case x of V4 _ _ \<Rightarrow> True | V6 _ _ _ _ \<Rightarrow> False)) x = None"
    and "connect (case local of Some l \<Rightarrow> l | None \<Rightarrow>
      get_any_listen_addr (case a of V4 _ _ \<Rightarrow> True | V6 _ _ _ _ \<Rightarrow> False)) a = Some (Inr addr)"
  shows "fs_new connect (xs @ a # ys) local remote = Inr (fs_from addr)"
  using assms by (induction xs) (auto simp: Let_def)


section \<open>Properties\<close>

text \<open>
  C1: the secure channel delivers what was sent: when a fresh stream with a key sends messages
  without error, then a fresh stream with the same key that reads the bytes written, in whatever
  chunks they arrive, returns exactly the messages in order and no error, and its counter of
  received messages equals the sender's counter.
\<close>

theorem secure_channel:
  assumes "crypto_ok C" "fs_send_all C msgs (fs_set_key key (fs_from a)) [] = (Inr wire, s')"
    and "concat chunks = wire"
  shows "\<exists>r' k'. fs_feed C (fs_set_key key (fs_from b)) chunks = (msgs, None, r') \<and> fs_in r' = [] \<and>
    fs_key r' = Some k' \<and> map_option en_sent (fs_key s') = Some (en_received k')"
proof -
  obtain cs k' where e: "enc_seq C msgs (encrypt_new key) = (cs, k')"
    and w: "encode_all codec_new cs [] = Inr wire" and k: "fs_key s' = Some k'"
    using fs_send_all_sealed [OF assms(2), of "encrypt_new key" codec_new]
    by (auto simp: fs_set_key_def fs_from_def)
  obtain r' where d: "dec_seq C (fst (feed codec_new [] chunks)) (encrypt_new key) = (msgs, None, r')"
      "en_received r' = en_sent k'"
    using codec_framing.channel [OF assms(1) refl _ e w assms(3)] by (auto simp: encrypt_new_def)
  have f: "feed codec_new [] chunks = (cs, None, codec_new, [])"
    using w assms(3) by (rule feed_encode_all)
  let ?b = "fs_set_key key (fs_from b)"
  have b: "fs_codec ?b = codec_new" "fs_in ?b = []" "fs_key ?b = Some (encrypt_new key)"
    by (simp_all add: fs_set_key_def fs_from_def)
  have "fs_feed C ?b chunks = (msgs, None, ?b\<lparr>fs_codec := codec_new, fs_in := [], fs_key := Some r'\<rparr>)"
    by (rule fs_feed_sealed) (use f b d in simp_all)
  then show ?thesis using d(2) k by auto
qed

theorem secure_channel_witness:
  "\<exists>r' k'. fs_feed demo_crypto (fs_set_key [1] (fs_from (V4 (Ipv4Addr 127 0 0 1) 6000)))
      [take 5 demo_wire, drop 5 demo_wire] = ([[5], [6, 7]], None, r') \<and> fs_in r' = [] \<and>
    fs_key r' = Some k' \<and> map_option en_sent (fs_key demo_sent) = Some (en_received k')"
  by (rule secure_channel [OF demo_crypto_ok demo_send [unfolded demo_end_def]]) simp

text \<open>
  frames of at most one byte bypass the encryption: on a stream that has a key, a frame whose
  payload has at most one byte is handed to the caller as it is, without being opened and without
  counting as received, so anyone who can write to the connection can inject such messages.
\<close>

theorem short_frame_unauthenticated:
  assumes "fs_key s = Some k" "\<not> codec_raw (fs_codec s)" "codec_state (fs_codec s) = Head"
    and "1 \<le> max_packet_length (fs_codec s)" "length m \<le> 1"
  shows "fs_next C (s\<lparr>fs_in := frame m @ rest\<rparr>) = (Inr (Some m), s\<lparr>fs_in := rest\<rparr>)"
proof -
  have "decode (fs_codec s) (frame m @ rest) = (Inr (Some m), fs_codec s, rest)"
    using assms by (intro decode_frame) simp_all
  moreover have "s\<lparr>fs_key := Some k\<rparr> = s" using assms(1) by (cases s) simp
  ultimately show ?thesis using assms(1,5)
    by (simp add: fs_next_def encrypt_dec_def Let_def)
qed

theorem short_frame_unauthenticated_witness:
  "fs_next demo_crypto (demo_end\<lparr>fs_in := frame [9] @ []\<rparr>) = (Inr (Some [9]), demo_end\<lparr>fs_in := []\<rparr>)"
  by (rule short_frame_unauthenticated)
     (simp_all add: demo_end_def fs_set_key_def fs_from_def usize_max_def)

text \<open>
  nonces do not repeat within a direction, but both directions use the same ones: different
  counter values give different nonces, while two ends that share a key and have sent equally many
  messages seal their next messages with the same key and the same nonce.
\<close>

theorem nonces_per_direction:
  assumes "en_key a = en_key b" "en_sent a = en_sent b"
  shows "(get_nonce x = get_nonce y \<longleftrightarrow> x = y) \<and>
    (\<exists>n. fst (encrypt_enc C m1 a) = secretbox_seal C m1 n (en_key a) \<and>
         fst (encrypt_enc C m2 b) = secretbox_seal C m2 n (en_key a) \<and> length n = 24)"
  using assms by (auto simp: get_nonce_def unat_less_le_bytes_inj encrypt_enc_def Let_def)

theorem nonces_per_direction_witness:
  "(get_nonce 1 = get_nonce 2 \<longleftrightarrow> (1 :: u64) = 2) \<and>
    (\<exists>n. fst (encrypt_enc demo_crypto [1] (encrypt_new [9])) = secretbox_seal demo_crypto [1] n (en_key (encrypt_new [9])) \<and>
         fst (encrypt_enc demo_crypto [2] (encrypt_new [9])) = secretbox_seal demo_crypto [2] n (en_key (encrypt_new [9])) \<and> length n = 24)"
  by (rule nonces_per_direction) simp_all

end
