(* ===== verification/NetUtil.thy ===== *)
theory NetUtil
  imports Tcp ConfigProps
begin

text \<open>
  Address strings and the choice of a connection in \<open>libs/hbb_common/src/socket_client.rs\<close>. The
  regular expressions of \<open>is_ipv4_str\<close> and \<open>is_ipv6_str\<close> are arguments; name lookups and the
  sockets are arguments as well, and what the asynchronous functions would do is returned as a
  \<open>conn_plan\<close>.
\<close>

section \<open>Ports\<close>

definition check_port :: "(string \<Rightarrow> bool) \<Rightarrow> string \<Rightarrow> int \<Rightarrow> string" where
  "check_port is_ipv6_str host port =
    (if is_ipv6_str host then
       (if starts_with ''['' host then host else ''['' @ host @ '']:'' @ show_int port)
     else if CHR '':'' \<notin> set host then host @ '':'' @ show_int port
     else host)"

text \<open>The wrap-around of \<open>i32\<close> arithmetic.\<close>

definition wrap32 :: "int \<Rightarrow> int" where
  "wrap32 i = signed_take_bit 31 i"

definition parse_port :: "string \<Rightarrow> int" where
  "parse_port s = (case parse_signed 31 s of Some p \<Rightarrow> p | None \<Rightarrow> 0)"

definition increase_port :: "(string \<Rightarrow> bool) \<Rightarrow> string \<Rightarrow> int \<Rightarrow> string" where
  "increase_port is_ipv6_str host offset =
    (if is_ipv6_str host then
       (if starts_with ''['' host then
          (let tmp = split_str '']:'' host in
           if length tmp = 2 \<and> 0 < parse_port (tmp ! 1)
           then (tmp ! 0) @ '']:'' @ show_int (wrap32 (parse_port (tmp ! 1) + offset))
           else host)
        else host)
     else if CHR '':'' \<in> set host then
       (let tmp = split_on CHR '':'' host in
        if length tmp = 2 \<and> 0 < parse_port (tmp ! 1)
        then (tmp ! 0) @ '':'' @ show_int (wrap32 (parse_port (tmp ! 1) + offset))
        else host)
     else host)"

definition ipv4_to_ipv6 :: "(string \<Rightarrow> bool) \<Rightarrow> string \<Rightarrow> bool \<Rightarrow> string" where
  "ipv4_to_ipv6 is_ipv4_str addr ipv4 =
    (if \<not> ipv4 \<and> is_ipv4_str addr then
       (case split_on CHR '':'' addr of
          [] \<Rightarrow> addr
        | ip # _ \<Rightarrow> replace_str ip (ip @ ''.nip.io'') addr)
     else addr)"

text \<open>
  \<open>test_if_valid_server\<close>: \<open>resolve\<close> and \<open>target\<close> give the error text of \<open>to_socket_addrs\<close> and
  \<open>into_target_addr\<close>, if any.
\<close>

definition test_if_valid_server ::
  "(string \<Rightarrow> bool) \<Rightarrow> (string \<Rightarrow> string option) \<Rightarrow> (string \<Rightarrow> string option) \<Rightarrow> world \<Rightarrow> string \<Rightarrow> bool \<Rightarrow> string" where
  "test_if_valid_server is_ipv6_str resolve target w host test_with_proxy =
    (let host = check_port is_ipv6_str host 0 in
     if test_with_proxy \<and> get_network_type w = ProxySocks
     then or_default (target host) else or_default (resolve host))"

section \<open>Choosing a connection\<close>

datatype conn_plan =
  ViaProxy (plan_proxy: socks5_server) (plan_local: "socket_addr option")
| DirectTo (plan_target: "socket_addr option") (plan_local: "socket_addr option")
| LookupFailed string

fun is_v4 :: "socket_addr \<Rightarrow> bool" where
  "is_v4 (V4 _ _) = True"
| "is_v4 (V6 _ _ _ _) = False"

text \<open>
  \<open>query_nip_io\<close>: \<open>lookup\<close> gives the addresses of the \<open>nip.io\<close> name of an address; the first IPv6
  one is taken.
\<close>

definition query_nip_io :: "(socket_addr \<Rightarrow> string + socket_addr list) \<Rightarrow> socket_addr \<Rightarrow> string + socket_addr" where
  "query_nip_io lookup addr =
    (case lookup addr of
       Inl e \<Rightarrow> Inl e
     | Inr xs \<Rightarrow> (case find (\<lambda>x. \<not> is_v4 x) xs of
                   Some x \<Rightarrow> Inr x | None \<Rightarrow> Inl ''Failed to get ipv6 from nip.io''))"

text \<open>
  \<open>connect_tcp_local\<close>: \<open>resolved\<close> is what \<open>IsResolvedSocketAddr::resolve\<close> answers for the target,
  and \<open>DirectTo None\<close> connects to the target itself.
\<close>

definition connect_tcp_local ::
  "(socket_addr \<Rightarrow> string + socket_addr list) \<Rightarrow> world \<Rightarrow> socket_addr option \<Rightarrow> socket_addr option \<Rightarrow> conn_plan" where
  "connect_tcp_local lookup w resolved local_addr =
    (case get_socks w of
       Some conf \<Rightarrow> ViaProxy conf local_addr
     | None \<Rightarrow>
         (case (resolved, local_addr) of
            (Some target, Some l) \<Rightarrow>
              if \<not> is_v4 l \<and> is_v4 target then
                (case query_nip_io lookup target of
                   Inl e \<Rightarrow> LookupFailed e
                 | Inr t \<Rightarrow> DirectTo (Some t) (Some l))
              else DirectTo resolved local_addr
          | _ \<Rightarrow> DirectTo resolved local_addr))"

section \<open>Lemmas\<close>

lemma show_int_nat: "0 \<le> p \<Longrightarrow> show_int p = show_nat (nat p)"
  by (simp add: show_int_def)

lemma parse_port_show: "0 \<le> p \<Longrightarrow> p < 2 ^ 31 \<Longrightarrow> parse_port (show_int p) = p"
  by (simp add: parse_port_def show_int_nat parse_signed_show_nat nat_less_iff)

lemma wrap32_id [simp]: "- (2 ^ 31) \<le> i \<Longrightarrow> i < 2 ^ 31 \<Longrightarrow> wrap32 i = i"
  by (simp add: wrap32_def signed_take_bit_int_eq_self)

lemma query_nip_io_v6: "query_nip_io lookup a = Inr t \<Longrightarrow> \<not> is_v4 t"
  by (auto simp: query_nip_io_def find_Some_iff split: sum.splits option.splits)


section \<open>Properties\<close>

text \<open>
  giving a host its port and then shifting the port is giving it the shifted port: for a host
  without a colon that the IPv6 pattern does not take, alone or with its port, and ports in
  range.
\<close>

theorem check_then_increase_port:
  assumes "CHR '':'' \<notin> set host" "\<not> is6 host" "\<not> is6 (host @ '':'' @ show_int port)"
    and "0 < port" "port < 2 ^ 31" "- (2 ^ 31) \<le> port + offset" "port + offset < 2 ^ 31"
  shows "increase_port is6 (check_port is6 host port) offset = check_port is6 host (port + offset)"
proof -
  have s: "split_on CHR '':'' (host @ CHR '':'' # show_int port) = [host, show_int port]"
    using assms(1,4) by (simp add: split_on_append split_on_free show_int_nat)
  then show ?thesis using assms
    by (simp add: check_port_def increase_port_def Let_def parse_port_show)
qed

theorem check_then_increase_port_witness:
  "increase_port (\<lambda>_. False) (check_port (\<lambda>_. False) ''h'' 21116) (- 1) = check_port (\<lambda>_. False) ''h'' (21116 + (- 1))"
  by (rule check_then_increase_port) simp_all

text \<open>
  a host name of at most four hexadecimal letters is taken for IPv6 once it has a short port:
  when the IPv6 pattern accepts \<open>cafe:2111\<close>, as the one of the sources does, completing the host
  \<open>cafe\<close> with port 2111 and completing the result again gives a bracketed address with a second
  port, so \<open>check_port\<close> is not idempotent.
\<close>

theorem check_port_not_idempotent:
  assumes "is6 ''cafe:2111''" "\<not> is6 ''cafe''"
  shows "check_port is6 (check_port is6 ''cafe'' 2111) 2111 = ''[cafe:2111]:2111''"
proof -
  have "show_int 2111 = ''2111''"
    by (simp add: show_int_def show_nat.simps digit_char_def char_of_def bit_Suc_0_iff)
  then show ?thesis using assms by (simp add: check_port_def starts_with_def)
qed

theorem check_port_not_idempotent_witness:
  "check_port (\<lambda>s. s = ''cafe:2111'') (check_port (\<lambda>s. s = ''cafe:2111'') ''cafe'' 2111) 2111 = ''[cafe:2111]:2111''"
  by (rule check_port_not_idempotent) simp_all

text \<open>
  the connection matches the configuration and the address family: with a proxy configured
  every connection goes through that proxy; without one no proxy is used, and a connection that
  binds an IPv6 address never targets a resolved IPv4 address.
\<close>

theorem connect_plan_sound:
  "case connect_tcp_local lookup w resolved local_addr of
     ViaProxy conf l \<Rightarrow> get_socks w = Some conf \<and> l = local_addr
   | DirectTo t l \<Rightarrow> \<not> is_proxy w \<and> l = local_addr \<and>
       (case (t, l) of (Some a, Some b) \<Rightarrow> \<not> (is_v4 a \<and> \<not> is_v4 b) | _ \<Rightarrow> True)
   | LookupFailed e \<Rightarrow> \<not> is_proxy w"
  by (auto simp: connect_tcp_local_def is_proxy_def get_network_type_def get_socks_def or_else_def
      socks_from_settings_def dest: query_nip_io_v6 split: option.splits sum.splits)

end
