(* ===== verification/IpStr.thy ===== *)
theory IpStr
  imports NetUtil
begin

text \<open>
  The classes of address strings in \<open>libs/hbb_common/src/lib.rs\<close>. The regular expressions of the
  sources are values of a type, matched by derivatives; the matcher is proved to accept the words of
  the language of an expression. Identifiers are taken to be ASCII: the classes \<open>\d\<close> and \<open>\w\<close> of
  the crate go beyond it.
\<close>

section \<open>Regular expressions\<close>

datatype rx =
  Never | Empty | Cls "char \<Rightarrow> bool" | Cat rx rx | Alt rx rx | Many rx

fun nullable :: "rx \<Rightarrow> bool" where
  "nullable Never \<longleftrightarrow> False"
| "nullable Empty \<longleftrightarrow> True"
| "nullable (Cls _) \<longleftrightarrow> False"
| "nullable (Cat r s) \<longleftrightarrow> nullable r \<and> nullable s"
| "nullable (Alt r s) \<longleftrightarrow> nullable r \<or> nullable s"
| "nullable (Many _) \<longleftrightarrow> True"

fun after :: "char \<Rightarrow> rx \<Rightarrow> rx" where
  "after c Never = Never"
| "after c Empty = Never"
| "after c (Cls p) = (if p c then Empty else Never)"
| "after c (Cat r s) =
    (let first = (case after c r of Never \<Rightarrow> Never | r' \<Rightarrow> Cat r' s)
     in if nullable r then Alt first (after c s) else first)"
| "after c (Alt r s) = Alt (after c r) (after c s)"
| "after c (Many r) = Cat (after c r) (Many r)"

fun is_match :: "rx \<Rightarrow> string \<Rightarrow> bool" where
  "is_match r [] = nullable r"
| "is_match r (c # s) = is_match (after c r) s"

text \<open>What an expression means.\<close>

inductive many :: "(string \<Rightarrow> bool) \<Rightarrow> string \<Rightarrow> bool" for P where
  many_Nil: "many P []"
| many_Cons: "P u \<Longrightarrow> many P v \<Longrightarrow> many P (u @ v)"

fun accepts :: "rx \<Rightarrow> string \<Rightarrow> bool" where
  "accepts Never s \<longleftrightarrow> False"
| "accepts Empty s \<longleftrightarrow> s = []"
| "accepts (Cls p) s \<longleftrightarrow> (\<exists>c. s = [c] \<and> p c)"
| "accepts (Cat a b) s \<longleftrightarrow> (\<exists>u v. s = u @ v \<and> accepts a u \<and> accepts b v)"
| "accepts (Alt a b) s \<longleftrightarrow> accepts a s \<or> accepts b s"
| "accepts (Many a) s \<longleftrightarrow> many (accepts a) s"

lemma nullable_accepts: "nullable r \<longleftrightarrow> accepts r []"
  by (induction r) (auto intro: many_Nil)

lemma many_ConsD:
  "many P s \<Longrightarrow> s = c # w \<Longrightarrow> \<exists>u v. w = u @ v \<and> P (c # u) \<and> many P v"
proof (induction arbitrary: w rule: many.induct)
  case (many_Cons u v)
  then show ?case by (cases u) auto
qed simp

lemma many_Cons_iff: "many P (c # w) \<longleftrightarrow> (\<exists>u v. w = u @ v \<and> P (c # u) \<and> many P v)"
  using many_ConsD [of P "c # w" c w] many_Cons [of P "c # _"] by auto

lemma accepts_Cat_Cons:
  "accepts (Cat a b) (c # s) \<longleftrightarrow>
    (\<exists>u v. s = u @ v \<and> accepts a (c # u) \<and> accepts b v) \<or> accepts a [] \<and> accepts b (c # s)"
  by (auto simp: Cons_eq_append_conv)

lemma after_accepts: "accepts (after c r) s \<longleftrightarrow> accepts r (c # s)"
proof (induction r arbitrary: s)
  case (Cat a b)
  have "accepts (case after c a of Never \<Rightarrow> Never | r' \<Rightarrow> Cat r' b) s \<longleftrightarrow> accepts (Cat (after c a) b) s"
    by (cases "after c a") auto
  then show ?case
    using Cat by (simp add: Let_def accepts_Cat_Cons nullable_accepts del: accepts.simps(4)) auto
next
  case (Many a)
  then show ?case by (auto simp: many_Cons_iff)
qed auto

lemma is_match_accepts: "is_match r s \<longleftrightarrow> accepts r s"
  by (induction s arbitrary: r) (simp_all add: nullable_accepts after_accepts)

text \<open>The other operators.\<close>

definition opt :: "rx \<Rightarrow> rx" where "opt r = Alt r Empty"
definition plus :: "rx \<Rightarrow> rx" where "plus r = Cat r (Many r)"

fun up_to :: "nat \<Rightarrow> rx \<Rightarrow> rx" where
  "up_to 0 r = Empty"
| "up_to (Suc n) r = opt (Cat r (up_to n r))"

fun rep :: "nat \<Rightarrow> nat \<Rightarrow> rx \<Rightarrow> rx" where
  "rep 0 n r = up_to n r"
| "rep (Suc m) n r = Cat r (rep m (n - 1) r)"

fun cats :: "rx list \<Rightarrow> rx" where
  "cats [] = Empty"
| "cats [r] = r"
| "cats (r # s # rs) = Cat r (cats (s # rs))"

definition chr :: "char \<Rightarrow> rx" where "chr c = Cls (\<lambda>x. x = c)"

lemma accepts_Cat_Cls [simp]:
  "accepts (Cat (Cls p) r) s \<longleftrightarrow> (\<exists>c t. s = c # t \<and> p c \<and> accepts r t)"
  by (auto intro: exI [of _ "[_]"])

lemma accepts_chr [simp]: "accepts (chr c) s \<longleftrightarrow> s = [c]"
  by (auto simp: chr_def)

lemma accepts_Cat_chr [simp]: "accepts (Cat (chr c) r) s \<longleftrightarrow> (\<exists>t. s = c # t \<and> accepts r t)"
  by (auto simp: chr_def simp del: accepts.simps(4))

lemma accepts_opt [simp]: "accepts (opt r) s \<longleftrightarrow> accepts r s \<or> s = []"
  by (simp add: opt_def)

lemma accepts_Cat_opt [simp]: "accepts (Cat (opt a) b) s \<longleftrightarrow> accepts (Cat a b) s \<or> accepts b s"
  by (auto simp: opt_def)

lemma many_single: "(\<And>s. P s \<longleftrightarrow> (\<exists>c. s = [c] \<and> p c)) \<Longrightarrow> many P s \<longleftrightarrow> list_all p s"
  by (induction s) (auto simp: many_Cons_iff intro: many_Nil)

lemma accepts_Many_Cls [simp]: "accepts (Many (Cls p)) s \<longleftrightarrow> list_all p s"
  using many_single [of "accepts (Cls p)" p] by simp

lemma accepts_plus_Cls [simp]: "accepts (plus (Cls p)) s \<longleftrightarrow> s \<noteq> [] \<and> list_all p s"
  unfolding plus_def by (cases s) (auto simp del: accepts.simps(4,6))

lemma accepts_up_to_Cls [simp]: "accepts (up_to n (Cls p)) s \<longleftrightarrow> length s \<le> n \<and> list_all p s"
proof (induction n arbitrary: s)
  case (Suc n)
  then show ?case by (cases s) (auto simp del: accepts.simps(4))
qed auto

lemma accepts_rep_Cls [simp]:
  "m \<le> n \<Longrightarrow> accepts (rep m n (Cls p)) s \<longleftrightarrow> m \<le> length s \<and> length s \<le> n \<and> list_all p s"
proof (induction m arbitrary: n s)
  case (Suc m)
  then show ?case by (cases s) (auto simp del: accepts.simps(4))
qed simp

declare accepts.simps(4,6) [simp del] rep.simps [simp del]

section \<open>The classes of strings\<close>

definition in_range :: "char \<Rightarrow> char \<Rightarrow> char \<Rightarrow> bool" where
  "in_range a b c \<longleftrightarrow> (of_char a :: nat) \<le> of_char c \<and> (of_char c :: nat) \<le> of_char b"

definition digit :: "char \<Rightarrow> bool" where "digit = in_range CHR ''0'' CHR ''9''"

definition alpha :: "char \<Rightarrow> bool" where
  "alpha c \<longleftrightarrow> in_range CHR ''a'' CHR ''z'' c \<or> in_range CHR ''A'' CHR ''Z'' c"

definition hex :: "char \<Rightarrow> bool" where
  "hex c \<longleftrightarrow> in_range CHR ''a'' CHR ''f'' c \<or> in_range CHR ''A'' CHR ''F'' c \<or> digit c"

definition word_char :: "char \<Rightarrow> bool" where
  "word_char c \<longleftrightarrow> alpha c \<or> digit c \<or> c = CHR ''_''"

definition octet_rx :: rx where
  "octet_rx = Alt (cats [chr CHR ''2'', chr CHR ''5'', Cls (in_range CHR ''0'' CHR ''5'')])
    (Alt (cats [chr CHR ''2'', Cls (in_range CHR ''0'' CHR ''4''), Cls digit])
      (cats [opt (Cls (in_range CHR ''0'' CHR ''1'')), Cls digit, opt (Cls digit)]))"

definition ipv4_rx :: rx where
  "ipv4_rx = cats [octet_rx, chr CHR ''.'', octet_rx, chr CHR ''.'', octet_rx, chr CHR ''.'', octet_rx,
    opt (Cat (chr CHR '':'') (plus (Cls digit)))]"

definition ipv6_groups :: rx where
  "ipv6_groups = Cat (plus (Cat (rep 1 4 (Cls hex)) (rep 1 2 (chr CHR '':'')))) (rep 1 4 (Cls hex))"

definition ipv6_rx :: rx where
  "ipv6_rx = Alt ipv6_groups
    (cats [chr CHR ''['', ipv6_groups, chr CHR '']'', chr CHR '':'', plus (Cls digit)])"

definition label_char :: "char \<Rightarrow> bool" where
  "label_char c \<longleftrightarrow> alpha c \<or> digit c"

definition domain_port_rx :: rx where
  "domain_port_rx = cats
    [plus (cats [Cls label_char, opt (Cat (rep 0 61 (Cls (\<lambda>c. label_char c \<or> c = CHR ''-''))) (Cls label_char)),
       chr CHR ''.'']),
     Cls alpha, rep 0 61 (Cls (\<lambda>c. alpha c \<or> c = CHR ''-'')), Cls alpha,
     chr CHR '':'', rep 1 5 (Cls digit)]"

definition custom_id_rx :: rx where
  "custom_id_rx = Cat (Cls alpha) (rep 5 15 (Cls word_char))"

definition is_ipv4_str :: "string \<Rightarrow> bool" where "is_ipv4_str = is_match ipv4_rx"
definition is_ipv6_str :: "string \<Rightarrow> bool" where "is_ipv6_str = is_match ipv6_rx"
definition is_ip_str :: "string \<Rightarrow> bool" where "is_ip_str s \<longleftrightarrow> is_ipv4_str s \<or> is_ipv6_str s"
definition is_domain_port_str :: "string \<Rightarrow> bool" where "is_domain_port_str = is_match domain_port_rx"
definition is_valid_custom_id :: "string \<Rightarrow> bool" where "is_valid_custom_id = is_match custom_id_rx"

section \<open>What the classes contain\<close>

lemma chr_nat: "x = CHR ''2'' \<longleftrightarrow> (of_char x :: nat) = 50" "x = CHR ''5'' \<longleftrightarrow> (of_char x :: nat) = 53"
proof -
  have "(of_char CHR ''2'' :: nat) = 50" "(of_char CHR ''5'' :: nat) = 53" by (simp_all add: of_char_def)
  then show "x = CHR ''2'' \<longleftrightarrow> (of_char x :: nat) = 50" "x = CHR ''5'' \<longleftrightarrow> (of_char x :: nat) = 53"
    by (metis of_char_eq_iff)+
qed

lemma range_nat:
  "in_range CHR ''0'' CHR ''9'' x \<longleftrightarrow> 48 \<le> (of_char x :: nat) \<and> (of_char x :: nat) \<le> 57"
  "in_range CHR ''0'' CHR ''5'' x \<longleftrightarrow> 48 \<le> (of_char x :: nat) \<and> (of_char x :: nat) \<le> 53"
  "in_range CHR ''0'' CHR ''4'' x \<longleftrightarrow> 48 \<le> (of_char x :: nat) \<and> (of_char x :: nat) \<le> 52"
  "in_range CHR ''0'' CHR ''1'' x \<longleftrightarrow> 48 \<le> (of_char x :: nat) \<and> (of_char x :: nat) \<le> 49"
proof -
  have "(of_char CHR ''0'' :: nat) = 48" "(of_char CHR ''9'' :: nat) = 57" "(of_char CHR ''5'' :: nat) = 53"
    "(of_char CHR ''4'' :: nat) = 52" "(of_char CHR ''1'' :: nat) = 49"
    by (simp_all add: of_char_def)
  then show "in_range CHR ''0'' CHR ''9'' x \<longleftrightarrow> 48 \<le> (of_char x :: nat) \<and> (of_char x :: nat) \<le> 57"
    "in_range CHR ''0'' CHR ''5'' x \<longleftrightarrow> 48 \<le> (of_char x :: nat) \<and> (of_char x :: nat) \<le> 53"
    "in_range CHR ''0'' CHR ''4'' x \<longleftrightarrow> 48 \<le> (of_char x :: nat) \<and> (of_char x :: nat) \<le> 52"
    "in_range CHR ''0'' CHR ''1'' x \<longleftrightarrow> 48 \<le> (of_char x :: nat) \<and> (of_char x :: nat) \<le> 49"
    by (simp_all only: in_range_def)
qed

definition octet :: "string \<Rightarrow> bool" where
  "octet x \<longleftrightarrow> length x \<le> 3 \<and> list_all digit x \<and> parse_unsigned 8 x \<noteq> None"

lemma octet_cases:
  "length x \<le> 3 \<Longrightarrow> x = [] \<or> (\<exists>a. x = [a]) \<or> (\<exists>a b. x = [a, b]) \<or> (\<exists>a b c. x = [a, b, c])"
  by (cases x; cases "tl x"; cases "tl (tl x)") auto

lemma digit_not_plus: "digit c \<Longrightarrow> c \<noteq> CHR ''+''"
  by (auto simp: digit_def in_range_def of_char_def)

lemma octet_number:
  assumes "list_all digit x"
  shows "parse_unsigned 8 x \<noteq> None \<longleftrightarrow>
    x \<noteq> [] \<and> foldl (\<lambda>n c. 10 * n + (of_char c - 48)) 0 x < (256 :: nat)"
proof -
  have "parse_digits acc y = Some (foldl (\<lambda>n c. 10 * n + (of_char c - 48)) acc y)" if "list_all digit y" for acc y
    using that by (induction y arbitrary: acc) (auto simp: digit_val_def digit_def range_nat)
  moreover have "\<not> (x \<noteq> [] \<and> hd x = CHR ''+'')"
    using assms by (cases x) (auto dest: digit_not_plus)
  ultimately show ?thesis
    using assms by (auto simp: parse_unsigned_def parse_nat_def)
qed

lemma octet_rx_length:
  assumes "accepts octet_rx x" shows "length x \<le> 3 \<and> list_all digit x"
  using assms by (auto simp: octet_rx_def digit_def chr_nat range_nat)

lemma accepts_octet: "accepts octet_rx x \<longleftrightarrow> octet x"
proof (cases "length x \<le> 3 \<and> list_all digit x")
  case True
  then have "octet x \<longleftrightarrow> x \<noteq> [] \<and> foldl (\<lambda>n c. 10 * n + (of_char c - 48)) 0 x < (256 :: nat)"
    using octet_number [of x] by (auto simp: octet_def)
  moreover have "accepts octet_rx x \<longleftrightarrow> x \<noteq> [] \<and> foldl (\<lambda>n c. 10 * n + (of_char c - 48)) 0 x < (256 :: nat)"
    using True octet_cases [of x]
    by (elim conjE disjE exE) (auto simp: octet_rx_def digit_def chr_nat range_nat)
  ultimately show ?thesis by simp
qed (use octet_rx_length in \<open>auto simp: octet_def\<close>)

text \<open>Every character of an accepted word comes from a class of the expression.\<close>

fun within :: "(char \<Rightarrow> bool) \<Rightarrow> rx \<Rightarrow> bool" where
  "within P (Cls p) \<longleftrightarrow> (\<forall>c. p c \<longrightarrow> P c)"
| "within P (Cat a b) \<longleftrightarrow> within P a \<and> within P b"
| "within P (Alt a b) \<longleftrightarrow> within P a \<and> within P b"
| "within P (Many a) \<longleftrightarrow> within P a"
| "within P _ \<longleftrightarrow> True"

lemma many_list_all: "many Q s \<Longrightarrow> (\<And>u. Q u \<Longrightarrow> list_all P u) \<Longrightarrow> list_all P s"
  by (induction rule: many.induct) auto

lemma accepts_within: "within P r \<Longrightarrow> accepts r s \<Longrightarrow> list_all P s"
  by (induction r arbitrary: s) (auto simp: accepts.simps(4,6) elim: many_list_all)

lemma within_rep [simp]: "within P r \<Longrightarrow> within P (rep m n r)"
proof (induction m arbitrary: n)
  case 0
  then have "within P (up_to n r)" by (induction n) (simp_all add: opt_def)
  then show ?case by (simp add: rep.simps)
qed (simp add: rep.simps)

lemma class_no_sep:
  "digit c \<Longrightarrow> c \<notin> {CHR '':'', CHR ''.'', CHR '']'', CHR ''[''}"
  "hex c \<Longrightarrow> c \<notin> {CHR '':'', CHR ''.'', CHR '']'', CHR ''[''}"
  "alpha c \<Longrightarrow> c \<notin> {CHR '':'', CHR ''.'', CHR '']'', CHR ''[''}"
  by (auto simp: digit_def hex_def alpha_def in_range_def of_char_def)

lemma class_sep [simp]:
  "\<not> digit CHR '':''" "\<not> hex CHR '':''" "\<not> alpha CHR '':''"
  "\<not> digit CHR ''.''" "\<not> hex CHR ''.''" "\<not> alpha CHR ''.''"
  using class_no_sep by blast+

definition port_tail :: "string \<Rightarrow> bool" where
  "port_tail p \<longleftrightarrow> (\<exists>q. p = CHR '':'' # q \<and> q \<noteq> [] \<and> list_all digit q) \<or> p = []"

lemma ipv4_accepts:
  "is_ipv4_str s \<longleftrightarrow>
    (\<exists>a b c d p. s = a @ ''.'' @ b @ ''.'' @ c @ ''.'' @ d @ p \<and> octet a \<and> octet b \<and> octet c \<and> octet d
      \<and> port_tail p)"
proof -
  have dot: "accepts (Cat octet_rx (Cat (chr CHR ''.'') r)) v \<longleftrightarrow> (\<exists>a t. v = a @ CHR ''.'' # t \<and> octet a \<and> accepts r t)"
    for r v
    by (simp add: accepts.simps(4) [of octet_rx] accepts_octet) blast
  have end_part: "accepts (Cat octet_rx (opt (Cat (chr CHR '':'') (plus (Cls digit))))) v \<longleftrightarrow>
      (\<exists>d p. v = d @ p \<and> octet d \<and> port_tail p)" for v
    by (simp add: accepts.simps(4) [of octet_rx] accepts_octet port_tail_def)
  show ?thesis
    unfolding is_ipv4_str_def is_match_accepts ipv4_rx_def cats.simps dot end_part append.simps
    by (rule iffI; elim exE conjE; hypsubst; intro exI conjI; (rule refl | assumption))
qed

text \<open>
  An address is taken for one of IPv4 exactly when it is four numbers below 256, of at most three
  digits each, with points between them, and, if anything follows, a colon and digits.
\<close>

theorem ipv4_str_iff:
  "is_ipv4_str s \<longleftrightarrow>
    (\<exists>a b c d p. s = a @ ''.'' @ b @ ''.'' @ c @ ''.'' @ d @ p \<and> octet a \<and> octet b \<and> octet c \<and> octet d
      \<and> port_tail p)"
  by (rule ipv4_accepts)

text \<open>
  An IPv6 address that begins with a double colon, like the loopback address, is not taken for one.
\<close>

lemma accepts_rep_chr [simp]:
  "m \<le> n \<Longrightarrow> accepts (rep m n (chr c)) s \<longleftrightarrow> m \<le> length s \<and> length s \<le> n \<and> list_all (\<lambda>x. x = c) s"
  by (simp add: chr_def)

lemma accepts_Cat: "accepts (Cat a b) s \<longleftrightarrow> (\<exists>u v. s = u @ v \<and> accepts a u \<and> accepts b v)"
  by (rule accepts.simps(4))

lemma ipv6_groups_hd: "accepts ipv6_groups s \<Longrightarrow> s \<noteq> [] \<and> hex (hd s)"
proof -
  assume "accepts ipv6_groups s"
  then obtain u v where "s = u @ v" "accepts (rep 1 4 (Cls hex)) u"
    by (force simp: ipv6_groups_def plus_def accepts_Cat [of "Cat _ _"] accepts_Cat [of "rep _ _ _"])
  then show ?thesis by (cases u) auto
qed

theorem ipv6_leading_colon: "is_ipv6_str (CHR '':'' # s) = False"
  using ipv6_groups_hd [of "CHR '':'' # s"] class_no_sep(2)
  by (auto simp: is_ipv6_str_def is_match_accepts ipv6_rx_def)

text \<open>
  A host of at most four hexadecimal letters with a port of at most four digits is taken for an IPv6
  address, so that \<open>check_port\<close> puts it in brackets and adds a second port.
\<close>

theorem short_host_is_ipv6:
  assumes "1 \<le> length h" "length h \<le> 4" "list_all hex h" "1 \<le> length p" "length p \<le> 4" "list_all digit p"
  shows "is_ipv6_str (h @ '':'' @ p) \<and> check_port is_ipv6_str (h @ '':'' @ p) n = ''['' @ h @ '':'' @ p @ '']:'' @ show_int n"
proof -
  have "list_all hex p" using assms(6) by (auto simp: list_all_iff hex_def)
  moreover have "accepts (plus (Cat (rep 1 4 (Cls hex)) (rep 1 2 (chr CHR '':'')))) (h @ '':'')"
  proof -
    have "accepts (Cat (rep 1 4 (Cls hex)) (rep 1 2 (chr CHR '':''))) (h @ '':'')"
      unfolding accepts_Cat using assms(1-3) by (intro exI [of _ h] exI [of _ "'':''"]) simp
    moreover have "accepts (Many r) []" for r by (simp add: accepts.simps(6) many_Nil)
    ultimately show ?thesis
      unfolding plus_def accepts_Cat [of "Cat _ _"] by (intro exI [of _ "h @ '':''"] exI [of _ "[]"]) simp_all
  qed
  ultimately have "accepts ipv6_groups ((h @ '':'') @ p)"
    unfolding ipv6_groups_def accepts_Cat [of "plus _"] using assms(4,5)
    by (intro exI [of _ "h @ '':''"] exI [of _ p]) simp
  then have v6: "is_ipv6_str (h @ '':'' @ p)" by (simp add: is_ipv6_str_def is_match_accepts ipv6_rx_def)
  moreover have "\<not> starts_with ''['' (h @ '':'' @ p)"
    using assms(1,3) class_no_sep(2) by (cases h) (auto simp: starts_with_def)
  ultimately show ?thesis by (simp add: check_port_def)
qed

theorem short_host_is_ipv6_witness:
  "check_port is_ipv6_str ''cafe:2111'' 21116 = ''[cafe:2111]:'' @ show_int 21116"
  using short_host_is_ipv6 [of "''cafe''" "''2111''" 21116]
  by (simp add: hex_def digit_def in_range_def of_char_def)

lemma ipv4_shape:
  assumes "is_ipv4_str s"
  shows "\<exists>u v. s = u @ v \<and> list_all (\<lambda>c. digit c \<or> c = CHR ''.'') u \<and> u \<noteq> [] \<and> digit (last u)
    \<and> (v = [] \<or> hd v = CHR '':'')"
proof -
  obtain a b c d p where s: "s = (a @ ''.'' @ b @ ''.'' @ c @ ''.'' @ d) @ p"
    and o: "octet a" "octet b" "octet c" "octet d" and p: "port_tail p"
    using assms unfolding ipv4_accepts by auto
  have digits: "list_all digit x \<and> x \<noteq> []" if "octet x" for x
    using that octet_number [of x] by (auto simp: octet_def)
  have "p = [] \<or> hd p = CHR '':''" using p by (auto simp: port_tail_def)
  moreover have "digit (last d)" using digits [OF o(4)] by (auto simp: list_all_iff)
  ultimately show ?thesis
    using s digits [OF o(1)] digits [OF o(2)] digits [OF o(3)] digits [OF o(4)]
    by (intro exI [of _ "a @ ''.'' @ b @ ''.'' @ c @ ''.'' @ d"] exI [of _ p]) (auto simp: list_all_iff)
qed

text \<open>
  No string is both a domain with a port and an address of IPv4 or IPv6.
\<close>

lemma domain_port_shape:
  assumes "is_domain_port_str s"
  shows "\<exists>d b q. s = d @ [b] @ '':'' @ q \<and> alpha b \<and> CHR '':'' \<notin> set d \<and> CHR ''.'' \<in> set d"
proof -
  let ?label = "Cat (Cls label_char) (Cat (opt (Cat (rep 0 61 (Cls (\<lambda>c. label_char c \<or> c = CHR ''-''))) (Cls label_char)))
    (chr CHR ''.''))"
  obtain u v where s: "s = u @ v" "accepts (plus ?label) u"
    and v: "accepts (Cat (Cls alpha) (Cat (rep 0 61 (Cls (\<lambda>c. alpha c \<or> c = CHR ''-'')))
      (Cat (Cls alpha) (Cat (chr CHR '':'') (rep 1 5 (Cls digit)))))) v"
    using assms unfolding is_domain_port_str_def is_match_accepts domain_port_rx_def cats.simps accepts_Cat [of "plus _"]
    by auto
  obtain a m b q where w: "v = a # m @ b # CHR '':'' # q" "alpha a" "alpha b"
      "list_all (\<lambda>c. alpha c \<or> c = CHR ''-'') m"
    using v by (auto simp: accepts_Cat [of "rep _ _ _"])
  obtain x y where u: "u = x @ y" "accepts ?label x"
    using s(2) unfolding plus_def accepts_Cat [of "Cat _ _"] by blast
  then have "CHR ''.'' \<in> set u"
    by (auto simp: accepts_Cat [of "Cat (rep _ _ _) _"])
  moreover have "list_all (\<lambda>c. c \<noteq> CHR '':'') u"
    by (rule accepts_within [OF _ s(2)])
      (auto simp: plus_def opt_def chr_def label_char_def intro!: within_rep)
  moreover have "CHR '':'' \<notin> set m" "a \<noteq> CHR '':''"
    using w(2,4) class_no_sep(3) by (auto simp: list_all_iff)
  ultimately have "CHR '':'' \<notin> set (u @ a # m)" "CHR ''.'' \<in> set (u @ a # m)"
    by (auto simp: list_all_iff)
  moreover have "s = (u @ a # m) @ [b] @ '':'' @ q" using s(1) w(1) by simp
  ultimately show ?thesis using w(3) by blast
qed

theorem domain_not_ip:
  assumes "is_domain_port_str s"
  shows "\<not> is_ip_str s"
proof
  obtain d b q where s: "s = d @ [b] @ '':'' @ q" "alpha b" "CHR '':'' \<notin> set d" "CHR ''.'' \<in> set d"
    using domain_port_shape [OF assms] by blast
  assume "is_ip_str s"
  then consider "is_ipv4_str s" | "accepts ipv6_rx s"
    by (auto simp: is_ip_str_def is_ipv6_str_def is_match_accepts)
  then show False
  proof cases
    case 2
    then have "list_all (\<lambda>c. c \<noteq> CHR ''.'') s"
      by (rule accepts_within [rotated])
        (auto simp: ipv6_rx_def ipv6_groups_def plus_def chr_def intro!: within_rep)
    then show False using s by (auto simp: list_all_iff)
  next
    case 1
    then obtain u v where uv: "s = u @ v" "list_all (\<lambda>c. digit c \<or> c = CHR ''.'') u" "u \<noteq> []" "digit (last u)"
      and v: "v = [] \<or> hd v = CHR '':''"
      using ipv4_shape by blast
    have "CHR '':'' \<notin> set u" using uv(2) class_no_sep(1) by (auto simp: list_all_iff)
    then have "takeWhile (\<lambda>c. c \<noteq> CHR '':'') s = u"
      using uv(1) v by (cases v) (auto simp: takeWhile_tail takeWhile_all)
    moreover have "CHR '':'' \<notin> set (d @ [b])" using s(2,3) class_no_sep(3) by auto
    then have "takeWhile (\<lambda>c. c \<noteq> CHR '':'') s = d @ [b]"
      using s(1) takeWhile_tail [of "\<lambda>c. c \<noteq> CHR '':''" "CHR '':''" "d @ [b]" q] by (simp add: takeWhile_all)
    ultimately have "u = d @ [b]" by simp
    then have "digit b" using uv(4) by simp
    then show False using s(2) by (auto simp: alpha_def digit_def in_range_def of_char_def)
  qed
qed

theorem domain_not_ip_witness: "\<not> is_ip_str ''m.org:80''"
proof -
  have classes: "label_char CHR ''m''" "alpha CHR ''o''" "alpha CHR ''r''" "alpha CHR ''g''"
      "digit CHR ''8''" "digit CHR ''0''"
    by (simp_all add: label_char_def alpha_def digit_def in_range_def of_char_def)
  have "is_domain_port_str (''m.'' @ ''org:80'')"
    unfolding is_domain_port_str_def is_match_accepts domain_port_rx_def cats.simps accepts_Cat [of "plus _"]
  proof (rule exI [of _ "''m.''"], rule exI [of _ "''org:80''"], intro conjI)
    show "accepts (Cat (Cls alpha) (Cat (rep 0 61 (Cls (\<lambda>c. alpha c \<or> c = CHR ''-'')))
      (Cat (Cls alpha) (Cat (chr CHR '':'') (rep 1 5 (Cls digit)))))) ''org:80''"
    proof -
      have "accepts (Cat (rep 0 61 (Cls (\<lambda>c. alpha c \<or> c = CHR ''-'')))
        (Cat (Cls alpha) (Cat (chr CHR '':'') (rep 1 5 (Cls digit))))) ''rg:80''"
        unfolding accepts_Cat [of "rep _ _ _"] using classes
        by (intro exI [of _ "''r''"] exI [of _ "''g:80''"]) simp
      then show ?thesis using classes by simp
    qed
    show "accepts (plus (Cat (Cls label_char) (Cat (opt (Cat (rep 0 61 (Cls (\<lambda>c. label_char c \<or> c = CHR ''-'')))
      (Cls label_char))) (chr CHR ''.'')))) ''m.''"
      unfolding plus_def accepts_Cat [of "Cat _ _"]
      using classes by (intro exI [of _ "''m.''"] exI [of _ "[]"])
        (simp_all add: accepts.simps(6) many_Nil)
  qed simp
  then show ?thesis using domain_not_ip [of "''m.org:80''"] by simp
qed

text \<open>
  An id of one's own is valid exactly when it has 6 to 16 characters, the first a letter and the
  others letters, digits or underscores.
\<close>

theorem valid_custom_id_iff:
  "is_valid_custom_id s \<longleftrightarrow> s \<noteq> [] \<and> alpha (hd s) \<and> list_all word_char (tl s) \<and> length s \<in> {6..16}"
  by (cases s) (auto simp: is_valid_custom_id_def is_match_accepts custom_id_rx_def)

end
