(* ===== verification/Proxy.thy ===== *)
theory Proxy
  imports NetUtil
begin

text \<open>
  Connecting through a proxy, \<open>libs/hbb_common/src/proxy.rs\<close>: the address of the proxy as a URL or
  without a scheme, its host and port, and the \<open>CONNECT\<close> request with the answer of an HTTP proxy. The
  crates \<open>url\<close>, \<open>base64\<close>, \<open>httparse\<close> and \<open>tokio_socks\<close>, name lookups and sockets are arguments. What
  a proxy sends is the list of its bytes, all of them there, with the end of the stream behind.
\<close>

section \<open>Proxies\<close>

datatype proxy_error =
  IoError string | TargetParseError string | HttpParseError string
| MaximumResponseHeaderLengthExceeded nat | EndOfFile | UrlBadScheme string | UrlParseScheme string
| NoHttpCode | HttpCode200 nat | AddressResolutionFailed string | NativeTlsError string

text \<open>What the sources use of a parsed URL; the host and port are those between the positions
  \<open>BeforeHost\<close> and \<open>AfterPort\<close>.\<close>

record url =
  ur_text :: string
  ur_scheme :: string
  ur_has_host :: bool
  ur_host_port :: string
  ur_username :: string
  ur_password :: "string option"

text \<open>
  The libraries: \<open>Url::parse\<close>, the addresses of a URL with a default port for the scheme and of a
  host with a port, the target of a connection, the display of addresses, base64 and the HTTP parser
  (the code of a response, if any).
\<close>

record proxy_libs =
  px_parse :: "string \<Rightarrow> string + url"
  px_url_addrs :: "url \<Rightarrow> nat option \<Rightarrow> string + socket_addr list"
  px_to_socket_addrs :: "string \<Rightarrow> nat \<Rightarrow> string + socket_addr list"
  px_show_ip :: "socket_addr \<Rightarrow> string"
  px_show_addr :: "socket_addr \<Rightarrow> string"
  px_base64 :: "string \<Rightarrow> string"
  px_http_parse :: "string \<Rightarrow> string + nat option"

record auth =
  au_user_name :: string
  au_password :: string

datatype proxy_scheme =
  Http (ps_auth: "auth option") (ps_host: string)
| Https (ps_auth: "auth option") (ps_host: string)
| Socks5 (ps_addr: socket_addr) (ps_auth: "auth option") (ps_remote_dns: bool)

definition get_basic_authorization :: "proxy_libs \<Rightarrow> auth \<Rightarrow> string" where
  "get_basic_authorization L a = px_base64 L (au_user_name a @ '':'' @ au_password a)"

definition crlf :: string where "crlf = [CHR 0x0D, CHR 0x0A]"

definition get_proxy_authorization :: "proxy_libs \<Rightarrow> auth \<Rightarrow> string" where
  "get_proxy_authorization L a = ''Proxy-Authorization: Basic '' @ get_basic_authorization L a @ crlf"

definition set_basic_auth :: "string \<Rightarrow> string \<Rightarrow> proxy_scheme \<Rightarrow> proxy_scheme" where
  "set_basic_auth username password s =
    (let auth = Some \<lparr>au_user_name = username, au_password = password\<rparr> in
     case s of
       Http _ host \<Rightarrow> Http auth host
     | Https _ host \<Rightarrow> Https auth host
     | Socks5 addr _ dns \<Rightarrow> Socks5 addr auth dns)"

text \<open>\<open>into_url\<close> of a URL and of a string.\<close>

definition url_into_url :: "url \<Rightarrow> proxy_error + url" where
  "url_into_url u = (if ur_has_host u then Inr u else Inl (UrlBadScheme (ur_text u)))"

definition into_url :: "proxy_libs \<Rightarrow> string \<Rightarrow> proxy_error + url" where
  "into_url L s = (case px_parse L s of Inl e \<Rightarrow> Inl (UrlParseScheme e) | Inr u \<Rightarrow> url_into_url u)"

text \<open>\<open>ProxyScheme::parse\<close>.\<close>

definition to_addr :: "proxy_libs \<Rightarrow> url \<Rightarrow> proxy_error + socket_addr" where
  "to_addr L u =
    (case px_url_addrs L u (if ur_scheme u = ''socks5'' then Some 1080 else None) of
       Inl e \<Rightarrow> Inl (IoError e)
     | Inr [] \<Rightarrow> Inl (UrlParseScheme ''EmptyHost'')
     | Inr (a # _) \<Rightarrow> Inr a)"

definition parse_scheme :: "proxy_libs \<Rightarrow> url \<Rightarrow> proxy_error + proxy_scheme" where
  "parse_scheme L u =
    (case (if ur_scheme u = ''http'' then Inr (Http None (ur_host_port u))
           else if ur_scheme u = ''https'' then Inr (Https None (ur_host_port u))
           else if ur_scheme u = ''socks5'' then map_sum id (\<lambda>a. Socks5 a None False) (to_addr L u)
           else Inl (UrlBadScheme (ur_scheme u))) of
       Inl e \<Rightarrow> Inl e
     | Inr scheme \<Rightarrow>
         (case ur_password u of
            Some pwd \<Rightarrow> Inr (set_basic_auth (ur_username u) pwd scheme)
          | None \<Rightarrow> Inr scheme))"

text \<open>\<open>into_proxy_scheme\<close>: what does not parse as a URL is tried with the scheme \<open>socks5\<close>.\<close>

definition into_proxy_scheme :: "proxy_libs \<Rightarrow> string \<Rightarrow> proxy_error + proxy_scheme" where
  "into_proxy_scheme L s =
    (case (case into_url L s of
             Inr u \<Rightarrow> Inr u
           | Inl e \<Rightarrow>
               (case e of
                  UrlParseScheme _ \<Rightarrow> into_url L (''socks5://'' @ s)
                | _ \<Rightarrow> Inl e)) of
       Inl e \<Rightarrow> Inl e
     | Inr u \<Rightarrow> parse_scheme L u)"

record proxy_client =
  pr_intercept :: proxy_scheme
  pr_ms_timeout :: nat

definition proxy_new :: "proxy_libs \<Rightarrow> string \<Rightarrow> nat \<Rightarrow> proxy_error + proxy_client" where
  "proxy_new L s ms =
    (case into_proxy_scheme L s of
       Inl e \<Rightarrow> Inl e
     | Inr sc \<Rightarrow> Inr \<lparr>pr_intercept = sc, pr_ms_timeout = ms\<rparr>)"

definition from_conf :: "proxy_libs \<Rightarrow> socks5_server \<Rightarrow> nat option \<Rightarrow> proxy_error + proxy_client" where
  "from_conf L conf ms =
    (case proxy_new L (sk_proxy conf) (case ms of None \<Rightarrow> 600 | Some t \<Rightarrow> t) of
       Inl e \<Rightarrow> Inl e
     | Inr p \<Rightarrow>
         if sk_password conf \<noteq> [] \<and> sk_username conf \<noteq> []
         then Inr (p\<lparr>pr_intercept := set_basic_auth (sk_username conf) (sk_password conf) (pr_intercept p)\<rparr>)
         else Inr p)"

definition is_http_or_https :: "proxy_client \<Rightarrow> bool" where
  "is_http_or_https p = (case pr_intercept p of Socks5 _ _ _ \<Rightarrow> False | _ \<Rightarrow> True)"

section \<open>Hosts and ports\<close>

text \<open>\<open>split_once\<close> by a character.\<close>

definition split_once :: "char \<Rightarrow> string \<Rightarrow> (string \<times> string) option" where
  "split_once c s =
    (if c \<in> set s then Some (takeWhile (\<lambda>x. x \<noteq> c) s, tl (dropWhile (\<lambda>x. x \<noteq> c) s)) else None)"

definition resolve_host :: "proxy_libs \<Rightarrow> string \<Rightarrow> nat \<Rightarrow> proxy_error + socket_addr" where
  "resolve_host L host default_port =
    (let (host_str, port) = (case split_once CHR '':'' host of
           Some (h, p) \<Rightarrow> (h, parse_unsigned 16 p)
         | None \<Rightarrow> (host, None))
     in case px_to_socket_addrs L host_str (case port of Some p \<Rightarrow> p | None \<Rightarrow> default_port) of
          Inl e \<Rightarrow> Inl (IoError e)
        | Inr [] \<Rightarrow> Inl (AddressResolutionFailed host)
        | Inr (a # _) \<Rightarrow> Inr a)"

definition socket_addrs :: "proxy_libs \<Rightarrow> proxy_scheme \<Rightarrow> proxy_error + socket_addr" where
  "socket_addrs L s =
    (case s of
       Http _ host \<Rightarrow> resolve_host L host 80
     | Https _ host \<Rightarrow> resolve_host L host 443
     | Socks5 addr _ _ \<Rightarrow> Inr addr)"

definition get_domain :: "proxy_libs \<Rightarrow> proxy_scheme \<Rightarrow> proxy_error + string" where
  "get_domain L s =
    (let of_host = (\<lambda>host. case split_on CHR '':'' host of
           [] \<Rightarrow> Inl (AddressResolutionFailed host) | d # _ \<Rightarrow> Inr d)
     in case s of
          Http _ host \<Rightarrow> of_host host
        | Https _ host \<Rightarrow> of_host host
        | Socks5 addr _ _ \<Rightarrow> Inr (px_show_ip L addr))"

definition append_default_port :: "string \<Rightarrow> nat \<Rightarrow> string" where
  "append_default_port host default_port =
    (if CHR '':'' \<in> set host then host else host @ '':'' @ show_nat default_port)"

definition get_host_and_port :: "proxy_libs \<Rightarrow> proxy_scheme \<Rightarrow> proxy_error + string" where
  "get_host_and_port L s =
    (case s of
       Http _ host \<Rightarrow> Inr (append_default_port host 80)
     | Https _ host \<Rightarrow> Inr (append_default_port host 443)
     | Socks5 addr _ _ \<Rightarrow> Inr (px_show_addr L addr))"

section \<open>The request and the answer\<close>

definition make_request :: "proxy_libs \<Rightarrow> proxy_scheme \<Rightarrow> string \<Rightarrow> nat \<Rightarrow> string" where
  "make_request L s host port =
    (let request = ''CONNECT '' @ host @ '':'' @ show_nat port @ '' HTTP/1.1'' @ crlf
           @ ''Host: '' @ host @ '':'' @ show_nat port @ crlf;
         request = (case ps_auth s of Some auth \<Rightarrow> request @ get_proxy_authorization L auth | None \<Rightarrow> request)
     in request @ crlf)"

datatype target_addr = TargetIp socket_addr | TargetDomain string nat

fun addr_port :: "socket_addr \<Rightarrow> nat" where
  "addr_port (V4 _ p) = unat p"
| "addr_port (V6 _ p _ _) = unat p"

definition get_domain_and_port :: "proxy_libs \<Rightarrow> string + target_addr \<Rightarrow> proxy_error + string \<times> nat" where
  "get_domain_and_port L target =
    (case target of
       Inl e \<Rightarrow> Inl (TargetParseError e)
     | Inr (TargetIp addr) \<Rightarrow> Inr (px_show_ip L addr, addr_port addr)
     | Inr (TargetDomain name port) \<Rightarrow> Inr (name, port))"

text \<open>\<open>read_line\<close>: a line with its end, or what is left.\<close>

definition read_line :: "string \<Rightarrow> string \<times> string" where
  "read_line s =
    (let body = takeWhile (\<lambda>c. c \<noteq> CHR 0x0A) s
     in (take (Suc (length body)) s, drop (Suc (length body)) s))"

lemma read_line_shorter: "s \<noteq> [] \<Longrightarrow> length (snd (read_line s)) < length s"
  by (cases s) (simp_all add: read_line_def Let_def)

definition max_header :: nat where "max_header = 4096"

function get_response :: "string \<Rightarrow> string \<Rightarrow> proxy_error + string \<times> string" where
  "get_response response stream =
    (if stream = [] then Inl EndOfFile
     else
       case read_line stream of
         (line, rest) \<Rightarrow>
           if \<not> valid_utf8 line then Inl (IoError ''stream did not contain valid UTF-8'')
           else
             let response = response @ line in
             if max_header < length response then Inl (MaximumResponseHeaderLengthExceeded (length response))
             else if ends_with (crlf @ crlf) response then Inr (response, rest)
             else get_response response rest)"
  by pat_completeness auto
termination
  by (relation "measure (length \<circ> snd)") (auto dest: read_line_shorter simp: prod_eq_iff)

declare get_response.simps [simp del]

text \<open>\<open>recv_and_check_response\<close>: what is left of the stream behind the header, for the code 200.\<close>

definition recv_and_check_response :: "proxy_libs \<Rightarrow> string \<Rightarrow> proxy_error + string" where
  "recv_and_check_response L stream =
    (case get_response [] stream of
       Inl e \<Rightarrow> Inl e
     | Inr (response, rest) \<Rightarrow>
         (case px_http_parse L response of
            Inl e \<Rightarrow> Inl (HttpParseError e)
          | Inr None \<Rightarrow> Inl NoHttpCode
          | Inr (Some code) \<Rightarrow> if code = 200 then Inr rest else Inl (HttpCode200 code)))"

text \<open>
  \<open>http_connect\<close> on a stream that takes what is written: the request, and the result: the rest of
  the stream for the tunnel.
\<close>

definition http_connect :: "proxy_libs \<Rightarrow> proxy_scheme \<Rightarrow> string + target_addr \<Rightarrow> string \<Rightarrow> string \<times> (proxy_error + string)" where
  "http_connect L s target stream =
    (case get_domain_and_port L target of
       Inl e \<Rightarrow> ([], Inl e)
     | Inr (domain, port) \<Rightarrow> (make_request L s domain port, recv_and_check_response L stream))"

text \<open>
  \<open>Proxy::connect\<close>: the address it connects to and from, and what happens on the stream then.
\<close>

datatype proxy_plan =
  HttpTunnel proxy_scheme
| TlsTunnel string proxy_scheme
| SocksPassword string string
| SocksPlain

definition proxy_connect ::
  "proxy_libs \<Rightarrow> proxy_client \<Rightarrow> socket_addr option \<Rightarrow> proxy_error + socket_addr \<times> socket_addr \<times> (proxy_error + proxy_plan)" where
  "proxy_connect L p local_addr =
    (case socket_addrs L (pr_intercept p) of
       Inl e \<Rightarrow> Inl e
     | Inr addr \<Rightarrow>
         let local = (case local_addr of Some a \<Rightarrow> a | None \<Rightarrow> get_any_listen_addr (is_v4 addr)) in
         Inr (addr, local,
           case pr_intercept p of
             Http _ _ \<Rightarrow> Inr (HttpTunnel (pr_intercept p))
           | Https _ _ \<Rightarrow>
               (case get_domain L (pr_intercept p) of
                  Inl e \<Rightarrow> Inl e | Inr d \<Rightarrow> Inr (TlsTunnel d (pr_intercept p)))
           | Socks5 _ a _ \<Rightarrow>
               (case a of
                  Some auth \<Rightarrow> Inr (SocksPassword (au_user_name auth) (au_password auth))
                | None \<Rightarrow> Inr SocksPlain)))"

section \<open>The header and what follows\<close>

lemma read_line_newline:
  "CHR 0x0A \<notin> set body \<Longrightarrow> read_line (body @ CHR 0x0A # rest) = (body @ [CHR 0x0A], rest)"
  by (simp add: read_line_def Let_def takeWhile_tail takeWhile_all)

lemma read_line_last: "CHR 0x0A \<notin> set s \<Longrightarrow> read_line s = (s, [])"
  by (simp add: read_line_def Let_def takeWhile_all)

text \<open>A header in lines: no blank line but the last, short, and UTF-8.\<close>

definition is_header :: "string list \<Rightarrow> bool" where
  "is_header ls \<longleftrightarrow> ls \<noteq> [] \<and>
    (\<forall>l \<in> set ls. CHR 0x0A \<notin> set l \<and> valid_utf8 (l @ crlf) \<and> l \<noteq> [])"

definition header_text :: "string list \<Rightarrow> string" where
  "header_text ls = concat (map (\<lambda>l. l @ crlf) ls) @ crlf"

lemma ends_with_append [simp]: "ends_with p (s @ p)"
  by (simp add: ends_with_def starts_with_def)

lemma not_blank_end:
  assumes "l \<noteq> []" "CHR 0x0A \<notin> set l"
  shows "\<not> ends_with (crlf @ crlf) (s @ l @ crlf)"
proof -
  have "rev l \<noteq> []" "CHR 0x0A \<notin> set (rev l)" using assms by simp_all
  then show ?thesis
    by (cases "rev l") (auto simp: ends_with_def starts_with_def crlf_def)
qed

lemma get_response_lines:
  assumes "\<forall>l \<in> set ls. CHR 0x0A \<notin> set l \<and> valid_utf8 (l @ crlf) \<and> l \<noteq> []"
    and "length (resp @ header_text ls) \<le> max_header" "ls = [] \<longrightarrow> ends_with crlf resp"
  shows "get_response resp (header_text ls @ rest) = Inr (resp @ header_text ls, rest)"
  using assms
proof (induction ls arbitrary: resp)
  case Nil
  have line: "read_line (crlf @ rest) = (crlf, rest)"
    using read_line_newline [of "[CHR 0x0D]" rest] by (simp add: crlf_def)
  have "valid_utf8 crlf" by (simp add: crlf_def byte_in_def of_char_def)
  moreover obtain s where "resp = s @ crlf"
    using Nil.prems(3) unfolding ends_with_def starts_with_def
    by (metis append_take_drop_id rev_append rev_rev_ident)
  moreover have "crlf @ rest \<noteq> []" by (simp add: crlf_def)
  ultimately show ?case
    using Nil.prems(2) line ends_with_append [of "crlf @ crlf" s]
    by (subst get_response.simps) (simp add: header_text_def)
next
  case (Cons l ls)
  let ?h = "header_text ls @ rest"
  have whole: "header_text (l # ls) @ rest = (l @ [CHR 0x0D]) @ CHR 0x0A # ?h"
    by (simp add: header_text_def crlf_def)
  have "read_line (header_text (l # ls) @ rest) = (l @ crlf, ?h)"
    unfolding whole using Cons.prems(1) read_line_newline [of "l @ [CHR 0x0D]" ?h] by (simp add: crlf_def)
  moreover have "\<not> ends_with (crlf @ crlf) (resp @ l @ crlf)"
    using Cons.prems(1) by (intro not_blank_end) auto
  moreover have "length (resp @ l @ crlf) \<le> max_header"
    using Cons.prems(2) by (simp add: header_text_def)
  moreover have "get_response (resp @ l @ crlf) ?h = Inr ((resp @ l @ crlf) @ header_text ls, rest)"
  proof (rule Cons.IH)
    show "length ((resp @ l @ crlf) @ header_text ls) \<le> max_header"
      using Cons.prems(2) by (simp add: header_text_def)
    show "ls = [] \<longrightarrow> ends_with crlf (resp @ l @ crlf)"
      using ends_with_append [of crlf "resp @ l"] by simp
  qed (use Cons.prems(1) in simp)
  moreover have "header_text (l # ls) @ rest \<noteq> []" by (simp add: header_text_def crlf_def)
  ultimately show ?case
    using Cons.prems(1) by (subst get_response.simps) (simp add: header_text_def)
qed

text \<open>
  C27: When the proxy answers with a header of at most 4096 bytes, the tunnel of a connection has exactly
  the bytes behind the header if the code is 200; another code is the error with the code.
\<close>

theorem tunnel_after_header:
  assumes "is_header ls" "length (header_text ls) \<le> max_header"
    and "px_http_parse L (header_text ls) = Inr (Some code)"
  shows "http_connect L s (Inr (TargetDomain d p)) (header_text ls @ rest) =
    (make_request L s d p, if code = 200 then Inr rest else Inl (HttpCode200 code))"
  using assms get_response_lines [of ls "[]" rest]
  by (simp add: is_header_def http_connect_def get_domain_and_port_def recv_and_check_response_def)

definition demo_libs :: proxy_libs where
  "demo_libs = \<lparr>px_parse = (\<lambda>_. Inl ''RelativeUrlWithoutBase''), px_url_addrs = (\<lambda>_ _. Inr []),
     px_to_socket_addrs = (\<lambda>_ _. Inr []), px_show_ip = (\<lambda>_. ''10.0.0.1''), px_show_addr = (\<lambda>_. ''10.0.0.1:1080''),
     px_base64 = id, px_http_parse = (\<lambda>r. Inr (if starts_with ''HTTP/1.1 200'' r then Some 200 else None))\<rparr>"

theorem tunnel_after_header_witness:
  "http_connect demo_libs (Http None ''proxy'') (Inr (TargetDomain ''host'' 21116))
     (header_text [''HTTP/1.1 200 OK'', ''Via: proxy''] @ ''first bytes'') =
   (make_request demo_libs (Http None ''proxy'') ''host'' 21116, Inr ''first bytes'')"
  using tunnel_after_header [of "[''HTTP/1.1 200 OK'', ''Via: proxy'']" demo_libs 200 "Http None ''proxy''" "''host''" 21116 "''first bytes''"]
  by (simp add: is_header_def header_text_def max_header_def demo_libs_def crlf_def starts_with_def
      byte_in_def of_char_def)

lemma lines_of_header:
  assumes "\<forall>l \<in> set ls. CHR 0x0A \<notin> set l \<and> CHR 0x0D \<notin> set l"
  shows "str_lines (concat (map (\<lambda>l. l @ crlf) ls)) = ls"
proof -
  have "split_on (CHR 0x0A) (concat (map (\<lambda>l. l @ crlf) ls)) = map (\<lambda>l. l @ [CHR 0x0D]) ls @ [[]]"
    using assms
  proof (induction ls)
    case (Cons l ls)
    have whole: "concat (map (\<lambda>l. l @ crlf) (l # ls)) =
        (l @ [CHR 0x0D]) @ CHR 0x0A # concat (map (\<lambda>l. l @ crlf) ls)"
      by (simp add: crlf_def)
    show ?case
      unfolding whole using Cons by (subst split_on_append) simp_all
  qed simp
  then show ?thesis by (simp add: str_lines_def strip_cr_def comp_def butlast_append)
qed

text \<open>
  The request of a connection through an HTTP proxy has the request line, the host, the
  authorization exactly when one is set, and one blank line at its end, as long as neither the host
  nor the encoded credentials have an end of a line in them.
\<close>

theorem request_lines:
  assumes "CHR 0x0A \<notin> set host" "CHR 0x0D \<notin> set host"
    and "\<forall>a. ps_auth s = Some a \<longrightarrow>
      CHR 0x0A \<notin> set (get_basic_authorization L a) \<and> CHR 0x0D \<notin> set (get_basic_authorization L a)"
  shows "str_lines (make_request L s host port) =
    [''CONNECT '' @ host @ '':'' @ show_nat port @ '' HTTP/1.1'', ''Host: '' @ host @ '':'' @ show_nat port]
    @ (case ps_auth s of None \<Rightarrow> [] | Some a \<Rightarrow> [''Proxy-Authorization: Basic '' @ get_basic_authorization L a])
    @ [[]]"
proof -
  let ?auth = "case ps_auth s of None \<Rightarrow> []
    | Some a \<Rightarrow> [''Proxy-Authorization: Basic '' @ get_basic_authorization L a]"
  let ?ls = "[''CONNECT '' @ host @ '':'' @ show_nat port @ '' HTTP/1.1'', ''Host: '' @ host @ '':'' @ show_nat port]
    @ ?auth @ [[]]"
  have request: "make_request L s host port = concat (map (\<lambda>l. l @ crlf) ?ls)"
    by (simp add: make_request_def get_proxy_authorization_def Let_def split: option.split)
  have "CHR 0x0A \<notin> set (show_nat port)" "CHR 0x0D \<notin> set (show_nat port)"
    by (rule not_in_show_nat, simp add: of_char_def)+
  then have "\<forall>l \<in> set ?ls. CHR 0x0A \<notin> set l \<and> CHR 0x0D \<notin> set l"
    using assms by (cases "ps_auth s") auto
  then show ?thesis unfolding request by (rule lines_of_header)
qed

theorem request_lines_witness:
  "str_lines (make_request demo_libs (Http (Some \<lparr>au_user_name = ''me'', au_password = ''pw''\<rparr>) ''proxy'') ''host'' 21116) =
   [''CONNECT host:'' @ show_nat 21116 @ '' HTTP/1.1'', ''Host: host:'' @ show_nat 21116,
    ''Proxy-Authorization: Basic me:pw'', []]"
  using request_lines [of "''host''" "Http (Some \<lparr>au_user_name = ''me'', au_password = ''pw''\<rparr>) ''proxy''" demo_libs 21116]
  by (simp add: get_basic_authorization_def demo_libs_def)

text \<open>
  The limit of 4096 bytes for the header is looked at after a line is complete: an answer without
  an end of a line is read to its end, whatever its length.
\<close>

theorem header_limit_after_line:
  assumes "CHR 0x0A \<notin> set s" "valid_utf8 s" "max_header < length s"
  shows "get_response [] s = Inl (MaximumResponseHeaderLengthExceeded (length s))"
  using assms by (subst get_response.simps) (auto simp: read_line_last)

theorem header_limit_after_line_witness:
  "get_response [] (replicate 100000 CHR ''x'') = Inl (MaximumResponseHeaderLengthExceeded 100000)"
proof -
  have "valid_utf8 (replicate n CHR ''x'')" for n
    by (induction n) (simp_all add: byte_in_def of_char_def)
  then show ?thesis
    using header_limit_after_line [of "replicate 100000 CHR ''x''"] by (simp add: max_header_def)
qed

text \<open>
  A proxy whose host is an IPv6 address in brackets is looked up as what stands before the first
  colon of it, with the port of the scheme, and TLS expects that name of the proxy.
\<close>

theorem ipv6_proxy_split:
  assumes "host = (''['' @ g) @ CHR '':'' # rest" "CHR '':'' \<notin> set g" "parse_unsigned 16 rest = None"
  shows "resolve_host L host d =
      (case px_to_socket_addrs L (''['' @ g) d of
         Inl e \<Rightarrow> Inl (IoError e)
       | Inr [] \<Rightarrow> Inl (AddressResolutionFailed host)
       | Inr (a # _) \<Rightarrow> Inr a)
    \<and> get_domain L (Https au host) = Inr (''['' @ g)"
proof -
  have "split_once CHR '':'' host = Some (''['' @ g, rest)"
    unfolding assms(1) split_once_def using assms(2)
    by (simp add: takeWhile_tail takeWhile_all dropWhile_append2 dropWhile_append)
  moreover have "split_on CHR '':'' host = (''['' @ g) # split_on CHR '':'' rest"
    unfolding assms(1) using assms(2) by (intro split_on_append) simp
  ultimately show ?thesis
    using assms(3) by (simp add: resolve_host_def get_domain_def)
qed

theorem ipv6_proxy_split_witness:
  "resolve_host demo_libs ''[2001:db8::1]:8080'' 80 = Inl (AddressResolutionFailed ''[2001:db8::1]:8080'')
   \<and> get_domain demo_libs (Https None ''[2001:db8::1]:8080'') = Inr ''[2001''"
  using ipv6_proxy_split [of "''[2001:db8::1]:8080''" "''2001''" "''db8::1]:8080''" demo_libs 80 None]
  by (simp add: demo_libs_def parse_unsigned_def parse_nat_def digit_val_def of_char_def)

text \<open>
  What does not parse as a URL is taken with the scheme of SOCKS 5, but what parses as one that has
  no host (a name with a port does) is refused as a bad URL.
\<close>

theorem scheme_fallback:
  "into_proxy_scheme L s =
    (case px_parse L s of
       Inl _ \<Rightarrow>
         (case px_parse L (''socks5://'' @ s) of
            Inl e \<Rightarrow> Inl (UrlParseScheme e)
          | Inr u \<Rightarrow> if ur_has_host u then parse_scheme L u else Inl (UrlBadScheme (ur_text u)))
     | Inr u \<Rightarrow> if ur_has_host u then parse_scheme L u else Inl (UrlBadScheme (ur_text u)))"
  by (simp add: into_proxy_scheme_def into_url_def url_into_url_def split: sum.split)

end
