(* ===== verification/NetConn.thy ===== *)
theory NetConn
  imports Proxy IpStr
begin

text \<open>
  Sockets and listeners of \<open>libs/hbb_common/src/tcp.rs\<close> and \<open>udp.rs\<close>, the UDP side of
  \<open>socket_client.rs\<close>, and what is left of \<open>lib.rs\<close>. The operating system answers whether a socket can be
  made, bound and listened on; name lookups and proxies are arguments.
\<close>

section \<open>Sockets\<close>

datatype sock_opt = ReusePort | ReuseAddr | NonBlocking | RecvBuffer nat | OnlyV6 bool

record socket =
  so_v6 :: bool
  so_dgram :: bool
  so_opts :: "sock_opt list"
  so_bound :: "socket_addr option"
  so_backlog :: "nat option"

text \<open>The answers of the operating system: the error of a call, if it fails.\<close>

record sock_os =
  os_create :: "bool \<Rightarrow> bool \<Rightarrow> string option"
  os_setopt :: "sock_opt \<Rightarrow> string option"
  os_bind :: "socket \<Rightarrow> socket_addr \<Rightarrow> string option"
  os_listen :: "socket \<Rightarrow> string option"

definition sock_create :: "sock_os \<Rightarrow> bool \<Rightarrow> bool \<Rightarrow> string + socket" where
  "sock_create os v6 dgram =
    (case os_create os v6 dgram of
       Some e \<Rightarrow> Inl e
     | None \<Rightarrow> Inr \<lparr>so_v6 = v6, so_dgram = dgram, so_opts = [], so_bound = None, so_backlog = None\<rparr>)"

text \<open>An option whose failure is ignored.\<close>

definition try_opt :: "sock_os \<Rightarrow> sock_opt \<Rightarrow> socket \<Rightarrow> socket" where
  "try_opt os sopt s = (case os_setopt os sopt of None \<Rightarrow> s\<lparr>so_opts := so_opts s @ [sopt]\<rparr> | Some _ \<Rightarrow> s)"

definition sock_bind :: "sock_os \<Rightarrow> socket \<Rightarrow> socket_addr \<Rightarrow> string + socket" where
  "sock_bind os s addr = (case os_bind os s addr of Some e \<Rightarrow> Inl e | None \<Rightarrow> Inr (s\<lparr>so_bound := Some addr\<rparr>))"

definition sock_listen :: "sock_os \<Rightarrow> nat \<Rightarrow> socket \<Rightarrow> string + socket" where
  "sock_listen os n s = (case os_listen os s of Some e \<Rightarrow> Inl e | None \<Rightarrow> Inr (s\<lparr>so_backlog := Some n\<rparr>))"

definition tcp_new_socket :: "sock_os \<Rightarrow> socket_addr \<Rightarrow> bool \<Rightarrow> string + socket" where
  "tcp_new_socket os addr reuse =
    (case sock_create os (\<not> is_v4 addr) False of
       Inl e \<Rightarrow> Inl e
     | Inr s \<Rightarrow>
         let s = (if reuse then try_opt os ReuseAddr (try_opt os ReusePort s) else s)
         in sock_bind os s addr)"

definition is_unspecified :: "socket_addr \<Rightarrow> bool" where
  "is_unspecified a =
    (case a of V4 ip _ \<Rightarrow> octets4 ip = [0, 0, 0, 0] | V6 ip _ _ _ \<Rightarrow> ip = 0)"

definition udp_new_socket :: "sock_os \<Rightarrow> socket_addr \<Rightarrow> bool \<Rightarrow> nat \<Rightarrow> string + socket" where
  "udp_new_socket os addr reuse buf_size =
    (case sock_create os (\<not> is_v4 addr) True of
       Inl e \<Rightarrow> Inl e
     | Inr s \<Rightarrow>
         let s = (if reuse then try_opt os ReuseAddr (try_opt os ReusePort s) else s) in
         (case os_setopt os NonBlocking of
            Some e \<Rightarrow> Inl e
          | None \<Rightarrow>
              let s = s\<lparr>so_opts := so_opts s @ [NonBlocking]\<rparr>;
                  s = (if 0 < buf_size then try_opt os (RecvBuffer buf_size) s else s);
                  s = (if \<not> is_v4 addr \<and> is_unspecified addr \<and> 0 < addr_port addr
                       then try_opt os (OnlyV6 False) s else s)
              in sock_bind os s addr))"

section \<open>Listeners\<close>

definition default_backlog :: nat where "default_backlog = 128"

definition bind_result :: "string + 'a \<Rightarrow> ('a \<Rightarrow> string + 'b) \<Rightarrow> string + 'b" where
  "bind_result r f = (case r of Inl e \<Rightarrow> Inl e | Inr x \<Rightarrow> f x)"

definition new_listener ::
  "sock_os \<Rightarrow> (string \<Rightarrow> string + socket_addr list) \<Rightarrow> (string \<Rightarrow> string + socket) \<Rightarrow> string \<Rightarrow> bool \<Rightarrow> string + socket" where
  "new_listener os lookup tcp_bind addr reuse =
    (if \<not> reuse then tcp_bind addr
     else
       bind_result (lookup addr) (\<lambda>addrs.
         case addrs of
           [] \<Rightarrow> Inl ''could not resolve to any address''
         | a # _ \<Rightarrow> bind_result (tcp_new_socket os a True) (sock_listen os default_backlog)))"

definition listen_any :: "sock_os \<Rightarrow> u16 \<Rightarrow> string + socket" where
  "listen_any os port =
    (let v6 = bind_result (sock_create os True False) (\<lambda>s.
           let s = try_opt os (OnlyV6 False) (try_opt os ReuseAddr (try_opt os ReusePort s)) in
           bind_result (sock_bind os s (V6 0 port 0 0)) (sock_listen os default_backlog))
     in case v6 of
          Inr l \<Rightarrow> Inr l
        | Inl _ \<Rightarrow>
            bind_result (tcp_new_socket os (V4 (Ipv4Addr 0 0 0 0) port) True) (sock_listen os default_backlog))"

section \<open>UDP\<close>

text \<open>A direct socket, and an association with a proxy with the user it was made with, if any.\<close>

datatype framed_socket =
  DirectSocket socket
| ProxySocket string "(string \<times> string) option"

definition udp_new_reuse ::
  "sock_os \<Rightarrow> string + socket_addr list \<Rightarrow> bool \<Rightarrow> nat \<Rightarrow> string + framed_socket" where
  "udp_new_reuse os addrs reuse buf_size =
    bind_result addrs (\<lambda>addrs.
      case addrs of
        [] \<Rightarrow> Inl ''could not resolve to any address''
      | a # _ \<Rightarrow> bind_result (udp_new_socket os a reuse buf_size) (\<lambda>s. Inr (DirectSocket s)))"

definition udp_new :: "sock_os \<Rightarrow> string + socket_addr list \<Rightarrow> string + framed_socket" where
  "udp_new os addrs = udp_new_reuse os addrs False 0"

text \<open>\<open>connect proxy user\<close> is the error of the connection to the proxy, or none.\<close>

definition udp_new_proxy ::
  "(string \<Rightarrow> (string \<times> string) option \<Rightarrow> string option) \<Rightarrow> string \<Rightarrow> string \<Rightarrow> string \<Rightarrow> string + framed_socket" where
  "udp_new_proxy connect proxy username password =
    (let user = (if trim username = [] then None else Some (username, password)) in
     case connect proxy user of
       Some e \<Rightarrow> Inl e
     | None \<Rightarrow> Inr (ProxySocket proxy user))"

text \<open>\<open>send\<close> and \<open>send_raw\<close>: the packets that leave, to the address they are given for.\<close>

definition udp_send :: "framed_socket \<Rightarrow> bytes \<Rightarrow> string + target_addr \<Rightarrow> string + (bytes \<times> target_addr) list" where
  "udp_send sock data target =
    bind_result target (\<lambda>addr.
      case sock of
        DirectSocket _ \<Rightarrow>
          (case addr of
             TargetIp a \<Rightarrow> Inr [(data, TargetIp a)]
           | TargetDomain _ _ \<Rightarrow> Inr [])
      | ProxySocket _ _ \<Rightarrow> Inr [(data, addr)])"

text \<open>\<open>next\<close>: what the socket has, with the address it comes from; late is \<open>next_timeout\<close> in vain.\<close>

datatype udp_event = Packet bytes target_addr | UdpFailed string | UdpEnded

definition udp_next :: "udp_event \<Rightarrow> (string + bytes \<times> target_addr) option" where
  "udp_next ev = (case ev of Packet d a \<Rightarrow> Some (Inr (d, a)) | UdpFailed e \<Rightarrow> Some (Inl e) | UdpEnded \<Rightarrow> None)"

definition udp_next_timeout :: "bool \<Rightarrow> udp_event \<Rightarrow> (string + bytes \<times> target_addr) option" where
  "udp_next_timeout late ev = (if late then None else udp_next ev)"

definition udp_local_addr :: "framed_socket \<Rightarrow> socket_addr option" where
  "udp_local_addr sock = (case sock of DirectSocket s \<Rightarrow> so_bound s | ProxySocket _ _ \<Rightarrow> None)"

text \<open>
  \<open>test_target\<close>: the peer of a connection made within a second, or the first address of a lookup.
\<close>

record net_env =
  ne_probe :: "string \<Rightarrow> socket_addr option"
  ne_lookup :: "string \<Rightarrow> string + socket_addr list"
  ne_target :: "string \<Rightarrow> string + target_addr"
  ne_proxy :: "string \<Rightarrow> (string \<times> string) option \<Rightarrow> string option"
  ne_os :: sock_os

definition test_target :: "net_env \<Rightarrow> string \<Rightarrow> string + socket_addr" where
  "test_target N target =
    (case ne_probe N target of
       Some a \<Rightarrow> Inr a
     | None \<Rightarrow>
         bind_result (ne_lookup N target) (\<lambda>addrs.
           case addrs of [] \<Rightarrow> Inl (''Failed to look up host for '' @ target) | a # _ \<Rightarrow> Inr a))"

definition is_ipv4_target :: "target_addr \<Rightarrow> bool" where
  "is_ipv4_target t = (case t of TargetIp a \<Rightarrow> is_v4 a | TargetDomain _ _ \<Rightarrow> True)"

definition new_udp :: "net_env \<Rightarrow> world \<Rightarrow> socket_addr \<Rightarrow> string + framed_socket" where
  "new_udp N w local_addr =
    (case get_socks w of
       None \<Rightarrow> udp_new (ne_os N) (Inr [local_addr])
     | Some conf \<Rightarrow> udp_new_proxy (ne_proxy N) (sk_proxy conf) (sk_username conf) (sk_password conf))"

text \<open>
  \<open>new_udp_for\<close> reads the configuration twice: \<open>w\<close> is that when it begins, \<open>w'\<close> that when it makes the
  socket, after up to a second of \<open>test_target\<close> and the lookups.
\<close>

definition new_udp_for :: "net_env \<Rightarrow> world \<Rightarrow> world \<Rightarrow> string \<Rightarrow> string + framed_socket \<times> target_addr" where
  "new_udp_for N w w' target =
    bind_result
      (if get_network_type w = Direct
       then bind_result (test_target N target) (\<lambda>addr. Inr (is_v4 addr, TargetIp addr))
       else bind_result (ne_target N target) (\<lambda>t. Inr (True, t)))
      (\<lambda>(ipv4, t). bind_result (new_udp N w' (get_any_listen_addr ipv4)) (\<lambda>s. Inr (s, t)))"

definition rebind_udp_for :: "net_env \<Rightarrow> world \<Rightarrow> string \<Rightarrow> string + (framed_socket \<times> target_addr) option" where
  "rebind_udp_for N w target =
    (if get_network_type w \<noteq> Direct then Inr None
     else
       bind_result (test_target N target) (\<lambda>addr.
         bind_result (udp_new (ne_os N) (Inr [get_any_listen_addr (is_v4 addr)])) (\<lambda>s.
           Inr (Some (s, TargetIp addr)))))"

text \<open>\<open>FramedStream::connect\<close>: the proxy of a configuration and its connection.\<close>

definition fs_connect ::
  "proxy_libs \<Rightarrow> socket_addr option \<Rightarrow> socks5_server \<Rightarrow> nat
    \<Rightarrow> proxy_error + socket_addr \<times> socket_addr \<times> (proxy_error + proxy_plan)" where
  "fs_connect L local_addr conf ms_timeout =
    (case from_conf L conf (Some ms_timeout) of
       Inl e \<Rightarrow> Inl e
     | Inr p \<Rightarrow> proxy_connect L p local_addr)"

section \<open>The executable and its version\<close>

text \<open>Times of a file, as seconds since 1970; what cannot be asked is 0.\<close>

definition get_exe_time :: "(int option \<times> int option) option \<Rightarrow> int" where
  "get_exe_time ts =
    (case ts of
       None \<Rightarrow> 0
     | Some (modified, created) \<Rightarrow>
         let m = (case modified of Some t \<Rightarrow> t | None \<Rightarrow> 0);
             c = (case created of Some t \<Rightarrow> t | None \<Rightarrow> 0)
         in if m > c then m else c)"

text \<open>\<open>gen_version\<close>: the first line of \<open>Cargo.toml\<close> that sets the version.\<close>

fun version_line :: "string list \<Rightarrow> string" where
  "version_line [] = []"
| "version_line (line # lines) =
    (let ab = map trim (split_on CHR ''='' line) in
     if length ab = 2 \<and> ab ! 0 = ''version''
     then ''pub const VERSION: &str = '' @ ab ! 1 @ '';'' @ [CHR 0x0A]
     else version_line lines)"

definition gen_version :: "string list \<Rightarrow> string \<Rightarrow> string" where
  "gen_version cargo build_date =
    version_line cargo @ ''#[allow(dead_code)]'' @ [CHR 0x0A] @ ''pub const BUILD_DATE: &str = ''
    @ [CHR 0x22] @ build_date @ [CHR 0x22] @ '';'' @ [CHR 0x0A]"

section \<open>Properties\<close>

lemma bind_result_Inr [simp]: "bind_result r f = Inr y \<longleftrightarrow> (\<exists>x. r = Inr x \<and> f x = Inr y)"
  by (cases r) (simp_all add: bind_result_def)

lemma sock_steps:
  "sock_create os v6 dgram = Inr s \<Longrightarrow> so_v6 s = v6 \<and> so_dgram s = dgram"
  "sock_bind os s addr = Inr t \<Longrightarrow> t = s\<lparr>so_bound := Some addr\<rparr>"
  "sock_listen os n s = Inr t \<Longrightarrow> t = s\<lparr>so_backlog := Some n\<rparr>"
  by (auto simp: sock_create_def sock_bind_def sock_listen_def split: option.splits)

lemma try_opt_keeps [simp]:
  "so_v6 (try_opt os sopt s) = so_v6 s" "so_dgram (try_opt os sopt s) = so_dgram s"
  "so_bound (try_opt os sopt s) = so_bound s" "so_backlog (try_opt os sopt s) = so_backlog s"
  by (simp_all add: try_opt_def split: option.split)

lemma tcp_new_socket_Inr:
  "tcp_new_socket os addr reuse = Inr s \<Longrightarrow> so_v6 s = (\<not> is_v4 addr) \<and> \<not> so_dgram s \<and> so_bound s = Some addr"
  by (auto simp: tcp_new_socket_def Let_def dest!: sock_steps split: sum.splits if_splits)

definition listens_anywhere :: "u16 \<Rightarrow> socket \<Rightarrow> bool" where
  "listens_anywhere port s \<longleftrightarrow> \<not> so_dgram s \<and> so_backlog s = Some 128
    \<and> so_bound s = Some (if so_v6 s then V6 0 port 0 0 else V4 (Ipv4Addr 0 0 0 0) port)"

text \<open>
  A listener for every address is bound to the unspecified address of its family with the port asked
  for, and there is one whenever the system allows it for IPv4.
\<close>

theorem listen_any_anywhere:
  assumes "os_create os False False = None" "\<And>s a. os_bind os s a = None \<or> so_v6 s" "\<And>s. os_listen os s = None \<or> so_v6 s"
  shows "\<exists>s. listen_any os port = Inr s \<and> listens_anywhere port s"
proof -
  let ?v4 = "bind_result (tcp_new_socket os (V4 (Ipv4Addr 0 0 0 0) port) True) (sock_listen os default_backlog)"
  let ?v6 = "bind_result (sock_create os True False) (\<lambda>s.
           let s = try_opt os (OnlyV6 False) (try_opt os ReuseAddr (try_opt os ReusePort s)) in
           bind_result (sock_bind os s (V6 0 port 0 0)) (sock_listen os default_backlog))"
  obtain t where t: "tcp_new_socket os (V4 (Ipv4Addr 0 0 0 0) port) True = Inr t"
    using assms(1) assms(2) [of "try_opt os ReuseAddr (try_opt os ReusePort
        \<lparr>so_v6 = False, so_dgram = False, so_opts = [], so_bound = None, so_backlog = None\<rparr>)"]
    by (auto simp: tcp_new_socket_def sock_create_def sock_bind_def Let_def)
  then have "?v4 = Inr (t\<lparr>so_backlog := Some 128\<rparr>) \<and> listens_anywhere port (t\<lparr>so_backlog := Some 128\<rparr>)"
    using assms(3) [of t] tcp_new_socket_Inr [OF t]
    by (simp add: bind_result_def sock_listen_def default_backlog_def listens_anywhere_def)
  moreover have "listens_anywhere port s" if "?v6 = Inr s" for s
    using that by (auto simp: Let_def listens_anywhere_def default_backlog_def dest!: sock_steps)
  ultimately show ?thesis
    by (cases ?v6) (auto simp: listen_any_def simp del: bind_result_Inr)
qed

definition v4_only_os :: sock_os where
  "v4_only_os = \<lparr>os_create = (\<lambda>v6 _. if v6 then Some ''Address family not supported'' else None),
     os_setopt = (\<lambda>_. None), os_bind = (\<lambda>_ _. None), os_listen = (\<lambda>_. None)\<rparr>"

theorem listen_any_anywhere_witness: "\<exists>s. listen_any v4_only_os 21118 = Inr s \<and> listens_anywhere 21118 s"
  by (rule listen_any_anywhere) (simp_all add: v4_only_os_def)

lemma socks_direct: "get_socks w = None \<longleftrightarrow> get_network_type w = Direct"
  by (auto simp: get_network_type_def get_socks_def or_else_def socks_from_settings_def split: option.splits)

lemma udp_new_direct: "udp_new os addrs = Inr s \<Longrightarrow> \<exists>t. s = DirectSocket t"
  by (cases addrs) (auto simp: udp_new_def udp_new_reuse_def bind_result_def split: list.splits sum.splits)

text \<open>
  As long as the configuration does not change meanwhile, what is sent over a new UDP socket to the
  target it was made for leaves, for that target.
\<close>

theorem udp_target_reached:
  assumes "new_udp_for N w w target = Inr (s, a) \<or> rebind_udp_for N w target = Inr (Some (s, a))"
  shows "udp_send s data (Inr a) = Inr [(data, a)]"
proof -
  have "(\<exists>t. s = DirectSocket t) \<and> (\<exists>x. a = TargetIp x) \<or> (\<exists>p u. s = ProxySocket p u)"
    using assms
  proof
    assume new: "new_udp_for N w w target = Inr (s, a)"
    show ?thesis
    proof (cases "get_socks w")
      case None
      then have "get_network_type w = Direct" by (simp add: socks_direct)
      then show ?thesis using new None
        by (auto simp: new_udp_for_def new_udp_def dest: udp_new_direct)
    next
      case (Some conf)
      then show ?thesis using new
        by (auto simp: new_udp_for_def new_udp_def udp_new_proxy_def Let_def split: option.splits)
    qed
  next
    assume "rebind_udp_for N w target = Inr (Some (s, a))"
    then show ?thesis by (auto simp: rebind_udp_for_def dest: udp_new_direct split: if_splits)
  qed
  then show ?thesis by (auto simp: udp_send_def bind_result_def)
qed

definition demo_net :: net_env where
  "demo_net = \<lparr>ne_probe = (\<lambda>_. Some (V4 (Ipv4Addr 1 2 3 4) 21116)), ne_lookup = (\<lambda>_. Inr []),
     ne_target = (\<lambda>_. Inr (TargetDomain ''host'' 21116)), ne_proxy = (\<lambda>_ _. None), ne_os = v4_only_os\<rparr>"

definition proxy_world :: world where
  "proxy_world = demo_world\<lparr>w_config2 := default_config2\<lparr>c2_socks :=
     Some \<lparr>sk_proxy = ''p:1080'', sk_username = ''me'', sk_password = []\<rparr>\<rparr>\<rparr>"

theorem udp_target_reached_witness:
  "\<exists>s. udp_send s [1, 2] (Inr (TargetDomain ''host'' 21116)) = Inr [([1, 2], TargetDomain ''host'' 21116)]"
proof -
  have "get_socks proxy_world = Some \<lparr>sk_proxy = ''p:1080'', sk_username = ''me'', sk_password = []\<rparr>"
    by (simp add: get_socks_def or_else_def proxy_world_def socks_from_settings_def demo_world_def no_settings_def)
  moreover from this have "get_network_type proxy_world \<noteq> Direct" using socks_direct [of proxy_world] by simp
  ultimately have "new_udp_for demo_net proxy_world proxy_world ''host:21116'' =
      Inr (ProxySocket ''p:1080'' (Some (''me'', [])), TargetDomain ''host'' 21116)"
    by (simp add: new_udp_for_def new_udp_def udp_new_proxy_def demo_net_def bind_result_def trim_def is_ws_def of_char_def)
  then show ?thesis using udp_target_reached [of demo_net proxy_world "''host:21116''"] by blast
qed

text \<open>
  When the proxy is taken out of the configuration while a UDP socket is made for a name, the socket
  is a direct one for a target that is still a name, and what is sent to it is dropped without an error.
\<close>

theorem udp_race_drops:
  assumes "get_network_type w \<noteq> Direct" "get_socks w' = None"
    and "new_udp_for N w w' target = Inr (s, a)" "ne_target N target = Inr (TargetDomain name port)"
  shows "udp_send s data (Inr a) = Inr []"
  using assms
  by (auto simp: new_udp_for_def new_udp_def udp_send_def bind_result_def dest!: udp_new_direct split: sum.splits)

theorem udp_race_drops_witness:
  "\<exists>s a. new_udp_for demo_net proxy_world demo_world ''host:21116'' = Inr (s, a) \<and> udp_send s [1, 2] (Inr a) = Inr []"
proof -
  have none: "get_socks demo_world = None"
    by (simp add: get_socks_def or_else_def socks_from_settings_def demo_world_def default_config2_def no_settings_def)
  have proxy: "get_network_type proxy_world \<noteq> Direct"
    using socks_direct [of proxy_world]
    by (simp add: get_socks_def or_else_def proxy_world_def socks_from_settings_def demo_world_def no_settings_def)
  obtain s where "new_udp_for demo_net proxy_world demo_world ''host:21116'' = Inr (s, TargetDomain ''host'' 21116)"
    using none proxy
    by (auto simp: new_udp_for_def new_udp_def demo_net_def bind_result_def udp_new_def udp_new_reuse_def
        udp_new_socket_def v4_only_os_def sock_create_def sock_bind_def get_any_listen_addr_def try_opt_def)
  then show ?thesis using udp_race_drops [OF proxy none, of demo_net] by (auto simp: demo_net_def)
qed

text \<open>
  A user without a password is told to the proxy of a UDP socket but not to that of a TCP connection,
  whose user is then that of the address of the proxy, if any.
\<close>

theorem empty_password_udp_only:
  assumes "trim (sk_username conf) \<noteq> []" "sk_password conf = []" "get_socks w = Some conf"
    and "into_proxy_scheme L (sk_proxy conf) = Inr sc" "ne_proxy N (sk_proxy conf) (Some (sk_username conf, [])) = None"
  shows "new_udp N w a = Inr (ProxySocket (sk_proxy conf) (Some (sk_username conf, [])))
    \<and> from_conf L conf ms = Inr \<lparr>pr_intercept = sc, pr_ms_timeout = (case ms of None \<Rightarrow> 600 | Some t \<Rightarrow> t)\<rparr>"
  using assms by (simp add: new_udp_def udp_new_proxy_def from_conf_def proxy_new_def split: option.split)

definition plain_libs :: proxy_libs where
  "plain_libs = demo_libs\<lparr>px_parse := (\<lambda>_. Inr \<lparr>ur_text = ''http://p:1080'', ur_scheme = ''http'', ur_has_host = True,
     ur_host_port = ''p:1080'', ur_username = [], ur_password = None\<rparr>)\<rparr>"

theorem empty_password_udp_only_witness:
  "new_udp demo_net proxy_world (V4 (Ipv4Addr 0 0 0 0) 0) = Inr (ProxySocket ''p:1080'' (Some (''me'', [])))
   \<and> from_conf plain_libs \<lparr>sk_proxy = ''p:1080'', sk_username = ''me'', sk_password = []\<rparr> None
     = Inr \<lparr>pr_intercept = Http None ''p:1080'', pr_ms_timeout = 600\<rparr>"
  using empty_password_udp_only [of "\<lparr>sk_proxy = ''p:1080'', sk_username = ''me'', sk_password = []\<rparr>" proxy_world plain_libs
      "Http None ''p:1080''" demo_net "V4 (Ipv4Addr 0 0 0 0) 0" None]
  by (simp add: trim_def is_ws_def of_char_def get_socks_def or_else_def proxy_world_def socks_from_settings_def
      demo_world_def no_settings_def demo_net_def into_proxy_scheme_def into_url_def url_into_url_def plain_libs_def parse_scheme_def)

end
