(* ===== verification/FileTree.thy ===== *)
theory FileTree
  imports FileTransfer "HOL-Library.AList"
begin

text \<open>
  The directories behind a file transfer, the first and the last part of
  \<open>libs/hbb_common/src/fs.rs\<close>: listing a directory, collecting its files and its empty directories,
  removing empty directories, renaming. The file system is a tree; \<open>path.join(name)\<close> names the child
  \<open>name\<close> of the node at \<open>path\<close>.
\<close>

section \<open>The file system\<close>

text \<open>
  A node: a file (regular or, as a pipe or a socket, not) with its length and modification time in
  seconds (\<open>None\<close> where there is none), a symbolic link with whether it leads to a directory, or a
  directory with whether entries can be removed from it and its entries, \<open>None\<close> when it cannot be
  read. An entry has a name, \<open>None\<close> when it is not UTF-8, and a node, \<open>None\<close> when its metadata cannot
  be read.
\<close>

datatype fs_node =
  FsFile (fn_regular: bool) (fn_len: u64) (fn_mtime: "int option")
| FsLink (fn_to_dir: bool) "int option"
| FsDir (fn_writable: bool) "int option" "(string option \<times> fs_node option) list option"

type_synonym fs_entries = "(string option \<times> fs_node option) list"

text \<open>The node at \<open>path.join(name)\<close>.\<close>

definition child_in :: "fs_entries \<Rightarrow> string \<Rightarrow> fs_node option" where
  "child_in es name = (case map_of es (Some name) of Some n \<Rightarrow> n | None \<Rightarrow> None)"

fun child :: "fs_node option \<Rightarrow> string \<Rightarrow> fs_node option" where
  "child (Some (FsDir w m (Some es))) name = child_in es name"
| "child n name = None"

text \<open>\<open>duration_since(UNIX_EPOCH).as_secs()\<close>, zero before the epoch.\<close>

definition modified_secs :: "int option \<Rightarrow> u64" where
  "modified_secs m = (case m of None \<Rightarrow> 0 | Some t \<Rightarrow> if t < 0 then 0 else of_int t)"

section \<open>Listing\<close>

record file_directory =
  fd_path :: string
  fd_entries :: "file_entry list"

definition is_hidden_name :: "string \<Rightarrow> bool" where
  "is_hidden_name name \<longleftrightarrow> starts_with ''.'' name"

text \<open>The type and size of an entry, by \<open>p.is_dir()\<close> (which follows links) and its own metadata.\<close>

definition entry_of :: "string \<Rightarrow> fs_node \<Rightarrow> file_entry" where
  "entry_of name n =
    (case n of
       FsDir w m es \<Rightarrow> \<lparr>fe_name = name, fe_type = FtDir, fe_is_hidden = is_hidden_name name,
         fe_size = 0, fe_modified_time = modified_secs m\<rparr>
     | FsLink to_dir m \<Rightarrow> \<lparr>fe_name = name, fe_type = (if to_dir then FtDirLink else FtFileLink),
         fe_is_hidden = is_hidden_name name, fe_size = 0, fe_modified_time = modified_secs m\<rparr>
     | FsFile r len m \<Rightarrow> \<lparr>fe_name = name, fe_type = FtFile, fe_is_hidden = is_hidden_name name,
         fe_size = len, fe_modified_time = modified_secs m\<rparr>)"

fun list_entries :: "bool \<Rightarrow> fs_entries \<Rightarrow> file_entry list" where
  "list_entries include_hidden [] = []"
| "list_entries include_hidden ((name, node) # es) =
    (case (name, node) of
       (Some nm, Some n) \<Rightarrow>
         if nm = [] \<or> (is_hidden_name nm \<and> \<not> include_hidden) then list_entries include_hidden es
         else entry_of nm n # list_entries include_hidden es
     | _ \<Rightarrow> list_entries include_hidden es)"

text \<open>\<open>read_dir\<close> on Unix: an error when the directory cannot be read.\<close>

definition read_dir :: "fs_node option \<Rightarrow> string \<Rightarrow> bool \<Rightarrow> string + file_directory" where
  "read_dir n path include_hidden =
    (case n of
       Some (FsDir w m (Some es)) \<Rightarrow>
         Inr \<lparr>fd_path = path, fd_entries = list_entries include_hidden es\<rparr>
     | _ \<Rightarrow> Inl ''read_dir'')"

text \<open>The drives that \<open>read_dir\<close> lists for \<open>/\<close> on Windows.\<close>

definition drive_entries :: "u32 \<Rightarrow> file_entry list" where
  "drive_entries drives =
    [\<lparr>fe_name = [char_of (65 + i), CHR '':''], fe_type = FtDirDrive, fe_is_hidden = False,
      fe_size = 0, fe_modified_time = 0\<rparr>. i \<leftarrow> [0..<32], bit drives i]"

section \<open>Collecting\<close>

lemma size_child_in: "child_in es name = Some c \<Longrightarrow> size c < size (FsDir w m (Some es))"
  unfolding child_in_def
  by (induction es) (auto split: if_splits option.splits)

lemma size_child: "child n name = Some c \<Longrightarrow> size c < size (the n)"
  by (cases "(n, name)" rule: child.cases) (use size_child_in in auto)

text \<open>
  \<open>read_dir_recursive\<close>: the argument is the node the path leads to, links followed. A link as the
  node is one that leads nowhere.
\<close>

function read_dir_recursive :: "fs_node option \<Rightarrow> string \<Rightarrow> bool \<Rightarrow> string + file_entry list" where
  "read_dir_recursive n pre include_hidden =
    (case n of
       Some (FsDir w m es) \<Rightarrow>
         (case read_dir n [] include_hidden of
            Inl e \<Rightarrow> Inl e
          | Inr fd \<Rightarrow>
              Inr (concat (map (\<lambda>entry.
                case fe_type entry of
                  FtFile \<Rightarrow> [entry\<lparr>fe_name := path_join pre (fe_name entry)\<rparr>]
                | FtDir \<Rightarrow>
                    (case child n (fe_name entry) of
                       None \<Rightarrow> []
                     | Some c \<Rightarrow>
                         (case read_dir_recursive (Some c) (path_join pre (fe_name entry)) include_hidden of
                            Inl e \<Rightarrow> [] | Inr tmp \<Rightarrow> tmp))
                | _ \<Rightarrow> []) (fd_entries fd))))
     | Some (FsFile True len m) \<Rightarrow>
         Inr [\<lparr>fe_name = [], fe_type = FtFile, fe_is_hidden = False, fe_size = len,
               fe_modified_time = modified_secs m\<rparr>]
     | _ \<Rightarrow> Inl ''Not exists'')"
  by pat_completeness auto
termination
  by (relation "measure (\<lambda>(n, _, _). case n of None \<Rightarrow> 0 | Some c \<Rightarrow> size c)")
    (use size_child in fastforce)+

declare read_dir_recursive.simps [simp del]

definition get_recursive_files :: "fs_node option \<Rightarrow> bool \<Rightarrow> string + file_entry list" where
  "get_recursive_files n include_hidden = read_dir_recursive n [] include_hidden"

text \<open>\<open>read_empty_dirs_recursive\<close>; its argument \<open>prefix\<close> is passed on and never used.\<close>

function read_empty_dirs_recursive ::
  "fs_node option \<Rightarrow> string \<Rightarrow> string \<Rightarrow> bool \<Rightarrow> string + file_directory list" where
  "read_empty_dirs_recursive n path pre include_hidden =
    (case n of
       Some (FsDir w m es) \<Rightarrow>
         (case read_dir n path include_hidden of
            Inl e \<Rightarrow> Inl e
          | Inr fd \<Rightarrow>
              if fd_entries fd = [] then Inr [fd]
              else Inr (concat (map (\<lambda>entry.
                case fe_type entry of
                  FtDir \<Rightarrow>
                    (case child n (fe_name entry) of
                       None \<Rightarrow> []
                     | Some c \<Rightarrow>
                         (case read_empty_dirs_recursive (Some c) (path_join path (fe_name entry))
                                 (path_join pre (fe_name entry)) include_hidden of
                            Inl e \<Rightarrow> [] | Inr tmp \<Rightarrow> tmp))
                | _ \<Rightarrow> []) (fd_entries fd))))
     | Some (FsFile True len m) \<Rightarrow> Inr []
     | _ \<Rightarrow> Inl ''Not exists'')"
  by pat_completeness auto
termination
  by (relation "measure (\<lambda>(n, _, _, _). case n of None \<Rightarrow> 0 | Some c \<Rightarrow> size c)")
    (use size_child in fastforce)+

declare read_empty_dirs_recursive.simps [simp del]

definition get_empty_dirs_recursive ::
  "fs_node option \<Rightarrow> string \<Rightarrow> bool \<Rightarrow> string + file_directory list" where
  "get_empty_dirs_recursive n path include_hidden = read_empty_dirs_recursive n path [] include_hidden"

section \<open>Removing and renaming\<close>

text \<open>
  Removing the entry \<open>name\<close> of a directory, and replacing it by what is left of it; a removal is
  refused by a directory that cannot be written. The time of the changed directory is not followed.
\<close>

definition drop_child :: "string \<Rightarrow> fs_entries \<Rightarrow> fs_entries" where
  "drop_child name es = filter (\<lambda>(nm, _). nm \<noteq> Some name) es"

definition put_child :: "string \<Rightarrow> fs_node option \<Rightarrow> fs_entries \<Rightarrow> fs_entries" where
  "put_child name c es =
    (case c of
       None \<Rightarrow> drop_child name es
     | Some c \<Rightarrow> map (\<lambda>(nm, old). if nm = Some name then (nm, Some c) else (nm, old)) es)"

text \<open>
  \<open>remove_all_empty_dir\<close> of a directory whose parent may be written or not: the result, and what is
  left at the path. Failures below are ignored, as \<open>.ok()\<close> does.
\<close>

function remove_all_empty_dir :: "bool \<Rightarrow> fs_node option \<Rightarrow> (string + unit) \<times> fs_node option" where
  "remove_all_empty_dir parent_writable n =
    (case n of
       Some (FsDir w m (Some es)) \<Rightarrow>
         let es' = fold (\<lambda>entry es'.
               case fe_type entry of
                 FtDir \<Rightarrow>
                   (case child n (fe_name entry) of
                      None \<Rightarrow> es'
                    | Some c \<Rightarrow> put_child (fe_name entry) (snd (remove_all_empty_dir w (Some c))) es')
               | FtDirLink \<Rightarrow> if w then drop_child (fe_name entry) es' else es'
               | FtFileLink \<Rightarrow> if w then drop_child (fe_name entry) es' else es'
               | _ \<Rightarrow> es') (list_entries True es) es
         in (Inr (), if es' = [] \<and> parent_writable then None else Some (FsDir w m (Some es')))
     | _ \<Rightarrow> (Inl ''read_dir'', n))"
  by pat_completeness auto
termination
  by (relation "measure (\<lambda>(_, n). case n of None \<Rightarrow> 0 | Some c \<Rightarrow> size c)")
    (use size_child in fastforce)+

declare remove_all_empty_dir.simps [simp del]

text \<open>
  \<open>rename_file\<close>: the two paths of the call of \<open>rename\<close>. \<open>Path::parent\<close> is the path without its last
  component, and there is none for the root and for the empty path.
\<close>

definition path_parent :: "string \<Rightarrow> string option" where
  "path_parent p =
    (let q = rev (dropWhile (\<lambda>c. c = CHR ''/'') (rev p)) in
     if q = [] then None
     else
       let d = rev (dropWhile (\<lambda>c. c \<noteq> CHR ''/'') (rev q));
           d' = rev (dropWhile (\<lambda>c. c = CHR ''/'') (rev d))
       in Some (if d' = [] \<and> d \<noteq> [] then ''/'' else d'))"

definition rename_file :: "(string \<Rightarrow> bool) \<Rightarrow> string \<Rightarrow> string \<Rightarrow> string + string \<times> string" where
  "rename_file exists path new_name =
    (if exists path then
       (case path_parent path of
          None \<Rightarrow> Inl ''Parent directoy not exists''
        | Some dir \<Rightarrow> Inr (path, path_join dir new_name))
     else Inl ''not exists'')"

definition transform_windows_path :: "file_entry list \<Rightarrow> file_entry list" where
  "transform_windows_path entries =
    map (\<lambda>entry. entry\<lparr>fe_name := map (\<lambda>c. if c = CHR 0x5C then CHR ''/'' else c) (fe_name entry)\<rparr>) entries"

section \<open>What a job tells about itself\<close>

record transfer_job_meta =
  tm_id :: int
  tm_remote :: string
  tm_to :: string
  tm_show_hidden :: bool
  tm_file_num :: int
  tm_is_remote :: bool

definition gen_meta :: "transfer_job \<Rightarrow> transfer_job_meta" where
  "gen_meta j = \<lparr>tm_id = tj_id j, tm_remote = tj_remote j, tm_to = tj_path j,
     tm_show_hidden = tj_show_hidden j, tm_file_num = tj_file_num j, tm_is_remote = tj_is_remote j\<rparr>"

text \<open>
  The values of \<open>serde_json\<close>; an object is the list of its keys and values. \<open>index_mut\<close> by a key
  replaces the value of the key or adds it.
\<close>

datatype json = JNull | JBool bool | JInt int | JStr string | JObj "(string \<times> json) list" | JArr "json list"

definition json_set :: "string \<Rightarrow> json \<Rightarrow> json \<Rightarrow> json" where
  "json_set k v j =
    (case j of
       JObj kvs \<Rightarrow> JObj (AList.update k v kvs)
     | JNull \<Rightarrow> JObj [(k, v)]
     | _ \<Rightarrow> j)"

definition json_get :: "string \<Rightarrow> json \<Rightarrow> json" where
  "json_get k j = (case j of JObj kvs \<Rightarrow> (case map_of kvs k of Some v \<Rightarrow> v | None \<Rightarrow> JNull) | _ \<Rightarrow> JNull)"

text \<open>The derived \<open>Serialize\<close> of a job: camel case, without the files and the open file.\<close>

definition job_value :: "transfer_job \<Rightarrow> json" where
  "job_value j = JObj
    [(''id'', JInt (tj_id j)), (''remote'', JStr (tj_remote j)), (''path'', JStr (tj_path j)),
     (''showHidden'', JBool (tj_show_hidden j)), (''isRemote'', JBool (tj_is_remote j)),
     (''isLastJob'', JBool (tj_is_last_job j)), (''fileNum'', JInt (tj_file_num j)),
     (''connId'', JInt (tj_conn_id j)), (''totalSize'', JInt (uint (tj_total_size j))),
     (''finishedSize'', JInt (uint (tj_finished_size j))), (''transferred'', JInt (uint (tj_transferred j))),
     (''enableOverwriteDetection'', JBool (tj_enable_overwrite_detection j)),
     (''fileConfirmed'', JBool (tj_file_confirmed j)), (''fileSkipped'', JBool (tj_file_skipped j)),
     (''fileIsWaiting'', JBool (tj_file_is_waiting j)),
     (''defaultOverwriteStrategy'', case tj_default_overwrite_strategy j of None \<Rightarrow> JNull | Some b \<Rightarrow> JBool b)]"

text \<open>\<open>to_string\<close> is \<open>serde_json::to_string\<close>.\<close>

definition serialize_transfer_job ::
  "(json \<Rightarrow> string) \<Rightarrow> transfer_job \<Rightarrow> bool \<Rightarrow> bool \<Rightarrow> string \<Rightarrow> string" where
  "serialize_transfer_job to_string j completed cancel err =
    to_string (json_set ''error'' (JStr err) (json_set ''cancel'' (JBool cancel)
      (json_set ''done'' (JBool completed) (job_value j))))"

definition serialize_transfer_jobs :: "(json \<Rightarrow> string) \<Rightarrow> transfer_job list \<Rightarrow> string" where
  "serialize_transfer_jobs to_string jobs = to_string (JArr (map job_value jobs))"

section \<open>Messages\<close>

text \<open>The messages of a transfer, \<open>FileResponse\<close> and \<open>FileAction\<close>, and the functions that build them.\<close>

datatype file_msg =
  ResponseError int string int
| ResponseDir int string "file_entry list"
| ResponseBlock block
| ResponseDone int int
| ActionSendConfirm int int confirm_union
| ActionReceive int string int "file_entry list" u64
| ActionSend int string int bool

definition new_error :: "int \<Rightarrow> string \<Rightarrow> int \<Rightarrow> file_msg" where
  "new_error i err file_num = ResponseError i err file_num"

definition new_dir :: "int \<Rightarrow> string \<Rightarrow> file_entry list \<Rightarrow> file_msg" where
  "new_dir i path files = ResponseDir i path files"

definition new_block :: "block \<Rightarrow> file_msg" where
  "new_block b = ResponseBlock b"

definition new_send_confirm :: "int \<times> int \<times> confirm_union \<Rightarrow> file_msg" where
  "new_send_confirm r = (case r of (i, file_num, u) \<Rightarrow> ActionSendConfirm i file_num u)"

definition new_receive :: "int \<Rightarrow> string \<Rightarrow> int \<Rightarrow> file_entry list \<Rightarrow> u64 \<Rightarrow> file_msg" where
  "new_receive i path file_num files total_size = ActionReceive i path file_num files total_size"

definition new_send :: "int \<Rightarrow> string \<Rightarrow> int \<Rightarrow> bool \<Rightarrow> file_msg" where
  "new_send i path file_num include_hidden = ActionSend i path file_num include_hidden"

definition new_done :: "int \<Rightarrow> int \<Rightarrow> file_msg" where
  "new_done i file_num = ResponseDone i file_num"

end
