(* ===== verification/FileTreeProps.thy ===== *)
theory FileTreeProps
  imports FileTree FileTransferProps
begin

text \<open>
  What the directories of a transfer guarantee: the list of a directory holds each of its files
  once, under its path and with its size; removing the empty directories prunes the tree and keeps
  every file; and a file just received is recognised as identical by the next digest.
\<close>

section \<open>Paths in a tree\<close>

text \<open>The node at a list of names, through readable directories and names that are listed.\<close>

definition listed_name :: "bool \<Rightarrow> string \<Rightarrow> bool" where
  "listed_name h c \<longleftrightarrow> c \<noteq> [] \<and> (h \<or> \<not> is_hidden_name c)"

fun node_at :: "bool \<Rightarrow> string list \<Rightarrow> fs_node \<Rightarrow> fs_node option" where
  "node_at h [] n = Some n"
| "node_at h (c # cs) n =
    (if listed_name h c then
       (case child (Some n) c of None \<Rightarrow> None | Some n' \<Rightarrow> node_at h cs n')
     else None)"

text \<open>What every file system guarantees: names of a directory differ, are not empty and have no slash.\<close>

definition good_name :: "string \<Rightarrow> bool" where
  "good_name nm \<longleftrightarrow> nm \<noteq> [] \<and> CHR ''/'' \<notin> set nm"

fun wf_node :: "fs_node \<Rightarrow> bool" where
  "wf_node (FsDir w m (Some es)) =
    (distinct (filter (\<lambda>nm. nm \<noteq> None) (map fst es)) \<and>
     (\<forall>(nm, c) \<in> set es. (case nm of Some s \<Rightarrow> good_name s | None \<Rightarrow> True) \<and>
        (case c of Some n \<Rightarrow> wf_node n | None \<Rightarrow> True)))"
| "wf_node n = True"

lemma child_in_iff:
  assumes "distinct (filter (\<lambda>nm. nm \<noteq> None) (map fst es))"
  shows "child_in es nm = Some c \<longleftrightarrow> (Some nm, Some c) \<in> set es"
  using assms
proof (induction es)
  case (Cons e es)
  obtain a b where e: "e = (a, b)" by fastforce
  show ?case
  proof (cases "a = Some nm")
    case True
    then have "(Some nm, Some c) \<notin> set es" using Cons.prems by (force simp: e)
    then show ?thesis by (auto simp: True e child_in_def split: option.splits)
  next
    case False
    then have "child_in (e # es) nm = child_in es nm" by (simp add: e child_in_def)
    moreover have "distinct (filter (\<lambda>nm. nm \<noteq> None) (map fst es))"
      using Cons.prems by (auto simp: e split: if_splits)
    ultimately show ?thesis using Cons.IH False by (auto simp: e)
  qed
qed (simp add: child_in_def)

lemma wf_child:
  assumes "wf_node (FsDir w m (Some es))" "child_in es nm = Some c"
  shows "wf_node c" "good_name nm"
  using assms by (auto simp: child_in_iff)

lemma set_list_entries:
  "set (list_entries h es) =
    {entry_of nm c | nm c. (Some nm, Some c) \<in> set es \<and> listed_name h nm}"
  by (induction h es rule: list_entries.induct) (auto simp: listed_name_def split: option.splits)

lemma entry_of_simps [simp]:
  "fe_name (entry_of nm c) = nm"
  "fe_type (entry_of nm (FsFile r len m)) = FtFile"
  "fe_size (entry_of nm (FsFile r len m)) = len"
  "fe_modified_time (entry_of nm (FsFile r len m)) = modified_secs m"
  "fe_type (entry_of nm (FsDir w m es)) = FtDir"
  "fe_type (entry_of nm (FsLink to_dir m)) = (if to_dir then FtDirLink else FtFileLink)"
  by (simp_all add: entry_of_def split: fs_node.splits)

lemma fs_node_induct [case_names leaf link unreadable dir]:
  assumes "\<And>r len m. P (FsFile r len m)" "\<And>d m. P (FsLink d m)" "\<And>w m. P (FsDir w m None)"
    "\<And>w m es. (\<And>nm c. child_in es nm = Some c \<Longrightarrow> P c) \<Longrightarrow> P (FsDir w m (Some es))"
  shows "P n"
proof (induction n rule: measure_induct_rule [of size])
  case (less n)
  show ?case
  proof (cases n)
    case (FsDir w m es')
    then show ?thesis using assms(3,4) less size_child_in by (cases es') blast+
  qed (use assms in simp_all)
qed

section \<open>The list of files\<close>

definition file_key :: "file_entry \<Rightarrow> string \<times> u64 \<times> u64" where
  "file_key e = (fe_name e, fe_size e, fe_modified_time e)"

definition listed :: "string + file_entry list \<Rightarrow> file_entry list" where
  "listed r = (case r of Inl _ \<Rightarrow> [] | Inr fs \<Rightarrow> fs)"

lemma listed_simps [simp]: "listed (Inl e) = []" "listed (Inr fs) = fs"
  by (simp_all add: listed_def)

lemma read_dir_recursive_dir:
  "read_dir_recursive (Some (FsDir w m (Some es))) pre h =
    Inr (concat (map (\<lambda>entry.
      case fe_type entry of
        FtFile \<Rightarrow> [entry\<lparr>fe_name := path_join pre (fe_name entry)\<rparr>]
      | FtDir \<Rightarrow>
          (case child_in es (fe_name entry) of
             None \<Rightarrow> []
           | Some c \<Rightarrow> listed (read_dir_recursive (Some c) (path_join pre (fe_name entry)) h))
      | _ \<Rightarrow> []) (list_entries h es)))"
  by (subst read_dir_recursive.simps)
    (simp add: read_dir_def listed_def cong: file_type.case_cong option.case_cong)

lemma read_dir_recursive_unreadable:
  "listed (read_dir_recursive (Some (FsDir w m None)) pre h) = []"
  by (subst read_dir_recursive.simps) (simp add: read_dir_def)

text \<open>The paths, sizes and times of the files below a node.\<close>

definition files_below :: "bool \<Rightarrow> string \<Rightarrow> fs_node \<Rightarrow> (string \<times> u64 \<times> u64) set" where
  "files_below h pre n = {(foldl path_join pre cs, len, modified_secs m) | cs r len m.
     node_at h cs n = Some (FsFile r len m)}"

lemma files_below_leaf:
  "files_below h pre (FsFile r len m) = {(pre, len, modified_secs m)}"
  "files_below h pre (FsLink d m) = {}"
  "files_below h pre (FsDir w m None) = {}"
proof -
  have "node_at h cs (FsFile r len m) = (if cs = [] then Some (FsFile r len m) else None)"
    "node_at h cs (FsLink d m) = (if cs = [] then Some (FsLink d m) else None)"
    "node_at h cs (FsDir w m None) = (if cs = [] then Some (FsDir w m None) else None)" for cs
    by (cases cs; simp)+
  then show "files_below h pre (FsFile r len m) = {(pre, len, modified_secs m)}"
    "files_below h pre (FsLink d m) = {}" "files_below h pre (FsDir w m None) = {}"
    by (auto simp: files_below_def split: if_splits)
qed

lemma files_below_dir:
  "files_below h pre (FsDir w m (Some es)) =
    (\<Union>nm \<in> {nm. listed_name h nm}. case child_in es nm of None \<Rightarrow> {} | Some c \<Rightarrow> files_below h (path_join pre nm) c)"
    (is "?L = ?R")
proof (rule set_eqI)
  fix k
  have "k \<in> ?L \<longleftrightarrow> (\<exists>cs r len t. k = (foldl path_join pre cs, len, modified_secs t)
      \<and> node_at h cs (FsDir w m (Some es)) = Some (FsFile r len t))"
    by (auto simp: files_below_def)
  also have "\<dots> \<longleftrightarrow> (\<exists>nm cs r len t. k = (foldl path_join pre (nm # cs), len, modified_secs t)
      \<and> node_at h (nm # cs) (FsDir w m (Some es)) = Some (FsFile r len t))"
    by (metis fs_node.distinct(3) list.exhaust node_at.simps(1) option.inject)
  also have "\<dots> \<longleftrightarrow> k \<in> ?R"
    by (auto simp: files_below_def split: option.splits if_splits) fastforce
  finally show "k \<in> ?L \<longleftrightarrow> k \<in> ?R" .
qed

lemma image_concat_map:
  assumes "set L = {g a b | a b. Q a b}"
  shows "f ` set (concat (map p L)) = (\<Union>(a, b) \<in> {(a, b). Q a b}. f ` set (p (g a b)))"
  using assms by auto

definition is_dir_node :: "fs_node \<Rightarrow> bool" where
  "is_dir_node n \<longleftrightarrow> (case n of FsDir _ _ _ \<Rightarrow> True | _ \<Rightarrow> False)"

lemma listed_files:
  "wf_node n \<Longrightarrow> is_dir_node n \<Longrightarrow>
    file_key ` set (listed (read_dir_recursive (Some n) pre h)) = files_below h pre n"
proof (induction n arbitrary: pre rule: fs_node_induct)
  case (dir w m es)
  note wf = dir.prems(1)
  have IH: "file_key ` set (listed (read_dir_recursive (Some (FsDir w' m' es')) pre' h))
      = files_below h pre' (FsDir w' m' es')"
    if "child_in es nm = Some (FsDir w' m' es')" for nm w' m' es' pre'
    using dir.IH [OF that wf_child(1) [OF wf that]] by (simp add: is_dir_node_def)
  let ?part = "\<lambda>entry. case fe_type entry of
        FtFile \<Rightarrow> [entry\<lparr>fe_name := path_join pre (fe_name entry)\<rparr>]
      | FtDir \<Rightarrow>
          (case child_in es (fe_name entry) of
             None \<Rightarrow> []
           | Some c \<Rightarrow> listed (read_dir_recursive (Some c) (path_join pre (fe_name entry)) h))
      | _ \<Rightarrow> []"
  have part: "file_key ` set (?part (entry_of nm c)) = files_below h (path_join pre nm) c"
    if "child_in es nm = Some c" for nm c
    using that IH [of nm] by (cases c) (auto simp: files_below_leaf file_key_def)
  have L: "set (list_entries h es) = {entry_of nm c | nm c. child_in es nm = Some c \<and> listed_name h nm}"
    using wf by (simp add: set_list_entries child_in_iff)
  have "file_key ` set (listed (read_dir_recursive (Some (FsDir w m (Some es))) pre h))
      = (\<Union>(nm, c) \<in> {(nm, c). child_in es nm = Some c \<and> listed_name h nm}.
          file_key ` set (?part (entry_of nm c)))"
    unfolding read_dir_recursive_dir listed_simps by (rule image_concat_map [OF L])
  also have "\<dots> = (\<Union>(nm, c) \<in> {(nm, c). child_in es nm = Some c \<and> listed_name h nm}.
          files_below h (path_join pre nm) c)"
    using part by fastforce
  also have "\<dots> = files_below h pre (FsDir w m (Some es))"
    unfolding files_below_dir by (auto split: option.splits) blast
  finally show ?case .
qed (auto simp: is_dir_node_def read_dir_recursive_unreadable files_below_leaf)

section \<open>Paths are read back\<close>

lemma path_join_good:
  assumes "good_name c" "pre = [] \<or> last pre \<noteq> CHR ''/''"
  shows "path_join pre c = (if pre = [] then c else pre @ ''/'' @ c) \<and> last (path_join pre c) \<noteq> CHR ''/''"
proof -
  have "last c \<noteq> CHR ''/''" "c \<noteq> []" using assms(1) by (metis good_name_def last_in_set)+
  moreover have "\<not> starts_with ''/'' c" using assms(1) by (cases c) (auto simp: good_name_def starts_with_def)
  ultimately show ?thesis using assms(2) by (auto simp: path_join_def)
qed

lemma foldl_path_join:
  assumes "\<forall>c \<in> set cs. good_name c" "pre = [] \<or> last pre \<noteq> CHR ''/''" "cs \<noteq> []"
  shows "foldl path_join pre cs = (if pre = [] then [] else pre @ ''/'') @ join ''/'' cs"
  using assms
proof (induction cs arbitrary: pre)
  case (Cons c cs)
  then have c: "good_name c" by simp
  note j = path_join_good [OF c Cons.prems(2)]
  show ?case
  proof (cases cs)
    case (Cons d ds)
    have "c \<noteq> []" using c by (simp add: good_name_def)
    then have "foldl path_join (path_join pre c) cs = path_join pre c @ ''/'' @ join ''/'' cs"
      using Cons.IH [of "path_join pre c"] Cons.prems j Cons by (auto split: if_splits)
    then show ?thesis using j Cons by (auto split: if_splits)
  qed (use j in auto)
qed simp

lemma split_join:
  "cs \<noteq> [] \<Longrightarrow> \<forall>c \<in> set cs. CHR ''/'' \<notin> set c \<Longrightarrow> split_on (CHR ''/'') (join ''/'' cs) = cs"
proof (induction cs rule: induct_list012)
  case (3 x y ys)
  then show ?case using split_on_append [of "CHR ''/''" x "join ''/'' (y # ys)"] by simp
qed (auto simp: split_on_free)

lemma wf_node_at:
  "wf_node n \<Longrightarrow> node_at h cs n = Some c \<Longrightarrow> wf_node c \<and> (\<forall>x \<in> set cs. good_name x)"
proof (induction cs arbitrary: n)
  case (Cons x cs)
  obtain n' where n': "child (Some n) x = Some n'" "node_at h cs n' = Some c"
    using Cons.prems(2) by (auto split: if_splits option.splits)
  then obtain w m es where n: "n = FsDir w m (Some es)"
    by (cases n; force simp: child.simps elim: child.elims)
  then show ?case using Cons.IH [of n'] wf_child [of w m es x n'] Cons.prems(1) n' by auto
qed simp

lemma files_below_paths:
  assumes "wf_node n" "is_dir_node n"
  shows "files_below h [] n = {(join ''/'' cs, len, modified_secs m) | cs r len m.
      node_at h cs n = Some (FsFile r len m)}"
proof -
  have "foldl path_join [] cs = join ''/'' cs" if "node_at h cs n = Some (FsFile r len m)" for cs r len m
  proof (cases "cs = []")
    case True
    then show ?thesis using that assms(2) by (simp add: is_dir_node_def)
  next
    case False
    then show ?thesis using foldl_path_join [of cs "[]"] wf_node_at [OF assms(1) that] by simp
  qed
  then show ?thesis unfolding files_below_def by (metis (no_types, lifting))
qed

text \<open>The names of different entries stay different.\<close>

lemma distinct_concat_map:
  assumes "distinct (map g xs)" "\<And>x. x \<in> set xs \<Longrightarrow> distinct (map f (p x))"
    "\<And>x y. x \<in> set xs \<Longrightarrow> y \<in> set (p x) \<Longrightarrow> k (f y) = g x"
  shows "distinct (map f (concat (map p xs)))"
  using assms
proof (induction xs)
  case (Cons x xs)
  have "f y \<noteq> f z" if "y \<in> set (p x)" "x' \<in> set xs" "z \<in> set (p x')" for x' y z
  proof
    assume "f y = f z"
    then have "g x = g x'" using Cons.prems(3) that by (metis list.set_intros)
    then show False using Cons.prems(1) that(2) by auto
  qed
  then have "set (map f (p x)) \<inter> set (map f (concat (map p xs))) = {}" by auto
  then show ?case using Cons by auto
qed simp

lemma distinct_list_entries:
  "distinct (filter (\<lambda>nm. nm \<noteq> None) (map fst es)) \<Longrightarrow> distinct (map fe_name (list_entries h es))"
proof (induction h es rule: list_entries.induct)
  case (2 h name node es)
  have "fe_name ` set (list_entries h es) \<subseteq> {nm. Some nm \<in> fst ` set es}"
    by (force simp: set_list_entries)
  then show ?case using 2 by (auto split: option.splits if_splits)
qed simp

definition first_name :: "string \<Rightarrow> string \<Rightarrow> string" where
  "first_name pre s = hd (split_on (CHR ''/'') (if pre = [] then s else drop (Suc (length pre)) s))"

lemma first_name_below:
  assumes "good_name nm" "pre = [] \<or> last pre \<noteq> CHR ''/''" "\<forall>c \<in> set cs. good_name c"
  shows "first_name pre (foldl path_join (path_join pre nm) cs) = nm"
proof -
  have "foldl path_join pre (nm # cs) = (if pre = [] then [] else pre @ ''/'') @ join ''/'' (nm # cs)"
    by (rule foldl_path_join) (use assms in auto)
  moreover have "split_on (CHR ''/'') (join ''/'' (nm # cs)) = nm # cs"
    by (rule split_join) (use assms in \<open>auto simp: good_name_def\<close>)
  ultimately show ?thesis by (auto simp: first_name_def)
qed

lemma listed_distinct:
  "wf_node n \<Longrightarrow> is_dir_node n \<Longrightarrow> pre = [] \<or> last pre \<noteq> CHR ''/'' \<Longrightarrow>
    distinct (map fe_name (listed (read_dir_recursive (Some n) pre h)))"
proof (induction n arbitrary: pre rule: fs_node_induct)
  case (dir w m es)
  note wf = dir.prems(1)
  let ?part = "\<lambda>entry. case fe_type entry of
        FtFile \<Rightarrow> [entry\<lparr>fe_name := path_join pre (fe_name entry)\<rparr>]
      | FtDir \<Rightarrow>
          (case child_in es (fe_name entry) of
             None \<Rightarrow> []
           | Some c \<Rightarrow> listed (read_dir_recursive (Some c) (path_join pre (fe_name entry)) h))
      | _ \<Rightarrow> []"
  have part: "distinct (map fe_name (?part e)) \<and> (\<forall>y \<in> set (?part e). first_name pre (fe_name y) = fe_name e)"
    if ee: "e \<in> set (list_entries h es)" for e
  proof -
    obtain nm c where e: "e = entry_of nm c" and c: "child_in es nm = Some c"
      using ee wf by (auto simp: set_list_entries child_in_iff)
    note good = wf_child [OF wf c]
    note pj = path_join_good [OF good(2) dir.prems(3)]
    show ?thesis
    proof (cases c)
      case (FsFile r len t)
      then show ?thesis using first_name_below [OF good(2) dir.prems(3), of "[]"] by (simp add: e)
    next
      case (FsDir w' m' es')
      have d: "is_dir_node c" by (simp add: FsDir is_dir_node_def)
      have "first_name pre (fe_name y) = nm"
        if y: "y \<in> set (listed (read_dir_recursive (Some c) (path_join pre nm) h))" for y
      proof -
        have "file_key y \<in> files_below h (path_join pre nm) c"
          using listed_files [OF good(1) d] y by blast
        then obtain cs r len t where "fe_name y = foldl path_join (path_join pre nm) cs"
          "node_at h cs c = Some (FsFile r len t)"
          by (auto simp: files_below_def file_key_def)
        then show ?thesis
          using first_name_below [OF good(2) dir.prems(3)] wf_node_at [OF good(1)] by metis
      qed
      moreover have "distinct (map fe_name (listed (read_dir_recursive (Some c) (path_join pre nm) h)))"
        using dir.IH [OF c good(1) d] pj by blast
      moreover have "?part e = listed (read_dir_recursive (Some c) (path_join pre nm) h)"
        using c by (simp add: e FsDir)
      ultimately show ?thesis by (simp add: e)
    qed (simp add: e)
  qed
  have "distinct (map fe_name (list_entries h es))"
    using wf by (intro distinct_list_entries) simp
  then show ?case unfolding read_dir_recursive_dir listed_simps
    by (rule distinct_concat_map [where k = "first_name pre"]) (use part in blast)+
qed (auto simp: is_dir_node_def read_dir_recursive_unreadable)

section \<open>Removing the empty directories\<close>

text \<open>
  The tree without its links and without the directories that hold nothing else; what cannot be
  named, read or removed stays.
\<close>

fun prune :: "bool \<Rightarrow> fs_node \<Rightarrow> fs_node option" where
  "prune pw (FsFile r len m) = Some (FsFile r len m)"
| "prune pw (FsLink d m) = (if pw then None else Some (FsLink d m))"
| "prune pw (FsDir w m None) = Some (FsDir w m None)"
| "prune pw (FsDir w m (Some es)) =
    (let es' = concat (map (\<lambda>(nm, c). case (nm, c) of
           (Some s, Some n) \<Rightarrow> (case prune w n of None \<Rightarrow> [] | Some n' \<Rightarrow> [(nm, Some n')])
         | _ \<Rightarrow> [(nm, c)]) es)
     in if es' = [] \<and> pw then None else Some (FsDir w m (Some es')))"

definition prune_entry :: "bool \<Rightarrow> string option \<times> fs_node option \<Rightarrow> fs_entries" where
  "prune_entry w e = (case e of
      (Some s, Some n) \<Rightarrow> (case prune w n of None \<Rightarrow> [] | Some n' \<Rightarrow> [(Some s, Some n')])
    | _ \<Rightarrow> [e])"

lemma prune_dir:
  "prune pw (FsDir w m (Some es)) =
    (let es' = concat (map (prune_entry w) es) in if es' = [] \<and> pw then None else Some (FsDir w m (Some es')))"
proof -
  have "(\<lambda>(nm, c). case (nm, c) of
           (Some s, Some n) \<Rightarrow> (case prune w n of None \<Rightarrow> [] | Some n' \<Rightarrow> [(nm, Some n')])
         | _ \<Rightarrow> [(nm, c)]) = prune_entry w"
    by (auto simp: prune_entry_def fun_eq_iff split: option.splits)
  then show ?thesis by simp
qed

declare prune.simps(4) [simp del]

text \<open>One step of the loop of \<open>remove_all_empty_dir\<close>, with what the recursion leaves of a directory.\<close>

definition removal_step ::
  "(string \<Rightarrow> fs_node option) \<Rightarrow> bool \<Rightarrow> (fs_node \<Rightarrow> fs_node option) \<Rightarrow> file_entry \<Rightarrow> fs_entries \<Rightarrow> fs_entries" where
  "removal_step ch w rec entry es' =
    (case fe_type entry of
       FtDir \<Rightarrow> (case ch (fe_name entry) of None \<Rightarrow> es' | Some c \<Rightarrow> put_child (fe_name entry) (rec c) es')
     | FtDirLink \<Rightarrow> if w then drop_child (fe_name entry) es' else es'
     | FtFileLink \<Rightarrow> if w then drop_child (fe_name entry) es' else es'
     | _ \<Rightarrow> es')"

lemma removal_step_append:
  "removal_step ch w rec e (xs @ ys) = removal_step ch w rec e xs @ removal_step ch w rec e ys"
  by (simp add: removal_step_def put_child_def drop_child_def split: file_type.split option.split)

lemma removal_step_other:
  "Some (fe_name e) \<notin> fst ` set xs \<Longrightarrow> removal_step ch w rec e xs = xs"
  by (force simp: removal_step_def put_child_def drop_child_def filter_id_conv
      intro!: map_idI split: file_type.split option.split)

lemma fold_removal_other:
  "(\<And>e. e \<in> set L \<Longrightarrow> Some (fe_name e) \<notin> fst ` set xs) \<Longrightarrow>
    fold (removal_step ch w rec) L (xs @ ys) = xs @ fold (removal_step ch w rec) L ys"
  by (induction L arbitrary: ys) (simp_all add: removal_step_append removal_step_other)

lemma remove_all_empty_dir_dir:
  "remove_all_empty_dir pw (Some (FsDir w m (Some es))) =
    (let es' = fold (removal_step (child_in es) w (\<lambda>c. snd (remove_all_empty_dir w (Some c)))) (list_entries True es) es
     in (Inr (), if es' = [] \<and> pw then None else Some (FsDir w m (Some es'))))"
  by (subst remove_all_empty_dir.simps)
    (simp add: removal_step_def [abs_def] cong: file_type.case_cong option.case_cong)

lemma fold_removal:
  assumes "distinct (filter (\<lambda>nm. nm \<noteq> None) (map fst es))"
    "\<And>nm c. (Some nm, Some c) \<in> set es \<Longrightarrow> ch nm = Some c \<and> good_name nm"
    "\<And>nm w' m' es'. (Some nm, Some (FsDir w' m' es')) \<in> set es \<Longrightarrow>
      rec (FsDir w' m' es') = prune w (FsDir w' m' es')"
  shows "fold (removal_step ch w rec) (list_entries True es) es = concat (map (prune_entry w) es)"
  using assms
proof (induction es)
  case (Cons e es)
  obtain nm c where e: "e = (nm, c)" by fastforce
  have dist: "distinct (filter (\<lambda>nm. nm \<noteq> None) (map fst es))"
    using Cons.prems(1) by (auto simp: e split: if_splits)
  have IH: "fold (removal_step ch w rec) (list_entries True es) es = concat (map (prune_entry w) es)"
  proof (rule Cons.IH [OF dist])
    show "ch s = Some d \<and> good_name s" if "(Some s, Some d) \<in> set es" for s d
      using Cons.prems(2) [of s d] that by simp
    show "rec (FsDir w' m' es') = prune w (FsDir w' m' es')"
      if "(Some s, Some (FsDir w' m' es')) \<in> set es" for s w' m' es'
      using that by (intro Cons.prems(3) [of s]) simp
  qed
  have other: "Some (fe_name x) \<noteq> nm" if "x \<in> set (list_entries True es)" for x
    using that Cons.prems(1) by (force simp: e set_list_entries)
  have rest: "fold (removal_step ch w rec) (list_entries True es) (xs @ es) = xs @ concat (map (prune_entry w) es)"
    if "fst ` set xs \<subseteq> {nm}" for xs
    using other that by (subst fold_removal_other) (auto simp: IH)
  show ?case
  proof (cases "\<exists>s n. nm = Some s \<and> c = Some n")
    case True
    then obtain s n where sn: "nm = Some s" "c = Some n" by blast
    then have ch: "ch s = Some n" and good: "good_name s" using Cons.prems(2) by (auto simp: e)
    have "Some s \<notin> fst ` set es" using Cons.prems(1) by (force simp: e sn)
    then have "removal_step ch w rec (entry_of s n) (e # es) = removal_step ch w rec (entry_of s n) [e] @ es"
      using removal_step_append [of ch w rec "entry_of s n" "[e]" es]
      by (simp add: removal_step_other)
    moreover have "rec (FsDir a b d) = prune w (FsDir a b d)" if "n = FsDir a b d" for a b d
      using Cons.prems(3) [of s a b d] that by (simp add: e sn)
    then have "removal_step ch w rec (entry_of s n) [e] = prune_entry w e"
      using ch by (cases n)
        (auto simp: removal_step_def prune_entry_def put_child_def drop_child_def e sn split: option.split)
    moreover have "fst ` set (prune_entry w e) \<subseteq> {nm}"
      by (auto simp: prune_entry_def e sn split: option.splits)
    ultimately show ?thesis using rest good by (simp add: e sn good_name_def)
  next
    case False
    then have "list_entries True (e # es) = list_entries True es" "prune_entry w e = [e]"
      by (auto simp: e prune_entry_def split: option.splits)
    then show ?thesis using rest [of "[e]"] by (simp add: e)
  qed
qed simp

lemma remove_prunes:
  "wf_node n \<Longrightarrow> is_dir_node n \<Longrightarrow> snd (remove_all_empty_dir pw (Some n)) = prune pw n"
proof (induction n arbitrary: pw rule: fs_node_induct)
  case (dir w m es)
  note wf = dir.prems(1)
  have "fold (removal_step (child_in es) w (\<lambda>c. snd (remove_all_empty_dir w (Some c)))) (list_entries True es) es
      = concat (map (prune_entry w) es)"
  proof (rule fold_removal)
    show "distinct (filter (\<lambda>nm. nm \<noteq> None) (map fst es))" using wf by simp
    fix nm c assume c: "(Some nm, Some c) \<in> set es"
    then have *: "child_in es nm = Some c" using wf by (simp add: child_in_iff)
    then show "child_in es nm = Some c \<and> good_name nm" using wf_child [OF wf *] by simp
  next
    fix nm w' m' es' assume "(Some nm, Some (FsDir w' m' es')) \<in> set es"
    then have *: "child_in es nm = Some (FsDir w' m' es')" using wf by (simp add: child_in_iff)
    show "snd (remove_all_empty_dir w (Some (FsDir w' m' es'))) = prune w (FsDir w' m' es')"
      by (rule dir.IH [OF * wf_child(1) [OF wf *]]) (simp add: is_dir_node_def)
  qed
  then show ?case by (simp add: remove_all_empty_dir_dir prune_dir Let_def)
qed (auto simp: is_dir_node_def remove_all_empty_dir.simps)

text \<open>The files of a directory are the same before and after.\<close>

lemma prune_is_dir: "is_dir_node n \<Longrightarrow> prune pw n = Some n' \<Longrightarrow> is_dir_node n'"
  by (cases "(pw, n)" rule: prune.cases)
    (auto simp: is_dir_node_def prune_dir Let_def split: if_splits)

definition entry_files :: "bool \<Rightarrow> string \<Rightarrow> string option \<times> fs_node option \<Rightarrow> file_entry list" where
  "entry_files h pre e =
    (case e of
       (Some nm, Some c) \<Rightarrow>
         if nm = [] \<or> (is_hidden_name nm \<and> \<not> h) then []
         else (case c of
             FsFile r len m \<Rightarrow> [entry_of (path_join pre nm) c\<lparr>fe_is_hidden := is_hidden_name nm\<rparr>]
           | FsLink d m \<Rightarrow> []
           | FsDir _ _ _ \<Rightarrow> listed (read_dir_recursive (Some c) (path_join pre nm) h))
     | _ \<Rightarrow> [])"

lemma listed_entry_files:
  assumes "distinct (filter (\<lambda>nm. nm \<noteq> None) (map fst es))"
  shows "listed (read_dir_recursive (Some (FsDir w m (Some es))) pre h) = concat (map (entry_files h pre) es)"
proof -
  let ?part = "\<lambda>ch entry. case fe_type entry of
        FtFile \<Rightarrow> [entry\<lparr>fe_name := path_join pre (fe_name entry)\<rparr>]
      | FtDir \<Rightarrow>
          (case ch (fe_name entry) of
             None \<Rightarrow> []
           | Some c \<Rightarrow> listed (read_dir_recursive (Some c) (path_join pre (fe_name entry)) h))
      | _ \<Rightarrow> []"
  have "concat (map (?part ch) (list_entries h es)) = concat (map (entry_files h pre) es)"
    if "\<And>nm c. (Some nm, Some c) \<in> set es \<Longrightarrow> ch nm = Some c" for ch
    using that
  proof (induction es)
    case (Cons e es)
    obtain nm c where e: "e = (nm, c)" by fastforce
    have IH: "concat (map (?part ch) (list_entries h es)) = concat (map (entry_files h pre) es)"
      by (rule Cons.IH) (use Cons.prems in simp)
    have "concat (map (?part ch) (list_entries h [e])) = entry_files h pre e"
    proof (cases "\<exists>s n. nm = Some s \<and> c = Some n")
      case True
      then obtain s n where sn: "nm = Some s" "c = Some n" by blast
      then have "ch s = Some n" using Cons.prems [of s n] by (simp add: e)
      then show ?thesis by (cases n) (auto simp: e sn entry_files_def entry_of_def)
    next
      case False
      then have "list_entries h [e] = []" "entry_files h pre e = []"
        by (cases nm; cases c; auto simp: e entry_files_def)+
      then show ?thesis by simp
    qed
    moreover have "list_entries h (e # es) = list_entries h [e] @ list_entries h es"
      by (cases nm; cases c) (simp_all add: e)
    ultimately show ?case using IH by simp
  qed simp
  then show ?thesis unfolding read_dir_recursive_dir listed_simps
    using child_in_iff [OF assms] by blast
qed

lemma prune_entry_names: "map fst (prune_entry w e) = [] \<or> map fst (prune_entry w e) = [fst e]"
  by (auto simp: prune_entry_def split: option.splits prod.splits)

lemma prune_entry_fst: "x \<in> set (prune_entry w e) \<Longrightarrow> fst x = fst e"
  by (cases e; cases "fst e"; cases "snd e") (auto simp: prune_entry_def split: option.splits)

lemma prune_entry_other: "\<nexists>s d. e = (Some s, Some d) \<Longrightarrow> prune_entry w e = [e]"
  by (cases e; cases "fst e"; cases "snd e") (auto simp: prune_entry_def)

lemma pruned_names: "set (map fst (concat (map (prune_entry w) es))) \<subseteq> set (map fst es)"
  by (force dest: prune_entry_fst)

lemma distinct_pruned_names:
  "distinct (filter (\<lambda>nm. nm \<noteq> None) (map fst es)) \<Longrightarrow>
    distinct (filter (\<lambda>nm. nm \<noteq> None) (map fst (concat (map (prune_entry w) es))))"
proof (induction es)
  case (Cons e es)
  then have IH: "distinct (filter (\<lambda>nm. nm \<noteq> None) (map fst (concat (map (prune_entry w) es))))"
    by (simp split: if_splits)
  have split: "map fst (concat (map (prune_entry w) (e # es))) =
      map fst (prune_entry w e) @ map fst (concat (map (prune_entry w) es))" by simp
  show ?case
  proof (cases "map fst (prune_entry w e) = []")
    case False
    then have one: "map fst (prune_entry w e) = [fst e]" using prune_entry_names by metis
    have "fst e \<notin> set (map fst (concat (map (prune_entry w) es)))" if "fst e \<noteq> None"
      using Cons.prems that pruned_names [of w es] by auto
    then show ?thesis unfolding split one using IH by simp
  qed (use IH split in simp)
qed simp

lemma prune_wf: "wf_node n \<Longrightarrow> prune pw n = Some n' \<Longrightarrow> wf_node n'"
proof (induction n arbitrary: pw n' rule: fs_node_induct)
  case (dir w m es)
  note wf = dir.prems(1)
  have n': "n' = FsDir w m (Some (concat (map (prune_entry w) es)))"
    using dir.prems(2) by (auto simp: prune_dir Let_def split: if_splits)
  have "(case nm of Some s \<Rightarrow> good_name s | None \<Rightarrow> True) \<and> (case c of Some d \<Rightarrow> wf_node d | None \<Rightarrow> True)"
    if "e \<in> set es" "(nm, c) \<in> set (prune_entry w e)" for e nm c
  proof (cases "\<exists>s d. e = (Some s, Some d)")
    case True
    then obtain s d where e: "e = (Some s, Some d)" by blast
    then have *: "child_in es s = Some d" using that wf by (simp add: child_in_iff)
    show ?thesis
      using that(2) dir.IH [OF * wf_child(1) [OF wf *], of w] wf_child(2) [OF wf *]
      by (auto simp: e prune_entry_def split: option.splits)
  next
    case False
    then have "(nm, c) = e" using that(2) prune_entry_other by simp
    then show ?thesis using that(1) wf False by (auto split: option.splits)
  qed
  then show ?case using distinct_pruned_names wf by (fastforce simp: n')
qed (auto split: if_splits)

lemma prune_files:
  "wf_node n \<Longrightarrow> is_dir_node n \<Longrightarrow>
    listed (read_dir_recursive (prune pw n) pre h) = listed (read_dir_recursive (Some n) pre h)"
proof (induction n arbitrary: pw pre rule: fs_node_induct)
  case (dir w m es)
  note wf = dir.prems(1)
  let ?es = "concat (map (prune_entry w) es)"
  have one: "concat (map (entry_files h pre) (prune_entry w e)) = entry_files h pre e" if "e \<in> set es" for e
  proof (cases "\<exists>s d. e = (Some s, Some d)")
    case True
    then obtain s d where e: "e = (Some s, Some d)" by blast
    then have *: "child_in es s = Some d" using that wf by (simp add: child_in_iff)
    show ?thesis
    proof (cases d)
      case (FsDir a b c)
      have dd: "is_dir_node d" by (simp add: FsDir is_dir_node_def)
      have IH: "listed (read_dir_recursive (prune w d) (path_join pre s) h)
          = listed (read_dir_recursive (Some d) (path_join pre s) h)"
        by (rule dir.IH [OF * wf_child(1) [OF wf *] dd])
      show ?thesis
      proof (cases "prune w d")
        case None
        then show ?thesis using IH
          by (simp add: e prune_entry_def entry_files_def FsDir read_dir_recursive.simps [of None])
      next
        case (Some d')
        then have "is_dir_node d'" using prune_is_dir dd by blast
        then obtain a' b' c' where "d' = FsDir a' b' c'"
          by (cases d') (auto simp: is_dir_node_def)
        then show ?thesis using IH Some
          by (simp add: e prune_entry_def entry_files_def FsDir)
      qed
    qed (auto simp: e prune_entry_def entry_files_def)
  next
    case False
    then have "prune_entry w e = [e]" by (rule prune_entry_other)
    then show ?thesis by simp
  qed
  have "concat (map (entry_files h pre) ?es) = concat (map (\<lambda>e. concat (map (entry_files h pre) (prune_entry w e))) es)"
    by (induction es) simp_all
  also have "\<dots> = concat (map (entry_files h pre) es)"
    using one by (metis (no_types, lifting) map_eq_conv)
  finally have same: "concat (map (entry_files h pre) ?es) = concat (map (entry_files h pre) es)" .
  have *: "listed (read_dir_recursive (Some (FsDir w m (Some ?es))) pre h) = concat (map (entry_files h pre) ?es)"
    "listed (read_dir_recursive (Some (FsDir w m (Some es))) pre h) = concat (map (entry_files h pre) es)"
    using wf distinct_pruned_names [of es w] by (intro listed_entry_files; simp)+
  have none: "listed (read_dir_recursive None pre h) = []"
    by (simp add: read_dir_recursive.simps [of None])
  show ?case
  proof (cases "?es = [] \<and> pw")
    case True
    then have "concat (map (entry_files h pre) es) = []" using same by (metis concat.simps(1) list.simps(8))
    then show ?thesis using True * none by (simp add: prune_dir Let_def del: concat_eq_Nil_conv)
  next
    case False
    then have "prune pw (FsDir w m (Some es)) = Some (FsDir w m (Some ?es))"
      unfolding prune_dir Let_def by (rule if_not_P)
    then show ?thesis using same * by metis
  qed
qed (auto simp: is_dir_node_def)

section \<open>A directory over the wire\<close>

lemma path_join_relative:
  "n \<noteq> [] \<Longrightarrow> hd n \<noteq> CHR ''/'' \<Longrightarrow>
    path_join p n = (if p = [] \<or> last p = CHR ''/'' then p else p @ ''/'') @ n"
  by (cases n) (auto simp: path_join_def starts_with_def)

lemma join_relative:
  "cs \<noteq> [] \<Longrightarrow> \<forall>c \<in> set cs. good_name c \<Longrightarrow> join ''/'' cs \<noteq> [] \<and> hd (join ''/'' cs) \<noteq> CHR ''/''"
  by (cases cs; cases "tl cs") (auto simp: good_name_def neq_Nil_conv)

lemma file_paths_relative:
  assumes "wf_node n" "is_dir_node n" "node_at h cs n = Some (FsFile r len m)"
  shows "join ''/'' cs \<noteq> [] \<and> hd (join ''/'' cs) \<noteq> CHR ''/''"
proof -
  have "cs \<noteq> []" using assms(2,3) by (auto simp: is_dir_node_def)
  then show ?thesis using join_relative wf_node_at [OF assms(1,3)] by blast
qed

lemma listed_nth:
  assumes "wf_node n" "is_dir_node n" "k < length fs" "fs = listed (read_dir_recursive (Some n) [] h)"
  obtains cs r len m where "node_at h cs n = Some (FsFile r len m)" "fe_name (fs ! k) = join ''/'' cs"
    "fe_modified_time (fs ! k) = modified_secs m"
proof -
  have "fs ! k \<in> set fs" using assms(3) by simp
  then have "file_key (fs ! k) \<in> files_below h [] n"
    using listed_files [OF assms(1,2), of "[]" h] assms(4) by blast
  then show ?thesis
    using that unfolding files_below_paths [OF assms(1,2)] file_key_def by auto
qed

lemma listed_member:
  assumes "wf_node n" "is_dir_node n" "fs = listed (read_dir_recursive (Some n) [] h)"
    and "node_at h cs n = Some (FsFile r len m)"
  obtains k where "k < length fs" "fe_name (fs ! k) = join ''/'' cs"
    "fe_modified_time (fs ! k) = modified_secs m"
proof -
  have "(join ''/'' cs, len, modified_secs m) \<in> file_key ` set fs"
    unfolding assms(3) listed_files [OF assms(1,2)] files_below_paths [OF assms(1,2)] using assms(4) by blast
  then show ?thesis using that by (auto simp: file_key_def in_set_conv_nth)
qed

lemma listed_separate:
  assumes wf: "wf_node n" "is_dir_node n" and fs: "tj_files j = listed (read_dir_recursive (Some n) [] h)"
    and dl: "\<And>cs r len m. node_at h cs n = Some (FsFile r len m) \<Longrightarrow> \<not> suffix ''.download'' (join ''/'' cs)"
  shows "separate_targets j"
  unfolding separate_targets_def
proof (intro allI impI conjI)
  fix a b assume ab: "a < length (tj_files j)" "b < length (tj_files j)"
  define p where "p = (if tj_path j = [] \<or> last (tj_path j) = CHR ''/'' then tj_path j else tj_path j @ ''/'')"
  have "\<exists>cs r len m. node_at h cs n = Some (FsFile r len m) \<and> fe_name (tj_files j ! k) = join ''/'' cs
      \<and> tj_join j (fe_name (tj_files j ! k)) = p @ fe_name (tj_files j ! k)"
    if k: "k < length (tj_files j)" for k
  proof -
    obtain cs r len m where *: "node_at h cs n = Some (FsFile r len m)" "fe_name (tj_files j ! k) = join ''/'' cs"
      by (rule listed_nth [OF wf k fs])
    have "tj_join j (join ''/'' cs) = p @ join ''/'' cs"
      using file_paths_relative [OF wf *(1)] by (simp add: tj_join_def path_join_relative p_def)
    then have "tj_join j (fe_name (tj_files j ! k)) = p @ fe_name (tj_files j ! k)" by (simp only: *(2))
    with * show ?thesis by blast
  qed
  note name = this [OF ab(1)] this [OF ab(2)]
  have "distinct (map fe_name (tj_files j))"
    unfolding fs by (rule listed_distinct [OF wf]) simp
  then show "tj_join j (fe_name (tj_files j ! a)) \<noteq> tj_join j (fe_name (tj_files j ! b))" if "a \<noteq> b"
    using name ab that by (metis same_append_eq nth_eq_iff_index_eq length_map nth_map)
  show "tj_join j (fe_name (tj_files j ! a)) \<noteq> download_name (tj_join j (fe_name (tj_files j ! b)))"
    using name dl by (auto simp: download_name_def suffix_def)
qed

lemma directory_run:
  assumes wf: "wf_node n" "is_dir_node n"
    and jr: "new_read (\<lambda>p. get_recursive_files (Some n)) i remote path 0 h True False = Inr jr"
    and jw: "jw = new_write i remote' dest 0 h' False (tj_files jr) False"
    and src: "\<forall>cs r len m. node_at h cs n = Some (FsFile r len m) \<longrightarrow>
      (\<exists>f. src (path_join path (join ''/'' cs)) = Some f \<and> None \<notin> set (rf_calls f) \<and> rf_rest f = content (join ''/'' cs))
      \<and> \<not> suffix ''.download'' (join ''/'' cs)"
    and disk: "\<forall>p. dk_create_ok d p" "dk_write_ok d" "dk_sync_ok d" "zstd_ok Z"
  shows "\<exists>fuel blocks jr' jw' d'. read_all fuel Z src jr st = (blocks, jr', True) \<and>
    write_blocks Z blocks jw d = (Inr (), jw', d') \<and>
    (\<forall>cs r len m. node_at h cs n = Some (FsFile r len m) \<longrightarrow>
       dk_files (modify_time jw' d') (path_join dest (join ''/'' cs)) = Some (content (join ''/'' cs), modified_secs m))"
proof -
  obtain fs where ok: "get_recursive_files (Some n) h = Inr fs"
    and jr': "jr = new_write i remote path 0 h True fs False"
    using jr by (auto simp: new_read_def split: sum.splits)
  then have fs: "fs = listed (read_dir_recursive (Some n) [] h)" by (simp add: get_recursive_files_def)
  have files: "tj_files jr = fs" "tj_path jr = path" "tj_path jw = dest" "tj_files jw = fs"
    by (simp_all add: jr' jw new_write_def)
  have name: "\<exists>cs r len m. node_at h cs n = Some (FsFile r len m) \<and> fe_name (fs ! k) = join ''/'' cs
      \<and> tj_join j (fe_name (fs ! k)) = path_join (tj_path j) (join ''/'' cs)" if k: "k < length fs" for k j
  proof -
    obtain cs r len m where *: "node_at h cs n = Some (FsFile r len m)" "fe_name (fs ! k) = join ''/'' cs"
      by (rule listed_nth [OF wf k fs])
    then have "tj_join j (fe_name (fs ! k)) = path_join (tj_path j) (join ''/'' cs)"
      using file_paths_relative [OF wf *(1)] by (simp add: tj_join_def)
    with * show ?thesis by blast
  qed
  have "\<exists>fuel blocks jr' jw' d'. read_all fuel Z src jr st = (blocks, jr', True) \<and>
    write_blocks Z blocks jw d = (Inr (), jw', d') \<and>
    (\<forall>k < length (tj_files jr). dk_files (modify_time jw' d') (tj_join jw (fe_name (tj_files jr ! k)))
       = Some (map (\<lambda>e. content (fe_name e)) fs ! k, fe_modified_time (tj_files jr ! k)))"
  proof (rule transfer_run)
    show "\<forall>k < length (tj_files jr). \<exists>f. src (tj_join jr (fe_name (tj_files jr ! k))) = Some f \<and>
      None \<notin> set (rf_calls f) \<and> rf_rest f = map (\<lambda>e. content (fe_name e)) fs ! k"
    proof (intro allI impI)
      fix k assume k: "k < length (tj_files jr)"
      then obtain cs r len m where "node_at h cs n = Some (FsFile r len m)" "fe_name (fs ! k) = join ''/'' cs"
        "tj_join jr (fe_name (fs ! k)) = path_join path (join ''/'' cs)"
        using name [of k jr] by (auto simp: files)
      then show "\<exists>f. src (tj_join jr (fe_name (tj_files jr ! k))) = Some f \<and>
          None \<notin> set (rf_calls f) \<and> rf_rest f = map (\<lambda>e. content (fe_name e)) fs ! k"
        using src k by (simp add: files)
    qed
    show "separate_targets jw" by (rule listed_separate [OF wf, of _ h]) (use src in \<open>auto simp: files fs\<close>)
  qed (use disk in \<open>simp_all add: jr' jw new_write_def\<close>)
  moreover have "dk_files (modify_time jw' d') (path_join dest (join ''/'' cs)) = Some (content (join ''/'' cs), modified_secs m)"
    if all: "\<forall>k < length (tj_files jr). dk_files (modify_time jw' d') (tj_join jw (fe_name (tj_files jr ! k)))
       = Some (map (\<lambda>e. content (fe_name e)) fs ! k, fe_modified_time (tj_files jr ! k))"
      and at: "node_at h cs n = Some (FsFile r len m)" for jw' d' cs r len m
  proof -
    obtain k where "k < length fs" "fe_name (fs ! k) = join ''/'' cs" "fe_modified_time (fs ! k) = modified_secs m"
      using listed_member [OF wf fs at] by blast
    then show ?thesis using all file_paths_relative [OF wf at]
      by (fastforce simp: files tj_join_def)
  qed
  ultimately show ?thesis by blast
qed

section \<open>The list of empty directories\<close>

definition listed_dirs :: "string + file_directory list \<Rightarrow> file_directory list" where
  "listed_dirs r = (case r of Inl _ \<Rightarrow> [] | Inr ds \<Rightarrow> ds)"

lemma read_empty_dirs_dir:
  "read_empty_dirs_recursive (Some (FsDir w m (Some es))) path pre h =
    Inr (if list_entries h es = [] then [\<lparr>fd_path = path, fd_entries = []\<rparr>]
      else concat (map (\<lambda>entry.
        case fe_type entry of
          FtDir \<Rightarrow>
            (case child_in es (fe_name entry) of
               None \<Rightarrow> []
             | Some c \<Rightarrow> listed_dirs (read_empty_dirs_recursive (Some c) (path_join path (fe_name entry))
                 (path_join pre (fe_name entry)) h))
        | _ \<Rightarrow> []) (list_entries h es)))"
  by (subst read_empty_dirs_recursive.simps)
    (simp add: read_dir_def listed_dirs_def cong: file_type.case_cong option.case_cong)

definition empty_below :: "bool \<Rightarrow> string \<Rightarrow> fs_node \<Rightarrow> string set" where
  "empty_below h path n = {foldl path_join path cs | cs w m es.
     node_at h cs n = Some (FsDir w m (Some es)) \<and> list_entries h es = []}"

lemma empty_below_leaf:
  "empty_below h path (FsFile r len m) = {}"
  "empty_below h path (FsLink d m) = {}"
  "empty_below h path (FsDir w m None) = {}"
proof -
  have "node_at h cs (FsFile r len m) = (if cs = [] then Some (FsFile r len m) else None)"
    "node_at h cs (FsLink d m) = (if cs = [] then Some (FsLink d m) else None)"
    "node_at h cs (FsDir w m None) = (if cs = [] then Some (FsDir w m None) else None)" for cs
    by (cases cs; simp)+
  then show "empty_below h path (FsFile r len m) = {}"
    "empty_below h path (FsLink d m) = {}" "empty_below h path (FsDir w m None) = {}"
    by (auto simp: empty_below_def split: if_splits)
qed

lemma empty_below_dir:
  "empty_below h path (FsDir w m (Some es)) = (if list_entries h es = [] then {path} else {}) \<union>
    (\<Union>nm \<in> {nm. listed_name h nm}. case child_in es nm of None \<Rightarrow> {} | Some c \<Rightarrow> empty_below h (path_join path nm) c)"
    (is "?L = ?R")
proof (rule set_eqI)
  fix k
  let ?P = "\<lambda>cs. k = foldl path_join path cs \<and>
      (\<exists>w' m' es'. node_at h cs (FsDir w m (Some es)) = Some (FsDir w' m' (Some es')) \<and> list_entries h es' = [])"
  have "k \<in> ?L \<longleftrightarrow> (\<exists>cs. ?P cs)" by (auto simp: empty_below_def)
  also have "\<dots> \<longleftrightarrow> ?P [] \<or> (\<exists>nm cs. ?P (nm # cs))" by (metis list.exhaust)
  also have "?P [] \<longleftrightarrow> k \<in> (if list_entries h es = [] then {path} else {})" by auto
  also have "(\<exists>nm cs. ?P (nm # cs)) \<longleftrightarrow>
      k \<in> (\<Union>nm \<in> {nm. listed_name h nm}. case child_in es nm of None \<Rightarrow> {} | Some c \<Rightarrow> empty_below h (path_join path nm) c)"
    by (auto simp: empty_below_def split: option.splits if_splits) fastforce
  finally show "k \<in> ?L \<longleftrightarrow> k \<in> ?R" by blast
qed

lemma empty_dirs_found:
  "wf_node n \<Longrightarrow> is_dir_node n \<Longrightarrow>
    fd_path ` set (listed_dirs (read_empty_dirs_recursive (Some n) path pre h)) = empty_below h path n"
proof (induction n arbitrary: path pre rule: fs_node_induct)
  case (dir w m es)
  note wf = dir.prems(1)
  let ?part = "\<lambda>entry. case fe_type entry of
        FtDir \<Rightarrow>
          (case child_in es (fe_name entry) of
             None \<Rightarrow> []
           | Some c \<Rightarrow> listed_dirs (read_empty_dirs_recursive (Some c) (path_join path (fe_name entry))
               (path_join pre (fe_name entry)) h))
      | _ \<Rightarrow> []"
  have part: "fd_path ` set (?part (entry_of nm c)) = empty_below h (path_join path nm) c"
    if c: "child_in es nm = Some c" for nm c
  proof (cases c)
    case (FsDir a b d)
    then show ?thesis using dir.IH [OF c wf_child(1) [OF wf c]] c by (simp add: is_dir_node_def)
  qed (simp_all add: empty_below_leaf)
  have L: "set (list_entries h es) = {entry_of nm c | nm c. child_in es nm = Some c \<and> listed_name h nm}"
    using wf by (simp add: set_list_entries child_in_iff)
  have "fd_path ` set (concat (map ?part (list_entries h es)))
      = (\<Union>(nm, c) \<in> {(nm, c). child_in es nm = Some c \<and> listed_name h nm}. fd_path ` set (?part (entry_of nm c)))"
    by (rule image_concat_map [OF L])
  also have "\<dots> = (\<Union>(nm, c) \<in> {(nm, c). child_in es nm = Some c \<and> listed_name h nm}.
          empty_below h (path_join path nm) c)"
    using part by fastforce
  also have "\<dots> = (\<Union>nm \<in> {nm. listed_name h nm}. case child_in es nm of None \<Rightarrow> {} | Some c \<Rightarrow> empty_below h (path_join path nm) c)"
    by (auto split: option.splits) blast
  finally have rest: "fd_path ` set (concat (map ?part (list_entries h es))) = \<dots>" .
  show ?case
  proof (cases "list_entries h es = []")
    case True
    then have "{nm. listed_name h nm \<and> (\<exists>c. child_in es nm = Some c)} = {}" using L by auto
    then show ?thesis using True unfolding read_empty_dirs_dir empty_below_dir
      by (auto simp: listed_dirs_def split: option.splits)
  next
    case False
    then show ?thesis using rest unfolding read_empty_dirs_dir empty_below_dir by (simp add: listed_dirs_def)
  qed
qed (auto simp: is_dir_node_def read_empty_dirs_recursive.simps read_dir_def listed_dirs_def empty_below_leaf)

section \<open>Properties\<close>

text \<open>An instance: a file, a directory with a file and a link, and a name that is not UTF-8.\<close>

definition demo_tree :: fs_node where
  "demo_tree = FsDir True None (Some
    [(Some ''x'', Some (FsFile True 2 (Some 5))),
     (Some ''d'', Some (FsDir True None (Some
        [(Some ''y'', Some (FsFile True 1 (Some 6))), (Some ''l'', Some (FsLink False None))]))),
     (Some ''e'', Some (FsDir True None (Some []))),
     (None, None)])"

lemma demo_tree_wf: "wf_node demo_tree" "is_dir_node demo_tree"
  by (simp_all add: demo_tree_def good_name_def is_dir_node_def)

lemma demo_tree_files:
  "get_recursive_files (Some demo_tree) h = Inr (listed (get_recursive_files (Some demo_tree) h))"
  by (simp add: get_recursive_files_def demo_tree_def read_dir_recursive_dir)

lemma demo_tree_y: "node_at h [''d'', ''y''] demo_tree = Some (FsFile True 1 (Some 6))"
  by (simp add: demo_tree_def listed_name_def is_hidden_name_def starts_with_def child_in_def)

text \<open>
  C28: the file list of a directory is exact: whatever the tree, \<open>get_recursive_files\<close> lists the
  files that can be reached through readable directories by UTF-8 names (hidden ones when asked
  for), each under its path with its size and time, and no name twice; links are not followed.
\<close>

theorem recursive_files_exact:
  assumes "wf_node n" "is_dir_node n" "get_recursive_files (Some n) h = Inr fs"
  shows "file_key ` set fs = {(join ''/'' cs, len, modified_secs m) | cs r len m.
      node_at h cs n = Some (FsFile r len m)} \<and> distinct (map fe_name fs)"
proof -
  have fs: "fs = listed (read_dir_recursive (Some n) [] h)"
    using assms(3) by (simp add: get_recursive_files_def)
  then show ?thesis
    using listed_files [OF assms(1,2), of "[]" h] files_below_paths [OF assms(1,2)]
      listed_distinct [OF assms(1,2), of "[]" h] by auto
qed

theorem recursive_files_exact_witness:
  "(''d/y'', 1, 6) \<in> file_key ` set (listed (get_recursive_files (Some demo_tree) False)) \<and>
    distinct (map fe_name (listed (get_recursive_files (Some demo_tree) False)))"
proof -
  note r = recursive_files_exact [OF demo_tree_wf demo_tree_files, of False]
  have "(join ''/'' [''d'', ''y''], 1, modified_secs (Some 6)) \<in> file_key ` set (listed (get_recursive_files (Some demo_tree) False))"
    unfolding conjunct1 [OF r] using demo_tree_y by blast
  then show ?thesis using r by (simp add: modified_secs_def)
qed

text \<open>
  C11: \<open>remove_all_empty_dir\<close> prunes: what its loop of removals leaves of a directory is the tree
  without links and without directories that hold nothing else, as far as directories can be
  written; and the directory has the same files, in the same order, as before.
\<close>

theorem remove_all_empty_dir_prunes:
  assumes "wf_node n" "is_dir_node n"
  shows "snd (remove_all_empty_dir pw (Some n)) = prune pw n \<and>
    listed (get_recursive_files (snd (remove_all_empty_dir pw (Some n))) h)
      = listed (get_recursive_files (Some n) h)"
  using remove_prunes [OF assms] prune_files [OF assms] by (simp add: get_recursive_files_def)

theorem remove_all_empty_dir_prunes_witness:
  "snd (remove_all_empty_dir True (Some demo_tree)) = Some (FsDir True None (Some
    [(Some ''x'', Some (FsFile True 2 (Some 5))),
     (Some ''d'', Some (FsDir True None (Some [(Some ''y'', Some (FsFile True 1 (Some 6)))]))),
     (None, None)]))"
  using remove_all_empty_dir_prunes [OF demo_tree_wf, of True True]
  by (simp add: demo_tree_def prune_dir prune_entry_def)

text \<open>
  C2: a directory arrives: the list of its files, made by \<open>new_read\<close>, read block by block, sent to a
  writing job for another directory that accepts them, puts every listed file of the tree at the
  same relative path, with its contents and its time, provided no listed file has a name that
  ends in \<open>.download\<close>.
\<close>

theorem directory_arrives:
  assumes "wf_node n" "is_dir_node n"
    and "new_read (\<lambda>p. get_recursive_files (Some n)) i remote path 0 h True False = Inr jr"
    and "jw = new_write i remote' dest 0 h' False (tj_files jr) False"
    and "\<forall>cs r len m. node_at h cs n = Some (FsFile r len m) \<longrightarrow>
      (\<exists>f. src (path_join path (join ''/'' cs)) = Some f \<and> None \<notin> set (rf_calls f) \<and> rf_rest f = content (join ''/'' cs))
      \<and> \<not> suffix ''.download'' (join ''/'' cs)"
    and "\<forall>p. dk_create_ok d p" "dk_write_ok d" "dk_sync_ok d" "zstd_ok Z"
  shows "\<exists>fuel blocks jr' jw' d'. read_all fuel Z src jr st = (blocks, jr', True) \<and>
    write_blocks Z blocks jw d = (Inr (), jw', d') \<and>
    (\<forall>cs r len m. node_at h cs n = Some (FsFile r len m) \<longrightarrow>
       dk_files (modify_time jw' d') (path_join dest (join ''/'' cs)) = Some (content (join ''/'' cs), modified_secs m))"
  by (rule directory_run [OF assms])

definition demo_content :: "string \<Rightarrow> bytes" where
  "demo_content name = map of_char name"

definition demo_tree_src :: "string \<Rightarrow> rfile option" where
  "demo_tree_src p = Some \<lparr>rf_rest = demo_content (drop 3 p), rf_meta = None, rf_calls = [Some 0]\<rparr>"

lemma demo_tree_paths:
  assumes "node_at h cs demo_tree = Some (FsFile r len m)"
  shows "cs = [''x''] \<or> cs = [''d'', ''y'']"
proof -
  have leaf: "node_at h ds (FsFile a b c) = (if ds = [] then Some (FsFile a b c) else None)"
    "node_at h ds (FsLink a' c) = (if ds = [] then Some (FsLink a' c) else None)" for ds a a' b c
    by (cases ds; simp)+
  show ?thesis
    using assms by (cases cs; cases "tl cs")
      (auto simp: demo_tree_def child_in_def leaf split: if_splits option.splits)
qed

theorem directory_arrives_witness:
  "\<exists>jr. new_read (\<lambda>p. get_recursive_files (Some demo_tree)) 1 [] ''/a'' 0 False True False = Inr jr \<and>
    (\<exists>fuel blocks jr' jw' d'. read_all fuel demo_zstd demo_tree_src jr (True, []) = (blocks, jr', True) \<and>
      write_blocks demo_zstd blocks (new_write 1 [] ''/b'' 0 False False (tj_files jr) False) demo_disk = (Inr (), jw', d') \<and>
      dk_files (modify_time jw' d') ''/b/d/y'' = Some (demo_content ''d/y'', 6))"
proof -
  obtain jr where jr: "new_read (\<lambda>p. get_recursive_files (Some demo_tree)) 1 [] ''/a'' 0 False True False = Inr jr"
    by (simp add: new_read_def get_recursive_files_def demo_tree_def read_dir_recursive_dir)
  have src: "\<forall>cs r len m. node_at False cs demo_tree = Some (FsFile r len m) \<longrightarrow>
      (\<exists>f. demo_tree_src (path_join ''/a'' (join ''/'' cs)) = Some f \<and> None \<notin> set (rf_calls f)
        \<and> rf_rest f = demo_content (join ''/'' cs)) \<and> \<not> suffix ''.download'' (join ''/'' cs)"
    by (auto dest!: demo_tree_paths simp: demo_tree_src_def path_join_def starts_with_def suffix_def)
  obtain fuel blocks jr' jw' d' where run: "read_all fuel demo_zstd demo_tree_src jr (True, []) = (blocks, jr', True)"
      "write_blocks demo_zstd blocks (new_write 1 [] ''/b'' 0 False False (tj_files jr) False) demo_disk = (Inr (), jw', d')"
      "\<forall>cs r len m. node_at False cs demo_tree = Some (FsFile r len m) \<longrightarrow>
       dk_files (modify_time jw' d') (path_join ''/b'' (join ''/'' cs)) = Some (demo_content (join ''/'' cs), modified_secs m)"
    using directory_arrives [OF demo_tree_wf jr refl src, of demo_disk demo_zstd "(True, [])" "[]" "''/b''" False]
    by (auto simp: demo_disk_def demo_zstd_def zstd_ok_def)
  have "dk_files (modify_time jw' d') ''/b/d/y'' = Some (demo_content ''d/y'', 6)"
    using run(3) [rule_format, OF demo_tree_y] by (simp add: path_join_def starts_with_def modified_secs_def)
  then show ?thesis using jr run(1,2) by blast
qed

text \<open>
  the empty directories are exactly those without a listed entry: \<open>get_empty_dirs_recursive\<close>
  lists the path of a directory, reached through readable directories, when it has no entry of a
  UTF-8 name or, with hidden names left out, only hidden ones; so a directory that holds nothing
  but links is in neither list and is lost in a transfer.
\<close>

theorem empty_dirs_exact:
  assumes "wf_node n" "is_dir_node n" "get_empty_dirs_recursive (Some n) path h = Inr ds"
  shows "fd_path ` set ds = {foldl path_join path cs | cs w m es.
      node_at h cs n = Some (FsDir w m (Some es)) \<and> list_entries h es = []}"
  using empty_dirs_found [OF assms(1,2), of path "[]" h] assms(3)
  by (simp add: get_empty_dirs_recursive_def listed_dirs_def empty_below_def)

theorem empty_dirs_exact_witness:
  "get_empty_dirs_recursive (Some (FsDir True None (Some [(Some ''l'', Some (FsLink True None))]))) ''/a'' True = Inr [] \<and>
    get_recursive_files (Some (FsDir True None (Some [(Some ''l'', Some (FsLink True None))]))) True = Inr [] \<and>
    ''/a/e'' \<in> fd_path ` set (listed_dirs (get_empty_dirs_recursive (Some demo_tree) ''/a'' True))"
proof -
  let ?r = "get_empty_dirs_recursive (Some demo_tree) ''/a'' True"
  have r: "?r = Inr (listed_dirs ?r)"
    by (simp add: get_empty_dirs_recursive_def demo_tree_def read_empty_dirs_dir listed_dirs_def)
  have "node_at True [''e''] demo_tree = Some (FsDir True None (Some []))"
    by (simp add: demo_tree_def listed_name_def child_in_def)
  then have "foldl path_join ''/a'' [''e''] \<in> fd_path ` set (listed_dirs ?r)"
    unfolding empty_dirs_exact [OF demo_tree_wf r] by fastforce
  moreover have "is_hidden_name ''l'' = False" by (simp add: is_hidden_name_def starts_with_def)
  ultimately show ?thesis
    by (simp add: path_join_def starts_with_def get_empty_dirs_recursive_def get_recursive_files_def
        read_empty_dirs_dir read_dir_recursive_dir)
qed

end
