(* ===== verification/Codec.thy ===== *)
theory Codec
  imports PeerConfig ConfigProps "HOL-Library.Multiset"
begin

text \<open>
  The choice of video codecs in \<open>libs/scrap/src/common/codec.rs\<close>: the negotiation of the encoder
  with the decoders that the peers announce, the announcement itself, and the decoder that is made
  for a format and dispatches the frames. The codec libraries are arguments; the features
  \<open>hwcodec\<close>, \<open>vram\<close> and \<open>mediacodec\<close> are flags of the environment.
\<close>

section \<open>Data\<close>

datatype codec_format = VP8 | VP9 | AV1 | H264 | H265 | Unknown

datatype prefer_codec = PreferAuto | PreferVP9 | PreferH264 | PreferH265 | PreferVP8 | PreferAV1
  | PreferUnrecognized int

datatype chroma = I420 | I444 | ChromaUnrecognized int

record codec_ability =
  ca_vp8 :: bool
  ca_vp9 :: bool
  ca_av1 :: bool
  ca_h264 :: bool
  ca_h265 :: bool

record supported_decoding =
  ability_vp9 :: int
  ability_h264 :: int
  ability_h265 :: int
  sd_prefer :: prefer_codec
  ability_vp8 :: int
  ability_av1 :: int
  sd_i444 :: codec_ability
  sd_prefer_chroma :: chroma

record supported_encoding =
  se_h264 :: bool
  se_h265 :: bool
  se_vp8 :: bool
  se_av1 :: bool
  se_i444 :: codec_ability

definition no_ability :: codec_ability where
  "no_ability = \<lparr>ca_vp8 = False, ca_vp9 = False, ca_av1 = False, ca_h264 = False, ca_h265 = False\<rparr>"

definition default_decoding :: supported_decoding where
  "default_decoding = \<lparr>ability_vp9 = 0, ability_h264 = 0, ability_h265 = 0, sd_prefer = PreferAuto,
     ability_vp8 = 0, ability_av1 = 0, sd_i444 = no_ability, sd_prefer_chroma = I420\<rparr>"

datatype encoding_update = Update int supported_decoding | Remove int | NewOnlyVP9 int | Check

text \<open>
  What the build and the machine offer: features, the hardware encoders and decoders found for
  H264 and H265, the pointer width and the memory.
\<close>

record codec_env =
  ce_hwcodec :: bool
  ce_vram :: bool
  ce_mediacodec :: bool
  ce_ios :: bool
  ce_windows :: bool
  ce_hw_encoder :: "codec_format \<Rightarrow> string option"
  ce_vram_encoder :: "codec_format \<Rightarrow> bool"
  ce_hw_decoder :: "codec_format \<Rightarrow> bool"
  ce_vram_decoder :: "codec_format \<Rightarrow> int option \<Rightarrow> bool"
  ce_media_decoder :: "codec_format \<Rightarrow> bool"
  ce_pointer_bytes :: nat
  ce_total_memory :: nat

text \<open>The globals of the encoder; the map of peers is the list of its entries in iteration order.\<close>

record encoder_state =
  es_decodings :: "(int \<times> supported_decoding) list"
  es_format :: codec_format
  es_usable :: "supported_encoding option"

section \<open>Options\<close>

definition disable_av1 :: "codec_env \<Rightarrow> bool" where
  "disable_av1 V \<longleftrightarrow> ce_pointer_bytes V = 4"

definition enable_hwcodec_option :: "codec_env \<Rightarrow> world \<Rightarrow> bool" where
  "enable_hwcodec_option V w =
    (if \<not> ce_ios V then option2bool ''enable-hwcodec'' (get_option w ''enable-hwcodec'') else False)"

definition enable_directx_capture :: "world \<Rightarrow> bool" where
  "enable_directx_capture w =
    option2bool ''enable-directx-capture'' (get_option w ''enable-directx-capture'')"

definition enable_vram_option :: "codec_env \<Rightarrow> world \<Rightarrow> bool \<Rightarrow> bool" where
  "enable_vram_option V w encode =
    (if ce_windows V then
       let enable = option2bool ''enable-hwcodec'' (get_option w ''enable-hwcodec'')
       in if encode then enable \<and> enable_directx_capture w else enable
     else False)"

section \<open>Negotiation\<close>

definition apply_update :: "encoding_update \<Rightarrow> (int \<times> supported_decoding) list \<Rightarrow> (int \<times> supported_decoding) list" where
  "apply_update u ds =
    (case u of
       Update i d \<Rightarrow> AList.update i d ds
     | Remove i \<Rightarrow> AList.delete i ds
     | NewOnlyVP9 i \<Rightarrow> AList.update i (default_decoding\<lparr>ability_vp9 := 1\<rparr>) ds
     | Check \<Rightarrow> ds)"

definition all_peers :: "(supported_decoding \<Rightarrow> bool) \<Rightarrow> (int \<times> supported_decoding) list \<Rightarrow> bool" where
  "all_peers P ds \<longleftrightarrow> 0 < length ds \<and> list_all (\<lambda>(_, s). P s) ds"

text \<open>The count of each preference, in order of first occurrence, and the first with most votes.\<close>

fun count_pref :: "prefer_codec \<Rightarrow> (prefer_codec \<times> nat) list \<Rightarrow> (prefer_codec \<times> nat) list" where
  "count_pref p [] = [(p, 1)]"
| "count_pref p ((q, n) # cs) = (if q = p then (q, n + 1) # cs else (q, n) # count_pref p cs)"

definition most_frequent :: "prefer_codec list \<Rightarrow> prefer_codec" where
  "most_frequent prefs =
    (let counts = fold count_pref prefs [];
         max_count = foldr max (map snd counts) 0
     in case find (\<lambda>(_, n). n = max_count) counts of
          Some (p, _) \<Rightarrow> p | None \<Rightarrow> PreferAuto)"

record usable =
  us_vp8 :: bool
  us_av1 :: bool
  us_h264 :: bool
  us_h265 :: bool

definition usable_codecs :: "codec_env \<Rightarrow> world \<Rightarrow> (int \<times> supported_decoding) list \<Rightarrow> usable" where
  "usable_codecs V w ds =
    (let all264 = all_peers (\<lambda>s. 0 < ability_h264 s) ds;
         all265 = all_peers (\<lambda>s. 0 < ability_h265 s) ds;
         vram = ce_vram V \<and> enable_vram_option V w True;
         hw = ce_hwcodec V \<and> enable_hwcodec_option V w
     in \<lparr>us_vp8 = all_peers (\<lambda>s. 0 < ability_vp8 s) ds,
         us_av1 = (all_peers (\<lambda>s. 0 < ability_av1 s) ds \<and> \<not> disable_av1 V),
         us_h264 = (all264 \<and> (vram \<and> ce_vram_encoder V H264 \<or> hw \<and> ce_hw_encoder V H264 \<noteq> None)),
         us_h265 = (all265 \<and> (vram \<and> ce_vram_encoder V H265 \<or> hw \<and> ce_hw_encoder V H265 \<noteq> None))\<rparr>)"

definition pref_usable :: "usable \<Rightarrow> prefer_codec \<Rightarrow> bool" where
  "pref_usable u p \<longleftrightarrow> p = PreferVP9 \<or> p = PreferVP8 \<and> us_vp8 u \<or> p = PreferAV1 \<and> us_av1 u
     \<or> p = PreferH264 \<and> us_h264 u \<or> p = PreferH265 \<and> us_h265 u"

definition auto_codec :: "codec_env \<Rightarrow> world \<Rightarrow> usable \<Rightarrow> codec_format" where
  "auto_codec V w u =
    (let av1_test = (get_option w ''av1-test'' \<noteq> ''N'');
         c = (if us_av1 u \<and> av1_test then AV1 else VP9);
         c = (if us_h264 u then H264 else c);
         c = (if us_h265 u then H265 else c)
     in if (c = VP9 \<or> c = AV1) \<and> us_vp8 u \<and> ce_total_memory V \<le> 4 * 1024 * 1024 * 1024 then VP8 else c)"

text \<open>
  \<open>Encoder::update\<close>. In the branches for H264 and H265 the sources ask again whether an encoder was
  found, which is \<open>encoder_found\<close> here: it is asked only when all peers decode the format.
\<close>

definition encoder_update :: "codec_env \<Rightarrow> world \<Rightarrow> encoding_update \<Rightarrow> encoder_state \<Rightarrow> encoder_state" where
  "encoder_update V w upd st =
    (let ds = apply_update upd (es_decodings st);
         u = usable_codecs V w ds;
         preferences = map (\<lambda>(_, s). sd_prefer s) (filter (\<lambda>(_, s). pref_usable u (sd_prefer s)) ds);
         auto = auto_codec V w u;
         format = (case most_frequent preferences of
            PreferVP8 \<Rightarrow> VP8
          | PreferVP9 \<Rightarrow> VP9
          | PreferAV1 \<Rightarrow> AV1
          | PreferH264 \<Rightarrow> if us_h264 u then H264 else auto
          | PreferH265 \<Rightarrow> if us_h265 u then H265 else auto
          | PreferAuto \<Rightarrow> auto
          | PreferUnrecognized _ \<Rightarrow> auto)
     in st\<lparr>es_decodings := ds, es_format := format,
           es_usable := Some \<lparr>se_h264 = us_h264 u, se_h265 = us_h265 u, se_vp8 = us_vp8 u,
                               se_av1 = us_av1 u, se_i444 = no_ability\<rparr>\<rparr>)"

definition negotiated_codec :: "encoder_state \<Rightarrow> codec_format" where
  "negotiated_codec st = es_format st"

definition usable_encoding :: "encoder_state \<Rightarrow> supported_encoding option" where
  "usable_encoding st = es_usable st"

definition supported_encoding_of :: "codec_env \<Rightarrow> world \<Rightarrow> supported_encoding" where
  "supported_encoding_of V w =
    (let hw = ce_hwcodec V \<and> enable_hwcodec_option V w; vram = ce_vram V \<and> enable_vram_option V w True
     in \<lparr>se_h264 = (hw \<and> ce_hw_encoder V H264 \<noteq> None \<or> vram \<and> ce_vram_encoder V H264),
         se_h265 = (hw \<and> ce_hw_encoder V H265 \<noteq> None \<or> vram \<and> ce_vram_encoder V H265),
         se_vp8 = True, se_av1 = (\<not> disable_av1 V),
         se_i444 = no_ability\<lparr>ca_vp9 := True, ca_av1 := True\<rparr>\<rparr>)"

section \<open>Falling back and chroma\<close>

datatype vpx_id = VpxVP8 | VpxVP9
datatype data_format = DfH264 | DfH265 | DfOther
datatype encoder_cfg = CfgVPX vpx_id | CfgAOM | CfgHWRAM string | CfgVRAM data_format

definition fallback_format :: "encoder_cfg \<Rightarrow> codec_format option" where
  "fallback_format cfg =
    (case cfg of
       CfgVPX VpxVP8 \<Rightarrow> Some VP8
     | CfgVPX VpxVP9 \<Rightarrow> Some VP9
     | CfgAOM \<Rightarrow> Some AV1
     | CfgHWRAM n \<Rightarrow>
         let name = to_lowercase n in
         if contains_str ''vp8'' name then Some VP8
         else if contains_str ''vp9'' name then Some VP9
         else if contains_str ''av1'' name then Some AV1
         else if contains_str ''h264'' name then Some H264
         else Some H265
     | CfgVRAM DfH264 \<Rightarrow> Some H264
     | CfgVRAM DfH265 \<Rightarrow> Some H265
     | CfgVRAM DfOther \<Rightarrow> None)"

definition set_fallback :: "encoder_cfg \<Rightarrow> encoder_state \<Rightarrow> encoder_state" where
  "set_fallback cfg st =
    (case fallback_format cfg of
       None \<Rightarrow> st
     | Some f \<Rightarrow> if es_format st \<noteq> f then st\<lparr>es_format := f\<rparr> else st)"

definition use_i444 :: "encoder_cfg \<Rightarrow> encoder_state \<Rightarrow> bool" where
  "use_i444 cfg st =
    (let ds = es_decodings st;
         prefer_i444 = list_all (\<lambda>(_, d). sd_prefer_chroma d = I444) ds;
         i444_useable =
           (case cfg of
              CfgVPX VpxVP8 \<Rightarrow> False
            | CfgVPX VpxVP9 \<Rightarrow> list_all (\<lambda>(_, d). ca_vp9 (sd_i444 d)) ds
            | CfgAOM \<Rightarrow> list_all (\<lambda>(_, d). ca_av1 (sd_i444 d)) ds
            | CfgHWRAM _ \<Rightarrow> False
            | CfgVRAM _ \<Rightarrow> False)
     in prefer_i444 \<and> i444_useable \<and> ds \<noteq> [])"

text \<open>
  \<open>Encoder::new\<close>: a failing hardware encoder resets the format to VP9; \<open>made\<close> says whether the
  encoder could be made.
\<close>

definition encoder_new :: "bool \<Rightarrow> encoder_cfg \<Rightarrow> encoder_state \<Rightarrow> bool \<times> encoder_state" where
  "encoder_new made cfg st =
    (if made then (True, st)
     else case cfg of
            CfgVPX _ \<Rightarrow> (False, st)
          | CfgAOM \<Rightarrow> (False, st)
          | CfgHWRAM _ \<Rightarrow> (False, st\<lparr>es_format := VP9\<rparr>)
          | CfgVRAM _ \<Rightarrow> (False, st\<lparr>es_format := VP9\<rparr>))"

section \<open>What a decoder announces\<close>

text \<open>\<open>Decoder::preference\<close> on the options of the peer's configuration, if there is a peer.\<close>

definition preference :: "smap option \<Rightarrow> prefer_codec \<times> chroma" where
  "preference opts =
    (case opts of
       None \<Rightarrow> (PreferAuto, I420)
     | Some m \<Rightarrow>
         let codec = or_default (m ''codec-preference'') in
         (if codec = ''vp8'' then PreferVP8 else if codec = ''vp9'' then PreferVP9
          else if codec = ''av1'' then PreferAV1 else if codec = ''h264'' then PreferH264
          else if codec = ''h265'' then PreferH265 else PreferAuto,
          if m ''i444'' = Some ''Y'' then I444 else I420))"

definition of_bool_int :: "bool \<Rightarrow> int" where
  "of_bool_int b = (if b then 1 else 0)"

fun mark :: "codec_format \<Rightarrow> supported_decoding \<Rightarrow> supported_decoding" where
  "mark VP8 d = d\<lparr>ability_vp8 := 0\<rparr>"
| "mark VP9 d = d\<lparr>ability_vp9 := 0\<rparr>"
| "mark AV1 d = d\<lparr>ability_av1 := 0\<rparr>"
| "mark H264 d = d\<lparr>ability_h264 := 0\<rparr>"
| "mark H265 d = d\<lparr>ability_h265 := 0\<rparr>"
| "mark Unknown d = d"

definition supported_decodings ::
  "codec_env \<Rightarrow> world \<Rightarrow> smap option \<Rightarrow> bool \<Rightarrow> int option \<Rightarrow> codec_format list \<Rightarrow> supported_decoding" where
  "supported_decodings V w opts use_texture_render luid mark_unsupported =
    (let (prefer, prefer_chroma) = preference opts;
         texture = (ce_vram V \<and> enable_vram_option V w False \<and> use_texture_render);
         hw = (\<lambda>f. ce_hwcodec V \<and> ce_hw_decoder V f \<or> texture \<and> ce_vram_decoder V f luid);
         found = (\<lambda>f. if ce_mediacodec V \<and> enable_hwcodec_option V w then ce_media_decoder V f else hw f);
         d = \<lparr>ability_vp9 = 1, ability_h264 = of_bool_int (found H264), ability_h265 = of_bool_int (found H265),
              sd_prefer = prefer, ability_vp8 = 1, ability_av1 = of_bool_int (\<not> disable_av1 V),
              sd_i444 = no_ability\<lparr>ca_vp9 := True, ca_av1 := True\<rparr>, sd_prefer_chroma = prefer_chroma\<rparr>
     in fold mark mark_unsupported d)"

section \<open>The decoder\<close>

datatype decoder_kind = KVp8 | KVp9 | KAv1 | KRam codec_format | KVram codec_format | KMedia codec_format

text \<open>\<open>dec_has k\<close> says that the field of the struct for \<open>k\<close> is \<open>Some\<close>.\<close>

record decoder =
  dec_has :: "decoder_kind \<Rightarrow> bool"
  dec_format :: codec_format
  dec_valid :: bool

text \<open>\<open>Decoder::new\<close>; \<open>made k\<close> says whether the library can make the decoder \<open>k\<close>.\<close>

definition only :: "decoder_kind option \<Rightarrow> decoder_kind \<Rightarrow> bool" where
  "only k k' \<longleftrightarrow> k = Some k'"

definition hardware_decoder ::
  "codec_env \<Rightarrow> world \<Rightarrow> (decoder_kind \<Rightarrow> bool) \<Rightarrow> codec_format \<Rightarrow> int option \<Rightarrow> decoder_kind option" where
  "hardware_decoder V w made f luid =
    (let vram = ce_vram V \<and> enable_vram_option V w False \<and> (case luid of None \<Rightarrow> 0 | Some l \<Rightarrow> l) \<noteq> 0
     in if vram \<and> made (KVram f) then Some (KVram f)
        else if ce_hwcodec V \<and> made (KRam f) then Some (KRam f)
        else if ce_mediacodec V \<and> enable_hwcodec_option V w \<and> made (KMedia f) then Some (KMedia f)
        else None)"

definition decoder_new ::
  "codec_env \<Rightarrow> world \<Rightarrow> (decoder_kind \<Rightarrow> bool) \<Rightarrow> codec_format \<Rightarrow> int option \<Rightarrow> decoder" where
  "decoder_new V w made format luid =
    (let k = (case format of
          VP8 \<Rightarrow> if made KVp8 then Some KVp8 else None
        | VP9 \<Rightarrow> if made KVp9 then Some KVp9 else None
        | AV1 \<Rightarrow> if made KAv1 then Some KAv1 else None
        | H264 \<Rightarrow> hardware_decoder V w made H264 luid
        | H265 \<Rightarrow> hardware_decoder V w made H265 luid
        | Unknown \<Rightarrow> None)
     in \<lparr>dec_has = only k, dec_format = format, dec_valid = (k \<noteq> None)\<rparr>)"

datatype video_union = Vp8s "bytes list" | Vp9s "bytes list" | Av1s "bytes list" | H264s "bytes list"
  | H265s "bytes list" | OtherFrame

text \<open>
  Which decoder \<open>handle_video_frame\<close> gives a frame to, or the error; a build has hardware decoders
  or the media codec.
\<close>

definition pick_decoder :: "codec_env \<Rightarrow> decoder \<Rightarrow> video_union \<Rightarrow> string + decoder_kind" where
  "pick_decoder V d fr =
    (let h26x = (\<lambda>f err.
          if ce_hwcodec V \<or> ce_vram V then
            (if ce_vram V \<and> dec_has d (KVram f) then Inr (KVram f)
             else if ce_hwcodec V \<and> dec_has d (KRam f) then Inr (KRam f)
             else Inl err)
          else if ce_mediacodec V then
            (if dec_has d (KMedia f) then Inr (KMedia f) else Inl err)
          else Inl ''unsupported video frame type!'')
     in case fr of
          Vp8s _ \<Rightarrow> if dec_has d KVp8 then Inr KVp8 else Inl ''vp8 decoder not available''
        | Vp9s _ \<Rightarrow> if dec_has d KVp9 then Inr KVp9 else Inl ''vp9 decoder not available''
        | Av1s _ \<Rightarrow> if dec_has d KAv1 then Inr KAv1 else Inl ''av1 decoder not available''
        | H264s _ \<Rightarrow> h26x H264 ''don't support h264!''
        | H265s _ \<Rightarrow> h26x H265 ''don't support h265!''
        | OtherFrame \<Rightarrow> Inl ''unsupported video frame type!'')"

text \<open>
  What the decoder libraries offer, on a state \<open>'s\<close>: decoding a packet to images, flushing, and
  turning an image to the output buffer (which may fail for the hardware decoder) or a texture.
\<close>

record ('s, 'i, 'r, 't) codec_lib =
  cl_decode :: "decoder_kind \<Rightarrow> 's \<Rightarrow> bytes \<Rightarrow> (string + 'i list) \<times> 's"
  cl_flush :: "decoder_kind \<Rightarrow> 's \<Rightarrow> (string + 'i list) \<times> 's"
  cl_chroma :: "'i \<Rightarrow> chroma"
  cl_to_rgb :: "'i \<Rightarrow> 'r \<Rightarrow> 'r"
  cl_to_fmt :: "'i \<Rightarrow> 'r \<Rightarrow> bool \<times> 'r"
  cl_texture :: "'i \<Rightarrow> 't"
  cl_media :: "decoder_kind \<Rightarrow> 's \<Rightarrow> bytes \<Rightarrow> 'r \<Rightarrow> (string + bool) \<times> 's \<times> 'r"

text \<open>The library's state and the outputs that the caller passes by reference.\<close>

record ('s, 'r, 't) frame_out =
  fo_lib :: 's
  fo_rgb :: 'r
  fo_texture :: 't
  fo_pixelbuffer :: bool
  fo_chroma :: "chroma option"

text \<open>
  The loops of \<open>handle_vpxs_video_frame\<close> and \<open>handle_av1s_video_frame\<close>: the last image that
  decoding the packets and flushing yields; \<open>None\<close> is the null image.
\<close>

definition last_image :: "'i option \<Rightarrow> 'i list \<Rightarrow> 'i option" where
  "last_image l images = foldl (\<lambda>_ i. Some i) l images"

fun decode_packets ::
  "('s \<Rightarrow> bytes \<Rightarrow> (string + 'i list) \<times> 's) \<Rightarrow> 'i option \<Rightarrow> bytes list \<Rightarrow> 's \<Rightarrow> (string + 'i option) \<times> 's" where
  "decode_packets lib_decode l [] s = (Inr l, s)"
| "decode_packets lib_decode l (p # ps) s =
    (case lib_decode s p of
       (Inl e, s) \<Rightarrow> (Inl e, s)
     | (Inr images, s) \<Rightarrow> decode_packets lib_decode (last_image l images) ps s)"

definition handle_software_frame ::
  "('s, 'i, 'r, 't) codec_lib \<Rightarrow> decoder_kind \<Rightarrow> bytes list \<Rightarrow> ('s, 'r, 't) frame_out
    \<Rightarrow> (string + bool) \<times> ('s, 'r, 't) frame_out" where
  "handle_software_frame lib k packets out =
    (case decode_packets (cl_decode lib k) None packets (fo_lib out) of
       (Inl e, s) \<Rightarrow> (Inl e, out\<lparr>fo_lib := s\<rparr>)
     | (Inr l, s) \<Rightarrow>
         (case cl_flush lib k s of
            (Inl e, s) \<Rightarrow> (Inl e, out\<lparr>fo_lib := s\<rparr>)
          | (Inr images, s) \<Rightarrow>
              (case last_image l images of
                 None \<Rightarrow> (Inr False, out\<lparr>fo_lib := s\<rparr>)
               | Some i \<Rightarrow> (Inr True, out\<lparr>fo_lib := s, fo_chroma := Some (cl_chroma lib i),
                                          fo_rgb := cl_to_rgb lib i (fo_rgb out)\<rparr>))))"

text \<open>
  The loops of \<open>handle_hwram_video_frame\<close> and \<open>handle_vram_video_frame\<close>, which process every image.
\<close>

fun hwram_images :: "('i \<Rightarrow> 'r \<Rightarrow> bool \<times> 'r) \<Rightarrow> 'i list \<Rightarrow> bool \<Rightarrow> 'r \<Rightarrow> bool \<times> 'r" where
  "hwram_images to_fmt [] ret r = (ret, r)"
| "hwram_images to_fmt (i # is) ret r = (let (ok, r) = to_fmt i r in hwram_images to_fmt is (ret \<or> ok) r)"

fun handle_hwram_frame ::
  "('s, 'i, 'r, 't) codec_lib \<Rightarrow> decoder_kind \<Rightarrow> bytes list \<Rightarrow> bool \<Rightarrow> ('s, 'r, 't) frame_out
    \<Rightarrow> (string + bool) \<times> ('s, 'r, 't) frame_out" where
  "handle_hwram_frame lib k [] ret out = (Inr ret, out)"
| "handle_hwram_frame lib k (p # ps) ret out =
    (case cl_decode lib k (fo_lib out) p of
       (Inl e, s) \<Rightarrow> (Inl e, out\<lparr>fo_lib := s\<rparr>)
     | (Inr images, s) \<Rightarrow>
         let (ret, r) = hwram_images (cl_to_fmt lib) images ret (fo_rgb out)
         in handle_hwram_frame lib k ps ret (out\<lparr>fo_lib := s, fo_rgb := r\<rparr>))"

fun handle_vram_frame ::
  "('s, 'i, 'r, 't) codec_lib \<Rightarrow> decoder_kind \<Rightarrow> bytes list \<Rightarrow> bool \<Rightarrow> ('s, 'r, 't) frame_out
    \<Rightarrow> (string + bool) \<times> ('s, 'r, 't) frame_out" where
  "handle_vram_frame lib k [] ret out = (Inr ret, out)"
| "handle_vram_frame lib k (p # ps) ret out =
    (case cl_decode lib k (fo_lib out) p of
       (Inl e, s) \<Rightarrow> (Inl e, out\<lparr>fo_lib := s\<rparr>)
     | (Inr images, s) \<Rightarrow>
         handle_vram_frame lib k ps (ret \<or> images \<noteq> [])
           (out\<lparr>fo_lib := s, fo_texture := foldl (\<lambda>_ i. cl_texture lib i) (fo_texture out) images\<rparr>))"

text \<open>\<open>handle_mediacodec_video_frame\<close> returns from its loop on the first packet.\<close>

definition handle_mediacodec_frame ::
  "('s, 'i, 'r, 't) codec_lib \<Rightarrow> decoder_kind \<Rightarrow> bytes list \<Rightarrow> ('s, 'r, 't) frame_out
    \<Rightarrow> (string + bool) \<times> ('s, 'r, 't) frame_out" where
  "handle_mediacodec_frame lib k packets out =
    (case packets of
       [] \<Rightarrow> (Inr False, out)
     | p # _ \<Rightarrow>
         let (res, s, r) = cl_media lib k (fo_lib out) p (fo_rgb out)
         in (res, out\<lparr>fo_lib := s, fo_rgb := r\<rparr>))"

fun packets_of :: "video_union \<Rightarrow> bytes list" where
  "packets_of (Vp8s ps) = ps"
| "packets_of (Vp9s ps) = ps"
| "packets_of (Av1s ps) = ps"
| "packets_of (H264s ps) = ps"
| "packets_of (H265s ps) = ps"
| "packets_of OtherFrame = []"

fun h26x_frame :: "video_union \<Rightarrow> bool" where
  "h26x_frame (H264s _) = True"
| "h26x_frame (H265s _) = True"
| "h26x_frame _ = False"

definition handle_video_frame ::
  "codec_env \<Rightarrow> ('s, 'i, 'r, 't) codec_lib \<Rightarrow> decoder \<Rightarrow> video_union \<Rightarrow> ('s, 'r, 't) frame_out
    \<Rightarrow> (string + bool) \<times> ('s, 'r, 't) frame_out" where
  "handle_video_frame V lib d fr out =
    (let out = (if h26x_frame fr \<and> (ce_hwcodec V \<or> ce_vram V \<or> ce_mediacodec V)
                then out\<lparr>fo_chroma := Some I420\<rparr> else out)
     in case pick_decoder V d fr of
          Inl e \<Rightarrow> (Inl e, out)
        | Inr k \<Rightarrow>
            (case k of
               KVram _ \<Rightarrow> handle_vram_frame lib k (packets_of fr) False (out\<lparr>fo_pixelbuffer := False\<rparr>)
             | KRam _ \<Rightarrow> handle_hwram_frame lib k (packets_of fr) False out
             | KMedia _ \<Rightarrow> handle_mediacodec_frame lib k (packets_of fr) out
             | KVp8 \<Rightarrow> handle_software_frame lib k (packets_of fr) out
             | KVp9 \<Rightarrow> handle_software_frame lib k (packets_of fr) out
             | KAv1 \<Rightarrow> handle_software_frame lib k (packets_of fr) out))"

section \<open>Sizes\<close>

text \<open>\<open>fix_quality\<close> is \<open>None\<close> where the program is not built for Android, and else \<open>Display::fix_quality\<close>.\<close>

definition base_bitrate :: "u16 option \<Rightarrow> u32 \<Rightarrow> u32 \<Rightarrow> u32" where
  "base_bitrate fix_quality width height =
    (let b = width * height div 1000;
         b = (if b = 0 then 1920 * 1080 div 1000 else b)
     in case fix_quality of None \<Rightarrow> b | Some fq \<Rightarrow> b * ucast fq)"

text \<open>
  \<open>codec_thread_num\<close>: \<open>cpus\<close> processors, \<open>idle\<close> the rounded share of them that the load leaves, and
  \<open>memory\<close> in GiB.
\<close>

definition thread_step :: "nat \<Rightarrow> nat" where
  "thread_step r = (if 64 \<le> r then 64 else if 32 \<le> r then 32 else if 16 \<le> r then 16
     else if 8 \<le> r then 8 else if 4 \<le> r then 4 else if 2 \<le> r then 2 else 1)"

definition codec_thread_num :: "nat \<Rightarrow> nat \<Rightarrow> nat \<Rightarrow> nat \<Rightarrow> nat" where
  "codec_thread_num cpus idle memory limit =
    (let res = min idle (cpus div 2);
         res = min res (memory div 2)
     in min (thread_step res) limit)"


section \<open>Counting votes\<close>

lemma count_pref_map_of:
  "map_of (count_pref p cs) q = (if q = p then Some (case map_of cs p of None \<Rightarrow> 1 | Some n \<Rightarrow> n + 1) else map_of cs q)"
  by (induction p cs rule: count_pref.induct) auto

lemma count_pref_keys: "fst ` set (count_pref p cs) = insert p (fst ` set cs)"
  by (induction p cs rule: count_pref.induct) auto

lemma count_pref_distinct: "distinct (map fst cs) \<Longrightarrow> distinct (map fst (count_pref p cs))"
proof (induction p cs rule: count_pref.induct)
  case (2 p q n cs)
  then show ?case using count_pref_keys [of p cs] by (auto simp flip: set_map)
qed simp

lemma fold_count_pref:
  assumes "distinct (map fst cs)"
  shows "distinct (map fst (fold count_pref ps cs)) \<and>
    map_of (fold count_pref ps cs) q =
      (if q \<in> set ps then Some ((case map_of cs q of None \<Rightarrow> 0 | Some n \<Rightarrow> n) + count_list ps q) else map_of cs q)"
  using assms
proof (induction ps arbitrary: cs)
  case (Cons p ps)
  have "distinct (map fst (count_pref p cs))" using count_pref_distinct Cons.prems by blast
  from Cons.IH [OF this] show ?case
    by (auto simp: count_pref_map_of split: option.splits)
qed simp

lemma in_counts_iff:
  "(p, n) \<in> set (fold count_pref ps []) \<longleftrightarrow> p \<in> set ps \<and> n = count_list ps p"
proof -
  have "distinct (map fst (fold count_pref ps []))" using fold_count_pref [of "[]" ps] by simp
  then have "(p, n) \<in> set (fold count_pref ps []) \<longleftrightarrow> map_of (fold count_pref ps []) p = Some n"
    by simp
  also have "\<dots> \<longleftrightarrow> p \<in> set ps \<and> n = count_list ps p"
    using fold_count_pref [of "[]" ps p] by auto
  finally show ?thesis .
qed

lemma foldr_max_ge: "x \<in> set xs \<Longrightarrow> x \<le> foldr max xs (0 :: nat)"
  by (induction xs) auto

lemma foldr_max_in: "xs \<noteq> [] \<Longrightarrow> foldr max xs (0 :: nat) \<in> set xs"
proof (induction xs)
  case (Cons x xs)
  then show ?case by (cases "xs = []") (auto simp: max_def)
qed simp

lemma most_frequent_Nil [simp]: "most_frequent [] = PreferAuto"
  by (simp add: most_frequent_def)

lemma most_frequent_max:
  assumes "ps \<noteq> []"
  shows "most_frequent ps \<in> set ps \<and> (\<forall>q. count_list ps q \<le> count_list ps (most_frequent ps))"
proof -
  let ?cs = "fold count_pref ps []"
  let ?m = "foldr max (map snd ?cs) 0"
  obtain p0 where "p0 \<in> set ps" using assms by (cases ps) auto
  then have ne: "?cs \<noteq> []" using in_counts_iff [of p0 "count_list ps p0" ps] by auto
  have "?m \<in> set (map snd ?cs)" by (rule foldr_max_in) (use ne in simp)
  then obtain q where q: "(q, ?m) \<in> set ?cs" by auto
  then obtain p n where f: "find (\<lambda>(_, n). n = ?m) ?cs = Some (p, n)"
    by (cases "find (\<lambda>(_, n). n = ?m) ?cs") (auto simp: find_None_iff)
  then have pn: "(p, n) \<in> set ?cs" "n = ?m" using find_Some_iff_in [OF f] by auto
  have mf: "most_frequent ps = p" using f by (simp add: most_frequent_def)
  have p: "p \<in> set ps" "?m = count_list ps p" using pn in_counts_iff by blast+
  have "count_list ps q' \<le> count_list ps p" for q'
  proof (cases "q' \<in> set ps")
    case True
    then have "(q', count_list ps q') \<in> set ?cs" using in_counts_iff by blast
    then have "count_list ps q' \<in> set (map snd ?cs)" by force
    then show ?thesis using foldr_max_ge p(2) by metis
  next
    case False
    then show ?thesis by (simp add: count_notin)
  qed
  then show ?thesis using p mf by simp
qed

definition decodes :: "codec_format \<Rightarrow> supported_decoding \<Rightarrow> bool" where
  "decodes f s = (case f of VP8 \<Rightarrow> 0 < ability_vp8 s | VP9 \<Rightarrow> 0 < ability_vp9 s | AV1 \<Rightarrow> 0 < ability_av1 s
     | H264 \<Rightarrow> 0 < ability_h264 s | H265 \<Rightarrow> 0 < ability_h265 s | Unknown \<Rightarrow> False)"

definition encoder_found :: "codec_env \<Rightarrow> world \<Rightarrow> codec_format \<Rightarrow> bool" where
  "encoder_found V w f \<longleftrightarrow> ce_vram V \<and> enable_vram_option V w True \<and> ce_vram_encoder V f
     \<or> ce_hwcodec V \<and> enable_hwcodec_option V w \<and> ce_hw_encoder V f \<noteq> None"

definition can_encode :: "codec_env \<Rightarrow> world \<Rightarrow> codec_format \<Rightarrow> bool" where
  "can_encode V w f = (case f of VP8 \<Rightarrow> True | VP9 \<Rightarrow> True | AV1 \<Rightarrow> \<not> disable_av1 V
     | H264 \<Rightarrow> encoder_found V w H264 | H265 \<Rightarrow> encoder_found V w H265 | Unknown \<Rightarrow> False)"

fun usable_field :: "usable \<Rightarrow> codec_format \<Rightarrow> bool" where
  "usable_field u VP8 = us_vp8 u"
| "usable_field u VP9 = True"
| "usable_field u AV1 = us_av1 u"
| "usable_field u H264 = us_h264 u"
| "usable_field u H265 = us_h265 u"
| "usable_field u Unknown = False"

lemma usable_field_sound:
  "usable_field (usable_codecs V w ds) f \<Longrightarrow>
    can_encode V w f \<and> (f = VP9 \<or> all_peers (decodes f) ds)"
  by (cases f) (auto simp: usable_codecs_def Let_def can_encode_def encoder_found_def all_peers_def
      decodes_def list_all_iff)

lemma auto_codec_usable: "usable_field u (auto_codec V w u)"
  by (simp add: auto_codec_def Let_def)

lemma encoder_update_usable:
  "usable_field (usable_codecs V w (es_decodings (encoder_update V w upd st))) (es_format (encoder_update V w upd st))"
proof -
  let ?ds = "apply_update upd (es_decodings st)"
  let ?u = "usable_codecs V w ?ds"
  let ?prefs = "map (\<lambda>(_, s). sd_prefer s) (filter (\<lambda>(_, s). pref_usable ?u (sd_prefer s)) ?ds)"
  have "most_frequent ?prefs = PreferAuto \<or> pref_usable ?u (most_frequent ?prefs)"
  proof (cases "?prefs = []")
    case False
    then show ?thesis using most_frequent_max [OF False] by auto
  qed (simp only: most_frequent_Nil, simp)
  then show ?thesis using auto_codec_usable [of ?u V w]
    by (cases "most_frequent ?prefs") (simp_all add: encoder_update_def Let_def pref_usable_def)
qed

section \<open>Votes and orders\<close>

fun pref_format :: "prefer_codec \<Rightarrow> codec_format option" where
  "pref_format PreferVP8 = Some VP8"
| "pref_format PreferVP9 = Some VP9"
| "pref_format PreferAV1 = Some AV1"
| "pref_format PreferH264 = Some H264"
| "pref_format PreferH265 = Some H265"
| "pref_format _ = None"

text \<open>The preferences that count, and the number of votes for one.\<close>

definition counted :: "codec_env \<Rightarrow> world \<Rightarrow> (int \<times> supported_decoding) list \<Rightarrow> prefer_codec list" where
  "counted V w ds = filter (pref_usable (usable_codecs V w ds)) (map (\<lambda>(_, s). sd_prefer s) ds)"

definition votes :: "codec_env \<Rightarrow> world \<Rightarrow> (int \<times> supported_decoding) list \<Rightarrow> prefer_codec \<Rightarrow> nat" where
  "votes V w ds p = count_list (counted V w ds) p"

definition pick_format :: "codec_env \<Rightarrow> world \<Rightarrow> usable \<Rightarrow> prefer_codec \<Rightarrow> codec_format" where
  "pick_format V w u p = (case pref_format p of None \<Rightarrow> auto_codec V w u | Some f \<Rightarrow> f)"

lemma counted_alt:
  "map (\<lambda>(_, s). sd_prefer s) (filter (\<lambda>(_, s). P (sd_prefer s)) ds) = filter P (map (\<lambda>(_, s). sd_prefer s) ds)"
  by (induction ds) auto

lemma most_frequent_counted:
  "most_frequent (counted V w ds) = PreferAuto \<or> pref_usable (usable_codecs V w ds) (most_frequent (counted V w ds))"
proof (cases "counted V w ds = []")
  case False
  then show ?thesis using most_frequent_max [OF False] by (auto simp: counted_def)
qed (simp only: most_frequent_Nil, simp)

lemma encoder_update_format:
  "es_format (encoder_update V w upd st) =
    (let ds = apply_update upd (es_decodings st) in pick_format V w (usable_codecs V w ds) (most_frequent (counted V w ds)))"
proof -
  let ?ds = "apply_update upd (es_decodings st)"
  have *: "map (\<lambda>(_, s). sd_prefer s) (filter (\<lambda>(_, s). pref_usable (usable_codecs V w ?ds) (sd_prefer s)) ?ds)
    = counted V w ?ds" unfolding counted_def by (rule counted_alt)
  let ?u = "usable_codecs V w ?ds"
  let ?m = "most_frequent (counted V w ?ds)"
  have "es_format (encoder_update V w upd st) = (case ?m of
            PreferVP8 \<Rightarrow> VP8 | PreferVP9 \<Rightarrow> VP9 | PreferAV1 \<Rightarrow> AV1
          | PreferH264 \<Rightarrow> if us_h264 ?u then H264 else auto_codec V w ?u
          | PreferH265 \<Rightarrow> if us_h265 ?u then H265 else auto_codec V w ?u
          | PreferAuto \<Rightarrow> auto_codec V w ?u
          | PreferUnrecognized _ \<Rightarrow> auto_codec V w ?u)"
    unfolding encoder_update_def Let_def * by simp
  also have "\<dots> = pick_format V w ?u ?m"
    using most_frequent_counted [of V w ?ds]
    by (cases ?m) (simp_all add: pick_format_def pref_usable_def)
  finally show ?thesis unfolding Let_def .
qed

lemma encoder_update_decodings [simp]:
  "es_decodings (encoder_update V w upd st) = apply_update upd (es_decodings st)"
  by (simp add: encoder_update_def Let_def)

lemma usable_codecs_mset:
  assumes "mset ds = mset ds'" shows "usable_codecs V w ds = usable_codecs V w ds'"
proof -
  have "all_peers P ds = all_peers P ds'" for P
    using mset_eq_setD [OF assms] mset_eq_length [OF assms] by (simp add: all_peers_def list_all_iff)
  then show ?thesis by (simp add: usable_codecs_def Let_def)
qed

lemma counted_mset:
  assumes "mset ds = mset ds'" shows "mset (counted V w ds) = mset (counted V w ds')"
  using assms usable_codecs_mset [OF assms] by (simp add: counted_def)

lemma count_list_mset: "count_list xs x = count (mset xs) x"
  by (induction xs) auto

lemma most_frequent_strict:
  assumes "p \<in> set ps" "\<And>q. q \<noteq> p \<Longrightarrow> count_list ps q < count_list ps p"
  shows "most_frequent ps = p"
proof -
  have "ps \<noteq> []" using assms(1) by auto
  from most_frequent_max [OF this] assms(2) [of "most_frequent ps"] show ?thesis
    using leD by blast
qed

text \<open>Updates that are not about the peer keep what it announced.\<close>

definition about_peer :: "int \<Rightarrow> encoding_update \<Rightarrow> bool" where
  "about_peer i u = (case u of Update j _ \<Rightarrow> j = i | Remove j \<Rightarrow> j = i | NewOnlyVP9 j \<Rightarrow> j = i | Check \<Rightarrow> False)"

lemma apply_update_other:
  "\<not> about_peer i u \<Longrightarrow> map_of (apply_update u ds) i = map_of ds i"
  by (cases u) (auto simp: apply_update_def about_peer_def update_conv' delete_conv')

lemma fold_update_other:
  assumes "list_all (\<lambda>u. \<not> about_peer i u) us"
  shows "map_of (es_decodings (fold (encoder_update V w) us st)) i = map_of (es_decodings st) i"
  using assms by (induction us arbitrary: st) (simp_all add: apply_update_other)

lemma mark_ability:
  "decodes f (mark g d) = (f \<noteq> g \<and> decodes f d)"
  by (cases g; cases f) (simp_all add: decodes_def)

lemma fold_mark_ability: "decodes f (fold mark ms d) = (f \<notin> set ms \<and> decodes f d)"
  by (induction ms arbitrary: d) (auto simp: mark_ability)

definition sound_format :: "codec_env \<Rightarrow> world \<Rightarrow> encoder_state \<Rightarrow> bool" where
  "sound_format V w st \<longleftrightarrow> can_encode V w (es_format st)
    \<and> (es_format st = VP9 \<or> all_peers (decodes (es_format st)) (es_decodings st))"

lemma encoder_update_sound: "sound_format V w (encoder_update V w u st)"
  using usable_field_sound [OF encoder_update_usable] unfolding sound_format_def .

lemma fold_encoder_sound: "sound_format V w st \<Longrightarrow> sound_format V w (fold (encoder_update V w) us st)"
  by (induction us arbitrary: st) (auto intro: encoder_update_sound)

lemma sound_undecodable:
  assumes "sound_format V w st" "map_of (es_decodings st) i = Some d" "\<not> decodes f d" "f \<noteq> VP9"
  shows "es_format st \<noteq> f"
proof
  assume f: "es_format st = f"
  have "all_peers (decodes f) (es_decodings st)" using assms(1,4) f by (auto simp: sound_format_def)
  moreover have "(i, d) \<in> set (es_decodings st)" using map_of_SomeD [OF assms(2)] .
  ultimately show False using assms(3) by (auto simp: all_peers_def list_all_iff)
qed

section \<open>Properties of the negotiation\<close>

text \<open>A 64-bit machine with 16 GB and no hardware codecs, and a peer that decodes VP8, VP9 and AV1.\<close>

definition demo_codec_env :: codec_env where
  "demo_codec_env = \<lparr>ce_hwcodec = False, ce_vram = False, ce_mediacodec = False, ce_ios = False,
     ce_windows = False, ce_hw_encoder = (\<lambda>_. None), ce_vram_encoder = (\<lambda>_. False),
     ce_hw_decoder = (\<lambda>_. False), ce_vram_decoder = (\<lambda>_ _. False), ce_media_decoder = (\<lambda>_. False),
     ce_pointer_bytes = 8, ce_total_memory = 17179869184\<rparr>"

definition demo_peer :: "prefer_codec \<Rightarrow> supported_decoding" where
  "demo_peer p = default_decoding\<lparr>ability_vp8 := 1, ability_vp9 := 1, ability_av1 := 1, sd_prefer := p\<rparr>"

definition encoder_start :: encoder_state where
  "encoder_start = \<lparr>es_decodings = [], es_format = VP9, es_usable = None\<rparr>"

lemmas demo_negotiation = encoder_update_format apply_update_def usable_codecs_def all_peers_def
  demo_codec_env_def demo_peer_def encoder_start_def default_decoding_def disable_av1_def counted_def
  pref_usable_def pick_format_def

text \<open>
  C7: Whatever the peers announce and however they come and go, the negotiated format is one that
  this machine can encode and, except for the base format VP9, one that every connected peer
  announced it decodes (and then some peer is connected).
\<close>

theorem negotiated_decodable:
  "let st' = encoder_update V w upd st in
     can_encode V w (negotiated_codec st')
     \<and> (negotiated_codec st' = VP9 \<or> all_peers (decodes (negotiated_codec st')) (es_decodings st'))"
  unfolding Let_def negotiated_codec_def using encoder_update_sound [of V w upd st]
  unfolding sound_format_def .

text \<open>
  When a peer prefers a usable codec, the negotiated codec is the preference of some peer, and
  no usable preference has more votes.
\<close>

theorem negotiation_majority:
  assumes "counted V w (apply_update upd (es_decodings st)) \<noteq> []"
  shows "\<exists>p. 0 < votes V w (es_decodings (encoder_update V w upd st)) p
    \<and> pref_format p = Some (negotiated_codec (encoder_update V w upd st))
    \<and> (\<forall>q. votes V w (es_decodings (encoder_update V w upd st)) q
          \<le> votes V w (es_decodings (encoder_update V w upd st)) p)"
proof -
  let ?ds = "apply_update upd (es_decodings st)"
  let ?p = "most_frequent (counted V w ?ds)"
  have m: "?p \<in> set (counted V w ?ds)" "\<forall>q. votes V w ?ds q \<le> votes V w ?ds ?p"
    using most_frequent_max [OF assms] by (simp_all add: votes_def)
  have "pref_usable (usable_codecs V w ?ds) ?p" using m(1) by (simp add: counted_def)
  then have "pref_format ?p \<noteq> None" by (cases ?p) (simp_all add: pref_usable_def)
  then have "pref_format ?p = Some (es_format (encoder_update V w upd st))"
    by (auto simp: encoder_update_format Let_def pick_format_def)
  moreover have "0 < votes V w ?ds ?p"
    using m(1) by (simp add: votes_def count_list_mset count_greater_zero_iff)
  ultimately have "0 < votes V w ?ds ?p \<and> pref_format ?p = Some (es_format (encoder_update V w upd st))
      \<and> (\<forall>q. votes V w ?ds q \<le> votes V w ?ds ?p)" using m(2) by simp
  then show ?thesis unfolding negotiated_codec_def encoder_update_decodings by (rule exI)
qed

lemma negotiation_majority_witness:
  "\<exists>p. pref_format p = Some (negotiated_codec (encoder_update demo_codec_env demo_world
        (Update 2 (demo_peer PreferAV1)) (encoder_start\<lparr>es_decodings := [(1, demo_peer PreferVP8), (3, demo_peer PreferAV1)]\<rparr>)))"
  using negotiation_majority [of demo_codec_env demo_world "Update 2 (demo_peer PreferAV1)"
      "encoder_start\<lparr>es_decodings := [(1, demo_peer PreferVP8), (3, demo_peer PreferAV1)]\<rparr>"]
  by (auto simp: demo_negotiation)

text \<open>
  The peers are kept in a hash map, whose order changes from run to run. When one usable
  preference has strictly more votes than each other one, every order gives the same format,
  that of the winner.
\<close>

theorem negotiation_order_independent:
  assumes "mset (es_decodings st) = mset (es_decodings st')"
    and "p \<in> set (counted V w (es_decodings st))"
    and "\<And>q. q \<noteq> p \<Longrightarrow> votes V w (es_decodings st) q < votes V w (es_decodings st) p"
  shows "pref_format p = Some (negotiated_codec (encoder_update V w Check st))
    \<and> negotiated_codec (encoder_update V w Check st') = negotiated_codec (encoder_update V w Check st)"
proof -
  let ?ds = "es_decodings st" and ?ds' = "es_decodings st'"
  have ms: "mset (counted V w ?ds) = mset (counted V w ?ds')" using counted_mset [OF assms(1)] .
  have 1: "most_frequent (counted V w ?ds) = p"
    by (rule most_frequent_strict) (use assms(2,3) in \<open>simp_all add: votes_def\<close>)
  have 2: "most_frequent (counted V w ?ds') = p"
    by (rule most_frequent_strict)
      (use assms(2,3) mset_eq_setD [OF ms] in \<open>simp_all add: votes_def count_list_mset ms\<close>)
  have "pref_usable (usable_codecs V w ?ds) p" using assms(2) by (simp add: counted_def)
  then have "pref_format p \<noteq> None" by (cases p) (simp_all add: pref_usable_def)
  then show ?thesis using 1 2
    by (auto simp: negotiated_codec_def encoder_update_format Let_def pick_format_def apply_update_def)
qed

lemma negotiation_order_independent_witness:
  "negotiated_codec (encoder_update demo_codec_env demo_world Check
      (encoder_start\<lparr>es_decodings := [(1, demo_peer PreferVP8), (2, demo_peer PreferAV1), (3, demo_peer PreferAV1)]\<rparr>))
   = negotiated_codec (encoder_update demo_codec_env demo_world Check
      (encoder_start\<lparr>es_decodings := [(2, demo_peer PreferAV1), (1, demo_peer PreferVP8), (3, demo_peer PreferAV1)]\<rparr>))"
  using negotiation_order_independent [of
      "encoder_start\<lparr>es_decodings := [(2, demo_peer PreferAV1), (1, demo_peer PreferVP8), (3, demo_peer PreferAV1)]\<rparr>"
      "encoder_start\<lparr>es_decodings := [(1, demo_peer PreferVP8), (2, demo_peer PreferAV1), (3, demo_peer PreferAV1)]\<rparr>"
      PreferAV1 demo_codec_env demo_world]
  by (auto simp: demo_negotiation votes_def)

text \<open>
  A decoder that failed for a format is announced as unsupported, and as long as its peer
  announces nothing else, no update of the other peers makes the encoder use the format, unless
  it is VP9.
\<close>

theorem unsupported_not_negotiated:
  assumes "f \<in> set failed" "f \<noteq> VP9" "list_all (\<lambda>u. \<not> about_peer i u) us"
  shows "negotiated_codec (fold (encoder_update V w) us
    (encoder_update V w (Update i (supported_decodings V' w' opts texture luid failed)) st)) \<noteq> f"
proof -
  let ?d = "supported_decodings V' w' opts texture luid failed"
  let ?st = "encoder_update V w (Update i ?d) st"
  have "sound_format V w (fold (encoder_update V w) us ?st)"
    by (rule fold_encoder_sound [OF encoder_update_sound])
  moreover have "map_of (es_decodings (fold (encoder_update V w) us ?st)) i = Some ?d"
    by (simp add: fold_update_other [OF assms(3)] apply_update_def update_conv')
  moreover have "\<not> decodes f ?d"
    using assms(1) by (simp add: supported_decodings_def Let_def split_beta fold_mark_ability)
  ultimately show ?thesis
    unfolding negotiated_codec_def using assms(2) by (rule sound_undecodable)
qed

lemma unsupported_not_negotiated_witness:
  "negotiated_codec (fold (encoder_update demo_codec_env demo_world)
     [Update 2 (demo_peer PreferAV1), Check, Remove 3]
     (encoder_update demo_codec_env demo_world
       (Update 1 (supported_decodings demo_codec_env demo_world None False None [AV1])) encoder_start)) \<noteq> AV1"
  by (rule unsupported_not_negotiated) (simp_all add: about_peer_def)

text \<open>
  The exception for VP9 is real: a single peer that announces VP8 only, because its VP9 decoder
  failed, is sent VP9.
\<close>

theorem vp9_negotiated_undecodable:
  "let d = mark VP9 (demo_peer PreferAuto\<lparr>ability_av1 := 0\<rparr>);
       st = encoder_update demo_codec_env demo_world (Update 1 d) encoder_start
   in decodes VP8 d \<and> \<not> decodes VP9 d \<and> es_decodings st = [(1, d)] \<and> negotiated_codec st = VP9"
  by (simp add: demo_negotiation Let_def decodes_def negotiated_codec_def auto_codec_def)

section \<open>Properties of the decoder\<close>

fun frame_format :: "video_union \<Rightarrow> codec_format option" where
  "frame_format (Vp8s _) = Some VP8"
| "frame_format (Vp9s _) = Some VP9"
| "frame_format (Av1s _) = Some AV1"
| "frame_format (H264s _) = Some H264"
| "frame_format (H265s _) = Some H265"
| "frame_format OtherFrame = None"

lemma hardware_decoder_kind:
  "hardware_decoder V w made f luid = Some k \<Longrightarrow>
    made k \<and> (k = KVram f \<and> ce_vram V \<or> k = KRam f \<and> ce_hwcodec V \<or> k = KMedia f \<and> ce_mediacodec V)"
  by (simp add: hardware_decoder_def Let_def split: if_splits)

lemma decoder_new_h26x:
  "fmt = H264 \<or> fmt = H265 \<Longrightarrow> decoder_new V w made fmt luid =
    \<lparr>dec_has = only (hardware_decoder V w made fmt luid), dec_format = fmt,
      dec_valid = (hardware_decoder V w made fmt luid \<noteq> None)\<rparr>"
  by (auto simp: decoder_new_def Let_def)

text \<open>
  A decoder made for a format has a decoder for the frames of that format and refuses all other
  frames with an error: every frame it accepts goes to a library decoder that could be made.
  (The features for the media codec and for the other hardware decoders exclude each other.)
\<close>

theorem decoder_accepts_format:
  assumes "\<not> (ce_mediacodec V \<and> (ce_hwcodec V \<or> ce_vram V))"
  shows "if dec_valid (decoder_new V w made fmt luid) \<and> frame_format fr = Some fmt
    then \<exists>k. pick_decoder V (decoder_new V w made fmt luid) fr = Inr k \<and> made k
    else \<exists>e. pick_decoder V (decoder_new V w made fmt luid) fr = Inl e"
proof -
  let ?d = "decoder_new V w made fmt luid"
  show ?thesis
  proof (cases "dec_valid ?d")
    case True
    show ?thesis
    proof (cases "fmt = H264 \<or> fmt = H265")
      case h26x: True
      obtain k where hk: "hardware_decoder V w made fmt luid = Some k"
        using True decoder_new_h26x [OF h26x] by auto
      have has: "dec_has ?d = only (Some k)" using hk decoder_new_h26x [OF h26x] by simp
      have made: "made k" using hardware_decoder_kind [OF hk] by simp
      from hardware_decoder_kind [OF hk]
      consider "k = KVram fmt" "ce_vram V" | "k = KRam fmt" "ce_hwcodec V" | "k = KMedia fmt" "ce_mediacodec V"
        by blast
      then show ?thesis
        by cases (use True has made h26x assms in \<open>cases fr; auto simp: pick_decoder_def only_def\<close>)+
    next
      case False
      show ?thesis using True False
        by (cases fmt; cases fr) (simp_all add: pick_decoder_def decoder_new_def Let_def only_def split: if_splits)
    qed
  next
    case False
    then have "dec_has ?d = only None" by (simp add: decoder_new_def Let_def)
    then show ?thesis using False by (cases fr) (simp_all add: pick_decoder_def Let_def only_def)
  qed
qed

lemma decoder_accepts_format_witness:
  "\<exists>k. pick_decoder demo_codec_env (decoder_new demo_codec_env demo_world (\<lambda>_. True) AV1 None) (Av1s []) = Inr k"
  using decoder_accepts_format [of demo_codec_env demo_world "\<lambda>_. True" AV1 None "Av1s []"]
  by (simp add: demo_codec_env_def decoder_new_def Let_def)

lemma last_image_Some: "last_image l images = (if images = [] then l else Some (last images))"
  unfolding last_image_def by (induction images arbitrary: l) auto

text \<open>The images that the packets yield, or the first error.\<close>

fun all_images ::
  "('s \<Rightarrow> bytes \<Rightarrow> (string + 'i list) \<times> 's) \<Rightarrow> bytes list \<Rightarrow> 's \<Rightarrow> (string + 'i list) \<times> 's" where
  "all_images lib_decode [] s = (Inr [], s)"
| "all_images lib_decode (p # ps) s =
    (case lib_decode s p of
       (Inl e, s) \<Rightarrow> (Inl e, s)
     | (Inr is, s) \<Rightarrow> (case all_images lib_decode ps s of (Inl e, s) \<Rightarrow> (Inl e, s) | (Inr js, s) \<Rightarrow> (Inr (is @ js), s)))"

lemma decode_packets_images:
  "decode_packets lib_decode l ps s =
    (case all_images lib_decode ps s of (Inl e, s) \<Rightarrow> (Inl e, s) | (Inr is, s) \<Rightarrow> (Inr (last_image l is), s))"
  by (induction lib_decode l ps s rule: decode_packets.induct)
    (auto simp: last_image_Some split: sum.splits prod.splits)

text \<open>
  A software frame shows the last of all images that its packets and the flush yield, and
  touches the picture and its chroma in no other case, errors included.
\<close>

theorem software_frame_last_image:
  "handle_software_frame lib k packets out =
    (case all_images (cl_decode lib k) packets (fo_lib out) of
       (Inl e, s) \<Rightarrow> (Inl e, out\<lparr>fo_lib := s\<rparr>)
     | (Inr is, s) \<Rightarrow>
         (case cl_flush lib k s of
            (Inl e, s) \<Rightarrow> (Inl e, out\<lparr>fo_lib := s\<rparr>)
          | (Inr js, s) \<Rightarrow>
              if is @ js = [] then (Inr False, out\<lparr>fo_lib := s\<rparr>)
              else (Inr True, out\<lparr>fo_lib := s, fo_chroma := Some (cl_chroma lib (last (is @ js))),
                                  fo_rgb := cl_to_rgb lib (last (is @ js)) (fo_rgb out)\<rparr>)))"
  unfolding handle_software_frame_def
  by (auto simp: decode_packets_images last_image_Some split: sum.splits prod.splits)

lemma thread_step_power: "thread_step r \<in> {1, 2, 4, 8, 16, 32, 64}"
  by (simp add: thread_step_def)

lemma thread_step_le: "thread_step r \<le> max 1 r"
  by (simp add: thread_step_def)

text \<open>
  The number of codec threads is a power of two up to 64, or the caller's limit when that is
  smaller, and it asks for more than one thread only when half of the processors and half of
  the gigabytes of memory are that many.
\<close>

theorem codec_thread_num_bounds:
  "codec_thread_num cpus idle memory limit \<in> {limit, 1, 2, 4, 8, 16, 32, 64}
   \<and> codec_thread_num cpus idle memory limit \<le> limit
   \<and> codec_thread_num cpus idle memory limit \<le> max 1 (min idle (min (cpus div 2) (memory div 2)))"
proof -
  let ?r = "min (min idle (cpus div 2)) (memory div 2)"
  define t where "t = thread_step ?r"
  have eq: "codec_thread_num cpus idle memory limit = min t limit"
    by (simp add: codec_thread_num_def Let_def t_def)
  have le: "t \<le> max 1 (min idle (min (cpus div 2) (memory div 2)))"
    using thread_step_le [of ?r] unfolding t_def by (simp only: min.assoc)
  have mem: "t \<in> {1, 2, 4, 8, 16, 32, 64}" unfolding t_def by (rule thread_step_power)
  have "min t limit \<in> {limit, 1, 2, 4, 8, 16, 32, 64}"
    using mem by (cases "t \<le> limit") simp_all
  moreover have "min t limit \<le> max 1 (min idle (min (cpus div 2) (memory div 2)))"
    using le min.cobounded1 [of t limit] by (rule le_trans [rotated])
  ultimately show ?thesis unfolding eq by (simp only: min.cobounded2 simp_thms)
qed

end
