(* ===== verification/ClipMsg.thy ===== *)
theory ClipMsg
  imports StrUtil
begin

text \<open>
  The messages of the clipboard and their channels (\<open>libs/clipboard/src/lib.rs\<close>) and the holder of
  the clipboard service (\<open>libs/clipboard/src/context_send.rs\<close>). The global vector of channels is a
  state; a channel is its queue, whose receiver the vector itself keeps alive, so that sending to a
  channel never fails. A receiver is named by the position of its channel in the vector.
\<close>

section \<open>Messages\<close>

datatype clipboard_file =
    NotifyCallback string string string
  | MonitorReady
  | FormatList "(i32 \<times> string) list"
  | FormatListResponse i32
  | FormatDataRequest i32
  | FormatDataResponse (msg_flags: i32) (format_data: bytes)
  | FileContentsRequest (stream_id: i32) (list_index: i32) (dw_flags: i32) (n_position_low: i32)
      (n_position_high: i32) (cb_requested: i32) (have_clip_data_id: bool) (clip_data_id: i32)
  | FileContentsResponse (resp_flags: i32) (resp_stream_id: i32) (requested_data: bytes)

datatype cliprdr_error =
    CliprdrName | CliprdrInit | CliprdrOutOfMemory | ClipboardInternalError | ClipboardOccupied
  | ConversionFailure | OpenClipboard | FileError string | InvalidRequest string | UnknownError u32

definition is_stopping_allowed :: "clipboard_file \<Rightarrow> bool" where
  "is_stopping_allowed m =
    (case m of MonitorReady \<Rightarrow> True | FormatList _ \<Rightarrow> True | FormatDataRequest _ \<Rightarrow> True | _ \<Rightarrow> False)"

definition is_beginning_message :: "clipboard_file \<Rightarrow> bool" where
  "is_beginning_message m = (case m of MonitorReady \<Rightarrow> True | FormatList _ \<Rightarrow> True | _ \<Rightarrow> False)"

section \<open>Channels\<close>

record msg_channel =
  mc_peer :: string
  mc_conn :: i32
  mc_queue :: "clipboard_file list"

record channels =
  ch_vec :: "msg_channel list"
  ch_counter :: i32

text \<open>The position of the first channel that satisfies \<open>P\<close>.\<close>

fun channel_index :: "(msg_channel \<Rightarrow> bool) \<Rightarrow> msg_channel list \<Rightarrow> nat option" where
  "channel_index P [] = None"
| "channel_index P (c # cs) = (if P c then Some 0 else map_option Suc (channel_index P cs))"

definition get_client_conn_id :: "channels \<Rightarrow> string \<Rightarrow> i32 option" where
  "get_client_conn_id s peer = map_option mc_conn (find (\<lambda>x. mc_peer x = peer) (ch_vec s))"

definition get_conn_id :: "channels \<Rightarrow> i32 \<times> channels" where
  "get_conn_id s = (ch_counter s + 1, s\<lparr>ch_counter := ch_counter s + 1\<rparr>)"

definition get_rx_cliprdr_client :: "channels \<Rightarrow> string \<Rightarrow> (i32 \<times> nat) \<times> channels" where
  "get_rx_cliprdr_client s peer =
    (case channel_index (\<lambda>x. mc_peer x = peer) (ch_vec s) of
       Some i \<Rightarrow> ((mc_conn (ch_vec s ! i), i), s)
     | None \<Rightarrow>
         let (conn, s) = get_conn_id s
         in ((conn, length (ch_vec s)),
             s\<lparr>ch_vec := ch_vec s @ [\<lparr>mc_peer = peer, mc_conn = conn, mc_queue = []\<rparr>]\<rparr>))"

definition get_rx_cliprdr_server :: "channels \<Rightarrow> i32 \<Rightarrow> nat \<times> channels" where
  "get_rx_cliprdr_server s conn =
    (case channel_index (\<lambda>x. mc_conn x = conn) (ch_vec s) of
       Some i \<Rightarrow> (i, s)
     | None \<Rightarrow> (length (ch_vec s), s\<lparr>ch_vec := ch_vec s @ [\<lparr>mc_peer = [], mc_conn = conn, mc_queue = []\<rparr>]\<rparr>))"

definition push_msg :: "clipboard_file \<Rightarrow> msg_channel \<Rightarrow> msg_channel" where
  "push_msg m c = c\<lparr>mc_queue := mc_queue c @ [m]\<rparr>"

definition send_data_to_channel :: "channels \<Rightarrow> i32 \<Rightarrow> clipboard_file \<Rightarrow> (string + unit) \<times> channels" where
  "send_data_to_channel s conn m =
    (case channel_index (\<lambda>x. mc_conn x = conn) (ch_vec s) of
       Some i \<Rightarrow> (Inr (), s\<lparr>ch_vec := (ch_vec s)[i := push_msg m (ch_vec s ! i)]\<rparr>)
     | None \<Rightarrow> (Inl ''conn_id not found'', s))"

definition send_data_to_all :: "channels \<Rightarrow> clipboard_file \<Rightarrow> channels" where
  "send_data_to_all s m = s\<lparr>ch_vec := map (push_msg m) (ch_vec s)\<rparr>"

text \<open>On Windows there is no broadcast; elsewhere connection 0 is everyone.\<close>

definition send_data :: "bool \<Rightarrow> channels \<Rightarrow> i32 \<Rightarrow> clipboard_file \<Rightarrow> (string + unit) \<times> channels" where
  "send_data windows s conn m =
    (if windows then send_data_to_channel s conn m
     else if conn = 0 then (Inr (), send_data_to_all s m)
     else (Inr (), snd (send_data_to_channel s conn m)))"

section \<open>The holder of the service\<close>

text \<open>
  \<open>ContextSend\<close> holds an optional service of type \<open>'c\<close>; \<open>create\<close> makes one or fails.
\<close>

definition is_enabled :: "'c option \<Rightarrow> bool" where
  "is_enabled a \<longleftrightarrow> a \<noteq> None"

definition ctx_enable :: "(cliprdr_error + 'c) \<Rightarrow> bool \<Rightarrow> 'c option \<Rightarrow> 'c option" where
  "ctx_enable create enabled a =
    (if enabled then
       (case a of Some c \<Rightarrow> Some c
        | None \<Rightarrow> (case create of Inr c \<Rightarrow> Some c | Inl _ \<Rightarrow> None))
     else None)"

definition make_sure_enabled :: "(cliprdr_error + 'c) \<Rightarrow> 'c option \<Rightarrow> (cliprdr_error + unit) \<times> 'c option" where
  "make_sure_enabled create a =
    (case a of Some c \<Rightarrow> (Inr (), Some c)
     | None \<Rightarrow> (case create of Inl e \<Rightarrow> (Inl e, None) | Inr c \<Rightarrow> (Inr (), Some c)))"

definition ctx_proc :: "('c \<Rightarrow> (cliprdr_error + unit) \<times> 'c) \<Rightarrow> 'c option \<Rightarrow> (cliprdr_error + unit) \<times> 'c option" where
  "ctx_proc f a =
    (case a of None \<Rightarrow> (Inr (), None) | Some c \<Rightarrow> let (r, c) = f c in (r, Some c))"

section \<open>Facts about channels\<close>

lemma channel_index_Some:
  "channel_index P cs = Some i \<Longrightarrow> i < length cs \<and> P (cs ! i) \<and> (\<forall>j<i. \<not> P (cs ! j))"
proof (induction cs arbitrary: i)
  case (Cons c cs)
  then show ?case by (auto split: if_splits simp: nth_Cons' less_Suc_eq_0_disj)
qed simp

lemma channel_index_None: "channel_index P cs = None \<longleftrightarrow> list_all (\<lambda>c. \<not> P c) cs"
  by (induction cs) auto

lemma channel_index_append:
  "channel_index P (cs @ ds) =
    (case channel_index P cs of Some i \<Rightarrow> Some i | None \<Rightarrow> map_option (\<lambda>i. length cs + i) (channel_index P ds))"
  by (induction cs; cases "channel_index P ds") (auto split: option.splits)

lemma channel_index_map:
  "(\<And>c. P (f c) = P c) \<Longrightarrow> channel_index P (map f cs) = channel_index P cs"
  by (induction cs) auto

lemma push_msg_simps [simp]:
  "mc_peer (push_msg m c) = mc_peer c" "mc_conn (push_msg m c) = mc_conn c"
  "mc_queue (push_msg m c) = mc_queue c @ [m]"
  by (simp_all add: push_msg_def)

text \<open>The channel a message for a connection goes to.\<close>

definition channel_of :: "channels \<Rightarrow> i32 \<Rightarrow> nat option" where
  "channel_of s conn = channel_index (\<lambda>x. mc_conn x = conn) (ch_vec s)"

lemma channel_index_conn_update:
  "mc_conn c = mc_conn (cs ! i) \<Longrightarrow> channel_index (\<lambda>x. mc_conn x = n) (cs[i := c]) = channel_index (\<lambda>x. mc_conn x = n) cs"
proof (induction cs arbitrary: i)
  case (Cons d cs)
  then show ?case by (cases i) auto
qed simp

lemma channel_of_send [simp]: "channel_of (snd (send_data windows s conn m)) k = channel_of s k"
  by (auto simp: channel_of_def send_data_def send_data_to_channel_def send_data_to_all_def channel_index_map
      channel_index_conn_update split: option.splits)

fun send_all :: "channels \<Rightarrow> i32 \<Rightarrow> clipboard_file list \<Rightarrow> channels" where
  "send_all s conn [] = s"
| "send_all s conn (m # ms) = send_all (snd (send_data False s conn m)) conn ms"

lemma send_one:
  assumes "conn \<noteq> 0" "channel_of s conn = Some i"
  shows "ch_vec (snd (send_data False s conn m)) = (ch_vec s)[i := push_msg m (ch_vec s ! i)]"
  using assms by (simp add: channel_of_def send_data_def send_data_to_channel_def)

lemma channel_index_peers:
  "map mc_peer cs = map mc_peer ds \<Longrightarrow> channel_index (\<lambda>x. mc_peer x = p) cs = channel_index (\<lambda>x. mc_peer x = p) ds"
proof (induction cs arbitrary: ds)
  case (Cons c cs)
  then show ?case by (cases ds) auto
qed simp

lemma find_channel_index: "find P cs = map_option (\<lambda>i. cs ! i) (channel_index P cs)"
  by (induction cs) (auto simp: option.map_comp comp_def)

lemma send_one_shape:
  "map mc_peer (ch_vec (snd (send_data windows s conn m))) = map mc_peer (ch_vec s)"
  "map mc_conn (ch_vec (snd (send_data windows s conn m))) = map mc_conn (ch_vec s)"
  by (auto simp: send_data_def send_data_to_channel_def send_data_to_all_def map_update comp_def
      list_update_same_conv dest: channel_index_Some split: option.splits)

lemma send_all_shape:
  "map mc_peer (ch_vec (send_all s conn ms)) = map mc_peer (ch_vec s)"
  "map mc_conn (ch_vec (send_all s conn ms)) = map mc_conn (ch_vec s)"
  by (induction ms arbitrary: s) (simp_all add: send_one_shape)

lemma get_client_registered:
  assumes "get_rx_cliprdr_client s peer = ((conn, i), s')"
  shows "channel_index (\<lambda>x. mc_peer x = peer) (ch_vec s') = Some i" "mc_conn (ch_vec s' ! i) = conn"
  using assms
  by (auto simp: get_rx_cliprdr_client_def get_conn_id_def Let_def channel_index_append split: option.splits)

section \<open>Properties\<close>

text \<open>
  Messages sent to a connection arrive in the queue of its channel in the order they were sent,
  and no other channel gets them.
\<close>

theorem send_fifo:
  assumes "conn \<noteq> 0" "channel_of s conn = Some i"
  shows "ch_vec (send_all s conn ms) =
    (ch_vec s)[i := (ch_vec s ! i)\<lparr>mc_queue := mc_queue (ch_vec s ! i) @ ms\<rparr>]"
  using assms
proof (induction ms arbitrary: s)
  case (Cons m ms)
  have i: "i < length (ch_vec s)" using channel_index_Some Cons.prems(2) by (auto simp: channel_of_def)
  have "channel_of (snd (send_data False s conn m)) conn = Some i" using Cons.prems(2) by simp
  from Cons.IH [OF Cons.prems(1) this] show ?case
    using i by (simp add: send_one [OF Cons.prems] push_msg_def)
qed simp

definition demo_channels :: channels where
  "demo_channels = snd (get_rx_cliprdr_server (snd (get_rx_cliprdr_client \<lparr>ch_vec = [], ch_counter = 0\<rparr> ''ann'')) 7)"

lemma send_fifo_witness:
  "map mc_queue (ch_vec (send_all demo_channels 7 [MonitorReady, FormatListResponse 1]))
    = [[], [MonitorReady, FormatListResponse 1]]"
  using send_fifo [of 7 demo_channels 1 "[MonitorReady, FormatListResponse 1]"]
  by (simp add: demo_channels_def get_rx_cliprdr_server_def get_rx_cliprdr_client_def get_conn_id_def channel_of_def)

text \<open>
  A peer has one channel: asking again for the channel of a peer, after any messages, gives the
  connection id and the receiver of the first time and changes nothing.
\<close>

theorem client_channel_stable:
  "let (rx, s') = get_rx_cliprdr_client s peer;
       s'' = send_all s' conn ms
   in get_rx_cliprdr_client s'' peer = (rx, s'') \<and> get_client_conn_id s'' peer = Some (fst rx)"
proof -
  obtain conn' i s' where g: "get_rx_cliprdr_client s peer = ((conn', i), s')"
    by (metis prod.exhaust)
  note reg = get_client_registered [OF g]
  let ?s = "send_all s' conn ms"
  have shape: "map mc_peer (ch_vec ?s) = map mc_peer (ch_vec s')"
    "map mc_conn (ch_vec ?s) = map mc_conn (ch_vec s')" by (rule send_all_shape)+
  have pos: "channel_index (\<lambda>x. mc_peer x = peer) (ch_vec ?s) = Some i"
    using reg(1) channel_index_peers [OF shape(1)] by simp
  have len: "length (ch_vec ?s) = length (ch_vec s')" using map_eq_imp_length_eq [OF shape(1)] .
  have "i < length (ch_vec s')" using channel_index_Some [OF reg(1)] by simp
  then have conn: "mc_conn (ch_vec ?s ! i) = conn'"
    using shape(2) reg(2) len by (metis nth_map)
  have "get_rx_cliprdr_client ?s peer = ((conn', i), ?s)"
    using pos conn by (simp add: get_rx_cliprdr_client_def)
  moreover have "get_client_conn_id ?s peer = Some conn'"
    using conn by (simp add: get_client_conn_id_def find_channel_index pos)
  ultimately show ?thesis unfolding g by simp
qed

text \<open>
  The ids of clients and those of the server's connections share one space: a client that
  registers after the server's connection 1 gets the id 1 too, and what is sent to it goes to the
  channel of the connection.
\<close>

theorem conn_id_collision:
  "let (i, s) = get_rx_cliprdr_server \<lparr>ch_vec = [], ch_counter = 0\<rparr> 1;
       ((conn, j), s) = get_rx_cliprdr_client s ''ann'';
       s = snd (send_data True s conn MonitorReady)
   in conn = 1 \<and> i = 0 \<and> j = 1 \<and> mc_queue (ch_vec s ! j) = [] \<and> mc_queue (ch_vec s ! i) = [MonitorReady]"
  by (simp add: get_rx_cliprdr_server_def get_rx_cliprdr_client_def get_conn_id_def send_data_def
      send_data_to_channel_def push_msg_def)

end
