(* ===== verification/FuseFs.thy ===== *)
theory FuseFs
  imports ClipMsg
begin

text \<open>
  The read-only file system that pasted files appear in (\<open>libs/clipboard/src/platform/fuse.rs\<close>):
  the open handles of a node, the tree that is built from the peer's file list, and the operations
  that the kernel calls. Inodes are positions in the vector of nodes plus one; an inode that the
  kernel passes is a \<open>u64\<close>, and \<open>ino as usize - 1\<close> wraps as in a release build. Panics are the
  error \<open>Panicked\<close>; random stream ids and the clock are arguments.
\<close>

section \<open>Open handles\<close>

record file_handles =
  fh_handlers :: "nat list"
  fh_gc :: bool

definition handles_new :: file_handles where
  "handles_new = \<lparr>fh_handlers = [], fh_gc = False\<rparr>"

text \<open>The binary search of the standard library's slices, which assumes a sorted vector.\<close>

function search_base :: "nat list \<Rightarrow> nat \<Rightarrow> nat \<Rightarrow> nat \<Rightarrow> nat" where
  "search_base xs x base n =
    (if n \<le> 1 then base
     else let half = n div 2; mid = base + half
          in search_base xs x (if x < xs ! mid then base else mid) (n - half))"
  by pat_completeness auto
termination by (relation "measure (\<lambda>(_, _, _, n). n)") auto

declare search_base.simps [simp del]

definition binary_search :: "nat list \<Rightarrow> nat \<Rightarrow> nat option" where
  "binary_search xs x =
    (if xs = [] then None
     else let i = search_base xs x 0 (length xs) in if xs ! i = x then Some i else None)"

definition marked :: "file_handles \<Rightarrow> bool" where
  "marked h = fh_gc h"

definition add_handler :: "file_handles \<Rightarrow> nat \<Rightarrow> file_handles option" where
  "add_handler h fh = (if marked h then None else Some (h\<lparr>fh_handlers := fh_handlers h @ [fh]\<rparr>))"

definition have_handler :: "file_handles \<Rightarrow> nat \<Rightarrow> bool" where
  "have_handler h fh \<longleftrightarrow> binary_search (fh_handlers h) fh \<noteq> None"

definition unregister :: "file_handles \<Rightarrow> nat \<Rightarrow> file_handles option" where
  "unregister h fh =
    (case binary_search (fh_handlers h) fh of
       None \<Rightarrow> None
     | Some i \<Rightarrow> Some (h\<lparr>fh_handlers := take i (fh_handlers h) @ drop (Suc i) (fh_handlers h)\<rparr>))"

section \<open>Paths\<close>

text \<open>\<open>Path::components\<close>, \<open>Path::parent\<close> and \<open>Path::file_name\<close>; equal paths have equal components.\<close>

datatype path_comp = RootDir | CurDir | ParentDir | Normal string

definition components :: "string \<Rightarrow> path_comp list" where
  "components s =
    (let ws = split_on CHR ''/'' s;
         start = (if starts_with ''/'' s then [RootDir] else if hd ws = ''.'' then [CurDir] else [])
     in start @ map (\<lambda>w. if w = ''..'' then ParentDir else Normal w) (filter (\<lambda>w. w \<noteq> [] \<and> w \<noteq> ''.'') ws))"

definition path_parent :: "path_comp list \<Rightarrow> path_comp list option" where
  "path_parent cs = (if cs = [] \<or> last cs = RootDir then None else Some (butlast cs))"

definition path_file_name :: "path_comp list \<Rightarrow> string option" where
  "path_file_name cs = (if cs = [] then None else case last cs of Normal n \<Rightarrow> Some n | _ \<Rightarrow> None)"

section \<open>Nodes and the tree\<close>

datatype node_kind = KindFile | KindDirectory | KindSymlink

text \<open>Times are nanoseconds since the epoch.\<close>

record file_description =
  fd_conn_id :: i32
  fd_name :: string
  fd_kind :: node_kind
  fd_atime :: nat
  fd_last_modified :: nat
  fd_last_metadata_changed :: nat
  fd_creation_time :: nat
  fd_size :: u64
  fd_perm :: u16

record inode_attributes =
  ia_inode :: nat
  ia_size :: u64
  ia_last_accessed :: nat
  ia_last_modified :: nat
  ia_last_metadata_changed :: nat
  ia_creation_time :: nat
  ia_kind :: node_kind
  ia_perm :: u16

record fuse_node =
  fn_conn_id :: i32
  fn_stream_id :: i32
  fn_index :: nat
  fn_parent :: "nat option"
  fn_name :: string
  fn_attributes :: inode_attributes
  fn_children :: "nat list"
  fn_handlers :: file_handles

definition perm_read :: u16 where "perm_read = 0b100100100"
definition perm_rw :: u16 where "perm_rw = 0b110100100"
definition perm_self_ro :: u16 where "perm_self_ro = 0b100000000"
definition perm_rwx :: u16 where "perm_rwx = 0b111101101"
definition max_name_len :: nat where "max_name_len = 255"
definition block_size :: nat where "block_size = 4 * 1024 * 1024"

definition attributes_from_description :: "nat \<Rightarrow> nat \<Rightarrow> file_description \<Rightarrow> inode_attributes" where
  "attributes_from_description now inode desc =
    \<lparr>ia_inode = inode, ia_size = fd_size desc, ia_last_accessed = now,
     ia_last_modified = fd_last_modified desc, ia_last_metadata_changed = fd_last_metadata_changed desc,
     ia_creation_time = fd_creation_time desc, ia_kind = fd_kind desc, ia_perm = fd_perm desc\<rparr>"

definition attributes_new :: "nat \<Rightarrow> nat \<Rightarrow> u64 \<Rightarrow> u16 \<Rightarrow> node_kind \<Rightarrow> inode_attributes" where
  "attributes_new now inode sz perm kind =
    \<lparr>ia_inode = inode, ia_size = sz, ia_last_accessed = now, ia_last_modified = now,
     ia_last_metadata_changed = now, ia_creation_time = now, ia_kind = kind, ia_perm = perm\<rparr>"

definition from_description :: "(nat \<Rightarrow> i32) \<Rightarrow> nat \<Rightarrow> nat \<Rightarrow> file_description \<Rightarrow> fuse_node" where
  "from_description rnd now inode desc =
    \<lparr>fn_conn_id = fd_conn_id desc, fn_stream_id = rnd inode, fn_index = inode - 2, fn_parent = None,
     fn_name = fd_name desc, fn_attributes = attributes_from_description now inode desc,
     fn_children = [], fn_handlers = handles_new\<rparr>"

definition new_root :: "(nat \<Rightarrow> i32) \<Rightarrow> nat \<Rightarrow> fuse_node" where
  "new_root rnd now =
    \<lparr>fn_conn_id = 0, fn_stream_id = rnd 1, fn_index = 0, fn_parent = None, fn_name = ''/'',
     fn_attributes = attributes_new now 1 0 perm_rwx KindDirectory, fn_children = [], fn_handlers = handles_new\<rparr>"

definition add_child :: "nat \<Rightarrow> fuse_node \<Rightarrow> fuse_node" where
  "add_child inode n = n\<lparr>fn_children := fn_children n @ [inode]\<rparr>"

text \<open>One round of the loop of \<open>build_tree\<close>, on the nodes and the directories seen so far.\<close>

type_synonym tree_state = "fuse_node list \<times> (path_comp list \<Rightarrow> nat option)"

definition add_file :: "(nat \<Rightarrow> i32) \<Rightarrow> nat \<Rightarrow> file_description \<Rightarrow> tree_state \<Rightarrow> cliprdr_error + tree_state" where
  "add_file rnd now file st =
    (let (tree, sub_root) = st;
         name = components (fd_name file);
         inode = length tree + 1;
         parent_inode = (case path_parent name of
             Some parent \<Rightarrow> (case sub_root parent of Some i \<Rightarrow> i | None \<Rightarrow> 1)
           | None \<Rightarrow> 1);
         tree = tree[parent_inode - 1 := add_child inode (tree ! (parent_inode - 1))]
     in case path_file_name name of
          None \<Rightarrow> Inl (FileError (fd_name file))
        | Some base \<Rightarrow>
            let sub_root = (if fd_kind file = KindDirectory then sub_root(name \<mapsto> inode) else sub_root);
                node = (from_description rnd now inode (file\<lparr>fd_name := base\<rparr>))\<lparr>fn_parent := Some parent_inode\<rparr>
            in Inr (tree @ [node], sub_root))"

fun add_files :: "(nat \<Rightarrow> i32) \<Rightarrow> nat \<Rightarrow> file_description list \<Rightarrow> tree_state \<Rightarrow> cliprdr_error + tree_state" where
  "add_files rnd now [] st = Inr st"
| "add_files rnd now (f # fs) st =
    (case add_file rnd now f st of Inl e \<Rightarrow> Inl e | Inr st \<Rightarrow> add_files rnd now fs st)"

definition tree_start :: "(nat \<Rightarrow> i32) \<Rightarrow> nat \<Rightarrow> tree_state" where
  "tree_start rnd now = ([new_root rnd now], [components ''/'' \<mapsto> 1, components [] \<mapsto> 1])"

definition build_tree :: "(nat \<Rightarrow> i32) \<Rightarrow> nat \<Rightarrow> file_description list \<Rightarrow> cliprdr_error + fuse_node list" where
  "build_tree rnd now files = map_sum id fst (add_files rnd now files (tree_start rnd now))"

section \<open>The server\<close>

record fuse_server =
  fs_generation :: nat
  fs_files :: "fuse_node list"
  fs_counter :: nat

datatype errno = ENAMETOOLONG | ENOENT | ENOTDIR | EBUSY | EBADF | ENFILE | EIO | Panicked

definition fuse_new :: fuse_server where
  "fuse_new = \<lparr>fs_generation = 0, fs_files = [], fs_counter = 0\<rparr>"

definition load_file_list ::
  "(nat \<Rightarrow> i32) \<Rightarrow> nat \<Rightarrow> file_description list \<Rightarrow> fuse_server \<Rightarrow> (cliprdr_error + unit) \<times> fuse_server" where
  "load_file_list rnd now files s =
    (case build_tree rnd now files of
       Inl e \<Rightarrow> (Inl e, s)
     | Inr tree \<Rightarrow> (Inr (), s\<lparr>fs_files := tree, fs_generation := (fs_generation s + 1) mod 2 ^ 64\<rparr>))"

definition fuse_init :: "(nat \<Rightarrow> i32) \<Rightarrow> nat \<Rightarrow> fuse_server \<Rightarrow> fuse_server" where
  "fuse_init rnd now s = (if fs_files s = [] then s\<lparr>fs_files := [new_root rnd now]\<rparr> else s)"

text \<open>\<open>entries.get(ino as usize - 1)\<close>, and \<open>entries[inode as usize - 1]\<close> for the inodes of a tree.\<close>

definition node_index :: "u64 \<Rightarrow> nat" where
  "node_index ino = unat (ino - 1)"

definition get_node :: "fuse_server \<Rightarrow> u64 \<Rightarrow> fuse_node option" where
  "get_node s ino = (if node_index ino < length (fs_files s) then Some (fs_files s ! node_index ino) else None)"

definition child_at :: "fuse_server \<Rightarrow> nat \<Rightarrow> fuse_node option" where
  "child_at s inode = (if 1 \<le> inode \<and> inode - 1 < length (fs_files s) then Some (fs_files s ! (inode - 1)) else None)"

definition is_dir_node :: "fuse_node \<Rightarrow> bool" where
  "is_dir_node n \<longleftrightarrow> ia_kind (fn_attributes n) = KindDirectory"

definition is_file_node :: "fuse_node \<Rightarrow> bool" where
  "is_file_node n \<longleftrightarrow> ia_kind (fn_attributes n) = KindFile"

fun find_child :: "fuse_server \<Rightarrow> string \<Rightarrow> nat list \<Rightarrow> errno + inode_attributes" where
  "find_child s name [] = Inl ENOENT"
| "find_child s name (i # is) =
    (case child_at s i of
       None \<Rightarrow> Inl Panicked
     | Some child \<Rightarrow> if fn_name child = name then Inr (fn_attributes child) else find_child s name is)"

definition fuse_lookup :: "fuse_server \<Rightarrow> u64 \<Rightarrow> string \<Rightarrow> errno + inode_attributes" where
  "fuse_lookup s parent name =
    (if max_name_len < length name then Inl ENAMETOOLONG
     else case get_node s parent of
            None \<Rightarrow> Inl ENOENT
          | Some parent_entry \<Rightarrow>
              if \<not> is_dir_node parent_entry then Inl ENOTDIR
              else find_child s name (fn_children parent_entry))"

definition alloc_fd :: "fuse_server \<Rightarrow> nat \<times> fuse_server" where
  "alloc_fd s = (fs_counter s, s\<lparr>fs_counter := (fs_counter s + 1) mod 2 ^ 64\<rparr>)"

definition set_handlers :: "fuse_server \<Rightarrow> u64 \<Rightarrow> file_handles \<Rightarrow> fuse_server" where
  "set_handlers s ino h =
    s\<lparr>fs_files := (fs_files s)[node_index ino := (fs_files s ! node_index ino)\<lparr>fn_handlers := h\<rparr>]\<rparr>"

text \<open>What \<open>opendir\<close> and \<open>open\<close> share: the check of the kind is \<open>good\<close>, its error \<open>err\<close>.\<close>

definition open_node :: "(fuse_node \<Rightarrow> bool) \<Rightarrow> errno \<Rightarrow> fuse_server \<Rightarrow> u64 \<Rightarrow> (errno + nat) \<times> fuse_server" where
  "open_node good err s ino =
    (case get_node s ino of
       None \<Rightarrow> (Inl ENOENT, s)
     | Some entry \<Rightarrow>
         if \<not> good entry then (Inl err, s)
         else if marked (fn_handlers entry) then (Inl EBUSY, s)
         else
           let (fh, s) = alloc_fd s
           in case add_handler (fn_handlers entry) fh of
                None \<Rightarrow> (Inl Panicked, s)
              | Some h \<Rightarrow> (Inr fh, set_handlers s ino h))"

definition fuse_opendir :: "fuse_server \<Rightarrow> u64 \<Rightarrow> (errno + nat) \<times> fuse_server" where
  "fuse_opendir s ino = open_node is_dir_node ENOTDIR s ino"

definition fuse_open :: "fuse_server \<Rightarrow> u64 \<Rightarrow> (errno + nat) \<times> fuse_server" where
  "fuse_open s ino = open_node is_file_node ENFILE s ino"

text \<open>
  The entries of a directory, and those that a reply with room for some of them takes: \<open>full acc e\<close>
  says that \<open>e\<close> does not fit after \<open>acc\<close>. An entry comes with the offset to continue from.
\<close>

type_synonym dir_entry = "nat \<times> node_kind \<times> string"

definition dir_entries :: "fuse_server \<Rightarrow> u64 \<Rightarrow> fuse_node \<Rightarrow> dir_entry list" where
  "dir_entries s ino entry =
    (unat ino, KindDirectory, ''.'')
    # (case fn_parent entry of Some p \<Rightarrow> [(p, KindDirectory, ''..'')] | None \<Rightarrow> [])
    @ map (\<lambda>i. let child = fs_files s ! (i - 1) in (i, ia_kind (fn_attributes child), fn_name child)) (fn_children entry)"

fun fill_reply :: "((nat \<times> dir_entry) list \<Rightarrow> nat \<times> dir_entry \<Rightarrow> bool) \<Rightarrow> (nat \<times> dir_entry) list
    \<Rightarrow> (nat \<times> dir_entry) list \<Rightarrow> (nat \<times> dir_entry) list" where
  "fill_reply full acc [] = acc"
| "fill_reply full acc (e # es) = (if full acc e then acc else fill_reply full (acc @ [e]) es)"

definition fuse_readdir :: "((nat \<times> dir_entry) list \<Rightarrow> nat \<times> dir_entry \<Rightarrow> bool)
    \<Rightarrow> fuse_server \<Rightarrow> u64 \<Rightarrow> nat \<Rightarrow> i64 \<Rightarrow> errno + (nat \<times> dir_entry) list" where
  "fuse_readdir full s ino fh offset =
    (case get_node s ino of
       None \<Rightarrow> Inl ENOENT
     | Some entry \<Rightarrow>
         if \<not> have_handler (fn_handlers entry) fh then Inl EBADF
         else if \<not> is_dir_node entry then Inl ENOTDIR
         else if \<not> list_all (\<lambda>i. child_at s i \<noteq> None) (fn_children entry) then Inl Panicked
         else Inr (fill_reply full []
                (drop (unat offset) (zip [1..<Suc (length (dir_entries s ino entry))] (dir_entries s ino entry)))))"

definition fuse_release :: "fuse_server \<Rightarrow> u64 \<Rightarrow> nat \<Rightarrow> (errno + unit) \<times> fuse_server" where
  "fuse_release s ino fh =
    (case get_node s ino of
       None \<Rightarrow> (Inl ENOENT, s)
     | Some entry \<Rightarrow>
         (case unregister (fn_handlers entry) fh of
            None \<Rightarrow> (Inl EBADF, s)
          | Some h \<Rightarrow> (Inr (), set_handlers s ino h)))"

definition fuse_releasedir :: "fuse_server \<Rightarrow> u64 \<Rightarrow> nat \<Rightarrow> (errno + unit) \<times> fuse_server" where
  "fuse_releasedir s ino fh =
    (case get_node s ino of
       None \<Rightarrow> (Inl ENOENT, s)
     | Some entry \<Rightarrow>
         if \<not> is_dir_node entry then (Inl ENOTDIR, s)
         else if \<not> have_handler (fn_handlers entry) fh then (Inl EBADF, s)
         else (Inr (), case unregister (fn_handlers entry) fh of None \<Rightarrow> s | Some h \<Rightarrow> set_handlers s ino h))"

definition fuse_getattr :: "fuse_server \<Rightarrow> u64 \<Rightarrow> errno + inode_attributes" where
  "fuse_getattr s ino =
    (case get_node s ino of None \<Rightarrow> Inl ENOENT | Some entry \<Rightarrow> Inr (fn_attributes entry))"

definition file_blocks :: "inode_attributes \<Rightarrow> nat" where
  "file_blocks a =
    (if unat (ia_size a) mod block_size = 0 then unat (ia_size a) div block_size
     else unat (ia_size a) div block_size + 1)"

record file_attr =
  fa_ino :: nat
  fa_size :: u64
  fa_blocks :: nat
  fa_atime :: nat
  fa_mtime :: nat
  fa_ctime :: nat
  fa_crtime :: nat
  fa_kind :: node_kind
  fa_perm :: u16
  fa_nlink :: nat
  fa_uid :: nat
  fa_gid :: nat
  fa_rdev :: nat
  fa_blksize :: nat
  fa_flags :: nat

text \<open>The attributes as the kernel gets them, with the ids of the current user.\<close>

definition file_attr_of :: "nat \<Rightarrow> nat \<Rightarrow> inode_attributes \<Rightarrow> file_attr" where
  "file_attr_of uid gid a =
    \<lparr>fa_ino = ia_inode a, fa_size = ia_size a, fa_blocks = file_blocks a, fa_atime = ia_last_accessed a,
     fa_mtime = ia_last_modified a, fa_ctime = ia_last_metadata_changed a, fa_crtime = ia_creation_time a,
     fa_kind = ia_kind a, fa_perm = ia_perm a, fa_nlink = 1, fa_uid = uid, fa_gid = gid, fa_rdev = 0,
     fa_blksize = block_size, fa_flags = 0\<rparr>"

definition fuse_statfs :: "fuse_server \<Rightarrow> u64" where
  "fuse_statfs s =
    foldl (\<lambda>blocks n. blocks + ia_size (fn_attributes n) div of_nat block_size
      + (if ia_size (fn_attributes n) mod of_nat block_size \<noteq> 0 then 1 else 0)) 0 (fs_files s)"

definition list_root :: "fuse_server \<Rightarrow> string list option" where
  "list_root s =
    (case fs_files s of
       [] \<Rightarrow> None
     | root # _ \<Rightarrow>
         if list_all (\<lambda>i. child_at s i \<noteq> None) (fn_children root)
         then Some (map (\<lambda>i. fn_name (fs_files s ! (i - 1))) (fn_children root)) else None)"

section \<open>Reading\<close>

datatype read_error = TimedOut | FailureRequest | InvalidReply

definition read_retry :: nat where "read_retry = 3"

definition contents_request :: "fuse_node \<Rightarrow> i64 \<Rightarrow> u32 \<Rightarrow> clipboard_file" where
  "contents_request n offset cb =
    FileContentsRequest (fn_stream_id n) (of_nat (fn_index n)) 2
      (ucast (offset AND 0xFFFFFFFF)) (ucast (signed_drop_bit 32 offset)) cb False 0"

text \<open>
  The loop that waits for the reply: \<open>rx\<close> is what arrives on the channel in time; the requests sent
  again come out with the result and what is left on the channel.
\<close>

fun await_reply :: "i32 \<Rightarrow> clipboard_file \<Rightarrow> nat \<Rightarrow> clipboard_file list
    \<Rightarrow> (read_error + bytes) \<times> clipboard_file list \<times> clipboard_file list" where
  "await_reply stream request retries [] = (Inl TimedOut, [], [])"
| "await_reply stream request retries (m # rx) =
    (case m of
       FileContentsResponse flags sid data \<Rightarrow>
         if sid \<noteq> stream then await_reply stream request retries rx
         else if flags AND 1 = 0 then
           (if read_retry < retries + 1 then (Inl FailureRequest, [], rx)
            else let (r, sent, rx) = await_reply stream request (retries + 1) rx in (r, request # sent, rx))
         else (Inr data, [], rx)
     | _ \<Rightarrow> (Inl InvalidReply, [], rx))"

definition read_node :: "fuse_node \<Rightarrow> i64 \<Rightarrow> u32 \<Rightarrow> clipboard_file list
    \<Rightarrow> (read_error + bytes) \<times> clipboard_file list \<times> clipboard_file list" where
  "read_node n offset cb rx =
    (let request = contents_request n offset cb;
         (r, sent, rx) = await_reply (fn_stream_id n) request 0 rx
     in (r, request # sent, rx))"

definition fuse_read :: "fuse_server \<Rightarrow> u64 \<Rightarrow> nat \<Rightarrow> i64 \<Rightarrow> u32 \<Rightarrow> clipboard_file list
    \<Rightarrow> (errno + bytes) \<times> clipboard_file list \<times> clipboard_file list" where
  "fuse_read s ino fh offset cb rx =
    (case get_node s ino of
       None \<Rightarrow> (Inl ENOENT, [], rx)
     | Some entry \<Rightarrow>
         if \<not> have_handler (fn_handlers entry) fh then (Inl EBADF, [], rx)
         else if \<not> is_file_node entry then (Inl ENFILE, [], rx)
         else if marked (fn_handlers entry) then (Inl EBUSY, [], rx)
         else (case read_node entry offset cb rx of
                 (Inl e, sent, rx) \<Rightarrow> (Inl EIO, sent, rx)
               | (Inr bs, sent, rx) \<Rightarrow> (Inr bs, sent, rx)))"

end
