(* ===== verification/FuseProps.thy ===== *)
theory FuseProps
  imports FuseFs
begin

text \<open>
  What holds of the pasted files' file system: the handles of a node stay sorted, so that the binary
  search of the sources finds exactly the open ones; the tree built from a list of files is well
  formed, and every file is found at its path; reading a directory in pieces lists it once.
\<close>

section \<open>Binary search\<close>

lemma search_base_spec:
  assumes "sorted xs" "0 < n" "base + n \<le> length xs"
  shows "base \<le> search_base xs x base n \<and> search_base xs x base n < base + n
    \<and> ((\<exists>i. base \<le> i \<and> i < base + n \<and> xs ! i = x) \<longrightarrow> xs ! search_base xs x base n = x)"
  using assms
proof (induction xs x base n rule: search_base.induct)
  case (1 xs x base n)
  show ?case
  proof (cases "n \<le> 1")
    case True
    then have "n = 1" using 1 by simp
    have "search_base xs x base n = base" using \<open>n = 1\<close> by (simp add: search_base.simps)
    moreover have "i = base" if "base \<le> i" "i < base + n" for i using that \<open>n = 1\<close> by simp
    ultimately show ?thesis using \<open>n = 1\<close> by (metis less_add_one order_refl)
  next
    case False
    define half where "half = n div 2"
    define b where "b = (if x < xs ! (base + half) then base else base + half)"
    have h: "0 < half" "half \<le> n - half" "half < n" using False by (auto simp: half_def)
    have eq: "search_base xs x base n = search_base xs x b (n - half)"
      using False by (subst search_base.simps) (simp add: b_def half_def Let_def)
    have b: "base \<le> b" "b + (n - half) \<le> base + n" using h by (auto simp: b_def)
    have IH: "b \<le> search_base xs x b (n - half) \<and> search_base xs x b (n - half) < b + (n - half)
      \<and> ((\<exists>i. b \<le> i \<and> i < b + (n - half) \<and> xs ! i = x) \<longrightarrow> xs ! search_base xs x b (n - half) = x)"
      using "1.IH" [OF False half_def refl] "1.prems" h b unfolding b_def by simp
    have "\<exists>i. b \<le> i \<and> i < b + (n - half) \<and> xs ! i = x" if ex: "base \<le> i" "i < base + n" "xs ! i = x" for i
    proof (cases "x < xs ! (base + half)")
      case True
      then have "i < base + half"
        using sorted_nth_mono [OF "1.prems"(1), of "base + half" i] ex "1.prems" by force
      then show ?thesis using True ex h by (intro exI [of _ i]) (auto simp: b_def)
    next
      case F: False
      show ?thesis
      proof (cases "base + half \<le> i")
        case True
        then show ?thesis using F ex h by (intro exI [of _ i]) (auto simp: b_def)
      next
        case False
        then have "x \<le> xs ! (base + half)"
          using sorted_nth_mono [OF "1.prems"(1), of i "base + half"] ex h "1.prems" by simp
        then show ?thesis using F h by (intro exI [of _ "base + half"]) (auto simp: b_def)
      qed
    qed
    then show ?thesis using IH b unfolding eq by (auto 0 3)
  qed
qed

lemma binary_search_sorted:
  assumes "sorted xs"
  shows "binary_search xs x \<noteq> None \<longleftrightarrow> x \<in> set xs"
    and "binary_search xs x = Some i \<Longrightarrow> i < length xs \<and> xs ! i = x"
proof -
  have spec: "search_base xs x 0 (length xs) < length xs"
    "x \<in> set xs \<Longrightarrow> xs ! search_base xs x 0 (length xs) = x" if "xs \<noteq> []"
    using search_base_spec [OF assms, of "length xs" 0 x] that by (auto simp: in_set_conv_nth)
  have mem: "x \<in> set xs" if "xs \<noteq> []" "xs ! search_base xs x 0 (length xs) = x"
    using nth_mem [OF spec(1) [OF that(1)]] that(2) by simp
  show "binary_search xs x \<noteq> None \<longleftrightarrow> x \<in> set xs"
    using spec mem by (cases "xs = []") (auto simp: binary_search_def Let_def)
  show "i < length xs \<and> xs ! i = x" if "binary_search xs x = Some i"
    using that spec by (auto simp: binary_search_def Let_def split: if_splits)
qed

section \<open>Handles\<close>

text \<open>
  The comment of \<open>FileHandles::new\<close>: the vector is sorted, because later handles are bigger, new ones
  are appended and removal keeps the order. It is sorted strictly, as no handle is given twice.
\<close>

definition handles_ok :: "nat \<Rightarrow> file_handles \<Rightarrow> bool" where
  "handles_ok next h \<longleftrightarrow> sorted (fh_handlers h) \<and> distinct (fh_handlers h)
    \<and> (\<forall>fh\<in>set (fh_handlers h). fh < next) \<and> \<not> fh_gc h"

lemma handles_new_ok [simp]: "handles_ok n handles_new"
  by (simp add: handles_ok_def handles_new_def)

lemma handles_ok_mono: "handles_ok m h \<Longrightarrow> m \<le> n \<Longrightarrow> handles_ok n h"
  by (auto simp: handles_ok_def)

lemma have_handler_iff: "handles_ok n h \<Longrightarrow> have_handler h fh \<longleftrightarrow> fh \<in> set (fh_handlers h)"
  using binary_search_sorted(1) [of "fh_handlers h" fh] by (simp add: have_handler_def handles_ok_def)

lemma add_handler_ok:
  "handles_ok n h \<Longrightarrow> \<exists>h'. add_handler h n = Some h' \<and> handles_ok (Suc n) h'
    \<and> set (fh_handlers h') = insert n (set (fh_handlers h))"
  by (auto simp: add_handler_def marked_def handles_ok_def sorted_append less_Suc_eq)

lemma unregister_ok:
  assumes "handles_ok n h"
  shows "case unregister h fh of
      None \<Rightarrow> fh \<notin> set (fh_handlers h)
    | Some h' \<Rightarrow> fh \<in> set (fh_handlers h) \<and> handles_ok n h' \<and> set (fh_handlers h') = set (fh_handlers h) - {fh}"
proof (cases "binary_search (fh_handlers h) fh")
  case None
  then show ?thesis using binary_search_sorted(1) [of "fh_handlers h" fh] assms
    by (simp add: unregister_def handles_ok_def)
next
  case (Some i)
  let ?xs = "fh_handlers h"
  have i: "i < length ?xs" "?xs ! i = fh"
    using binary_search_sorted(2) [OF _ Some] assms by (auto simp: handles_ok_def)
  define l where "l = take i ?xs"
  define r where "r = drop (Suc i) ?xs"
  have split: "?xs = l @ fh # r" using id_take_nth_drop [OF i(1)] i(2) by (simp add: l_def r_def)
  have "unregister h fh = Some (h\<lparr>fh_handlers := l @ r\<rparr>)"
    using Some by (simp add: unregister_def l_def r_def)
  then show ?thesis using assms split by (auto simp: handles_ok_def sorted_append)
qed

section \<open>The tree of a list of files\<close>

text \<open>
  What \<open>build_tree\<close> has to yield, said without its loop: the parent of a file is the last directory
  listed before it whose path is the file's parent path, or else the root; the children of a node are
  the files with that parent, in the order of the list.
\<close>

abbreviation comps :: "file_description \<Rightarrow> path_comp list" where
  "comps f \<equiv> components (fd_name f)"

definition listed :: "file_description list \<Rightarrow> nat \<Rightarrow> path_comp list \<Rightarrow> nat option" where
  "listed fs n p = find (\<lambda>j. fd_kind (fs ! j) = KindDirectory \<and> comps (fs ! j) = p) (rev [0..<n])"

definition listed_parent :: "file_description list \<Rightarrow> nat \<Rightarrow> nat option" where
  "listed_parent fs k = (case path_parent (comps (fs ! k)) of None \<Rightarrow> None | Some p \<Rightarrow> listed fs k p)"

definition parent_inode :: "file_description list \<Rightarrow> nat \<Rightarrow> nat" where
  "parent_inode fs k = (case listed_parent fs k of Some j \<Rightarrow> j + 2 | None \<Rightarrow> 1)"

definition kids :: "file_description list \<Rightarrow> nat \<Rightarrow> nat list" where
  "kids fs i = map (\<lambda>k. k + 2) (filter (\<lambda>k. parent_inode fs k = i) [0..<length fs])"

definition base_name :: "file_description \<Rightarrow> string" where
  "base_name f = (case path_file_name (comps f) of Some n \<Rightarrow> n | None \<Rightarrow> [])"

fun spec_node :: "(nat \<Rightarrow> i32) \<Rightarrow> nat \<Rightarrow> file_description list \<Rightarrow> nat \<Rightarrow> fuse_node" where
  "spec_node rnd now fs 0 = (new_root rnd now)\<lparr>fn_children := kids fs 1\<rparr>"
| "spec_node rnd now fs (Suc k) =
    \<lparr>fn_conn_id = fd_conn_id (fs ! k), fn_stream_id = rnd (k + 2), fn_index = k,
     fn_parent = Some (parent_inode fs k), fn_name = base_name (fs ! k),
     fn_attributes = attributes_from_description now (k + 2) (fs ! k),
     fn_children = kids fs (k + 2), fn_handlers = handles_new\<rparr>"

definition spec_tree :: "(nat \<Rightarrow> i32) \<Rightarrow> nat \<Rightarrow> file_description list \<Rightarrow> fuse_node list" where
  "spec_tree rnd now fs = map (spec_node rnd now fs) [0..<Suc (length fs)]"

definition spec_map :: "file_description list \<Rightarrow> path_comp list \<Rightarrow> nat option" where
  "spec_map fs p =
    (case listed fs (length fs) p of
       Some j \<Rightarrow> Some (j + 2) | None \<Rightarrow> if p = [] \<or> p = [RootDir] then Some 1 else None)"

lemma find_Some_in_rev: "find P (rev [0..<n]) = Some j \<Longrightarrow> j < n \<and> P j"
  using find_Some_iff_in [of P "rev [0..<n]" j] by simp

lemma listed_less: "listed fs n p = Some j \<Longrightarrow> j < n"
  unfolding listed_def using find_Some_in_rev by blast

lemma listed_Some: "listed fs n p = Some j \<Longrightarrow> fd_kind (fs ! j) = KindDirectory \<and> comps (fs ! j) = p"
  unfolding listed_def using find_Some_in_rev by blast

lemma listed_parent_less: "listed_parent fs k = Some j \<Longrightarrow> j < k"
  by (auto simp: listed_parent_def dest: listed_less split: option.splits)

lemma parent_inode_bounds: "1 \<le> parent_inode fs k" "parent_inode fs k \<le> k + 1"
  by (auto simp: parent_inode_def dest: listed_parent_less split: option.splits)

lemma listed_append: "n \<le> length fs \<Longrightarrow> listed (fs @ [f]) n p = listed fs n p"
  unfolding listed_def by (rule find_cong) (auto simp: nth_append)

lemma listed_Suc:
  "listed fs (Suc n) p = (if fd_kind (fs ! n) = KindDirectory \<and> comps (fs ! n) = p then Some n else listed fs n p)"
  by (simp add: listed_def)

lemma parent_inode_append: "k < length fs \<Longrightarrow> parent_inode (fs @ [f]) k = parent_inode fs k"
  by (simp add: parent_inode_def listed_parent_def listed_append nth_append split: option.split)

lemma kids_append:
  "kids (fs @ [f]) i = kids fs i @ (if parent_inode (fs @ [f]) (length fs) = i then [length fs + 2] else [])"
proof -
  have "filter (\<lambda>k. parent_inode (fs @ [f]) k = i) [0..<length fs] = filter (\<lambda>k. parent_inode fs k = i) [0..<length fs]"
    by (rule filter_cong) (simp_all add: parent_inode_append)
  then show ?thesis by (simp add: kids_def)
qed

lemma kids_out: "length fs < i \<Longrightarrow> kids fs i = []"
proof -
  assume i: "length fs < i"
  have "parent_inode fs k \<noteq> i" if "k < length fs" for k
    using parent_inode_bounds(2) [of fs k] that i by linarith
  then show ?thesis by (simp add: kids_def filter_empty_conv)
qed

lemma spec_node_append:
  assumes "k \<le> length fs"
  shows "spec_node rnd now (fs @ [f]) k =
    (if k + 1 = parent_inode (fs @ [f]) (length fs) then add_child (length fs + 2) (spec_node rnd now fs k)
     else spec_node rnd now fs k)"
  using assms
  by (cases k) (auto simp: kids_append add_child_def nth_append parent_inode_append)

lemma spec_map_append:
  "spec_map (fs @ [f]) p =
    (if fd_kind f = KindDirectory \<and> comps f = p then Some (length fs + 2) else spec_map fs p)"
  by (simp add: spec_map_def listed_Suc listed_append)

lemma parent_lookup:
  "(case path_parent (comps f) of
      Some parent \<Rightarrow> (case spec_map fs parent of Some i \<Rightarrow> i | None \<Rightarrow> 1) | None \<Rightarrow> 1)
   = parent_inode (fs @ [f]) (length fs)"
  by (simp add: parent_inode_def listed_parent_def listed_append spec_map_def split: option.split)

lemma add_file_spec:
  assumes "path_file_name (comps f) = Some b"
  shows "add_file rnd now f (spec_tree rnd now fs, spec_map fs) =
    Inr (spec_tree rnd now (fs @ [f]), spec_map (fs @ [f]))"
proof -
  let ?n = "length fs" and ?P = "parent_inode (fs @ [f]) (length fs)"
  let ?t = "spec_tree rnd now fs"
  let ?node = "(from_description rnd now (?n + 2) (f\<lparr>fd_name := b\<rparr>))\<lparr>fn_parent := Some ?P\<rparr>"
  have len: "length ?t = Suc ?n" by (simp add: spec_tree_def)
  have P: "1 \<le> ?P" "?P \<le> ?n + 1" using parent_inode_bounds [of "fs @ [f]" ?n] by simp_all
  have "?t[?P - 1 := add_child (?n + 2) (?t ! (?P - 1))] @ [?node] = spec_tree rnd now (fs @ [f])"
  proof (rule nth_equalityI)
    fix i assume "i < length (?t[?P - 1 := add_child (?n + 2) (?t ! (?P - 1))] @ [?node])"
    then consider "i \<le> ?n" | "i = Suc ?n" using len by fastforce
    then show "(?t[?P - 1 := add_child (?n + 2) (?t ! (?P - 1))] @ [?node]) ! i = spec_tree rnd now (fs @ [f]) ! i"
    proof cases
      case 1
      have R: "spec_tree rnd now (fs @ [f]) ! i = spec_node rnd now (fs @ [f]) i"
        using 1 by (simp add: spec_tree_def nth_append del: upt_Suc)
      have L: "?t ! j = spec_node rnd now fs j" if "j \<le> ?n" for j
        using that by (simp add: spec_tree_def del: upt_Suc)
      show ?thesis unfolding R spec_node_append [OF 1]
        using 1 P len L by (auto simp: nth_append nth_list_update)
    next
      case 2
      have kids: "kids (fs @ [f]) (?n + 2) = []" by (rule kids_out) simp
      show ?thesis
        using 2 len assms kids
        by (simp add: nth_append spec_tree_def from_description_def base_name_def
            attributes_from_description_def del: upt_Suc)
    qed
  qed (simp add: len spec_tree_def)
  moreover have "(if fd_kind f = KindDirectory then (spec_map fs)(comps f \<mapsto> ?n + 2) else spec_map fs)
      = spec_map (fs @ [f])"
    by (auto simp: spec_map_append fun_eq_iff)
  ultimately show ?thesis
    unfolding add_file_def Let_def prod.case parent_lookup len
    using assms by (cases "fd_kind f = KindDirectory") simp_all
qed

lemma add_files_append:
  "add_files rnd now (fs @ [f]) st =
    (case add_files rnd now fs st of Inl e \<Rightarrow> Inl e | Inr st \<Rightarrow> add_file rnd now f st)"
  by (induction fs arbitrary: st) (auto split: sum.split)

lemma tree_start_spec: "tree_start rnd now = (spec_tree rnd now [], spec_map [])"
proof -
  have "components ''/'' = [RootDir]" "components [] = []" by (simp_all add: components_def starts_with_def)
  then show ?thesis
    by (auto simp: tree_start_def spec_tree_def spec_map_def listed_def kids_def new_root_def fun_eq_iff)
qed

lemma add_files_spec:
  "add_files rnd now fs (tree_start rnd now) =
    (case find (\<lambda>f. path_file_name (comps f) = None) fs of
       Some f \<Rightarrow> Inl (FileError (fd_name f))
     | None \<Rightarrow> Inr (spec_tree rnd now fs, spec_map fs))"
proof (induction fs rule: rev_induct)
  case Nil
  then show ?case by (simp add: tree_start_spec)
next
  case (snoc f fs)
  show ?case
  proof (cases "find (\<lambda>f. path_file_name (comps f) = None) fs")
    case None
    show ?thesis
    proof (cases "path_file_name (comps f)")
      case N: None
      then show ?thesis using None snoc
        by (simp add: add_files_append find_append add_file_def Let_def)
    next
      case (Some b)
      then show ?thesis using None snoc add_file_spec [OF Some]
        by (simp add: add_files_append find_append)
    qed
  next
    case (Some g)
    then show ?thesis using snoc by (simp add: add_files_append find_append)
  qed
qed

section \<open>Reachable servers\<close>

text \<open>
  The operations that change the server, as steps. A new handle needs the counter not to have come
  to its end, which takes \<open>2 ^ 64 - 1\<close> opens. Files that a peer offers are fewer than \<open>2 ^ 63\<close>, as
  they fit a vector.
\<close>

inductive fuse_step :: "fuse_server \<Rightarrow> fuse_server \<Rightarrow> bool" where
  step_init: "fuse_step s (fuse_init rnd now s)"
| step_load: "length files < 2 ^ 63 \<Longrightarrow> fuse_step s (snd (load_file_list rnd now files s))"
| step_opendir: "fs_counter s + 1 < 2 ^ 64 \<Longrightarrow> fuse_step s (snd (fuse_opendir s ino))"
| step_open: "fs_counter s + 1 < 2 ^ 64 \<Longrightarrow> fuse_step s (snd (fuse_open s ino))"
| step_release: "fuse_step s (snd (fuse_release s ino fh))"
| step_releasedir: "fuse_step s (snd (fuse_releasedir s ino fh))"

inductive fuse_reachable :: "fuse_server \<Rightarrow> bool" where
  reach_new: "fuse_reachable fuse_new"
| reach_step: "fuse_reachable s \<Longrightarrow> fuse_step s s' \<Longrightarrow> fuse_reachable s'"

inductive_cases fuse_stepE: "fuse_step s s'"

text \<open>A node without its handles, and the server's files apart from handles.\<close>

definition strip :: "fuse_node \<Rightarrow> fuse_node" where
  "strip n = n\<lparr>fn_handlers := handles_new\<rparr>"

definition serves :: "fuse_server \<Rightarrow> (nat \<Rightarrow> i32) \<Rightarrow> nat \<Rightarrow> file_description list \<Rightarrow> bool" where
  "serves s rnd now fs \<longleftrightarrow> map strip (fs_files s) = spec_tree rnd now fs \<and> length fs < 2 ^ 63"

definition server_ok :: "fuse_server \<Rightarrow> bool" where
  "server_ok s \<longleftrightarrow> (\<forall>n\<in>set (fs_files s). handles_ok (fs_counter s) (fn_handlers n))
    \<and> fs_counter s < 2 ^ 64 \<and> (fs_files s = [] \<or> (\<exists>rnd now fs. serves s rnd now fs))"

lemma strip_simps [simp]:
  "strip (n\<lparr>fn_handlers := h\<rparr>) = strip n" "fn_children (strip n) = fn_children n"
  "fn_attributes (strip n) = fn_attributes n" "fn_name (strip n) = fn_name n"
  "fn_parent (strip n) = fn_parent n" "fn_index (strip n) = fn_index n"
  "fn_conn_id (strip n) = fn_conn_id n" "fn_stream_id (strip n) = fn_stream_id n"
  "is_dir_node (strip n) = is_dir_node n" "is_file_node (strip n) = is_file_node n"
  by (simp_all add: strip_def is_dir_node_def is_file_node_def)

lemma strip_spec [simp]: "strip (spec_node rnd now fs k) = spec_node rnd now fs k"
  by (cases k) (simp_all add: strip_def new_root_def)

lemma map_strip_spec [simp]: "map strip (spec_tree rnd now fs) = spec_tree rnd now fs"
  by (simp add: spec_tree_def)

lemma spec_node_handlers [simp]: "fn_handlers (spec_node rnd now fs k) = handles_new"
  by (cases k) (simp_all add: new_root_def)

lemma spec_tree_handlers: "n \<in> set (spec_tree rnd now fs) \<Longrightarrow> fn_handlers n = handles_new"
  unfolding spec_tree_def by (auto simp del: upt_Suc)

lemma set_handlers_strip: "map strip (fs_files (set_handlers s ino h)) = map strip (fs_files s)"
  by (cases "node_index ino < length (fs_files s)")
    (auto simp: set_handlers_def map_update list_update_same_conv list_update_beyond)

lemma set_handlers_counter [simp]: "fs_counter (set_handlers s ino h) = fs_counter s"
  by (simp add: set_handlers_def)

lemma set_handlers_ok:
  assumes "server_ok s" "handles_ok (fs_counter s) h"
  shows "server_ok (set_handlers s ino h)"
proof -
  have "handles_ok (fs_counter s) (fn_handlers n)" if "n \<in> set (fs_files (set_handlers s ino h))" for n
    using that assms unfolding set_handlers_def server_ok_def
    by (auto dest!: set_update_subset_insert [THEN subsetD])
  moreover have "fs_files (set_handlers s ino h) = [] \<longleftrightarrow> fs_files s = []" by (simp add: set_handlers_def)
  ultimately show ?thesis using assms(1) by (simp add: server_ok_def serves_def set_handlers_strip)
qed

lemma get_node_in: "get_node s ino = Some n \<Longrightarrow> n \<in> set (fs_files s)"
  by (auto simp: get_node_def split: if_splits)

lemma counter_mono_ok:
  "server_ok s \<Longrightarrow> fs_counter s \<le> c \<Longrightarrow> c < 2 ^ 64 \<Longrightarrow> server_ok (s\<lparr>fs_counter := c\<rparr>)"
  by (auto simp: server_ok_def serves_def intro: handles_ok_mono)

lemma open_node_ok:
  assumes ok: "server_ok s" and c: "fs_counter s + 1 < 2 ^ 64"
  shows "case open_node good err s ino of
      (Inl e, s') \<Rightarrow> s' = s \<and> e \<in> {ENOENT, err, EBUSY}
    | (Inr fh, s') \<Rightarrow> \<exists>n h. get_node s ino = Some n \<and> good n \<and> fh = fs_counter s \<and> server_ok s'
        \<and> s' = set_handlers (s\<lparr>fs_counter := Suc (fs_counter s)\<rparr>) ino h
        \<and> set (fh_handlers h) = insert fh (set (fh_handlers (fn_handlers n))) \<and> handles_ok (Suc (fs_counter s)) h"
proof (cases "get_node s ino")
  case (Some n)
  have hn: "handles_ok (fs_counter s) (fn_handlers n)"
    using ok get_node_in [OF Some] by (simp add: server_ok_def)
  obtain h where h: "add_handler (fn_handlers n) (fs_counter s) = Some h" "handles_ok (Suc (fs_counter s)) h"
    "set (fh_handlers h) = insert (fs_counter s) (set (fh_handlers (fn_handlers n)))"
    using add_handler_ok [OF hn] by blast
  let ?s = "s\<lparr>fs_counter := Suc (fs_counter s)\<rparr>"
  have "server_ok (set_handlers ?s ino h)"
    by (rule set_handlers_ok) (use counter_mono_ok [OF ok] c h(2) in simp_all)
  then show ?thesis using Some h c by (auto simp: open_node_def alloc_fd_def)
qed (simp add: open_node_def)

lemma init_ok: "server_ok s \<Longrightarrow> server_ok (fuse_init rnd now s)"
proof -
  have "[new_root rnd now] = spec_tree rnd now []" by (simp add: spec_tree_def kids_def new_root_def)
  then have "serves (s\<lparr>fs_files := [new_root rnd now]\<rparr>) rnd now []" by (simp add: serves_def)
  then show "server_ok s \<Longrightarrow> server_ok (fuse_init rnd now s)"
    by (auto simp: fuse_init_def server_ok_def new_root_def)
qed

lemma build_tree_closed:
  "build_tree rnd now fs =
    (case find (\<lambda>f. path_file_name (comps f) = None) fs of
       Some f \<Rightarrow> Inl (FileError (fd_name f))
     | None \<Rightarrow> Inr (spec_tree rnd now fs))"
  by (simp add: build_tree_def add_files_spec split: option.split)

lemma load_ok:
  assumes "server_ok s" "length files < 2 ^ 63"
  shows "server_ok (snd (load_file_list rnd now files s))"
proof (cases "find (\<lambda>f. path_file_name (comps f) = None) files")
  case None
  have "serves (s\<lparr>fs_files := spec_tree rnd now files, fs_generation := g\<rparr>) rnd now files" for g
    using assms(2) by (simp add: serves_def)
  then have "server_ok (s\<lparr>fs_files := spec_tree rnd now files, fs_generation := g\<rparr>)" for g
    using assms(1) unfolding server_ok_def by (simp add: spec_tree_handlers) blast
  then show ?thesis using None by (simp add: load_file_list_def build_tree_closed)
next
  case (Some f)
  then show ?thesis using assms(1) by (simp add: load_file_list_def build_tree_closed)
qed

lemma release_ok: "server_ok s \<Longrightarrow> server_ok (snd (fuse_release s ino fh))"
proof (cases "get_node s ino")
  case (Some n)
  assume ok: "server_ok s"
  then have "handles_ok (fs_counter s) (fn_handlers n)"
    using get_node_in [OF Some] by (simp add: server_ok_def)
  from unregister_ok [OF this, of fh] show ?thesis
    using ok Some set_handlers_ok [OF ok] by (auto simp: fuse_release_def split: option.splits)
qed (simp add: fuse_release_def)

lemma releasedir_ok: "server_ok s \<Longrightarrow> server_ok (snd (fuse_releasedir s ino fh))"
proof (cases "get_node s ino")
  case (Some n)
  assume ok: "server_ok s"
  then have "handles_ok (fs_counter s) (fn_handlers n)"
    using get_node_in [OF Some] by (simp add: server_ok_def)
  from unregister_ok [OF this, of fh] show ?thesis
    using ok Some set_handlers_ok [OF ok] by (auto simp: fuse_releasedir_def split: option.splits)
qed (simp add: fuse_releasedir_def)

lemma open_step_ok:
  assumes "server_ok s" "fs_counter s + 1 < 2 ^ 64"
  shows "server_ok (snd (open_node good err s ino))"
  using open_node_ok [OF assms, of err ino good] assms(1) by (auto split: prod.splits sum.splits)

lemma fuse_step_ok: "server_ok s \<Longrightarrow> fuse_step s s' \<Longrightarrow> server_ok s'"
  by (erule fuse_stepE)
    (simp_all add: init_ok load_ok release_ok releasedir_ok open_step_ok fuse_open_def fuse_opendir_def)

lemma reachable_ok: "fuse_reachable s \<Longrightarrow> server_ok s"
proof (induction rule: fuse_reachable.induct)
  case reach_new
  show ?case by (simp add: server_ok_def fuse_new_def)
qed (rule fuse_step_ok)

section \<open>Looking up\<close>

lemma serves_nth:
  assumes "serves s rnd now fs" "k \<le> length fs"
  shows "k < length (fs_files s)" "strip (fs_files s ! k) = spec_node rnd now fs k"
proof -
  have eq: "map strip (fs_files s) = spec_tree rnd now fs" using assms(1) by (simp add: serves_def)
  then have "length (fs_files s) = Suc (length fs)" by (metis length_map length_upt spec_tree_def diff_zero)
  then show k: "k < length (fs_files s)" using assms(2) by simp
  have "strip (fs_files s ! k) = map strip (fs_files s) ! k" using k by simp
  also have "\<dots> = spec_node rnd now fs k" unfolding eq spec_tree_def using assms(2) by (simp del: upt_Suc)
  finally show "strip (fs_files s ! k) = spec_node rnd now fs k" .
qed

lemma serves_length: "serves s rnd now fs \<Longrightarrow> length (fs_files s) = Suc (length fs)"
  unfolding serves_def spec_tree_def by (metis length_map length_upt diff_zero)

lemma node_index_of_nat: "1 \<le> i \<Longrightarrow> i < 2 ^ 64 \<Longrightarrow> node_index (of_nat i) = i - 1"
proof -
  assume i: "1 \<le> i" "i < 2 ^ 64"
  then have "(of_nat i :: u64) - 1 = of_nat (i - 1)" by (simp only: of_nat_diff of_nat_1)
  moreover have "unat (of_nat (i - 1) :: u64) = i - 1" using i by (simp only: unat_of_nat) simp
  ultimately show ?thesis by (simp only: node_index_def)
qed

lemma serves_get_node:
  assumes "serves s rnd now fs" "k \<le> length fs"
  shows "\<exists>n. get_node s (of_nat (k + 1)) = Some n \<and> strip n = spec_node rnd now fs k"
proof -
  have "node_index (of_nat (k + 1)) = k"
    using node_index_of_nat [of "k + 1"] assms by (simp add: serves_def del: of_nat_add)
  then show ?thesis using serves_nth [OF assms] by (simp add: get_node_def)
qed

lemma serves_child:
  assumes "serves s rnd now fs" "k < length fs"
  shows "\<exists>n. child_at s (k + 2) = Some n \<and> strip n = spec_node rnd now fs (Suc k)"
  using serves_nth [OF assms(1), of "Suc k"] assms(2) by (simp add: child_at_def)

lemma find_child_kids:
  assumes "serves s rnd now fs" "list_all (\<lambda>k. k < length fs) ks"
  shows "find_child s name (map (\<lambda>k. k + 2) ks) =
    (case find (\<lambda>k. base_name (fs ! k) = name) ks of
       None \<Rightarrow> Inl ENOENT | Some k \<Rightarrow> Inr (attributes_from_description now (k + 2) (fs ! k)))"
  using assms(2)
proof (induction ks)
  case (Cons k ks)
  then obtain n where n: "child_at s (k + 2) = Some n" "strip n = spec_node rnd now fs (Suc k)"
    using serves_child [OF assms(1)] by auto
  then have "fn_name n = base_name (fs ! k)"
    "fn_attributes n = attributes_from_description now (k + 2) (fs ! k)"
    by (metis strip_simps(4) spec_node.simps(2) fuse_node.select_convs(5),
        metis strip_simps(3) spec_node.simps(2) fuse_node.select_convs(6))
  then show ?case using Cons n(1) by simp
qed simp

lemma kids_in_range: "list_all (\<lambda>k. k < length fs) (filter P [0..<length fs])"
  by (auto simp: list_all_iff)

text \<open>The file that a lookup of a name in a directory finds: the first one with this name.\<close>

lemma fuse_lookup_spec:
  assumes "serves s rnd now fs" "k \<le> length fs" "length name \<le> 255"
    and "k = 0 \<or> fd_kind (fs ! (k - 1)) = KindDirectory"
  shows "fuse_lookup s (of_nat (k + 1)) name =
    (case find (\<lambda>j. base_name (fs ! j) = name) (filter (\<lambda>j. parent_inode fs j = k + 1) [0..<length fs]) of
       None \<Rightarrow> Inl ENOENT | Some j \<Rightarrow> Inr (attributes_from_description now (j + 2) (fs ! j)))"
proof -
  obtain n where n: "get_node s (of_nat (k + 1)) = Some n" "strip n = spec_node rnd now fs k"
    using serves_get_node [OF assms(1,2)] by blast
  have "is_dir_node (spec_node rnd now fs k)"
    using assms(4) by (cases k) (simp_all add: is_dir_node_def new_root_def attributes_new_def attributes_from_description_def)
  then have dir: "is_dir_node n" using n(2) by (metis strip_simps(9))
  have "fn_children (spec_node rnd now fs k) = kids fs (k + 1)" by (cases k) simp_all
  then have "fn_children n = kids fs (k + 1)" using n(2) by (metis strip_simps(2))
  then show ?thesis
    using n(1) dir assms(3) find_child_kids [OF assms(1) kids_in_range]
    by (simp add: fuse_lookup_def max_name_len_def kids_def del: of_nat_add)
qed

fun walk :: "fuse_server \<Rightarrow> nat \<Rightarrow> string list \<Rightarrow> nat option" where
  "walk s i [] = Some i"
| "walk s i (n # ns) = (case fuse_lookup s (of_nat i) n of Inl _ \<Rightarrow> None | Inr a \<Rightarrow> walk s (ia_inode a) ns)"

lemma walk_append:
  "walk s i (ns @ ms) = (case walk s i ns of None \<Rightarrow> None | Some j \<Rightarrow> walk s j ms)"
  by (induction s i ns rule: walk.induct) (auto split: sum.split)

text \<open>The path of a file below the mount point: its name after the path of its parent, if that is listed.\<close>

function rel_path :: "file_description list \<Rightarrow> nat \<Rightarrow> string list" where
  "rel_path fs k =
    (case listed_parent fs k of None \<Rightarrow> [] | Some j \<Rightarrow> rel_path fs j) @ [base_name (fs ! k)]"
  by pat_completeness auto
termination by (relation "measure snd") (auto dest: listed_parent_less)

declare rel_path.simps [simp del]

lemma rel_path_eq:
  assumes "parent_inode fs j = parent_inode fs k" "base_name (fs ! j) = base_name (fs ! k)"
  shows "rel_path fs j = rel_path fs k"
proof -
  have "listed_parent fs j = listed_parent fs k"
    using assms(1) by (auto simp: parent_inode_def split: option.splits)
  then show ?thesis using assms(2) by (simp add: rel_path.simps [of fs j] rel_path.simps [of fs k])
qed

lemma find_unique:
  assumes "x \<in> set xs" "P x" "\<And>y. y \<in> set xs \<Longrightarrow> P y \<Longrightarrow> y = x"
  shows "find P xs = Some x"
proof (cases "find P xs")
  case (Some y)
  then show ?thesis using find_Some_iff_in [OF Some] assms(3) by simp
qed (use assms(1,2) in \<open>auto simp: find_None_iff\<close>)

lemma walk_rel_path:
  assumes sv: "serves s rnd now fs" and short: "list_all (\<lambda>f. length (base_name f) \<le> 255) fs"
    and dist: "distinct (map (rel_path fs) [0..<length fs])" and "k < length fs"
  shows "walk s 1 (rel_path fs k) = Some (k + 2)"
  using \<open>k < length fs\<close>
proof (induction k rule: less_induct)
  case (less k)
  define p where "p = parent_inode fs k - 1"
  have p1: "p + 1 = parent_inode fs k" using parent_inode_bounds(1) [of fs k] by (simp add: p_def)
  have to_parent: "walk s 1 (case listed_parent fs k of None \<Rightarrow> [] | Some j \<Rightarrow> rel_path fs j) = Some (p + 1)
    \<and> (p = 0 \<or> fd_kind (fs ! (p - 1)) = KindDirectory) \<and> p \<le> length fs"
  proof (cases "listed_parent fs k")
    case None
    then show ?thesis by (simp add: p_def parent_inode_def)
  next
    case (Some j)
    have j: "j < k" using listed_parent_less [OF Some] .
    moreover have "fd_kind (fs ! j) = KindDirectory"
      using Some by (auto simp: listed_parent_def dest: listed_Some split: option.splits)
    ultimately show ?thesis using Some less by (simp add: p_def parent_inode_def)
  qed
  have "find (\<lambda>j. base_name (fs ! j) = base_name (fs ! k)) (filter (\<lambda>j. parent_inode fs j = p + 1) [0..<length fs]) = Some k"
  proof (rule find_unique)
    fix j assume "j \<in> set (filter (\<lambda>j. parent_inode fs j = p + 1) [0..<length fs])"
      "base_name (fs ! j) = base_name (fs ! k)"
    then have "rel_path fs j = rel_path fs k" "j < length fs" using p1 rel_path_eq [of fs j k] by simp_all
    then show "j = k" using dist less.prems by (auto simp: distinct_map inj_on_def)
  qed (use p1 less.prems in auto)
  moreover have "length (base_name (fs ! k)) \<le> 255" using short less.prems by (auto simp: list_all_length)
  ultimately have "fuse_lookup s (of_nat (p + 1)) (base_name (fs ! k)) =
      Inr (attributes_from_description now (k + 2) (fs ! k))"
    using fuse_lookup_spec [OF sv, of p "base_name (fs ! k)"] to_parent by simp
  then have "walk s (p + 1) [base_name (fs ! k)] = Some (k + 2)"
    by (simp add: attributes_from_description_def del: of_nat_add of_nat_Suc)
  then show ?case using to_parent by (simp add: rel_path.simps [of fs k] walk_append)
qed

section \<open>Listing a directory\<close>

lemma fill_reply_take:
  "\<exists>m. fill_reply full acc es = acc @ take m es \<and> m \<le> length es
    \<and> (es \<noteq> [] \<and> \<not> full acc (hd es) \<longrightarrow> 0 < m)"
proof (induction full acc es rule: fill_reply.induct)
  case (2 full acc e es)
  show ?case
  proof (cases "full acc e")
    case True
    then show ?thesis by (intro exI [of _ 0]) simp
  next
    case False
    then obtain m where "fill_reply full (acc @ [e]) es = (acc @ [e]) @ take m es" "m \<le> length es"
      using "2.IH" by blast
    then show ?thesis using False by (intro exI [of _ "Suc m"]) simp
  qed
qed simp

text \<open>Calling \<open>readdir\<close> again from the last offset it gave, until nothing comes.\<close>

fun list_dir :: "nat \<Rightarrow> ((nat \<times> dir_entry) list \<Rightarrow> nat \<times> dir_entry \<Rightarrow> bool) \<Rightarrow> fuse_server \<Rightarrow> u64 \<Rightarrow> nat
    \<Rightarrow> nat \<Rightarrow> (nat \<times> dir_entry) list option" where
  "list_dir 0 full s ino fh off = None"
| "list_dir (Suc fuel) full s ino fh off =
    (case fuse_readdir full s ino fh (of_nat off) of
       Inl _ \<Rightarrow> None
     | Inr es \<Rightarrow> if es = [] then Some [] else map_option ((@) es) (list_dir fuel full s ino fh (fst (last es))))"

definition numbered :: "dir_entry list \<Rightarrow> (nat \<times> dir_entry) list" where
  "numbered es = zip [1..<Suc (length es)] es"

lemma numbered_length [simp]: "length (numbered es) = length es"
  by (simp add: numbered_def del: upt_Suc)

lemma numbered_fst: "i < length es \<Longrightarrow> fst (numbered es ! i) = Suc i"
  by (simp add: numbered_def del: upt_Suc)

lemma list_dir_all:
  assumes rd: "\<And>off. off \<le> length es \<Longrightarrow>
      fuse_readdir full s ino fh (of_nat off) = Inr (fill_reply full [] (drop off (numbered es)))"
    and room: "\<And>e. \<not> full [] e"
  shows "off \<le> length es \<Longrightarrow> length es - off < fuel \<Longrightarrow>
    list_dir fuel full s ino fh off = Some (drop off (numbered es))"
proof (induction fuel arbitrary: off)
  case (Suc fuel)
  let ?d = "drop off (numbered es)"
  obtain m where m: "fill_reply full [] ?d = take m ?d" "m \<le> length ?d" "?d \<noteq> [] \<longrightarrow> 0 < m"
    using fill_reply_take [of full "[]" ?d] room by (metis append_Nil)
  show ?case
  proof (cases "?d = []")
    case True
    then show ?thesis using rd [OF Suc.prems(1)] by simp
  next
    case False
    then have m0: "0 < m" "off < length es" using m(3) Suc.prems(1) by auto
    have ml: "m \<le> length es - off" using m(2) by simp
    have ne: "take m ?d \<noteq> []" using m0 by simp
    have "last (take m ?d) = numbered es ! (off + (m - 1))"
      using m0 ml by (simp add: last_conv_nth)
    then have off': "fst (last (take m ?d)) = off + m" using m0 ml by (simp add: numbered_fst)
    have "list_dir fuel full s ino fh (off + m) = Some (drop (off + m) (numbered es))"
      by (rule Suc.IH) (use m0 ml Suc.prems(2) in simp_all)
    moreover have "take m ?d @ drop (off + m) (numbered es) = ?d"
      by (metis append_take_drop_id drop_drop add.commute)
    ultimately show ?thesis using rd [OF Suc.prems(1)] ne by (simp add: m(1) off')
  qed
qed simp

lemma children_in_range:
  assumes "server_ok s" "get_node s ino = Some n"
  shows "list_all (\<lambda>i. child_at s i \<noteq> None) (fn_children n)" "length (fn_children n) < 2 ^ 63"
proof -
  have n: "node_index ino < length (fs_files s)" "n = fs_files s ! node_index ino"
    using assms(2) by (auto simp: get_node_def split: if_splits)
  then obtain rnd now fs where sv: "serves s rnd now fs" using assms(1) by (auto simp: server_ok_def)
  then have le: "node_index ino \<le> length fs" using n(1) serves_length [OF sv] by simp
  have "strip n = spec_node rnd now fs (node_index ino)" using serves_nth(2) [OF sv le] n(2) by simp
  moreover have "fn_children (spec_node rnd now fs k) = kids fs (k + 1)" for k by (cases k) simp_all
  ultimately have kids: "fn_children n = kids fs (node_index ino + 1)" by (metis strip_simps(2))
  show "list_all (\<lambda>i. child_at s i \<noteq> None) (fn_children n)"
    using serves_child [OF sv] unfolding kids kids_def by (auto simp: list_all_iff)
  have "length (fn_children n) \<le> length fs"
    unfolding kids kids_def by (metis length_map length_filter_le length_upt diff_zero)
  then show "length (fn_children n) < 2 ^ 63" using sv by (simp add: serves_def)
qed

lemma find_child_no_panic:
  "list_all (\<lambda>i. child_at s i \<noteq> None) is \<Longrightarrow> find_child s name is \<noteq> Inl Panicked"
  by (induction "is") (auto split: if_splits)

section \<open>Properties\<close>

text \<open>
  C10: The loop of \<open>build_tree\<close> computes the tree described without it: each file is a child of the
  last directory listed before it at its parent path, or of the root, in the order of the list,
  under its last name, with its attributes and its index in the list; the first path without a
  file name is an error.
\<close>

theorem build_tree_refines:
  "build_tree rnd now fs =
    (case find (\<lambda>f. path_file_name (comps f) = None) fs of
       Some f \<Rightarrow> Inl (FileError (fd_name f))
     | None \<Rightarrow> Inr (spec_tree rnd now fs))"
  by (rule build_tree_closed)

text \<open>
  When a list of files is loaded whose paths below the mount point are distinct, looking up the
  names of such a path from the root, one after the other, arrives at its file: the inode found
  is its position in the list plus two.
\<close>

theorem pasted_file_found:
  assumes "load_file_list rnd now fs s = (Inr (), s')" "length fs < 2 ^ 63"
    and "list_all (\<lambda>f. length (base_name f) \<le> 255) fs"
    and "distinct (map (rel_path fs) [0..<length fs])" and "k < length fs"
  shows "walk s' 1 (rel_path fs k) = Some (k + 2)"
proof -
  have "fs_files s' = spec_tree rnd now fs"
    using assms(1) by (auto simp: load_file_list_def build_tree_closed split: option.splits)
  then have "serves s' rnd now fs" using assms(2) by (simp add: serves_def)
  then show ?thesis by (rule walk_rel_path) (use assms in simp_all)
qed

definition demo_file :: "string \<Rightarrow> node_kind \<Rightarrow> file_description" where
  "demo_file name kind = \<lparr>fd_conn_id = 1, fd_name = name, fd_kind = kind, fd_atime = 0, fd_last_modified = 0,
     fd_last_metadata_changed = 0, fd_creation_time = 0, fd_size = 5, fd_perm = 420\<rparr>"

definition demo_files :: "file_description list" where
  "demo_files = [demo_file ''/home/a'' KindDirectory, demo_file ''/home/a/b'' KindDirectory,
     demo_file ''/home/a/b/c.txt'' KindFile, demo_file ''/home/a/c.txt'' KindFile]"

lemma demo_rel_paths: "map (rel_path demo_files) [0..<length demo_files] =
  [[''a''], [''a'', ''b''], [''a'', ''b'', ''c.txt''], [''a'', ''c.txt'']]"
  by code_simp

definition demo_server :: fuse_server where
  "demo_server = snd (load_file_list (\<lambda>i. of_nat i) 0 demo_files fuse_new)"

lemma demo_loaded: "load_file_list (\<lambda>i. of_nat i) 0 demo_files fuse_new = (Inr (), demo_server)"
proof -
  have "find (\<lambda>f. path_file_name (comps f) = None) demo_files = None" by code_simp
  then show ?thesis by (simp add: demo_server_def load_file_list_def build_tree_closed)
qed

lemma pasted_file_found_witness: "walk demo_server 1 [''a'', ''b'', ''c.txt''] = Some 4"
proof -
  have "length demo_files = 4" "rel_path demo_files 2 = [''a'', ''b'', ''c.txt'']"
    "list_all (\<lambda>f. length (base_name f) \<le> 255) demo_files" by code_simp+
  then show ?thesis
    using pasted_file_found [OF demo_loaded, of 2] demo_rel_paths by simp
qed

text \<open>
  C17: No call of the kernel makes a reachable server panic, whatever inodes, names, handles and
  offsets it passes: no index leaves the vector of nodes and no handle is added to a node that is
  being collected.
\<close>

theorem fuse_never_panics:
  assumes "fuse_reachable s" "fs_counter s + 1 < 2 ^ 64"
  shows "fuse_lookup s ino name \<noteq> Inl Panicked \<and> fst (fuse_open s ino) \<noteq> Inl Panicked
    \<and> fst (fuse_opendir s ino) \<noteq> Inl Panicked \<and> fuse_readdir full s ino fh offset \<noteq> Inl Panicked
    \<and> (if fs_files s = [] then True else list_root s \<noteq> None)"
proof -
  have ok: "server_ok s" using reachable_ok [OF assms(1)] .
  have look: "fuse_lookup s ino name \<noteq> Inl Panicked"
    using children_in_range(1) [OF ok] find_child_no_panic by (auto simp: fuse_lookup_def split: option.splits)
  have opens: "fst (open_node good err s ino) \<noteq> Inl Panicked" if "err \<noteq> Panicked" for good err
    using open_node_ok [OF ok assms(2), of err ino good] that by (auto split: prod.splits sum.splits)
  have readd: "fuse_readdir full s ino fh offset \<noteq> Inl Panicked"
    using children_in_range(1) [OF ok] by (auto simp: fuse_readdir_def split: option.splits)
  have root: "list_root s \<noteq> None" if ne: "fs_files s \<noteq> []"
  proof -
    obtain r rest where f: "fs_files s = r # rest" using ne by (cases "fs_files s") auto
    then have "get_node s 1 = Some r" by (simp add: get_node_def node_index_def)
    then show ?thesis using children_in_range(1) [OF ok, of 1 r] f by (simp add: list_root_def)
  qed
  show ?thesis using look readd root opens by (simp add: fuse_open_def fuse_opendir_def)
qed

lemma demo_reachable: "fuse_reachable demo_server" "fs_counter demo_server = 0"
proof -
  have "length demo_files < 2 ^ 63" by (simp add: demo_files_def)
  then show "fuse_reachable demo_server" unfolding demo_server_def by (rule reach_step [OF reach_new step_load])
  have "fs_counter (snd (load_file_list (\<lambda>i. of_nat i) 0 demo_files fuse_new)) = 0"
    by (simp add: load_file_list_def fuse_new_def split: sum.split)
  then show "fs_counter demo_server = 0" by (simp add: demo_server_def)
qed

lemma demo_server_files: "fs_files demo_server = spec_tree of_nat 0 demo_files"
proof -
  have "find (\<lambda>f. path_file_name (comps f) = None) demo_files = None" by code_simp
  then have "fs_files (snd (load_file_list of_nat 0 demo_files fuse_new)) = spec_tree of_nat 0 demo_files"
    by (simp add: load_file_list_def build_tree_closed)
  then show ?thesis by (simp add: demo_server_def)
qed

lemma demo_node:
  "node_index ino = k \<Longrightarrow> k < 5 \<Longrightarrow> get_node demo_server ino = Some (spec_node of_nat 0 demo_files k)"
proof -
  have "length demo_files = 4" by (simp add: demo_files_def)
  then show "node_index ino = k \<Longrightarrow> k < 5 \<Longrightarrow> get_node demo_server ino = Some (spec_node of_nat 0 demo_files k)"
    by (simp add: get_node_def demo_server_files spec_tree_def del: upt_Suc)
qed

lemma fuse_never_panics_witness: "fuse_lookup demo_server 0 ''x'' \<noteq> Inl Panicked"
  using fuse_never_panics [OF demo_reachable(1)] demo_reachable(2) by simp

section \<open>Handles over runs\<close>

text \<open>
  What can happen to a server, and the handles that are open: pairs of the place of a node and a
  handle. Looking up, listing, reading and asking for attributes leave the server as it is.
\<close>

datatype fuse_event =
  EvInit "nat \<Rightarrow> i32" nat
| EvLoad "nat \<Rightarrow> i32" nat "file_description list"
| EvOpendir u64
| EvOpen u64
| EvRelease u64 nat
| EvReleasedir u64 nat

fun fuse_do :: "fuse_event \<Rightarrow> fuse_server \<Rightarrow> fuse_server" where
  "fuse_do (EvInit rnd now) s = fuse_init rnd now s"
| "fuse_do (EvLoad rnd now files) s = snd (load_file_list rnd now files s)"
| "fuse_do (EvOpendir ino) s = snd (fuse_opendir s ino)"
| "fuse_do (EvOpen ino) s = snd (fuse_open s ino)"
| "fuse_do (EvRelease ino fh) s = snd (fuse_release s ino fh)"
| "fuse_do (EvReleasedir ino fh) s = snd (fuse_releasedir s ino fh)"

fun event_ok :: "fuse_event \<Rightarrow> bool" where
  "event_ok (EvLoad rnd now files) \<longleftrightarrow> length files < 2 ^ 63"
| "event_ok _ \<longleftrightarrow> True"

fun ends_handle :: "nat \<Rightarrow> nat \<Rightarrow> fuse_event \<Rightarrow> bool" where
  "ends_handle k fh (EvLoad _ _ _) \<longleftrightarrow> True"
| "ends_handle k fh (EvRelease ino f) \<longleftrightarrow> node_index ino = k \<and> f = fh"
| "ends_handle k fh (EvReleasedir ino f) \<longleftrightarrow> node_index ino = k \<and> f = fh"
| "ends_handle k fh _ \<longleftrightarrow> False"

definition open_handles :: "fuse_server \<Rightarrow> (nat \<times> nat) set" where
  "open_handles s = {(k, fh). k < length (fs_files s) \<and> fh \<in> set (fh_handlers (fn_handlers (fs_files s ! k)))}"

lemma open_handles_counter [simp]: "open_handles (s\<lparr>fs_counter := c\<rparr>) = open_handles s"
  by (simp add: open_handles_def)

lemma open_handles_set:
  "get_node s ino = Some n \<Longrightarrow> open_handles (set_handlers s ino h) =
    {p \<in> open_handles s. fst p \<noteq> node_index ino} \<union> Pair (node_index ino) ` set (fh_handlers h)"
  by (auto simp: open_handles_def set_handlers_def get_node_def nth_list_update split: if_splits)

lemma open_handles_node:
  "get_node s ino = Some n \<Longrightarrow> fh \<in> set (fh_handlers (fn_handlers n)) \<longleftrightarrow> (node_index ino, fh) \<in> open_handles s"
  by (auto simp: open_handles_def get_node_def split: if_splits)

lemma open_handles_node_insert:
  assumes "get_node s ino = Some n" "set (fh_handlers h) = insert fh (set (fh_handlers (fn_handlers n)))"
  shows "open_handles (set_handlers s ino h) = insert (node_index ino, fh) (open_handles s)"
  unfolding open_handles_set [OF assms(1)] assms(2) using open_handles_node [OF assms(1)] by force

lemma open_handles_node_remove:
  assumes "get_node s ino = Some n" "set (fh_handlers h) = set (fh_handlers (fn_handlers n)) - {fh}"
  shows "open_handles (set_handlers s ino h) = open_handles s - {(node_index ino, fh)}"
  unfolding open_handles_set [OF assms(1)] assms(2) using open_handles_node [OF assms(1)] by force

lemma open_node_handles:
  assumes "server_ok s" "fs_counter s + 1 < 2 ^ 64"
  shows "case open_node good err s ino of
      (Inl e, s') \<Rightarrow> s' = s
    | (Inr fh, s') \<Rightarrow> fh = fs_counter s \<and> fs_counter s' = Suc (fs_counter s) \<and> map strip (fs_files s') = map strip (fs_files s)
        \<and> open_handles s' = insert (node_index ino, fh) (open_handles s)"
  using open_node_ok [OF assms, where good = good and err = err and ino = ino] open_handles_node_insert [of "s\<lparr>fs_counter := Suc (fs_counter s)\<rparr>" ino]
  by (auto simp: set_handlers_strip get_node_def split: prod.splits sum.splits if_splits)

lemma node_handles_ok: "server_ok s \<Longrightarrow> get_node s ino = Some n \<Longrightarrow> handles_ok (fs_counter s) (fn_handlers n)"
  using get_node_in by (auto simp: server_ok_def)

lemma release_handles:
  assumes "server_ok s"
  shows "fs_counter (snd (fuse_release s ino fh)) = fs_counter s \<and>
    map strip (fs_files (snd (fuse_release s ino fh))) = map strip (fs_files s) \<and>
    open_handles (snd (fuse_release s ino fh)) = open_handles s - {(node_index ino, fh)} \<and>
    (fst (fuse_release s ino fh) = Inr () \<longleftrightarrow> (node_index ino, fh) \<in> open_handles s)"
proof (cases "get_node s ino")
  case None
  then have "(node_index ino, fh) \<notin> open_handles s" by (auto simp: open_handles_def get_node_def split: if_splits)
  then show ?thesis using None by (simp add: fuse_release_def)
next
  case (Some n)
  from unregister_ok [OF node_handles_ok [OF assms Some], of fh] open_handles_node [OF Some, of fh] show ?thesis
    using Some open_handles_node_remove [OF Some]
    by (auto simp: fuse_release_def set_handlers_strip split: option.splits)
qed

lemma releasedir_handles:
  assumes "server_ok s"
  shows "fs_counter (snd (fuse_releasedir s ino fh)) = fs_counter s \<and>
    map strip (fs_files (snd (fuse_releasedir s ino fh))) = map strip (fs_files s) \<and>
    open_handles (snd (fuse_releasedir s ino fh)) \<subseteq> open_handles s \<and>
    open_handles s - {(node_index ino, fh)} \<subseteq> open_handles (snd (fuse_releasedir s ino fh))"
proof (cases "get_node s ino")
  case (Some n)
  from unregister_ok [OF node_handles_ok [OF assms Some], of fh] show ?thesis
    using Some open_handles_node_remove [OF Some]
    by (auto simp: fuse_releasedir_def set_handlers_strip split: option.splits)
qed (auto simp: fuse_releasedir_def)

lemma load_handles:
  "fs_counter (snd (load_file_list rnd now files s)) = fs_counter s \<and>
   open_handles (snd (load_file_list rnd now files s)) \<subseteq> open_handles s \<and>
   (fst (load_file_list rnd now files s) = Inr () \<longrightarrow> open_handles (snd (load_file_list rnd now files s)) = {})"
  by (auto simp: load_file_list_def build_tree_closed open_handles_def spec_tree_def handles_new_def
      simp del: upt_Suc split: option.splits)

lemma init_handles:
  "fs_counter (fuse_init rnd now s) = fs_counter s \<and> open_handles (fuse_init rnd now s) = open_handles s \<and>
   (open_handles s \<noteq> {} \<longrightarrow> fuse_init rnd now s = s)"
  by (auto simp: fuse_init_def open_handles_def new_root_def handles_new_def nth_Cons')

text \<open>One event: no handle of before comes back, and a handle that the event does not end stays.\<close>

lemma fuse_do_handles:
  assumes ok: "server_ok s" "fs_counter s + 1 < 2 ^ 64" "event_ok e"
  shows "server_ok (fuse_do e s) \<and> fs_counter s \<le> fs_counter (fuse_do e s) \<and> fs_counter (fuse_do e s) \<le> Suc (fs_counter s) \<and>
    (\<forall>k fh. fh < fs_counter s \<and> (k, fh) \<in> open_handles (fuse_do e s) \<longrightarrow> (k, fh) \<in> open_handles s) \<and>
    (\<forall>k fh. (k, fh) \<in> open_handles s \<and> \<not> ends_handle k fh e \<longrightarrow>
       (k, fh) \<in> open_handles (fuse_do e s) \<and> map strip (fs_files (fuse_do e s)) = map strip (fs_files s))"
proof (cases e)
  case (EvInit rnd now)
  then show ?thesis using init_handles [of rnd now s] init_ok [OF ok(1)] by auto
next
  case (EvLoad rnd now files)
  then show ?thesis using load_handles [of rnd now files s] load_ok [OF ok(1)] ok(3) by auto
next
  case (EvOpendir ino)
  then show ?thesis
    using open_node_handles [OF ok(1,2), where good = is_dir_node and err = ENOTDIR and ino = ino] open_step_ok [OF ok(1,2), where good = is_dir_node and err = ENOTDIR and ino = ino]
    by (auto simp: fuse_opendir_def split: prod.splits sum.splits)
next
  case (EvOpen ino)
  then show ?thesis
    using open_node_handles [OF ok(1,2), where good = is_file_node and err = ENFILE and ino = ino] open_step_ok [OF ok(1,2), where good = is_file_node and err = ENFILE and ino = ino]
    by (auto simp: fuse_open_def split: prod.splits sum.splits)
next
  case (EvRelease ino fh)
  then show ?thesis using release_handles [OF ok(1), of ino fh] release_ok [OF ok(1)] by auto
next
  case (EvReleasedir ino fh)
  then show ?thesis using releasedir_handles [OF ok(1), of ino fh] releasedir_ok [OF ok(1)] by auto
qed

lemma fuse_run_handles:
  assumes "server_ok s" "fs_counter s + length evs < 2 ^ 64" "\<forall>e \<in> set evs. event_ok e"
  shows "server_ok (fold fuse_do evs s) \<and> fs_counter s \<le> fs_counter (fold fuse_do evs s) \<and>
    fs_counter (fold fuse_do evs s) \<le> fs_counter s + length evs \<and>
    (\<forall>k fh. fh < fs_counter s \<and> (k, fh) \<in> open_handles (fold fuse_do evs s) \<longrightarrow> (k, fh) \<in> open_handles s) \<and>
    (\<forall>k fh. (k, fh) \<in> open_handles s \<and> (\<forall>e \<in> set evs. \<not> ends_handle k fh e) \<longrightarrow>
       (k, fh) \<in> open_handles (fold fuse_do evs s) \<and> map strip (fs_files (fold fuse_do evs s)) = map strip (fs_files s))"
  using assms
proof (induction evs arbitrary: s)
  case (Cons e evs)
  have 1: "fs_counter s + 1 < 2 ^ 64" "event_ok e" using Cons.prems(2,3) by auto
  note one = fuse_do_handles [OF Cons.prems(1) 1]
  have "fs_counter (fuse_do e s) + length evs < 2 ^ 64" using one Cons.prems(2) by auto
  note rest = Cons.IH [OF conjunct1 [OF one] this]
  have ev: "\<forall>e' \<in> set evs. event_ok e'" using Cons.prems(3) by simp
  have "(k, fh) \<in> open_handles s"
    if "fh < fs_counter s" "(k, fh) \<in> open_handles (fold fuse_do evs (fuse_do e s))" for k fh
  proof -
    have "fh < fs_counter (fuse_do e s)" using that(1) one by (meson order_less_le_trans)
    then show ?thesis using rest [OF ev] one that by blast
  qed
  moreover have "(k, fh) \<in> open_handles (fold fuse_do evs (fuse_do e s)) \<and>
      map strip (fs_files (fold fuse_do evs (fuse_do e s))) = map strip (fs_files s)"
    if "(k, fh) \<in> open_handles s" "\<forall>e' \<in> set (e # evs). \<not> ends_handle k fh e'" for k fh
  proof -
    have "(k, fh) \<in> open_handles (fuse_do e s)" "map strip (fs_files (fuse_do e s)) = map strip (fs_files s)"
      using one that by auto
    then show ?thesis using rest [OF ev] that(2) by (metis list.set_intros(2))
  qed
  moreover have "fs_counter s \<le> fs_counter (fold fuse_do evs (fuse_do e s))"
    "fs_counter (fold fuse_do evs (fuse_do e s)) \<le> fs_counter s + length (e # evs)"
    using one rest [OF ev] by auto
  ultimately show ?case using rest [OF ev] unfolding fold_simps by blast
qed simp

text \<open>Reading and releasing, told by the open handles.\<close>

lemma read_node_strip: "strip m = strip n \<Longrightarrow> read_node m offset cb rx = read_node n offset cb rx"
  using strip_simps(6-8) [of m] strip_simps(6-8) [of n] strip_simps(3) [of m] strip_simps(3) [of n]
  by (simp add: read_node_def contents_request_def)

lemma fuse_read_open:
  assumes "server_ok s" "get_node s ino = Some m" "(node_index ino, fh) \<in> open_handles s" "strip m = strip n" "is_file_node n"
  shows "fuse_read s ino fh offset cb rx = (case read_node n offset cb rx of
      (Inl e, sent, rx) \<Rightarrow> (Inl EIO, sent, rx) | (Inr bs, sent, rx) \<Rightarrow> (Inr bs, sent, rx))"
proof -
  note h = node_handles_ok [OF assms(1,2)]
  have "have_handler (fn_handlers m) fh" using have_handler_iff [OF h] open_handles_node [OF assms(2)] assms(3) by simp
  moreover have "\<not> marked (fn_handlers m)" using h by (simp add: marked_def handles_ok_def)
  moreover have "is_file_node m" using strip_simps(10) [of m] strip_simps(10) [of n] assms(4,5) by simp
  ultimately show ?thesis using assms(2) read_node_strip [OF assms(4)] by (simp add: fuse_read_def)
qed

lemma closed_refused:
  assumes "server_ok s" "(node_index ino, fh) \<notin> open_handles s"
  shows "fuse_read s ino fh offset cb rx \<in> {(Inl EBADF, [], rx), (Inl ENOENT, [], rx)}
    \<and> fuse_release s ino fh \<in> {(Inl EBADF, s), (Inl ENOENT, s)}"
proof (cases "get_node s ino")
  case (Some n)
  note h = node_handles_ok [OF assms(1) Some]
  have "fh \<notin> set (fh_handlers (fn_handlers n))" using open_handles_node [OF Some] assms(2) by simp
  then have "\<not> have_handler (fn_handlers n) fh" "unregister (fn_handlers n) fh = None"
    using have_handler_iff [OF h, of fh] unregister_ok [OF h, of fh] by (auto split: option.splits)
  then show ?thesis using Some by (simp add: fuse_read_def fuse_release_def)
qed (simp add: fuse_read_def fuse_release_def)

text \<open>
  C16: A handle that \<open>open\<close> gives was not open on any node. Whatever happens to the server then,
  other files and directories opened and closed, other handles of the same file released, it is
  good for reading and reads what it would have read at once, until it is released, which works. From
  then on it is refused, by reading and by a second release, whatever else happens, also when new
  files are offered; and when new files are offered before it is released, it is refused from then on.
\<close>

theorem handle_lifecycle:
  assumes "fuse_reachable s" "fs_counter s + 1 + length evs + length later < 2 ^ 64"
    and "fuse_open s ino = (Inr fh, s')"
    and "\<forall>e \<in> set evs. \<not> ends_handle (node_index ino) fh e" "\<forall>e \<in> set (evs @ later). event_ok e"
    and "t = fold fuse_do evs s'"
    and "t' = snd (fuse_release t ino fh) \<or>
      length files < 2 ^ 63 \<and> load_file_list rnd now files t = (Inr (), t')"
    and "u = fold fuse_do later t'"
  shows "(\<forall>n \<in> set (fs_files s). \<not> have_handler (fn_handlers n) fh)
    \<and> fuse_read t ino fh offset cb rx = fuse_read s' ino fh offset cb rx
    \<and> fst (fuse_read t ino fh offset cb rx) \<notin> {Inl EBADF, Inl ENOENT, Inl ENFILE, Inl EBUSY}
    \<and> fst (fuse_release t ino fh) = Inr ()
    \<and> (\<forall>i. fuse_read u i fh offset cb rx \<in> {(Inl EBADF, [], rx), (Inl ENOENT, [], rx)}
         \<and> fuse_release u i fh \<in> {(Inl EBADF, u), (Inl ENOENT, u)})"
proof -
  have ok: "server_ok s" and c: "fs_counter s + 1 < 2 ^ 64" using reachable_ok [OF assms(1)] assms(2) by auto
  obtain n where n: "get_node s ino = Some n" "is_file_node n" and ok': "server_ok s'"
    using open_node_ok [OF ok c, where good = is_file_node and err = ENFILE and ino = ino] assms(3) unfolding fuse_open_def by auto
  have o: "fh = fs_counter s" "fs_counter s' = Suc (fs_counter s)" "map strip (fs_files s') = map strip (fs_files s)"
    "open_handles s' = insert (node_index ino, fh) (open_handles s)"
    using open_node_handles [OF ok c, where good = is_file_node and err = ENFILE and ino = ino] assms(3) unfolding fuse_open_def by auto
  have fresh: "\<not> have_handler (fn_handlers m) fh" if "m \<in> set (fs_files s)" for m
    using ok that o(1) have_handler_iff [of "fs_counter s" "fn_handlers m"] by (auto simp: server_ok_def handles_ok_def)
  then have none: "(k, fh) \<notin> open_handles s" for k
    using ok o(1) nth_mem [of k "fs_files s"] by (fastforce simp: open_handles_def server_ok_def handles_ok_def)
  have "fs_counter s' + length evs < 2 ^ 64" "\<forall>e \<in> set evs. event_ok e" using assms(2,5) o(2) by auto
  note run = fuse_run_handles [OF ok' this, folded assms(6)]
  have held: "(k, fh) \<in> open_handles t \<longleftrightarrow> k = node_index ino" for k
  proof
    assume "(k, fh) \<in> open_handles t"
    then have "(k, fh) \<in> open_handles s'" using run o(1,2) by (metis lessI)
    then show "k = node_index ino" using o(4) none by blast
  next
    assume "k = node_index ino"
    then show "(k, fh) \<in> open_handles t" using run o(4) assms(4) by blast
  qed
  have "map strip (fs_files t) = map strip (fs_files s)" using run o assms(4) by auto
  then obtain m m' where m: "get_node t ino = Some m" "strip m = strip n" "get_node s' ino = Some m'" "strip m' = strip n"
    using n(1) o(3) by (auto simp: get_node_def list_eq_iff_nth_eq split: if_splits)
  have same: "fuse_read t ino fh offset cb rx = fuse_read s' ino fh offset cb rx"
    using fuse_read_open [OF _ m(1) _ m(2) n(2)] fuse_read_open [OF ok' m(3) _ m(4) n(2)] held o(4) run by simp
  have good: "fst (fuse_read s' ino fh offset cb rx) \<notin> {Inl EBADF, Inl ENOENT, Inl ENFILE, Inl EBUSY}"
    using fuse_read_open [OF ok' m(3) _ m(4) n(2)] o(4) by (auto split: prod.splits sum.splits)
  have rel: "fst (fuse_release t ino fh) = Inr ()" using release_handles [of t ino fh] run held by simp
  have t': "server_ok t'" "fs_counter t' = fs_counter t" "\<And>k. (k, fh) \<notin> open_handles t'"
    using assms(7) run held release_handles [of t ino fh] release_ok [of t ino fh] load_ok [of t files rnd now]
      load_handles [of rnd now files t] by auto
  have "fs_counter t' + length later < 2 ^ 64" "\<forall>e \<in> set later. event_ok e" using assms(2,5) o(2) run t'(2) by auto
  note after = fuse_run_handles [OF t'(1) this, folded assms(8)]
  have "fh < fs_counter t'" using t'(2) run o(1,2) by simp
  then have "(k, fh) \<notin> open_handles u" for k using after t'(3) by blast
  then show ?thesis using fresh same good rel closed_refused [of u] after by simp
qed

lemma handle_lifecycle_witness:
  "let s' = snd (fuse_open demo_server 4); t = fold fuse_do [EvOpen 4, EvRelease 4 1] s';
       u = fold fuse_do [EvOpen 4] (snd (fuse_release t 4 0)) in
   fst (fuse_read t 4 0 0 5 []) \<notin> {Inl EBADF, Inl ENOENT, Inl ENFILE, Inl EBUSY} \<and>
   fst (fuse_read u 4 0 0 5 []) \<in> {Inl EBADF, Inl ENOENT}"
proof -
  define s' where "s' = snd (fuse_open demo_server 4)"
  define t where "t = fold fuse_do [EvOpen 4, EvRelease 4 1] s'"
  define u where "u = fold fuse_do [EvOpen 4] (snd (fuse_release t 4 0))"
  have "is_file_node (spec_node of_nat 0 demo_files 3)"
    by (simp add: numeral_3_eq_3 is_file_node_def attributes_from_description_def demo_files_def demo_file_def)
  then have "fst (fuse_open demo_server 4) = Inr 0"
    using demo_node [of 4 3] demo_reachable(2)
    by (simp add: fuse_open_def open_node_def marked_def handles_new_def alloc_fd_def add_handler_def node_index_def)
  then have opened: "fuse_open demo_server 4 = (Inr 0, s')" by (simp add: prod_eq_iff s'_def)
  have few: "fs_counter demo_server + 1 + length [EvOpen 4, EvRelease 4 1] + length [EvOpen 4] < 2 ^ 64"
    and kept: "\<forall>e \<in> set [EvOpen 4, EvRelease 4 1]. \<not> ends_handle (node_index 4) 0 e"
    and events: "\<forall>e \<in> set ([EvOpen 4, EvRelease 4 1] @ [EvOpen 4]). event_ok e"
    using demo_reachable(2) by simp_all
  note life = handle_lifecycle [OF demo_reachable(1) few opened kept events t_def disjI1 [OF refl] u_def]
  have "fst (fuse_read t 4 0 0 5 []) \<notin> {Inl EBADF, Inl ENOENT, Inl ENFILE, Inl EBUSY}"
    using life by blast
  moreover have "fuse_read u 4 0 0 5 [] \<in> {(Inl EBADF, [], []), (Inl ENOENT, [], [])}"
    using life by blast
  ultimately show ?thesis unfolding Let_def s'_def [symmetric] t_def [symmetric] u_def [symmetric] by auto
qed

text \<open>
  C32: Reading an open directory in pieces, each call from the offset after the last entry of the call
  before, ends after at most one call per entry plus one and yields every entry exactly once, in
  order, however many entries fit a reply, as long as one does.
\<close>

theorem readdir_complete:
  assumes "fuse_reachable s" "get_node s ino = Some n" "is_dir_node n" "have_handler (fn_handlers n) fh"
    and "\<And>e. \<not> full [] e"
  shows "list_dir (length (dir_entries s ino n) + 1) full s ino fh 0 = Some (numbered (dir_entries s ino n))"
proof -
  let ?es = "dir_entries s ino n"
  note range = children_in_range [OF reachable_ok [OF assms(1)] assms(2)]
  have len: "length ?es < 2 ^ 64" using range(2) by (simp add: dir_entries_def split: option.split)
  have rd: "fuse_readdir full s ino fh (of_nat off) = Inr (fill_reply full [] (drop off (numbered ?es)))"
    if "off \<le> length ?es" for off
  proof -
    have "unat (of_nat off :: u64) = off" using that len by (simp add: unat_of_nat)
    then show ?thesis
      unfolding fuse_readdir_def numbered_def using assms(2,3,4) range(1) by (simp del: upt_Suc)
  qed
  show ?thesis
    using list_dir_all [OF rd assms(5), where off = 0 and fuel = "length ?es + 1"] by (simp del: list_dir.simps)
qed

lemma readdir_complete_witness:
  "map_option (map (snd \<circ> snd \<circ> snd)) (list_dir 5 (\<lambda>acc e. length acc = 2) (snd (fuse_opendir demo_server 2)) 2 0 0)
    = Some [''.'', ''..'', ''b'', ''c.txt'']"
proof -
  let ?s = "snd (fuse_opendir demo_server 2)"
  have r: "fuse_reachable ?s"
    by (rule reach_step [OF demo_reachable(1) step_opendir]) (simp add: demo_reachable(2))
  let ?n = "spec_node of_nat 0 demo_files 1"
  let ?h = "\<lparr>fh_handlers = [0], fh_gc = False\<rparr>"
  have dir: "is_dir_node ?n"
    by (simp add: is_dir_node_def attributes_from_description_def demo_files_def demo_file_def)
  have node: "get_node demo_server 2 = Some ?n" using demo_node [of 2 1] by (simp add: node_index_def)
  then have idx: "1 < length (fs_files demo_server)" by (simp add: get_node_def node_index_def split: if_splits)
  have s: "?s = set_handlers (demo_server\<lparr>fs_counter := 1\<rparr>) 2 ?h"
    using node dir demo_reachable(2)
    by (simp add: fuse_opendir_def open_node_def marked_def handles_new_def alloc_fd_def add_handler_def)
  define n where "n = ?n\<lparr>fn_handlers := ?h\<rparr>"
  have n: "get_node ?s 2 = Some n" "is_dir_node n" "have_handler (fn_handlers n) 0"
    using node idx dir unfolding s n_def
    by (simp_all add: set_handlers_def get_node_def node_index_def is_dir_node_def have_handler_def
        binary_search_def search_base.simps)
  have kids: "kids demo_files 2 = [3, 5]" by code_simp
  have par: "parent_inode demo_files 0 = 1" by code_simp
  have base: "base_name (demo_files ! 1) = ''b''" "base_name (demo_files ! 3) = ''c.txt''" by code_simp+
  have f: "fs_files ?s ! 2 = spec_node of_nat 0 demo_files (Suc 1)" "fs_files ?s ! 4 = spec_node of_nat 0 demo_files (Suc 3)"
    using demo_server_files
    by (simp_all add: s set_handlers_def node_index_def spec_tree_def demo_files_def del: upt_Suc)
  have names: "map (snd \<circ> snd) (dir_entries ?s 2 n) = [''.'', ''..'', ''b'', ''c.txt'']"
    using kids par f base by (simp add: dir_entries_def n_def numeral_eq_Suc del: spec_node.simps(1))
  have "length (dir_entries ?s 2 n) = 4" using arg_cong [OF names, of length] by simp
  moreover have "map (snd \<circ> snd \<circ> snd) (numbered es) = map (snd \<circ> snd) es" for es :: "dir_entry list"
    unfolding numbered_def by (rule nth_equalityI) (simp_all del: upt_Suc)
  ultimately show ?thesis
    using readdir_complete [OF r n, of "\<lambda>acc e. length acc = 2"] names by simp
qed

end
