(* ===== verification/FileGroup.thy ===== *)
theory FileGroup
  imports FuseFs
begin

text \<open>
  The list of files that a peer offers: \<open>LocalFile\<close> and \<open>construct_file_list\<close> of
  \<open>libs/clipboard/src/platform/unix/local_file.rs\<close>, the packet \<open>build_file_list_pdu\<close> of
  \<open>platform/unix/mod.rs\<close>, and the parser \<open>FileDescription::parse_file_descriptors\<close> of
  \<open>platform/fuse.rs\<close>, with the round trip between them. The UTF-16 conversions of the crate
  \<open>utf16string\<close> are arguments; the metadata and directories of the machine are a record.
\<close>

section \<open>Names\<close>

record utf16 =
  u16_encode :: "string \<Rightarrow> bytes"
  u16_decode :: "bytes \<Rightarrow> string option"

text \<open>
  What the parser relies on: text that was encoded, padded with zero code units, decodes to the
  text padded with NUL characters; a code unit has two bytes.
\<close>

definition utf16_ok :: "utf16 \<Rightarrow> bool" where
  "utf16_ok U \<longleftrightarrow> (\<forall>s. even (length (u16_encode U s))
    \<and> (\<forall>k. u16_decode U (u16_encode U s @ replicate (2 * k) 0) = Some (s @ replicate k (CHR 0x00))))"

definition replace_char :: "char \<Rightarrow> char \<Rightarrow> string \<Rightarrow> string" where
  "replace_char a b s = map (\<lambda>c. if c = a then b else c) s"

definition trim_end_nul :: "string \<Rightarrow> string" where
  "trim_end_nul s = rev (dropWhile (\<lambda>c. c = CHR 0x00) (rev s))"

section \<open>Local files\<close>

record file_meta =
  fm_len :: u64
  fm_is_dir :: bool
  fm_readonly :: bool
  fm_modified :: "int option"
  fm_mode :: u32

text \<open>\<open>lf_handle\<close> is the position in the file when it is open, \<open>lf_offset\<close> what the program takes it to be.\<close>

record local_file =
  lf_path :: string
  lf_handle :: "nat option"
  lf_offset :: nat
  lf_name :: string
  lf_size :: u64
  lf_last_write_time :: int
  lf_is_dir :: bool
  lf_perm :: u32
  lf_read_only :: bool
  lf_hidden :: bool
  lf_system :: bool
  lf_archive :: bool
  lf_normal :: bool

record machine =
  m_metadata :: "string \<Rightarrow> file_meta option"
  m_read_dir :: "string \<Rightarrow> string list option"
  m_contents :: "string \<Rightarrow> bytes option"

definition try_open :: "machine \<Rightarrow> string \<Rightarrow> cliprdr_error + local_file" where
  "try_open M path =
    (case m_metadata M path of
       None \<Rightarrow> Inl (FileError path)
     | Some mt \<Rightarrow>
         let read_only = fm_readonly mt; sys = False; hidden = starts_with ''.'' path; archive = False;
             normal = (\<not> (fm_is_dir mt \<or> read_only \<or> sys \<or> hidden \<or> archive))
         in Inr \<lparr>lf_path = path, lf_handle = None, lf_offset = 0,
                  lf_name = replace_char (CHR ''/'') (CHR 0x5C) (dropWhile (\<lambda>c. c = CHR ''/'') path),
                  lf_size = fm_len mt,
                  lf_last_write_time = (case fm_modified mt of Some t \<Rightarrow> t | None \<Rightarrow> 0),
                  lf_is_dir = fm_is_dir mt, lf_perm = fm_mode mt, lf_read_only = read_only, lf_hidden = hidden,
                  lf_system = sys, lf_archive = archive, lf_normal = normal\<rparr>)"

definition ldap_epoch_delta :: nat where
  "ldap_epoch_delta = 116444772610000000"

definition flag :: "u32 \<Rightarrow> bool \<Rightarrow> u32" where
  "flag v b = (if b then v else 0)"

definition file_attributes :: "local_file \<Rightarrow> u32" where
  "file_attributes f =
    flag 0x1 (lf_read_only f) OR flag 0x2 (lf_hidden f) OR flag 0x4 (lf_system f)
    OR flag 0x10 (lf_is_dir f) OR flag 0x20 (lf_archive f) OR flag 0x80 (lf_normal f)"

text \<open>The time of a file in units of 100 ns since 1601; a time before the epoch counts as the epoch.\<close>

definition win32_time :: "local_file \<Rightarrow> u64" where
  "win32_time f = of_nat (nat (lf_last_write_time f)) div 100 + of_nat ldap_epoch_delta"

definition fd_flags :: u32 where
  "fd_flags = 0x40 OR 0x20 OR 0x04 OR 0x4000 OR 0x08"

text \<open>
  \<open>as_bin\<close>; \<open>None\<close> is the panic when the name has more than 520 bytes: \<open>520 - name_len\<close> underflows.
\<close>

definition as_bin :: "utf16 \<Rightarrow> local_file \<Rightarrow> bytes option" where
  "as_bin U f =
    (let size_high = drop_bit 32 (lf_size f);
         size_low = lf_size f AND 0xFFFFFFFF;
         name = u16_encode U (lf_path f)
     in if 520 < length name then None
        else Some (le_bytes 4 (unat fd_flags) @ replicate 32 0
          @ le_bytes 4 (unat (file_attributes f)) @ replicate 12 0
          @ le_bytes 4 (unat (lf_perm f)) @ le_bytes 8 (unat (win32_time f))
          @ le_bytes 4 (unat size_high) @ le_bytes 4 (unat size_low)
          @ name @ replicate (520 - length name) 0))"

fun as_bins :: "utf16 \<Rightarrow> local_file list \<Rightarrow> bytes option" where
  "as_bins U [] = Some []"
| "as_bins U (f # fs) =
    (case as_bin U f of None \<Rightarrow> None
     | Some b \<Rightarrow> (case as_bins U fs of None \<Rightarrow> None | Some bs \<Rightarrow> Some (b @ bs)))"

definition build_file_list_pdu :: "utf16 \<Rightarrow> local_file list \<Rightarrow> bytes option" where
  "build_file_list_pdu U files = map_option ((@) (le_bytes 4 (length files))) (as_bins U files)"

section \<open>The parser\<close>

definition field :: "nat \<Rightarrow> nat \<Rightarrow> bytes \<Rightarrow> nat" where
  "field off n bs = le_val (take n (drop off bs))"

text \<open>The permissions: those of a Unix peer as they are, otherwise by the attributes.\<close>

definition parsed_perm :: "bool \<Rightarrow> u32 \<Rightarrow> u16 \<Rightarrow> u16" where
  "parsed_perm from_unix attributes perm =
    (if from_unix then perm
     else if attributes = 0x80 then perm_rwx
     else if attributes AND 0x01 \<noteq> 0 then perm_read
     else if attributes AND 0x02 \<noteq> 0 then perm_self_ro
     else if attributes AND 0x10 \<noteq> 0 then perm_rwx
     else perm_rw)"

text \<open>One descriptor, of 592 bytes, and the bytes after it.\<close>

definition parse_file_descriptor ::
  "utf16 \<Rightarrow> bytes \<Rightarrow> i32 \<Rightarrow> cliprdr_error + (file_description \<times> bytes)" where
  "parse_file_descriptor U bs conn =
    (let flags = (of_nat (field 0 4 bs) :: u32);
         attributes = (of_nat (field 36 4 bs) :: u32);
         perm = (of_nat (field 52 4 bs) :: u16);
         last_write_time = (of_nat (field 56 8 bs) :: u64);
         file_size_high = field 64 4 bs;
         file_size_low = field 68 4 bs
     in case u16_decode U (take 520 (drop 72 bs)) of
          None \<Rightarrow> Inl ConversionFailure
        | Some wstr \<Rightarrow>
            if flags AND 0x04 = 0 then Inl (InvalidRequest ''file description must have valid attributes'')
            else
              let directory = (attributes AND 0x10 \<noteq> 0);
                  fsize = (if flags AND 0x40 \<noteq> 0
                          then push_bit 32 (of_nat file_size_high) + of_nat file_size_low else 0);
                  last_modified = (if flags AND 0x20 \<noteq> 0 \<and> of_nat ldap_epoch_delta \<le> last_write_time
                          then unat ((last_write_time - of_nat ldap_epoch_delta) * 100) else 0)
              in Inr (\<lparr>fd_conn_id = conn,
                       fd_name = trim_end_nul (replace_char (CHR 0x5C) (CHR ''/'') wstr),
                       fd_kind = (if directory then KindDirectory else KindFile),
                       fd_atime = last_modified, fd_last_modified = last_modified,
                       fd_last_metadata_changed = last_modified, fd_creation_time = last_modified,
                       fd_size = fsize, fd_perm = parsed_perm (flags AND 0x08 \<noteq> 0) attributes perm\<rparr>,
                      drop 592 bs))"

fun parse_descriptors ::
  "utf16 \<Rightarrow> nat \<Rightarrow> bytes \<Rightarrow> i32 \<Rightarrow> cliprdr_error + file_description list" where
  "parse_descriptors U 0 bs conn = Inr []"
| "parse_descriptors U (Suc n) bs conn =
    (case parse_file_descriptor U bs conn of
       Inl e \<Rightarrow> Inl e
     | Inr (d, bs) \<Rightarrow>
         (case parse_descriptors U n bs conn of Inl e \<Rightarrow> Inl e | Inr ds \<Rightarrow> Inr (d # ds)))"

definition parse_file_descriptors ::
  "utf16 \<Rightarrow> bytes \<Rightarrow> i32 \<Rightarrow> cliprdr_error + file_description list" where
  "parse_file_descriptors U pdu conn =
    (if length pdu < 4 then Inl (InvalidRequest ''file descriptor request with infficient length'')
     else
       let count = le_val (take 4 pdu); bs = drop 4 pdu
       in if bs = [] \<and> count = 0 then Inr []
          else if length bs \<noteq> 592 * count then Inl (InvalidRequest ''file descriptor request with invalid length'')
          else parse_descriptors U count bs conn)"

section \<open>Collecting the files of the clipboard\<close>

text \<open>
  \<open>constr_file_lst\<close> with the files and the visited paths so far; the depth of the recursion is
  bounded by \<open>fuel\<close>, and \<open>None\<close> says that it was not enough.
\<close>

definition join_path :: "string \<Rightarrow> string \<Rightarrow> string" where
  "join_path dir name = (if dir = [] \<or> last dir = CHR ''/'' then dir @ name else dir @ ''/'' @ name)"

type_synonym walk_state = "local_file list \<times> string set"

fun each_path :: "(string \<Rightarrow> walk_state \<Rightarrow> (cliprdr_error + walk_state) option) \<Rightarrow> string list
    \<Rightarrow> walk_state \<Rightarrow> (cliprdr_error + walk_state) option" where
  "each_path f [] st = Some (Inr st)"
| "each_path f (p # ps) st =
    (case f p st of
       None \<Rightarrow> None
     | Some (Inl e) \<Rightarrow> Some (Inl e)
     | Some (Inr st) \<Rightarrow> each_path f ps st)"

fun constr_file_lst :: "nat \<Rightarrow> machine \<Rightarrow> string \<Rightarrow> walk_state \<Rightarrow> (cliprdr_error + walk_state) option" where
  "constr_file_lst 0 M path st = None"
| "constr_file_lst (Suc fuel) M path st =
    (if path \<in> snd st then Some (Inr st)
     else case try_open M path of
            Inl e \<Rightarrow> Some (Inl e)
          | Inr f \<Rightarrow>
              let st = (fst st @ [f], insert path (snd st))
              in if lf_is_dir f then
                   (case m_read_dir M path of
                      None \<Rightarrow> Some (Inl (FileError path))
                    | Some names \<Rightarrow> each_path (constr_file_lst fuel M) (map (join_path path) names) st)
                 else Some (Inr st))"

definition construct_file_list :: "nat \<Rightarrow> machine \<Rightarrow> string list \<Rightarrow> (cliprdr_error + local_file list) option" where
  "construct_file_list fuel M paths =
    map_option (map_sum id fst) (each_path (constr_file_lst fuel M) paths ([], {}))"

section \<open>Reading a local file\<close>

text \<open>
  \<open>load_handle\<close> opens the file once, at its beginning. \<open>read_exact_at\<close> reads \<open>n\<close> bytes from
  \<open>offset\<close>; a short file is an error and leaves the handle somewhere, which is its end here. When
  the end is reached the handle is dropped.
\<close>

definition load_handle :: "machine \<Rightarrow> local_file \<Rightarrow> (cliprdr_error + unit) \<times> local_file" where
  "load_handle M f =
    (if \<not> lf_is_dir f \<and> lf_handle f = None then
       (case m_contents M (lf_path f) of
          None \<Rightarrow> (Inl (FileError (lf_path f)), f)
        | Some _ \<Rightarrow> (Inr (), f\<lparr>lf_handle := Some 0\<rparr>))
     else (Inr (), f))"

definition read_exact_at :: "machine \<Rightarrow> nat \<Rightarrow> nat \<Rightarrow> local_file \<Rightarrow> (cliprdr_error + bytes) \<times> local_file" where
  "read_exact_at M n offset f =
    (case load_handle M f of
       (Inl e, f) \<Rightarrow> (Inl e, f)
     | (Inr _, f) \<Rightarrow>
         (case (lf_handle f, m_contents M (lf_path f)) of
            (Some pos, Some content) \<Rightarrow>
              let pos = (if offset \<noteq> lf_offset f then offset else pos)
              in if length content < pos + n
                 then (Inl (FileError (lf_path f)), f\<lparr>lf_handle := Some (length content)\<rparr>)
                 else
                   let new_offset = offset + n;
                       f = f\<lparr>lf_handle := Some (pos + n), lf_offset := new_offset\<rparr>;
                       f = (if unat (lf_size f) \<le> new_offset then f\<lparr>lf_offset := 0, lf_handle := None\<rparr> else f)
                   in (Inr (take n (drop pos content)), f)
          | _ \<Rightarrow> (Inl (FileError (lf_path f)), f)))"

end
