(* ===== verification/FileGroupProps.thy ===== *)
theory FileGroupProps
  imports FileGroup FuseProps
begin

text \<open>
  The offered list of files arrives as it was sent, and the limits of the packet: the longest name,
  the epoch. Collecting a directory lists every directory before what it contains, so that the
  receiver rebuilds the tree.
\<close>

section \<open>One descriptor\<close>

lemma field_append_skip: "length xs \<le> off \<Longrightarrow> field off n (xs @ ys) = field (off - length xs) n ys"
  by (simp add: field_def)

lemma field_le_bytes: "field 0 n (le_bytes n x @ ys) = x mod 256 ^ n"
  by (simp add: field_def byte_simps)

lemma unat_drop_bit_32: "unat (drop_bit 32 (w :: u64)) < 2 ^ 32"
  using unsigned_less [of w, where ?'a = nat] unfolding unat_drop_bit by (simp add: div_less_iff_less_mult)

lemma join_halves: "push_bit 32 (drop_bit 32 w) + (w AND 0xFFFFFFFF) = (w :: u64)"
proof -
  have "(0xFFFFFFFF :: u64) = mask 32" by (simp add: mask_eq_exp_minus_1)
  then have "w AND 0xFFFFFFFF = take_bit 32 w" by (simp add: take_bit_eq_mask)
  then show ?thesis using bits_ident [of 32 w] by (simp add: add.commute)
qed

definition parsed_time :: "local_file \<Rightarrow> nat" where
  "parsed_time f = nat (lf_last_write_time f) div 100 * 100"

definition described :: "i32 \<Rightarrow> local_file \<Rightarrow> file_description" where
  "described conn f =
    \<lparr>fd_conn_id = conn, fd_name = replace_char (CHR 0x5C) (CHR ''/'') (lf_path f),
     fd_kind = (if lf_is_dir f then KindDirectory else KindFile),
     fd_atime = parsed_time f, fd_last_modified = parsed_time f, fd_last_metadata_changed = parsed_time f,
     fd_creation_time = parsed_time f, fd_size = lf_size f, fd_perm = ucast (lf_perm f)\<rparr>"

definition offerable :: "utf16 \<Rightarrow> local_file \<Rightarrow> bool" where
  "offerable U f \<longleftrightarrow> length (u16_encode U (lf_path f)) \<le> 520 \<and> CHR 0x00 \<notin> set (lf_path f)
    \<and> lf_last_write_time f < 2 ^ 64"

lemma as_bin_Some: "offerable U f \<Longrightarrow> \<exists>b. as_bin U f = Some b \<and> length b = 592"
  by (simp add: offerable_def as_bin_def Let_def)

lemma directory_bit: "file_attributes f AND 0x10 \<noteq> 0 \<longleftrightarrow> lf_is_dir f"
  by (simp add: file_attributes_def flag_def)

lemma trim_end_nul_padded:
  assumes "CHR 0x00 \<notin> set s" shows "trim_end_nul (s @ replicate k (CHR 0x00)) = s"
proof -
  have "dropWhile (\<lambda>c. c = CHR 0x00) (replicate k (CHR 0x00) @ rev s) = dropWhile (\<lambda>c. c = CHR 0x00) (rev s)"
    by (induction k) auto
  moreover have "dropWhile (\<lambda>c. c = CHR 0x00) (rev s) = rev s"
    using assms hd_in_set [of "rev s"] by (auto simp: dropWhile_eq_self_iff)
  ultimately show ?thesis by (simp add: trim_end_nul_def)
qed

lemma win32_time_back:
  assumes "lf_last_write_time f < 2 ^ 64"
  shows "of_nat ldap_epoch_delta \<le> win32_time f"
    "unat ((win32_time f - of_nat ldap_epoch_delta) * 100) = parsed_time f"
proof -
  define t where "t = nat (lf_last_write_time f)"
  have t: "t < 2 ^ 64" using assms by (simp add: t_def)
  have ut: "unat (of_nat t :: u64) = t" unfolding unat_of_nat using t by simp
  have div: "unat ((of_nat t :: u64) div 100) = t div 100"
    by (simp only: unat_div ut) simp
  have D: "unat (of_nat ldap_epoch_delta :: u64) = ldap_epoch_delta" by (simp add: ldap_epoch_delta_def)
  have fit: "unat ((of_nat t :: u64) div 100) + unat (of_nat ldap_epoch_delta :: u64) < 2 ^ LENGTH(64)"
    using t unfolding div D by (simp add: ldap_epoch_delta_def)
  have w: "win32_time f = of_nat t div 100 + of_nat ldap_epoch_delta" by (simp add: win32_time_def t_def)
  have uw: "unat (win32_time f) = t div 100 + ldap_epoch_delta"
    unfolding w unat_add_fits [OF fit] div D ..
  show "of_nat ldap_epoch_delta \<le> win32_time f"
    unfolding word_le_nat_alt uw D by simp
  have "win32_time f - of_nat ldap_epoch_delta = of_nat (t div 100)"
    unfolding w div [symmetric] by simp
  then have e: "(win32_time f - of_nat ldap_epoch_delta) * 100 = of_nat (t div 100 * 100)" by simp
  have "t div 100 * 100 < 2 ^ 64" using t by (meson div_times_less_eq_dividend le_less_trans)
  then have "unat (of_nat (t div 100 * 100) :: u64) = t div 100 * 100"
    unfolding unat_of_nat by (simp only: len_num1 len_bit0 mod_less) simp
  then show "unat ((win32_time f - of_nat ldap_epoch_delta) * 100) = parsed_time f"
    unfolding e parsed_time_def t_def [symmetric] .
qed

lemma unat_mod_width:
  "unat (w :: u32) mod 4294967296 = unat w" "unat (v :: u64) mod 18446744073709551616 = unat v"
  "unat (drop_bit 32 v) mod 4294967296 = unat (drop_bit 32 v)"
  "unat (v AND 0xFFFFFFFF) mod 4294967296 = unat (v AND 0xFFFFFFFF)"
proof -
  show "unat w mod 4294967296 = unat w" using unsigned_less [of w, where ?'a = nat] by simp
  show "unat v mod 18446744073709551616 = unat v" using unsigned_less [of v, where ?'a = nat] by simp
  show "unat (drop_bit 32 v) mod 4294967296 = unat (drop_bit 32 v)" using unat_drop_bit_32 [of v] by simp
  have "unat (v AND mask 32) mod 2 ^ 32 = unat (v AND mask 32)" unfolding unat_and_mask by simp
  then show "unat (v AND 0xFFFFFFFF) mod 4294967296 = unat (v AND 0xFFFFFFFF)"
    by (simp add: mask_eq_exp_minus_1)
qed

lemma parse_as_bin:
  assumes U: "utf16_ok U" and ok: "offerable U f" and b: "as_bin U f = Some b"
  shows "parse_file_descriptor U (b @ rest) conn = Inr (described conn f, rest)"
proof -
  let ?n = "u16_encode U (lf_path f)"
  let ?pad = "520 - length ?n"
  have len: "length ?n \<le> 520" using ok by (simp add: offerable_def)
  have beq: "b = le_bytes 4 (unat fd_flags) @ replicate 32 0 @ le_bytes 4 (unat (file_attributes f)) @ replicate 12 0
      @ le_bytes 4 (unat (lf_perm f)) @ le_bytes 8 (unat (win32_time f))
      @ le_bytes 4 (unat (drop_bit 32 (lf_size f))) @ le_bytes 4 (unat (lf_size f AND 0xFFFFFFFF))
      @ ?n @ replicate ?pad 0"
    using b len by (simp add: as_bin_def Let_def)
  have "even (length ?n)" using U by (simp add: utf16_ok_def)
  then have pad: "?pad = 2 * (?pad div 2)" using len by simp
  have dec: "u16_decode U (take 520 (drop 72 (b @ rest))) = Some (lf_path f @ replicate (?pad div 2) (CHR 0x00))"
  proof -
    have "u16_decode U (?n @ replicate (2 * k) 0) = Some (lf_path f @ replicate k (CHR 0x00))" for k
      using U by (simp add: utf16_ok_def)
    from this [of "?pad div 2"] have "u16_decode U (?n @ replicate ?pad 0)
        = Some (lf_path f @ replicate (?pad div 2) (CHR 0x00))" by (simp only: pad [symmetric])
    moreover have "take 520 (drop 72 (b @ rest)) = ?n @ replicate ?pad 0" using len by (simp add: beq)
    ultimately show ?thesis by (simp only:)
  qed
  have name: "trim_end_nul (replace_char (CHR 0x5C) (CHR ''/'') (lf_path f @ replicate k (CHR 0x00)))
      = replace_char (CHR 0x5C) (CHR ''/'') (lf_path f)" for k
  proof -
    have "replace_char (CHR 0x5C) (CHR ''/'') (lf_path f @ replicate k (CHR 0x00))
        = replace_char (CHR 0x5C) (CHR ''/'') (lf_path f) @ replicate k (CHR 0x00)"
      by (simp add: replace_char_def)
    moreover have "CHR 0x00 \<notin> set (replace_char (CHR 0x5C) (CHR ''/'') (lf_path f))"
      using ok by (auto simp: replace_char_def offerable_def split: if_splits)
    ultimately show ?thesis by (simp add: trim_end_nul_padded)
  qed
  have fields: "(of_nat (field 0 4 (b @ rest)) :: u32) = fd_flags"
    "(of_nat (field 36 4 (b @ rest)) :: u32) = file_attributes f"
    "(of_nat (field 52 4 (b @ rest)) :: u16) = ucast (lf_perm f)"
    "(of_nat (field 56 8 (b @ rest)) :: u64) = win32_time f"
    "field 64 4 (b @ rest) = unat (drop_bit 32 (lf_size f))"
    "field 68 4 (b @ rest) = unat (lf_size f AND 0xFFFFFFFF)"
    by (simp_all add: beq field_append_skip field_le_bytes unat_mod_width)
  have "length b = 592" using len by (simp add: beq)
  then show ?thesis
    unfolding parse_file_descriptor_def Let_def fields dec
    using win32_time_back [of f] ok name directory_bit [of f] join_halves [of "lf_size f"]
    by (simp add: fd_flags_def described_def parsed_perm_def offerable_def)
qed

section \<open>The whole packet\<close>

lemma as_bins_parse:
  assumes "utf16_ok U" "list_all (offerable U) fs"
  shows "\<exists>bs. as_bins U fs = Some bs \<and> length bs = 592 * length fs
    \<and> parse_descriptors U (length fs) bs conn = Inr (map (described conn) fs)"
  using assms(2)
proof (induction fs)
  case (Cons f fs)
  obtain b where b: "as_bin U f = Some b" "length b = 592" using as_bin_Some Cons.prems by fastforce
  obtain bs where bs: "as_bins U fs = Some bs" "length bs = 592 * length fs"
    "parse_descriptors U (length fs) bs conn = Inr (map (described conn) fs)" using Cons by auto
  show ?case using b bs parse_as_bin [OF assms(1) _ b(1)] Cons.prems by simp
qed simp

lemma as_bins_None: "as_bins U fs = None \<longleftrightarrow> (\<exists>f. f \<in> set fs \<and> 520 < length (u16_encode U (lf_path f)))"
  by (induction fs) (auto simp: as_bin_def Let_def split: option.splits)

section \<open>Collecting files\<close>

text \<open>The directories below a path are at most \<open>n\<close> levels deep.\<close>

fun shallow :: "machine \<Rightarrow> nat \<Rightarrow> string \<Rightarrow> bool" where
  "shallow M 0 path = False"
| "shallow M (Suc n) path =
    (case m_metadata M path of
       None \<Rightarrow> True
     | Some mt \<Rightarrow>
         if fm_is_dir mt then
           (case m_read_dir M path of None \<Rightarrow> True | Some names \<Rightarrow> list_all (\<lambda>x. shallow M n (join_path path x)) names)
         else True)"

lemma each_path_total:
  "(\<And>p st. p \<in> set ps \<Longrightarrow> f p st \<noteq> None) \<Longrightarrow> each_path f ps st \<noteq> None"
  by (induction ps arbitrary: st) (auto split: option.splits sum.splits)

lemma try_open_dir: "try_open M path = Inr f \<Longrightarrow> \<exists>mt. m_metadata M path = Some mt \<and> lf_is_dir f = fm_is_dir mt"
  by (auto simp: try_open_def Let_def split: option.splits)

lemma try_open_path: "try_open M path = Inr f \<Longrightarrow> lf_path f = path"
  by (auto simp: try_open_def Let_def split: option.splits)

lemma constr_total: "shallow M fuel path \<Longrightarrow> constr_file_lst fuel M path st \<noteq> None"
proof (induction fuel arbitrary: path st)
  case (Suc fuel)
  show ?case
  proof (cases "path \<in> snd st")
    case False
    show ?thesis
    proof (cases "try_open M path")
      case (Inr f)
      then obtain mt where mt: "m_metadata M path = Some mt" "lf_is_dir f = fm_is_dir mt"
        using try_open_dir by blast
      have "each_path (constr_file_lst fuel M) (map (join_path path) names) st' \<noteq> None"
        if "fm_is_dir mt" "m_read_dir M path = Some names" for names st'
        by (rule each_path_total) (use Suc mt that in \<open>auto simp: list_all_iff\<close>)
      then show ?thesis using False Inr mt by (auto split: option.splits)
    qed (use False in simp)
  qed simp
qed simp

text \<open>
  What one call keeps: the visited paths are those of the list, without repetition, and a file after
  the first \<open>b\<close> is one of \<open>ps\<close> or lies in a directory listed before it.
\<close>

definition listed_ok :: "(string \<Rightarrow> bool) \<Rightarrow> walk_state \<Rightarrow> bool" where
  "listed_ok root st \<longleftrightarrow> snd st = lf_path ` set (fst st) \<and> distinct (map lf_path (fst st))
    \<and> (\<forall>k<length (fst st). root (lf_path (fst st ! k))
        \<or> (\<exists>j<k. lf_is_dir (fst st ! j) \<and> (\<exists>name. lf_path (fst st ! k) = join_path (lf_path (fst st ! j)) name)))"

definition below :: "walk_state \<Rightarrow> string \<Rightarrow> bool" where
  "below st p \<longleftrightarrow> (\<exists>f\<in>set (fst st). lf_is_dir f \<and> (\<exists>name. p = join_path (lf_path f) name))"

lemma below_mono: "below st p \<Longrightarrow> fst st' = fst st @ ext \<Longrightarrow> below st' p"
  by (auto simp: below_def)

lemma each_path_ok:
  assumes step: "\<And>p st st'. p \<in> set ps \<Longrightarrow> f p st = Some (Inr st') \<Longrightarrow> listed_ok root st \<Longrightarrow> root p \<or> below st p
      \<Longrightarrow> listed_ok root st' \<and> (\<exists>ext. fst st' = fst st @ ext)"
    and "each_path f ps st = Some (Inr st')" "listed_ok root st" "\<And>p. p \<in> set ps \<Longrightarrow> root p \<or> below st p"
  shows "listed_ok root st' \<and> (\<exists>ext. fst st' = fst st @ ext)"
  using assms
proof (induction ps arbitrary: st)
  case (Cons p ps)
  from Cons.prems(2) obtain st1 where st1: "f p st = Some (Inr st1)" "each_path f ps st1 = Some (Inr st')"
    by (auto split: option.splits sum.splits)
  have 1: "listed_ok root st1 \<and> (\<exists>ext. fst st1 = fst st @ ext)"
    using Cons.prems(1) [OF _ st1(1) Cons.prems(3)] Cons.prems(4) [of p] by simp
  then obtain ext where ext: "fst st1 = fst st @ ext" by blast
  have "listed_ok root st' \<and> (\<exists>ext. fst st' = fst st1 @ ext)"
  proof (rule Cons.IH [OF _ st1(2)])
    show "listed_ok root st1" using 1 by blast
    show "root q \<or> below st1 q" if "q \<in> set ps" for q
      using Cons.prems(4) [of q] that below_mono [OF _ ext] by auto
    fix q s s' assume "q \<in> set ps" "f q s = Some (Inr s')" "listed_ok root s" "root q \<or> below s q"
    then show "listed_ok root s' \<and> (\<exists>ext. fst s' = fst s @ ext)"
      using Cons.prems(1) [of q s s'] by simp
  qed
  then show ?case using ext by auto
qed auto

lemma listed_ok_snoc:
  assumes "listed_ok root st" "lf_path f \<notin> snd st" "root (lf_path f) \<or> below st (lf_path f)"
  shows "listed_ok root (fst st @ [f], insert (lf_path f) (snd st))"
proof -
  have "root (lf_path ((fst st @ [f]) ! k)) \<or> (\<exists>j<k. lf_is_dir ((fst st @ [f]) ! j)
      \<and> (\<exists>name. lf_path ((fst st @ [f]) ! k) = join_path (lf_path ((fst st @ [f]) ! j)) name))"
    if k: "k < length (fst st @ [f])" for k
  proof (cases "k < length (fst st)")
    case True
    then have "root (lf_path (fst st ! k)) \<or> (\<exists>j<k. lf_is_dir (fst st ! j)
        \<and> (\<exists>name. lf_path (fst st ! k) = join_path (lf_path (fst st ! j)) name))"
      using assms(1) by (simp add: listed_ok_def)
    then show ?thesis using True by (simp add: nth_append) (meson order_less_trans)
  next
    case False
    then have "k = length (fst st)" using k by simp
    show ?thesis
    proof (cases "root (lf_path f)")
      case True
      then show ?thesis using \<open>k = length (fst st)\<close> by simp
    next
      case False
      then obtain g name where g: "g \<in> set (fst st)" "lf_is_dir g" "lf_path f = join_path (lf_path g) name"
        using assms(3) unfolding below_def by blast
      obtain j where j: "j < length (fst st)" "fst st ! j = g" using g(1) by (auto simp: in_set_conv_nth)
      have "lf_is_dir ((fst st @ [f]) ! j) \<and>
          lf_path ((fst st @ [f]) ! k) = join_path (lf_path ((fst st @ [f]) ! j)) name"
        using g j \<open>k = length (fst st)\<close> by (simp add: nth_append)
      then show ?thesis using j(1) \<open>k = length (fst st)\<close> by blast
    qed
  qed
  then show ?thesis using assms(1,2) by (auto simp: listed_ok_def)
qed

lemma constr_listed:
  "constr_file_lst fuel M path st = Some (Inr st') \<Longrightarrow> listed_ok root st \<Longrightarrow> root path \<or> below st path
    \<Longrightarrow> listed_ok root st' \<and> (\<exists>ext. fst st' = fst st @ ext)"
proof (induction fuel arbitrary: path st st')
  case (Suc fuel)
  show ?case
  proof (cases "path \<in> snd st")
    case False
    then obtain f where f: "try_open M path = Inr f" using Suc.prems(1) by (cases "try_open M path") auto
    let ?st = "(fst st @ [f], insert path (snd st))"
    note path = try_open_path [OF f]
    have ok: "listed_ok root ?st" using listed_ok_snoc [OF Suc.prems(2), of f] path False Suc.prems(3) by simp
    show ?thesis
    proof (cases "lf_is_dir f")
      case True
      then obtain names where names: "each_path (constr_file_lst fuel M) (map (join_path path) names) ?st = Some (Inr st')"
        using Suc.prems(1) False f by (auto split: option.splits)
      have "listed_ok root st' \<and> (\<exists>ext. fst st' = fst ?st @ ext)"
      proof (rule each_path_ok [OF _ names ok])
        show "root q \<or> below ?st q" if "q \<in> set (map (join_path path) names)" for q
          using that True path by (auto simp: below_def)
        fix q s s' assume "constr_file_lst fuel M q s = Some (Inr s')" "listed_ok root s" "root q \<or> below s q"
        then show "listed_ok root s' \<and> (\<exists>ext. fst s' = fst s @ ext)" by (rule Suc.IH)
      qed
      then show ?thesis by auto
    next
      case False
      then show ?thesis using Suc.prems(1) \<open>path \<notin> snd st\<close> f ok by auto
    qed
  qed (use Suc.prems in auto)
qed simp

text \<open>
  What should be collected, said without the loop: a path that was copied, and what a directory among
  them contains. A path can be read when its metadata can, and its entries if it is a directory.
\<close>

definition dir_entries_of :: "machine \<Rightarrow> string \<Rightarrow> string list" where
  "dir_entries_of M q =
    (case m_metadata M q of
       None \<Rightarrow> []
     | Some mt \<Rightarrow> if fm_is_dir mt then (case m_read_dir M q of None \<Rightarrow> [] | Some names \<Rightarrow> map (join_path q) names) else [])"

definition can_read :: "machine \<Rightarrow> string \<Rightarrow> bool" where
  "can_read M q \<longleftrightarrow> (\<exists>mt. m_metadata M q = Some mt \<and> (fm_is_dir mt \<longrightarrow> m_read_dir M q \<noteq> None))"

inductive under :: "machine \<Rightarrow> string list \<Rightarrow> string \<Rightarrow> bool" for M paths where
  under_copied: "q \<in> set paths \<Longrightarrow> under M paths q"
| under_entry: "under M paths q \<Longrightarrow> x \<in> set (dir_entries_of M q) \<Longrightarrow> under M paths x"

text \<open>
  What a call does from a state: it visits its paths and forgets none; the directories that it
  finishes have all their entries visited, those in \<open>A\<close> are still being read; it lists what is
  \<open>P\<close>, as it is on the machine; and it fails only where something cannot be read.
\<close>

definition walk_closed :: "machine \<Rightarrow> string set \<Rightarrow> walk_state \<Rightarrow> bool" where
  "walk_closed M A st \<longleftrightarrow> (\<forall>v \<in> snd st. v \<in> A \<or> set (dir_entries_of M v) \<subseteq> snd st)"

definition walk_sound :: "machine \<Rightarrow> (string \<Rightarrow> bool) \<Rightarrow> walk_state \<Rightarrow> bool" where
  "walk_sound M P st \<longleftrightarrow> (\<forall>f \<in> set (fst st). P (lf_path f) \<and> try_open M (lf_path f) = Inr f \<and> can_read M (lf_path f))"

definition explores ::
  "machine \<Rightarrow> (string \<Rightarrow> bool) \<Rightarrow> string set \<Rightarrow> string list \<Rightarrow> walk_state \<Rightarrow> (cliprdr_error + walk_state) option \<Rightarrow> bool" where
  "explores M P A ps st r =
    (case r of
       None \<Rightarrow> True
     | Some (Inl e) \<Rightarrow> \<exists>q. P q \<and> \<not> can_read M q
     | Some (Inr st') \<Rightarrow> snd st \<union> set ps \<subseteq> snd st' \<and> (walk_closed M A st \<longrightarrow> walk_closed M A st')
         \<and> (walk_sound M P st \<longrightarrow> walk_sound M P st'))"

lemma each_path_explores:
  "(\<And>p st. p \<in> set ps \<Longrightarrow> explores M P A [p] st (f p st)) \<Longrightarrow> explores M P A ps st (each_path f ps st)"
proof (induction ps arbitrary: st)
  case (Cons p ps)
  have 1: "explores M P A [p] st (f p st)" by (rule Cons.prems) simp
  have 2: "explores M P A ps st1 (each_path f ps st1)" for st1
    by (rule Cons.IH) (use Cons.prems in simp)
  show ?case
  proof (cases "\<exists>st1. f p st = Some (Inr st1)")
    case False
    then show ?thesis using 1 by (auto simp: explores_def split: option.splits sum.splits)
  next
    case True
    then obtain st1 where st1: "f p st = Some (Inr st1)" by blast
    have "explores M P A ps st1 r \<Longrightarrow> explores M P A (p # ps) st r" for r
      using 1 st1 by (cases r) (auto simp: explores_def split: sum.splits)
    then show ?thesis using 2 [of st1] st1 by simp
  qed
qed (simp add: explores_def)

lemma constr_explores:
  assumes closed: "\<And>q x. P q \<Longrightarrow> x \<in> set (dir_entries_of M q) \<Longrightarrow> P x"
  shows "P path \<Longrightarrow> explores M P A [path] st (constr_file_lst fuel M path st)"
proof (induction fuel arbitrary: path st A)
  case 0
  then show ?case by (simp add: explores_def)
next
  case (Suc fuel)
  show ?case
  proof (cases "path \<in> snd st")
    case True
    then show ?thesis by (simp add: explores_def)
  next
    case new: False
    show ?thesis
    proof (cases "m_metadata M path")
      case None
      then show ?thesis using new Suc.prems by (auto simp: explores_def try_open_def can_read_def)
    next
      case (Some mt)
      then obtain f where f: "try_open M path = Inr f" "lf_path f = path" "lf_is_dir f = fm_is_dir mt"
        by (auto simp: try_open_def Let_def)
      let ?st = "(fst st @ [f], insert path (snd st))"
      show ?thesis
      proof (cases "fm_is_dir mt")
        case False
        then have r: "constr_file_lst (Suc fuel) M path st = Some (Inr ?st)" using new f by simp
        have "dir_entries_of M path = []" "can_read M path" using Some False by (simp_all add: dir_entries_of_def can_read_def)
        then show ?thesis unfolding r using Suc.prems f by (auto simp: explores_def walk_closed_def walk_sound_def)
      next
        case dir: True
        show ?thesis
        proof (cases "m_read_dir M path")
          case None
          then have "\<not> can_read M path" using Some dir by (simp add: can_read_def)
          then show ?thesis using new f dir None Suc.prems by (auto simp: explores_def)
        next
          case (Some names)
          let ?ps = "map (join_path path) names"
          have kids: "dir_entries_of M path = ?ps" using \<open>m_metadata M path = Some mt\<close> dir Some by (simp add: dir_entries_of_def)
          have can: "can_read M path" using \<open>m_metadata M path = Some mt\<close> Some by (simp add: can_read_def)
          have r: "constr_file_lst (Suc fuel) M path st = each_path (constr_file_lst fuel M) ?ps ?st"
            using new f dir Some by simp
          have e: "explores M P (insert path A) ?ps ?st (each_path (constr_file_lst fuel M) ?ps ?st)"
            by (rule each_path_explores, rule Suc.IH, rule closed [OF Suc.prems]) (simp add: kids)
          have open_ok: "walk_closed M (insert path A) ?st" if "walk_closed M A st"
            using that by (auto simp: walk_closed_def)
          have sound: "walk_sound M P ?st" if "walk_sound M P st"
            using that f can Suc.prems by (auto simp: walk_sound_def)
          have finished: "walk_closed M A st'" if "walk_closed M (insert path A) st'" "set ?ps \<subseteq> snd st'" for st'
          proof -
            have "set (dir_entries_of M path) \<subseteq> snd st'" using that(2) kids by simp
            then show ?thesis using that(1) unfolding walk_closed_def by (metis insert_iff)
          qed
          have "explores M P A [path] st (Some (Inr st'))" if "explores M P (insert path A) ?ps ?st (Some (Inr st'))" for st'
          proof -
            have "snd ?st \<union> set ?ps \<subseteq> snd st'" "walk_closed M (insert path A) ?st \<longrightarrow> walk_closed M (insert path A) st'"
              "walk_sound M P ?st \<longrightarrow> walk_sound M P st'" using that by (simp_all add: explores_def)
            then show ?thesis using open_ok sound finished [of st'] by (simp add: explores_def)
          qed
          moreover have "explores M P A [path] st x" if "explores M P (insert path A) ?ps ?st x" "\<nexists>st'. x = Some (Inr st')" for x
            using that by (auto simp: explores_def split: option.splits sum.splits)
          ultimately show ?thesis unfolding r using e by metis
        qed
      qed
    qed
  qed
qed

lemma construct_explores:
  assumes "each_path (constr_file_lst fuel M) paths ([], {}) = Some r"
  shows "case r of
      Inl e \<Rightarrow> \<exists>q. under M paths q \<and> \<not> can_read M q
    | Inr st \<Rightarrow> (\<forall>q. under M paths q \<longrightarrow> q \<in> snd st) \<and> walk_sound M (under M paths) st"
proof -
  have e: "explores M (under M paths) {} paths ([], {}) (Some r)"
    unfolding assms [symmetric]
    by (rule each_path_explores, rule constr_explores) (auto intro: under.intros)
  have "q \<in> snd st" if "under M paths q" "r = Inr st" for q st
    using that(1) by induction (use e that(2) in \<open>auto simp: explores_def walk_closed_def\<close>)
  then show ?thesis using e by (auto simp: explores_def walk_sound_def split: sum.splits)
qed

lemma offered_parse:
  assumes "utf16_ok U" "list_all (offerable U) files" "length files < 2 ^ 32"
  shows "\<exists>pdu. build_file_list_pdu U files = Some pdu
    \<and> parse_file_descriptors U pdu conn = Inr (map (described conn) files)"
proof -
  obtain bs where bs: "as_bins U files = Some bs" "length bs = 592 * length files"
    "parse_descriptors U (length files) bs conn = Inr (map (described conn) files)"
    using as_bins_parse [OF assms(1,2)] by blast
  let ?pdu = "le_bytes 4 (length files) @ bs"
  have count: "le_val (take 4 ?pdu) = length files" using assms(3) by (simp add: byte_simps)
  have "parse_file_descriptors U ?pdu conn = Inr (map (described conn) files)"
    unfolding parse_file_descriptors_def Let_def count using bs by simp
  moreover have "build_file_list_pdu U files = Some ?pdu" using bs(1) by (simp add: build_file_list_pdu_def)
  ultimately show ?thesis by blast
qed

section \<open>Properties\<close>

text \<open>
  C15: The packet for a list of files parses to what the files are: names, kinds, sizes, permissions
  and times to 100 ns arrive, in order, for names of at most 260 code units.
\<close>

theorem file_list_roundtrip:
  assumes "utf16_ok U" "list_all (offerable U) files" "length files < 2 ^ 32"
  shows "\<exists>pdu. build_file_list_pdu U files = Some pdu
    \<and> parse_file_descriptors U pdu conn = Inr (map (described conn) files)"
  using assms by (rule offered_parse)

fun ascii_decode :: "bytes \<Rightarrow> string option" where
  "ascii_decode [] = Some []"
| "ascii_decode [b] = None"
| "ascii_decode (b # c # bs) = map_option ((#) (char_of (unat b))) (ascii_decode bs)"

definition ascii_utf16 :: utf16 where
  "ascii_utf16 = \<lparr>u16_encode = (\<lambda>s. concat (map (\<lambda>c. [of_char c, 0]) s)), u16_decode = ascii_decode\<rparr>"

lemma char_of_byte: "char_of (unat (of_char c :: u8)) = c"
proof -
  have "(of_char c :: nat) < 256" by simp
  moreover have "(of_char c :: u8) = of_nat (of_char c)" by (rule of_nat_of_char [symmetric])
  ultimately show ?thesis by (simp add: unat_of_nat)
qed

lemma ascii_utf16_ok: "utf16_ok ascii_utf16"
proof -
  have zeros: "ascii_decode (replicate (2 * k) 0) = Some (replicate k (CHR 0x00))" for k
    by (induction k) (simp_all add: char_of_def)
  have "ascii_decode (concat (map (\<lambda>c. [of_char c, 0]) s) @ replicate (2 * k) 0) = Some (s @ replicate k (CHR 0x00))"
    for s k
    by (induction s) (simp_all add: zeros char_of_byte)
  moreover have "even (length (concat (map (\<lambda>c. [of_char c, 0 :: u8]) s)))" for s by (induction s) auto
  ultimately show ?thesis by (simp add: utf16_ok_def ascii_utf16_def)
qed

definition demo_local :: "string \<Rightarrow> bool \<Rightarrow> local_file" where
  "demo_local path is_dir = \<lparr>lf_path = path, lf_handle = None, lf_offset = 0, lf_name = path, lf_size = 0x500000007,
     lf_last_write_time = 1700000000123456789, lf_is_dir = is_dir, lf_perm = 33188, lf_read_only = False,
     lf_hidden = False, lf_system = False, lf_archive = False, lf_normal = \<not> is_dir\<rparr>"

lemma file_list_roundtrip_witness:
  "\<exists>pdu. build_file_list_pdu ascii_utf16 [demo_local ''/a'' True, demo_local ''/a/b.txt'' False] = Some pdu
    \<and> parse_file_descriptors ascii_utf16 pdu 3 =
      Inr [described 3 (demo_local ''/a'' True), described 3 (demo_local ''/a/b.txt'' False)]"
  using file_list_roundtrip [OF ascii_utf16_ok, of "[demo_local ''/a'' True, demo_local ''/a/b.txt'' False]" 3]
  by (simp add: offerable_def demo_local_def ascii_utf16_def)

text \<open>
  A name of more than 520 bytes in UTF-16, a path of 261 characters, makes building the list
  panic; nothing else does.
\<close>

theorem long_path_panics:
  "build_file_list_pdu U files = None \<longleftrightarrow> (\<exists>f. f \<in> set files \<and> 520 < length (u16_encode U (lf_path f)))"
  by (simp add: build_file_list_pdu_def as_bins_None)

text \<open>
  The constant for the years from 1601 to 1970, 134774 days, is 3661 seconds too large: a file
  written at the Unix epoch is announced as written an hour, a minute and a second later.
\<close>

theorem epoch_delta_off:
  "unat (win32_time (f\<lparr>lf_last_write_time := 0\<rparr>)) = (369 * 365 + 89) * 86400 * 10 ^ 7 + 3661 * 10 ^ 7"
  by (simp add: win32_time_def ldap_epoch_delta_def)

text \<open>
  C33: When the directories below the copied paths are at most as deep as the fuel, collecting the
  files ends. It fails only if something below the copied paths cannot be read; otherwise it lists
  exactly the copied paths and everything below them, each path once and as it is on the machine, and
  every file that was not copied itself comes after the directory that contains it.
\<close>

theorem file_list_collected:
  assumes "list_all (shallow M fuel) paths"
  shows "\<exists>r. construct_file_list fuel M paths = Some r \<and>
    (case r of
       Inl e \<Rightarrow> \<exists>q. under M paths q \<and> \<not> can_read M q
     | Inr files \<Rightarrow> (\<forall>q. under M paths q \<longrightarrow> can_read M q) \<and>
         set (map lf_path files) = {q. under M paths q} \<and> distinct (map lf_path files) \<and>
         (\<forall>f \<in> set files. try_open M (lf_path f) = Inr f) \<and>
         list_all (\<lambda>k. lf_path (files ! k) \<in> set paths
            \<or> (\<exists>j<k. lf_is_dir (files ! j) \<and> (\<exists>name. lf_path (files ! k) = join_path (lf_path (files ! j)) name)))
          [0..<length files])"
proof -
  obtain r where r: "each_path (constr_file_lst fuel M) paths ([], {}) = Some r"
    using each_path_total [of paths "constr_file_lst fuel M" "([], {})"] assms constr_total by (auto simp: list_all_iff)
  note found = construct_explores [OF r]
  show ?thesis
  proof (cases r)
    case (Inl e)
    then show ?thesis using r found by (simp add: construct_file_list_def)
  next
    case (Inr st)
    have "listed_ok (\<lambda>p. p \<in> set paths) ([], {})" by (simp add: listed_ok_def)
    then have ok: "listed_ok (\<lambda>p. p \<in> set paths) st"
      using each_path_ok [OF _ r [unfolded Inr], of "\<lambda>p. p \<in> set paths"] constr_listed by blast
    then have "under M paths q \<longleftrightarrow> q \<in> lf_path ` set (fst st)" for q
      using found Inr by (auto simp: listed_ok_def walk_sound_def)
    moreover have "\<forall>q. under M paths q \<longrightarrow> can_read M q"
      using calculation found Inr by (auto simp: walk_sound_def)
    ultimately show ?thesis
      using r found Inr ok by (simp add: construct_file_list_def listed_ok_def walk_sound_def list_all_iff set_eq_iff)
  qed
qed

definition demo_machine :: machine where
  "demo_machine =
    \<lparr>m_metadata = [''/a'' \<mapsto> \<lparr>fm_len = 0, fm_is_dir = True, fm_readonly = False, fm_modified = None, fm_mode = 16877\<rparr>,
        ''/a/b'' \<mapsto> \<lparr>fm_len = 2, fm_is_dir = False, fm_readonly = False, fm_modified = Some 0, fm_mode = 33188\<rparr>],
     m_read_dir = [''/a'' \<mapsto> [''b'']], m_contents = [''/a/b'' \<mapsto> [104, 105]]\<rparr>"

lemma file_list_collected_witness:
  "\<exists>files. construct_file_list 2 demo_machine [''/a''] = Some (Inr files) \<and> map lf_path files = [''/a'', ''/a/b''] \<and>
     {q. under demo_machine [''/a''] q} = {''/a'', ''/a/b''}"
proof -
  have "list_all (shallow demo_machine 2) [''/a'']"
    by (simp add: demo_machine_def numeral_2_eq_2 join_path_def)
  note collected = file_list_collected [OF this]
  obtain files where files: "construct_file_list 2 demo_machine [''/a''] = Some (Inr files)" "map lf_path files = [''/a'', ''/a/b'']"
    by (simp add: construct_file_list_def demo_machine_def numeral_2_eq_2 join_path_def try_open_def Let_def)
  then have "set (map lf_path files) = {q. under demo_machine [''/a''] q}" using collected by simp
  then show ?thesis using files by auto
qed

end
