(* ===== verification/UriList.thy ===== *)
theory UriList
  imports FuseFs
begin

text \<open>
  The clipboard of the desktop: the lists of URIs of \<open>libs/clipboard/src/platform/unix/url.rs\<close> and the
  clipboards of X11 and macOS, \<open>x11.rs\<close> and \<open>ns_clipboard.rs\<close>, which remember the last list of files
  and announce a new one to the peers. A string is the list of its UTF-8 bytes. The crate
  \<open>percent_encoding\<close> and the selection that the X server holds are arguments.
\<close>

section \<open>Text\<close>

text \<open>\<open>trim_start_matches\<close> removes the pattern as often as it is there.\<close>

function trim_start_matches :: "string \<Rightarrow> string \<Rightarrow> string" where
  "trim_start_matches p s =
    (if p \<noteq> [] \<and> starts_with p s then trim_start_matches p (drop (length p) s) else s)"
  by pat_completeness auto
termination
proof (relation "measure (length \<circ> snd)")
  fix p s :: string assume "p \<noteq> [] \<and> starts_with p s"
  then have "p \<noteq> []" "s \<noteq> []" by (auto simp: starts_with_def)
  then show "((p, drop (length p) s), p, s) \<in> measure (length \<circ> snd)" by simp
qed simp

declare trim_start_matches.simps [simp del]

section \<open>URIs\<close>

record percent =
  pe_encode :: "(char \<Rightarrow> bool) \<Rightarrow> string \<Rightarrow> string"
  pe_decode :: "string \<Rightarrow> string"

text \<open>What the crate documents: bytes of the set and bytes beyond ASCII become \<open>%XX\<close>, and back.\<close>

definition hex_digit :: "nat \<Rightarrow> char" where
  "hex_digit n = (if n < 10 then char_of (48 + n) else char_of (55 + n))"

definition hex_val :: "char \<Rightarrow> nat option" where
  "hex_val c =
    (let n = of_char c :: nat
     in if 48 \<le> n \<and> n \<le> 57 then Some (n - 48) else if 65 \<le> n \<and> n \<le> 70 then Some (n - 55)
        else if 97 \<le> n \<and> n \<le> 102 then Some (n - 87) else None)"

definition encode_byte :: "(char \<Rightarrow> bool) \<Rightarrow> char \<Rightarrow> string" where
  "encode_byte S c =
    (if S c \<or> 128 \<le> (of_char c :: nat) then [CHR ''%'', hex_digit (of_char c div 16), hex_digit (of_char c mod 16)]
     else [c])"

fun decode_percent :: "string \<Rightarrow> string" where
  "decode_percent [] = []"
| "decode_percent (x # s) =
    (if x = CHR ''%'' then
       (case s of
          h # l # t \<Rightarrow>
            (case (hex_val h, hex_val l) of
               (Some a, Some b) \<Rightarrow> char_of (16 * a + b) # decode_percent t
             | _ \<Rightarrow> x # decode_percent s)
        | _ \<Rightarrow> x # decode_percent s)
     else x # decode_percent s)"

definition percent_ok :: "percent \<Rightarrow> bool" where
  "percent_ok P \<longleftrightarrow> (\<forall>S s. pe_encode P S s = concat (map (encode_byte S) s)) \<and> (\<forall>s. pe_decode P s = decode_percent s)"

text \<open>\<open>ENCODE_SET\<close>: the controls and the space.\<close>

definition encode_set :: "char \<Rightarrow> bool" where
  "encode_set c \<longleftrightarrow> c \<noteq> CHR ''/'' \<and> ((of_char c :: nat) < 32 \<or> (of_char c :: nat) = 127 \<or> c = CHR '' '')"

definition encode_path_to_uri :: "percent \<Rightarrow> string \<Rightarrow> cliprdr_error + string" where
  "encode_path_to_uri P path =
    (if \<not> valid_utf8 path then Inl ConversionFailure
     else Inr (''file://'' @ pe_encode P encode_set path))"

definition parse_uri_to_path :: "percent \<Rightarrow> string \<Rightarrow> cliprdr_error + string" where
  "parse_uri_to_path P uri =
    (let path = pe_decode P (trim_start_matches ''file://'' uri)
     in if valid_utf8 path then Inr path else Inl ConversionFailure)"

fun parse_lines :: "percent \<Rightarrow> string list \<Rightarrow> cliprdr_error + string list" where
  "parse_lines P [] = Inr []"
| "parse_lines P (l # ls) =
    (if \<not> starts_with ''file://'' l then parse_lines P ls
     else case parse_uri_to_path P l of
            Inl e \<Rightarrow> Inl e
          | Inr p \<Rightarrow> (case parse_lines P ls of Inl e \<Rightarrow> Inl e | Inr ps \<Rightarrow> Inr (p # ps)))"

definition parse_uri_list :: "percent \<Rightarrow> string \<Rightarrow> cliprdr_error + string list" where
  "parse_uri_list P text = parse_lines P (str_lines text)"

definition parse_plain_uri_list :: "percent \<Rightarrow> string \<Rightarrow> cliprdr_error + string list" where
  "parse_plain_uri_list P v = (if valid_utf8 v then parse_uri_list P v else Inl ConversionFailure)"

section \<open>The clipboards\<close>

text \<open>
  The file list that the program knows and the path it ignores; what the selection holds for a
  target is text, and asking for it may fail.
\<close>

record file_clipboard =
  fc_ignore :: string
  fc_former :: "string list"

type_synonym selection = "(string \<times> string) list"

definition path_starts_with :: "string \<Rightarrow> string \<Rightarrow> bool" where
  "path_starts_with p base \<longleftrightarrow> take (length (components base)) (components p) = components base"

definition same_paths :: "string list \<Rightarrow> string list \<Rightarrow> bool" where
  "same_paths ps qs \<longleftrightarrow> set (map components ps) = set (map components qs)"

fun encode_paths :: "percent \<Rightarrow> string list \<Rightarrow> cliprdr_error + string list" where
  "encode_paths P [] = Inr []"
| "encode_paths P (p # ps) =
    (case encode_path_to_uri P p of Inl e \<Rightarrow> Inl e
     | Inr u \<Rightarrow> (case encode_paths P ps of Inl e \<Rightarrow> Inl e | Inr us \<Rightarrow> Inr (u # us)))"

text \<open>\<open>X11Clipboard::set_file_list\<close>; \<open>store_batch\<close> replaces the selection or fails.\<close>

definition x11_set_file_list ::
  "percent \<Rightarrow> (selection \<Rightarrow> bool) \<Rightarrow> string list \<Rightarrow> file_clipboard \<times> selection
    \<Rightarrow> (cliprdr_error + unit) \<times> file_clipboard \<times> selection" where
  "x11_set_file_list P store_ok paths st =
    (let (c, sel) = st; c = c\<lparr>fc_former := paths\<rparr>
     in case encode_paths P paths of
          Inl e \<Rightarrow> (Inl e, c, sel)
        | Inr us \<Rightarrow>
            let uri_list = join [CHR 0x0A] us;
                gnome = ''copy'' @ [CHR 0x0A] @ uri_list;
                batch = [(''text/uri-list'', uri_list), (''x-special/gnome-copied-files'', gnome),
                         (''x-special/nautilus-clipboard'', gnome)]
            in if store_ok batch then (Inr (), c, batch) else (Inl ClipboardInternalError, c, sel))"

text \<open>\<open>NsPasteboard::set_file_list\<close>, on the list of files that the pasteboard holds.\<close>

definition ns_set_file_list ::
  "(string list \<Rightarrow> bool) \<Rightarrow> string list \<Rightarrow> file_clipboard \<times> string list
    \<Rightarrow> (cliprdr_error + unit) \<times> file_clipboard \<times> string list" where
  "ns_set_file_list set_ok paths st =
    (let (c, board) = st; c = c\<lparr>fc_former := paths\<rparr>
     in if set_ok paths then (Inr (), c, paths) else (Inl ClipboardInternalError, c, board))"

definition get_file_list :: "file_clipboard \<Rightarrow> string list" where
  "get_file_list c = fc_former c"

text \<open>
  One round of the loops of \<open>start\<close> on the list of files that was read, if any: whether the peers are
  told of a new list. The loops sleep between rounds; sending to everybody does not fail.
\<close>

definition poll_files :: "string list option \<Rightarrow> file_clipboard \<Rightarrow> bool \<times> file_clipboard" where
  "poll_files files c =
    (case files of
       None \<Rightarrow> (False, c)
     | Some paths \<Rightarrow>
         let filtered = filter (\<lambda>p. \<not> path_starts_with p (fc_ignore c)) paths
         in if filtered = [] then (False, c)
            else if same_paths filtered (fc_former c) then (False, c)
            else (True, c\<lparr>fc_former := filtered\<rparr>))"

definition x11_wait_file_list :: "percent \<Rightarrow> (cliprdr_error + string) \<Rightarrow> cliprdr_error + string list" where
  "x11_wait_file_list P loaded =
    (case loaded of Inl e \<Rightarrow> Inl e | Inr v \<Rightarrow> parse_plain_uri_list P v)"

definition x11_poll :: "percent \<Rightarrow> (cliprdr_error + string) \<Rightarrow> file_clipboard \<Rightarrow> bool \<times> file_clipboard" where
  "x11_poll P loaded c =
    (case x11_wait_file_list P loaded of Inl e \<Rightarrow> (False, c) | Inr ps \<Rightarrow> poll_files (Some ps) c)"

text \<open>\<open>start\<close> forgets the list and then polls; the lists it announces, in order.\<close>

fun poll_all :: "percent \<Rightarrow> (cliprdr_error + string) list \<Rightarrow> file_clipboard \<Rightarrow> string list list \<times> file_clipboard" where
  "poll_all P [] c = ([], c)"
| "poll_all P (l # ls) c =
    (let (told, c) = x11_poll P l c; (rest, c') = poll_all P ls c
     in ((if told then [fc_former c] else []) @ rest, c'))"

definition x11_start :: "percent \<Rightarrow> (cliprdr_error + string) list \<Rightarrow> file_clipboard \<Rightarrow> string list list \<times> file_clipboard" where
  "x11_start P loads c = poll_all P loads (c\<lparr>fc_former := []\<rparr>)"

text \<open>The loop of \<open>NsPasteboard::start\<close> on what the pasteboard gives in each round.\<close>

fun ns_poll_all :: "string list option list \<Rightarrow> file_clipboard \<Rightarrow> string list list \<times> file_clipboard" where
  "ns_poll_all [] c = ([], c)"
| "ns_poll_all (l # ls) c =
    (let (told, c) = poll_files l c; (rest, c') = ns_poll_all ls c
     in ((if told then [fc_former c] else []) @ rest, c'))"

definition ns_start :: "string list option list \<Rightarrow> file_clipboard \<Rightarrow> string list list \<times> file_clipboard" where
  "ns_start boards c = ns_poll_all boards (c\<lparr>fc_former := []\<rparr>)"

section \<open>Encoded text\<close>

lemma hex_val_digit: "n < 16 \<Longrightarrow> hex_val (hex_digit n) = Some n"
  by (auto simp: hex_digit_def hex_val_def Let_def)

lemma hex_digit_ascii: "n < 16 \<Longrightarrow> byte_in 48 70 (hex_digit n)"
  by (auto simp: hex_digit_def byte_in_def)

lemma nibbles: "(of_char c :: nat) div 16 < 16" "16 * ((of_char c :: nat) div 16) + of_char c mod 16 = of_char c"
proof -
  have "(of_char c :: nat) < 16 * 16" using nat_of_char_less_256 [of c] by simp
  then show "(of_char c :: nat) div 16 < 16" by (rule less_mult_imp_div_less)
qed simp

lemma decode_percent_plain: "x \<noteq> CHR ''%'' \<Longrightarrow> decode_percent (x # s) = x # decode_percent s"
  by simp

lemma decode_percent_hex:
  "a < 16 \<Longrightarrow> b < 16 \<Longrightarrow>
    decode_percent (CHR ''%'' # hex_digit a # hex_digit b # s) = char_of (16 * a + b) # decode_percent s"
  by (simp add: hex_val_digit)

declare decode_percent.simps(2) [simp del]

lemma decode_encode_byte:
  assumes "c \<noteq> CHR ''%''"
  shows "decode_percent (encode_byte S c @ s) = c # decode_percent s"
  using assms nibbles [of c] by (simp add: encode_byte_def decode_percent_hex decode_percent_plain)

lemma decode_encode:
  "CHR ''%'' \<notin> set p \<Longrightarrow> decode_percent (concat (map (encode_byte S) p)) = p"
  by (induction p) (auto simp: decode_encode_byte)

lemma encode_byte_printable:
  assumes "x \<in> set (encode_byte encode_set c)"
  shows "byte_in 33 126 x"
proof -
  have "of_char c div 16 < (16 :: nat)" "of_char c mod 16 < (16 :: nat)" using nibbles(1) by simp_all
  moreover have "(of_char c :: nat) \<noteq> 32" if "c \<noteq> CHR '' ''"
  proof
    assume "(of_char c :: nat) = 32"
    moreover have "(of_char (CHR '' '') :: nat) = 32" by simp
    ultimately have "(of_char c :: nat) = of_char (CHR '' '')" by (simp only:)
    then show False using that by (simp only: of_char_eq_iff)
  qed
  ultimately show ?thesis
    using assms hex_digit_ascii [of "of_char c div 16"] hex_digit_ascii [of "of_char c mod 16"]
    by (auto simp: encode_byte_def encode_set_def byte_in_def split: if_splits)
qed

lemma valid_utf8_ascii: "list_all (byte_in 0 127) s \<Longrightarrow> valid_utf8 s"
  by (induction s) auto

definition uri_of :: "string \<Rightarrow> string" where
  "uri_of p = ''file://'' @ concat (map (encode_byte encode_set) p)"

lemma uri_of_ascii: "x \<in> set (uri_of p) \<Longrightarrow> byte_in 33 126 x"
  unfolding uri_of_def using encode_byte_printable by (auto simp: byte_in_def)

lemma uri_of_no_eol: "CHR 0x0A \<notin> set (uri_of p)" "CHR 0x0D \<notin> set (uri_of p)"
  using uri_of_ascii [of "CHR 0x0A" p] uri_of_ascii [of "CHR 0x0D" p] by (auto simp: byte_in_def)

lemma trim_uri:
  assumes "p = CHR ''/'' # q"
  shows "trim_start_matches ''file://'' (uri_of p) = concat (map (encode_byte encode_set) p)"
proof -
  have "encode_byte encode_set (CHR ''/'') = ''/''" by (simp add: encode_byte_def encode_set_def)
  then have "\<not> starts_with ''file://'' (concat (map (encode_byte encode_set) p))"
    using assms by (simp add: starts_with_def)
  then have "trim_start_matches ''file://'' (concat (map (encode_byte encode_set) p)) = concat (map (encode_byte encode_set) p)"
    by (subst trim_start_matches.simps) simp
  moreover have "trim_start_matches ''file://'' (uri_of p) =
      trim_start_matches ''file://'' (concat (map (encode_byte encode_set) p))"
    by (subst trim_start_matches.simps) (simp add: uri_of_def starts_with_def)
  ultimately show ?thesis by simp
qed

definition plain_path :: "string \<Rightarrow> bool" where
  "plain_path p \<longleftrightarrow> valid_utf8 p \<and> starts_with ''/'' p \<and> CHR ''%'' \<notin> set p"

lemma parse_uri_of:
  assumes "percent_ok P" "plain_path p"
  shows "parse_uri_to_path P (uri_of p) = Inr p" "encode_path_to_uri P p = Inr (uri_of p)"
proof -
  obtain q where q: "p = CHR ''/'' # q" using assms(2) by (cases p) (auto simp: plain_path_def starts_with_def)
  have "decode_percent (concat (map (encode_byte encode_set) p)) = p"
    using decode_encode assms(2) by (simp add: plain_path_def)
  then show "parse_uri_to_path P (uri_of p) = Inr p"
    using assms trim_uri [OF q] by (simp add: parse_uri_to_path_def percent_ok_def plain_path_def)
  show "encode_path_to_uri P p = Inr (uri_of p)"
    using assms by (simp add: encode_path_to_uri_def percent_ok_def plain_path_def uri_of_def)
qed

lemma encode_paths_uris:
  "percent_ok P \<Longrightarrow> list_all plain_path ps \<Longrightarrow> encode_paths P ps = Inr (map uri_of ps)"
  by (induction ps) (auto simp: parse_uri_of(2))

lemma parse_lines_uris:
  "percent_ok P \<Longrightarrow> list_all plain_path ps \<Longrightarrow> parse_lines P (map uri_of ps) = Inr ps"
  by (induction ps) (auto simp: parse_uri_of(1), simp_all add: uri_of_def starts_with_def)

lemma uri_text:
  assumes "percent_ok P" "list_all plain_path ps"
  shows "parse_plain_uri_list P (join [CHR 0x0A] (map uri_of ps)) = Inr ps"
proof -
  let ?text = "join [CHR 0x0A] (map uri_of ps)"
  have lines: "str_lines ?text = map uri_of ps"
    by (rule join_lines) (use uri_of_no_eol in \<open>auto simp: list_all_iff uri_of_def\<close>)
  have chars: "x \<in> set (join [CHR 0x0A] ls) \<Longrightarrow> x = CHR 0x0A \<or> (\<exists>l\<in>set ls. x \<in> set l)" for x ls
    by (induction "[CHR 0x0A]" ls rule: join.induct) auto
  have "byte_in 0 127 x" if "x \<in> set ?text" for x
    using chars [OF that] uri_of_ascii by (fastforce simp: byte_in_def)
  then have "valid_utf8 ?text" by (intro valid_utf8_ascii) (simp add: list_all_iff)
  then show ?thesis
    unfolding parse_plain_uri_list_def parse_uri_list_def lines using parse_lines_uris [OF assms] by simp
qed

section \<open>Properties\<close>

text \<open>
  A list of absolute paths without percent signs that is put on the X11 clipboard is read back
  from it unchanged, with spaces, newlines and letters beyond ASCII.
\<close>

theorem file_clipboard_roundtrip:
  assumes "percent_ok P" "list_all plain_path paths" "\<And>batch. store_ok batch"
  shows "let (r, c', sel') = x11_set_file_list P store_ok paths (c, sel)
    in r = Inr () \<and> get_file_list c' = paths
      \<and> (\<exists>text. map_of sel' ''text/uri-list'' = Some text \<and> x11_wait_file_list P (Inr text) = Inr paths)"
  using assms encode_paths_uris [OF assms(1,2)] uri_text [OF assms(1,2)]
  by (simp add: x11_set_file_list_def x11_wait_file_list_def get_file_list_def Let_def)

definition percent_spec :: percent where
  "percent_spec = \<lparr>pe_encode = (\<lambda>S s. concat (map (encode_byte S) s)), pe_decode = decode_percent\<rparr>"

lemma percent_spec_ok: "percent_ok percent_spec"
  by (simp add: percent_ok_def percent_spec_def)

lemma demo_paths_plain: "list_all plain_path [''/mnt/a b'', ''/mnt/'' @ [CHR 0xC3, CHR 0xA9]]"
  by code_simp

lemma file_clipboard_roundtrip_witness:
  "get_file_list (fst (snd (x11_set_file_list percent_spec (\<lambda>_. True) [''/mnt/a b'', ''/mnt/'' @ [CHR 0xC3, CHR 0xA9]]
      (\<lparr>fc_ignore = ''/mnt'', fc_former = []\<rparr>, [])))) = [''/mnt/a b'', ''/mnt/'' @ [CHR 0xC3, CHR 0xA9]]"
  using file_clipboard_roundtrip [OF percent_spec_ok demo_paths_plain, of "\<lambda>_. True" "\<lparr>fc_ignore = ''/mnt'', fc_former = []\<rparr>" "[]"]
  by (simp add: Let_def split_beta)

text \<open>
  Files of the peer that are put on the clipboard are not announced back: as long as the
  selection holds them, no round of polling tells the peers of a new list.
\<close>

theorem pasted_files_not_announced:
  assumes "percent_ok P" "list_all plain_path paths" "list_all (\<lambda>p. path_starts_with p (fc_ignore c)) paths"
    and "x11_set_file_list P store_ok paths (c, sel) = (Inr (), c', sel')"
    and "map_of sel' ''text/uri-list'' = Some text"
  shows "poll_all P (replicate n (Inr text)) c' = ([], c')"
proof -
  have "text = join [CHR 0x0A] (map uri_of paths)" and c': "c' = c\<lparr>fc_former := paths\<rparr>"
    using assms(4,5) encode_paths_uris [OF assms(1,2)]
    by (auto simp: x11_set_file_list_def Let_def split: if_splits)
  then have "x11_wait_file_list P (Inr text) = Inr paths"
    using uri_text [OF assms(1,2)] by (simp add: x11_wait_file_list_def)
  moreover have "filter (\<lambda>p. \<not> path_starts_with p (fc_ignore c)) paths = []"
    using assms(3) by (auto simp: filter_empty_conv list_all_iff)
  ultimately have "x11_poll P (Inr text) c' = (False, c')"
    by (simp add: x11_poll_def poll_files_def c')
  then show ?thesis by (induction n) simp_all
qed

lemma pasted_files_not_announced_witness:
  "poll_all percent_spec (replicate 3 (Inr (uri_of ''/mnt/a'')))
    \<lparr>fc_ignore = ''/mnt'', fc_former = [''/mnt/a'']\<rparr> = ([], \<lparr>fc_ignore = ''/mnt'', fc_former = [''/mnt/a'']\<rparr>)"
proof -
  have p: "list_all plain_path [''/mnt/a'']" "list_all (\<lambda>p. path_starts_with p ''/mnt'') [''/mnt/a'']" by code_simp+
  have "encode_paths percent_spec [''/mnt/a''] = Inr [uri_of ''/mnt/a'']"
    using encode_paths_uris [OF percent_spec_ok p(1)] by simp
  then show ?thesis
    using pasted_files_not_announced [OF percent_spec_ok p(1), of "\<lparr>fc_ignore = ''/mnt'', fc_former = []\<rparr>" "\<lambda>_. True" "[]"
        "\<lparr>fc_ignore = ''/mnt'', fc_former = [''/mnt/a'']\<rparr>" _ "uri_of ''/mnt/a''" 3] p(2)
    by (simp add: x11_set_file_list_def Let_def)
qed

text \<open>
  A percent sign in a name is not encoded, so that a name with one comes back as another: the
  file \<open>a%41\<close> as \<open>aA\<close>.
\<close>

theorem percent_name_corrupted:
  "case encode_path_to_uri percent_spec ''/a%41'' of
     Inl e \<Rightarrow> False | Inr uri \<Rightarrow> parse_uri_list percent_spec uri = Inr [''/aA'']"
  by code_simp

end
