(* ===== verification/ClipServe.thy ===== *)
theory ClipServe
  imports FileGroup UriList
begin

text \<open>
  The clipboard service of Linux and macOS, \<open>libs/clipboard/src/platform/unix/mod.rs\<close>: it offers the
  copied files to the peers, serves their contents, and lets files that a peer offers be pasted
  through the file system of FuseFs. What a handler sends is part of its result, as pairs of a
  connection and a message; errors of sending are ignored there. The mutable globals of the module
  are fields of the context. \<open>?\<close> on an absent value is an internal error here.
\<close>

section \<open>State\<close>

record clip_ctx =
  cx_mount :: string
  cx_running :: bool
  cx_fuse :: fuse_server
  cx_fuse_rx :: "clipboard_file list"
  cx_clipboard :: file_clipboard
  cx_selection :: selection
  cx_files :: "local_file list"
  cx_formats :: "i32 \<Rightarrow> string option"

text \<open>The machine: files, text conversions, whether mounting and storing the selection work.\<close>

record clip_sys =
  sy_machine :: machine
  sy_utf16 :: utf16
  sy_percent :: percent
  sy_store_ok :: "selection \<Rightarrow> bool"
  sy_mount_ok :: bool
  sy_fuel :: nat
  sy_rnd :: "nat \<Rightarrow> i32"
  sy_now :: nat

datatype clip_fail = Fail cliprdr_error | ClipPanic | OutOfFuel

type_synonym clip_result = "(clip_fail + unit) \<times> clip_ctx \<times> (i32 \<times> clipboard_file) list"

definition filedescriptor_format_id :: i32 where "filedescriptor_format_id = 49334"
definition filedescriptorw_format_name :: string where "filedescriptorw_format_name = ''FileGroupDescriptorW''"
definition filecontents_format_id :: i32 where "filecontents_format_id = 49267"
definition filecontents_format_name :: string where "filecontents_format_name = ''FileContents''"

definition remote_format_map :: "i32 \<Rightarrow> string option" where
  "remote_format_map = [filedescriptor_format_id \<mapsto> filedescriptorw_format_name,
     filecontents_format_id \<mapsto> filecontents_format_name]"

definition ctx_new :: "string \<Rightarrow> clip_ctx" where
  "ctx_new mount =
    \<lparr>cx_mount = mount, cx_running = False, cx_fuse = fuse_new, cx_fuse_rx = [],
     cx_clipboard = \<lparr>fc_ignore = mount, fc_former = []\<rparr>, cx_selection = [], cx_files = [],
     cx_formats = remote_format_map\<rparr>"

definition get_local_format :: "clip_ctx \<Rightarrow> i32 \<Rightarrow> string option" where
  "get_local_format c i = cx_formats c i"

definition add_remote_format :: "string \<Rightarrow> i32 \<Rightarrow> clip_ctx \<Rightarrow> clip_ctx" where
  "add_remote_format local_name i c = c\<lparr>cx_formats := (cx_formats c)(i \<mapsto> local_name)\<rparr>"

definition ctx_run :: "clip_sys \<Rightarrow> clip_ctx \<Rightarrow> (clip_fail + unit) \<times> clip_ctx" where
  "ctx_run sys c =
    (if cx_running c then (Inr (), c)
     else if sy_mount_ok sys then (Inr (), c\<lparr>cx_running := True\<rparr>) else (Inl (Fail CliprdrInit), c))"

definition set_clipboard :: "clip_sys \<Rightarrow> string list \<Rightarrow> clip_ctx \<Rightarrow> (clip_fail + unit) \<times> clip_ctx" where
  "set_clipboard sys paths c =
    (let (r, fc, sel) = x11_set_file_list (sy_percent sys) (sy_store_ok sys) (map (join_path (cx_mount c)) paths)
           (cx_clipboard c, cx_selection c)
     in (map_sum Fail id r, c\<lparr>cx_clipboard := fc, cx_selection := sel\<rparr>))"

section \<open>Serving contents\<close>

datatype contents_req = SizeReq i32 u64 | RangeReq i32 u64 u64 u64

definition fail_response :: "i32 \<Rightarrow> i32 \<Rightarrow> i32 \<times> clipboard_file" where
  "fail_response conn stream = (conn, FileContentsResponse 2 stream [])"

definition file_at :: "clip_ctx \<Rightarrow> u64 \<Rightarrow> local_file option" where
  "file_at c i = (if unat i < length (cx_files c) then Some (cx_files c ! unat i) else None)"

text \<open>The first regular file after \<open>i\<close> is opened in advance.\<close>

fun reload_next :: "machine \<Rightarrow> local_file list \<Rightarrow> (cliprdr_error + unit) \<times> local_file list" where
  "reload_next M [] = (Inr (), [])"
| "reload_next M (f # fs) =
    (if \<not> lf_is_dir f then (let (r, f) = load_handle M f in (r, f # fs))
     else (let (r, fs) = reload_next M fs in (r, f # fs)))"

definition finish_response :: "clip_sys \<Rightarrow> i32 \<Rightarrow> u64 \<Rightarrow> clipboard_file \<Rightarrow> clip_ctx \<Rightarrow> clip_result" where
  "finish_response sys conn i resp c =
    (let (r, rest) = reload_next (sy_machine sys) (drop (unat i + 1) (cx_files c))
     in (map_sum Fail id r, c\<lparr>cx_files := take (unat i + 1) (cx_files c) @ rest\<rparr>, [(conn, resp)]))"

text \<open>
  A buffer of \<open>2 ^ 63\<close> bytes or more cannot be allocated: making it panics. The sum of offset and
  length wraps as in a release build.
\<close>

definition serve_file_contents :: "clip_sys \<Rightarrow> i32 \<Rightarrow> contents_req \<Rightarrow> clip_ctx \<Rightarrow> clip_result" where
  "serve_file_contents sys conn req c =
    (case req of
       SizeReq stream i \<Rightarrow>
         (case file_at c i of
            None \<Rightarrow> (Inl (Fail (InvalidRequest ''invalid file index'')), c, [fail_response conn stream])
          | Some f \<Rightarrow>
              finish_response sys conn i (FileContentsResponse 1 stream (le_bytes 8 (unat (lf_size f)))) c)
     | RangeReq stream i offset len \<Rightarrow>
         (case file_at c i of
            None \<Rightarrow> (Inl (Fail (InvalidRequest ''invalid file index'')), c, [fail_response conn stream])
          | Some f \<Rightarrow>
              if lf_size f < offset
              then (Inl (Fail (InvalidRequest ''invalid reading offset'')), c, [fail_response conn stream])
              else
                let read_size = (if lf_size f < offset + len then lf_size f - offset else len)
                in if 2 ^ 63 \<le> unat read_size then (Inl ClipPanic, c, [])
                   else
                     let (r, f) = read_exact_at (sy_machine sys) (unat read_size) (unat offset) f;
                         c = c\<lparr>cx_files := (cx_files c)[unat i := f]\<rparr>
                     in (case r of
                           Inl e \<Rightarrow> (Inl (Fail e), c, [])
                         | Inr buf \<Rightarrow> finish_response sys conn i (FileContentsResponse 1 stream buf) c)))"

section \<open>Offering files\<close>

definition sync_local_files :: "clip_sys \<Rightarrow> clip_ctx \<Rightarrow> (clip_fail + unit) \<times> clip_ctx" where
  "sync_local_files sys c =
    (let clipboard_files = get_file_list (cx_clipboard c)
     in if map lf_path (cx_files c) = clipboard_files then (Inr (), c)
        else case construct_file_list (sy_fuel sys) (sy_machine sys) clipboard_files of
               None \<Rightarrow> (Inl OutOfFuel, c)
             | Some (Inl e) \<Rightarrow> (Inl (Fail e), c)
             | Some (Inr files) \<Rightarrow> (Inr (), c\<lparr>cx_files := files\<rparr>))"

definition ctx_send_file_list :: "clip_sys \<Rightarrow> i32 \<Rightarrow> clip_ctx \<Rightarrow> clip_result" where
  "ctx_send_file_list sys conn c =
    (case sync_local_files sys c of
       (Inl e, c) \<Rightarrow> (Inl e, c, [])
     | (Inr _, c) \<Rightarrow>
         (case build_file_list_pdu (sy_utf16 sys) (cx_files c) of
            None \<Rightarrow> (Inl ClipPanic, c, [])
          | Some pdu \<Rightarrow> (Inr (), c, [(conn, FormatDataResponse 1 pdu)])))"

definition format_data_failure :: "i32 \<Rightarrow> i32 \<times> clipboard_file" where
  "format_data_failure conn = (conn, FormatDataResponse 2 [])"

definition send_format_list :: "clip_ctx \<Rightarrow> i32 \<Rightarrow> i32 \<times> clipboard_file" where
  "send_format_list c conn =
    (let fd_name = (case get_local_format c filedescriptor_format_id of
                      Some n \<Rightarrow> n | None \<Rightarrow> filedescriptorw_format_name);
         fc_name = (case get_local_format c filecontents_format_id of
                      Some n \<Rightarrow> n | None \<Rightarrow> filecontents_format_name)
     in (conn, FormatList [(filedescriptor_format_id, fd_name), (filecontents_format_id, fc_name)]))"

section \<open>The messages\<close>

definition serve_format_list :: "i32 \<Rightarrow> (i32 \<times> string) list \<Rightarrow> clip_ctx \<Rightarrow> clip_result" where
  "serve_format_list conn formats c =
    (let fmt = filter (\<lambda>(_, name). name = filedescriptorw_format_name \<or> name = filecontents_format_name) formats
     in if length fmt \<noteq> 2 then (Inr (), c, [])
        else case (find (\<lambda>(_, name). name = filecontents_format_name) fmt,
                   find (\<lambda>(_, name). name = filedescriptorw_format_name) fmt) of
               (Some (fc, _), Some (fd, _)) \<Rightarrow>
                 (Inr (), add_remote_format filedescriptorw_format_name fd (add_remote_format filecontents_format_name fc c),
                  [(conn, FormatDataRequest fd)])
             | _ \<Rightarrow> (Inl (Fail ClipboardInternalError), c, []))"

definition serve_format_data_request :: "clip_sys \<Rightarrow> i32 \<Rightarrow> i32 \<Rightarrow> clip_ctx \<Rightarrow> clip_result" where
  "serve_format_data_request sys conn i c =
    (case get_local_format c i of
       None \<Rightarrow> (Inr (), c, [format_data_failure conn])
     | Some format \<Rightarrow>
         if format = filedescriptorw_format_name then ctx_send_file_list sys conn c
         else (Inr (), c, [format_data_failure conn]))"

definition serve_format_data_response :: "clip_sys \<Rightarrow> i32 \<Rightarrow> i32 \<Rightarrow> bytes \<Rightarrow> clip_ctx \<Rightarrow> clip_result" where
  "serve_format_data_response sys conn flags data c =
    (if flags \<noteq> 1 then (Inr (), c, [format_data_failure conn])
     else case parse_file_descriptors (sy_utf16 sys) data conn of
            Inl e \<Rightarrow> (Inl (Fail e), c, [])
          | Inr files \<Rightarrow>
              (case load_file_list (sy_rnd sys) (sy_now sys) files (cx_fuse c) of
                 (Inl e, fuse) \<Rightarrow> (Inl (Fail e), c\<lparr>cx_fuse := fuse\<rparr>, [])
               | (Inr _, fuse) \<Rightarrow>
                   (case list_root fuse of
                      None \<Rightarrow> (Inl ClipPanic, c\<lparr>cx_fuse := fuse\<rparr>, [])
                    | Some paths \<Rightarrow>
                        let (r, c) = set_clipboard sys paths (c\<lparr>cx_fuse := fuse\<rparr>) in (r, c, []))))"

definition contents_req_of :: "clipboard_file \<Rightarrow> contents_req option" where
  "contents_req_of m =
    (case m of
       FileContentsRequest stream i flags low high cb _ _ \<Rightarrow>
         if flags = 1 then Some (SizeReq stream (scast i))
         else if flags = 2 then
           Some (RangeReq stream (scast i) (push_bit 32 (scast high) OR scast low) (scast cb))
         else None
     | _ \<Rightarrow> None)"

definition serve :: "clip_sys \<Rightarrow> i32 \<Rightarrow> clipboard_file \<Rightarrow> clip_ctx \<Rightarrow> clip_result" where
  "serve sys conn m c =
    (case ctx_run sys c of
       (Inl e, c) \<Rightarrow> (Inl e, c, [])
     | (Inr _, c) \<Rightarrow>
         (case m of
            NotifyCallback _ _ _ \<Rightarrow> (Inl ClipPanic, c, [])
          | MonitorReady \<Rightarrow> ctx_send_file_list sys conn c
          | FormatList formats \<Rightarrow> serve_format_list conn formats c
          | FormatListResponse flags \<Rightarrow>
              if flags \<noteq> 1 then (Inr (), c, [send_format_list c conn]) else (Inr (), c, [])
          | FormatDataRequest i \<Rightarrow> serve_format_data_request sys conn i c
          | FormatDataResponse flags data \<Rightarrow> serve_format_data_response sys conn flags data c
          | FileContentsResponse _ _ _ \<Rightarrow> (Inr (), c\<lparr>cx_fuse_rx := cx_fuse_rx c @ [m]\<rparr>, [])
          | FileContentsRequest stream _ _ _ _ _ _ _ \<Rightarrow>
              (case contents_req_of m of
                 None \<Rightarrow> (Inr (), c, [fail_response conn stream])
               | Some req \<Rightarrow> serve_file_contents sys conn req c)))"

section \<open>The service for the client\<close>

definition ctx_set_is_stopped :: "clip_ctx \<Rightarrow> (clip_fail + unit) \<times> clip_ctx" where
  "ctx_set_is_stopped c = (Inr (), c\<lparr>cx_running := False\<rparr>)"

definition ctx_empty_clipboard :: "clip_sys \<Rightarrow> clip_ctx \<Rightarrow> (clip_fail + bool) \<times> clip_ctx" where
  "ctx_empty_clipboard sys c =
    (let (r, fc, sel) = x11_set_file_list (sy_percent sys) (sy_store_ok sys) [] (cx_clipboard c, cx_selection c)
     in (map_sum Fail (\<lambda>_. True) r, c\<lparr>cx_clipboard := fc, cx_selection := sel\<rparr>))"

definition server_clip_file :: "clip_sys \<Rightarrow> i32 \<Rightarrow> clipboard_file \<Rightarrow> clip_ctx \<Rightarrow> clip_result" where
  "server_clip_file sys conn m c = serve sys conn m c"

text \<open>The service of a build without file copying does nothing.\<close>

definition dummy_set_is_stopped :: "cliprdr_error + unit" where "dummy_set_is_stopped = Inr ()"
definition dummy_empty_clipboard :: "i32 \<Rightarrow> cliprdr_error + bool" where "dummy_empty_clipboard conn = Inr True"
definition dummy_server_clip_file :: "i32 \<Rightarrow> clipboard_file \<Rightarrow> cliprdr_error + unit" where
  "dummy_server_clip_file conn m = Inr ()"

end
