(* ===== verification/ClipServeProps.thy ===== *)
theory ClipServeProps
  imports ClipServe FileGroupProps
begin

text \<open>
  Pasting across two machines. The reader and the server of file contents meet in an interface:
  whoever answers the reader's requests with the bytes of the range makes copies faithful. The
  service provides it below two gigabytes; what happens above, and with requests out of range, is
  stated too.
\<close>

section \<open>The interface between the reader and the server\<close>

text \<open>The request that a node's reader sends, and a copy of a file made by reading block after block.\<close>

fun copy_file :: "('c \<Rightarrow> clipboard_file \<Rightarrow> clipboard_file list \<times> 'c) \<Rightarrow> nat \<Rightarrow> 'c \<Rightarrow> fuse_node \<Rightarrow> u32 \<Rightarrow> nat
    \<Rightarrow> bytes option" where
  "copy_file answer 0 c n cb off = None"
| "copy_file answer (Suc fuel) c n cb off =
    (let (msgs, c) = answer c (contents_request n (of_nat off) cb)
     in case fst (read_node n (of_nat off) cb msgs) of
          Inl _ \<Rightarrow> None
        | Inr bs \<Rightarrow> if bs = [] then Some [] else map_option ((@) bs) (copy_file answer fuel c n cb (off + length bs)))"

text \<open>
  \<open>answer\<close> serves the files of \<open>content\<close> in the states that satisfy \<open>ready\<close>, for offsets below \<open>limit\<close>
  and blocks that \<open>block_ok\<close> allows.
\<close>

locale content_server =
  fixes answer :: "'c \<Rightarrow> clipboard_file \<Rightarrow> clipboard_file list \<times> 'c"
    and ready :: "'c \<Rightarrow> bool"
    and content :: "nat \<Rightarrow> bytes option"
    and limit :: nat
    and block_ok :: "u32 \<Rightarrow> bool"
  assumes answers: "ready c \<Longrightarrow> content (fn_index n) = Some bs \<Longrightarrow> off \<le> length bs \<Longrightarrow> off < limit \<Longrightarrow> block_ok cb \<Longrightarrow>
      \<exists>c'. answer c (contents_request n (of_nat off) cb)
          = ([FileContentsResponse 1 (fn_stream_id n) (take (unat cb) (drop off bs))], c') \<and> ready c'"
begin

lemma one_read:
  assumes "ready c" "content (fn_index n) = Some bs" "off \<le> length bs" "off < limit" "block_ok cb"
  shows "\<exists>c'. answer c (contents_request n (of_nat off) cb)
        = ([FileContentsResponse 1 (fn_stream_id n) (take (unat cb) (drop off bs))], c') \<and> ready c'
    \<and> fst (read_node n (of_nat off) cb [FileContentsResponse 1 (fn_stream_id n) (take (unat cb) (drop off bs))])
      = Inr (take (unat cb) (drop off bs))"
  using answers [OF assms] by (auto simp: read_node_def)

lemma copy_from:
  assumes "content (fn_index n) = Some bs" "block_ok cb" "0 < cb"
  shows "ready c \<Longrightarrow> off \<le> length bs \<Longrightarrow> length bs < limit \<Longrightarrow> length bs - off < fuel \<Longrightarrow>
    copy_file answer fuel c n cb off = Some (drop off bs)"
proof (induction fuel arbitrary: c off)
  case (Suc fuel)
  let ?block = "take (unat cb) (drop off bs)"
  have off: "off < limit" using Suc.prems by linarith
  obtain c' where c': "answer c (contents_request n (of_nat off) cb) = ([FileContentsResponse 1 (fn_stream_id n) ?block], c')"
    "ready c'"
    "fst (read_node n (of_nat off) cb [FileContentsResponse 1 (fn_stream_id n) ?block]) = Inr ?block"
    using one_read [OF Suc.prems(1) assms(1) Suc.prems(2) off assms(2)] by blast
  have cb: "0 < unat cb" using assms(3) by (simp add: unat_gt_0)
  show ?case
  proof (cases "off = length bs")
    case True
    then show ?thesis using c' by simp
  next
    case False
    then have len: "0 < length ?block" "length ?block \<le> length bs - off" using Suc.prems(2) cb by simp_all
    have "copy_file answer fuel c' n cb (off + length ?block) = Some (drop (off + length ?block) bs)"
      by (rule Suc.IH) (use c'(2) Suc.prems len in linarith)+
    moreover have "?block @ drop (off + length ?block) bs = drop off bs"
      by (metis append_take_drop_id drop_drop add.commute length_take min.commute take_all_iff drop_all
          append_Nil2 le_cases length_drop min_def)
    ultimately show ?thesis using c' len by auto
  qed
qed simp

lemma copy_whole:
  assumes "ready c" "content (fn_index n) = Some bs" "block_ok cb" "0 < cb" "length bs < limit"
  shows "copy_file answer (length bs + 1) c n cb 0 = Some bs"
  using copy_from [OF assms(2-4) assms(1), of 0 "length bs + 1"] assms(5) by simp

end

section \<open>Numbers in the request\<close>

definition sent_offset :: "i64 \<Rightarrow> u64" where
  "sent_offset w = push_bit 32 (scast (ucast (signed_drop_bit 32 w) :: i32)) OR scast (ucast (w AND 0xFFFFFFFF) :: i32)"

lemma bit_sent_offset:
  assumes "n < 64"
  shows "bit (sent_offset w) n \<longleftrightarrow> (if n < 32 then bit w n else bit w n \<or> bit w 31)"
proof -
  have mask: "(0xFFFFFFFF :: i64) = mask 32" by (simp add: mask_eq_exp_minus_1)
  consider "n < 31" | "n = 31" | "31 < n \<and> n < 63" | "n = 63" using assms by linarith
  then show ?thesis
    unfolding sent_offset_def mask by cases (auto simp: bit_simps min_def)
qed

lemma sent_offset_low: "\<not> bit w 31 \<Longrightarrow> sent_offset w = w"
  by (rule bit_word_eqI) (simp add: bit_sent_offset)

lemma sent_offset_high: "bit w 31 \<Longrightarrow> 2 ^ 63 \<le> unat (sent_offset w)"
proof -
  assume "bit w 31"
  then have "bit (sent_offset w) 63" by (simp add: bit_sent_offset)
  then have "bit (unat (sent_offset w)) 63" by (simp add: bit_unsigned_iff)
  then have "odd (unat (sent_offset w) div 2 ^ 63)" by (simp add: bit_iff_odd)
  then have "unat (sent_offset w) div 2 ^ 63 \<noteq> 0" by (metis even_zero)
  then show "2 ^ 63 \<le> unat (sent_offset w)" by (simp add: div_eq_0_iff)
qed

lemma bit_31: "bit (of_nat off :: u64) 31 \<longleftrightarrow> 2 ^ 31 \<le> off mod 2 ^ 32"
proof -
  have "bit (of_nat off :: u64) 31 \<longleftrightarrow> bit off 31" by (simp add: bit_of_nat_iff)
  also have "\<dots> \<longleftrightarrow> odd (off div 2 ^ 31)" by (rule bit_iff_odd)
  also have "off div 2 ^ 31 mod 2 = off mod 2 ^ 32 div 2 ^ 31"
    using mod_mult2_eq [of off "2 ^ 31" 2] by simp
  then have "odd (off div 2 ^ 31) \<longleftrightarrow> off mod 2 ^ 32 div 2 ^ 31 = 1" by (simp add: odd_iff_mod_2_eq_one)
  also have "\<dots> \<longleftrightarrow> 2 ^ 31 \<le> off mod 2 ^ 32"
  proof -
    have "off mod 2 ^ 32 < 2 * 2 ^ 31" by simp
    then have "off mod 2 ^ 32 div 2 ^ 31 < 2" by (simp add: less_mult_imp_div_less)
    then show ?thesis by (auto simp: less_2_cases_iff div_eq_0_iff)
  qed
  finally show ?thesis .
qed

lemma scast_nonneg: "unat (w :: i32) < 2 ^ 31 \<Longrightarrow> unat (scast w :: u64) = unat w"
proof -
  assume w: "unat w < 2 ^ 31"
  have "(scast w :: u64) = ucast w"
  proof (rule bit_word_eqI)
    fix n assume "n < LENGTH(64)"
    have "\<not> bit w 31"
    proof
      assume "bit w 31"
      then have "bit (unat w) 31" by (simp add: bit_unsigned_iff)
      then have "odd (unat w div 2 ^ 31)" by (simp add: bit_iff_odd)
      then show False using w by simp
    qed
    moreover have "bit w n \<Longrightarrow> n < 32" using bit_imp_le_length [of w n] by simp
    ultimately show "bit (scast w :: u64) n \<longleftrightarrow> bit (ucast w :: u64) n"
      using \<open>n < LENGTH(64)\<close> by (cases "n < 31") (auto simp: bit_simps min_def less_Suc_eq numeral_eq_Suc)
  qed
  then show "unat (scast w :: u64) = unat w" by (simp add: unat_ucast_up)
qed

section \<open>The service as a server of contents\<close>

text \<open>
  A regular file whose contents can be read, of the size that was announced, and whose open handle
  is where the program takes it to be.
\<close>

definition file_ready :: "machine \<Rightarrow> local_file \<Rightarrow> bool" where
  "file_ready M f \<longleftrightarrow> lf_is_dir f
    \<or> (case m_contents M (lf_path f) of
         None \<Rightarrow> False
       | Some bs \<Rightarrow> unat (lf_size f) = length bs \<and> (case lf_handle f of None \<Rightarrow> lf_offset f = 0 | Some p \<Rightarrow> p = lf_offset f))"

definition listing :: "local_file list \<Rightarrow> (string \<times> bool) list" where
  "listing fs = map (\<lambda>f. (lf_path f, lf_is_dir f)) fs"

definition ctx_ready :: "machine \<Rightarrow> (string \<times> bool) list \<Rightarrow> clip_ctx \<Rightarrow> bool" where
  "ctx_ready M ls c \<longleftrightarrow> cx_running c \<and> listing (cx_files c) = ls \<and> list_all (file_ready M) (cx_files c)"

definition listed_content :: "machine \<Rightarrow> (string \<times> bool) list \<Rightarrow> nat \<Rightarrow> bytes option" where
  "listed_content M ls i =
    (if i < length ls \<and> i < 2 ^ 31 \<and> \<not> snd (ls ! i) then m_contents M (fst (ls ! i)) else None)"

definition service_answer :: "clip_sys \<Rightarrow> i32 \<Rightarrow> clip_ctx \<Rightarrow> clipboard_file \<Rightarrow> clipboard_file list \<times> clip_ctx" where
  "service_answer sys conn c m = (let (r, c, sent) = serve sys conn m c in (map snd sent, c))"

lemma load_handle_ready:
  assumes "file_ready M f"
  shows "\<exists>f'. load_handle M f = (Inr (), f') \<and> file_ready M f' \<and> lf_path f' = lf_path f \<and> lf_is_dir f' = lf_is_dir f
    \<and> lf_size f' = lf_size f \<and> lf_offset f' = lf_offset f \<and> (lf_is_dir f \<or> lf_handle f' = Some (lf_offset f))"
  using assms by (auto simp: load_handle_def file_ready_def split: option.splits)

lemma read_exact_at_ready:
  assumes "file_ready M f" "\<not> lf_is_dir f" "m_contents M (lf_path f) = Some bs" "off + n \<le> length bs"
  shows "\<exists>f'. read_exact_at M n off f = (Inr (take n (drop off bs)), f') \<and> file_ready M f'
    \<and> lf_path f' = lf_path f \<and> lf_is_dir f' = lf_is_dir f"
proof -
  obtain f' where f': "load_handle M f = (Inr (), f')" "file_ready M f'" "lf_path f' = lf_path f"
    "lf_is_dir f' = lf_is_dir f" "lf_size f' = lf_size f" "lf_offset f' = lf_offset f" "lf_handle f' = Some (lf_offset f)"
    using load_handle_ready [OF assms(1)] assms(2) by auto
  have pos: "(if off \<noteq> lf_offset f' then off else lf_offset f) = off" using f'(6) by simp
  have "unat (lf_size f) = length bs" using assms(1-3) by (auto simp: file_ready_def)
  then show ?thesis
    using f' assms(2-4) pos by (auto simp: read_exact_at_def Let_def file_ready_def)
qed

lemma listing_simps [simp]: "listing [] = []" "listing (f # fs) = (lf_path f, lf_is_dir f) # listing fs"
  "listing (fs @ gs) = listing fs @ listing gs" "length (listing fs) = length fs"
  by (simp_all add: listing_def)

lemma listing_take_drop: "listing (take k fs) = take k (listing fs)" "listing (drop k fs) = drop k (listing fs)"
  by (simp_all add: listing_def take_map drop_map)

lemma reload_next_ready:
  "list_all (file_ready M) fs \<Longrightarrow>
    \<exists>gs. reload_next M fs = (Inr (), gs) \<and> list_all (file_ready M) gs \<and> listing gs = listing fs"
proof (induction fs)
  case (Cons f fs)
  show ?case
  proof (cases "lf_is_dir f")
    case True
    then show ?thesis using Cons by auto
  next
    case False
    then show ?thesis using Cons.prems load_handle_ready [of M f] by auto
  qed
qed simp

lemma finish_response_ready:
  assumes "ctx_ready (sy_machine sys) ls c"
  shows "\<exists>c'. finish_response sys conn i resp c = (Inr (), c', [(conn, resp)]) \<and> ctx_ready (sy_machine sys) ls c'"
proof -
  let ?M = "sy_machine sys"
  have "list_all (file_ready ?M) (drop (unat i + 1) (cx_files c))"
    using assms by (auto simp: ctx_ready_def list_all_iff dest: in_set_dropD)
  then obtain gs where gs: "reload_next ?M (drop (unat i + 1) (cx_files c)) = (Inr (), gs)"
    "list_all (file_ready ?M) gs" "listing gs = drop (unat i + 1) (listing (cx_files c))"
    using reload_next_ready listing_take_drop(2) by metis
  let ?fs = "take (unat i + 1) (cx_files c) @ gs"
  have "listing ?fs = ls" using gs(3) assms by (simp add: listing_take_drop(1) ctx_ready_def)
  moreover have "list_all (file_ready ?M) ?fs"
    using gs(2) assms by (auto simp: ctx_ready_def list_all_iff dest: in_set_takeD)
  ultimately have "ctx_ready ?M ls (c\<lparr>cx_files := ?fs\<rparr>)" using assms by (simp add: ctx_ready_def)
  then show ?thesis using gs(1) by (simp add: finish_response_def)
qed

lemma request_of_node:
  assumes "off < 2 ^ 31"
  shows "contents_req_of (contents_request n (of_nat off) cb) =
    Some (RangeReq (fn_stream_id n) (scast (of_nat (fn_index n) :: i32)) (of_nat off) (scast cb))"
proof -
  have "\<not> bit (of_nat off :: u64) 31" using assms unfolding bit_31 by simp
  then have "sent_offset (of_nat off) = of_nat off" by (rule sent_offset_low)
  then show ?thesis by (simp add: contents_req_of_def contents_request_def sent_offset_def)
qed

lemma serve_request:
  "cx_running c \<Longrightarrow> contents_req_of (contents_request n w cb) = Some req \<Longrightarrow>
    serve sys conn (contents_request n w cb) c = serve_file_contents sys conn req c"
  by (simp add: serve_def ctx_run_def contents_request_def)

lemma service_serves:
  assumes ready: "ctx_ready (sy_machine sys) ls c" and content: "listed_content (sy_machine sys) ls (fn_index n) = Some bs"
    and off: "off \<le> length bs" "off < 2 ^ 31" and cb: "unat cb < 2 ^ 31"
  shows "\<exists>c'. serve sys conn (contents_request n (of_nat off) cb) c =
      (Inr (), c', [(conn, FileContentsResponse 1 (fn_stream_id n) (take (unat cb) (drop off bs)))])
    \<and> ctx_ready (sy_machine sys) ls c'"
proof -
  let ?M = "sy_machine sys" and ?k = "fn_index n"
  let ?i = "scast (of_nat ?k :: i32) :: u64"
  have k: "?k < length (cx_files c)" "?k < 2 ^ 31" "\<not> lf_is_dir (cx_files c ! ?k)"
    "m_contents ?M (lf_path (cx_files c ! ?k)) = Some bs"
    using content ready by (auto simp: listed_content_def ctx_ready_def listing_def split: if_splits)
  have i: "unat ?i = ?k" using scast_nonneg [of "of_nat ?k"] k(2) by (simp add: unat_of_nat)
  let ?f = "cx_files c ! ?k"
  have f: "file_ready ?M ?f" using ready k(1) by (simp add: ctx_ready_def list_all_length)
  have size: "unat (lf_size ?f) = length bs" using f k(3,4) by (auto simp: file_ready_def)
  have ulen: "unat (scast cb :: u64) = unat cb" using scast_nonneg [OF cb] .
  have uoff: "unat (of_nat off :: u64) = off" using off(2) by (simp add: unat_of_nat)
  have sum: "unat ((of_nat off :: u64) + scast cb) = off + unat cb"
    using off(2) cb by (subst unat_add_fits) (simp_all only: uoff ulen len_num1 len_bit0, simp_all)
  define r where "r = (if lf_size ?f < of_nat off + scast cb then lf_size ?f - of_nat off else scast cb)"
  have le: "\<not> lf_size ?f < of_nat off" using off(1) by (simp add: word_less_nat_alt uoff size)
  have r: "unat r = min (unat cb) (length bs - off)"
    using off(1) sum le by (auto simp: r_def word_less_nat_alt size ulen unat_sub uoff word_le_nat_alt)
  have small: "unat r < 2 ^ 63" using r cb by simp
  have take: "take (unat r) (drop off bs) = take (unat cb) (drop off bs)" by (simp add: r min_def)
  have fits: "off + unat r \<le> length bs" using off(1) r by simp
  obtain f' where f': "read_exact_at ?M (unat r) off ?f = (Inr (take (unat cb) (drop off bs)), f')"
    "file_ready ?M f'" "lf_path f' = lf_path ?f" "lf_is_dir f' = lf_is_dir ?f"
    using read_exact_at_ready [OF f k(3,4) fits] unfolding take by blast
  let ?c = "c\<lparr>cx_files := (cx_files c)[?k := f']\<rparr>"
  have "listing ((cx_files c)[?k := f']) = (listing (cx_files c))[?k := listing (cx_files c) ! ?k]"
    using k(1) f'(3,4) by (simp add: listing_def map_update)
  then have "listing ((cx_files c)[?k := f']) = ls" using ready by (simp add: ctx_ready_def)
  moreover have "list_all (file_ready ?M) ((cx_files c)[?k := f'])"
    using ready k(1) f'(2) by (simp add: ctx_ready_def list_all_length nth_list_update)
  ultimately have "ctx_ready ?M ls ?c" using ready by (simp add: ctx_ready_def)
  from finish_response_ready [OF this] obtain c' where
    c': "finish_response sys conn ?i (FileContentsResponse 1 (fn_stream_id n) (take (unat cb) (drop off bs))) ?c =
      (Inr (), c', [(conn, FileContentsResponse 1 (fn_stream_id n) (take (unat cb) (drop off bs)))])"
    "ctx_ready ?M ls c'" by blast
  have run: "cx_running c" using ready by (simp add: ctx_ready_def)
  have "serve_file_contents sys conn (RangeReq (fn_stream_id n) ?i (of_nat off) (scast cb)) c =
      (Inr (), c', [(conn, FileContentsResponse 1 (fn_stream_id n) (take (unat cb) (drop off bs)))])"
    using i k(1) le small f'(1) c'(1)
    by (simp add: serve_file_contents_def file_at_def uoff Let_def flip: r_def)
  then show ?thesis
    unfolding serve_request [OF run request_of_node [OF off(2)]] using c'(2) by blast
qed

interpretation clip: content_server "service_answer sys conn" "ctx_ready (sy_machine sys) ls"
  "listed_content (sy_machine sys) ls" "2 ^ 31" "\<lambda>cb. unat cb < 2 ^ 31" for sys :: clip_sys and conn ls
proof
  fix c :: clip_ctx and n :: fuse_node and bs off cb
  assume "ctx_ready (sy_machine sys) ls c" "listed_content (sy_machine sys) ls (fn_index n) = Some bs"
    "off \<le> length bs" "off < 2 ^ 31" "unat (cb :: u32) < 2 ^ 31"
  from service_serves [OF this, where conn = conn]
  show "\<exists>c'. service_answer sys conn c (contents_request n (of_nat off) cb) =
      ([FileContentsResponse 1 (fn_stream_id n) (take (unat cb) (drop off bs))], c') \<and> ctx_ready (sy_machine sys) ls c'"
    by (auto simp: service_answer_def)
qed

section \<open>Pasting what was offered\<close>

lemma parse_descriptors_length:
  "parse_descriptors U n bs conn = Inr ds \<Longrightarrow> length ds = n"
  by (induction U n bs conn arbitrary: ds rule: parse_descriptors.induct)
    (auto split: sum.splits prod.splits)

lemma parsed_length:
  assumes "parse_file_descriptors U pdu conn = Inr ds" shows "length ds < 2 ^ 63"
proof -
  have "le_val (take 4 pdu) < 2 ^ 32" if "\<not> length pdu < 4"
    using le_val_less [of "take 4 pdu"] that by simp
  then show ?thesis
    using assms parse_descriptors_length [of U "le_val (take 4 pdu)" "drop 4 pdu" conn ds]
    by (auto simp: parse_file_descriptors_def Let_def split: if_splits)
qed

lemma set_clipboard_fuse: "cx_fuse (snd (set_clipboard sys ps c)) = cx_fuse c"
  by (simp add: set_clipboard_def Let_def split_beta)

lemma response_fuse:
  "case parse_file_descriptors (sy_utf16 sys) data conn of
     Inl e \<Rightarrow> cx_fuse (fst (snd (serve_format_data_response sys conn flags data c))) = cx_fuse c
   | Inr files \<Rightarrow>
       cx_fuse (fst (snd (serve_format_data_response sys conn flags data c))) =
         (if flags = 1 then snd (load_file_list (sy_rnd sys) (sy_now sys) files (cx_fuse c)) else cx_fuse c)"
  using set_clipboard_fuse
  by (auto simp: serve_format_data_response_def Let_def split_beta split: sum.split option.split prod.split)

lemma finish_response_fuse: "cx_fuse (fst (snd (finish_response sys conn i resp c))) = cx_fuse c"
  by (simp add: finish_response_def Let_def split_beta)

lemma serve_file_contents_fuse: "cx_fuse (fst (snd (serve_file_contents sys conn req c))) = cx_fuse c"
  by (auto simp: serve_file_contents_def Let_def split_beta finish_response_fuse
      split: contents_req.split option.split sum.split)

lemma send_file_list_fuse: "cx_fuse (fst (snd (ctx_send_file_list sys conn c))) = cx_fuse c"
  by (auto simp: ctx_send_file_list_def sync_local_files_def Let_def split: option.split sum.split prod.split)

lemma run_fuse: "cx_fuse (snd (ctx_run sys c)) = cx_fuse c"
  by (simp add: ctx_run_def)

lemma format_list_fuse: "cx_fuse (fst (snd (serve_format_list conn fs c))) = cx_fuse c"
  by (auto simp: serve_format_list_def add_remote_format_def Let_def split: option.split prod.split)

lemma data_request_fuse: "cx_fuse (fst (snd (serve_format_data_request sys conn i c))) = cx_fuse c"
  by (auto simp: serve_format_data_request_def send_file_list_fuse split: option.split)

lemmas handler_fuse = finish_response_fuse serve_file_contents_fuse send_file_list_fuse run_fuse
  format_list_fuse data_request_fuse

section \<open>Properties\<close>

text \<open>
  C4: Copying a pasted file block by block, each block a request that goes to the service of the
  machine that offered it, gives exactly the contents of the file there, for files below 2 GB.
\<close>

theorem pasted_copy_is_original:
  assumes "ctx_ready (sy_machine sys) ls c" "listed_content (sy_machine sys) ls (fn_index n) = Some bs"
    and "length bs < 2 ^ 31" "0 < cb" "unat cb < 2 ^ 31"
  shows "copy_file (service_answer sys conn) (length bs + 1) c n cb 0 = Some bs"
  using assms(1,2,5,4,3) by (rule clip.copy_whole)

definition demo_sys :: clip_sys where
  "demo_sys = \<lparr>sy_machine = demo_machine, sy_utf16 = ascii_utf16, sy_percent = percent_spec,
     sy_store_ok = (\<lambda>_. True), sy_mount_ok = True, sy_fuel = 9, sy_rnd = of_nat, sy_now = 0\<rparr>"

definition demo_served :: local_file where
  "demo_served = (demo_local ''/a/b'' False)\<lparr>lf_size := 2\<rparr>"

definition demo_ctx :: clip_ctx where
  "demo_ctx = (ctx_new ''/mnt'')\<lparr>cx_running := True, cx_files := [demo_served]\<rparr>"

definition demo_fuse_node :: fuse_node where
  "demo_fuse_node = from_description of_nat 0 2 (demo_file ''b'' KindFile)"

lemma demo_ctx_ready: "ctx_ready (sy_machine demo_sys) [(''/a/b'', False)] demo_ctx"
  "listed_content (sy_machine demo_sys) [(''/a/b'', False)] (fn_index demo_fuse_node) = Some [104, 105]"
  by (simp_all add: ctx_ready_def demo_sys_def demo_ctx_def demo_served_def demo_local_def listing_def
      file_ready_def demo_machine_def listed_content_def demo_fuse_node_def from_description_def)

lemma pasted_copy_is_original_witness:
  "copy_file (service_answer demo_sys 3) 3 demo_ctx demo_fuse_node 1 0 = Some [104, 105]"
  using pasted_copy_is_original [OF demo_ctx_ready, of 1 3] by (simp add: numeral_3_eq_3)

text \<open>
  The low half of an offset goes through a signed number: a read at an offset between two and
  four gigabytes, modulo four, is refused by the service although the file has the bytes.
\<close>

theorem read_beyond_2g_fails:
  assumes "ctx_ready (sy_machine sys) ls c" "listed_content (sy_machine sys) ls (fn_index n) = Some bs"
    and "off \<le> length bs" "length bs < 2 ^ 63" "2 ^ 31 \<le> off mod 2 ^ 32"
  shows "serve sys conn (contents_request n (of_nat off) cb) c =
    (Inl (Fail (InvalidRequest ''invalid reading offset'')), c, [fail_response conn (fn_stream_id n)])"
proof -
  let ?w = "of_nat off :: i64" and ?k = "fn_index n"
  let ?i = "scast (of_nat ?k :: i32) :: u64"
  have req: "contents_req_of (contents_request n ?w cb) = Some (RangeReq (fn_stream_id n) ?i (sent_offset ?w) (scast cb))"
    by (simp add: contents_req_of_def contents_request_def sent_offset_def)
  have k: "?k < length (cx_files c)" "?k < 2 ^ 31" "\<not> lf_is_dir (cx_files c ! ?k)"
    "m_contents (sy_machine sys) (lf_path (cx_files c ! ?k)) = Some bs"
    using assms(1,2) by (auto simp: listed_content_def ctx_ready_def listing_def split: if_splits)
  have i: "unat ?i = ?k" using scast_nonneg [of "of_nat ?k"] k(2) by (simp add: unat_of_nat)
  have "file_ready (sy_machine sys) (cx_files c ! ?k)" using assms(1) k(1) by (simp add: ctx_ready_def list_all_length)
  then have size: "unat (lf_size (cx_files c ! ?k)) = length bs" using k(3,4) by (auto simp: file_ready_def)
  have "bit ?w 31" unfolding bit_31 by (rule assms(5))
  then have "lf_size (cx_files c ! ?k) < sent_offset ?w"
    using sent_offset_high assms(4) size by (fastforce simp: word_less_nat_alt)
  then have "serve_file_contents sys conn (RangeReq (fn_stream_id n) ?i (sent_offset ?w) (scast cb)) c =
      (Inl (Fail (InvalidRequest ''invalid reading offset'')), c, [fail_response conn (fn_stream_id n)])"
    using k(1) i by (simp add: serve_file_contents_def file_at_def)
  moreover have "cx_running c" using assms(1) by (simp add: ctx_ready_def)
  ultimately show ?thesis using serve_request [OF _ req] by simp
qed

definition zeros :: "nat \<Rightarrow> bytes" where "zeros n = replicate n 0"

definition big_machine :: machine where
  "big_machine = demo_machine\<lparr>m_contents := [''/a/b'' \<mapsto> zeros (2 ^ 31)]\<rparr>"

lemma read_beyond_2g_fails_witness:
  "fst (serve (demo_sys\<lparr>sy_machine := big_machine\<rparr>) 3 (contents_request demo_fuse_node (of_nat (2 ^ 31)) 1)
      (demo_ctx\<lparr>cx_files := [demo_served\<lparr>lf_size := 2 ^ 31\<rparr>]\<rparr>))
    = Inl (Fail (InvalidRequest ''invalid reading offset''))"
proof -
  let ?S = "demo_sys\<lparr>sy_machine := big_machine\<rparr>"
  let ?c = "demo_ctx\<lparr>cx_files := [demo_served\<lparr>lf_size := 2 ^ 31\<rparr>]\<rparr>"
  have len: "length (zeros (2 ^ 31)) = 2 ^ 31" by (simp only: zeros_def length_replicate)
  have 1: "ctx_ready (sy_machine ?S) [(''/a/b'', False)] ?c"
    by (simp add: ctx_ready_def demo_ctx_def demo_served_def demo_local_def listing_def file_ready_def
        big_machine_def demo_machine_def len [simplified])
  have 2: "listed_content (sy_machine ?S) [(''/a/b'', False)] (fn_index demo_fuse_node) = Some (zeros (2 ^ 31))"
    by (simp add: listed_content_def big_machine_def demo_fuse_node_def from_description_def)
  show ?thesis
    using read_beyond_2g_fails [OF 1 2, of "2 ^ 31" 3 1] unfolding len by simp
qed

text \<open>
  A request that a peer sends with a negative number of bytes and an offset of one, for any file
  that is not empty, makes the service panic: the sum wraps, and the buffer cannot be allocated.
\<close>

theorem negative_length_panics:
  assumes "cx_running c" "file_at c (scast i) = Some f" "lf_size f \<noteq> 0"
  shows "fst (serve sys conn (FileContentsRequest stream i 2 1 0 (- 1) have_id clip_id) c) = Inl ClipPanic"
proof -
  have low: "push_bit 32 (scast (0 :: i32)) OR scast (1 :: i32) = (1 :: u64)" by simp
  have len: "(scast (- 1 :: i32) :: u64) = - 1" by simp
  have "\<not> lf_size f < 1" using assms(3) by (simp add: word_less_nat_alt unat_gt_0)
  moreover have "2 ^ 63 \<le> unat (- 1 :: u64)" by (simp add: unsigned_minus_1_eq_mask mask_eq_exp_minus_1)
  ultimately show ?thesis
    using assms(1,2)
    by (simp add: serve_def ctx_run_def contents_req_of_def low len serve_file_contents_def Let_def)
qed

lemma negative_length_panics_witness:
  "fst (serve demo_sys 3 (FileContentsRequest 7 0 2 1 0 (- 1) False 0) demo_ctx) = Inl ClipPanic"
  by (rule negative_length_panics [of _ _ demo_served])
    (simp_all add: demo_ctx_def file_at_def demo_served_def)

text \<open>
  A stream id stands for a file and not for a request. When a read times out, its reply, which
  arrives during the next read of the file at another offset, is taken for that one's.
\<close>

theorem late_reply_mixed:
  "fst (read_node n off1 cb []) = Inl TimedOut
   \<and> fst (read_node n off2 cb (FileContentsResponse 1 (fn_stream_id n) data1 # FileContentsResponse 1 (fn_stream_id n) data2 # rx))
     = Inr data1"
  by (simp add: read_node_def)

text \<open>
  C5: What one machine offers, another can paste: when the peer's file list arrives, every file of it
  is found in the mounted file system at its path below the copied directories.
\<close>

theorem offered_files_pasted:
  assumes "utf16_ok (sy_utf16 sys)" "list_all (offerable (sy_utf16 sys)) files" "length files < 2 ^ 32"
    and "list_all (\<lambda>f. path_file_name (comps f) \<noteq> None \<and> length (base_name f) \<le> 255) (map (described conn) files)"
    and "distinct (map (rel_path (map (described conn) files)) [0..<length files])" "cx_running c" "k < length files"
  shows "\<exists>pdu. build_file_list_pdu (sy_utf16 sys) files = Some pdu
    \<and> walk (cx_fuse (fst (snd (serve sys conn (FormatDataResponse 1 pdu) c)))) 1
        (rel_path (map (described conn) files) k) = Some (k + 2)"
proof -
  let ?fs = "map (described conn) files"
  obtain pdu where pdu: "build_file_list_pdu (sy_utf16 sys) files = Some pdu"
    "parse_file_descriptors (sy_utf16 sys) pdu conn = Inr ?fs"
    using offered_parse [OF assms(1-3)] by blast
  have fuse: "cx_fuse (fst (snd (serve sys conn (FormatDataResponse 1 pdu) c))) =
      snd (load_file_list (sy_rnd sys) (sy_now sys) ?fs (cx_fuse c))"
    using response_fuse [where sys = sys and data = pdu and conn = conn and flags = 1 and c = c] pdu(2) assms(6) by (simp add: serve_def ctx_run_def)
  have "find (\<lambda>f. path_file_name (comps f) = None) ?fs = None"
    using assms(4) by (auto simp: find_None_iff list_all_iff)
  then have "fs_files (snd (load_file_list (sy_rnd sys) (sy_now sys) ?fs (cx_fuse c))) = spec_tree (sy_rnd sys) (sy_now sys) ?fs"
    by (simp add: load_file_list_def build_tree_closed)
  then have "serves (snd (load_file_list (sy_rnd sys) (sy_now sys) ?fs (cx_fuse c))) (sy_rnd sys) (sy_now sys) ?fs"
    using assms(3) by (simp add: serves_def)
  then have "walk (snd (load_file_list (sy_rnd sys) (sy_now sys) ?fs (cx_fuse c))) 1 (rel_path ?fs k) = Some (k + 2)"
    by (rule walk_rel_path) (use assms(4,5,7) in \<open>auto simp: list_all_iff\<close>)
  then show ?thesis using pdu(1) fuse by auto
qed

definition demo_offer :: "string \<Rightarrow> bool \<Rightarrow> local_file" where
  "demo_offer path is_dir = \<lparr>lf_path = path, lf_handle = None, lf_offset = 0, lf_name = path, lf_size = 7,
     lf_last_write_time = 0, lf_is_dir = is_dir, lf_perm = 33188, lf_read_only = False,
     lf_hidden = False, lf_system = False, lf_archive = False, lf_normal = \<not> is_dir\<rparr>"

lemma offered_files_pasted_witness:
  "\<exists>pdu. build_file_list_pdu ascii_utf16 [demo_offer ''/x/a'' True, demo_offer ''/x/a/b.txt'' False] = Some pdu
    \<and> walk (cx_fuse (fst (snd (serve demo_sys 3 (FormatDataResponse 1 pdu) demo_ctx)))) 1 [''a'', ''b.txt''] = Some 3"
proof -
  let ?files = "[demo_offer ''/x/a'' True, demo_offer ''/x/a/b.txt'' False]"
  have U: "sy_utf16 demo_sys = ascii_utf16" by (simp add: demo_sys_def)
  have off: "list_all (offerable ascii_utf16) ?files" by (simp add: offerable_def demo_offer_def ascii_utf16_def)
  have names: "list_all (\<lambda>f. path_file_name (comps f) \<noteq> None \<and> length (base_name f) \<le> 255) (map (described 3) ?files)"
    by code_simp
  have paths: "map (rel_path (map (described 3) ?files)) [0..<length ?files] = [[''a''], [''a'', ''b.txt'']]"
    by code_simp
  have run: "cx_running demo_ctx" by (simp add: demo_ctx_def)
  have path1: "rel_path (map (described 3) ?files) 1 = [''a'', ''b.txt'']" using paths by simp
  have dist: "distinct (map (rel_path (map (described 3) ?files)) [0..<length ?files])" unfolding paths by simp
  show ?thesis
    using offered_files_pasted [of demo_sys ?files 3 demo_ctx 1] ascii_utf16_ok off names dist run path1
    unfolding U by (simp add: numeral_3_eq_3)
qed

text \<open>
  Whatever message arrives, the file system of the service stays one that the kernel's calls
  and loading lists can reach, so that none of the kernel's calls panics afterwards either.
\<close>

theorem serve_keeps_fuse_reachable:
  assumes "fuse_reachable (cx_fuse c)"
  shows "fuse_reachable (cx_fuse (fst (snd (serve sys conn m c))))"
proof -
  have resp: "fuse_reachable (cx_fuse (fst (snd (serve_format_data_response sys conn flags data c'))))"
    if "cx_fuse c' = cx_fuse c" for flags data c'
  proof (cases "parse_file_descriptors (sy_utf16 sys) data conn")
    case (Inl e)
    then show ?thesis using response_fuse [where sys = sys and data = data and conn = conn and flags = flags and c = c'] that assms by simp
  next
    case (Inr files)
    have "fuse_reachable (snd (load_file_list (sy_rnd sys) (sy_now sys) files (cx_fuse c)))"
      using reach_step [OF assms step_load] parsed_length [OF Inr] by blast
    then show ?thesis using response_fuse [where sys = sys and data = data and conn = conn and flags = flags and c = c'] that assms Inr by simp
  qed
  obtain r c' where run: "ctx_run sys c = (r, c')" by (metis prod.exhaust)
  have same: "cx_fuse c' = cx_fuse c" using run_fuse [of sys c] run by simp
  show ?thesis
    using assms same resp [OF same]
    by (cases r; cases m) (simp_all add: serve_def run handler_fuse split: option.split)
qed

lemma serve_keeps_fuse_reachable_witness:
  "fuse_reachable (cx_fuse (fst (snd (serve demo_sys 3 (FormatDataResponse 1 [0, 0, 0, 0]) (ctx_new ''/mnt'')))))"
  by (rule serve_keeps_fuse_reachable) (simp add: ctx_new_def reach_new)

text \<open>
  The formats of the peers and the own ones share a map. A peer that announces its file contents
  under the id that this machine uses for descriptors makes it refuse to offer files.
\<close>

theorem format_ids_collide:
  assumes "cx_running c"
  shows "let (r, c', sent) = serve sys conn (FormatList [(49334, ''FileContents''), (50000, ''FileGroupDescriptorW'')]) c
    in r = Inr () \<and> snd (snd (serve sys conn (FormatDataRequest 49334) c')) = [format_data_failure conn]"
  using assms
  by (simp add: serve_def ctx_run_def serve_format_list_def Let_def filedescriptorw_format_name_def
      filecontents_format_name_def add_remote_format_def serve_format_data_request_def get_local_format_def)

lemma format_ids_collide_witness:
  "let (r, c', sent) = serve demo_sys 3 (FormatList [(49334, ''FileContents''), (50000, ''FileGroupDescriptorW'')]) demo_ctx
    in r = Inr () \<and> snd (snd (serve demo_sys 3 (FormatDataRequest 49334) c')) = [format_data_failure 3]"
  by (rule format_ids_collide) (simp add: demo_ctx_def)

end
