(* ===== verification/Enigo.thy ===== *)
theory Enigo
  imports StrUtil
begin

text \<open>
  Synthetic input of \<open>libs/enigo\<close>: the keys and buttons (\<open>src/lib.rs\<close>), the language of key sequences
  (\<open>src/dsl.rs\<close>), and on Linux the back end over \<open>libxdo\<close> (\<open>src/linux/xdo.rs\<close>) and the choice between
  it, the \<open>tfc\<close> library and custom devices (\<open>src/linux/nix_impl.rs\<close>). The calls of a library are
  recorded in the order they are made.
\<close>

section \<open>Keys and buttons\<close>

datatype mouse_button =
  MLeft | MMiddle | MRight | MBack | MForward | MScrollUp | MScrollDown | MScrollLeft | MScrollRight

text \<open>A character is its code point.\<close>

datatype (plugins only: size) key =
    K_Alt | K_Backspace | K_CapsLock | K_Command | K_Control | K_Delete | K_DownArrow | K_End
    | K_Escape | K_F1 | K_F10 | K_F11 | K_F12 | K_F2 | K_F3 | K_F4 | K_F5 | K_F6 | K_F7 | K_F8
    | K_F9 | K_Home | K_LeftArrow | K_Meta | K_Option | K_PageDown | K_PageUp | K_Return
    | K_RightArrow | K_Shift | K_Space | K_Super | K_Tab | K_UpArrow | K_Windows | K_Numpad0
    | K_Numpad1 | K_Numpad2 | K_Numpad3 | K_Numpad4 | K_Numpad5 | K_Numpad6 | K_Numpad7 | K_Numpad8
    | K_Numpad9 | K_Cancel | K_Clear | K_Pause | K_Kana | K_Hangul | K_Junja | K_Final | K_Hanja
    | K_Kanji | K_Convert | K_Select | K_Print | K_Execute | K_Snapshot | K_Insert | K_Help
    | K_Sleep | K_Separator | K_VolumeUp | K_VolumeDown | K_Mute | K_Scroll | K_NumLock | K_RWin
    | K_Apps | K_Multiply | K_Add | K_Subtract | K_Decimal | K_Divide | K_Equals | K_NumpadEnter
    | K_RightShift | K_RightControl | K_RightAlt | K_Layout nat | K_Raw u16

text \<open>What \<open>MouseControllable\<close> and \<open>KeyboardControllable\<close> ask of a device with state \<open>'k\<close>.\<close>

record 'k keyboard_ops =
  kb_key_sequence :: "string \<Rightarrow> 'k \<Rightarrow> 'k"
  kb_key_down :: "key \<Rightarrow> 'k \<Rightarrow> (string + unit) \<times> 'k"
  kb_key_up :: "key \<Rightarrow> 'k \<Rightarrow> 'k"
  kb_key_click :: "key \<Rightarrow> 'k \<Rightarrow> 'k"
  kb_get_key_state :: "key \<Rightarrow> 'k \<Rightarrow> bool \<times> 'k"

record 'm mouse_ops =
  mo_move_to :: "int \<Rightarrow> int \<Rightarrow> 'm \<Rightarrow> 'm"
  mo_move_relative :: "int \<Rightarrow> int \<Rightarrow> 'm \<Rightarrow> 'm"
  mo_down :: "mouse_button \<Rightarrow> 'm \<Rightarrow> (string + unit) \<times> 'm"
  mo_up :: "mouse_button \<Rightarrow> 'm \<Rightarrow> 'm"
  mo_click :: "mouse_button \<Rightarrow> 'm \<Rightarrow> 'm"
  mo_scroll_x :: "int \<Rightarrow> 'm \<Rightarrow> 'm"
  mo_scroll_y :: "int \<Rightarrow> 'm \<Rightarrow> 'm"

section \<open>The language of key sequences\<close>

datatype parse_error = UnknownTag string | UnexpectedOpen | UnmatchedOpen | UnmatchedClose

datatype token = Sequence string | Unicode string | KeyUp key | KeyDown key

definition flush :: "token list \<Rightarrow> string \<Rightarrow> bool \<Rightarrow> token list" where
  "flush tokens buffer unicode =
    (if buffer \<noteq> [] then tokens @ [if unicode then Unicode buffer else Sequence buffer] else tokens)"

text \<open>The inner loop: the rest of a tag after its first characters, up to the closing brace.\<close>

fun read_tag :: "string \<Rightarrow> char \<Rightarrow> string \<Rightarrow> parse_error + string \<times> string" where
  "read_tag tag c rest =
    (let tag = tag @ [c] in
     case rest of
       [] \<Rightarrow> Inl UnmatchedOpen
     | x # rest \<Rightarrow>
         if x = CHR ''{'' then
           (case rest of
              [] \<Rightarrow> Inl UnexpectedOpen
            | y # rest' \<Rightarrow> if y = CHR ''{'' then read_tag tag (CHR ''{'') rest' else Inl UnexpectedOpen)
         else if x = CHR ''}'' then
           (case rest of
              [] \<Rightarrow> Inr (tag, rest)
            | y # rest' \<Rightarrow> if y = CHR ''}'' then read_tag tag (CHR ''}'') rest' else Inr (tag, rest))
         else read_tag tag x rest)"

declare read_tag.simps [simp del]

lemma read_tag_shorter: "read_tag tag c rest = Inr (tag', rest') \<Longrightarrow> length rest' < length rest"
proof (induction "length rest" arbitrary: tag c rest rule: less_induct)
  case less
  have IH: "read_tag t d r = Inr (tag', rest') \<Longrightarrow> length r < length rest \<Longrightarrow> length rest' < length r" for t d r
    using less.hyps by blast
  from less.prems show ?case
    by (subst (asm) read_tag.simps) (auto simp: Let_def dest!: IH split: list.splits if_splits)
qed

text \<open>What a tag does: the new mode and the tokens it adds.\<close>

definition apply_tag :: "string \<Rightarrow> bool \<Rightarrow> parse_error + bool \<times> token list" where
  "apply_tag tag unicode =
    (if tag = ''+UNICODE'' then Inr (True, [])
     else if tag = ''-UNICODE'' then Inr (False, [])
     else if tag = ''+SHIFT'' then Inr (unicode, [KeyDown K_Shift])
     else if tag = ''-SHIFT'' then Inr (unicode, [KeyUp K_Shift])
     else if tag = ''+CTRL'' then Inr (unicode, [KeyDown K_Control])
     else if tag = ''-CTRL'' then Inr (unicode, [KeyUp K_Control])
     else if tag = ''+META'' then Inr (unicode, [KeyDown K_Meta])
     else if tag = ''-META'' then Inr (unicode, [KeyUp K_Meta])
     else if tag = ''+ALT'' then Inr (unicode, [KeyDown K_Alt])
     else if tag = ''-ALT'' then Inr (unicode, [KeyUp K_Alt])
     else Inl (UnknownTag tag))"

text \<open>The outer loop of \<open>tokenize\<close>.\<close>

function tokenize_loop :: "bool \<Rightarrow> token list \<Rightarrow> string \<Rightarrow> string \<Rightarrow> parse_error + token list" where
  "tokenize_loop unicode tokens buffer input =
    (case input of
       [] \<Rightarrow> Inr (flush tokens buffer unicode)
     | c # rest \<Rightarrow>
         if c = CHR ''{'' then
           (case rest of
              [] \<Rightarrow> Inl UnmatchedOpen
            | x # rest' \<Rightarrow>
                if x = CHR ''{'' then tokenize_loop unicode tokens (buffer @ ''{'') rest'
                else
                  (case read_tag [] x rest' of
                     Inl e \<Rightarrow> Inl e
                   | Inr (tag, rest'') \<Rightarrow>
                       (case apply_tag tag unicode of
                          Inl e \<Rightarrow> Inl e
                        | Inr (unicode', new) \<Rightarrow>
                            tokenize_loop unicode' (flush tokens buffer unicode @ new) [] rest'')))
         else if c = CHR ''}'' then
           (case rest of
              [] \<Rightarrow> Inl UnmatchedClose
            | x # rest' \<Rightarrow>
                if x = CHR ''}'' then tokenize_loop unicode tokens (buffer @ ''}'') rest'
                else Inl UnmatchedClose)
         else tokenize_loop unicode tokens (buffer @ [c]) rest)"
  by pat_completeness auto
termination
  by (relation "measure (\<lambda>(_, _, _, input). length input)") (auto dest: read_tag_shorter)

declare tokenize_loop.simps [simp del]

definition tokenize :: "string \<Rightarrow> parse_error + token list" where
  "tokenize input = tokenize_loop False [] [] input"

text \<open>
  A Rust \<open>String\<close> is the list of its UTF-8 bytes, as characters; the braces and tags are ASCII, so that
  reading bytes and reading \<open>chars\<close> find the same ones. \<open>str_chars\<close> is \<open>chars\<close>: the code points.
\<close>

definition low6 :: "char \<Rightarrow> nat" where
  "low6 b = of_char b mod 64"

fun str_chars :: "string \<Rightarrow> nat list" where
  "str_chars [] = []"
| "str_chars (a # s) =
    (let x = (of_char a :: nat) in
     if x < 0x80 then x # str_chars s
     else if x < 0xE0 then
       (case s of b # s \<Rightarrow> (x mod 32 * 64 + low6 b) # str_chars s | _ \<Rightarrow> [])
     else if x < 0xF0 then
       (case s of b # c # s \<Rightarrow> (x mod 16 * 4096 + low6 b * 64 + low6 c) # str_chars s | _ \<Rightarrow> [])
     else
       (case s of b # c # d # s \<Rightarrow> (x mod 8 * 262144 + low6 b * 4096 + low6 c * 64 + low6 d) # str_chars s
        | _ \<Rightarrow> []))"

declare str_chars.simps(2) [simp del]

text \<open>\<open>eval\<close>: nothing is pressed when the input does not parse; a key that cannot be pressed is ignored.\<close>

definition eval_token :: "'k keyboard_ops \<Rightarrow> token \<Rightarrow> 'k \<Rightarrow> 'k" where
  "eval_token K t k =
    (case t of
       Sequence buffer \<Rightarrow> fold (\<lambda>c. kb_key_click K (K_Layout c)) (str_chars buffer) k
     | Unicode buffer \<Rightarrow> kb_key_sequence K buffer k
     | KeyUp key \<Rightarrow> kb_key_up K key k
     | KeyDown key \<Rightarrow> snd (kb_key_down K key k))"

definition dsl_eval :: "'k keyboard_ops \<Rightarrow> string \<Rightarrow> 'k \<Rightarrow> (parse_error + unit) \<times> 'k" where
  "dsl_eval K input k =
    (case tokenize input of
       Inl e \<Rightarrow> (Inl e, k)
     | Inr tokens \<Rightarrow> (Inr (), fold (eval_token K) tokens k))"

text \<open>
  \<open>impl Display for ParseError\<close>: \<open>fmt\<close> asks for \<open>to_string\<close>, which is \<open>fmt\<close> again. \<open>None\<close> stands for
  a call that does not return.
\<close>

partial_function (option) parse_error_fmt :: "parse_error \<Rightarrow> string \<Rightarrow> string option" where
  "parse_error_fmt e out =
    Option.bind (parse_error_fmt e []) (\<lambda>s. Some (out @ s))"

section \<open>The back end over libxdo\<close>

datatype xdo_call =
  XdoMove int int | XdoMoveRelative int int | XdoMouseDown int | XdoMouseUp int | XdoClick int
| XdoEnterText string u32 | XdoSend string u32 | XdoSendDown string u32 | XdoSendUp string u32

text \<open>\<open>EnigoXdo\<close>: whether the display was opened, the delay, the modifier mask of the display and the calls.\<close>

record xdo_dev =
  xd_open :: bool
  xd_delay :: u64
  xd_input_state :: u32
  xd_calls :: "xdo_call list"

definition xdo_new :: "bool \<Rightarrow> u32 \<Rightarrow> xdo_dev" where
  "xdo_new opened modifiers = \<lparr>xd_open = opened, xd_delay = 12000, xd_input_state = modifiers, xd_calls = []\<rparr>"

definition xdo_set_delay :: "u64 \<Rightarrow> xdo_dev \<Rightarrow> xdo_dev" where
  "xdo_set_delay delay x = x\<lparr>xd_delay := delay\<rparr>"

definition mousebutton :: "mouse_button \<Rightarrow> int" where
  "mousebutton b = (case b of MLeft \<Rightarrow> 1 | MMiddle \<Rightarrow> 2 | MRight \<Rightarrow> 3 | MScrollUp \<Rightarrow> 4
     | MScrollDown \<Rightarrow> 5 | MScrollLeft \<Rightarrow> 6 | MScrollRight \<Rightarrow> 7 | MBack \<Rightarrow> 8 | MForward \<Rightarrow> 9)"

text \<open>Every operation does nothing when the display could not be opened.\<close>

definition xdo_do :: "xdo_call \<Rightarrow> xdo_dev \<Rightarrow> xdo_dev" where
  "xdo_do call x = (if xd_open x then x\<lparr>xd_calls := xd_calls x @ [call]\<rparr> else x)"

definition xdo_mouse_move_to :: "int \<Rightarrow> int \<Rightarrow> xdo_dev \<Rightarrow> xdo_dev" where
  "xdo_mouse_move_to x y = xdo_do (XdoMove x y)"

definition xdo_mouse_move_relative :: "int \<Rightarrow> int \<Rightarrow> xdo_dev \<Rightarrow> xdo_dev" where
  "xdo_mouse_move_relative x y = xdo_do (XdoMoveRelative x y)"

definition xdo_mouse_down :: "mouse_button \<Rightarrow> xdo_dev \<Rightarrow> (string + unit) \<times> xdo_dev" where
  "xdo_mouse_down b x = (Inr (), xdo_do (XdoMouseDown (mousebutton b)) x)"

definition xdo_mouse_up :: "mouse_button \<Rightarrow> xdo_dev \<Rightarrow> xdo_dev" where
  "xdo_mouse_up b = xdo_do (XdoMouseUp (mousebutton b))"

definition xdo_mouse_click :: "mouse_button \<Rightarrow> xdo_dev \<Rightarrow> xdo_dev" where
  "xdo_mouse_click b = xdo_do (XdoClick (mousebutton b))"

text \<open>The negation of an \<open>i32\<close> in a release build.\<close>

definition neg_i32 :: "int \<Rightarrow> int" where
  "neg_i32 i = signed_take_bit 31 (- i)"

definition xdo_mouse_scroll_x :: "int \<Rightarrow> xdo_dev \<Rightarrow> xdo_dev" where
  "xdo_mouse_scroll_x len =
    (let button = (if len < 0 then MScrollLeft else MScrollRight);
         n = (if len < 0 then neg_i32 len else len)
     in xdo_mouse_click button ^^ nat n)"

definition xdo_mouse_scroll_y :: "int \<Rightarrow> xdo_dev \<Rightarrow> xdo_dev" where
  "xdo_mouse_scroll_y len =
    (let button = (if len < 0 then MScrollUp else MScrollDown);
         n = (if len < 0 then neg_i32 len else len)
     in xdo_mouse_click button ^^ nat n)"

text \<open>The \<open>{:X}\<close> of the standard library.\<close>

definition hex_digit :: "nat \<Rightarrow> char" where
  "hex_digit d = (if d < 10 then char_of (48 + d) else char_of (55 + d))"

fun show_hex :: "nat \<Rightarrow> string" where
  "show_hex n = (if n < 16 then [hex_digit n] else show_hex (n div 16) @ [hex_digit (n mod 16)])"

declare show_hex.simps [simp del]

definition keysequence :: "key \<Rightarrow> string" where
  "keysequence key =
    (case key of
       K_Layout c \<Rightarrow> ''U'' @ show_hex c
     | K_Raw k \<Rightarrow> show_nat (unat k)
       | K_Alt \<Rightarrow> ''Alt'' | K_Backspace \<Rightarrow> ''BackSpace''
       | K_CapsLock \<Rightarrow> ''Caps_Lock'' | K_Control \<Rightarrow> ''Control''
       | K_Delete \<Rightarrow> ''Delete'' | K_DownArrow \<Rightarrow> ''Down''
       | K_End \<Rightarrow> ''End'' | K_Escape \<Rightarrow> ''Escape'' | K_F1 \<Rightarrow> ''F1''
       | K_F10 \<Rightarrow> ''F10'' | K_F11 \<Rightarrow> ''F11'' | K_F12 \<Rightarrow> ''F12''
       | K_F2 \<Rightarrow> ''F2'' | K_F3 \<Rightarrow> ''F3'' | K_F4 \<Rightarrow> ''F4''
       | K_F5 \<Rightarrow> ''F5'' | K_F6 \<Rightarrow> ''F6'' | K_F7 \<Rightarrow> ''F7''
       | K_F8 \<Rightarrow> ''F8'' | K_F9 \<Rightarrow> ''F9'' | K_Home \<Rightarrow> ''Home''
       | K_LeftArrow \<Rightarrow> ''Left'' | K_Option \<Rightarrow> ''Option''
       | K_PageDown \<Rightarrow> ''Page_Down'' | K_PageUp \<Rightarrow> ''Page_Up''
       | K_Return \<Rightarrow> ''Return'' | K_RightArrow \<Rightarrow> ''Right''
       | K_Shift \<Rightarrow> ''Shift'' | K_Space \<Rightarrow> ''space''
       | K_Tab \<Rightarrow> ''Tab'' | K_UpArrow \<Rightarrow> ''Up''
       | K_Numpad0 \<Rightarrow> ''U30'' | K_Numpad1 \<Rightarrow> ''U31''
       | K_Numpad2 \<Rightarrow> ''U32'' | K_Numpad3 \<Rightarrow> ''U33''
       | K_Numpad4 \<Rightarrow> ''U34'' | K_Numpad5 \<Rightarrow> ''U35''
       | K_Numpad6 \<Rightarrow> ''U36'' | K_Numpad7 \<Rightarrow> ''U37''
       | K_Numpad8 \<Rightarrow> ''U38'' | K_Numpad9 \<Rightarrow> ''U39''
       | K_Decimal \<Rightarrow> ''U2E'' | K_Cancel \<Rightarrow> ''Cancel''
       | K_Clear \<Rightarrow> ''Clear'' | K_Pause \<Rightarrow> ''Pause''
       | K_Kana \<Rightarrow> ''Kana'' | K_Hangul \<Rightarrow> ''Hangul''
       | K_Junja \<Rightarrow> '''' | K_Final \<Rightarrow> '''' | K_Hanja \<Rightarrow> ''Hanja''
       | K_Kanji \<Rightarrow> ''Kanji'' | K_Convert \<Rightarrow> ''''
       | K_Select \<Rightarrow> ''Select'' | K_Print \<Rightarrow> ''Print''
       | K_Execute \<Rightarrow> ''Execute'' | K_Snapshot \<Rightarrow> ''3270_PrintScreen''
       | K_Insert \<Rightarrow> ''Insert'' | K_Help \<Rightarrow> ''Help''
       | K_Sleep \<Rightarrow> '''' | K_Separator \<Rightarrow> ''KP_Separator''
       | K_VolumeUp \<Rightarrow> '''' | K_VolumeDown \<Rightarrow> '''' | K_Mute \<Rightarrow> ''''
       | K_Scroll \<Rightarrow> ''Scroll_Lock'' | K_NumLock \<Rightarrow> ''Num_Lock''
       | K_RWin \<Rightarrow> ''Super_R'' | K_Apps \<Rightarrow> ''Menu''
       | K_Multiply \<Rightarrow> ''KP_Multiply'' | K_Add \<Rightarrow> ''KP_Add''
       | K_Subtract \<Rightarrow> ''KP_Subtract'' | K_Divide \<Rightarrow> ''KP_Divide''
       | K_Equals \<Rightarrow> ''KP_Equal'' | K_NumpadEnter \<Rightarrow> ''KP_Enter''
       | K_RightShift \<Rightarrow> ''Shift_R'' | K_RightControl \<Rightarrow> ''Control_R''
       | K_RightAlt \<Rightarrow> ''Alt_R''
       | K_Command \<Rightarrow> ''Super'' | K_Super \<Rightarrow> ''Super'' | K_Windows \<Rightarrow> ''Super'' | K_Meta \<Rightarrow> ''Super'')"

definition xdo_get_key_state :: "key \<Rightarrow> xdo_dev \<Rightarrow> bool" where
  "xdo_get_key_state key x =
    (if xd_open x then
       (case key of
          K_Shift \<Rightarrow> bit (xd_input_state x) 0
        | K_CapsLock \<Rightarrow> bit (xd_input_state x) 1
        | K_Control \<Rightarrow> bit (xd_input_state x) 2
        | K_Alt \<Rightarrow> bit (xd_input_state x) 3
        | K_NumLock \<Rightarrow> bit (xd_input_state x) 4
        | K_Meta \<Rightarrow> bit (xd_input_state x) 6
        | _ \<Rightarrow> False)
     else False)"

text \<open>\<open>CString::new\<close> fails for a string with a NUL.\<close>

definition cstring :: "string \<Rightarrow> string option" where
  "cstring s = (if CHR 0x00 \<in> set s then None else Some s)"

definition xdo_key_sequence :: "string \<Rightarrow> xdo_dev \<Rightarrow> xdo_dev" where
  "xdo_key_sequence sq x =
    (case cstring sq of None \<Rightarrow> x | Some s \<Rightarrow> xdo_do (XdoEnterText s (ucast (xd_delay x))) x)"

definition xdo_key_down :: "key \<Rightarrow> xdo_dev \<Rightarrow> (string + unit) \<times> xdo_dev" where
  "xdo_key_down key x =
    (if \<not> xd_open x then (Inr (), x)
     else case cstring (keysequence key) of
            None \<Rightarrow> (Inl ''NulError'', x)
          | Some s \<Rightarrow> (Inr (), xdo_do (XdoSendDown s (ucast (xd_delay x))) x))"

definition xdo_key_up :: "key \<Rightarrow> xdo_dev \<Rightarrow> xdo_dev" where
  "xdo_key_up key x =
    (case cstring (keysequence key) of None \<Rightarrow> x | Some s \<Rightarrow> xdo_do (XdoSendUp s (ucast (xd_delay x))) x)"

definition xdo_key_click :: "key \<Rightarrow> xdo_dev \<Rightarrow> xdo_dev" where
  "xdo_key_click key x =
    (case cstring (keysequence key) of None \<Rightarrow> x | Some s \<Rightarrow> xdo_do (XdoSend s (ucast (xd_delay x))) x)"

definition xdo_keyboard :: "xdo_dev keyboard_ops" where
  "xdo_keyboard = \<lparr>kb_key_sequence = xdo_key_sequence, kb_key_down = xdo_key_down, kb_key_up = xdo_key_up,
     kb_key_click = xdo_key_click, kb_get_key_state = (\<lambda>key x. (xdo_get_key_state key x, x))\<rparr>"

section \<open>Linux\<close>

text \<open>
  A context of the \<open>tfc\<close> library: what its calls answer, and the calls. A key of it is its name.
\<close>

datatype tfc_call =
  TfcUnicodeChar nat | TfcUnicodeDown nat | TfcUnicodeUp nat
| TfcKeyClick string | TfcKeyDown string | TfcKeyUp string | TfcRecover

record tfc_dev =
  tf_ok :: "tfc_call \<Rightarrow> bool"
  tf_calls :: "tfc_call list"

definition tfc_do :: "tfc_call \<Rightarrow> tfc_dev \<Rightarrow> bool \<times> tfc_dev" where
  "tfc_do call t = (tf_ok t call, t\<lparr>tf_calls := tf_calls t @ [call]\<rparr>)"

definition convert_to_tfc_key :: "key \<Rightarrow> string option" where
  "convert_to_tfc_key key =
    (case key of
       K_Alt \<Rightarrow> Some ''Alt'' | K_Backspace \<Rightarrow> Some ''DeleteOrBackspace''
       | K_CapsLock \<Rightarrow> Some ''CapsLock'' | K_Control \<Rightarrow> Some ''Control''
       | K_Delete \<Rightarrow> Some ''ForwardDelete''
       | K_DownArrow \<Rightarrow> Some ''DownArrow'' | K_End \<Rightarrow> Some ''End''
       | K_Escape \<Rightarrow> Some ''Escape'' | K_F1 \<Rightarrow> Some ''F1''
       | K_F10 \<Rightarrow> Some ''F10'' | K_F11 \<Rightarrow> Some ''F11''
       | K_F12 \<Rightarrow> Some ''F12'' | K_F2 \<Rightarrow> Some ''F2''
       | K_F3 \<Rightarrow> Some ''F3'' | K_F4 \<Rightarrow> Some ''F4''
       | K_F5 \<Rightarrow> Some ''F5'' | K_F6 \<Rightarrow> Some ''F6''
       | K_F7 \<Rightarrow> Some ''F7'' | K_F8 \<Rightarrow> Some ''F8''
       | K_F9 \<Rightarrow> Some ''F9'' | K_Home \<Rightarrow> Some ''Home''
       | K_LeftArrow \<Rightarrow> Some ''LeftArrow'' | K_PageDown \<Rightarrow> Some ''PageDown''
       | K_PageUp \<Rightarrow> Some ''PageUp'' | K_Return \<Rightarrow> Some ''ReturnOrEnter''
       | K_RightArrow \<Rightarrow> Some ''RightArrow'' | K_Shift \<Rightarrow> Some ''Shift''
       | K_Space \<Rightarrow> Some ''Space'' | K_Tab \<Rightarrow> Some ''Tab''
       | K_UpArrow \<Rightarrow> Some ''UpArrow'' | K_Numpad0 \<Rightarrow> Some ''N0''
       | K_Numpad1 \<Rightarrow> Some ''N1'' | K_Numpad2 \<Rightarrow> Some ''N2''
       | K_Numpad3 \<Rightarrow> Some ''N3'' | K_Numpad4 \<Rightarrow> Some ''N4''
       | K_Numpad5 \<Rightarrow> Some ''N5'' | K_Numpad6 \<Rightarrow> Some ''N6''
       | K_Numpad7 \<Rightarrow> Some ''N7'' | K_Numpad8 \<Rightarrow> Some ''N8''
       | K_Numpad9 \<Rightarrow> Some ''N9'' | K_Decimal \<Rightarrow> Some ''NumpadDecimal''
       | K_Clear \<Rightarrow> Some ''NumpadClear'' | K_Pause \<Rightarrow> Some ''Pause''
       | K_Print \<Rightarrow> Some ''Print'' | K_Snapshot \<Rightarrow> Some ''PrintScreen''
       | K_Insert \<Rightarrow> Some ''Insert'' | K_Scroll \<Rightarrow> Some ''ScrollLock''
       | K_NumLock \<Rightarrow> Some ''NumLock'' | K_RWin \<Rightarrow> Some ''Meta''
       | K_Apps \<Rightarrow> Some ''Apps'' | K_Multiply \<Rightarrow> Some ''NumpadMultiply''
       | K_Add \<Rightarrow> Some ''NumpadPlus'' | K_Subtract \<Rightarrow> Some ''NumpadMinus''
       | K_Divide \<Rightarrow> Some ''NumpadDivide'' | K_Equals \<Rightarrow> Some ''NumpadEquals''
       | K_NumpadEnter \<Rightarrow> Some ''NumpadEnter''
       | K_RightShift \<Rightarrow> Some ''RightShift''
       | K_RightControl \<Rightarrow> Some ''RightControl''
       | K_RightAlt \<Rightarrow> Some ''RightAlt''
       | K_Command \<Rightarrow> Some ''Meta'' | K_Super \<Rightarrow> Some ''Meta'' | K_Windows \<Rightarrow> Some ''Meta''
       | K_Meta \<Rightarrow> Some ''Meta''
       | _ \<Rightarrow> None)"

record ('k, 'm) enigo =
  en_xdo :: xdo_dev
  en_is_x11 :: bool
  en_tfc :: "tfc_dev option"
  en_keyboard :: "'k option"
  en_mouse :: "'m option"

definition enigo_default :: "bool \<Rightarrow> tfc_dev option \<Rightarrow> xdo_dev \<Rightarrow> ('k, 'm) enigo" where
  "enigo_default is_x11 tfc_new xdo =
    \<lparr>en_xdo = xdo, en_is_x11 = is_x11, en_tfc = (if is_x11 then tfc_new else None),
     en_keyboard = None, en_mouse = None\<rparr>"

definition set_custom_keyboard :: "'k \<Rightarrow> ('k, 'm) enigo \<Rightarrow> ('k, 'm) enigo" where
  "set_custom_keyboard k en = en\<lparr>en_keyboard := Some k\<rparr>"

definition set_custom_mouse :: "'m \<Rightarrow> ('k, 'm) enigo \<Rightarrow> ('k, 'm) enigo" where
  "set_custom_mouse m en = en\<lparr>en_mouse := Some m\<rparr>"

definition tfc_clear_remapped :: "('k, 'm) enigo \<Rightarrow> ('k, 'm) enigo" where
  "tfc_clear_remapped en = en\<lparr>en_tfc := map_option (\<lambda>t. snd (tfc_do TfcRecover t)) (en_tfc en)\<rparr>"

definition tfc_key_click :: "key \<Rightarrow> ('k, 'm) enigo \<Rightarrow> bool \<times> ('k, 'm) enigo" where
  "tfc_key_click key en =
    (case en_tfc en of
       None \<Rightarrow> (False, en)
     | Some t \<Rightarrow>
         (case (case key of
                  K_Layout c \<Rightarrow> Some (tfc_do (TfcUnicodeChar c) t)
                | _ \<Rightarrow> map_option (\<lambda>name. tfc_do (TfcKeyClick name) t) (convert_to_tfc_key key)) of
            None \<Rightarrow> (False, en)
          | Some (ok, t) \<Rightarrow> (ok, en\<lparr>en_tfc := Some t\<rparr>)))"

text \<open>The calls that press and release a key, and those of \<open>tfc_key_down_or_up\<close> until one fails.\<close>

definition tfc_calls_of :: "key \<Rightarrow> (tfc_call \<times> tfc_call) option" where
  "tfc_calls_of key =
    (case key of
       K_Layout c \<Rightarrow> Some (TfcUnicodeDown c, TfcUnicodeUp c)
     | _ \<Rightarrow> map_option (\<lambda>name. (TfcKeyDown name, TfcKeyUp name)) (convert_to_tfc_key key))"

fun tfc_do_all :: "tfc_call list \<Rightarrow> tfc_dev \<Rightarrow> bool \<times> tfc_dev" where
  "tfc_do_all [] t = (True, t)"
| "tfc_do_all (c # cs) t = (case tfc_do c t of (ok, t) \<Rightarrow> if ok then tfc_do_all cs t else (False, t))"

definition tfc_key_down_or_up :: "key \<Rightarrow> bool \<Rightarrow> bool \<Rightarrow> ('k, 'm) enigo \<Rightarrow> bool \<times> ('k, 'm) enigo" where
  "tfc_key_down_or_up key down up en =
    (case en_tfc en of
       None \<Rightarrow> (False, en)
     | Some t \<Rightarrow>
         (case tfc_calls_of key of
            None \<Rightarrow> (False, en)
          | Some (d, u) \<Rightarrow>
              (case tfc_do_all ((if down then [d] else []) @ (if up then [u] else [])) t of
                 (ok, t) \<Rightarrow> (ok, en\<lparr>en_tfc := Some t\<rparr>))))"

text \<open>A call for the X11 back end, or for the custom device when there is one.\<close>

definition on_mouse :: "(xdo_dev \<Rightarrow> xdo_dev) \<Rightarrow> ('m \<Rightarrow> 'm) \<Rightarrow> ('k, 'm) enigo \<Rightarrow> ('k, 'm) enigo" where
  "on_mouse f g en =
    (if en_is_x11 en then en\<lparr>en_xdo := f (en_xdo en)\<rparr> else en\<lparr>en_mouse := map_option g (en_mouse en)\<rparr>)"

definition mouse_move_to :: "'m mouse_ops \<Rightarrow> int \<Rightarrow> int \<Rightarrow> ('k, 'm) enigo \<Rightarrow> ('k, 'm) enigo" where
  "mouse_move_to M x y = on_mouse (xdo_mouse_move_to x y) (mo_move_to M x y)"

definition mouse_move_relative :: "'m mouse_ops \<Rightarrow> int \<Rightarrow> int \<Rightarrow> ('k, 'm) enigo \<Rightarrow> ('k, 'm) enigo" where
  "mouse_move_relative M x y = on_mouse (xdo_mouse_move_relative x y) (mo_move_relative M x y)"

definition mouse_down :: "'m mouse_ops \<Rightarrow> mouse_button \<Rightarrow> ('k, 'm) enigo \<Rightarrow> (string + unit) \<times> ('k, 'm) enigo" where
  "mouse_down M b en =
    (if en_is_x11 en then (case xdo_mouse_down b (en_xdo en) of (r, x) \<Rightarrow> (r, en\<lparr>en_xdo := x\<rparr>))
     else case en_mouse en of
            None \<Rightarrow> (Inr (), en)
          | Some m \<Rightarrow> (case mo_down M b m of (r, m) \<Rightarrow> (r, en\<lparr>en_mouse := Some m\<rparr>)))"

definition mouse_up :: "'m mouse_ops \<Rightarrow> mouse_button \<Rightarrow> ('k, 'm) enigo \<Rightarrow> ('k, 'm) enigo" where
  "mouse_up M b = on_mouse (xdo_mouse_up b) (mo_up M b)"

definition mouse_click :: "'m mouse_ops \<Rightarrow> mouse_button \<Rightarrow> ('k, 'm) enigo \<Rightarrow> ('k, 'm) enigo" where
  "mouse_click M b = on_mouse (xdo_mouse_click b) (mo_click M b)"

definition mouse_scroll_x :: "'m mouse_ops \<Rightarrow> int \<Rightarrow> ('k, 'm) enigo \<Rightarrow> ('k, 'm) enigo" where
  "mouse_scroll_x M len = on_mouse (xdo_mouse_scroll_x len) (mo_scroll_x M len)"

definition mouse_scroll_y :: "'m mouse_ops \<Rightarrow> int \<Rightarrow> ('k, 'm) enigo \<Rightarrow> ('k, 'm) enigo" where
  "mouse_scroll_y M len = on_mouse (xdo_mouse_scroll_y len) (mo_scroll_y M len)"

text \<open>\<open>get_led_state\<close>: \<open>read\<close> gives the content of a file, \<open>None\<close> when it cannot be opened.\<close>

definition get_led_state :: "(string \<Rightarrow> string option) \<Rightarrow> key \<Rightarrow> bool" where
  "get_led_state read key =
    (case (case key of
             K_CapsLock \<Rightarrow> Some ''/sys/class/leds/input1::capslock/brightness''
           | K_NumLock \<Rightarrow> Some ''/sys/class/leds/input1::numlock/brightness''
           | _ \<Rightarrow> None) of
       None \<Rightarrow> False
     | Some led_file \<Rightarrow>
         (case read led_file of
            None \<Rightarrow> False
          | Some content \<Rightarrow> (case parse_signed 31 (trim_end content) of None \<Rightarrow> False | Some i \<Rightarrow> i = 1)))"

definition get_key_state :: "'k keyboard_ops \<Rightarrow> (string \<Rightarrow> string option) \<Rightarrow> key \<Rightarrow> ('k, 'm) enigo \<Rightarrow> bool \<times> ('k, 'm) enigo" where
  "get_key_state K read key en =
    (if en_is_x11 en then (xdo_get_key_state key (en_xdo en), en)
     else case en_keyboard en of
            Some k \<Rightarrow> (case kb_get_key_state K key k of (b, k) \<Rightarrow> (b, en\<lparr>en_keyboard := Some k\<rparr>))
          | None \<Rightarrow> (get_led_state read key, en))"

definition key_sequence :: "'k keyboard_ops \<Rightarrow> string \<Rightarrow> ('k, 'm) enigo \<Rightarrow> ('k, 'm) enigo" where
  "key_sequence K sq en =
    (if en_is_x11 en then en\<lparr>en_xdo := xdo_key_sequence sq (en_xdo en)\<rparr>
     else en\<lparr>en_keyboard := map_option (kb_key_sequence K sq) (en_keyboard en)\<rparr>)"

definition key_down :: "'k keyboard_ops \<Rightarrow> key \<Rightarrow> ('k, 'm) enigo \<Rightarrow> (string + unit) \<times> ('k, 'm) enigo" where
  "key_down K key en =
    (if en_is_x11 en then
       (case tfc_key_down_or_up key True False en of
          (has_down, en) \<Rightarrow>
            if has_down then (Inr (), en)
            else (case xdo_key_down key (en_xdo en) of (r, x) \<Rightarrow> (r, en\<lparr>en_xdo := x\<rparr>)))
     else case en_keyboard en of
            None \<Rightarrow> (Inr (), en)
          | Some k \<Rightarrow> (case kb_key_down K key k of (r, k) \<Rightarrow> (r, en\<lparr>en_keyboard := Some k\<rparr>)))"

definition key_up :: "'k keyboard_ops \<Rightarrow> key \<Rightarrow> ('k, 'm) enigo \<Rightarrow> ('k, 'm) enigo" where
  "key_up K key en =
    (if en_is_x11 en then
       (case tfc_key_down_or_up key False True en of
          (has_down, en) \<Rightarrow> if has_down then en else en\<lparr>en_xdo := xdo_key_up key (en_xdo en)\<rparr>)
     else en\<lparr>en_keyboard := map_option (kb_key_up K key) (en_keyboard en)\<rparr>)"

definition key_click :: "'k keyboard_ops \<Rightarrow> key \<Rightarrow> ('k, 'm) enigo \<Rightarrow> ('k, 'm) enigo" where
  "key_click K key en =
    (case tfc_key_click key en of
       (ok, en) \<Rightarrow> if ok then en else key_up K key (snd (key_down K key en)))"

definition enigo_keyboard :: "'k keyboard_ops \<Rightarrow> (string \<Rightarrow> string option) \<Rightarrow> ('k, 'm) enigo keyboard_ops" where
  "enigo_keyboard K read = \<lparr>kb_key_sequence = key_sequence K, kb_key_down = key_down K, kb_key_up = key_up K,
     kb_key_click = key_click K, kb_get_key_state = get_key_state K read\<rparr>"

end
