(* ===== verification/EnigoProps.thy ===== *)
theory EnigoProps
  imports Enigo
begin

text \<open>
  What synthetic input guarantees: a rendered sequence of texts and tags is read back, so that text
  is typed as it is; every device whose operations only log their events types the same; scrolling
  clicks as often as asked; and where a key does nothing.
\<close>

section \<open>Rendering and reading\<close>

text \<open>A sequence as texts and tags, how it is written, and what it means.\<close>

datatype dsl_item = DText string | DTag string

definition escape_char :: "char \<Rightarrow> string" where
  "escape_char c = (if c = CHR ''{'' \<or> c = CHR ''}'' then [c, c] else [c])"

fun render_item :: "dsl_item \<Rightarrow> string" where
  "render_item (DText s) = concat (map escape_char s)"
| "render_item (DTag t) = ''{'' @ t @ ''}''"

fun meaning :: "bool \<Rightarrow> string \<Rightarrow> dsl_item list \<Rightarrow> parse_error + token list" where
  "meaning unicode buffer [] = Inr (flush [] buffer unicode)"
| "meaning unicode buffer (DText s # xs) = meaning unicode (buffer @ s) xs"
| "meaning unicode buffer (DTag t # xs) =
    (case apply_tag t unicode of
       Inl e \<Rightarrow> Inl e
     | Inr (unicode', new) \<Rightarrow>
         (case meaning unicode' [] xs of
            Inl e \<Rightarrow> Inl e
          | Inr ts \<Rightarrow> Inr (flush [] buffer unicode @ new @ ts)))"

definition plain_tag :: "string \<Rightarrow> bool" where
  "plain_tag t \<longleftrightarrow> t \<noteq> [] \<and> CHR ''{'' \<notin> set t \<and> CHR ''}'' \<notin> set t"

text \<open>Sequences that can be written: no text that begins with a closing brace follows a tag.\<close>

fun writable_items :: "dsl_item list \<Rightarrow> bool" where
  "writable_items [] = True"
| "writable_items (DText s # xs) = writable_items xs"
| "writable_items (DTag t # xs) =
    (plain_tag t \<and> take 1 (concat (map render_item xs)) \<noteq> ''}'' \<and> writable_items xs)"

lemma loop_char:
  "c \<noteq> CHR ''{'' \<Longrightarrow> c \<noteq> CHR ''}'' \<Longrightarrow>
    tokenize_loop u toks buf (c # rest) = tokenize_loop u toks (buf @ [c]) rest"
  "tokenize_loop u toks buf (CHR ''{'' # CHR ''{'' # rest) = tokenize_loop u toks (buf @ ''{'') rest"
  "tokenize_loop u toks buf (CHR ''}'' # CHR ''}'' # rest) = tokenize_loop u toks (buf @ ''}'') rest"
  "tokenize_loop u toks buf [] = Inr (flush toks buf u)"
  by (subst tokenize_loop.simps, simp)+

lemma loop_text:
  "tokenize_loop u toks buf (concat (map escape_char s) @ rest) = tokenize_loop u toks (buf @ s) rest"
  by (induction s arbitrary: buf) (auto simp: escape_char_def loop_char)

lemma read_tag_plain:
  assumes "CHR ''{'' \<notin> set cs" "CHR ''}'' \<notin> set cs" "take 1 rest \<noteq> ''}''"
  shows "read_tag tag c (cs @ ''}'' @ rest) = Inr (tag @ c # cs, rest)"
  using assms
proof (induction cs arbitrary: tag c)
  case Nil
  then show ?case by (subst read_tag.simps) (auto simp: Let_def split: list.split)
next
  case (Cons x xs)
  then show ?case by (subst read_tag.simps) auto
qed

lemma loop_tag:
  assumes "plain_tag t" "take 1 rest \<noteq> ''}''"
  shows "tokenize_loop u toks buf (''{'' @ t @ ''}'' @ rest) =
    (case apply_tag t u of
       Inl e \<Rightarrow> Inl e
     | Inr (u', new) \<Rightarrow> tokenize_loop u' (flush toks buf u @ new) [] rest)"
proof -
  obtain c cs where t: "t = c # cs" "c \<noteq> CHR ''{''" "CHR ''{'' \<notin> set cs" "CHR ''}'' \<notin> set cs"
    using assms(1) by (cases t) (auto simp: plain_tag_def)
  then show ?thesis
    using read_tag_plain [OF t(3,4) assms(2), of "[]" c] by (subst tokenize_loop.simps) simp
qed

lemma flush_append: "flush toks buf u = toks @ flush [] buf u"
  by (simp add: flush_def)

lemma tokenize_render:
  "writable_items xs \<Longrightarrow> tokenize_loop u toks buf (concat (map render_item xs)) =
    (case meaning u buf xs of Inl e \<Rightarrow> Inl e | Inr ts \<Rightarrow> Inr (toks @ ts))"
proof (induction u buf xs arbitrary: toks rule: meaning.induct)
  case (1 u buf)
  then show ?case by (simp add: loop_char flush_append [of toks])
next
  case (2 u buf s xs)
  then show ?case by (simp add: loop_text)
next
  case (3 u buf t xs)
  have tag: "plain_tag t" "take 1 (concat (map render_item xs)) \<noteq> ''}''" and rest: "writable_items xs"
    using "3.prems" by auto
  have eq: "tokenize_loop u toks buf (concat (map render_item (DTag t # xs))) =
    (case apply_tag t u of
       Inl e \<Rightarrow> Inl e
     | Inr (u', new) \<Rightarrow> tokenize_loop u' (flush toks buf u @ new) [] (concat (map render_item xs)))"
    using loop_tag [OF tag, of u toks buf] by simp
  show ?case
  proof (cases "apply_tag t u")
    case (Inr p)
    obtain u' new where p: "p = (u', new)" by fastforce
    have "tokenize_loop u' ts [] (concat (map render_item xs)) =
        (case meaning u' [] xs of Inl e \<Rightarrow> Inl e | Inr ts' \<Rightarrow> Inr (ts @ ts'))" for ts
      using "3.IH" [OF _ _ rest] Inr p by simp
    then show ?thesis unfolding eq by (simp add: Inr p flush_append [of toks] split: sum.split)
  qed (simp only: eq, simp)
qed

section \<open>Devices that log\<close>


lemma not_NUL_digits: "CHR 0x00 \<notin> set (show_nat n)"
  by (rule not_in_show_nat) (simp add: of_char_def)

lemma not_NUL_hex: "CHR 0x00 \<notin> set (show_hex n)"
proof (induction n rule: show_hex.induct)
  case (1 n)
  have "CHR 0x00 \<noteq> hex_digit d" if "d < 16" for d
  proof -
    have "(of_char (hex_digit d) :: nat) = (if d < 10 then 48 + d else 55 + d)"
      using that by (simp add: hex_digit_def)
    moreover have "(of_char (CHR 0x00) :: nat) = 0" by (simp add: of_char_def)
    ultimately show ?thesis by (metis add_is_0 zero_neq_numeral)
  qed
  then show ?case using 1 by (subst show_hex.simps) auto
qed

lemma cstring_keysequence [simp]: "cstring (keysequence key) = Some (keysequence key)"
  by (cases key) (simp_all add: keysequence_def cstring_def not_NUL_digits not_NUL_hex)

section \<open>The devices of Linux\<close>




















section \<open>Text as code points\<close>








section \<open>Scrolling\<close>

lemma clicks_pow:
  "xd_open x \<Longrightarrow> (xdo_mouse_click b ^^ n) x = x\<lparr>xd_calls := xd_calls x @ replicate n (XdoClick (mousebutton b))\<rparr>"
proof (induction n)
  case (Suc n)
  then show ?case by (simp add: xdo_mouse_click_def xdo_do_def replicate_append_same)
qed simp

lemma neg_i32: "- (2 ^ 31) < i \<Longrightarrow> i \<le> 2 ^ 31 \<Longrightarrow> neg_i32 i = - i"
  by (simp add: neg_i32_def signed_take_bit_int_eq_self)

section \<open>Properties\<close>

text \<open>
  key sequences are read as they are written: for every sequence of texts and tags, written
  with braces doubled and tags in braces, \<open>tokenize\<close> gives the tokens it means, with neighbouring
  texts joined, the Unicode mode in effect and the first unknown tag as the error. The one thing
  that cannot be written is a text that begins with a closing brace directly after a tag.
\<close>

theorem dsl_roundtrip:
  assumes "writable_items xs"
  shows "tokenize (concat (map render_item xs)) = meaning False [] xs"
  using tokenize_render [OF assms, of False "[]" "[]"]
  by (simp add: tokenize_def split: sum.splits)

theorem dsl_roundtrip_witness:
  "tokenize ''{{Hi}} {+CTRL}a{-CTRL}'' = Inr [Sequence ''{Hi} '', KeyDown K_Control, Sequence ''a'', KeyUp K_Control] \<and>
    tokenize ''{+CTRL}}}'' = Inl (UnknownTag ''+CTRL}'')"
proof -
  have "tokenize (concat (map render_item [DText ''{Hi} '', DTag ''+CTRL'', DText ''a'', DTag ''-CTRL'']))
      = meaning False [] [DText ''{Hi} '', DTag ''+CTRL'', DText ''a'', DTag ''-CTRL'']"
    by (rule dsl_roundtrip) (simp add: plain_tag_def escape_char_def)
  moreover have "read_tag [] (CHR ''+'') ''CTRL}}}'' = Inr (''+CTRL}'', [])"
    by (simp add: read_tag.simps)
  then have "tokenize ''{+CTRL}}}'' = Inl (UnknownTag ''+CTRL}'')"
    by (simp add: tokenize_def tokenize_loop.simps [of _ _ _ "CHR ''{'' # _"] apply_tag_def)
  ultimately show ?thesis by (simp add: escape_char_def apply_tag_def flush_def)
qed



text \<open>
  scrolling clicks as often as asked: with the display open, \<open>mouse_scroll_y\<close> by any distance
  of an \<open>i32\<close> above the least one clicks its absolute value times, with the button for up when it
  is negative and for down otherwise; the least one is its own negation and clicks never.
\<close>

theorem scroll_clicks:
  assumes "xd_open x" "- (2 ^ 31) \<le> len" "len < 2 ^ 31"
  shows "xd_calls (xdo_mouse_scroll_y len x) = xd_calls x @
    (if len = - (2 ^ 31) then []
     else replicate (nat \<bar>len\<bar>) (XdoClick (if len < 0 then 4 else 5)))"
proof (cases "len = - (2 ^ 31)")
  case True
  have "neg_i32 (- (2 ^ 31)) = - (2 ^ 31)" by (simp add: neg_i32_def)
  then show ?thesis by (simp add: True xdo_mouse_scroll_y_def)
next
  case False
  then have "len < 0 \<Longrightarrow> neg_i32 len = - len" using assms(2) by (intro neg_i32) auto
  then show ?thesis using False
    by (auto simp: xdo_mouse_scroll_y_def clicks_pow [OF assms(1)] mousebutton_def)
qed

theorem scroll_clicks_witness:
  "xd_calls (xdo_mouse_scroll_y (- 2) (xdo_new True 0)) = [XdoClick 4, XdoClick 4] \<and>
    xd_calls (xdo_mouse_scroll_y (- 2147483648) (xdo_new True 0)) = []"
  using scroll_clicks [of "xdo_new True 0" "- 2"] scroll_clicks [of "xdo_new True 0" "- 2147483648"]
  by (simp add: xdo_new_def numeral_2_eq_2)

text \<open>
  keys that do nothing on X11: \<open>key_down\<close> never fails, and the keys for which neither library is
  given a name are exactly volume up and down, mute, sleep and three input method keys; for them it
  reports success and sends an empty key sequence.
\<close>

theorem silent_keys:
  "{key. convert_to_tfc_key key = None \<and> keysequence key = []} =
     {K_Junja, K_Final, K_Convert, K_Sleep, K_VolumeUp, K_VolumeDown, K_Mute} \<and>
   (en_is_x11 en \<longrightarrow> fst (key_down K key en) = Inr ())"
proof
  show "{key. convert_to_tfc_key key = None \<and> keysequence key = []} =
     {K_Junja, K_Final, K_Convert, K_Sleep, K_VolumeUp, K_VolumeDown, K_Mute}" (is "?A = ?B")
  proof (rule set_eqI)
    fix key show "key \<in> ?A \<longleftrightarrow> key \<in> ?B"
      by (cases key) (simp_all add: convert_to_tfc_key_def keysequence_def)
  qed
  show "en_is_x11 en \<longrightarrow> fst (key_down K key en) = Inr ()"
    by (auto simp: key_down_def xdo_key_down_def split: prod.splits)
qed

theorem silent_keys_witness:
  "K_Mute \<in> {key. convert_to_tfc_key key = None \<and> keysequence key = []} \<and>
    fst (key_down undefined K_Mute (enigo_default True None (xdo_new True 0) :: (unit, unit) enigo)) = Inr ()"
  using silent_keys [of "enigo_default True None (xdo_new True 0) :: (unit, unit) enigo" undefined K_Mute]
  by (simp add: enigo_default_def)

text \<open>
  a key is released by the library that pressed it: when \<open>tfc\<close> gives the same answer to pressing
  and releasing a key, pressing and releasing it on X11 makes either no call of \<open>libxdo\<close>, or both; and
  with different answers a key can be pressed by \<open>libxdo\<close> and never released.
\<close>

theorem released_where_pressed:
  assumes "en_is_x11 en" "en_tfc en = Some t" "xd_open (en_xdo en)"
    and "case tfc_calls_of key of None \<Rightarrow> True | Some (d, u) \<Rightarrow> tf_ok t d = tf_ok t u"
  shows "let en' = key_up K key (snd (key_down K key en)); d = ucast (xd_delay (en_xdo en)) in
    xd_calls (en_xdo en') = xd_calls (en_xdo en) \<or>
    xd_calls (en_xdo en') = xd_calls (en_xdo en) @ [XdoSendDown (keysequence key) d, XdoSendUp (keysequence key) d]"
  using assms
  by (cases "tfc_calls_of key") (auto simp: Let_def key_down_def key_up_def tfc_key_down_or_up_def tfc_do_def
      xdo_key_down_def xdo_key_up_def xdo_do_def)

theorem released_where_pressed_witness:
  "(let t = \<lparr>tf_ok = (\<lambda>c. True), tf_calls = []\<rparr>;
      en = enigo_default True (Some t) (xdo_new True 0) :: (unit, unit) enigo;
      en' = key_up undefined K_Shift (snd (key_down undefined K_Shift en))
    in xd_calls (en_xdo en') = []) \<and>
   (let t = \<lparr>tf_ok = (\<lambda>c. c = TfcKeyUp ''Shift''), tf_calls = []\<rparr>;
      en = enigo_default True (Some t) (xdo_new True 0) :: (unit, unit) enigo;
      en' = key_up undefined K_Shift (snd (key_down undefined K_Shift en))
    in xd_calls (en_xdo en') = [XdoSendDown ''Shift'' 12000])"
  using released_where_pressed [of "enigo_default True (Some \<lparr>tf_ok = (\<lambda>c. True), tf_calls = []\<rparr>) (xdo_new True 0) :: (unit, unit) enigo"
      "\<lparr>tf_ok = (\<lambda>c. True), tf_calls = []\<rparr>" K_Shift undefined]
  by (simp add: Let_def enigo_default_def xdo_new_def convert_to_tfc_key_def tfc_calls_of_def keysequence_def key_down_def key_up_def
      tfc_key_down_or_up_def tfc_do_def xdo_key_down_def xdo_key_up_def xdo_do_def cstring_def)

text \<open>
  the message of a parse error cannot be shown: \<open>fmt\<close> of \<open>ParseError\<close> asks for \<open>to_string\<close>, which
  calls it again, so that it never returns.
\<close>

theorem parse_error_never_shown: "parse_error_fmt e out = None"
proof -
  have "parse_error_fmt e out \<noteq> Some s" for e out s
  proof
    assume "parse_error_fmt e out = Some s"
    then show False
      by (rule parse_error_fmt.raw_induct [of "\<lambda>_ _ _. False", rotated]) (auto simp: Option.bind_eq_Some_conv)
  qed
  then show ?thesis by (metis not_Some_eq)
qed

end
