(* ===== verification/Portable.thy ===== *)
theory Portable
  imports FileTransfer
begin

text \<open>
  The self-extracting launcher \<open>libs/portable\<close>: the archive that \<open>generate.py\<close> writes and
  \<open>src/bin_reader.rs\<close> reads, the files it installs, and the decisions of \<open>src/main.rs\<close> (what is
  installed again, with which arguments the program is started). The decompressor, the digest and
  the lossy conversion of bytes to text are arguments.
\<close>

section \<open>The archive\<close>

record binary_data =
  bd_md5_code :: bytes
  bd_raw :: bytes
  bd_path :: string

record packed_libs =
  pl_decompress :: "bytes \<Rightarrow> bytes"
  pl_md5_hex :: "bytes \<Rightarrow> string"
  pl_lossy :: "bytes \<Rightarrow> string"

definition ascii_bytes :: "string \<Rightarrow> bytes" where
  "ascii_bytes s = map (\<lambda>c. of_nat (of_char c)) s"

definition bin_identifier :: string where "bin_identifier = ''rustdesk''"

text \<open>\<open>&BIN_DATA[a..b]\<close>: a panic when the range does not lie in the data.\<close>

definition slice :: "bytes \<Rightarrow> nat \<Rightarrow> nat \<Rightarrow> bytes option" where
  "slice d a b = (if a \<le> b \<and> b \<le> length d then Some (take (b - a) (drop a d)) else None)"

text \<open>
  One round of the loop of \<open>BinaryReader::read\<close> after the identifier was not found: the file and the
  new base, or a panic.
\<close>

definition read_file_at :: "packed_libs \<Rightarrow> bytes \<Rightarrow> nat \<Rightarrow> (binary_data \<times> nat) option" where
  "read_file_at P d base =
    Option.bind (slice d base (base + 4)) (\<lambda>l.
    let path_length = be_val l; offset = 4 in
    Option.bind (slice d (base + offset) (base + offset + path_length)) (\<lambda>path.
    let offset = offset + path_length in
    Option.bind (slice d (base + offset) (base + offset + 4)) (\<lambda>l.
    let file_length = be_val l; offset = offset + 4 in
    Option.bind (slice d (base + offset) (base + offset + file_length)) (\<lambda>raw.
    let offset = offset + file_length in
    Option.bind (slice d (base + offset) (base + offset + 32)) (\<lambda>md5.
    let offset = offset + 32 in
    Some (\<lparr>bd_md5_code = md5, bd_raw = raw, bd_path = pl_lossy P path\<rparr>, base + offset))))))"

lemma read_file_at_grows: "read_file_at P d base = Some (f, base') \<Longrightarrow> base < base' \<and> base' \<le> length d"
  by (auto simp: read_file_at_def slice_def Let_def bind_eq_Some_conv split: if_splits)

function read_files :: "packed_libs \<Rightarrow> bytes \<Rightarrow> nat \<Rightarrow> binary_data list \<Rightarrow> (binary_data list \<times> string) option" where
  "read_files P d base parsed =
    (case slice d base (base + 8) of
       None \<Rightarrow> None
     | Some iden \<Rightarrow>
         if pl_lossy P iden = bin_identifier then Some (parsed, pl_lossy P (drop (base + 8) d))
         else
           (case read_file_at P d base of
              None \<Rightarrow> None
            | Some (f, base') \<Rightarrow> read_files P d base' (parsed @ [f])))"
  by pat_completeness auto
termination
  by (relation "measure (\<lambda>(P, d, base, _). length d - base)") (auto dest!: read_file_at_grows)

declare read_files.simps [simp del]

definition reader_read :: "packed_libs \<Rightarrow> bytes \<Rightarrow> (binary_data list \<times> string) option" where
  "reader_read P d =
    (if length d \<le> 8 then None
     else if pl_lossy P (take 8 d) \<noteq> bin_identifier then None
     else read_files P d 8 [])"

text \<open>\<open>write_package_metadata\<close> of \<open>generate.py\<close>; a length that does not fit four bytes is an error.\<close>

definition pack_file :: "binary_data \<Rightarrow> bytes" where
  "pack_file f = be_bytes 4 (length (bd_path f)) @ ascii_bytes (bd_path f)
     @ be_bytes 4 (length (bd_raw f)) @ bd_raw f @ bd_md5_code f"

definition pack :: "binary_data list \<Rightarrow> string \<Rightarrow> bytes option" where
  "pack files exe =
    (if list_all (\<lambda>f. length (bd_path f) < 2 ^ 32 \<and> length (bd_raw f) < 2 ^ 32) files
     then Some (ascii_bytes bin_identifier @ concat (map pack_file files) @ ascii_bytes bin_identifier @ ascii_bytes exe)
     else None)"

section \<open>Installing\<close>

text \<open>
  The file system: the contents of files, whether a path can be written, and the directories that
  can be removed with all they contain.
\<close>

record pdisk =
  pk_files :: "string \<Rightarrow> bytes option"
  pk_writable :: "string \<Rightarrow> bool"

definition fs_write :: "string \<Rightarrow> bytes \<Rightarrow> pdisk \<Rightarrow> pdisk" where
  "fs_write p bs d = (if pk_writable d p then d\<lparr>pk_files := (pk_files d)(p := Some bs)\<rparr> else d)"

definition remove_dir_all :: "string \<Rightarrow> pdisk \<Rightarrow> pdisk" where
  "remove_dir_all dir d = d\<lparr>pk_files := (\<lambda>p. if starts_with (path_join dir []) p then None else pk_files d p)\<rparr>"

text \<open>\<open>write_to_file\<close>; missing parents are created.\<close>

definition write_to_file :: "packed_libs \<Rightarrow> string \<Rightarrow> binary_data \<Rightarrow> pdisk \<Rightarrow> pdisk" where
  "write_to_file P pre f d =
    (let p = path_join pre (bd_path f) in
     case pk_files d p of
       Some old \<Rightarrow>
         if pl_md5_hex P old = pl_lossy P (bd_md5_code f) then d
         else fs_write p (pl_decompress P (bd_raw f)) d
     | None \<Rightarrow> fs_write p (pl_decompress P (bd_raw f)) d)"

definition ts_prefix :: string where "ts_prefix = ''timestamp = ''"

text \<open>The first line with a timestamp that parses.\<close>

fun find_timestamp :: "string list \<Rightarrow> nat option" where
  "find_timestamp [] = None"
| "find_timestamp (l # ls) =
    (if starts_with ts_prefix l then
       (case parse_unsigned 64 (replace_str ts_prefix [] l) of Some n \<Rightarrow> Some n | None \<Rightarrow> find_timestamp ls)
     else find_timestamp ls)"

text \<open>
  \<open>is_timestamp_matches\<close>: the answer and the timestamp; \<open>app_metadata\<close> is \<open>None\<close> when it is not UTF-8,
  \<open>read_text\<close> reads a file as text.
\<close>

definition is_timestamp_matches ::
  "(bytes \<Rightarrow> string option) \<Rightarrow> string option \<Rightarrow> string \<Rightarrow> nat \<Rightarrow> pdisk \<Rightarrow> bool \<times> nat" where
  "is_timestamp_matches read_text app_metadata dir ts d =
    (case app_metadata of
       None \<Rightarrow> (True, ts)
     | Some meta \<Rightarrow>
         let ts = (case find_timestamp (str_lines meta) of Some n \<Rightarrow> n | None \<Rightarrow> ts) in
         if ts = 0 then (True, ts)
         else
           case Option.bind (pk_files d (path_join dir ''meta.toml'')) read_text of
             None \<Rightarrow> (False, ts)
           | Some content \<Rightarrow>
               (case find_timestamp (str_lines content) of
                  Some stored \<Rightarrow> (ts = stored, ts)
                | None \<Rightarrow> (False, ts)))"

definition write_meta :: "string \<Rightarrow> nat \<Rightarrow> pdisk \<Rightarrow> pdisk" where
  "write_meta dir ts d =
    (if ts \<noteq> 0 then fs_write (path_join dir ''meta.toml'') (ascii_bytes (ts_prefix @ show_nat ts)) d else d)"

text \<open>
  \<open>setup\<close> for the directory \<open>dir\<close>: the path of the program and the file system. The removal when
  \<open>clear\<close> is set does not look at the timestamp, which stays 0.
\<close>

definition portable_setup ::
  "packed_libs \<Rightarrow> (bytes \<Rightarrow> string option) \<Rightarrow> string option \<Rightarrow> binary_data list \<times> string \<Rightarrow> string \<Rightarrow> bool
    \<Rightarrow> pdisk \<Rightarrow> string \<times> pdisk" where
  "portable_setup P read_text app_metadata reader dir clear d =
    (let (matches, ts) = (if clear then (False, 0) else is_timestamp_matches read_text app_metadata dir 0 d);
         d = (if matches then d else remove_dir_all dir d);
         d = fold (write_to_file P dir) (fst reader) d;
         d = write_meta dir ts d
     in (path_join dir (snd reader), d))"

text \<open>The arguments of \<open>main\<close>: whether to clear, and the arguments of the program.\<close>

definition main_args :: "string \<Rightarrow> string list \<Rightarrow> bool \<times> string list" where
  "main_args arg_exe args =
    (let click_setup = (args = [] \<and> ends_with ''install.exe'' (to_lowercase arg_exe));
         quick_support = (args = [] \<and> ends_with ''qs.exe'' (to_lowercase arg_exe))
     in (click_setup \<or> ''--silent-install'' \<in> set args,
         if click_setup then [''--install''] else if quick_support then [''--quick_support''] else args))"

section \<open>Reading what was packed\<close>

text \<open>\<open>from_utf8_lossy\<close> keeps text in ASCII and makes no ASCII text of anything else.\<close>

definition ascii_string :: "string \<Rightarrow> bool" where
  "ascii_string s \<longleftrightarrow> list_all (\<lambda>c. (of_char c :: nat) < 128) s"

definition lossy_ok :: "(bytes \<Rightarrow> string) \<Rightarrow> bool" where
  "lossy_ok f \<longleftrightarrow> (\<forall>s. ascii_string s \<longrightarrow> f (ascii_bytes s) = s) \<and>
    (\<forall>b s. ascii_string s \<longrightarrow> f b = s \<longrightarrow> b = ascii_bytes s)"

lemma length_ascii_bytes [simp]: "length (ascii_bytes s) = length s"
  by (simp add: ascii_bytes_def)

lemma slice_append:
  "a = length xs \<Longrightarrow> b = a + length ys \<Longrightarrow> slice (xs @ ys @ zs) a b = Some ys"
  by (simp add: slice_def)

lemma read_file_at_pack:
  assumes "lossy_ok (pl_lossy P)" "ascii_string (bd_path f)" "length (bd_path f) < 2 ^ 32"
    "length (bd_raw f) < 2 ^ 32" "length (bd_md5_code f) = 32"
  shows "read_file_at P (pre @ pack_file f @ post) (length pre) = Some (f, length (pre @ pack_file f))"
proof -
  let ?p = "ascii_bytes (bd_path f)" and ?l = "be_bytes 4 (length (bd_path f))" and ?k = "be_bytes 4 (length (bd_raw f))"
  let ?d = "pre @ pack_file f @ post"
  have l: "be_val ?l = length (bd_path f)" "be_val ?k = length (bd_raw f)"
    using assms(3,4) by (simp_all add: byte_simps)
  have "slice ?d (length pre) (length pre + 4) = Some ?l"
    unfolding pack_file_def append_assoc by (rule slice_append) simp_all
  moreover have "slice ((pre @ ?l) @ ?p @ (?k @ bd_raw f @ bd_md5_code f @ post))
      (length pre + 4) (length pre + 4 + length (bd_path f)) = Some ?p"
    by (rule slice_append) simp_all
  moreover have "slice ((pre @ ?l @ ?p) @ ?k @ (bd_raw f @ bd_md5_code f @ post))
      (length pre + (4 + length (bd_path f))) (length pre + (4 + length (bd_path f)) + 4) = Some ?k"
    by (rule slice_append) simp_all
  moreover have "slice ((pre @ ?l @ ?p @ ?k) @ bd_raw f @ (bd_md5_code f @ post))
      (length pre + (4 + length (bd_path f) + 4)) (length pre + (4 + length (bd_path f) + 4) + length (bd_raw f))
      = Some (bd_raw f)"
    by (rule slice_append) simp_all
  moreover have "slice ((pre @ ?l @ ?p @ ?k @ bd_raw f) @ bd_md5_code f @ post)
      (length pre + (4 + length (bd_path f) + 4 + length (bd_raw f)))
      (length pre + (4 + length (bd_path f) + 4 + length (bd_raw f)) + 32) = Some (bd_md5_code f)"
    by (rule slice_append) (simp_all add: assms(5))
  moreover have "pl_lossy P ?p = bd_path f" using assms(1,2) by (simp add: lossy_ok_def)
  ultimately show ?thesis
    by (simp add: read_file_at_def Let_def pack_file_def l assms(5))
qed

lemma pack_file_not_identifier:
  assumes "lossy_ok (pl_lossy P)" "length (bd_path f) < 1920299892"
  shows "pl_lossy P (take 8 (pack_file f @ post)) \<noteq> bin_identifier"
proof
  assume "pl_lossy P (take 8 (pack_file f @ post)) = bin_identifier"
  moreover have "ascii_string bin_identifier" by (simp add: bin_identifier_def ascii_string_def of_char_def)
  ultimately have "take 8 (pack_file f @ post) = ascii_bytes bin_identifier"
    using assms(1) unfolding lossy_ok_def by blast
  then have "take 4 (take 8 (pack_file f @ post)) = take 4 (ascii_bytes bin_identifier)" by simp
  then have "be_bytes 4 (length (bd_path f)) = take 4 (ascii_bytes bin_identifier)"
    by (simp add: pack_file_def take_take)
  then have "be_val (be_bytes 4 (length (bd_path f))) = be_val (take 4 (ascii_bytes bin_identifier))" by simp
  then have "length (bd_path f) mod 256 ^ 4 = 1920299892"
    unfolding be_val_be_bytes
    by (simp add: bin_identifier_def ascii_bytes_def be_val_def of_char_def)
  then show False using assms(2) by simp
qed

lemma read_files_pack:
  assumes "lossy_ok (pl_lossy P)" "ascii_string exe"
    and "\<forall>f \<in> set files. ascii_string (bd_path f) \<and> length (bd_path f) < 1920299892 \<and>
      length (bd_raw f) < 2 ^ 32 \<and> length (bd_md5_code f) = 32"
  shows "read_files P (pre @ concat (map pack_file files) @ ascii_bytes bin_identifier @ ascii_bytes exe) (length pre) parsed
    = Some (parsed @ files, exe)"
  using assms(3)
proof (induction files arbitrary: pre parsed)
  case Nil
  have id: "ascii_string bin_identifier" by (simp add: bin_identifier_def ascii_string_def of_char_def)
  have "slice (pre @ ascii_bytes bin_identifier @ ascii_bytes exe) (length pre) (length pre + 8) = Some (ascii_bytes bin_identifier)"
    by (rule slice_append) (simp_all add: bin_identifier_def)
  moreover have "drop (length pre + 8) (pre @ ascii_bytes bin_identifier @ ascii_bytes exe) = ascii_bytes exe"
    by (simp add: bin_identifier_def)
  ultimately show ?case
    using assms(1,2) id by (subst read_files.simps) (simp add: lossy_ok_def)
next
  case (Cons f fs)
  let ?post = "concat (map pack_file fs) @ ascii_bytes bin_identifier @ ascii_bytes exe"
  let ?d = "pre @ pack_file f @ ?post"
  have f: "ascii_string (bd_path f)" "length (bd_path f) < 1920299892" "length (bd_raw f) < 2 ^ 32"
    "length (bd_md5_code f) = 32" using Cons.prems by auto
  have "8 \<le> length (pack_file f)" using f(4) by (simp add: pack_file_def)
  then have "slice ?d (length pre) (length pre + 8) = Some (take 8 (pack_file f @ ?post))"
    by (simp add: slice_def)
  moreover have "read_file_at P ?d (length pre) = Some (f, length (pre @ pack_file f))"
    using f by (intro read_file_at_pack assms(1)) auto
  moreover have "read_files P ((pre @ pack_file f) @ ?post) (length (pre @ pack_file f)) (parsed @ [f])
      = Some ((parsed @ [f]) @ fs, exe)"
    using Cons.prems by (intro Cons.IH) simp
  ultimately show ?case
    using pack_file_not_identifier [OF assms(1) f(2), of ?post]
    by (subst read_files.simps) simp
qed

section \<open>Timestamps\<close>

lemma split_str_free: "p \<noteq> [] \<Longrightarrow> hd p \<notin> set s \<Longrightarrow> split_str p s = [s]"
proof (induction s)
  case (Cons c s)
  then have "\<not> starts_with p (c # s)" by (cases p) (auto simp: starts_with_def)
  then show ?case using Cons by (subst split_str.simps) simp
qed (simp add: split_str.simps)

lemma show_nat_no_t: "CHR ''t'' \<notin> set (show_nat n)" "CHR 0x0A \<notin> set (show_nat n)"
  by (rule not_in_show_nat, simp add: of_char_def)+

lemma parse_unsigned_show_nat: "n < 2 ^ b \<Longrightarrow> parse_unsigned b (show_nat n) = Some n"
proof -
  assume n: "n < 2 ^ b"
  have "hd (show_nat n) \<noteq> CHR ''+''" by (metis list.set_sel(1) show_nat_neq_Nil show_nat_no_sep(4))
  then show ?thesis using n by (simp add: parse_unsigned_def)
qed

lemma find_own_timestamp:
  assumes "n < 2 ^ 64"
  shows "find_timestamp (str_lines (ts_prefix @ show_nat n)) = Some n"
proof -
  have "CHR 0x0A \<notin> set (ts_prefix @ show_nat n)"
    using show_nat_no_t by (simp add: ts_prefix_def)
  then have "str_lines (ts_prefix @ show_nat n) = [ts_prefix @ show_nat n]"
    by (simp add: str_lines_def split_on_free ts_prefix_def)
  moreover have "starts_with ts_prefix (ts_prefix @ show_nat n)" by (simp add: starts_with_def)
  moreover have "split_str ts_prefix (ts_prefix @ show_nat n) = [[], show_nat n]"
    using split_str_free [of ts_prefix "show_nat n"] show_nat_no_t
    by (subst split_str.simps) (simp add: starts_with_def ts_prefix_def)
  moreover have "parse_unsigned 64 (show_nat n) = Some n" by (rule parse_unsigned_show_nat [OF assms])
  ultimately show ?thesis by (simp add: replace_str_def)
qed

section \<open>Installed files\<close>

lemma write_to_file_other:
  "path_join dir (bd_path f) \<noteq> p \<Longrightarrow> pk_files (write_to_file P dir f d) p = pk_files d p"
  by (simp add: write_to_file_def Let_def fs_write_def split: option.split)

lemma write_to_file_writable: "pk_writable (write_to_file P dir f d) = pk_writable d"
  by (simp add: write_to_file_def Let_def fs_write_def split: option.split)

lemma write_files_other:
  "\<forall>f \<in> set fs. path_join dir (bd_path f) \<noteq> p \<Longrightarrow>
    pk_files (fold (write_to_file P dir) fs d) p = pk_files d p"
  by (induction fs arbitrary: d) (simp_all add: write_to_file_other)

lemma write_files_writable: "pk_writable (fold (write_to_file P dir) fs d) = pk_writable d"
  by (induction fs arbitrary: d) (simp_all add: write_to_file_writable)

lemma write_to_file_content:
  assumes "pk_writable d (path_join dir (bd_path f))"
    and "pl_md5_hex P (pl_decompress P (bd_raw f)) = pl_lossy P (bd_md5_code f)"
    and "\<And>old. pk_files d (path_join dir (bd_path f)) = Some old \<Longrightarrow>
      pl_md5_hex P old = pl_md5_hex P (pl_decompress P (bd_raw f)) \<Longrightarrow> old = pl_decompress P (bd_raw f)"
  shows "pk_files (write_to_file P dir f d) (path_join dir (bd_path f)) = Some (pl_decompress P (bd_raw f))"
  using assms by (auto simp: write_to_file_def Let_def fs_write_def split: option.split)

lemma write_files_content:
  assumes "distinct (map (\<lambda>f. path_join dir (bd_path f)) fs)" "f \<in> set fs"
    and "pk_writable d (path_join dir (bd_path f))"
    and "pl_md5_hex P (pl_decompress P (bd_raw f)) = pl_lossy P (bd_md5_code f)"
    and "\<And>old. pk_files d (path_join dir (bd_path f)) = Some old \<Longrightarrow>
      pl_md5_hex P old = pl_md5_hex P (pl_decompress P (bd_raw f)) \<Longrightarrow> old = pl_decompress P (bd_raw f)"
  shows "pk_files (fold (write_to_file P dir) fs d) (path_join dir (bd_path f)) = Some (pl_decompress P (bd_raw f))"
  using assms
proof (induction fs arbitrary: d)
  case (Cons g gs)
  show ?case
  proof (cases "f = g")
    case True
    then have "\<forall>h \<in> set gs. path_join dir (bd_path h) \<noteq> path_join dir (bd_path f)"
      using Cons.prems(1) by (auto simp: image_iff)
    then show ?thesis
      using write_to_file_content [OF Cons.prems(3,4,5)] True by (simp add: write_files_other)
  next
    case False
    then have "f \<in> set gs" and ne: "path_join dir (bd_path g) \<noteq> path_join dir (bd_path f)"
      using Cons.prems(1,2) by (auto simp: image_iff)
    have "pk_files (fold (write_to_file P dir) gs (write_to_file P dir g d)) (path_join dir (bd_path f))
        = Some (pl_decompress P (bd_raw f))"
      using Cons.prems \<open>f \<in> set gs\<close>
      by (intro Cons.IH) (simp_all add: write_to_file_writable write_to_file_other [OF ne])
    then show ?thesis by simp
  qed
qed simp

section \<open>Properties\<close>

text \<open>
  the launcher reads what the packer wrote: for files with ASCII paths shorter than
  1,920,299,892 bytes (a path of that length would begin like the end mark) and digests of 32
  bytes, \<open>BinaryReader::read\<close> of the archive of \<open>generate.py\<close> ends and gives the files in order
  and the name of the program, whatever the compressed data holds.
\<close>

theorem archive_roundtrip:
  assumes "pack files exe = Some d" "lossy_ok (pl_lossy P)" "ascii_string exe"
    and "\<forall>f \<in> set files. ascii_string (bd_path f) \<and> length (bd_path f) < 1920299892 \<and> length (bd_md5_code f) = 32"
  shows "reader_read P d = Some (files, exe)"
proof -
  have d: "d = ascii_bytes bin_identifier @ concat (map pack_file files) @ ascii_bytes bin_identifier @ ascii_bytes exe"
    and raw: "\<forall>f \<in> set files. length (bd_raw f) < 2 ^ 32"
    using assms(1) by (auto simp: pack_def list_all_iff split: if_splits)
  have id: "ascii_string bin_identifier" "length bin_identifier = 8"
    by (simp_all add: bin_identifier_def ascii_string_def of_char_def)
  have "read_files P d 8 [] = Some ([] @ files, exe)"
    unfolding d using read_files_pack [OF assms(2,3), of files "ascii_bytes bin_identifier" "[]"] assms(4) raw
    by (simp add: id(2))
  moreover have "take 8 d = ascii_bytes bin_identifier" by (simp add: d id(2))
  ultimately show ?thesis
    using assms(2) id unfolding reader_read_def lossy_ok_def by (simp add: d)
qed

definition demo_lossy :: "bytes \<Rightarrow> string" where
  "demo_lossy b = (if \<forall>x \<in> set b. unat x < 128 then map (\<lambda>x. char_of (unat x)) b else [char_of (255 :: nat)])"

lemma demo_lossy_ok: "lossy_ok demo_lossy"
  unfolding lossy_ok_def
proof (intro conjI allI impI)
  fix s assume s: "ascii_string s"
  then have "\<forall>c \<in> set s. unat (of_nat (of_char c) :: u8) = of_char c"
    by (auto simp: ascii_string_def list_all_iff unat_of_nat)
  then show "demo_lossy (ascii_bytes s) = s"
    using s by (auto simp: demo_lossy_def ascii_bytes_def ascii_string_def list_all_iff intro!: map_idI)
next
  fix b s assume s: "ascii_string s" "demo_lossy b = s"
  then have "\<forall>x \<in> set b. unat x < 128"
    by (auto simp: demo_lossy_def ascii_string_def list_all_iff split: if_splits)
  then show "b = ascii_bytes s"
    using s(2) by (auto simp: demo_lossy_def ascii_bytes_def unat_u8_less intro!: map_idI [symmetric])
qed

definition demo_libs :: packed_libs where
  "demo_libs = \<lparr>pl_decompress = id, pl_md5_hex = (\<lambda>b. replicate 32 (CHR ''0'') @ map (\<lambda>x. char_of (unat x)) b), pl_lossy = demo_lossy\<rparr>"

definition demo_packed :: binary_data where
  "demo_packed = \<lparr>bd_md5_code = replicate 32 48, bd_raw = [], bd_path = ''./a''\<rparr>"

theorem archive_roundtrip_witness:
  "\<exists>d. pack [demo_packed] ''./a'' = Some d \<and> reader_read demo_libs d = Some ([demo_packed], ''./a'')"
proof -
  have "pack [demo_packed] ''./a'' \<noteq> None" by (simp add: pack_def demo_packed_def)
  then obtain d where d: "pack [demo_packed] ''./a'' = Some d" by blast
  have "reader_read demo_libs d = Some ([demo_packed], ''./a'')"
    by (rule archive_roundtrip [OF d])
      (simp_all add: demo_libs_def demo_lossy_ok demo_packed_def ascii_string_def of_char_def)
  with d show ?thesis by blast
qed

text \<open>
  C20: every packed file is installed: after \<open>setup\<close> each file of the archive lies in the directory
  with its decompressed contents, whether the directory was cleared or not, provided the paths
  differ, can be written, the recorded digests are right and no file already there has the digest
  of another content.
\<close>

theorem setup_installs:
  assumes "distinct (path_join dir ''meta.toml'' # map (\<lambda>f. path_join dir (bd_path f)) (fst reader))" "f \<in> set (fst reader)"
    and "\<forall>p. pk_writable d p"
    and "pl_md5_hex P (pl_decompress P (bd_raw f)) = pl_lossy P (bd_md5_code f)"
    and "\<forall>old. pk_files d (path_join dir (bd_path f)) = Some old \<longrightarrow>
      pl_md5_hex P old = pl_md5_hex P (pl_decompress P (bd_raw f)) \<longrightarrow> old = pl_decompress P (bd_raw f)"
  shows "pk_files (snd (portable_setup P read_text meta reader dir clear d)) (path_join dir (bd_path f))
    = Some (pl_decompress P (bd_raw f))"
proof -
  obtain m ts where mt: "(if clear then (False, 0) else is_timestamp_matches read_text meta dir 0 d) = (m, ts)"
    by fastforce
  define d1 where "d1 = (if m then d else remove_dir_all dir d)"
  have "pk_files (fold (write_to_file P dir) (fst reader) d1) (path_join dir (bd_path f)) = Some (pl_decompress P (bd_raw f))"
    using assms by (intro write_files_content) (auto simp: d1_def remove_dir_all_def split: if_splits)
  moreover have "path_join dir ''meta.toml'' \<noteq> path_join dir (bd_path f)" using assms(1,2) by auto
  ultimately show ?thesis
    by (simp add: portable_setup_def mt d1_def [symmetric] Let_def write_meta_def fs_write_def)
qed

definition demo_pdisk :: pdisk where
  "demo_pdisk = \<lparr>pk_files = [''/p/./a'' \<mapsto> [1]], pk_writable = (\<lambda>_. True)\<rparr>"

theorem setup_installs_witness:
  "pk_files (snd (portable_setup demo_libs (\<lambda>_. None) None ([demo_packed], ''a'') ''/p'' False demo_pdisk)) ''/p/./a'' = Some []"
proof -
  have 1: "demo_lossy (replicate 32 48) = replicate 32 (CHR ''0'')"
  proof -
    have "ascii_bytes (replicate 32 (CHR ''0'')) = replicate 32 48"
      by (simp add: ascii_bytes_def of_char_def)
    moreover have "ascii_string (replicate 32 (CHR ''0''))" by (simp add: ascii_string_def of_char_def list_all_iff)
    ultimately show ?thesis using demo_lossy_ok unfolding lossy_ok_def by metis
  qed
  show ?thesis
    using setup_installs [of "''/p''" "([demo_packed], ''a'')" demo_packed demo_pdisk demo_libs "\<lambda>_. None" None False] 1
    by (simp add: demo_pdisk_def demo_packed_def demo_libs_def path_join_def starts_with_def)
qed

text \<open>
  a cleared installation forgets its timestamp: with a timestamp in the launcher, a start
  remembers it, so that the next start keeps the directory; but after a start that clears
  (an installer, or \<open>--silent-install\<close>) the next start removes the directory and installs all again.
\<close>

theorem clear_forgets_timestamp:
  assumes "find_timestamp (str_lines meta) = Some n" "0 < n" "n < 2 ^ 64" "\<forall>p. pk_writable d p"
    and "\<forall>f \<in> set (fst reader). path_join dir (bd_path f) \<noteq> path_join dir ''meta.toml''"
    and "\<forall>s. ascii_string s \<longrightarrow> read_text (ascii_bytes s) = Some s"
  shows "is_timestamp_matches read_text (Some meta) dir 0 (snd (portable_setup P read_text (Some meta) reader dir False d)) = (True, n)
    \<and> is_timestamp_matches read_text (Some meta) dir 0 (snd (portable_setup P read_text (Some meta) reader dir True d)) = (False, n)"
proof
  let ?m = "path_join dir ''meta.toml''"
  have ascii: "ascii_string (ts_prefix @ show_nat n)"
    using set_show_nat [of n] of_char_digit_char
    by (fastforce simp: ascii_string_def list_all_iff ts_prefix_def of_char_def)
  have "snd (is_timestamp_matches read_text (Some meta) dir 0 d) = n"
    using assms(1,2) by (auto simp: is_timestamp_matches_def Let_def split: option.split)
  then obtain m where m: "is_timestamp_matches read_text (Some meta) dir 0 d = (m, n)"
    by (metis prod.collapse)
  define d1 where "d1 = (if m then d else remove_dir_all dir d)"
  have "pk_writable (fold (write_to_file P dir) (fst reader) d1) ?m"
    using assms(4) by (simp add: write_files_writable d1_def remove_dir_all_def)
  then have "pk_files (snd (portable_setup P read_text (Some meta) reader dir False d)) ?m = Some (ascii_bytes (ts_prefix @ show_nat n))"
    using assms(2) by (simp add: portable_setup_def m d1_def [symmetric] Let_def write_meta_def fs_write_def)
  then show "is_timestamp_matches read_text (Some meta) dir 0 (snd (portable_setup P read_text (Some meta) reader dir False d)) = (True, n)"
    using assms(1,2,6) ascii find_own_timestamp [OF assms(3)] by (simp add: is_timestamp_matches_def Let_def)
  have "starts_with (path_join dir []) ?m"
    by (auto simp: path_join_def starts_with_def)
  then have "pk_files (snd (portable_setup P read_text (Some meta) reader dir True d)) ?m = None"
    using write_files_other [OF assms(5), of P "remove_dir_all dir d"]
    by (simp add: portable_setup_def Let_def write_meta_def remove_dir_all_def)
  then show "is_timestamp_matches read_text (Some meta) dir 0 (snd (portable_setup P read_text (Some meta) reader dir True d)) = (False, n)"
    using assms(1,2) by (simp add: is_timestamp_matches_def Let_def)
qed

theorem clear_forgets_timestamp_witness:
  "fst (is_timestamp_matches (\<lambda>b. Some (demo_lossy b)) (Some ''timestamp = 7'') ''/p'' 0
    (snd (portable_setup demo_libs (\<lambda>b. Some (demo_lossy b)) (Some ''timestamp = 7'') ([demo_packed], ''a'') ''/p'' True demo_pdisk))) = False"
proof -
  have "find_timestamp (str_lines ''timestamp = 7'') = Some 7"
    using find_own_timestamp [of 7] by (simp add: ts_prefix_def show_nat.simps digit_char_def char_of_def bit_0)
  then show ?thesis
    using clear_forgets_timestamp [of "''timestamp = 7''" 7 demo_pdisk "([demo_packed], ''a'')" "''/p''" "\<lambda>b. Some (demo_lossy b)" demo_libs]
      demo_lossy_ok
    by (simp add: demo_pdisk_def demo_packed_def path_join_def starts_with_def lossy_ok_def)
qed

end
