(* ===== verification/Recorder.thy ===== *)
theory Recorder
  imports FileTransfer Codec
begin

text \<open>
  The recording of a session, \<open>libs/scrap/src/common/record.rs\<close>: a recorder opens a file for the
  first frame, turns to another file when the size, the codec or the order of the time stamps
  changes, writes from the first key frame on, and tells a listener what happens to its files. The
  muxers, the clock and the outcomes of the file system are part of the world.
\<close>

section \<open>Data\<close>

record rec_ctx =
  rc_server :: bool
  rc_id :: string
  rc_dir :: string
  rc_display :: nat
  rc_tx :: bool

record rec_ctx2 =
  r2_filename :: string
  r2_width :: nat
  r2_height :: nat
  r2_format :: codec_format

datatype record_state = NewFile string | NewFrame | WriteTail | RemoveFile

record enc_frame =
  ef_data :: bytes
  ef_key :: bool
  ef_pts :: int

datatype rec_frame =
  RecVp8s "enc_frame list" | RecVp9s "enc_frame list" | RecAv1s "enc_frame list"
| RecH264s "enc_frame list" | RecH265s "enc_frame list" | RecOther

text \<open>
  The open muxer, \<open>WebmRecorder\<close> or \<open>HwRecorder\<close>: its file, whether a key frame was seen, whether
  anything was written, and when it started.
\<close>

record muxer =
  mx_webm :: bool
  mx_filename :: string
  mx_key :: bool
  mx_written :: bool
  mx_start :: nat

record recorder =
  re_inner :: "muxer option"
  re_ctx :: rec_ctx
  re_ctx2 :: "rec_ctx2 option"
  re_pts :: "int option"
  re_check_failed :: bool

text \<open>
  The world: milliseconds of the clock and how \<open>%Y%m%d%H%M%S%3f\<close> shows them
  between underscores, whether the directory is there or can
  be made, which files can be opened, whether the muxers work and take a frame, whether hardware
  codecs are compiled in, the frames in each file (with the time stamp that a WebM file gets), and
  the states sent to the listener.
\<close>

record rec_world =
  rw_now :: nat
  rw_stamp :: "nat \<Rightarrow> string"
  rw_dir_ok :: bool
  rw_open_ok :: "string \<Rightarrow> bool"
  rw_mux_ok :: "string \<Rightarrow> bool"
  rw_add_ok :: "enc_frame \<Rightarrow> bool"
  rw_hwcodec :: bool
  rw_files :: "string \<Rightarrow> (enc_frame \<times> u64 option) list option"
  rw_sent :: "record_state list"

section \<open>Operations\<close>

definition format_of_frame :: "rec_frame \<Rightarrow> codec_format" where
  "format_of_frame f = (case f of RecVp8s _ \<Rightarrow> VP8 | RecVp9s _ \<Rightarrow> VP9 | RecAv1s _ \<Rightarrow> AV1
     | RecH264s _ \<Rightarrow> H264 | RecH265s _ \<Rightarrow> H265 | RecOther \<Rightarrow> Unknown)"

definition format_name :: "codec_format \<Rightarrow> string" where
  "format_name f = (case f of VP8 \<Rightarrow> ''VP8'' | VP9 \<Rightarrow> ''VP9'' | AV1 \<Rightarrow> ''AV1'' | H264 \<Rightarrow> ''H264''
     | H265 \<Rightarrow> ''H265'' | Unknown \<Rightarrow> ''Unknown'')"

definition set_filename :: "rec_world \<Rightarrow> rec_ctx \<Rightarrow> rec_ctx2 \<Rightarrow> string + rec_ctx2" where
  "set_filename w ctx c2 =
    (if \<not> rw_dir_ok w then Inl ''create_dir_all''
     else
       let name = (if rc_server ctx then ''incoming'' else ''outgoing'') @ ''_'' @ rc_id ctx
             @ rw_stamp w (rw_now w) @ ''display'' @ show_nat (rc_display ctx) @ ''_''
             @ to_lowercase (format_name (r2_format c2))
             @ (if r2_format c2 \<in> {VP9, VP8, AV1} then ''.webm'' else ''.mp4'')
       in Inr (c2\<lparr>r2_filename := path_join (rc_dir ctx) name\<rparr>))"

definition recorder_new :: "rec_ctx \<Rightarrow> recorder" where
  "recorder_new ctx = \<lparr>re_inner = None, re_ctx = ctx, re_ctx2 = None, re_pts = None, re_check_failed = False\<rparr>"

definition send_state :: "rec_ctx \<Rightarrow> record_state \<Rightarrow> rec_world \<Rightarrow> rec_world" where
  "send_state ctx s w = (if rc_tx ctx then w\<lparr>rw_sent := rw_sent w @ [s]\<rparr> else w)"

text \<open>\<open>WebmRecorder::new\<close> and \<open>HwRecorder::new\<close>: a file that exists is emptied.\<close>

definition webm_new :: "rec_ctx2 \<Rightarrow> rec_world \<Rightarrow> (string + muxer) \<times> rec_world" where
  "webm_new c2 w =
    (if \<not> rw_open_ok w (r2_filename c2) then (Inl ''open'', w)
     else
       let w = w\<lparr>rw_files := (rw_files w)(r2_filename c2 := Some [])\<rparr> in
       if \<not> rw_mux_ok w (r2_filename c2) then (Inl ''Failed to create webm mux'', w)
       else (Inr \<lparr>mx_webm = True, mx_filename = r2_filename c2, mx_key = False, mx_written = False,
                  mx_start = rw_now w\<rparr>, w))"

definition hw_new :: "rec_ctx2 \<Rightarrow> rec_world \<Rightarrow> (string + muxer) \<times> rec_world" where
  "hw_new c2 w =
    (if \<not> rw_mux_ok w (r2_filename c2) then (Inl ''Failed to create hardware muxer'', w)
     else (Inr \<lparr>mx_webm = False, mx_filename = r2_filename c2, mx_key = False, mx_written = False,
                mx_start = rw_now w\<rparr>, w\<lparr>rw_files := (rw_files w)(r2_filename c2 := Some [])\<rparr>))"

text \<open>The time stamp that \<open>WebmRecorder\<close> gives a frame, in nanoseconds.\<close>

definition webm_timestamp :: "int \<Rightarrow> u64" where
  "webm_timestamp pts = of_int pts * 1000000"

text \<open>\<open>write_video\<close> of both muxers: nothing before the first key frame.\<close>

definition write_video :: "enc_frame \<Rightarrow> muxer \<Rightarrow> rec_world \<Rightarrow> bool \<times> muxer \<times> rec_world" where
  "write_video f m w =
    (let m = (if ef_key f then m\<lparr>mx_key := True\<rparr> else m) in
     if mx_key m then
       let ok = rw_add_ok w f in
       (ok, if ok then m\<lparr>mx_written := True\<rparr> else m,
        if ok then
          w\<lparr>rw_files := (rw_files w)(mx_filename m := map_option
            (\<lambda>fs. fs @ [(f, if mx_webm m then Some (webm_timestamp (ef_pts f)) else None)]) (rw_files w (mx_filename m)))\<rparr>
        else w)
     else (False, m, w))"

text \<open>\<open>drop\<close> of both muxers: a recording of less than a second or without a frame is removed.\<close>

definition drop_muxer :: "rec_ctx \<Rightarrow> muxer option \<Rightarrow> rec_world \<Rightarrow> rec_world" where
  "drop_muxer ctx mo w =
    (case mo of
       None \<Rightarrow> w
     | Some m \<Rightarrow>
         if \<not> mx_written m \<or> (rw_now w - mx_start m) div 1000 < 1 then
           send_state ctx RemoveFile (w\<lparr>rw_files := (rw_files w)(mx_filename m := None)\<rparr>)
         else send_state ctx WriteTail w)"

text \<open>The part of \<open>check\<close> that opens a muxer when there is none, and the choice of the muxer.\<close>

definition new_muxer :: "codec_format \<Rightarrow> rec_ctx2 \<Rightarrow> rec_world \<Rightarrow> (string + muxer) \<times> rec_world" where
  "new_muxer format c2 w =
    (if format \<in> {VP8, VP9, AV1} then webm_new c2 w
     else if rw_hwcodec w then hw_new c2 w
     else (Inl ''unsupported codec type'', w))"

definition check_open :: "codec_format \<Rightarrow> recorder \<Rightarrow> rec_world \<Rightarrow> (string + unit) \<times> recorder \<times> rec_world" where
  "check_open format r w =
    (case re_ctx2 r of
       None \<Rightarrow> (Inl ''ctx2 is None'', r, w)
     | Some c2 \<Rightarrow>
         (case re_inner r of
            Some _ \<Rightarrow> (Inr (), r, w)
          | None \<Rightarrow>
              (case new_muxer format c2 w of
                 (Inl e, w) \<Rightarrow> (Inl e, r, w)
               | (Inr m, w) \<Rightarrow>
                   (Inr (), r\<lparr>re_inner := Some m, re_pts := None\<rparr>,
                    send_state (re_ctx r) (NewFile (r2_filename c2)) w))))"

definition check :: "nat \<Rightarrow> nat \<Rightarrow> codec_format \<Rightarrow> recorder \<Rightarrow> rec_world \<Rightarrow> (string + unit) \<times> recorder \<times> rec_world" where
  "check wd ht format r w =
    (let fresh = \<lparr>r2_filename = [], r2_width = wd, r2_height = ht, r2_format = format\<rparr>;
         turn = (case re_ctx2 r of
             Some c2 \<Rightarrow> r2_width c2 \<noteq> wd \<or> r2_height c2 \<noteq> ht \<or> r2_format c2 \<noteq> format
           | None \<Rightarrow> True)
     in if turn then
          (case set_filename w (re_ctx r) fresh of
             Inl e \<Rightarrow> (Inl e, r, w)
           | Inr c2 \<Rightarrow>
               check_open format (r\<lparr>re_ctx2 := Some c2, re_inner := None\<rparr>) (drop_muxer (re_ctx r) (re_inner r) w))
        else check_open format r w)"

definition check_or_fail :: "nat \<Rightarrow> nat \<Rightarrow> codec_format \<Rightarrow> recorder \<Rightarrow> rec_world \<Rightarrow> (string + unit) \<times> recorder \<times> rec_world" where
  "check_or_fail wd ht format r w =
    (case check wd ht format r w of
       (Inl e, r, w) \<Rightarrow> (Inl e, r\<lparr>re_check_failed := True\<rparr>, w)
     | (Inr _, r, w) \<Rightarrow> (Inr (), r, w))"

definition check_pts ::
  "enc_frame \<Rightarrow> nat \<Rightarrow> nat \<Rightarrow> codec_format \<Rightarrow> recorder \<Rightarrow> rec_world \<Rightarrow> (string + unit) \<times> recorder \<times> rec_world" where
  "check_pts f wd ht format r w =
    (if re_pts r = None \<and> \<not> ef_key f then (Inl ''first frame is not key frame'', r, w)
     else
       let old_pts = (case re_pts r of None \<Rightarrow> 0 | Some p \<Rightarrow> p);
           r = r\<lparr>re_pts := Some (ef_pts f)\<rparr>
       in if ef_pts f < old_pts then
            (case check_or_fail wd ht format (r\<lparr>re_inner := None, re_ctx2 := None\<rparr>) (drop_muxer (re_ctx r) (re_inner r) w) of
               (Inl e, r, w) \<Rightarrow> (Inl e, r, w)
             | (Inr _, r, w) \<Rightarrow> (Inr (), r\<lparr>re_pts := Some (ef_pts f)\<rparr>, w))
          else (Inr (), r, w))"

fun record_frames ::
  "enc_frame list \<Rightarrow> nat \<Rightarrow> nat \<Rightarrow> codec_format \<Rightarrow> recorder \<Rightarrow> rec_world \<Rightarrow> (string + unit) \<times> recorder \<times> rec_world" where
  "record_frames [] wd ht format r w = (Inr (), r, w)"
| "record_frames (f # fs) wd ht format r w =
    (case check_pts f wd ht format r w of
       (Inl e, r, w) \<Rightarrow> (Inl e, r, w)
     | (Inr _, r, w) \<Rightarrow>
         (case re_inner r of
            None \<Rightarrow> record_frames fs wd ht format r w
          | Some m \<Rightarrow>
              (case write_video f m w of
                 (_, m, w) \<Rightarrow> record_frames fs wd ht format (r\<lparr>re_inner := Some m\<rparr>) w)))"

definition frames_of :: "rec_world \<Rightarrow> rec_frame \<Rightarrow> enc_frame list option" where
  "frames_of w f = (case f of RecVp8s fs \<Rightarrow> Some fs | RecVp9s fs \<Rightarrow> Some fs | RecAv1s fs \<Rightarrow> Some fs
     | RecH264s fs \<Rightarrow> (if rw_hwcodec w then Some fs else None)
     | RecH265s fs \<Rightarrow> (if rw_hwcodec w then Some fs else None) | RecOther \<Rightarrow> None)"

definition write_frame :: "rec_frame \<Rightarrow> nat \<Rightarrow> nat \<Rightarrow> recorder \<Rightarrow> rec_world \<Rightarrow> (string + unit) \<times> recorder \<times> rec_world" where
  "write_frame f wd ht r w =
    (if re_check_failed r then (Inl ''check failed'', r, w)
     else
       let format = format_of_frame f in
       if format = Unknown then (Inl ''unsupported frame type'', r, w)
       else
         case check_or_fail wd ht format r w of
           (Inl e, r, w) \<Rightarrow> (Inl e, r, w)
         | (Inr _, r, w) \<Rightarrow>
             (case frames_of w f of
                None \<Rightarrow> (Inl ''unsupported frame type'', r, w)
              | Some fs \<Rightarrow>
                  (case record_frames fs wd ht format r w of
                     (Inl e, r, w) \<Rightarrow> (Inl e, r, w)
                   | (Inr _, r, w) \<Rightarrow> (Inr (), r, send_state (re_ctx r) NewFrame w))))"

text \<open>\<open>write_message\<close>: \<open>None\<close> for a message that is not a video frame; errors are dropped.\<close>

definition write_message :: "rec_frame option \<Rightarrow> nat \<Rightarrow> nat \<Rightarrow> recorder \<Rightarrow> rec_world \<Rightarrow> recorder \<times> rec_world" where
  "write_message msg wd ht r w =
    (case msg of None \<Rightarrow> (r, w) | Some f \<Rightarrow> snd (write_frame f wd ht r w))"

text \<open>Dropping the recorder drops its muxer.\<close>

definition drop_recorder :: "recorder \<Rightarrow> rec_world \<Rightarrow> rec_world" where
  "drop_recorder r w = drop_muxer (re_ctx r) (re_inner r) w"

section \<open>Runs\<close>

text \<open>
  A step of a recording: a frame is given to the recorder, time passes, or what the file system
  and the muxers can open changes.
\<close>

inductive rec_step :: "recorder \<times> rec_world \<Rightarrow> recorder \<times> rec_world \<Rightarrow> bool" where
  rec_frame: "write_frame f wd ht r w = (res, r', w') \<Longrightarrow> rec_step (r, w) (r', w')"
| rec_time: "rw_now w \<le> t \<Longrightarrow> rec_step (r, w) (r, w\<lparr>rw_now := t\<rparr>)"
| rec_world: "rec_step (r, w) (r, w\<lparr>rw_dir_ok := a, rw_open_ok := b, rw_mux_ok := c\<rparr>)"

definition rec_start :: "rec_ctx \<Rightarrow> rec_world \<Rightarrow> recorder \<times> rec_world \<Rightarrow> bool" where
  "rec_start ctx w s \<longleftrightarrow> rec_step\<^sup>*\<^sup>* (recorder_new ctx, w) s"

text \<open>
  What a listener can rely on: a file is announced, then its frames, then its end or its removal.
  The result tells whether a file is open, \<open>None\<close> stands for a state out of order.
\<close>

fun follow :: "bool \<Rightarrow> record_state list \<Rightarrow> bool option" where
  "follow b [] = Some b"
| "follow False (NewFile _ # l) = follow True l"
| "follow True (NewFrame # l) = follow True l"
| "follow True (WriteTail # l) = follow False l"
| "follow True (RemoveFile # l) = follow False l"
| "follow b (_ # l) = None"

lemma follow_append: "follow b (l @ l') = Option.bind (follow b l) (\<lambda>b'. follow b' l')"
  by (induction b l rule: follow.induct) auto

text \<open>
  A file that plays: it begins with a key frame and the time stamps written to it do not go back.
  \<open>HwRecorder\<close> gives its muxer no time stamps.
\<close>

definition file_stamps :: "(enc_frame \<times> u64 option) list \<Rightarrow> u64 list" where
  "file_stamps fs = List.map_filter snd fs"

definition playable :: "(enc_frame \<times> u64 option) list \<Rightarrow> bool" where
  "playable fs \<longleftrightarrow> (fs \<noteq> [] \<longrightarrow> ef_key (fst (hd fs))) \<and> sorted (file_stamps fs)"



text \<open>
  What the recorder keeps of a file: the frames in their order, each with its own time stamp, and,
  if the muxers take key frames, a key frame at the beginning.
\<close>

definition well_timed :: "(enc_frame \<times> u64 option) list \<Rightarrow> bool" where
  "well_timed fs \<longleftrightarrow> sorted (map (ef_pts \<circ> fst) fs) \<and>
     (\<forall>x \<in> set fs. snd x = None \<or> snd x = Some (webm_timestamp (ef_pts (fst x))))"

definition file_ok :: "rec_world \<Rightarrow> (enc_frame \<times> u64 option) list \<Rightarrow> bool" where
  "file_ok w fs \<longleftrightarrow> well_timed fs \<and> ((\<forall>f. ef_key f \<longrightarrow> rw_add_ok w f) \<longrightarrow> fs \<noteq> [] \<longrightarrow> ef_key (fst (hd fs)))"

definition muxer_ok :: "muxer \<Rightarrow> int option \<Rightarrow> rec_world \<Rightarrow> bool" where
  "muxer_ok m pts w \<longleftrightarrow> (\<exists>fs. rw_files w (mx_filename m) = Some fs \<and> file_ok w fs \<and>
     ((\<forall>f. ef_key f \<longrightarrow> rw_add_ok w f) \<longrightarrow> (mx_key m \<longleftrightarrow> fs \<noteq> [])) \<and>
     (\<forall>x \<in> set fs. \<exists>p. pts = Some p \<and> ef_pts (fst x) \<le> p))"

definition rec_inv :: "rec_world \<Rightarrow> bool \<Rightarrow> muxer option \<Rightarrow> int option \<Rightarrow> rec_world \<Rightarrow> bool" where
  "rec_inv w0 tx mo pts w \<longleftrightarrow>
     (\<forall>p fs. rw_files w p = Some fs \<longrightarrow> rw_files w0 p \<noteq> Some fs \<longrightarrow> file_ok w fs) \<and>
     (\<forall>m. mo = Some m \<longrightarrow> muxer_ok m pts w) \<and>
     (tx \<longrightarrow> follow False (rw_sent w) = Some (mo \<noteq> None))"

abbreviation recorder_inv :: "rec_world \<Rightarrow> recorder \<Rightarrow> rec_world \<Rightarrow> bool" where
  "recorder_inv w0 r w \<equiv> rec_inv w0 (rc_tx (re_ctx r)) (re_inner r) (re_pts r) w"

lemma well_timed_Nil [simp]: "well_timed []"
  by (simp add: well_timed_def)

lemma file_ok_Nil [simp]: "file_ok w []"
  by (simp add: file_ok_def)

lemma file_ok_cong [simp]:
  "file_ok (w\<lparr>rw_files := a\<rparr>) fs = file_ok w fs" "file_ok (w\<lparr>rw_sent := b\<rparr>) fs = file_ok w fs"
  "file_ok (w\<lparr>rw_now := n\<rparr>) fs = file_ok w fs"
  "file_ok (w\<lparr>rw_dir_ok := c\<rparr>) fs = file_ok w fs" "file_ok (w\<lparr>rw_open_ok := d\<rparr>) fs = file_ok w fs"
  "file_ok (w\<lparr>rw_mux_ok := e\<rparr>) fs = file_ok w fs"
  by (simp_all add: file_ok_def)


lemma drop_muxer_inv:
  "rec_inv w0 (rc_tx ctx) mo pts w \<Longrightarrow> rec_inv w0 (rc_tx ctx) None pts' (drop_muxer ctx mo w)"
  by (auto simp: rec_inv_def drop_muxer_def send_state_def follow_append split: option.split)

lemma new_muxer_inv:
  assumes "rec_inv w0 (rc_tx (re_ctx r)) None pts w"
    and "new_muxer format c2 w = (res, w')"
  shows "case res of
      Inl e \<Rightarrow> rec_inv w0 (rc_tx (re_ctx r)) None pts w'
    | Inr m \<Rightarrow> rec_inv w0 (rc_tx (re_ctx r)) (Some m) pts' (send_state (re_ctx r) (NewFile (r2_filename c2)) w')"
  using assms
  by (auto simp: new_muxer_def webm_new_def hw_new_def Let_def rec_inv_def muxer_ok_def send_state_def follow_append split: if_splits)

lemma check_open_inv:
  assumes "recorder_inv w0 r w" "check_open format r w = (res, r', w')"
  shows "recorder_inv w0 r' w' \<and> re_ctx r' = re_ctx r \<and>
    (res = Inr () \<longrightarrow> re_inner r' \<noteq> None \<and> (re_inner r = None \<longrightarrow> re_pts r' = None))"
proof (cases "re_ctx2 r")
  case None
  then show ?thesis using assms by (auto simp: check_open_def)
next
  case (Some c2)
  show ?thesis
  proof (cases "re_inner r")
    case None
    obtain res1 w1 where new: "new_muxer format c2 w = (res1, w1)"
      by fastforce
    have inv: "rec_inv w0 (rc_tx (re_ctx r)) None (re_pts r) w" using assms(1) None by simp
    show ?thesis
      using new_muxer_inv [OF inv new, of None] assms(2) None Some new
      by (auto simp: check_open_def split: sum.splits)
  next
    case (Some m)
    then show ?thesis using assms \<open>re_ctx2 r = Some c2\<close> by (auto simp: check_open_def)
  qed
qed

lemma check_inv:
  assumes "recorder_inv w0 r w" "check wd ht format r w = (res, r', w')"
  shows "recorder_inv w0 r' w' \<and> re_ctx r' = re_ctx r \<and>
    (res = Inr () \<longrightarrow> re_inner r' \<noteq> None \<and> (re_inner r = None \<longrightarrow> re_pts r' = None))"
proof -
  let ?turn = "case re_ctx2 r of
             Some c2 \<Rightarrow> r2_width c2 \<noteq> wd \<or> r2_height c2 \<noteq> ht \<or> r2_format c2 \<noteq> format
           | None \<Rightarrow> True"
  let ?fresh = "\<lparr>r2_filename = [], r2_width = wd, r2_height = ht, r2_format = format\<rparr>"
  show ?thesis
  proof (cases ?turn)
    case True
    show ?thesis
    proof (cases "set_filename w (re_ctx r) ?fresh")
      case (Inl e)
      then show ?thesis using assms True by (auto simp: check_def Let_def)
    next
      case (Inr c2)
      let ?r = "r\<lparr>re_ctx2 := Some c2, re_inner := None\<rparr>"
      have inv: "recorder_inv w0 ?r (drop_muxer (re_ctx r) (re_inner r) w)"
        using drop_muxer_inv [OF assms(1)] by simp
      have "check_open format ?r (drop_muxer (re_ctx r) (re_inner r) w) = (res, r', w')"
        using assms(2) True Inr by (simp add: check_def Let_def)
      from check_open_inv [OF inv this] show ?thesis by auto
    qed
  next
    case False
    then have "check_open format r w = (res, r', w')" using assms(2) by (simp add: check_def Let_def)
    then show ?thesis using check_open_inv [OF assms(1)] by blast
  qed
qed

lemma check_or_fail_inv:
  assumes "recorder_inv w0 r w" "check_or_fail wd ht format r w = (res, r', w')"
  shows "recorder_inv w0 r' w' \<and> re_ctx r' = re_ctx r \<and>
    (res = Inr () \<longrightarrow> re_inner r' \<noteq> None \<and> (re_inner r = None \<longrightarrow> re_pts r' = None))"
proof -
  obtain res1 r1 w1 where c: "check wd ht format r w = (res1, r1, w1)" by (metis prod_cases3)
  then show ?thesis using check_inv [OF assms(1) c] assms(2)
    by (auto simp: check_or_fail_def split: sum.splits)
qed

lemma check_pts_inv:
  assumes "recorder_inv w0 r w" "re_inner r \<noteq> None" "check_pts f wd ht format r w = (res, r', w')"
  shows "recorder_inv w0 r' w' \<and> re_ctx r' = re_ctx r \<and>
    (res = Inr () \<longrightarrow> re_inner r' \<noteq> None \<and> re_pts r' = Some (ef_pts f))"
proof (cases "re_pts r = None \<and> \<not> ef_key f")
  case True
  then show ?thesis using assms by (auto simp: check_pts_def)
next
  case False
  let ?old = "case re_pts r of None \<Rightarrow> 0 | Some p \<Rightarrow> p"
  show ?thesis
  proof (cases "ef_pts f < ?old")
    case True
    let ?r = "r\<lparr>re_pts := Some (ef_pts f), re_inner := None, re_ctx2 := None\<rparr>"
    obtain res1 r1 w1 where c: "check_or_fail wd ht format ?r (drop_muxer (re_ctx r) (re_inner r) w) = (res1, r1, w1)"
      by (metis prod_cases3)
    have "recorder_inv w0 ?r (drop_muxer (re_ctx r) (re_inner r) w)"
      using drop_muxer_inv [OF assms(1)] by simp
    note inv = check_or_fail_inv [OF this c]
    have fresh: "recorder_inv w0 (r1\<lparr>re_pts := Some (ef_pts f)\<rparr>) w1" if "res1 = Inr ()"
      using inv that by (auto simp: rec_inv_def muxer_ok_def)
    show ?thesis
      using assms(3) False True inv c fresh
      by (auto simp: check_pts_def Let_def split: sum.splits)
  next
    case later: False
    have "recorder_inv w0 (r\<lparr>re_pts := Some (ef_pts f)\<rparr>) w"
      using assms(1) later by (cases "re_pts r") (auto simp: rec_inv_def muxer_ok_def, fastforce+)
    then show ?thesis using assms(2,3) False later by (auto simp: check_pts_def Let_def)
  qed
qed

lemma write_video_inv:
  assumes "rec_inv w0 tx (Some m) (Some (ef_pts f)) w" "write_video f m w = (ok, m', w')"
  shows "rec_inv w0 tx (Some m') (Some (ef_pts f)) w'"
proof (cases "mx_key m \<or> ef_key f")
  case False
  then have "m' = m" "w' = w" using assms(2) by (auto simp: write_video_def)
  then show ?thesis using assms(1) by simp
next
  case key: True
  define x where "x = (f, if mx_webm m then Some (webm_timestamp (ef_pts f)) else None)"
  define m1 where "m1 = (if ef_key f then m\<lparr>mx_key := True\<rparr> else m)"
  have m1: "mx_filename m1 = mx_filename m" "mx_key m1" "mx_webm m1 = mx_webm m" using key by (auto simp: m1_def)
  show ?thesis
  proof (cases "rw_add_ok w f")
    case False
    then have "w' = w" "m' = m1" using assms(2) m1 by (auto simp: write_video_def m1_def Let_def)
    then show ?thesis using assms(1) False m1
      by (auto simp: rec_inv_def muxer_ok_def m1_def split: if_splits)
  next
    case True
    have w': "w' = w\<lparr>rw_files := (rw_files w)(mx_filename m := map_option (\<lambda>fs. fs @ [x]) (rw_files w (mx_filename m)))\<rparr>"
      and m': "m' = m1\<lparr>mx_written := True\<rparr>"
      using assms(2) m1 True by (auto simp: write_video_def m1_def x_def Let_def)
    obtain fs where fs: "rw_files w (mx_filename m) = Some fs" "file_ok w fs"
      "(\<forall>f. ef_key f \<longrightarrow> rw_add_ok w f) \<longrightarrow> (mx_key m \<longleftrightarrow> fs \<noteq> [])" "\<forall>y \<in> set fs. ef_pts (fst y) \<le> ef_pts f"
      using assms(1) by (auto simp: rec_inv_def muxer_ok_def)
    have "file_ok w (fs @ [x])"
      using fs(2-4) key by (cases fs) (auto simp: file_ok_def well_timed_def x_def sorted_append)
    then show ?thesis using assms(1) m1 fs
      by (auto simp: rec_inv_def muxer_ok_def w' m' x_def)
  qed
qed

lemma record_frames_inv:
  "recorder_inv w0 r w \<Longrightarrow> re_inner r \<noteq> None \<Longrightarrow> record_frames fs wd ht format r w = (res, r', w') \<Longrightarrow>
    recorder_inv w0 r' w' \<and> re_ctx r' = re_ctx r \<and> (res = Inr () \<longrightarrow> re_inner r' \<noteq> None)"
proof (induction fs arbitrary: r w)
  case (Cons f fs)
  obtain res1 r1 w1 where c: "check_pts f wd ht format r w = (res1, r1, w1)" by (metis prod_cases3)
  note pts = check_pts_inv [OF Cons.prems(1,2) c]
  show ?case
  proof (cases res1)
    case (Inl e)
    then show ?thesis using Cons.prems(3) c pts by auto
  next
    case (Inr u)
    then obtain m where m: "re_inner r1 = Some m" "re_pts r1 = Some (ef_pts f)" using pts by auto
    obtain ok m' w2 where wv: "write_video f m w1 = (ok, m', w2)" by (metis prod_cases3)
    have "recorder_inv w0 (r1\<lparr>re_inner := Some m'\<rparr>) w2"
      using write_video_inv [OF _ wv, of w0 "rc_tx (re_ctx r1)"] pts m Inr by auto
    moreover have "record_frames fs wd ht format (r1\<lparr>re_inner := Some m'\<rparr>) w2 = (res, r', w')"
      using Cons.prems(3) c Inr m wv by simp
    ultimately show ?thesis using Cons.IH [of "r1\<lparr>re_inner := Some m'\<rparr>" w2] pts by auto
  qed
qed auto

lemma write_frame_inv:
  assumes "recorder_inv w0 r w" "write_frame f wd ht r w = (res, r', w')"
  shows "recorder_inv w0 r' w' \<and> re_ctx r' = re_ctx r"
proof -
  obtain res1 r1 w1 where c: "check_or_fail wd ht (format_of_frame f) r w = (res1, r1, w1)" by (metis prod_cases3)
  note chk = check_or_fail_inv [OF assms(1) c]
  show ?thesis
  proof (cases "re_check_failed r \<or> format_of_frame f = Unknown \<or> (\<exists>e. res1 = Inl e) \<or> frames_of w1 f = None")
    case True
    then show ?thesis using assms c chk
      by (auto simp: write_frame_def Let_def split: if_splits sum.splits option.splits prod.splits)
  next
    case False
    then obtain fs where fs: "res1 = Inr ()" "frames_of w1 f = Some fs" by (cases res1) auto
    obtain res2 r2 w2 where rf: "record_frames fs wd ht (format_of_frame f) r1 w1 = (res2, r2, w2)" by (metis prod_cases3)
    have rec: "recorder_inv w0 r2 w2 \<and> re_ctx r2 = re_ctx r1 \<and> (res2 = Inr () \<longrightarrow> re_inner r2 \<noteq> None)"
      using record_frames_inv [of w0, OF _ _ rf] chk fs(1) by auto
    have sent: "recorder_inv w0 r2 (send_state (re_ctx r2) NewFrame w2)" if "re_inner r2 \<noteq> None"
      using rec that by (auto simp: rec_inv_def send_state_def muxer_ok_def follow_append)
    show ?thesis
      using assms(2) False c fs rf rec chk sent
      by (cases res2) (auto simp: write_frame_def Let_def)
  qed
qed

lemma rec_step_inv:
  "rec_step (r, w) (r', w') \<Longrightarrow> recorder_inv w0 r w \<Longrightarrow> recorder_inv w0 r' w' \<and> re_ctx r' = re_ctx r"
proof (induction "(r, w)" "(r', w')" rule: rec_step.induct)
  case (rec_frame f wd ht res)
  then show ?case using write_frame_inv by blast
qed (auto simp: rec_inv_def muxer_ok_def)

lemma rec_start_inv:
  assumes "rec_start ctx w (r', w')" "rw_sent w = []"
  shows "recorder_inv w r' w' \<and> re_ctx r' = ctx"
  using assms(1) unfolding rec_start_def
proof (induction "(r', w')" arbitrary: r' w' rule: rtranclp_induct)
  case base
  then show ?case using assms(2) by (auto simp: recorder_new_def rec_inv_def)
next
  case (step s)
  then show ?case using rec_step_inv [of _ _ r' w' w] by (cases s) blast
qed

section \<open>Properties\<close>

text \<open>
  C14: the listener is told in order: in every run of a recorder that has a listener, each file is
  announced before its frames, is closed or removed before the next one is announced, and when the
  recorder is dropped no file is left open.
\<close>

theorem recording_states_in_order:
  assumes "rec_start ctx w (r, w')" "rw_sent w = []" "rc_tx ctx"
  shows "follow False (rw_sent w') = Some (re_inner r \<noteq> None) \<and>
    follow False (rw_sent (drop_recorder r w')) = Some False"
proof -
  have inv: "recorder_inv w r w'" "re_ctx r = ctx" using rec_start_inv [OF assms(1,2)] by auto
  moreover have "rec_inv w True None (re_pts r) (drop_recorder r w')"
    using drop_muxer_inv [of w "re_ctx r" "re_inner r" "re_pts r" w'] inv assms(3) by (simp add: drop_recorder_def)
  ultimately show ?thesis using assms(3) by (simp add: rec_inv_def)
qed

definition demo_rec_world :: rec_world where
  "demo_rec_world = \<lparr>rw_now = 0, rw_stamp = show_nat, rw_dir_ok = True, rw_open_ok = (\<lambda>_. True), rw_mux_ok = (\<lambda>_. True),
     rw_add_ok = (\<lambda>_. True), rw_hwcodec = False, rw_files = (\<lambda>_. None), rw_sent = []\<rparr>"

definition demo_rec_ctx :: rec_ctx where
  "demo_rec_ctx = \<lparr>rc_server = True, rc_id = ''7'', rc_dir = ''/r'', rc_display = 0, rc_tx = True\<rparr>"

definition demo_frame :: "bool \<Rightarrow> int \<Rightarrow> enc_frame" where
  "demo_frame key pts = \<lparr>ef_data = [], ef_key = key, ef_pts = pts\<rparr>"

lemmas recorder_defs = write_frame_def check_or_fail_def check_def check_open_def check_pts_def new_muxer_def webm_new_def
  set_filename_def send_state_def drop_muxer_def write_video_def frames_of_def format_of_frame_def

definition demo_after :: "(string + unit) \<times> recorder \<times> rec_world" where
  "demo_after = write_frame (RecVp9s [demo_frame True 5, demo_frame True 3]) 4 2 (recorder_new demo_rec_ctx) demo_rec_world"

lemma demo_after_sent:
  "rw_sent (snd (snd demo_after)) = [NewFile ''/r/incoming_70display0_vp9.webm'', RemoveFile,
     NewFile ''/r/incoming_70display0_vp9.webm'', NewFrame]"
  by (simp add: demo_after_def recorder_defs Let_def demo_frame_def recorder_new_def demo_rec_ctx_def demo_rec_world_def
      path_join_def starts_with_def show_nat.simps digit_char_def format_name_def to_lowercase_def of_char_def char_of_def bit_0)

lemma demo_after_start: "rec_start demo_rec_ctx demo_rec_world (fst (snd demo_after), snd (snd demo_after))"
  unfolding rec_start_def
  by (rule r_into_rtranclp, rule rec_frame [where res = "fst demo_after"]) (simp add: demo_after_def)

theorem recording_states_in_order_witness:
  "follow False (rw_sent (snd (snd demo_after))) = Some (re_inner (fst (snd demo_after)) \<noteq> None) \<and>
    length (rw_sent (snd (snd demo_after))) = 4"
  using recording_states_in_order [OF demo_after_start]
  by (simp add: demo_after_sent demo_rec_world_def demo_rec_ctx_def)



lemmas demo_rec_eval = recorder_defs Let_def demo_frame_def recorder_new_def demo_rec_ctx_def demo_rec_world_def
  path_join_def starts_with_def show_nat.simps digit_char_def format_name_def to_lowercase_def of_char_def char_of_def bit_0


text \<open>
  the conversion of the time stamp wraps: a frame with the time stamp -1 and one with 0 after it go
  to the same file, and the stamp of the second is below that of the first.
\<close>

theorem negative_stamps_go_back:
  "rw_files (snd (snd (write_frame (RecVp9s [demo_frame True (- 1), demo_frame False 0]) 4 2
      (recorder_new demo_rec_ctx) demo_rec_world))) ''/r/incoming_70display0_vp9.webm''
    = Some [(demo_frame True (- 1), Some (- 1000000)), (demo_frame False 0, Some 0)] \<and>
   \<not> playable [(demo_frame True (- 1), Some (- 1000000)), (demo_frame False 0, Some 0)]"
  by (simp add: demo_rec_eval webm_timestamp_def playable_def file_stamps_def map_filter_simps)

text \<open>
  a key frame that the muxer refuses spoils the recording: \<open>write_video\<close> notes the key frame
  before it knows the answer, so that the next frame is written first, though it is not a key frame.
\<close>

theorem refused_key_frame:
  assumes "ef_key f" "\<not> rw_add_ok w f" "\<not> ef_key g" "rw_add_ok w g" "rw_files w (mx_filename m) = Some []"
    and "write_video f m w = (ok, m', w1)" "write_video g m' w1 = (ok', m'', w2)"
  shows "\<exists>t. rw_files w2 (mx_filename m) = Some [(g, t)] \<and> \<not> ef_key g \<and> \<not> playable [(g, t)]"
  using assms by (auto simp: write_video_def Let_def playable_def)

theorem refused_key_frame_witness:
  "\<exists>t. rw_files (snd (snd (write_video (demo_frame False 1)
        \<lparr>mx_webm = True, mx_filename = ''f'', mx_key = True, mx_written = False, mx_start = 0\<rparr>
        (demo_rec_world\<lparr>rw_add_ok := (\<lambda>f. \<not> ef_key f), rw_files := [''f'' \<mapsto> []]\<rparr>)))) ''f'' = Some [(demo_frame False 1, t)]"
proof -
  let ?w = "demo_rec_world\<lparr>rw_add_ok := (\<lambda>f. \<not> ef_key f), rw_files := [''f'' \<mapsto> []]\<rparr>"
  let ?m = "\<lparr>mx_webm = True, mx_filename = ''f'', mx_key = False, mx_written = False, mx_start = 0\<rparr>"
  have 1: "write_video (demo_frame True 0) ?m ?w = (False, ?m\<lparr>mx_key := True\<rparr>, ?w)"
    by (simp add: write_video_def demo_frame_def)
  obtain ok m'' w2 where 2: "write_video (demo_frame False 1) (?m\<lparr>mx_key := True\<rparr>) ?w = (ok, m'', w2)"
    by (metis prod_cases3)
  have "\<exists>t. rw_files w2 (mx_filename ?m) = Some [(demo_frame False 1, t)] \<and> \<not> ef_key (demo_frame False 1)
      \<and> \<not> playable [(demo_frame False 1, t)]"
    by (rule refused_key_frame [OF _ _ _ _ _ 1 2]) (simp_all add: demo_frame_def)
  then show ?thesis using 2 by auto
qed

end
