(* ===== verification/Encoders.thy ===== *)
theory Encoders
  imports Recorder
begin

text \<open>
  The encoders behind \<open>EncoderApi\<close>, in \<open>libs/scrap/src/common\<close>: libvpx (\<open>vpxcodec.rs\<close>), libaom
  (\<open>aom.rs\<close>), the hardware encoders that read memory (\<open>hwcodec.rs\<close>) and those that read textures
  (\<open>vram.rs\<close>), with the input types of \<open>mod.rs\<close>. The libraries are arguments: whether they accept a
  configuration, and what they make of a picture.
\<close>

section \<open>Pictures\<close>

datatype pixfmt = PixBGRA | PixRGBA | PixRGB565LE | PixI420 | PixNV12 | PixI444

fun bpp :: "pixfmt \<Rightarrow> nat" where
  "bpp PixBGRA = 32"
| "bpp PixRGBA = 32"
| "bpp PixRGB565LE = 16"
| "bpp PixI420 = 12"
| "bpp PixNV12 = 12"
| "bpp PixI444 = 24"

definition bytes_per_pixel :: "pixfmt \<Rightarrow> nat" where
  "bytes_per_pixel p = (bpp p + 7) div 8"

text \<open>A texture is its pointer with a rotation.\<close>

datatype encode_input = InYuv bytes | InTexture nat nat

definition input_yuv :: "encode_input \<Rightarrow> string + bytes" where
  "input_yuv i = (case i of InYuv f \<Rightarrow> Inr f | _ \<Rightarrow> Inl ''not pixelfbuffer frame'')"

definition input_texture :: "encode_input \<Rightarrow> string + nat \<times> nat" where
  "input_texture i = (case i of InTexture t r \<Rightarrow> Inr (t, r) | _ \<Rightarrow> Inl ''not texture frame'')"

datatype capture_frame = PixelFrame bytes | TextureFrame nat nat

definition frame_valid :: "capture_frame \<Rightarrow> bool" where
  "frame_valid f = (case f of PixelFrame d \<Rightarrow> d \<noteq> [] | TextureFrame t _ \<Rightarrow> t \<noteq> 0)"

text \<open>\<open>Frame::to\<close>, with the conversion of pixels as an argument.\<close>

definition frame_to :: "(bytes \<Rightarrow> string + bytes) \<Rightarrow> capture_frame \<Rightarrow> string + encode_input" where
  "frame_to convert f =
    (case f of
       PixelFrame d \<Rightarrow> (case convert d of Inl e \<Rightarrow> Inl e | Inr yuv \<Rightarrow> Inr (InYuv yuv))
     | TextureFrame t r \<Rightarrow> Inr (InTexture t r))"

text \<open>\<open>would_block_if_equal\<close>: the error \<open>WouldBlock\<close>, and the new value of \<open>old\<close>.\<close>

definition would_block_if_equal :: "bytes \<Rightarrow> bytes \<Rightarrow> bool \<times> bytes" where
  "would_block_if_equal old b = (if b = old then (True, old) else (False, b))"

datatype image_format = ImgRaw | ImgABGR | ImgARGB

definition get_bytes_per_row :: "u64 \<Rightarrow> image_format \<Rightarrow> u64 \<Rightarrow> u64" where
  "get_bytes_per_row w fmt align =
    (let n = (case fmt of ImgRaw \<Rightarrow> 3 | ImgARGB \<Rightarrow> 4 | ImgABGR \<Rightarrow> 4)
     in (w * n + align - 1) AND NOT (align - 1))"

section \<open>Quality\<close>

datatype quality = Best | Balanced | Low | Custom u32

definition is_custom :: "quality \<Rightarrow> bool" where
  "is_custom q = (case q of Custom _ \<Rightarrow> True | _ \<Rightarrow> False)"

text \<open>
  The interpolation of \<open>calc_q_values\<close> in \<open>f32\<close>: at \<open>b\<close> of 200 on the way from \<open>x\<close> to \<open>y\<close>, rounded and
  taken as \<open>u32\<close>. It is an argument; the result is one of the integers next to the exact value.
\<close>

type_synonym lerp = "nat \<Rightarrow> nat \<Rightarrow> nat \<Rightarrow> nat"

definition lerp_ok :: "lerp \<Rightarrow> bool" where
  "lerp_ok lerp \<longleftrightarrow> (\<forall>b \<le> 200. \<forall>x \<le> 63. \<forall>y \<le> 63.
    200 * lerp b x y \<le> (200 - b) * x + b * y + 100 \<and> (200 - b) * x + b * y \<le> 200 * lerp b x y + 100)"

definition vpx_calc_q_values :: "lerp \<Rightarrow> u32 \<Rightarrow> nat \<times> nat" where
  "vpx_calc_q_values lerp b = (let b = min (unat b) 200 in (lerp b 36 0, lerp b 56 37))"

definition vpx_convert_quality :: "lerp \<Rightarrow> quality \<Rightarrow> nat \<times> nat \<times> u32" where
  "vpx_convert_quality lerp q =
    (case q of
       Best \<Rightarrow> (6, 45, 150)
     | Balanced \<Rightarrow> (12, 56, 100 * 2 div 3)
     | Low \<Rightarrow> (18, 56, 50)
     | Custom b \<Rightarrow> let (q_min, q_max) = vpx_calc_q_values lerp b in (q_min, q_max, b))"

definition aom_calc_q_values :: "lerp \<Rightarrow> u32 \<Rightarrow> nat \<times> nat" where
  "aom_calc_q_values lerp b = (let b = min (unat b) 200 in (lerp b 24 5, lerp b 45 25))"

definition aom_convert_quality :: "lerp \<Rightarrow> quality \<Rightarrow> nat \<times> nat \<times> u32" where
  "aom_convert_quality lerp q =
    (case q of
       Best \<Rightarrow> (12, 25, 100)
     | Balanced \<Rightarrow> (12, 35, 100 * 2 div 3)
     | Low \<Rightarrow> (18, 45, 50)
     | Custom b \<Rightarrow> let (q_min, q_max) = aom_calc_q_values lerp b in (q_min, q_max, b))"

definition quantizers_ok :: "nat \<Rightarrow> nat \<Rightarrow> bool" where
  "quantizers_ok q_min q_max \<longleftrightarrow> q_min > 0 \<and> q_min < q_max \<and> q_max < 64"

section \<open>The software encoders\<close>

datatype kf_mode = KfDisabled | KfWithin nat

text \<open>What is set of the configurations of libvpx and libaom, besides constants.\<close>

record enc_cfg =
  ec_w :: u32
  ec_h :: u32
  ec_threads :: nat
  ec_kf :: kf_mode
  ec_min_quantizer :: nat
  ec_max_quantizer :: nat
  ec_bitrate :: u32
  ec_profile :: nat

record vpx_config =
  vc_width :: u32
  vc_height :: u32
  vc_quality :: quality
  vc_codec :: vpx_id
  vc_keyframe_interval :: "nat option"

record aom_config =
  ac_width :: u32
  ac_height :: u32
  ac_quality :: quality
  ac_keyframe_interval :: "nat option"

definition default_qp_max :: nat where "default_qp_max = 56"
definition default_qp_min :: nat where "default_qp_min = 12"

definition kf_of :: "nat option \<Rightarrow> kf_mode" where
  "kf_of k = (case k of Some n \<Rightarrow> KfWithin n | None \<Rightarrow> KfDisabled)"

definition vpx_enc_cfg :: "u16 option \<Rightarrow> lerp \<Rightarrow> nat \<Rightarrow> vpx_config \<Rightarrow> bool \<Rightarrow> enc_cfg" where
  "vpx_enc_cfg fq lerp threads config i444 =
    (let (q_min, q_max, b) = vpx_convert_quality lerp (vc_quality config);
         base = base_bitrate fq (vc_width config) (vc_height config);
         bitrate = base * b div 100
     in \<lparr>ec_w = vc_width config, ec_h = vc_height config, ec_threads = threads,
         ec_kf = kf_of (vc_keyframe_interval config),
         ec_min_quantizer = (if quantizers_ok q_min q_max then q_min else default_qp_min),
         ec_max_quantizer = (if quantizers_ok q_min q_max then q_max else default_qp_max),
         ec_bitrate = (if bitrate > 0 then bitrate else base),
         ec_profile = (if i444 \<and> vc_codec config = VpxVP9 then 1 else 0)\<rparr>)"

definition aom_enc_cfg :: "u16 option \<Rightarrow> lerp \<Rightarrow> nat \<Rightarrow> aom_config \<Rightarrow> bool \<Rightarrow> enc_cfg" where
  "aom_enc_cfg fq lerp threads config i444 =
    (let (q_min, q_max, b) = aom_convert_quality lerp (ac_quality config);
         base = base_bitrate fq (ac_width config) (ac_height config);
         bitrate = base * b div 100
     in \<lparr>ec_w = ac_width config, ec_h = ac_height config, ec_threads = threads,
         ec_kf = kf_of (ac_keyframe_interval config),
         ec_min_quantizer = (if quantizers_ok q_min q_max then q_min else default_qp_min),
         ec_max_quantizer = (if quantizers_ok q_min q_max then q_max else default_qp_max),
         ec_bitrate = (if bitrate > 0 then bitrate else base),
         ec_profile = (if i444 then 1 else 0)\<rparr>)"

definition get_cpu_speed :: "u32 \<Rightarrow> u32 \<Rightarrow> nat" where
  "get_cpu_speed width height =
    (if width * height \<le> 320 * 180 then 8 else if width * height \<le> 640 * 360 then 9 else 10)"

datatype superblock_size = Superblock64 | SuperblockDynamic

definition get_super_block_size :: "u32 \<Rightarrow> u32 \<Rightarrow> nat \<Rightarrow> superblock_size" where
  "get_super_block_size width height threads =
    (let resolution = width * height in
     if 4 \<le> threads \<and> 960 * 540 \<le> resolution \<and> resolution < 1920 * 1080 then Superblock64
     else SuperblockDynamic)"

text \<open>What the libraries do: whether they accept a configuration (the error if not), the packets for
  a picture and for a flush; a packet is a frame with its flags or something else. \<open>sl_fix\<close> is the
  correction of the quality on Android.\<close>

datatype cx_packet = FramePacket bytes nat int | OtherPacket

record soft_lib =
  sl_init :: "enc_cfg \<Rightarrow> string option"
  sl_config_set :: "enc_cfg \<Rightarrow> string option"
  sl_encode :: "int \<Rightarrow> bytes \<Rightarrow> string + cx_packet list"
  sl_flush :: "string + cx_packet list"
  sl_fix :: "u16 option"

text \<open>The iterators \<open>EncodeFrames\<close>: the frames among the packets; the flag of a key frame is bit 0.\<close>

fun encode_frames :: "cx_packet list \<Rightarrow> enc_frame list" where
  "encode_frames [] = []"
| "encode_frames (FramePacket d flags pts # ps) =
    \<lparr>ef_data = d, ef_key = odd flags, ef_pts = pts\<rparr> # encode_frames ps"
| "encode_frames (OtherPacket # ps) = encode_frames ps"

record soft_encoder =
  so_cfg :: enc_cfg
  so_width :: nat
  so_height :: nat
  so_i444 :: bool

definition vpx_new :: "soft_lib \<Rightarrow> lerp \<Rightarrow> nat \<Rightarrow> vpx_config \<Rightarrow> bool \<Rightarrow> string + soft_encoder" where
  "vpx_new lib lerp threads config i444 =
    (let c = vpx_enc_cfg (sl_fix lib) lerp threads config i444 in
     case sl_init lib c of
       Some e \<Rightarrow> Inl e
     | None \<Rightarrow> Inr \<lparr>so_cfg = c, so_width = unat (vc_width config), so_height = unat (vc_height config),
                    so_i444 = i444\<rparr>)"

definition aom_new :: "soft_lib \<Rightarrow> lerp \<Rightarrow> nat \<Rightarrow> aom_config \<Rightarrow> bool \<Rightarrow> string + soft_encoder" where
  "aom_new lib lerp threads config i444 =
    (let c = aom_enc_cfg (sl_fix lib) lerp threads config i444 in
     case sl_init lib c of
       Some e \<Rightarrow> Inl e
     | None \<Rightarrow> Inr \<lparr>so_cfg = c, so_width = unat (ac_width config), so_height = unat (ac_height config),
                    so_i444 = i444\<rparr>)"

text \<open>\<open>set_quality\<close> of both, whose conversion of the quality is an argument.\<close>

definition soft_requality :: "u16 option \<Rightarrow> nat \<times> nat \<times> u32 \<Rightarrow> soft_encoder \<Rightarrow> enc_cfg" where
  "soft_requality fq conv e =
    (let (q_min, q_max, b) = conv; c = so_cfg e;
         c = (if quantizers_ok q_min q_max then c\<lparr>ec_min_quantizer := q_min, ec_max_quantizer := q_max\<rparr> else c);
         bitrate = base_bitrate fq (of_nat (so_width e)) (of_nat (so_height e)) * b div 100
     in if bitrate > 0 then c\<lparr>ec_bitrate := bitrate\<rparr> else c)"

definition soft_set_quality :: "soft_lib \<Rightarrow> nat \<times> nat \<times> u32 \<Rightarrow> soft_encoder \<Rightarrow> string option \<times> soft_encoder" where
  "soft_set_quality lib conv e =
    (let c = soft_requality (sl_fix lib) conv e in
     case sl_config_set lib c of
       Some err \<Rightarrow> (Some err, e)
     | None \<Rightarrow> (None, e\<lparr>so_cfg := c\<rparr>))"

definition vpx_set_quality :: "soft_lib \<Rightarrow> lerp \<Rightarrow> quality \<Rightarrow> soft_encoder \<Rightarrow> string option \<times> soft_encoder" where
  "vpx_set_quality lib lerp q e = soft_set_quality lib (vpx_convert_quality lerp q) e"

definition aom_set_quality :: "soft_lib \<Rightarrow> lerp \<Rightarrow> quality \<Rightarrow> soft_encoder \<Rightarrow> string option \<times> soft_encoder" where
  "aom_set_quality lib lerp q e = soft_set_quality lib (aom_convert_quality lerp q) e"

definition soft_bitrate :: "soft_encoder \<Rightarrow> u32" where
  "soft_bitrate e = ec_bitrate (so_cfg e)"

definition soft_encode :: "soft_lib \<Rightarrow> soft_encoder \<Rightarrow> int \<Rightarrow> bytes \<Rightarrow> string + enc_frame list" where
  "soft_encode lib e pts data =
    (if length data < so_width e * so_height e * (if so_i444 e then 24 else 12) div 8
     then Inl ''len not enough''
     else map_sum id encode_frames (sl_encode lib pts data))"

definition vpx_encode_to_message ::
  "soft_lib \<Rightarrow> vpx_id \<Rightarrow> soft_encoder \<Rightarrow> encode_input \<Rightarrow> int \<Rightarrow> string + rec_frame" where
  "vpx_encode_to_message lib codec e input ms =
    (case input_yuv input of
       Inl err \<Rightarrow> Inl err
     | Inr yuv \<Rightarrow>
         (case soft_encode lib e ms yuv of
            Inl err \<Rightarrow> Inl ''Failed to encode''
          | Inr frames \<Rightarrow>
              (case map_sum id encode_frames (sl_flush lib) of
                 Inl err \<Rightarrow> Inl ''Failed to flush''
               | Inr flushed \<Rightarrow>
                   let frames = frames @ flushed in
                   if frames = [] then Inl ''no valid frame''
                   else Inr (case codec of VpxVP8 \<Rightarrow> RecVp8s frames | VpxVP9 \<Rightarrow> RecVp9s frames))))"

definition aom_encode_to_message :: "soft_lib \<Rightarrow> soft_encoder \<Rightarrow> encode_input \<Rightarrow> int \<Rightarrow> string + rec_frame" where
  "aom_encode_to_message lib e input ms =
    (case input_yuv input of
       Inl err \<Rightarrow> Inl err
     | Inr yuv \<Rightarrow>
         (case soft_encode lib e ms yuv of
            Inl err \<Rightarrow> Inl ''Failed to encode''
          | Inr frames \<Rightarrow> if frames = [] then Inl ''no valid frame'' else Inr (RecAv1s frames)))"

end
