(* ===== verification/HwEncoders.thy ===== *)
theory HwEncoders
  imports Encoders
begin

text \<open>
  The hardware encoders of \<open>libs/scrap/src/common/hwcodec.rs\<close> and \<open>vram.rs\<close>, the configuration of what the
  hardware can do, and the four encoders behind \<open>EncoderApi\<close>. The crate \<open>hwcodec\<close> (what it finds, and
  which it prefers) is an argument, as are the displays and the codecs of an Android device.
\<close>

section \<open>What the hardware can do\<close>

record codec_info =
  ci_name :: string
  ci_mc_name :: "string option"
  ci_format :: data_format

datatype driver = DrvFFMPEG | DrvMFX | DrvOther

record feature =
  fc_driver :: driver
  fc_luid :: int
  fc_format :: data_format

record hw_config =
  hc_signature :: u64
  hc_ram_encode :: "codec_info list"
  hc_ram_decode :: "codec_info list"
  hc_vram_encode :: "feature list"
  hc_vram_decode :: "feature list"

definition default_hw_config :: hw_config where
  "default_hw_config = \<lparr>hc_signature = 0, hc_ram_encode = [], hc_ram_decode = [], hc_vram_encode = [], hc_vram_decode = []\<rparr>"

text \<open>What an Android device says of its codecs; there is no such information elsewhere.\<close>

record android_codec =
  ad_name :: string
  ad_is_encoder :: bool
  ad_hw :: "bool option"
  ad_mime :: string
  ad_nv12 :: bool
  ad_min_bitrate :: u32
  ad_max_bitrate :: u32
  ad_max_width :: nat
  ad_max_height :: nat

record android_infos =
  ai_w :: nat
  ai_h :: nat
  ai_codecs :: "android_codec list"

definition get_mime_type :: "data_format \<Rightarrow> string" where
  "get_mime_type f = (case f of DfH264 \<Rightarrow> ''video/avc'' | DfH265 \<Rightarrow> ''video/hevc'' | DfOther \<Rightarrow> [])"

definition android_usable :: "data_format \<Rightarrow> android_codec \<Rightarrow> bool" where
  "android_usable f c \<longleftrightarrow> ad_is_encoder c \<and> ad_mime c = get_mime_type f \<and> ad_nv12 c \<and> ad_hw c = Some True"

definition android_area :: "android_codec \<Rightarrow> nat" where
  "android_area c = ad_max_width c * ad_max_height c"

text \<open>The largest codec; the first of those that are equally large, and none of an area of zero.\<close>

fun android_largest :: "nat \<Rightarrow> android_codec option \<Rightarrow> android_codec list \<Rightarrow> android_codec option" where
  "android_largest max_area best [] = best"
| "android_largest max_area best (c # cs) =
    (if android_area c > max_area then android_largest (android_area c) (Some c) cs
     else android_largest max_area best cs)"

definition android_best :: "nat \<Rightarrow> android_codec list \<Rightarrow> android_codec option" where
  "android_best screen_wh codecs =
    (case List.find (\<lambda>c. screen_wh \<le> ad_max_width c \<and> screen_wh \<le> ad_max_height c) codecs of
       Some c \<Rightarrow> Some c
     | None \<Rightarrow> android_largest 0 None codecs)"

definition android_encoder :: "android_infos \<Rightarrow> string \<times> data_format \<Rightarrow> codec_info list" where
  "android_encoder info t =
    (case t of (name_prefix, f) \<Rightarrow>
       (case android_best (max (ai_w info) (ai_h info)) (filter (android_usable f) (ai_codecs info)) of
          None \<Rightarrow> []
        | Some c \<Rightarrow> [\<lparr>ci_name = name_prefix @ ''_mediacodec'', ci_mc_name = Some (ad_name c), ci_format = f\<rparr>]))"

text \<open>\<open>HwCodecConfig::get\<close> on Android.\<close>

definition android_config :: "android_infos option \<Rightarrow> hw_config" where
  "android_config info =
    default_hw_config\<lparr>hc_ram_encode :=
      (case info of
         None \<Rightarrow> []
       | Some info \<Rightarrow> concat (map (android_encoder info) [(''h264'', DfH264), (''hevc'', DfH265)]))\<rparr>"

text \<open>
  The globals \<open>CONFIG\<close>, \<open>CONFIG_SET_BY_IPC\<close>, \<open>ENOCDE_NOT_USE\<close> and \<open>FALLBACK_GDI_DISPLAYS\<close>, and the text in
  the file of the suffix \<open>_hwcodec\<close>.
\<close>

record hw_state =
  hs_config :: "hw_config option"
  hs_set_by_ipc :: bool
  hs_file :: string
  hs_not_use :: "nat \<rightharpoonup> bool"
  hs_fallback_gdi :: "nat list"

record hw_env =
  hv_linux :: bool
  hv_vram :: bool
  hv_from_json :: "string \<Rightarrow> hw_config option"
  hv_to_json :: "hw_config \<Rightarrow> string"
  hv_gpu_signature :: u64
  hv_disk_ok :: bool
  hv_prioritized :: "codec_info list \<Rightarrow> data_format \<Rightarrow> codec_info option"
  hv_soft :: "data_format \<Rightarrow> codec_info option"
  hv_display_luids :: "int option list option"

definition or_default_config :: "hw_config option \<Rightarrow> hw_config" where
  "or_default_config c = (case c of Some c \<Rightarrow> c | None \<Rightarrow> default_hw_config)"

definition hw_set :: "hw_env \<Rightarrow> string \<Rightarrow> hw_state \<Rightarrow> hw_state" where
  "hw_set E json st =
    (let config = or_default_config (hv_from_json E json);
         st = (if \<not> hv_linux E \<and> hv_disk_ok E then st\<lparr>hs_file := hv_to_json E config\<rparr> else st)
     in st\<lparr>hs_config := Some config, hs_set_by_ipc := True\<rparr>)"

definition hw_get :: "hw_env \<Rightarrow> hw_state \<Rightarrow> hw_config \<times> hw_state" where
  "hw_get E st =
    (if hv_linux E then (or_default_config (hs_config st), st)
     else
       case hs_config st of
         Some c \<Rightarrow> (c, st)
       | None \<Rightarrow>
           let c = or_default_config (hv_from_json E (hs_file st)) in
           if hc_signature c = hv_gpu_signature E then (c, st\<lparr>hs_config := Some c\<rparr>)
           else (default_hw_config, st))"

text \<open>
  \<open>check_available_hwcodec\<close>: the checking process finds encoders and decoders, with and without
  textures, and sends them as text.
\<close>

definition check_available_hwcodec ::
  "hw_env \<Rightarrow> codec_info list \<Rightarrow> codec_info list \<Rightarrow> feature list \<Rightarrow> feature list \<Rightarrow> string" where
  "check_available_hwcodec E encoders decoders vram_encoders vram_decoders =
    hv_to_json E \<lparr>hc_signature = hv_gpu_signature E, hc_ram_encode = encoders, hc_ram_decode = decoders,
      hc_vram_encode = (if hv_vram E then vram_encoders else []),
      hc_vram_decode = (if hv_vram E then vram_decoders else [])\<rparr>"

definition get_set_value :: "hw_state \<Rightarrow> hw_config option" where
  "get_set_value st = (if hs_set_by_ipc st then hs_config st else None)"

definition already_set :: "hw_state \<Rightarrow> bool" where
  "already_set st = hs_set_by_ipc st"

text \<open>\<open>clear\<close>, without the negotiation that follows it.\<close>

definition clear_config :: "hw_env \<Rightarrow> bool \<Rightarrow> bool \<Rightarrow> hw_config \<Rightarrow> hw_config" where
  "clear_config E vram encode c =
    (if vram then
       (if hv_vram E then (if encode then c\<lparr>hc_vram_encode := []\<rparr> else c\<lparr>hc_vram_decode := []\<rparr>) else c)
     else (if encode then c\<lparr>hc_ram_encode := []\<rparr> else c\<lparr>hc_ram_decode := []\<rparr>))"

definition hw_clear :: "hw_env \<Rightarrow> bool \<Rightarrow> bool \<Rightarrow> hw_state \<Rightarrow> hw_state" where
  "hw_clear E vram encode st = st\<lparr>hs_config := map_option (clear_config E vram encode) (hs_config st)\<rparr>"

definition data_format_of :: "codec_format \<Rightarrow> data_format option" where
  "data_format_of f = (case f of H264 \<Rightarrow> Some DfH264 | H265 \<Rightarrow> Some DfH265 | _ \<Rightarrow> None)"

definition ram_encoder_try_get :: "hw_env \<Rightarrow> codec_format \<Rightarrow> hw_state \<Rightarrow> codec_info option \<times> hw_state" where
  "ram_encoder_try_get E format st =
    (let (c, st) = hw_get E st;
         best = hv_prioritized E (hc_ram_encode c)
     in (case data_format_of format of Some f \<Rightarrow> best f | None \<Rightarrow> None, st))"

definition ram_decoder_try_get :: "hw_env \<Rightarrow> bool \<Rightarrow> codec_format \<Rightarrow> hw_state \<Rightarrow> codec_info option \<times> hw_state" where
  "ram_decoder_try_get E enable_hwcodec format st =
    (let info = (case data_format_of format of Some f \<Rightarrow> hv_soft E f | None \<Rightarrow> None) in
     if enable_hwcodec then
       (let (c, st) = hw_get E st;
            best = (case data_format_of format of Some f \<Rightarrow> hv_prioritized E (hc_ram_decode c) f | None \<Rightarrow> None)
        in (case best of Some v \<Rightarrow> Some v | None \<Rightarrow> info, st))
     else (info, st))"

text \<open>\<open>HwRamDecoder::new\<close>: \<open>made\<close> says whether the library can make the decoder.\<close>

definition ram_decoder_new ::
  "hw_env \<Rightarrow> bool \<Rightarrow> (codec_info \<Rightarrow> bool) \<Rightarrow> codec_format \<Rightarrow> hw_state \<Rightarrow> (string + codec_info) \<times> hw_state" where
  "ram_decoder_new E enable_hwcodec made format st =
    (case ram_decoder_try_get E enable_hwcodec format st of
       (None, st) \<Rightarrow> (Inl ''unsupported format'', st)
     | (Some info, st) \<Rightarrow>
         if made info then (Inr info, st)
         else (Inl ''Failed to create decoder'', hw_clear E False False st))"

section \<open>Textures\<close>

definition set_not_use :: "nat \<Rightarrow> bool \<Rightarrow> hw_state \<Rightarrow> hw_state" where
  "set_not_use display not_use st = st\<lparr>hs_not_use := (hs_not_use st)(display \<mapsto> not_use)\<rparr>"

definition set_fallback_gdi :: "nat \<Rightarrow> bool \<Rightarrow> hw_state \<Rightarrow> hw_state" where
  "set_fallback_gdi display fallback st =
    (if fallback then st\<lparr>hs_fallback_gdi := List.insert display (hs_fallback_gdi st)\<rparr>
     else st\<lparr>hs_fallback_gdi := removeAll display (hs_fallback_gdi st)\<rparr>)"

text \<open>\<open>displays\<close> are those that the map of unused displays has entries for.\<close>

definition vram_encoder_available ::
  "hw_env \<Rightarrow> nat list \<Rightarrow> codec_format \<Rightarrow> hw_state \<Rightarrow> feature list \<times> hw_state" where
  "vram_encoder_available E displays format st =
    (if hs_fallback_gdi st \<noteq> [] then ([], st)
     else if list_ex (\<lambda>d. hs_not_use st d = Some True) displays then ([], st)
     else
       case data_format_of format of
         None \<Rightarrow> ([], st)
       | Some data_format \<Rightarrow>
           let (c, st) = hw_get E st;
               v = filter (\<lambda>c. fc_format c = data_format) (hc_vram_encode c);
               (fallback, st) = ram_encoder_try_get E format st
           in if fallback \<noteq> None then (v, st)
              else
                (case hv_display_luids E of
                   None \<Rightarrow> ([], st)
                 | Some luids \<Rightarrow>
                     if luids = [] then ([], st)
                     else if list_all (\<lambda>luid. list_ex (\<lambda>f. Some (fc_luid f) = luid) v) luids then (v, st)
                     else ([], st)))"

definition prefer_ffmpeg :: "feature list \<Rightarrow> feature option" where
  "prefer_ffmpeg v =
    (case v of
       [] \<Rightarrow> None
     | f # _ \<Rightarrow> (case List.find (\<lambda>c. fc_driver c = DrvFFMPEG) v of Some c \<Rightarrow> Some c | None \<Rightarrow> Some f))"

definition vram_encoder_try_get ::
  "hw_env \<Rightarrow> nat list \<Rightarrow> int \<Rightarrow> codec_format \<Rightarrow> hw_state \<Rightarrow> feature option \<times> hw_state" where
  "vram_encoder_try_get E displays luid format st =
    (let (v, st) = vram_encoder_available E displays format st
     in (prefer_ffmpeg (filter (\<lambda>e. fc_luid e = luid) v), st))"

definition vram_decoder_available :: "hw_env \<Rightarrow> codec_format \<Rightarrow> int option \<Rightarrow> hw_state \<Rightarrow> feature list \<times> hw_state" where
  "vram_decoder_available E format luid st =
    (let luid = (case luid of Some l \<Rightarrow> l | None \<Rightarrow> 0) in
     case data_format_of format of
       None \<Rightarrow> ([], st)
     | Some data_format \<Rightarrow>
         let (c, st) = hw_get E st
         in (filter (\<lambda>c. fc_format c = data_format \<and> fc_luid c = luid \<and> luid \<noteq> 0) (hc_vram_decode c), st))"

definition vram_decoder_try_get :: "hw_env \<Rightarrow> codec_format \<Rightarrow> int option \<Rightarrow> hw_state \<Rightarrow> feature option \<times> hw_state" where
  "vram_decoder_try_get E format luid st =
    (let (v, st) = vram_decoder_available E format luid st in (prefer_ffmpeg v, st))"

definition possible_available_without_check :: "hw_env \<Rightarrow> bool \<Rightarrow> hw_state \<Rightarrow> (bool \<times> bool) \<times> hw_state" where
  "possible_available_without_check E enable_vram st =
    (if \<not> enable_vram then ((False, False), st)
     else
       let (c, st) = hw_get E st; v = hc_vram_decode c
       in ((list_ex (\<lambda>d. fc_format d = DfH264) v, list_ex (\<lambda>d. fc_format d = DfH265) v), st))"

definition vram_decoder_new ::
  "hw_env \<Rightarrow> (feature \<Rightarrow> bool) \<Rightarrow> codec_format \<Rightarrow> int option \<Rightarrow> hw_state \<Rightarrow> (string + feature) \<times> hw_state" where
  "vram_decoder_new E made format luid st =
    (case vram_decoder_try_get E format luid st of
       (None, st) \<Rightarrow> (Inl ''Failed to get decode context'', st)
     | (Some ctx, st) \<Rightarrow>
         if made ctx then (Inr ctx, st)
         else (Inl ''Failed to create decoder'', hw_clear E True False st))"

section \<open>The encoders that read memory\<close>

record ram_config =
  rm_name :: string
  rm_mc_name :: "string option"
  rm_width :: u32
  rm_height :: u32
  rm_quality :: quality
  rm_keyframe_interval :: "nat option"

text \<open>The encoder: \<open>re_actual\<close> is the bitrate that the library has, \<open>re_bitrate\<close> the field.\<close>

record ram_encoder =
  rm_config :: ram_config
  rm_bitrate :: u32
  rm_actual :: u32
  rm_format :: data_format
  rm_gop :: nat

definition ram_convert_quality :: "string \<Rightarrow> quality \<Rightarrow> u32" where
  "ram_convert_quality name q =
    (let quality = (case q of Best \<Rightarrow> 150 | Balanced \<Rightarrow> 100 | Low \<Rightarrow> 50 | Custom b \<Rightarrow> b);
         factor = (if contains_str ''mediacodec'' name then 5 else 1)
     in quality * factor)"

definition check_bitrate_range :: "android_codec list option \<Rightarrow> ram_config \<Rightarrow> u32 \<Rightarrow> u32" where
  "check_bitrate_range info config bitrate =
    (if contains_str ''mediacodec'' (rm_name config) then
       (case info of
          None \<Rightarrow> bitrate
        | Some codecs \<Rightarrow>
            (case List.find (\<lambda>c. Some (ad_name c) = rm_mc_name config \<and> ad_is_encoder c) codecs of
               None \<Rightarrow> bitrate
             | Some codec \<Rightarrow>
                 if ad_max_bitrate codec > ad_min_bitrate codec then
                   (if bitrate > ad_max_bitrate codec then ad_max_bitrate codec
                    else if bitrate < ad_min_bitrate codec then ad_min_bitrate codec
                    else bitrate)
                 else bitrate))
     else bitrate)"

definition default_gop :: nat where "default_gop = 2147483647"

text \<open>\<open>lib_format\<close> and \<open>lib_new\<close>: \<open>Encoder::format_from_name\<close> and whether an encoder can be made.\<close>

definition ram_encoder_new ::
  "u16 option \<Rightarrow> android_codec list option \<Rightarrow> (string \<Rightarrow> data_format option) \<Rightarrow> (ram_config \<Rightarrow> u32 \<Rightarrow> bool) \<Rightarrow> ram_config
    \<Rightarrow> string + ram_encoder" where
  "ram_encoder_new fq info lib_format lib_new config =
    (let b = ram_convert_quality (rm_name config) (rm_quality config);
         base = base_bitrate fq (rm_width config) (rm_height config);
         bitrate = base * b div 100;
         bitrate = (if bitrate \<le> 0 then base else bitrate);
         bitrate = check_bitrate_range info config bitrate;
         gop = (case rm_keyframe_interval config of Some k \<Rightarrow> k | None \<Rightarrow> default_gop)
     in case lib_format (rm_name config) of
          None \<Rightarrow> Inl (''failed to get format from name:'' @ rm_name config)
        | Some format \<Rightarrow>
            if lib_new config bitrate
            then Inr \<lparr>rm_config = config, rm_bitrate = bitrate, rm_actual = bitrate, rm_format = format, rm_gop = gop\<rparr>
            else Inl ''Failed to create encoder'')"

text \<open>\<open>set_quality\<close>; \<open>ok\<close> says whether \<open>set_bitrate\<close> of the library succeeds.\<close>

definition ram_set_quality :: "u16 option \<Rightarrow> android_codec list option \<Rightarrow> bool \<Rightarrow> quality \<Rightarrow> ram_encoder \<Rightarrow> ram_encoder" where
  "ram_set_quality fq info ok q e =
    (let config = rm_config e;
         b = ram_convert_quality (rm_name config) q;
         bitrate = base_bitrate fq (rm_width config) (rm_height config) * b div 100;
         e = (if bitrate > 0 then
                let bitrate = check_bitrate_range info config bitrate
                in e\<lparr>rm_actual := (if ok then bitrate else rm_actual e), rm_bitrate := bitrate\<rparr>
              else e)
     in e\<lparr>rm_config := config\<lparr>rm_quality := q\<rparr>\<rparr>)"

definition free_of :: "string list \<Rightarrow> string \<Rightarrow> bool" where
  "free_of parts name \<longleftrightarrow> list_all (\<lambda>x. \<not> contains_str x name) parts"

definition ram_support_abr :: "ram_encoder \<Rightarrow> bool" where
  "ram_support_abr e = free_of [''qsv'', ''vaapi''] (rm_name (rm_config e))"

definition ram_support_changing_quality :: "ram_encoder \<Rightarrow> bool" where
  "ram_support_changing_quality e = free_of [''vaapi''] (rm_name (rm_config e))"

definition ram_latency_free :: "ram_encoder \<Rightarrow> bool" where
  "ram_latency_free e = free_of [''mediacodec'', ''videotoolbox''] (rm_name (rm_config e))"

text \<open>A failing \<open>encode\<close> of the library gives no frames.\<close>

definition ram_encode_to_message ::
  "(bytes \<Rightarrow> int \<Rightarrow> string + enc_frame list) \<Rightarrow> ram_encoder \<Rightarrow> encode_input \<Rightarrow> int \<Rightarrow> string + rec_frame" where
  "ram_encode_to_message lib e input ms =
    (case input_yuv input of
       Inl err \<Rightarrow> Inl err
     | Inr yuv \<Rightarrow>
         let frames = (case lib yuv ms of Inr fs \<Rightarrow> fs | Inl _ \<Rightarrow> []) in
         if frames = [] then Inl ''no valid frame''
         else
           case rm_format e of
             DfH264 \<Rightarrow> Inr (RecH264s frames)
           | DfH265 \<Rightarrow> Inr (RecH265s frames)
           | DfOther \<Rightarrow> Inl ''unsupported format'')"

section \<open>The encoders that read textures\<close>

record vram_config =
  vr_luid :: int
  vr_intel :: bool
  vr_width :: u32
  vr_height :: u32
  vr_quality :: quality
  vr_feature :: feature
  vr_keyframe_interval :: "nat option"

record vram_encoder =
  vr_config :: vram_config
  vr_bitrate :: u32
  vr_actual :: u32
  vr_last_frame_len :: nat
  vr_same_bad_len_counter :: nat

definition vram_convert_quality :: "quality \<Rightarrow> feature \<Rightarrow> u32" where
  "vram_convert_quality q f =
    (let mfx = (fc_driver f = DrvMFX \<and> fc_format f = DfH264) in
     case q of
       Best \<Rightarrow> if mfx then 200 else 150
     | Balanced \<Rightarrow> if mfx then 150 else 100
     | Low \<Rightarrow> if mfx then 75 else 50
     | Custom b \<Rightarrow> b)"

definition vram_encoder_new :: "(vram_config \<Rightarrow> u32 \<Rightarrow> bool) \<Rightarrow> vram_config \<Rightarrow> string + vram_encoder" where
  "vram_encoder_new lib_new config =
    (let b = vram_convert_quality (vr_quality config) (vr_feature config);
         base = base_bitrate None (vr_width config) (vr_height config);
         bitrate = base * b div 100;
         bitrate = (if bitrate \<le> 0 then base else bitrate)
     in if lib_new config bitrate
        then Inr \<lparr>vr_config = config, vr_bitrate = bitrate, vr_actual = bitrate, vr_last_frame_len = 0,
                  vr_same_bad_len_counter = 0\<rparr>
        else Inl ''Failed to create encoder'')"

definition vram_set_quality :: "bool \<Rightarrow> quality \<Rightarrow> vram_encoder \<Rightarrow> vram_encoder" where
  "vram_set_quality ok q e =
    (let c = vr_config e;
         b = vram_convert_quality q (vr_feature c);
         bitrate = base_bitrate None (vr_width c) (vr_height c) * b div 100
     in if bitrate > 0 \<and> ok then e\<lparr>vr_actual := bitrate, vr_bitrate := bitrate\<rparr> else e)"

definition vram_support_abr :: "vram_encoder \<Rightarrow> bool" where
  "vram_support_abr e = (\<not> vr_intel (vr_config e))"

definition min_bad_len :: nat where "min_bad_len = 100"
definition max_bad_counter :: nat where "max_bad_counter = 30"

text \<open>What \<open>encode_to_message\<close> does with the length of a frame: the error to switch, and the encoder.\<close>

definition count_bad_len :: "nat \<Rightarrow> vram_encoder \<Rightarrow> string option \<times> vram_encoder" where
  "count_bad_len this_frame_len e =
    (if this_frame_len < min_bad_len \<and> this_frame_len = vr_last_frame_len e then
       (let e = e\<lparr>vr_same_bad_len_counter := Suc (vr_same_bad_len_counter e)\<rparr> in
        if max_bad_counter \<le> vr_same_bad_len_counter e then (Some ''ENCODE_NEED_SWITCH'', e)
        else (None, e\<lparr>vr_last_frame_len := this_frame_len\<rparr>))
     else (None, e\<lparr>vr_same_bad_len_counter := 0, vr_last_frame_len := this_frame_len\<rparr>))"

definition vram_encode_to_message ::
  "(nat \<Rightarrow> int \<Rightarrow> string + enc_frame list) \<Rightarrow> encode_input \<Rightarrow> int \<Rightarrow> vram_encoder \<Rightarrow> (string + rec_frame) \<times> vram_encoder" where
  "vram_encode_to_message lib input ms e =
    (case input_texture input of
       Inl err \<Rightarrow> (Inl err, e)
     | Inr (texture, rotation) \<Rightarrow>
         if rotation \<noteq> 0 then (Inl ''rotation not supported'', e)
         else
           let frames = (case lib texture ms of Inr fs \<Rightarrow> fs | Inl _ \<Rightarrow> []) in
           (case frames of
              [] \<Rightarrow> (Inl ''no valid frame'', e)
            | f # _ \<Rightarrow>
                (case count_bad_len (length (ef_data f)) e of
                   (Some err, e) \<Rightarrow> (Inl err, e)
                 | (None, e) \<Rightarrow>
                     (case fc_format (vr_feature (vr_config e)) of
                        DfH264 \<Rightarrow> (Inr (RecH264s frames), e)
                      | DfH265 \<Rightarrow> (Inr (RecH265s frames), e)
                      | DfOther \<Rightarrow> (Inl ''not supported'', e)))))"

section \<open>Any encoder\<close>

datatype any_config = VpxCfg vpx_config | AomCfg aom_config | RamCfg ram_config | VRamCfg vram_config

datatype any_encoder =
  VpxEnc vpx_id soft_encoder
| AomEnc soft_encoder
| RamEnc ram_encoder
| VRamEnc vram_encoder

record enc_libs =
  el_soft :: soft_lib
  el_lerp :: lerp
  el_threads :: nat
  el_android :: "android_codec list option"
  el_ram_format :: "string \<Rightarrow> data_format option"
  el_ram_new :: "ram_config \<Rightarrow> u32 \<Rightarrow> bool"
  el_vram_new :: "vram_config \<Rightarrow> u32 \<Rightarrow> bool"
  el_set_bitrate_ok :: "u32 \<Rightarrow> bool"

text \<open>\<open>Encoder::new\<close> with the state of the hardware: a failing hardware encoder is cleared.\<close>

definition any_new :: "enc_libs \<Rightarrow> hw_env \<Rightarrow> any_config \<Rightarrow> bool \<Rightarrow> hw_state \<Rightarrow> (string + any_encoder) \<times> hw_state" where
  "any_new L E config i444 st =
    (case config of
       VpxCfg c \<Rightarrow> (map_sum id (VpxEnc (vc_codec c)) (vpx_new (el_soft L) (el_lerp L) (el_threads L) c i444), st)
     | AomCfg c \<Rightarrow> (map_sum id AomEnc (aom_new (el_soft L) (el_lerp L) (el_threads L) c i444), st)
     | RamCfg c \<Rightarrow>
         (case ram_encoder_new (sl_fix (el_soft L)) (el_android L) (el_ram_format L) (el_ram_new L) c of
            Inr e \<Rightarrow> (Inr (RamEnc e), st)
          | Inl err \<Rightarrow> (Inl err, hw_clear E False True st))
     | VRamCfg c \<Rightarrow>
         (case vram_encoder_new (el_vram_new L) c of
            Inr e \<Rightarrow> (Inr (VRamEnc e), st)
          | Inl err \<Rightarrow> (Inl err, hw_clear E True True st)))"

text \<open>The encoder after \<open>set_quality\<close>, also when it fails.\<close>

definition any_set_quality :: "enc_libs \<Rightarrow> quality \<Rightarrow> any_encoder \<Rightarrow> any_encoder" where
  "any_set_quality L q e =
    (case e of
       VpxEnc i e \<Rightarrow> VpxEnc i (snd (vpx_set_quality (el_soft L) (el_lerp L) q e))
     | AomEnc e \<Rightarrow> AomEnc (snd (aom_set_quality (el_soft L) (el_lerp L) q e))
     | RamEnc e \<Rightarrow> RamEnc (ram_set_quality (sl_fix (el_soft L)) (el_android L) (el_set_bitrate_ok L (rm_bitrate e)) q e)
     | VRamEnc e \<Rightarrow> VRamEnc (vram_set_quality (el_set_bitrate_ok L (vr_bitrate e)) q e))"

definition any_bitrate :: "any_encoder \<Rightarrow> u32" where
  "any_bitrate e =
    (case e of VpxEnc _ e \<Rightarrow> soft_bitrate e | AomEnc e \<Rightarrow> soft_bitrate e | RamEnc e \<Rightarrow> rm_bitrate e | VRamEnc e \<Rightarrow> vr_bitrate e)"

definition any_support_abr :: "any_encoder \<Rightarrow> bool" where
  "any_support_abr e = (case e of RamEnc e \<Rightarrow> ram_support_abr e | VRamEnc e \<Rightarrow> vram_support_abr e | _ \<Rightarrow> True)"

definition any_latency_free :: "any_encoder \<Rightarrow> bool" where
  "any_latency_free e = (case e of RamEnc e \<Rightarrow> ram_latency_free e | _ \<Rightarrow> True)"

definition any_is_hardware :: "any_encoder \<Rightarrow> bool" where
  "any_is_hardware e = (case e of RamEnc _ \<Rightarrow> True | VRamEnc _ \<Rightarrow> True | _ \<Rightarrow> False)"

text \<open>\<open>disable\<close>.\<close>

definition any_disable :: "hw_env \<Rightarrow> any_encoder \<Rightarrow> hw_state \<Rightarrow> hw_state" where
  "any_disable E e st =
    (case e of RamEnc _ \<Rightarrow> hw_clear E False True st | VRamEnc _ \<Rightarrow> hw_clear E True True st | _ \<Rightarrow> st)"

end
