(* ===== verification/HwEncoderProps.thy ===== *)
theory HwEncoderProps
  imports HwEncoders
begin

text \<open>
  The properties of the encoders: the interface they share (a bitrate that no change of the quality
  takes to zero), the quantizers of the software encoders, the switch away from textures, and what a
  failing hardware encoder means for the negotiation of the codec.
\<close>

section \<open>The interface of an encoder\<close>

locale encoder_api =
  fixes set_quality :: "'q \<Rightarrow> 'e \<Rightarrow> 'e"
    and bitrate :: "'e \<Rightarrow> u32"
    and invar :: "'e \<Rightarrow> bool"
  assumes invar_set_quality: "invar e \<Longrightarrow> invar (set_quality q e)"
    and invar_bitrate: "invar e \<Longrightarrow> bitrate e \<noteq> 0"
begin

lemma invar_fold: "invar e \<Longrightarrow> invar (fold set_quality qs e)"
  by (induction qs arbitrary: e) (simp_all add: invar_set_quality)

lemma fold_bitrate: "invar e \<Longrightarrow> bitrate (fold set_quality qs e) \<noteq> 0"
  by (rule invar_bitrate [OF invar_fold])

end

definition soft_ok :: "soft_encoder \<Rightarrow> bool" where
  "soft_ok e \<longleftrightarrow> soft_bitrate e \<noteq> 0 \<and> quantizers_ok (ec_min_quantizer (so_cfg e)) (ec_max_quantizer (so_cfg e))"

definition ram_ok :: "ram_encoder \<Rightarrow> bool" where
  "ram_ok e \<longleftrightarrow> rm_bitrate e \<noteq> 0"

definition vram_ok :: "vram_encoder \<Rightarrow> bool" where
  "vram_ok e \<longleftrightarrow> vr_bitrate e \<noteq> 0 \<and> vr_actual e = vr_bitrate e"

definition any_ok :: "any_encoder \<Rightarrow> bool" where
  "any_ok e = (case e of VpxEnc _ s \<Rightarrow> soft_ok s | AomEnc s \<Rightarrow> soft_ok s | RamEnc r \<Rightarrow> ram_ok r | VRamEnc v \<Rightarrow> vram_ok v)"

text \<open>Off Android the base is never zero; on Android it needs a correction that is neither zero nor above 1000.\<close>

definition fix_ok :: "u16 option \<Rightarrow> bool" where
  "fix_ok fq = (case fq of None \<Rightarrow> True | Some f \<Rightarrow> 0 < f \<and> f \<le> 1000)"

lemma base_bitrate_pos:
  assumes "fix_ok fq" shows "base_bitrate fq w h \<noteq> 0"
proof (cases fq)
  case None
  then show ?thesis by (simp add: base_bitrate_def Let_def)
next
  case (Some f)
  define b where "b = (if w * h div 1000 = 0 then 2073 else w * h div 1000)"
  have "unat (w * h) < 2 ^ 32" using unsigned_less [of "w * h", where 'a = nat] by simp
  then have "unat (w * h) div 1000 \<le> 4294967" by simp
  then have b: "unat b \<le> 4294967" by (auto simp: b_def unat_div)
  have b0: "b \<noteq> 0" by (simp add: b_def)
  have f: "unat f \<le> 1000" "f \<noteq> 0" using assms Some by (auto simp: fix_ok_def word_le_nat_alt)
  have u: "unat (ucast f :: u32) = unat f" using f(1) by (simp add: unsigned_ucast_eq take_bit_nat_eq_self_iff)
  have "unat b * unat f \<le> 4294967 * 1000" using b f(1) by (rule mult_le_mono)
  then have "unat (b * ucast f) = unat b * unat f" using unat_mult_lem [of b "ucast f"] u by simp
  moreover have "unat b * unat f \<noteq> 0" using b0 f(2) by (simp add: unat_eq_0)
  ultimately have "b * ucast f \<noteq> 0" by (metis unat_0)
  then show ?thesis using Some by (simp add: base_bitrate_def b_def Let_def cong: if_cong)
qed

lemma quantizers_ok_default [simp]: "quantizers_ok default_qp_min default_qp_max"
  by (simp add: quantizers_ok_def default_qp_min_def default_qp_max_def)

lemma word_not_gt_zero [simp]: "\<not> (0 < (x :: 'a :: len word)) \<longleftrightarrow> x = 0"
  by (simp add: word_neq_0_conv [symmetric])

lemma soft_requality_ok:
  assumes "soft_ok e" shows "soft_ok (e\<lparr>so_cfg := soft_requality fq conv e\<rparr>)"
  using assms by (cases conv) (simp add: soft_requality_def soft_ok_def soft_bitrate_def Let_def word_neq_0_conv)

lemma check_bitrate_range_pos: "b \<noteq> 0 \<Longrightarrow> check_bitrate_range info config b \<noteq> 0"
proof -
  have "m \<noteq> 0" if "n < m" for n m :: u32
    using that by auto
  then show ?thesis if "b \<noteq> 0"
    using that by (auto simp: check_bitrate_range_def split: option.split)
qed

lemma ram_set_quality_ok: "ram_ok e \<Longrightarrow> ram_ok (ram_set_quality fq info ok q e)"
  by (simp add: ram_ok_def ram_set_quality_def Let_def check_bitrate_range_pos)

lemma vram_set_quality_ok: "vram_ok e \<Longrightarrow> vram_ok (vram_set_quality ok q e)"
  by (auto simp: vram_ok_def vram_set_quality_def Let_def word_neq_0_conv)

interpretation soft_api: encoder_api "\<lambda>conv e. snd (soft_set_quality lib conv e)" soft_bitrate soft_ok
  for lib
proof unfold_locales
  show "soft_ok (snd (soft_set_quality lib conv e))" if "soft_ok e" for e conv
    using soft_requality_ok [OF that] that by (simp add: soft_set_quality_def Let_def split: option.split)
qed (simp add: soft_ok_def)

interpretation ram_api: encoder_api "\<lambda>q e. ram_set_quality fq info (ok (rm_bitrate e)) q e" rm_bitrate ram_ok
  for fq info ok
  by unfold_locales (simp_all add: ram_set_quality_ok, simp add: ram_ok_def)

interpretation vram_api: encoder_api "\<lambda>q e. vram_set_quality (ok (vr_bitrate e)) q e" vr_bitrate vram_ok
  for ok
  by unfold_locales (simp_all add: vram_set_quality_ok, simp add: vram_ok_def)

text \<open>Any encoder; the libraries, and with them the correction on Android, may change from call to call.\<close>

interpretation any_api: encoder_api "\<lambda>(L, q) e. any_set_quality L q e" any_bitrate any_ok
proof unfold_locales
  show "any_ok ((\<lambda>(L, q) e. any_set_quality L q e) p e)" if "any_ok e" for e p
    using that soft_api.invar_set_quality ram_set_quality_ok vram_set_quality_ok
    by (cases p; cases e) (simp_all add: any_ok_def any_set_quality_def vpx_set_quality_def aom_set_quality_def)
  show "any_bitrate e \<noteq> 0" if "any_ok e" for e
    using that by (cases e) (simp_all add: any_ok_def any_bitrate_def soft_ok_def ram_ok_def vram_ok_def)
qed

text \<open>A new encoder keeps the invariant.\<close>

lemma vpx_new_ok: "fix_ok (sl_fix lib) \<Longrightarrow> vpx_new lib lerp threads c i444 = Inr e \<Longrightarrow> soft_ok e"
  by (cases "vpx_convert_quality lerp (vc_quality c)")
    (auto simp: vpx_new_def vpx_enc_cfg_def soft_ok_def soft_bitrate_def Let_def word_neq_0_conv
      split: option.splits intro: base_bitrate_pos [unfolded word_neq_0_conv])

lemma aom_new_ok: "fix_ok (sl_fix lib) \<Longrightarrow> aom_new lib lerp threads c i444 = Inr e \<Longrightarrow> soft_ok e"
  by (cases "aom_convert_quality lerp (ac_quality c)")
    (auto simp: aom_new_def aom_enc_cfg_def soft_ok_def soft_bitrate_def Let_def word_neq_0_conv
      split: option.splits intro: base_bitrate_pos [unfolded word_neq_0_conv])

lemma ram_new_ok: "fix_ok fq \<Longrightarrow> ram_encoder_new fq info lib_format lib_new c = Inr e \<Longrightarrow> ram_ok e"
  by (auto simp: ram_encoder_new_def Let_def ram_ok_def check_bitrate_range_pos base_bitrate_pos split: option.splits if_splits)

lemma vram_new_ok: "vram_encoder_new lib_new c = Inr e \<Longrightarrow> vram_ok e"
  by (auto simp: vram_encoder_new_def Let_def vram_ok_def base_bitrate_pos fix_ok_def split: if_splits)

lemma map_sum_Inr: "map_sum id f r = Inr y \<longleftrightarrow> (\<exists>x. r = Inr x \<and> y = f x)"
  by (cases r) auto

lemma any_new_ok: "fix_ok (sl_fix (el_soft L)) \<Longrightarrow> fst (any_new L E c i444 st) = Inr e \<Longrightarrow> any_ok e"
  by (cases c) (auto simp: any_new_def any_ok_def vpx_new_ok aom_new_ok ram_new_ok vram_new_ok map_sum_Inr
      split: sum.splits)

section \<open>Demonstrations\<close>

text \<open>An interpolation that rounds to the nearest integer, and libraries that accept everything.\<close>

definition demo_lerp :: lerp where
  "demo_lerp b x y = ((200 - b) * x + b * y + 100) div 200"

definition demo_soft :: soft_lib where
  "demo_soft = \<lparr>sl_init = (\<lambda>_. None), sl_config_set = (\<lambda>_. None), sl_encode = (\<lambda>_ _. Inr []), sl_flush = Inr [],
     sl_fix = None\<rparr>"

definition demo_enc_libs :: enc_libs where
  "demo_enc_libs = \<lparr>el_soft = demo_soft, el_lerp = demo_lerp, el_threads = 4, el_android = None,
     el_ram_format = (\<lambda>_. Some DfH264), el_ram_new = (\<lambda>_ _. False), el_vram_new = (\<lambda>_ _. True),
     el_set_bitrate_ok = (\<lambda>_. False)\<rparr>"

definition demo_hw_env :: hw_env where
  "demo_hw_env = \<lparr>hv_linux = False, hv_vram = True, hv_from_json = (\<lambda>_. None), hv_to_json = (\<lambda>_. []),
     hv_gpu_signature = 7, hv_disk_ok = True,
     hv_prioritized = (\<lambda>cs f. List.find (\<lambda>c. ci_format c = f) cs), hv_soft = (\<lambda>_. None), hv_display_luids = Some [Some 5]\<rparr>"

definition demo_codec_info :: codec_info where
  "demo_codec_info = \<lparr>ci_name = ''h264_nvenc'', ci_mc_name = None, ci_format = DfH264\<rparr>"

definition demo_feature :: feature where
  "demo_feature = \<lparr>fc_driver = DrvMFX, fc_luid = 5, fc_format = DfH264\<rparr>"

definition demo_hw_config :: hw_config where
  "demo_hw_config = \<lparr>hc_signature = 7, hc_ram_encode = [demo_codec_info], hc_ram_decode = [],
     hc_vram_encode = [demo_feature], hc_vram_decode = []\<rparr>"

definition demo_hw_state :: hw_state where
  "demo_hw_state = \<lparr>hs_config = Some demo_hw_config, hs_set_by_ipc = True, hs_file = [], hs_not_use = Map.empty,
     hs_fallback_gdi = []\<rparr>"

definition demo_aom :: aom_config where
  "demo_aom = \<lparr>ac_width = 1920, ac_height = 1080, ac_quality = Balanced, ac_keyframe_interval = None\<rparr>"

definition demo_vpx :: vpx_config where
  "demo_vpx = \<lparr>vc_width = 1920, vc_height = 1080, vc_quality = Balanced, vc_codec = VpxVP9, vc_keyframe_interval = None\<rparr>"

definition demo_ram :: ram_config where
  "demo_ram = \<lparr>rm_name = ''h264_nvenc'', rm_mc_name = None, rm_width = 1920, rm_height = 1080, rm_quality = Balanced,
     rm_keyframe_interval = None\<rparr>"

definition demo_vram :: vram_config where
  "demo_vram = \<lparr>vr_luid = 5, vr_intel = True, vr_width = 1920, vr_height = 1080, vr_quality = Balanced,
     vr_feature = demo_feature, vr_keyframe_interval = None\<rparr>"

lemmas demo_encoders = demo_enc_libs_def demo_soft_def demo_hw_env_def demo_hw_state_def demo_hw_config_def
  demo_codec_info_def demo_feature_def demo_aom_def demo_vpx_def demo_ram_def demo_vram_def

section \<open>Quality\<close>

text \<open>
  C26: Whatever encoder is made and however often its quality is changed, also with qualities of zero,
  with a library that refuses the new bitrate and, on Android, with a screen whose correction changes
  or is zero, the bitrate it reports is never zero; the quantizers of the software encoders stay in
  order below 64, and an encoder of textures reports the bitrate that the library really has. It is
  needed that the correction of Android is from 1 to 1000 when the encoder is made.
\<close>

theorem bitrate_never_zero:
  assumes "fst (any_new L E c i444 st) = Inr e"
    and "case sl_fix (el_soft L) of None \<Rightarrow> True | Some fq \<Rightarrow> 0 < fq \<and> fq \<le> 1000"
  shows "any_bitrate (fold (\<lambda>(L', q). any_set_quality L' q) changes e) \<noteq> 0
    \<and> (case fold (\<lambda>(L', q). any_set_quality L' q) changes e of
         VpxEnc _ s \<Rightarrow> quantizers_ok (ec_min_quantizer (so_cfg s)) (ec_max_quantizer (so_cfg s))
       | AomEnc s \<Rightarrow> quantizers_ok (ec_min_quantizer (so_cfg s)) (ec_max_quantizer (so_cfg s))
       | RamEnc _ \<Rightarrow> True
       | VRamEnc v \<Rightarrow> vr_actual v = vr_bitrate v)"
proof -
  have "any_ok e" using any_new_ok [OF _ assms(1)] assms(2) by (simp add: fix_ok_def)
  then show ?thesis using any_api.fold_bitrate [of e changes] any_api.invar_fold [of e changes]
    by (simp add: any_ok_def soft_ok_def vram_ok_def split: any_encoder.splits)
qed

lemma bitrate_never_zero_witness:
  "\<exists>e. fst (any_new (demo_enc_libs\<lparr>el_soft := demo_soft\<lparr>sl_fix := Some 4\<rparr>\<rparr>) demo_hw_env (VpxCfg demo_vpx) False demo_hw_state) = Inr e
    \<and> any_bitrate (fold (\<lambda>(L, q). any_set_quality L q)
        [(demo_enc_libs, Custom 0), (demo_enc_libs\<lparr>el_soft := demo_soft\<lparr>sl_fix := Some 0\<rparr>\<rparr>, Best)] e) \<noteq> 0"
proof -
  let ?L = "demo_enc_libs\<lparr>el_soft := demo_soft\<lparr>sl_fix := Some 4\<rparr>\<rparr>"
  obtain e where e: "fst (any_new ?L demo_hw_env (VpxCfg demo_vpx) False demo_hw_state) = Inr e"
    by (simp add: any_new_def vpx_new_def demo_encoders Let_def)
  show ?thesis using e bitrate_never_zero [OF e,
      of "[(demo_enc_libs, Custom 0), (demo_enc_libs\<lparr>el_soft := demo_soft\<lparr>sl_fix := Some 0\<rparr>\<rparr>, Best)]"] by auto
qed

text \<open>
  On Android a correction of zero takes the base to zero, and an encoder made then has the bitrate
  zero, whatever the quality asks for.
\<close>

theorem android_bitrate_zero:
  assumes "sl_fix lib = Some 0" "vpx_new lib lerp threads c i444 = Inr e"
  shows "soft_bitrate e = 0"
  using assms by (cases "vpx_convert_quality lerp (vc_quality c)")
    (auto simp: vpx_new_def vpx_enc_cfg_def soft_bitrate_def base_bitrate_def Let_def split: option.splits)

lemma lerp_at_most: "lerp_ok lerp \<Longrightarrow> b \<le> 200 \<Longrightarrow> x \<le> 63 \<Longrightarrow> y \<le> 63 \<Longrightarrow>
    200 * lerp b x y \<le> (200 - b) * x + b * y + 100"
  unfolding lerp_ok_def by blast

lemma lerp_at_least: "lerp_ok lerp \<Longrightarrow> b \<le> 200 \<Longrightarrow> x \<le> 63 \<Longrightarrow> y \<le> 63 \<Longrightarrow>
    (200 - b) * x + b * y \<le> 200 * lerp b x y + 100"
  unfolding lerp_ok_def by blast

lemma demo_lerp_ok: "lerp_ok demo_lerp"
proof -
  have "200 * ((n + 100) div 200) \<le> n + 100 \<and> n \<le> 200 * ((n + 100) div 200) + 100" for n :: nat
    by linarith
  then show ?thesis by (simp add: lerp_ok_def demo_lerp_def)
qed

text \<open>The quantizers of libaom that a quality is converted to are always usable.\<close>

lemma aom_custom_ok:
  assumes "lerp_ok lerp"
  shows "quantizers_ok (fst (aom_calc_q_values lerp b)) (snd (aom_calc_q_values lerp b))"
proof -
  let ?b = "min (unat b) 200"
  have b: "?b \<le> 200" by simp
  have "quantizers_ok l u"
    if "(200 - n) * 24 + n * 5 \<le> 200 * l + 100" "200 * l \<le> (200 - n) * 24 + n * 5 + 100"
      "(200 - n) * 45 + n * 25 \<le> 200 * u + 100" "200 * u \<le> (200 - n) * 45 + n * 25 + 100" "n \<le> 200"
    for n l u :: nat
    unfolding quantizers_ok_def using that by arith
  then show ?thesis
    unfolding aom_calc_q_values_def Let_def fst_conv snd_conv
    using lerp_at_least [OF assms b, of 24 5] lerp_at_most [OF assms b, of 24 5]
      lerp_at_least [OF assms b, of 45 25] lerp_at_most [OF assms b, of 45 25] b by simp
qed

lemma aom_quality_ok:
  assumes "lerp_ok lerp" "aom_convert_quality lerp q = (q_min, q_max, b)"
  shows "quantizers_ok q_min q_max"
  using assms aom_custom_ok [OF assms(1)]
  by (auto simp: aom_convert_quality_def quantizers_ok_def split: quality.splits prod.splits) (metis fst_conv snd_conv)+

lemma ucast_of_nat_unat [simp]: "word_of_nat (unat (x :: u32)) = x"
  by simp

text \<open>
  An AV1 encoder whose quality is changed is the encoder that \<^verbatim>\<open>new\<close> would have made with that
  quality, whatever it was made with, as long as the quality asks for a bitrate.
\<close>

theorem aom_requality_as_new:
  assumes "lerp_ok lerp"
    and "aom_new lib lerp threads c i444 = Inr e" "aom_new lib lerp threads (c\<lparr>ac_quality := q\<rparr>) i444 = Inr e'"
    and "base_bitrate (sl_fix lib) (ac_width c) (ac_height c) * snd (snd (aom_convert_quality lerp q)) div 100 \<noteq> 0"
    and "sl_config_set lib (so_cfg e') = None"
  shows "aom_set_quality lib lerp q e = (None, e')"
proof -
  obtain q_min q_max b where q: "aom_convert_quality lerp q = (q_min, q_max, b)" by (cases "aom_convert_quality lerp q")
  obtain q_min0 q_max0 b0 where q0: "aom_convert_quality lerp (ac_quality c) = (q_min0, q_max0, b0)"
    by (cases "aom_convert_quality lerp (ac_quality c)")
  have "so_cfg e' = soft_requality (sl_fix lib) (q_min, q_max, b) e"
    using assms(2-4) aom_quality_ok [OF assms(1) q] q q0
    by (auto simp: aom_new_def aom_enc_cfg_def soft_requality_def Let_def word_neq_0_conv split: option.splits)
  then show ?thesis
    using assms(2,3,5) q
    by (auto simp: aom_set_quality_def soft_set_quality_def aom_new_def Let_def split: option.splits)
qed

lemma aom_requality_as_new_witness:
  "\<exists>e e'. aom_new demo_soft demo_lerp 4 demo_aom False = Inr e
     \<and> aom_new demo_soft demo_lerp 4 (demo_aom\<lparr>ac_quality := Best\<rparr>) False = Inr e'
     \<and> aom_set_quality demo_soft demo_lerp Best e = (None, e')"
proof -
  obtain e where e: "aom_new demo_soft demo_lerp 4 demo_aom False = Inr e"
    by (simp add: aom_new_def demo_soft_def Let_def)
  obtain e' where e': "aom_new demo_soft demo_lerp 4 (demo_aom\<lparr>ac_quality := Best\<rparr>) False = Inr e'"
    by (simp add: aom_new_def demo_soft_def Let_def)
  have "base_bitrate (sl_fix demo_soft) (ac_width demo_aom) (ac_height demo_aom) * snd (snd (aom_convert_quality demo_lerp Best)) div 100 \<noteq> 0"
    by (simp add: demo_soft_def demo_aom_def aom_convert_quality_def base_bitrate_def)
  then have "aom_set_quality demo_soft demo_lerp Best e = (None, e')"
    by (intro aom_requality_as_new [OF demo_lerp_ok e e']) (simp_all add: demo_soft_def)
  then show ?thesis using e e' by blast
qed

lemma vpx_custom_high:
  assumes "lerp_ok lerp" "198 \<le> unat b" shows "fst (vpx_calc_q_values lerp b) = 0"
proof -
  have "n \<ge> 198 \<Longrightarrow> n \<le> 200 \<Longrightarrow> 200 * l \<le> (200 - n) * 36 + n * 0 + 100 \<Longrightarrow> l = 0" for n l :: nat by arith
  moreover have "200 * lerp (min (unat b) 200) 36 0 \<le> (200 - min (unat b) 200) * 36 + min (unat b) 200 * 0 + 100"
    by (rule lerp_at_most [OF assms(1)]) simp_all
  ultimately show ?thesis using assms(2) by (simp add: vpx_calc_q_values_def Let_def)
qed

lemma vpx_custom_197:
  assumes "lerp_ok lerp" shows "vpx_calc_q_values lerp 197 = (1, 37)"
proof -
  have "lerp 197 36 0 = 1" "lerp 197 56 37 = 37"
    using lerp_at_most [OF assms, of 197 36 0] lerp_at_least [OF assms, of 197 36 0]
      lerp_at_most [OF assms, of 197 56 37] lerp_at_least [OF assms, of 197 56 37] by simp_all
  then show ?thesis by (simp add: vpx_calc_q_values_def)
qed

text \<open>
  Asking libvpx for a custom quality of 198 or more makes the pictures coarser: the least
  quantizer rounds to zero, which is refused, so that the default quantizers 12 to 56 are used, while a
  quality of 197 has the quantizers 1 to 37.
\<close>

theorem vpx_quality_jump:
  assumes "lerp_ok lerp" "198 \<le> unat b"
  shows "(let high = vpx_enc_cfg fq lerp threads (c\<lparr>vc_quality := Custom b\<rparr>) i444;
              low = vpx_enc_cfg fq lerp threads (c\<lparr>vc_quality := Custom 197\<rparr>) i444
          in (ec_min_quantizer high, ec_max_quantizer high) = (12, 56)
             \<and> (ec_min_quantizer low, ec_max_quantizer low) = (1, 37))"
  using vpx_custom_high [OF assms] vpx_custom_197 [OF assms(1)]
  by (cases "vpx_calc_q_values lerp b")
    (simp add: vpx_enc_cfg_def vpx_convert_quality_def quantizers_ok_def default_qp_min_def default_qp_max_def Let_def)

lemma vpx_quality_jump_witness:
  "ec_max_quantizer (vpx_enc_cfg None demo_lerp 4 (demo_vpx\<lparr>vc_quality := Custom 400\<rparr>) False) = 56"
  using vpx_quality_jump [OF demo_lerp_ok, of 400 None 4 demo_vpx False] by (simp add: Let_def)

text \<open>
  When the library refuses a bitrate, the encoder that reads memory reports it nevertheless, and the
  one that reads textures keeps the old one.
\<close>

theorem refused_bitrate_reported:
  assumes "base_bitrate fq (rm_width (rm_config e)) (rm_height (rm_config e))
      * ram_convert_quality (rm_name (rm_config e)) q div 100 \<noteq> 0"
  shows "rm_actual (ram_set_quality fq info False q e) = rm_actual e
    \<and> rm_bitrate (ram_set_quality fq info False q e)
        = check_bitrate_range info (rm_config e)
            (base_bitrate fq (rm_width (rm_config e)) (rm_height (rm_config e))
               * ram_convert_quality (rm_name (rm_config e)) q div 100)
    \<and> vr_bitrate (vram_set_quality False q v) = vr_bitrate v"
  using assms by (simp add: ram_set_quality_def vram_set_quality_def Let_def word_neq_0_conv)

lemma refused_bitrate_reported_witness:
  "rm_bitrate (ram_set_quality None None False Low \<lparr>rm_config = demo_ram, rm_bitrate = 2073, rm_actual = 2073,
     rm_format = DfH264, rm_gop = 0\<rparr>) = 1036"
proof -
  let ?e = "\<lparr>rm_config = demo_ram, rm_bitrate = 2073, rm_actual = 2073, rm_format = DfH264, rm_gop = 0\<rparr>"
  have n: "ram_convert_quality (rm_name demo_ram) Low = 50" "check_bitrate_range None demo_ram b = b" for b
    by (simp_all add: ram_convert_quality_def check_bitrate_range_def demo_ram_def starts_with_def)
  have b: "base_bitrate None (rm_width demo_ram) (rm_height demo_ram) = 2073"
    by (simp add: demo_ram_def base_bitrate_def)
  show ?thesis using refused_bitrate_reported [of None ?e Low None] by (simp add: n b)
qed

section \<open>The switch away from textures\<close>

text \<open>The lengths so far with the latest first, a zero before all of them; how many of the latest are alike.\<close>

definition same_run :: "nat list \<Rightarrow> nat" where
  "same_run h = length (takeWhile (\<lambda>x. x = hd h) h)"

definition len_inv :: "nat list \<Rightarrow> vram_encoder \<Rightarrow> bool" where
  "len_inv h e \<longleftrightarrow> h \<noteq> [] \<and> vr_last_frame_len e = hd h
    \<and> vr_same_bad_len_counter e = (if hd h < min_bad_len then same_run h - 1 else 0)"

lemma same_run_Cons: "h \<noteq> [] \<Longrightarrow> same_run (n # h) = (if n = hd h then Suc (same_run h) else 1)"
  by (cases h) (auto simp: same_run_def)

lemma same_run_pos: "h \<noteq> [] \<Longrightarrow> 0 < same_run h"
  by (cases h) (simp_all add: same_run_def)

lemma count_bad_len_inv:
  assumes "len_inv h e" shows "len_inv (n # h) (snd (count_bad_len n e))"
  using assms same_run_pos [of h]
  by (auto simp: len_inv_def count_bad_len_def same_run_Cons Let_def)

lemma fold_bad_len_inv: "len_inv h e \<Longrightarrow> len_inv (rev lens @ h) (fold (\<lambda>l e. snd (count_bad_len l e)) lens e)"
  by (induction lens arbitrary: h e) (simp_all add: count_bad_len_inv)

lemma same_run_replicate: "k \<le> same_run h \<longleftrightarrow> h \<noteq> [] \<and> take k h = replicate k (hd h) \<or> k = 0"
proof -
  have "k \<le> length (takeWhile (\<lambda>x. x = a) h) \<longleftrightarrow> take k h = replicate k a" for a
  proof (induction h arbitrary: k)
    case Nil
    show ?case by (cases k) simp_all
  next
    case (Cons y h)
    then show ?case by (cases k) auto
  qed
  from this [of "hd h"] show ?thesis unfolding same_run_def by (cases "h = []") (simp, auto)
qed

lemma count_bad_len_switch:
  assumes "len_inv h e"
  shows "fst (count_bad_len n e) \<noteq> None \<longleftrightarrow> n < min_bad_len \<and> take 31 (n # h) = replicate 31 n"
proof -
  have "fst (count_bad_len n e) \<noteq> None \<longleftrightarrow> n < min_bad_len \<and> 31 \<le> same_run (n # h)"
    using assms same_run_pos [of h] by (auto simp: len_inv_def count_bad_len_def same_run_Cons max_bad_counter_def Let_def)
  then show ?thesis by (simp only: same_run_replicate) simp
qed

text \<open>
  An encoder of textures asks to be switched exactly when a frame is shorter than 100 bytes and the
  30 before it have the same length; the length before the first frame counts as zero.
\<close>

theorem switch_after_short_frames:
  assumes "vram_encoder_new lib_new c = Inr e"
  shows "fst (count_bad_len n (fold (\<lambda>l e. snd (count_bad_len l e)) lens e)) \<noteq> None
    \<longleftrightarrow> n < 100 \<and> take 31 (n # rev lens @ [0]) = replicate 31 n"
proof -
  have "len_inv [0] e"
    using assms by (auto simp: vram_encoder_new_def len_inv_def same_run_def Let_def split: if_splits)
  from count_bad_len_switch [OF fold_bad_len_inv [OF this]]
  show ?thesis by (simp only: min_bad_len_def)
qed

lemma switch_after_short_frames_witness:
  "\<exists>e. vram_encoder_new (\<lambda>_ _. True) demo_vram = Inr e
    \<and> fst (count_bad_len 12 (fold (\<lambda>l e. snd (count_bad_len l e)) (replicate 30 12) e)) \<noteq> None"
proof -
  obtain e where e: "vram_encoder_new (\<lambda>_ _. True) demo_vram = Inr e"
    by (simp add: vram_encoder_new_def Let_def)
  have "take 31 (12 # rev (replicate 30 12) @ [0]) = replicate 31 (12 :: nat)"
    by (simp add: numeral_eq_Suc)
  then show ?thesis using e switch_after_short_frames [OF e, of 12 "replicate 30 12"] by simp
qed

section \<open>Rows of a picture\<close>

lemma unat_and_not_mask: "unat ((a :: u64) AND NOT (mask k)) = unat a - unat a mod 2 ^ k"
proof -
  have "a - (a AND mask k) = a AND NOT (a AND mask k)"
    by (rule disjunctive_diff) (simp add: bit_simps)
  also have "\<dots> = a AND NOT (mask k)"
    by (rule bit_word_eqI) (auto simp: bit_simps)
  finally have "a AND NOT (mask k) = a - (a AND mask k)" ..
  moreover have "unat (a AND mask k) = unat a mod 2 ^ k"
    by (simp only: take_bit_eq_mask [symmetric] unsigned_take_bit_eq) (simp add: take_bit_eq_mod)
  moreover have "a AND mask k \<le> a"
    by (rule word_and_le2)
  ultimately show ?thesis by (simp add: unat_sub)
qed

definition bytes_of_format :: "image_format \<Rightarrow> nat" where
  "bytes_of_format fmt = (if fmt = ImgRaw then 3 else 4)"

lemma round_up:
  fixes m p :: nat assumes "0 < p"
  shows "p dvd (m + p - 1 - (m + p - 1) mod p) \<and> m \<le> m + p - 1 - (m + p - 1) mod p
    \<and> m + p - 1 - (m + p - 1) mod p < m + p"
proof -
  have "m + p - 1 - (m + p - 1) mod p = (m + p - 1) div p * p"
    by (simp add: minus_mod_eq_div_mult)
  then show ?thesis using assms mod_less_divisor [OF assms, of "m + p - 1"] by auto
qed

text \<open>
  A row of a converted picture, aligned to a power of two, has room for its pixels, is a multiple of
  the alignment and wastes less than the alignment, as long as the sum does not overflow.
\<close>

lemma row_bytes_room:
  assumes "k < 64" "unat w * bytes_of_format fmt + 2 ^ k \<le> 2 ^ 64"
  shows "2 ^ k dvd unat (get_bytes_per_row w fmt (2 ^ k))
    \<and> unat w * bytes_of_format fmt \<le> unat (get_bytes_per_row w fmt (2 ^ k))
    \<and> unat (get_bytes_per_row w fmt (2 ^ k)) < unat w * bytes_of_format fmt + 2 ^ k"
proof -
  let ?n = "if fmt = ImgRaw then 3 else 4 :: u64"
  let ?m = "unat w * bytes_of_format fmt"
  have "(2 :: nat) ^ k < 2 ^ 64" using assms(1) by (rule power_strict_increasing) simp
  then have k: "unat (2 ^ k :: u64) = 2 ^ k" "(2 ^ k :: u64) - 1 = mask k"
    using of_nat_inverse [OF refl, of "2 ^ k", where 'a = 64] by (simp_all add: mask_eq_exp_minus_1)
  have n: "unat ?n = bytes_of_format fmt" by (simp add: bytes_of_format_def)
  have m: "?m < 2 ^ 64" "?m + 2 ^ k - 1 < 2 ^ 64" using assms(2) zero_less_power [of "2 :: nat" k] by linarith+
  have wn: "unat (w * ?n) = ?m"
    using m(1) unat_mult_lem [of w ?n] by (simp only: n len_of_numeral_defs, simp)
  have mk: "unat (mask k :: u64) = 2 ^ k - 1"
  proof -
    have "(1 :: u64) \<le> 2 ^ k" by (simp add: word_le_nat_alt k(1))
    then show ?thesis by (simp only: k(2) [symmetric] unat_sub) (simp add: k(1))
  qed
  have "unat (w * ?n + mask k) = ?m + 2 ^ k - 1"
    using m(2) unat_add_lem [of "w * ?n" "mask k"] by (simp only: wn mk len_of_numeral_defs) simp
  then have "unat (get_bytes_per_row w fmt (2 ^ k)) = ?m + 2 ^ k - 1 - (?m + 2 ^ k - 1) mod 2 ^ k"
    using unat_and_not_mask [of "w * ?n + mask k" k] k(2)
    by (cases fmt) (simp_all add: get_bytes_per_row_def add_diff_eq [symmetric])
  then show ?thesis using round_up [of "2 ^ k" ?m] by simp
qed

end
