(* ===== verification/HwConfigProps.thy ===== *)
theory HwConfigProps
  imports HwEncoderProps
begin

text \<open>
  What the configuration of the hardware promises: it survives a restart for the same GPU only, an
  encoder of textures is offered only where it serves every display, and hardware that fails is not
  negotiated again.
\<close>

section \<open>Restarting\<close>

text \<open>What a restart of the process leaves: the file.\<close>

definition restarted :: "hw_state \<Rightarrow> hw_state" where
  "restarted st = st\<lparr>hs_config := None, hs_set_by_ipc := False, hs_not_use := Map.empty, hs_fallback_gdi := []\<rparr>"

text \<open>
  What the checking process found is what is used after it was sent, stored and the program was
  started again, but only on the GPU it was found on: with another signature nothing is used.
\<close>

theorem hw_config_restarted:
  assumes "\<not> hv_linux E" "hv_disk_ok E" "hv_vram E"
    and "found = \<lparr>hc_signature = hv_gpu_signature E, hc_ram_encode = encoders, hc_ram_decode = decoders,
           hc_vram_encode = vram_encoders, hc_vram_decode = vram_decoders\<rparr>"
    and "hv_from_json E (hv_to_json E found) = Some found"
  shows "fst (hw_get (E\<lparr>hv_gpu_signature := g\<rparr>)
      (restarted (hw_set E (check_available_hwcodec E encoders decoders vram_encoders vram_decoders) st)))
    = (if g = hv_gpu_signature E then found else default_hw_config)"
  using assms by (simp add: hw_get_def hw_set_def restarted_def or_default_config_def check_available_hwcodec_def Let_def)

lemma hw_config_restarted_witness:
  "fst (hw_get (demo_hw_env\<lparr>hv_from_json := (\<lambda>_. Some demo_hw_config), hv_gpu_signature := 7\<rparr>)
     (restarted (hw_set (demo_hw_env\<lparr>hv_from_json := (\<lambda>_. Some demo_hw_config)\<rparr>)
       (check_available_hwcodec (demo_hw_env\<lparr>hv_from_json := (\<lambda>_. Some demo_hw_config)\<rparr>)
         [demo_codec_info] [] [demo_feature] []) demo_hw_state))) = demo_hw_config"
  by (subst hw_config_restarted [of "demo_hw_env\<lparr>hv_from_json := (\<lambda>_. Some demo_hw_config)\<rparr>" demo_hw_config])
    (simp_all add: demo_hw_env_def demo_hw_config_def)

section \<open>The encoder of an Android device\<close>

lemma android_largest_max:
  assumes "android_largest m best cs = Some c" "\<forall>b. best = Some b \<longrightarrow> android_area b = m"
  shows "(c \<in> set cs \<or> best = Some c) \<and> (\<forall>d\<in>set cs. android_area d \<le> max m (android_area c)) \<and> m \<le> android_area c"
  using assms
proof (induction m best cs rule: android_largest.induct)
  case (2 m best x cs)
  show ?case
  proof (cases "android_area x > m")
    case True
    have "android_largest (android_area x) (Some x) cs = Some c" using "2.prems"(1) True by simp
    from "2.IH"(1) [OF True this] show ?thesis using True by auto
  next
    case False
    have "android_largest m best cs = Some c" using "2.prems"(1) False by simp
    from "2.IH"(2) [OF False this "2.prems"(2)] show ?thesis using False by auto
  qed
qed simp

lemma android_best_sound:
  assumes "android_best n cs = Some c"
  shows "c \<in> set cs \<and> ((n \<le> ad_max_width c \<and> n \<le> ad_max_height c)
    \<or> (\<forall>d\<in>set cs. \<not> (n \<le> ad_max_width d \<and> n \<le> ad_max_height d) \<and> android_area d \<le> android_area c))"
proof (cases "List.find (\<lambda>c. n \<le> ad_max_width c \<and> n \<le> ad_max_height c) cs")
  case None
  then have "android_largest 0 None cs = Some c" using assms by (simp add: android_best_def)
  from android_largest_max [OF this] show ?thesis using None by (auto simp: find_None_iff max_def)
next
  case (Some a)
  then have "a = c" using assms by (simp add: android_best_def)
  then show ?thesis using Some by (auto simp: find_Some_iff)
qed

text \<open>
  An encoder of an Android device that is offered is a hardware encoder of its codec on that device
  which takes NV12; it can make the whole screen, also when the screen is turned, unless no encoder can
  (then none is larger).
\<close>

theorem android_encoder_fits:
  assumes "e \<in> set (hc_ram_encode (android_config (Some info)))"
  shows "\<exists>c\<in>set (ai_codecs info). ci_mc_name e = Some (ad_name c) \<and> android_usable (ci_format e) c
    \<and> (max (ai_w info) (ai_h info) \<le> ad_max_width c \<and> max (ai_w info) (ai_h info) \<le> ad_max_height c
       \<or> (\<forall>d\<in>set (ai_codecs info). android_usable (ci_format e) d \<longrightarrow>
            \<not> (max (ai_w info) (ai_h info) \<le> ad_max_width d \<and> max (ai_w info) (ai_h info) \<le> ad_max_height d)
            \<and> android_area d \<le> android_area c))"
proof -
  have "\<exists>f p. e \<in> set (android_encoder info (p, f))"
    using assms by (auto simp: android_config_def)
  then obtain f p where e: "e \<in> set (android_encoder info (p, f))" by blast
  obtain c where c: "android_best (max (ai_w info) (ai_h info)) (filter (android_usable f) (ai_codecs info)) = Some c"
    using e by (cases "android_best (max (ai_w info) (ai_h info)) (filter (android_usable f) (ai_codecs info))")
      (simp_all add: android_encoder_def)
  have "ci_mc_name e = Some (ad_name c)" "ci_format e = f"
    using e by (simp_all add: android_encoder_def c)
  show ?thesis using android_best_sound [OF c] \<open>ci_mc_name e = Some (ad_name c)\<close> \<open>ci_format e = f\<close> by auto
qed

definition demo_android :: "nat \<Rightarrow> nat \<Rightarrow> string \<Rightarrow> android_codec" where
  "demo_android w h name = \<lparr>ad_name = name, ad_is_encoder = True, ad_hw = Some True, ad_mime = ''video/avc'', ad_nv12 = True,
     ad_min_bitrate = 1, ad_max_bitrate = 1000000, ad_max_width = w, ad_max_height = h\<rparr>"

lemma android_encoder_fits_witness:
  "\<exists>c\<in>{demo_android 1920 1080 ''a'', demo_android 4096 4096 ''b''}. android_usable DfH264 c \<and> ''b'' = ad_name c"
proof -
  let ?i = "\<lparr>ai_w = 2400, ai_h = 1080, ai_codecs = [demo_android 1920 1080 ''a'', demo_android 4096 4096 ''b'']\<rparr>"
  let ?e = "\<lparr>ci_name = ''h264_mediacodec'', ci_mc_name = Some ''b'', ci_format = DfH264\<rparr>"
  have "?e \<in> set (hc_ram_encode (android_config (Some ?i)))"
    by (simp add: android_config_def android_encoder_def android_usable_def demo_android_def get_mime_type_def android_best_def)
  from android_encoder_fits [OF this] show ?thesis by auto
qed

section \<open>Encoders of textures\<close>

lemma hw_get_fields:
  "hs_fallback_gdi (snd (hw_get E st)) = hs_fallback_gdi st" "hs_not_use (snd (hw_get E st)) = hs_not_use st"
  by (simp_all add: hw_get_def Let_def split: option.split)

lemma hw_get_again: "fst (hw_get E (snd (hw_get E st))) = fst (hw_get E st)"
  by (simp add: hw_get_def Let_def split: option.split)

lemma ram_encoder_try_get_fst:
  "fst (ram_encoder_try_get E format st)
    = (case data_format_of format of Some f \<Rightarrow> hv_prioritized E (hc_ram_encode (fst (hw_get E st))) f | None \<Rightarrow> None)"
  by (simp add: ram_encoder_try_get_def split_beta Let_def)

lemma vram_encoder_available_fst:
  "fst (vram_encoder_available E displays format st) =
    (case data_format_of format of
       None \<Rightarrow> []
     | Some df \<Rightarrow>
         let v = filter (\<lambda>c. fc_format c = df) (hc_vram_encode (fst (hw_get E st))) in
         if hs_fallback_gdi st = [] \<and> (\<forall>d\<in>set displays. hs_not_use st d \<noteq> Some True)
           \<and> (hv_prioritized E (hc_ram_encode (fst (hw_get E st))) df \<noteq> None
              \<or> (\<exists>luids. hv_display_luids E = Some luids \<and> luids \<noteq> []
                   \<and> (\<forall>l\<in>set luids. \<exists>f\<in>set v. Some (fc_luid f) = l)))
         then v else [])"
  by (cases "data_format_of format"; cases "hv_display_luids E")
    (auto simp: vram_encoder_available_def Let_def split_beta list_ex_iff list_all_iff ram_encoder_try_get_fst hw_get_again
      split: if_splits)

text \<open>
  An encoder of textures that is offered for a codec makes that codec and was found on this machine;
  no display has fallen back to GDI or gone without textures, and when memory cannot be encoded
  instead, every display has such an encoder on its adapter.
\<close>

theorem vram_offered_serves_displays:
  assumes "f \<in> set (fst (vram_encoder_available E displays format st))"
  shows "data_format_of format = Some (fc_format f)
    \<and> f \<in> set (hc_vram_encode (fst (hw_get E st)))
    \<and> hs_fallback_gdi st = [] \<and> (\<forall>d\<in>set displays. hs_not_use st d \<noteq> Some True)
    \<and> (fst (ram_encoder_try_get E format st) = None \<longrightarrow>
         (\<exists>luids. hv_display_luids E = Some luids \<and> luids \<noteq> []
           \<and> (\<forall>l\<in>set luids. \<exists>g\<in>set (hc_vram_encode (fst (hw_get E st))).
                Some (fc_luid g) = l \<and> data_format_of format = Some (fc_format g))))"
proof -
  obtain df where df: "data_format_of format = Some df"
    using assms by (cases "data_format_of format") (simp_all add: vram_encoder_available_fst)
  show ?thesis
    using assms by (auto simp: df vram_encoder_available_fst ram_encoder_try_get_fst Let_def split: if_splits) metis
qed

lemma vram_offered_serves_displays_witness:
  "demo_feature \<in> set (fst (vram_encoder_available demo_hw_env [0] H264 demo_hw_state))
    \<and> hs_fallback_gdi demo_hw_state = []"
proof -
  have m: "demo_feature \<in> set (fst (vram_encoder_available demo_hw_env [0] H264 demo_hw_state))"
    by (simp add: vram_encoder_available_fst data_format_of_def demo_encoders hw_get_def)
  show ?thesis using m vram_offered_serves_displays [OF m] by blast
qed

section \<open>Failing hardware\<close>

text \<open>What the negotiation of the codec sees of the hardware.\<close>

definition codec_env_of :: "hw_env \<Rightarrow> nat list \<Rightarrow> hw_state \<Rightarrow> codec_env \<Rightarrow> codec_env" where
  "codec_env_of E displays st V =
    V\<lparr>ce_hw_encoder := (\<lambda>f. map_option ci_name (fst (ram_encoder_try_get E f st))),
      ce_vram_encoder := (\<lambda>f. fst (vram_encoder_available E displays f st) \<noteq> [])\<rparr>"

text \<open>The hardware is known: it cannot be read from the file again.\<close>

definition hw_known :: "hw_env \<Rightarrow> hw_state \<Rightarrow> bool" where
  "hw_known E st \<longleftrightarrow> hv_linux E \<or> hs_config st \<noteq> None"

lemma hw_get_clear:
  assumes "hw_known E st"
  shows "fst (hw_get E (hw_clear E vram encode st)) = clear_config E vram encode (fst (hw_get E st))"
  using assms by (auto simp: hw_known_def hw_get_def hw_clear_def or_default_config_def clear_config_def default_hw_config_def
      split: option.split)

lemma hw_known_clear [simp]: "hw_known E (hw_clear E vram encode st) = hw_known E st"
  by (simp add: hw_known_def hw_clear_def)

lemma no_hardware_not_negotiated:
  assumes "hc_ram_encode (fst (hw_get E st)) = []" "hc_vram_encode (fst (hw_get E st)) = []"
    and "\<forall>f. hv_prioritized E [] f = None"
  shows "negotiated_codec (encoder_update (codec_env_of E displays st V) w upd es) \<notin> {H264, H265}"
proof -
  have "ce_hw_encoder (codec_env_of E displays st V) f = None" "\<not> ce_vram_encoder (codec_env_of E displays st V) f" for f
    using assms by (simp_all add: codec_env_of_def ram_encoder_try_get_fst vram_encoder_available_fst Let_def split: option.split)
  then show ?thesis
    using encoder_update_sound [of "codec_env_of E displays st V" w upd es]
    by (auto simp: sound_format_def can_encode_def negotiated_codec_def encoder_found_def)
qed

text \<open>
  C25: When the hardware encoder that reads memory and the one that reads textures have both failed to be
  made, H264 and H265 are not negotiated any more, whatever the peers announce or prefer.
\<close>

theorem failed_hardware_not_negotiated:
  assumes "any_new L E (VRamCfg c) i444 st = (Inl err, st')" "any_new L E (RamCfg c') i444' st' = (Inl err', st'')"
    and "hw_known E st" "hv_vram E" "\<forall>f. hv_prioritized E [] f = None"
  shows "negotiated_codec (encoder_update (codec_env_of E displays st'' V) w upd es) \<notin> {H264, H265}"
proof (rule no_hardware_not_negotiated [OF _ _ assms(5)])
  have st: "st'' = hw_clear E False True (hw_clear E True True st)"
    using assms(1,2) by (auto simp: any_new_def split: sum.splits)
  show "hc_ram_encode (fst (hw_get E st'')) = []" "hc_vram_encode (fst (hw_get E st'')) = []"
    using assms(3,4) by (simp_all add: st hw_get_clear clear_config_def)
qed

lemma failed_hardware_not_negotiated_witness:
  "negotiated_codec (encoder_update
     (codec_env_of demo_hw_env [0] (snd (any_new (demo_enc_libs\<lparr>el_vram_new := (\<lambda>_ _. False)\<rparr>) demo_hw_env (RamCfg demo_ram) False
        (snd (any_new (demo_enc_libs\<lparr>el_vram_new := (\<lambda>_ _. False)\<rparr>) demo_hw_env (VRamCfg demo_vram) False demo_hw_state))))
       (demo_codec_env\<lparr>ce_hwcodec := True\<rparr>)) demo_world (Update 1 (demo_peer PreferH264)) encoder_start) \<notin> {H264, H265}"
proof -
  let ?L = "demo_enc_libs\<lparr>el_vram_new := (\<lambda>_ _. False)\<rparr>"
  obtain err st' where v: "any_new ?L demo_hw_env (VRamCfg demo_vram) False demo_hw_state = (Inl err, st')"
    by (simp add: any_new_def vram_encoder_new_def demo_enc_libs_def Let_def)
  obtain err' st'' where r: "any_new ?L demo_hw_env (RamCfg demo_ram) False st' = (Inl err', st'')"
    by (simp add: any_new_def ram_encoder_new_def demo_enc_libs_def Let_def)
  have h: "hw_known demo_hw_env demo_hw_state" "hv_vram demo_hw_env" "\<forall>f. hv_prioritized demo_hw_env [] f = None"
    by (simp_all add: hw_known_def demo_hw_env_def demo_hw_state_def)
  show ?thesis unfolding v snd_conv r by (rule failed_hardware_not_negotiated [OF v r h])
qed

end
