(* ===== verification/Convert.thy ===== *)
theory Convert
  imports HwEncoders
begin

text \<open>
  The conversion of pictures: \<open>libs/scrap/src/common/convert.rs\<close> (a captured picture for an encoder) and
  the other way in \<open>mod.rs\<close> and \<open>hwcodec.rs\<close> (a decoded picture for the screen). Both hand pointers into
  buffers to libyuv. The model keeps the lengths of the buffers and the calls that are made, with the
  offsets and strides of their planes; sizes are natural numbers, far below \<open>2 ^ 64\<close>.
\<close>

section \<open>Calls of libyuv\<close>

datatype yuv_fn =
  ARGBToI420 | ABGRToI420 | RGB565ToI420 | ARGBToNV12 | ABGRToNV12 | RGB565ToARGB | ABGRToARGB | ARGBToI444

datatype buf = SrcBuf | MidBuf | DstBuf

record plane =
  pl_buf :: buf
  pl_off :: nat
  pl_stride :: nat

record yuv_call =
  yc_fn :: yuv_fn
  yc_planes :: "plane list"
  yc_w :: nat
  yc_h :: nat

definition plane_at :: "buf \<Rightarrow> nat \<Rightarrow> nat \<Rightarrow> plane" where
  "plane_at b off stride = \<lparr>pl_buf = b, pl_off = off, pl_stride = stride\<rparr>"

text \<open>The captured picture and what the encoder wants: strides, and offsets of the planes of chroma.\<close>

record pixel_buffer =
  pb_len :: nat
  pb_stride :: "nat list"
  pb_fmt :: pixfmt
  pb_w :: nat
  pb_h :: nat

record yuv_format =
  yf_fmt :: pixfmt
  yf_w :: nat
  yf_h :: nat
  yf_stride :: "nat list"
  yf_u :: nat
  yf_v :: nat

text \<open>\<open>ConvPanic\<close> is an index out of bounds.\<close>

datatype conv_error = ConvTooLarge | ConvStride | ConvLen | ConvUnsupported | ConvFailed | ConvPanic

text \<open>The lengths of \<open>dst\<close> and \<open>mid_data\<close>, and the calls so far.\<close>

record conv_state =
  cv_dst :: nat
  cv_mid :: nat
  cv_calls :: "yuv_call list"

type_synonym conv = "(conv_error + unit) \<times> conv_state"

definition pad64 :: "nat \<Rightarrow> nat" where
  "pad64 x = (x + 63) div 64 * 64"

text \<open>\<open>call_yuv!\<close>: a call, which \<open>ok\<close> says the library accepts, and what follows it.\<close>

definition call_yuv :: "(yuv_call \<Rightarrow> bool) \<Rightarrow> yuv_call \<Rightarrow> conv_state \<Rightarrow> (conv_state \<Rightarrow> conv) \<Rightarrow> conv" where
  "call_yuv ok c st k =
    (let st = st\<lparr>cv_calls := cv_calls st @ [c]\<rparr> in if ok c then k st else (Inl ConvFailed, st))"

definition conv_done :: "conv_state \<Rightarrow> conv" where
  "conv_done st = (Inr (), st)"

definition to_i420 :: "(yuv_call \<Rightarrow> bool) \<Rightarrow> yuv_fn \<Rightarrow> pixel_buffer \<Rightarrow> yuv_format \<Rightarrow> conv_state \<Rightarrow> conv" where
  "to_i420 ok f B F st =
    (case yf_stride F of
       sy # suv # _ \<Rightarrow>
         let st = st\<lparr>cv_dst := yf_h F * sy * 2\<rparr> in
         if yf_u F > cv_dst st \<or> yf_v F > cv_dst st then (Inl ConvPanic, st)
         else
           call_yuv ok
             \<lparr>yc_fn = f,
              yc_planes = [plane_at SrcBuf 0 (hd (pb_stride B)), plane_at DstBuf 0 sy,
                           plane_at DstBuf (yf_u F) suv, plane_at DstBuf (yf_v F) suv],
              yc_w = pb_w B, yc_h = pb_h B\<rparr> st conv_done
     | _ \<Rightarrow> (Inl ConvPanic, st))"

text \<open>The intermediate picture of 16-bit pixels.\<close>

definition expand_565 :: "(yuv_call \<Rightarrow> bool) \<Rightarrow> pixel_buffer \<Rightarrow> conv_state \<Rightarrow> (plane \<Rightarrow> conv_state \<Rightarrow> conv) \<Rightarrow> conv" where
  "expand_565 ok B st k =
    (let mid_stride = pb_w B * 4;
         st = st\<lparr>cv_mid := mid_stride * pb_h B\<rparr>
     in call_yuv ok
          \<lparr>yc_fn = RGB565ToARGB,
           yc_planes = [plane_at SrcBuf 0 (hd (pb_stride B)), plane_at MidBuf 0 mid_stride],
           yc_w = pb_w B, yc_h = pb_h B\<rparr> st (k (plane_at MidBuf 0 mid_stride)))"

definition to_nv12 :: "(yuv_call \<Rightarrow> bool) \<Rightarrow> pixel_buffer \<Rightarrow> yuv_format \<Rightarrow> conv_state \<Rightarrow> conv" where
  "to_nv12 ok B F st =
    (case yf_stride F of
       sy # suv # _ \<Rightarrow>
         let st = st\<lparr>cv_dst := pad64 (yf_h F) * (pad64 sy + pad64 (suv div 2))\<rparr>;
             call = (\<lambda>f input st. call_yuv ok
               \<lparr>yc_fn = f, yc_planes = [input, plane_at DstBuf 0 sy, plane_at DstBuf (yf_u F) suv],
                yc_w = pb_w B, yc_h = pb_h B\<rparr> st conv_done);
             src = plane_at SrcBuf 0 (hd (pb_stride B))
         in if yf_u F > cv_dst st then (Inl ConvPanic, st)
            else
              (case pb_fmt B of
                 PixBGRA \<Rightarrow> call ARGBToNV12 src st
               | PixRGBA \<Rightarrow> call ABGRToNV12 src st
               | PixRGB565LE \<Rightarrow> expand_565 ok B st (call ARGBToNV12)
               | _ \<Rightarrow> (Inl ConvUnsupported, st))
     | _ \<Rightarrow> (Inl ConvPanic, st))"

definition to_i444 :: "(yuv_call \<Rightarrow> bool) \<Rightarrow> pixel_buffer \<Rightarrow> yuv_format \<Rightarrow> conv_state \<Rightarrow> conv" where
  "to_i444 ok B F st =
    (case yf_stride F of
       sy # su # sv # _ \<Rightarrow>
         let st = st\<lparr>cv_dst := pad64 (yf_h F) * (pad64 sy + pad64 su + pad64 sv)\<rparr>;
             call = (\<lambda>input st. call_yuv ok
               \<lparr>yc_fn = ARGBToI444,
                yc_planes = [input, plane_at DstBuf 0 sy, plane_at DstBuf (yf_u F) su, plane_at DstBuf (yf_v F) sv],
                yc_w = pb_w B, yc_h = pb_h B\<rparr> st conv_done);
             s = hd (pb_stride B)
         in if yf_u F > cv_dst st \<or> yf_v F > cv_dst st then (Inl ConvPanic, st)
            else
              (case pb_fmt B of
                 PixBGRA \<Rightarrow> call (plane_at SrcBuf 0 s) st
               | PixRGBA \<Rightarrow>
                   call_yuv ok
                     \<lparr>yc_fn = ABGRToARGB, yc_planes = [plane_at SrcBuf 0 s, plane_at MidBuf 0 s],
                      yc_w = pb_w B, yc_h = pb_h B\<rparr>
                     (st\<lparr>cv_mid := pb_len B\<rparr>) (call (plane_at MidBuf 0 s))
               | PixRGB565LE \<Rightarrow> expand_565 ok B st call
               | _ \<Rightarrow> (Inl ConvUnsupported, st))
     | _ \<Rightarrow> (Inl ConvPanic, st))"

definition is_rgb :: "pixfmt \<Rightarrow> bool" where
  "is_rgb p \<longleftrightarrow> p = PixBGRA \<or> p = PixRGBA \<or> p = PixRGB565LE"

text \<open>The checks of a picture before it is converted.\<close>

definition check_source :: "pixel_buffer \<Rightarrow> yuv_format \<Rightarrow> conv_error option" where
  "check_source B F =
    (if pb_w B > yf_w F \<or> pb_h B > yf_h F then Some ConvTooLarge
     else if is_rgb (pb_fmt B) then
       (case pb_stride B of
          [] \<Rightarrow> Some ConvPanic
        | s # _ \<Rightarrow>
            if s < pb_w B * bytes_per_pixel (pb_fmt B) then Some ConvStride
            else if pb_len B < s * pb_h B then Some ConvLen
            else None)
     else None)"

definition convert_to_yuv :: "(yuv_call \<Rightarrow> bool) \<Rightarrow> pixel_buffer \<Rightarrow> yuv_format \<Rightarrow> conv_state \<Rightarrow> conv" where
  "convert_to_yuv ok B F st =
    (case check_source B F of
       Some e \<Rightarrow> (Inl e, st)
     | None \<Rightarrow>
         (case (pb_fmt B, yf_fmt F) of
            (PixBGRA, PixI420) \<Rightarrow> to_i420 ok ARGBToI420 B F st
          | (PixRGBA, PixI420) \<Rightarrow> to_i420 ok ABGRToI420 B F st
          | (PixRGB565LE, PixI420) \<Rightarrow> to_i420 ok RGB565ToI420 B F st
          | (_, PixNV12) \<Rightarrow> if is_rgb (pb_fmt B) then to_nv12 ok B F st else (Inl ConvUnsupported, st)
          | (_, PixI444) \<Rightarrow> if is_rgb (pb_fmt B) then to_i444 ok B F st else (Inl ConvUnsupported, st)
          | _ \<Rightarrow> (Inl ConvUnsupported, st)))"

section \<open>Decoded pictures\<close>

datatype out_fn =
  I420ToRAW | I420ToARGB | I420ToABGR | I444ToARGB | I444ToABGR | NV12ToI420 | NV12ToARGB | NV12ToABGR

text \<open>\<open>ImageRgb\<close>, with the length of \<open>raw\<close>; a call that writes its rows at a stride from the start of \<open>raw\<close>.\<close>

record image_rgb =
  ir_len :: nat
  ir_w :: u64
  ir_h :: u64
  ir_fmt :: image_format
  ir_align :: u64

record out_call =
  oc_fn :: out_fn
  oc_stride :: nat
  oc_w :: nat
  oc_h :: nat

definition new_image_rgb :: "image_format \<Rightarrow> u64 \<Rightarrow> image_rgb" where
  "new_image_rgb fmt align = \<lparr>ir_len = 0, ir_w = 0, ir_h = 0, ir_fmt = fmt, ir_align = align\<rparr>"

datatype plane_chroma = Planes420 | Planes444

definition google_fn :: "plane_chroma \<Rightarrow> image_format \<Rightarrow> out_fn option" where
  "google_fn ch fmt =
    (case (ch, fmt) of
       (Planes420, ImgRaw) \<Rightarrow> Some I420ToRAW
     | (Planes420, ImgARGB) \<Rightarrow> Some I420ToARGB
     | (Planes420, ImgABGR) \<Rightarrow> Some I420ToABGR
     | (Planes444, ImgARGB) \<Rightarrow> Some I444ToARGB
     | (Planes444, ImgABGR) \<Rightarrow> Some I444ToABGR
     | (Planes444, ImgRaw) \<Rightarrow> None)"

text \<open>\<open>GoogleImage::to\<close>: a pair of formats that is not supported is only logged.\<close>

definition google_to :: "plane_chroma \<Rightarrow> u64 \<Rightarrow> u64 \<Rightarrow> image_rgb \<Rightarrow> image_rgb \<times> out_call option" where
  "google_to ch w h rgb =
    (let row = get_bytes_per_row w (ir_fmt rgb) (ir_align rgb);
         rgb = rgb\<lparr>ir_w := w, ir_h := h, ir_len := unat (h * row)\<rparr>
     in (rgb, map_option (\<lambda>f. \<lparr>oc_fn = f, oc_stride = unat row, oc_w = unat w, oc_h = unat h\<rparr>) (google_fn ch (ir_fmt rgb))))"

datatype hw_pixfmt = HwNV12 | HwYUV420P

definition hw_direct_fn :: "hw_pixfmt \<Rightarrow> image_format \<Rightarrow> out_fn option" where
  "hw_direct_fn p fmt =
    (case (p, fmt) of
       (HwNV12, ImgARGB) \<Rightarrow> Some NV12ToARGB
     | (HwNV12, ImgABGR) \<Rightarrow> Some NV12ToABGR
     | (HwYUV420P, ImgARGB) \<Rightarrow> Some I420ToARGB
     | (HwYUV420P, ImgABGR) \<Rightarrow> Some I420ToABGR
     | (_, ImgRaw) \<Rightarrow> None)"

text \<open>
  \<open>HwRamDecoderImage::to_fmt\<close>. On Windows a picture in NV12 goes through \<open>i420\<close>, whose length
  \<open>i420_len\<close> is what ffmpeg says (none if it fails); \<open>ok\<close> says which calls libyuv accepts. The result
  has the calls that write \<open>raw\<close>, the new \<open>ImageRgb\<close> and the new length of \<open>i420\<close>.
\<close>

definition hw_to_fmt ::
  "bool \<Rightarrow> nat option \<Rightarrow> (out_fn \<Rightarrow> bool) \<Rightarrow> hw_pixfmt \<Rightarrow> u64 \<Rightarrow> u64 \<Rightarrow> image_rgb \<Rightarrow> nat
    \<Rightarrow> (string + unit) \<times> out_call list \<times> image_rgb \<times> nat" where
  "hw_to_fmt windows i420_len ok p w h rgb i420 =
    (let row = get_bytes_per_row w ImgARGB (ir_align rgb);
         rgb = rgb\<lparr>ir_w := w, ir_h := h, ir_len := unat (h * row)\<rparr>;
         finish = (\<lambda>f i420. case f of
             None \<Rightarrow> (Inl ''unsupported format'', [], rgb, i420)
           | Some f \<Rightarrow>
               (if ok f then Inr () else Inl ''FailedCall'',
                [\<lparr>oc_fn = f, oc_stride = unat row, oc_w = unat w, oc_h = unat h\<rparr>], rgb, i420))
     in if p = HwNV12 \<and> windows then
          (case i420_len of
             None \<Rightarrow> (Inl ''failed to get i420 linesize, offset, length'', [], rgb, i420)
           | Some n \<Rightarrow>
               if ok NV12ToI420 then finish (hw_direct_fn HwYUV420P (ir_fmt rgb)) n
               else (Inl ''FailedCall'', [], rgb, n))
        else finish (hw_direct_fn p (ir_fmt rgb)) i420)"

end
