(* ===== verification/ConvertProps.thy ===== *)
theory ConvertProps
  imports Convert HwEncoderProps
begin

text \<open>
  The conversion of pictures is safe: no call of libyuv reads or writes outside the buffers whose
  pointers it is given, for every picture and every layout that the encoders ask for.
\<close>

section \<open>What the libraries promise\<close>

text \<open>
  For a call on \<open>w\<close> by \<open>h\<close> pixels, libyuv touches so many bytes in each of so many rows of every plane
  (the planes of chroma have half of both, rounded up). \<open>touch\<close> is the library.
\<close>

type_synonym touch = "yuv_fn \<Rightarrow> nat \<Rightarrow> nat \<Rightarrow> (nat \<times> nat) list"

definition documented :: "yuv_fn \<Rightarrow> nat \<Rightarrow> nat \<Rightarrow> (nat \<times> nat) list" where
  "documented f w h =
    (let w2 = (w + 1) div 2; h2 = (h + 1) div 2 in
     case f of
       RGB565ToI420 \<Rightarrow> [(2 * w, h), (w, h), (w2, h2), (w2, h2)]
     | ARGBToI420 \<Rightarrow> [(4 * w, h), (w, h), (w2, h2), (w2, h2)]
     | ABGRToI420 \<Rightarrow> [(4 * w, h), (w, h), (w2, h2), (w2, h2)]
     | ARGBToNV12 \<Rightarrow> [(4 * w, h), (w, h), (2 * w2, h2)]
     | ABGRToNV12 \<Rightarrow> [(4 * w, h), (w, h), (2 * w2, h2)]
     | RGB565ToARGB \<Rightarrow> [(2 * w, h), (4 * w, h)]
     | ABGRToARGB \<Rightarrow> [(4 * w, h), (4 * w, h)]
     | ARGBToI444 \<Rightarrow> [(4 * w, h), (w, h), (w, h), (w, h)])"

text \<open>It may touch less.\<close>

definition touches_within :: "touch \<Rightarrow> bool" where
  "touches_within touch \<longleftrightarrow> (\<forall>f w h. list_all2 (\<lambda>d t. fst t \<le> fst d \<and> snd t \<le> snd d) (documented f w h) (touch f w h))"

text \<open>
  The layouts: rows as wide as the picture and planes one after another, as \<open>vpx_img_wrap\<close>,
  \<open>aom_img_wrap\<close> and the encoder of the hardware lay them out.
\<close>

definition layout_ok :: "yuv_format \<Rightarrow> bool" where
  "layout_ok F \<longleftrightarrow>
    (case (yf_fmt F, yf_stride F) of
       (PixI420, sy # suv # _) \<Rightarrow>
         yf_w F \<le> sy \<and> (yf_w F + 1) div 2 \<le> suv \<and> 2 * suv \<le> sy
         \<and> yf_u F \<le> yf_h F * sy \<and> yf_v F \<le> yf_u F + (yf_h F + 1) div 2 * suv
     | (PixNV12, sy # suv # _) \<Rightarrow>
         yf_w F \<le> sy \<and> 2 * ((yf_w F + 1) div 2) \<le> suv \<and> even suv \<and> yf_u F \<le> pad64 (yf_h F) * pad64 sy
     | (PixI444, sy # su # sv # _) \<Rightarrow>
         yf_w F \<le> sy \<and> yf_w F \<le> su \<and> yf_w F \<le> sv \<and> yf_u F \<le> pad64 (yf_h F) * pad64 sy
         \<and> yf_v F \<le> pad64 (yf_h F) * (pad64 sy + pad64 su)
     | (PixBGRA, _) \<Rightarrow> True
     | (PixRGBA, _) \<Rightarrow> True
     | (PixRGB565LE, _) \<Rightarrow> True
     | _ \<Rightarrow> False)"

section \<open>Rectangles in buffers\<close>

definition rect_fits :: "nat \<Rightarrow> plane \<Rightarrow> nat \<times> nat \<Rightarrow> bool" where
  "rect_fits len p r \<longleftrightarrow>
    fst r = 0 \<or> snd r = 0 \<or> pl_off p + (snd r - 1) * pl_stride p + fst r \<le> len"

definition buf_len :: "pixel_buffer \<Rightarrow> conv_state \<Rightarrow> buf \<Rightarrow> nat" where
  "buf_len B st b = (case b of SrcBuf \<Rightarrow> pb_len B | MidBuf \<Rightarrow> cv_mid st | DstBuf \<Rightarrow> cv_dst st)"

definition call_safe :: "touch \<Rightarrow> pixel_buffer \<Rightarrow> conv_state \<Rightarrow> yuv_call \<Rightarrow> bool" where
  "call_safe touch B st c \<longleftrightarrow>
    list_all2 (\<lambda>p r. rect_fits (buf_len B st (pl_buf p)) p r) (yc_planes c) (touch (yc_fn c) (yc_w c) (yc_h c))"

lemma rect_fits_mono: "rect_fits len p (b, s) \<Longrightarrow> a \<le> b \<Longrightarrow> r \<le> s \<Longrightarrow> rect_fits len p (a, r)"
proof -
  assume fits: "rect_fits len p (b, s)" and le: "a \<le> b" "r \<le> s"
  have "(r - 1) * pl_stride p \<le> (s - 1) * pl_stride p" by (intro mult_le_mono1 diff_le_mono le)
  moreover have "a = 0 \<or> r = 0 \<or> pl_off p + (s - 1) * pl_stride p + b \<le> len"
    using fits le by (auto simp: rect_fits_def)
  ultimately show ?thesis using le(1) unfolding rect_fits_def fst_conv snd_conv by linarith
qed

lemma rect_fitsI:
  assumes "bytes \<le> stride" "off + rows * stride \<le> len"
  shows "rect_fits len (plane_at b off stride) (bytes, rows)"
proof (cases rows)
  case (Suc n)
  then show ?thesis using assms by (simp add: rect_fits_def plane_at_def)
qed (simp add: rect_fits_def)

lemma call_safe_documented:
  assumes "touches_within touch" "call_safe documented B st c" shows "call_safe touch B st c"
proof -
  have t: "list_all2 (\<lambda>d t. fst t \<le> fst d \<and> snd t \<le> snd d) (documented (yc_fn c) (yc_w c) (yc_h c))
      (touch (yc_fn c) (yc_w c) (yc_h c))"
    using assms(1) by (simp add: touches_within_def)
  have "rect_fits len p r" if "rect_fits len p d" "fst r \<le> fst d \<and> snd r \<le> snd d" for len p d r
    using that by (cases d, cases r) (auto intro: rect_fits_mono)
  then show ?thesis
    unfolding call_safe_def by (rule list_all2_trans [OF _ assms(2) [unfolded call_safe_def] t])
qed

lemma plane_at_buf [simp]: "pl_buf (plane_at b off s) = b"
  by (simp add: plane_at_def)

lemma pad64_ge: "x \<le> pad64 x" "2 * ((x + 1) div 2) \<le> pad64 x"
proof -
  have le: "2 * ((x + 1) div 2) \<le> 2 * k" if "x \<le> 2 * k" for k :: nat using that by arith
  show x: "x \<le> pad64 x" unfolding pad64_def by linarith
  have "pad64 x = 2 * ((x + 63) div 64 * 32)" by (simp add: pad64_def)
  then show "2 * ((x + 1) div 2) \<le> pad64 x" using x le by metis
qed

lemma half_rows: "2 * s1 \<le> s0 \<Longrightarrow> 2 * ((H + 1) div 2 * s1) \<le> H * (s0 :: nat)"
proof -
  assume s: "2 * s1 \<le> s0"
  have "2 * ((H + 1) div 2) \<le> 2 * H" by presburger
  then have "2 * ((H + 1) div 2 * s1) \<le> 2 * H * s1" by (metis mult.assoc mult_le_mono1)
  also have "\<dots> \<le> H * s0" using mult_le_mono2 [OF s, of H] by (simp add: ac_simps)
  finally show ?thesis .
qed

section \<open>No call leaves its buffers\<close>

definition conv_safe :: "touch \<Rightarrow> pixel_buffer \<Rightarrow> conv \<Rightarrow> bool" where
  "conv_safe touch B r \<longleftrightarrow> fst r \<noteq> Inl ConvPanic \<and> list_all (call_safe touch B (snd r)) (cv_calls (snd r))"

lemma call_yuv_safe:
  assumes "touches_within touch" "list_all (call_safe documented B st) (c # cv_calls st)"
    and "\<And>st'. st' = st\<lparr>cv_calls := cv_calls st @ [c]\<rparr> \<Longrightarrow> list_all (call_safe documented B st') (cv_calls st')
           \<Longrightarrow> conv_safe touch B (k st')"
  shows "conv_safe touch B (call_yuv ok c st k)"
proof -
  let ?st = "st\<lparr>cv_calls := cv_calls st @ [c]\<rparr>"
  have "buf_len B ?st = buf_len B st"
    by (simp add: buf_len_def fun_eq_iff split: buf.split)
  then have s: "call_safe t B ?st = call_safe t B st" for t
    by (simp add: call_safe_def fun_eq_iff)
  have d: "list_all (call_safe documented B ?st) (cv_calls ?st)"
    using assms(2) by (simp add: s)
  moreover have "list_all (call_safe touch B ?st) (cv_calls ?st)"
    using d call_safe_documented [OF assms(1)] by (auto simp: list_all_iff)
  ultimately show ?thesis
    using assms(3) [OF refl d] by (simp add: call_yuv_def conv_safe_def Let_def)
qed

lemma conv_done_safe:
  "touches_within touch \<Longrightarrow> list_all (call_safe documented B st) (cv_calls st) \<Longrightarrow> conv_safe touch B (conv_done st)"
  by (auto simp: conv_done_def conv_safe_def list_all_iff call_safe_documented)

lemma call_yuv_done:
  assumes "touches_within touch" "list_all (call_safe documented B st) (c # cv_calls st)"
  shows "conv_safe touch B (call_yuv ok c st conv_done)"
  by (rule call_yuv_safe [OF assms]) (simp add: conv_done_safe assms(1))

lemma plane_fits:
  assumes "bytes \<le> stride" "rows \<le> R" "off + R * stride \<le> len"
  shows "rect_fits len (plane_at b off stride) (bytes, rows)"
  by (rule rect_fitsI [OF assms(1)])
    (rule order_trans [OF add_left_mono [OF mult_le_mono1 [OF assms(2)]] assms(3)])

text \<open>What the checks of the source leave to be shown.\<close>

lemma source_fits:
  assumes "n * pb_w B \<le> s" "s * pb_h B \<le> len"
  shows "rect_fits len (plane_at b 0 s) (n * pb_w B, pb_h B)"
  by (rule plane_fits [OF assms(1) order_refl]) (use assms(2) in \<open>simp add: mult.commute\<close>)

lemma to_i420_safe:
  assumes "touches_within touch" "layout_ok F" "yf_fmt F = PixI420" "cv_calls st = []"
    and "pb_w B \<le> yf_w F" "pb_h B \<le> yf_h F"
    and "pb_stride B = s # ss" "n * pb_w B \<le> s" "s * pb_h B \<le> pb_len B"
    and f: "f = ARGBToI420 \<and> n = 4 \<or> f = ABGRToI420 \<and> n = 4 \<or> f = RGB565ToI420 \<and> n = 2"
  shows "conv_safe touch B (to_i420 ok f B F st)"
proof -
  obtain sy suv sr where st: "yf_stride F = sy # suv # sr"
    using assms(2,3) by (auto simp: layout_ok_def split: list.splits)
  have l: "yf_w F \<le> sy" "(yf_w F + 1) div 2 \<le> suv" "2 * suv \<le> sy" "yf_u F \<le> yf_h F * sy"
    "yf_v F \<le> yf_u F + (yf_h F + 1) div 2 * suv"
    using assms(2,3) by (auto simp: layout_ok_def st)
  have w: "pb_w B \<le> sy" "(pb_w B + 1) div 2 \<le> suv" "(pb_h B + 1) div 2 \<le> (yf_h F + 1) div 2"
    using l(1,2) assms(5,6) by arith+
  let ?len = "yf_h F * sy * 2"
  have v: "yf_v F + (yf_h F + 1) div 2 * suv \<le> ?len" "yf_u F + (yf_h F + 1) div 2 * suv \<le> ?len"
    using l(4,5) half_rows [OF l(3), of "yf_h F"] by linarith+
  have planes: "rect_fits ?len (plane_at DstBuf 0 sy) (pb_w B, pb_h B)"
    by (rule plane_fits [OF w(1) assms(6)]) simp
  note planes = planes source_fits [OF assms(8,9)] plane_fits [OF w(2,3) v(1)] plane_fits [OF w(2,3) v(2)]
  have "yf_u F \<le> ?len" "yf_v F \<le> ?len" using v by linarith+
  then show ?thesis
    using f planes
    by (auto simp: to_i420_def st assms(4,7) buf_len_def call_safe_def documented_def Let_def
        intro!: call_yuv_done [OF assms(1)])
qed

lemma expand_565_safe:
  assumes "touches_within touch" "cv_calls st = []" "pb_stride B = s # ss" "2 * pb_w B \<le> s" "s * pb_h B \<le> pb_len B"
    and k: "\<And>st'. cv_dst st' = cv_dst st \<Longrightarrow> cv_mid st' = 4 * pb_w B * pb_h B \<Longrightarrow>
      list_all (call_safe documented B st') (cv_calls st') \<Longrightarrow> conv_safe touch B (k (plane_at MidBuf 0 (4 * pb_w B)) st')"
  shows "conv_safe touch B (expand_565 ok B st k)"
proof -
  have "rect_fits (4 * pb_w B * pb_h B) (plane_at MidBuf 0 (4 * pb_w B)) (4 * pb_w B, pb_h B)"
    by (rule source_fits) simp_all
  then show ?thesis
    using source_fits [OF assms(4,5)]
    by (auto simp: expand_565_def assms(2,3) Let_def call_safe_def documented_def buf_len_def mult.commute [of _ 4]
        intro!: call_yuv_safe [OF assms(1)] k)
qed

lemma to_nv12_safe:
  assumes "touches_within touch" "layout_ok F" "yf_fmt F = PixNV12" "cv_calls st = []"
    and "pb_w B \<le> yf_w F" "pb_h B \<le> yf_h F" "is_rgb (pb_fmt B)"
    and "pb_stride B = s # ss" "pb_w B * bytes_per_pixel (pb_fmt B) \<le> s" "s * pb_h B \<le> pb_len B"
  shows "conv_safe touch B (to_nv12 ok B F st)"
proof -
  obtain sy suv sr where st: "yf_stride F = sy # suv # sr"
    using assms(2,3) by (auto simp: layout_ok_def split: list.splits)
  have l: "yf_w F \<le> sy" "2 * ((yf_w F + 1) div 2) \<le> suv" "even suv" "yf_u F \<le> pad64 (yf_h F) * pad64 sy"
    using assms(2,3) by (auto simp: layout_ok_def st)
  let ?len = "pad64 (yf_h F) * (pad64 sy + pad64 (suv div 2))"
  have w: "pb_w B \<le> sy" "2 * ((pb_w B + 1) div 2) \<le> suv" "(pb_h B + 1) div 2 \<le> (yf_h F + 1) div 2"
    using l(1,2) assms(5,6) by arith+
  have "(yf_h F + 1) div 2 * suv = 2 * ((yf_h F + 1) div 2) * (suv div 2)"
    using l(3) by (simp add: mult.commute mult.left_commute)
  also have "\<dots> \<le> pad64 (yf_h F) * pad64 (suv div 2)" by (intro mult_le_mono pad64_ge)
  finally have u: "yf_u F + (yf_h F + 1) div 2 * suv \<le> ?len" using l(4) by (simp add: distrib_left)
  have y: "0 + yf_h F * sy \<le> ?len"
    using mult_le_mono [OF pad64_ge(1) [of "yf_h F"] pad64_ge(1) [of sy]] by (simp add: distrib_left)
  note planes = plane_fits [OF w(1) assms(6) y] plane_fits [OF w(2,3) u]
  have n: "pb_fmt B = PixBGRA \<Longrightarrow> 4 * pb_w B \<le> s" "pb_fmt B = PixRGBA \<Longrightarrow> 4 * pb_w B \<le> s"
    "pb_fmt B = PixRGB565LE \<Longrightarrow> 2 * pb_w B \<le> s"
    using assms(9) by (simp_all add: bytes_per_pixel_def)
  have mid: "rect_fits (4 * pb_w B * pb_h B) (plane_at MidBuf 0 (4 * pb_w B)) (4 * pb_w B, pb_h B)"
    by (rule source_fits) simp_all
  have "yf_u F \<le> ?len" using u by linarith
  then show ?thesis
    using planes n source_fits [OF _ assms(10)] assms(7) mid
    by (auto simp: to_nv12_def st assms(4,8) is_rgb_def buf_len_def call_safe_def documented_def Let_def
        intro!: call_yuv_done [OF assms(1)] expand_565_safe [OF assms(1) _ assms(8) _ assms(10)])
qed

lemma to_i444_safe:
  assumes "touches_within touch" "layout_ok F" "yf_fmt F = PixI444" "cv_calls st = []"
    and "pb_w B \<le> yf_w F" "pb_h B \<le> yf_h F" "is_rgb (pb_fmt B)"
    and "pb_stride B = s # ss" "pb_w B * bytes_per_pixel (pb_fmt B) \<le> s" "s * pb_h B \<le> pb_len B"
  shows "conv_safe touch B (to_i444 ok B F st)"
proof -
  obtain sy su sv sr where st: "yf_stride F = sy # su # sv # sr"
    using assms(2,3) by (auto simp: layout_ok_def split: list.splits)
  have l: "yf_w F \<le> sy" "yf_w F \<le> su" "yf_w F \<le> sv" "yf_u F \<le> pad64 (yf_h F) * pad64 sy"
    "yf_v F \<le> pad64 (yf_h F) * (pad64 sy + pad64 su)"
    using assms(2,3) by (auto simp: layout_ok_def st)
  let ?len = "pad64 (yf_h F) * (pad64 sy + pad64 su + pad64 sv)"
  have p: "yf_h F * x \<le> pad64 (yf_h F) * pad64 x" for x by (intro mult_le_mono pad64_ge)
  have y: "0 + yf_h F * sy \<le> ?len" "yf_u F + yf_h F * su \<le> ?len" "yf_v F + yf_h F * sv \<le> ?len"
    using p [of sy] p [of su] p [of sv] l(4,5) by (simp_all add: distrib_left)
  have w: "pb_w B \<le> sy" "pb_w B \<le> su" "pb_w B \<le> sv" using l(1-3) assms(5) by linarith+
  note planes = plane_fits [OF w(1) assms(6) y(1)] plane_fits [OF w(2) assms(6) y(2)] plane_fits [OF w(3) assms(6) y(3)]
  have n: "pb_fmt B = PixBGRA \<Longrightarrow> 4 * pb_w B \<le> s" "pb_fmt B = PixRGBA \<Longrightarrow> 4 * pb_w B \<le> s"
    "pb_fmt B = PixRGB565LE \<Longrightarrow> 2 * pb_w B \<le> s"
    using assms(9) by (simp_all add: bytes_per_pixel_def)
  have mid: "rect_fits (4 * pb_w B * pb_h B) (plane_at MidBuf 0 (4 * pb_w B)) (4 * pb_w B, pb_h B)"
    by (rule source_fits) simp_all
  have "yf_u F \<le> ?len" "yf_v F \<le> ?len" using y by linarith+
  then show ?thesis
    using planes n source_fits [OF _ assms(10)] assms(7) mid
    by (auto simp: to_i444_def st assms(4,8) is_rgb_def buf_len_def call_safe_def documented_def Let_def
        intro!: call_yuv_done [OF assms(1)] call_yuv_safe [OF assms(1)] expand_565_safe [OF assms(1) _ assms(8) _ assms(10)])
qed

lemma check_source_None:
  assumes "check_source B F = None"
  shows "pb_w B \<le> yf_w F \<and> pb_h B \<le> yf_h F
    \<and> (is_rgb (pb_fmt B) \<longrightarrow> (\<exists>s ss. pb_stride B = s # ss \<and> pb_w B * bytes_per_pixel (pb_fmt B) \<le> s \<and> s * pb_h B \<le> pb_len B))"
  using assms by (auto simp: check_source_def split: if_splits list.splits)

lemma check_source_panic: "check_source B F = Some ConvPanic \<Longrightarrow> pb_stride B = []"
  by (auto simp: check_source_def split: if_splits list.splits)

lemma convert_safe_if_checked:
  assumes "touches_within touch" "layout_ok F" "cv_calls st = []" "check_source B F = None"
  shows "conv_safe touch B (convert_to_yuv ok B F st)"
proof -
  have wh: "pb_w B \<le> yf_w F" "pb_h B \<le> yf_h F" using check_source_None [OF assms(4)] by simp_all
  have un: "conv_safe touch B (Inl ConvUnsupported, st)" by (simp add: conv_safe_def assms(3))
  show ?thesis
  proof (cases "is_rgb (pb_fmt B)")
    case False
    then show ?thesis using un assms(4)
      by (cases "pb_fmt B"; cases "yf_fmt F") (simp_all add: convert_to_yuv_def is_rgb_def)
  next
    case True
    obtain s ss where s: "pb_stride B = s # ss" "pb_w B * bytes_per_pixel (pb_fmt B) \<le> s" "s * pb_h B \<le> pb_len B"
      using check_source_None [OF assms(4)] True by blast
    have i420: "conv_safe touch B (to_i420 ok f B F st)"
      if "yf_fmt F = PixI420" "f = ARGBToI420 \<and> pb_fmt B = PixBGRA \<or> f = ABGRToI420 \<and> pb_fmt B = PixRGBA
        \<or> f = RGB565ToI420 \<and> pb_fmt B = PixRGB565LE" for f
      by (rule to_i420_safe [OF assms(1,2) that(1) assms(3) wh s(1) _ s(3), where n = "bytes_per_pixel (pb_fmt B)"])
        (use s(2) that(2) in \<open>auto simp: bytes_per_pixel_def mult.commute\<close>)
    note others = to_nv12_safe [OF assms(1,2) _ assms(3) wh True s] to_i444_safe [OF assms(1,2) _ assms(3) wh True s]
    show ?thesis
      using True i420 others un assms(4)
      by (cases "pb_fmt B"; cases "yf_fmt F") (simp_all add: convert_to_yuv_def is_rgb_def)
  qed
qed

text \<open>
  C19: Whatever picture is captured, converting it for an encoder neither indexes outside a slice nor lets
  libyuv read or write outside the captured picture, the intermediate picture or the output, also when
  a call of the library fails half way.
\<close>

theorem conversion_memory_safe:
  assumes "touches_within touch" "layout_ok F" "pb_stride B \<noteq> []"
  shows "(let (r, st) = convert_to_yuv ok B F \<lparr>cv_dst = d, cv_mid = m, cv_calls = []\<rparr>
          in r \<noteq> Inl ConvPanic \<and> (\<forall>c\<in>set (cv_calls st). call_safe touch B st c))"
proof (cases "check_source B F")
  case None
  from convert_safe_if_checked [OF assms(1,2) _ None, of "\<lparr>cv_dst = d, cv_mid = m, cv_calls = []\<rparr>" ok]
  show ?thesis by (simp add: conv_safe_def list_all_iff split_beta Let_def)
next
  case (Some e)
  then have "e \<noteq> ConvPanic" using check_source_panic assms(3) by auto
  then show ?thesis using Some by (simp add: convert_to_yuv_def)
qed

definition demo_buffer :: pixel_buffer where
  "demo_buffer = \<lparr>pb_len = 40 * 11, pb_stride = [40], pb_fmt = PixBGRA, pb_w = 10, pb_h = 11\<rparr>"

definition demo_layout :: yuv_format where
  "demo_layout = \<lparr>yf_fmt = PixI420, yf_w = 10, yf_h = 12, yf_stride = [64, 32, 32, 0], yf_u = 768, yf_v = 960\<rparr>"

lemma documented_within: "touches_within documented"
  by (simp add: touches_within_def list_all2_same)

lemma conversion_memory_safe_witness:
  "snd (convert_to_yuv (\<lambda>_. True) demo_buffer demo_layout \<lparr>cv_dst = 0, cv_mid = 0, cv_calls = []\<rparr>)
      = \<lparr>cv_dst = 1536, cv_mid = 0, cv_calls = [\<lparr>yc_fn = ARGBToI420,
          yc_planes = [plane_at SrcBuf 0 40, plane_at DstBuf 0 64, plane_at DstBuf 768 32, plane_at DstBuf 960 32],
          yc_w = 10, yc_h = 11\<rparr>]\<rparr>
    \<and> fst (convert_to_yuv (\<lambda>_. True) demo_buffer demo_layout \<lparr>cv_dst = 0, cv_mid = 0, cv_calls = []\<rparr>) \<noteq> Inl ConvPanic"
proof (rule conjI)
  have "layout_ok demo_layout" "pb_stride demo_buffer \<noteq> []"
    by (simp_all add: layout_ok_def demo_layout_def demo_buffer_def)
  from conversion_memory_safe [OF documented_within this, of "\<lambda>_. True" 0 0]
  show "fst (convert_to_yuv (\<lambda>_. True) demo_buffer demo_layout \<lparr>cv_dst = 0, cv_mid = 0, cv_calls = []\<rparr>) \<noteq> Inl ConvPanic"
    by (simp add: split_beta Let_def)
qed (simp add: convert_to_yuv_def check_source_def to_i420_def call_yuv_def conv_done_def demo_buffer_def demo_layout_def
    is_rgb_def bytes_per_pixel_def)

text \<open>
  What was converted for a software encoder is long enough for it: \<^verbatim>\<open>encode\<close> never rejects its
  length and hands it to the library.
\<close>

theorem converted_accepted:
  assumes "layout_ok F" "yf_fmt F = (if so_i444 e then PixI444 else PixI420)"
    and "so_width e \<le> yf_w F" "so_height e \<le> yf_h F"
    and "convert_to_yuv ok B F \<lparr>cv_dst = d, cv_mid = m, cv_calls = []\<rparr> = (Inr (), st)" "length data = cv_dst st"
  shows "soft_encode lib e pts data = map_sum id encode_frames (sl_encode lib pts data)"
proof -
  have wh: "so_width e * so_height e \<le> yf_h F * y" if "yf_w F \<le> y" for y
    using mult_le_mono [OF assms(4) order_trans [OF assms(3) that]] by (simp add: mult.commute)
  have "so_width e * so_height e * (if so_i444 e then 24 else 12) div 8 \<le> cv_dst st"
  proof (cases "so_i444 e")
    case False
    obtain sy suv sr where st: "yf_stride F = sy # suv # sr" and sy: "yf_w F \<le> sy"
      using assms(1,2) False by (auto simp: layout_ok_def split: list.splits)
    have "cv_dst st = yf_h F * sy * 2"
      using assms(2,5) False st
      by (auto simp: convert_to_yuv_def to_i420_def call_yuv_def conv_done_def is_rgb_def Let_def
          split: option.splits pixfmt.splits if_splits)
    moreover have "n * 12 div 8 \<le> k * 2" if "n \<le> k" for n k :: nat using that by linarith
    note this [OF wh [OF sy]]
    ultimately show ?thesis using False by simp
  next
    case True
    obtain sy su sv sr where st: "yf_stride F = sy # su # sv # sr"
      and s: "yf_w F \<le> sy" "yf_w F \<le> su" "yf_w F \<le> sv"
      using assms(1,2) True by (auto simp: layout_ok_def split: list.splits)
    have "cv_dst st = pad64 (yf_h F) * (pad64 sy + pad64 su + pad64 sv)"
      using assms(2,5) True st
      by (auto simp: convert_to_yuv_def to_i444_def call_yuv_def conv_done_def expand_565_def is_rgb_def Let_def
          split: option.splits pixfmt.splits if_splits)
    moreover have "yf_h F * y \<le> pad64 (yf_h F) * pad64 y" for y by (intro mult_le_mono pad64_ge)
    note this [of sy] this [of su] this [of sv]
    ultimately have "3 * (so_width e * so_height e) \<le> cv_dst st"
      using wh [OF s(1)] wh [OF s(2)] wh [OF s(3)] by (simp add: distrib_left)
    then show ?thesis using True by (simp add: mult.commute)
  qed
  then show ?thesis using assms(6) by (simp add: soft_encode_def)
qed

lemma converted_accepted_witness:
  "soft_encode demo_soft \<lparr>so_cfg = vpx_enc_cfg None demo_lerp 4 demo_vpx False, so_width = 10, so_height = 11, so_i444 = False\<rparr>
     5 (replicate 1536 0) = Inr []"
proof -
  let ?e = "\<lparr>so_cfg = vpx_enc_cfg None demo_lerp 4 demo_vpx False, so_width = 10, so_height = 11, so_i444 = False\<rparr>"
  have c: "convert_to_yuv (\<lambda>_. True) demo_buffer demo_layout \<lparr>cv_dst = 0, cv_mid = 0, cv_calls = []\<rparr>
    = (Inr (), snd (convert_to_yuv (\<lambda>_. True) demo_buffer demo_layout \<lparr>cv_dst = 0, cv_mid = 0, cv_calls = []\<rparr>))"
    "cv_dst (snd (convert_to_yuv (\<lambda>_. True) demo_buffer demo_layout \<lparr>cv_dst = 0, cv_mid = 0, cv_calls = []\<rparr>)) = 1536"
    by (simp_all add: convert_to_yuv_def check_source_def to_i420_def call_yuv_def conv_done_def demo_buffer_def
        demo_layout_def is_rgb_def bytes_per_pixel_def)
  have "soft_encode demo_soft ?e 5 (replicate 1536 0) = map_sum id encode_frames (sl_encode demo_soft 5 (replicate 1536 0))"
    by (rule converted_accepted [OF _ _ _ _ c(1)])
      (simp_all only: c(2) length_replicate, simp_all add: layout_ok_def demo_layout_def)
  then show ?thesis by (simp add: demo_soft_def)
qed

section \<open>Decoded pictures\<close>

text \<open>For each pixel libyuv writes so many bytes, in rows at the stride it is given.\<close>

definition out_bytes :: "out_fn \<Rightarrow> nat" where
  "out_bytes f = (if f = I420ToRAW then 3 else 4)"

definition out_inside :: "nat \<Rightarrow> out_call \<Rightarrow> bool" where
  "out_inside len c \<longleftrightarrow> rect_fits len (plane_at DstBuf 0 (oc_stride c)) (out_bytes (oc_fn c) * oc_w c, oc_h c)"

lemma rows_inside:
  assumes "k < 64" "unat w * bytes_of_format fmt + 2 ^ k \<le> 2 ^ 64"
    and "unat h * (unat w * bytes_of_format fmt + 2 ^ k) < 2 ^ 64"
    and "out_bytes f \<le> bytes_of_format fmt"
  shows "out_inside (unat (h * get_bytes_per_row w fmt (2 ^ k)))
      \<lparr>oc_fn = f, oc_stride = unat (get_bytes_per_row w fmt (2 ^ k)), oc_w = unat w, oc_h = unat h\<rparr>"
proof -
  let ?row = "get_bytes_per_row w fmt (2 ^ k)"
  note r = row_bytes_room [OF assms(1,2)]
  have "unat h * unat ?row \<le> unat h * (unat w * bytes_of_format fmt + 2 ^ k)"
    using r by (intro mult_le_mono2) linarith
  then have "unat h * unat ?row < 2 ^ 64" using assms(3) by (rule le_less_trans)
  then have "unat h * unat ?row < 2 ^ LENGTH(64)" by (simp only: semiring_norm len_of_numeral_defs)
  then have l: "unat (h * ?row) = unat h * unat ?row" by (simp only: unat_mult_lem)
  have "out_bytes f * unat w \<le> unat ?row"
  proof -
    have "out_bytes f * unat w \<le> unat w * bytes_of_format fmt"
      using mult_le_mono1 [OF assms(4)] by (metis mult.commute)
    then show ?thesis using r by linarith
  qed
  then show ?thesis unfolding out_inside_def l by (auto intro: plane_fits)
qed

text \<open>
  C31: A decoded picture is written inside the buffer that was made for it, by software and by hardware
  decoders and for every format, when the alignment of the rows is a power of two and the size of the
  picture does not overflow.
\<close>

theorem picture_written_inside:
  assumes "k < 64" "ir_align rgb = 2 ^ k" "unat h * (unat w * 4 + 2 ^ k) < 2 ^ 64" "0 < unat h"
  shows "(case google_to ch w h rgb of (rgb', c) \<Rightarrow> (case c of None \<Rightarrow> True | Some c \<Rightarrow> out_inside (ir_len rgb') c))
    \<and> (case hw_to_fmt windows n ok p w h rgb i420 of (_, cs, rgb', _) \<Rightarrow> list_all (out_inside (ir_len rgb')) cs)"
proof -
  have "unat w * 4 + 2 ^ k \<le> unat h * (unat w * 4 + 2 ^ k)" using assms(4) by simp
  moreover have n: "unat w * bytes_of_format fmt + 2 ^ k \<le> unat w * 4 + 2 ^ k" for fmt
    by (simp add: bytes_of_format_def)
  moreover have "unat h * (unat w * bytes_of_format fmt + 2 ^ k) \<le> unat h * (unat w * 4 + 2 ^ k)" for fmt
    by (rule mult_le_mono2 [OF n])
  ultimately have b: "unat w * bytes_of_format fmt + 2 ^ k \<le> 2 ^ 64"
    "unat h * (unat w * bytes_of_format fmt + 2 ^ k) < 2 ^ 64" for fmt
    using assms(3) by (meson le_less_trans less_imp_le order_trans)+
  note r = rows_inside [OF assms(1) b]
  have f: "google_fn ch fmt = Some f \<Longrightarrow> out_bytes f \<le> bytes_of_format fmt"
    "out_bytes f \<le> bytes_of_format ImgARGB" for ch f fmt
    by (auto simp: google_fn_def out_bytes_def bytes_of_format_def split: plane_chroma.splits image_format.splits)
  show ?thesis
    using assms(2) r f
    by (auto simp: google_to_def hw_to_fmt_def Let_def split: option.split)
qed

lemma picture_written_inside_witness:
  "out_inside 5376 \<lparr>oc_fn = I420ToARGB, oc_stride = 448, oc_w = 100, oc_h = 12\<rparr>"
proof -
  have "get_bytes_per_row 100 ImgARGB 64 = 448" by (simp add: get_bytes_per_row_def)
  then show ?thesis
    using picture_written_inside [of 6 "new_image_rgb ImgARGB 64" 12 100 Planes420]
    by (simp add: google_to_def google_fn_def new_image_rgb_def Let_def)
qed

text \<open>
  With rows aligned to zero the subtraction wraps around (in a release build), the buffer is made
  empty and libyuv is still told to write the picture.
\<close>

theorem zero_alignment_unsafe:
  assumes "ir_align rgb = 0" "0 < unat w" "0 < unat h" "google_fn ch (ir_fmt rgb) = Some f"
  shows "(case google_to ch w h rgb of (rgb', c) \<Rightarrow>
    ir_len rgb' = 0 \<and> (\<exists>call. c = Some call \<and> \<not> out_inside (ir_len rgb') call))"
  using assms
  by (auto simp: google_to_def get_bytes_per_row_def out_inside_def rect_fits_def plane_at_def out_bytes_def Let_def)

lemma zero_alignment_unsafe_witness:
  "ir_len (fst (google_to Planes420 100 12 (new_image_rgb ImgARGB 0))) = 0"
  using zero_alignment_unsafe [of "new_image_rgb ImgARGB 0" 100 12 Planes420 I420ToARGB]
  by (simp add: new_image_rgb_def google_fn_def split_beta)

end
