(* ===== verification/WinClip.thy ===== *)
theory WinClip
  imports ClipMsg
begin

text \<open>
  The clipboard on Windows (\<open>libs/clipboard/src/platform/windows.rs\<close>): the messages between the Rust
  side and the C library behind it. Messages of the peer become C structures for the functions that the
  library has put into the context (\<open>server_clip_file\<close>); structures that the library hands to the
  callbacks become messages of the channels. The library is an argument: its functions and what it
  answers. A C string is the list of its bytes before the terminating zero, a null pointer is \<open>None\<close>.
\<close>

section \<open>C structures\<close>

record c_header =
  hd_conn :: u32
  hd_type :: u16
  hd_flags :: u16
  hd_len :: u32

record c_format =
  cf_id :: u32
  cf_name :: "string option"

record c_contents_request =
  cr_stream :: u32
  cr_index :: u32
  cr_flags :: u32
  cr_low :: u32
  cr_high :: u32
  cr_requested :: u32
  cr_have_id :: u32
  cr_clip_id :: u32

datatype c_msg =
    CMonitorReady c_header
  | CFormatList c_header u32 "c_format list"
  | CFormatListResponse c_header
  | CFormatDataRequest c_header u32
  | CFormatDataResponse c_header "bytes option"
  | CContentsRequest c_header c_contents_request
  | CContentsResponse c_header u32 u32 "bytes option"

datatype c_kind = KMonitorReady | KFormatList | KFormatListResponse | KFormatDataRequest | KFormatDataResponse
  | KContentsRequest | KContentsResponse

fun kind_of :: "c_msg \<Rightarrow> c_kind" where
  "kind_of (CMonitorReady _) = KMonitorReady"
| "kind_of (CFormatList _ _ _) = KFormatList"
| "kind_of (CFormatListResponse _) = KFormatListResponse"
| "kind_of (CFormatDataRequest _ _) = KFormatDataRequest"
| "kind_of (CFormatDataResponse _ _) = KFormatDataResponse"
| "kind_of (CContentsRequest _ _) = KContentsRequest"
| "kind_of (CContentsResponse _ _ _ _) = KContentsResponse"

section \<open>The context\<close>

text \<open>The functions of the library by the kind of message; none of those in the code's own fields.\<close>

record clip_context =
  cx_files :: bool
  cx_others :: bool
  cx_stopped :: bool
  cx_timeout :: u32
  cx_server :: "c_kind \<Rightarrow> (c_msg \<Rightarrow> u32) option"

text \<open>\<open>init\<close> is the library: it fills in its functions or fails.\<close>

definition create_context ::
  "(clip_context \<Rightarrow> clip_context option) \<Rightarrow> bool \<Rightarrow> bool \<Rightarrow> u32 \<Rightarrow> cliprdr_error + clip_context" where
  "create_context init enable_files enable_others timeout =
    (case init \<lparr>cx_files = enable_files, cx_others = enable_others, cx_stopped = False, cx_timeout = timeout,
                cx_server = (\<lambda>_. None)\<rparr> of
       None \<Rightarrow> Inl CliprdrInit
     | Some c \<Rightarrow> Inr c)"

definition set_is_stopped :: "clip_context \<Rightarrow> (cliprdr_error + unit) \<times> clip_context" where
  "set_is_stopped c = (Inr (), c\<lparr>cx_stopped := True\<rparr>)"

definition win_empty_clipboard :: "(u32 \<Rightarrow> u32) \<Rightarrow> i32 \<Rightarrow> cliprdr_error + bool" where
  "win_empty_clipboard empty_cliprdr conn = Inr (empty_cliprdr conn = 1)"

definition err_server_function_none :: u32 where "err_server_function_none = 1"
definition err_invalid_parameter :: u32 where "err_invalid_parameter = 2"
definition err_send_msg :: u32 where "err_send_msg = 3"

definition ret_to_result :: "u32 \<Rightarrow> cliprdr_error + unit" where
  "ret_to_result ret =
    (if ret = 0 then Inr ()
     else if ret = 12 then Inl CliprdrOutOfMemory
     else if ret = 0x54F then Inl ClipboardInternalError
     else Inl (UnknownError ret))"

section \<open>From the peer to the library\<close>

definition header :: "i32 \<Rightarrow> u16 \<Rightarrow> u32 \<Rightarrow> c_header" where
  "header conn flags len = \<lparr>hd_conn = conn, hd_type = 0, hd_flags = flags, hd_len = len\<rparr>"

text \<open>A name with a zero in it becomes the empty name.\<close>

definition c_string :: "string \<Rightarrow> string" where
  "c_string s = (if CHR 0x00 \<in> set s then [] else s)"

definition c_format_of :: "i32 \<times> string \<Rightarrow> c_format" where
  "c_format_of f = \<lparr>cf_id = fst f, cf_name = (if snd f = [] then None else Some (c_string (snd f)))\<rparr>"

definition server_format_list :: "i32 \<Rightarrow> (i32 \<times> string) list \<Rightarrow> c_msg" where
  "server_format_list conn format_list =
    CFormatList (header conn 0 0) (of_nat (length format_list)) (map c_format_of format_list)"

definition server_format_list_response :: "i32 \<Rightarrow> i32 \<Rightarrow> c_msg" where
  "server_format_list_response conn fl = CFormatListResponse (header conn (ucast fl) 0)"

definition server_format_data_request :: "i32 \<Rightarrow> i32 \<Rightarrow> c_msg" where
  "server_format_data_request conn format_id = CFormatDataRequest (header conn 0 0) format_id"

definition server_format_data_response :: "i32 \<Rightarrow> i32 \<Rightarrow> bytes \<Rightarrow> c_msg" where
  "server_format_data_response conn fl data =
    CFormatDataResponse (header conn (ucast fl) (of_nat (length data))) (Some data)"

definition server_file_contents_request ::
  "i32 \<Rightarrow> i32 \<Rightarrow> i32 \<Rightarrow> i32 \<Rightarrow> i32 \<Rightarrow> i32 \<Rightarrow> i32 \<Rightarrow> bool \<Rightarrow> i32 \<Rightarrow> c_msg" where
  "server_file_contents_request conn stream index flags low high requested have_id clip_id =
    CContentsRequest (header conn 0 0)
      \<lparr>cr_stream = stream, cr_index = index, cr_flags = flags, cr_low = low, cr_high = high,
       cr_requested = requested, cr_have_id = (if have_id then 1 else 0), cr_clip_id = clip_id\<rparr>"

definition server_file_contents_response :: "i32 \<Rightarrow> i32 \<Rightarrow> i32 \<Rightarrow> bytes \<Rightarrow> c_msg" where
  "server_file_contents_response conn fl stream data =
    CContentsResponse (header conn (ucast fl) (4 + of_nat (length data))) stream (of_nat (length data)) (Some data)"

definition server_monitor_ready :: "i32 \<Rightarrow> c_msg" where
  "server_monitor_ready conn = CMonitorReady (header conn 0 0)"

definition server_msg :: "i32 \<Rightarrow> clipboard_file \<Rightarrow> c_msg option" where
  "server_msg conn m =
    (case m of
       NotifyCallback _ _ _ \<Rightarrow> None
     | MonitorReady \<Rightarrow> Some (server_monitor_ready conn)
     | FormatList l \<Rightarrow> Some (server_format_list conn l)
     | FormatListResponse flags \<Rightarrow> Some (server_format_list_response conn flags)
     | FormatDataRequest i \<Rightarrow> Some (server_format_data_request conn i)
     | FormatDataResponse flags d \<Rightarrow> Some (server_format_data_response conn flags d)
     | FileContentsRequest s i fl lo hi n h c \<Rightarrow> Some (server_file_contents_request conn s i fl lo hi n h c)
     | FileContentsResponse flags s d \<Rightarrow> Some (server_file_contents_response conn flags s d))"

definition call_server :: "clip_context \<Rightarrow> c_msg \<Rightarrow> u32" where
  "call_server ctx c = (case cx_server ctx (kind_of c) of Some f \<Rightarrow> f c | None \<Rightarrow> err_server_function_none)"

definition win_server_clip_file :: "clip_context \<Rightarrow> i32 \<Rightarrow> clipboard_file \<Rightarrow> u32" where
  "win_server_clip_file ctx conn m = (case server_msg conn m of None \<Rightarrow> 0 | Some c \<Rightarrow> call_server ctx c)"

definition server_clip_file_result :: "clip_context \<Rightarrow> i32 \<Rightarrow> clipboard_file \<Rightarrow> cliprdr_error + unit" where
  "server_clip_file_result ctx conn m = ret_to_result (win_server_clip_file ctx conn m)"

section \<open>From the library to the peer\<close>

text \<open>
  The memory behind a pointer is at least as long as the length that the library gives; the code
  reads that many elements.
\<close>

definition format_of_c :: "c_format \<Rightarrow> i32 \<times> string" where
  "format_of_c f =
    (cf_id f, (case cf_name f of None \<Rightarrow> [] | Some n \<Rightarrow> if valid_utf8 n then n else []))"

definition read_bytes :: "u32 \<Rightarrow> bytes option \<Rightarrow> bytes" where
  "read_bytes n p = (case p of None \<Rightarrow> [] | Some d \<Rightarrow> take (unat n) d)"

definition client_format_list :: "c_header \<Rightarrow> u32 \<Rightarrow> c_format list \<Rightarrow> i32 \<times> clipboard_file" where
  "client_format_list h n fs = (hd_conn h, FormatList (map format_of_c (take (unat n) fs)))"

definition client_format_list_response :: "c_header \<Rightarrow> i32 \<times> clipboard_file" where
  "client_format_list_response h = (hd_conn h, FormatListResponse (ucast (hd_flags h)))"

definition client_format_data_request :: "c_header \<Rightarrow> u32 \<Rightarrow> i32 \<times> clipboard_file" where
  "client_format_data_request h i = (hd_conn h, FormatDataRequest i)"

definition client_format_data_response :: "c_header \<Rightarrow> bytes option \<Rightarrow> i32 \<times> clipboard_file" where
  "client_format_data_response h d = (hd_conn h, FormatDataResponse (ucast (hd_flags h)) (read_bytes (hd_len h) d))"

definition client_file_contents_request :: "c_header \<Rightarrow> c_contents_request \<Rightarrow> i32 \<times> clipboard_file" where
  "client_file_contents_request h r =
    (hd_conn h, FileContentsRequest (cr_stream r) (cr_index r) (cr_flags r) (cr_low r) (cr_high r)
       (cr_requested r) (cr_have_id r = 1) (cr_clip_id r))"

definition client_file_contents_response :: "c_header \<Rightarrow> u32 \<Rightarrow> u32 \<Rightarrow> bytes option \<Rightarrow> i32 \<times> clipboard_file" where
  "client_file_contents_response h s n d =
    (hd_conn h, FileContentsResponse (ucast (hd_flags h)) s (read_bytes n d))"

definition client_msg :: "c_msg \<Rightarrow> (i32 \<times> clipboard_file) option" where
  "client_msg c =
    (case c of
       CMonitorReady _ \<Rightarrow> None
     | CFormatList h n fs \<Rightarrow> Some (client_format_list h n fs)
     | CFormatListResponse h \<Rightarrow> Some (client_format_list_response h)
     | CFormatDataRequest h i \<Rightarrow> Some (client_format_data_request h i)
     | CFormatDataResponse h d \<Rightarrow> Some (client_format_data_response h d)
     | CContentsRequest h r \<Rightarrow> Some (client_file_contents_request h r)
     | CContentsResponse h s n d \<Rightarrow> Some (client_file_contents_response h s n d))"

lemmas client_callbacks = client_format_list_def client_format_list_response_def client_format_data_request_def
  client_format_data_response_def client_file_contents_request_def client_file_contents_response_def

text \<open>
  A callback of the library: the answer to it, and the channels. Only a list of formats for connection
  0 goes to everyone.
\<close>

definition client_callback :: "channels \<Rightarrow> c_msg \<Rightarrow> u32 \<times> channels" where
  "client_callback s c =
    (case client_msg c of
       None \<Rightarrow> (0, s)
     | Some (conn, m) \<Rightarrow>
         if kind_of c = KFormatList \<and> conn = 0 then (0, send_data_to_all s m)
         else (case send_data True s conn m of (Inr _, s) \<Rightarrow> (0, s) | (Inl _, s) \<Rightarrow> (err_send_msg, s)))"

definition notification :: "u32 \<Rightarrow> string \<Rightarrow> string option \<Rightarrow> clipboard_file option" where
  "notification t msg details =
    (let d = (case details of None \<Rightarrow> [] | Some d \<Rightarrow> d) in
     if valid_utf8 msg \<and> valid_utf8 d then
       Some (NotifyCallback
         (''custom-'' @ (if t = 0 then ''info'' else if t = 1 then ''warn'' else ''error'') @ ''-nocancel-nook-hasclose'')
         ''Clipboard'' (if d = [] then msg else msg @ '' '' @ d))
     else None)"

definition notify_callback :: "channels \<Rightarrow> u32 \<Rightarrow> u32 \<Rightarrow> string \<Rightarrow> string option \<Rightarrow> u32 \<times> channels" where
  "notify_callback s conn t msg details =
    (case notification t msg details of
       None \<Rightarrow> (err_invalid_parameter, s)
     | Some m \<Rightarrow> (0, snd (send_data True s conn m)))"

section \<open>Round trips\<close>

text \<open>
  What a library sends: unused fields are zero, lengths are those of the data, names are text and not
  empty, a flag is 0 or 1.
\<close>

definition well_formed :: "c_msg \<Rightarrow> bool" where
  "well_formed c \<longleftrightarrow>
    (case c of
       CMonitorReady h \<Rightarrow> hd_type h = 0 \<and> hd_flags h = 0 \<and> hd_len h = 0
     | CFormatList h n fs \<Rightarrow>
         hd_type h = 0 \<and> hd_flags h = 0 \<and> hd_len h = 0 \<and> unat n = length fs
         \<and> list_all (\<lambda>f. case cf_name f of None \<Rightarrow> True | Some s \<Rightarrow> s \<noteq> [] \<and> valid_utf8 s \<and> CHR 0x00 \<notin> set s) fs
     | CFormatListResponse h \<Rightarrow> hd_type h = 0 \<and> hd_len h = 0
     | CFormatDataRequest h _ \<Rightarrow> hd_type h = 0 \<and> hd_flags h = 0 \<and> hd_len h = 0
     | CFormatDataResponse h d \<Rightarrow>
         hd_type h = 0 \<and> (case d of None \<Rightarrow> False | Some d \<Rightarrow> unat (hd_len h) = length d)
     | CContentsRequest h r \<Rightarrow> hd_type h = 0 \<and> hd_flags h = 0 \<and> hd_len h = 0 \<and> (cr_have_id r = 0 \<or> cr_have_id r = 1)
     | CContentsResponse h _ n d \<Rightarrow>
         hd_type h = 0 \<and> hd_len h = 4 + n \<and> (case d of None \<Rightarrow> False | Some d \<Rightarrow> unat n = length d))"

fun with_conn :: "u32 \<Rightarrow> c_msg \<Rightarrow> c_msg" where
  "with_conn k (CMonitorReady h) = CMonitorReady (h\<lparr>hd_conn := k\<rparr>)"
| "with_conn k (CFormatList h n fs) = CFormatList (h\<lparr>hd_conn := k\<rparr>) n fs"
| "with_conn k (CFormatListResponse h) = CFormatListResponse (h\<lparr>hd_conn := k\<rparr>)"
| "with_conn k (CFormatDataRequest h i) = CFormatDataRequest (h\<lparr>hd_conn := k\<rparr>) i"
| "with_conn k (CFormatDataResponse h d) = CFormatDataResponse (h\<lparr>hd_conn := k\<rparr>) d"
| "with_conn k (CContentsRequest h r) = CContentsRequest (h\<lparr>hd_conn := k\<rparr>) r"
| "with_conn k (CContentsResponse h s n d) = CContentsResponse (h\<lparr>hd_conn := k\<rparr>) s n d"

lemma of_nat_length: "unat n = k \<Longrightarrow> (n :: u32) = of_nat k"
  by auto

lemma ucast_flags [simp]: "ucast (ucast (f :: u16) :: i32) = f"
  by (rule bit_word_eqI) (simp add: bit_simps)

lemma format_roundtrip:
  "(case cf_name f of None \<Rightarrow> True | Some s \<Rightarrow> s \<noteq> [] \<and> valid_utf8 s \<and> CHR 0x00 \<notin> set s) \<Longrightarrow>
    c_format_of (format_of_c f) = f"
  by (cases f) (auto simp: c_format_of_def format_of_c_def c_string_def split: option.splits)

lemma formats_roundtrip:
  "list_all (\<lambda>f. case cf_name f of None \<Rightarrow> True | Some s \<Rightarrow> s \<noteq> [] \<and> valid_utf8 s \<and> CHR 0x00 \<notin> set s) fs \<Longrightarrow>
    map (c_format_of \<circ> format_of_c) fs = fs"
  by (induction fs) (simp_all add: format_roundtrip)

text \<open>
  A message that the library of one machine hands to its callback reaches the library of the other
  machine as it was, on the connection it came in on: formats, flags, positions and data are the same.
\<close>

theorem win_message_roundtrip:
  assumes "well_formed c" "client_msg c = Some (conn, m)"
  shows "server_msg conn' m = Some (with_conn conn' c)"
proof (cases c)
  case (CFormatList h n fs)
  have "unat n = length fs" using assms(1) CFormatList by (simp add: well_formed_def)
  then have "n = of_nat (length fs)" by (rule of_nat_length)
  then show ?thesis
    using assms CFormatList by (auto simp: well_formed_def client_msg_def client_callbacks server_msg_def server_format_list_def
        header_def formats_roundtrip)
next
  case (CFormatDataResponse h d)
  then obtain x where x: "d = Some x" "unat (hd_len h) = length x"
    using assms(1) by (auto simp: well_formed_def split: option.splits)
  have "hd_len h = of_nat (length x)" using x(2) by (rule of_nat_length)
  then show ?thesis
    using assms CFormatDataResponse x
    by (auto simp: well_formed_def client_msg_def client_callbacks server_msg_def server_format_data_response_def header_def read_bytes_def)
next
  case (CContentsResponse h s n d)
  then obtain x where x: "d = Some x" "unat n = length x"
    using assms(1) by (auto simp: well_formed_def split: option.splits)
  have "n = of_nat (length x)" using x(2) by (rule of_nat_length)
  then show ?thesis
    using assms CContentsResponse x
    by (auto simp: well_formed_def client_msg_def client_callbacks server_msg_def server_file_contents_response_def header_def read_bytes_def)
qed (use assms in \<open>auto simp: well_formed_def client_msg_def client_callbacks server_msg_def server_format_list_response_def
    server_format_data_request_def server_file_contents_request_def header_def\<close>)

definition demo_format_list :: c_msg where
  "demo_format_list = CFormatList \<lparr>hd_conn = 1, hd_type = 0, hd_flags = 0, hd_len = 0\<rparr> 2
    [\<lparr>cf_id = 13, cf_name = None\<rparr>, \<lparr>cf_id = 0xC004, cf_name = Some ''FileGroupDescriptorW''\<rparr>]"

lemma demo_format_list_ok: "well_formed demo_format_list"
  by code_simp

lemma win_message_roundtrip_witness:
  "server_msg 9 (FormatList [(13, []), (0xC004, ''FileGroupDescriptorW'')]) = Some (with_conn 9 demo_format_list)"
proof -
  have "client_msg demo_format_list = Some (1, FormatList [(13, []), (0xC004, ''FileGroupDescriptorW'')])"
    by code_simp
  from win_message_roundtrip [OF demo_format_list_ok this] show ?thesis .
qed

section \<open>Delivery\<close>

lemma demo_channels_eq:
  "demo_channels = \<lparr>ch_vec = [\<lparr>mc_peer = ''ann'', mc_conn = 1, mc_queue = []\<rparr>, \<lparr>mc_peer = [], mc_conn = 7, mc_queue = []\<rparr>],
     ch_counter = 1\<rparr>"
  by code_simp

text \<open>
  What the library reports on a connection is put at the end of the queue of that connection's
  channel and of no other; without such a channel the library is told 3, and nothing is queued.
\<close>

theorem win_callback_delivers:
  assumes "client_msg c = Some (conn, m)" "conn \<noteq> 0"
  shows "client_callback s c =
    (case channel_of s conn of
       None \<Rightarrow> (err_send_msg, s)
     | Some i \<Rightarrow> (0, s\<lparr>ch_vec := (ch_vec s)[i := (ch_vec s ! i)\<lparr>mc_queue := mc_queue (ch_vec s ! i) @ [m]\<rparr>]\<rparr>))"
  using assms
  by (simp add: client_callback_def send_data_def send_data_to_channel_def channel_of_def push_msg_def split: option.split)

lemma win_callback_delivers_witness:
  "fst (client_callback demo_channels (CFormatDataRequest (header 7 0 0) 13)) = 0
    \<and> map mc_queue (ch_vec (snd (client_callback demo_channels (CFormatDataRequest (header 7 0 0) 13)))) = [[], [FormatDataRequest 13]]"
proof -
  have m: "client_msg (CFormatDataRequest (header 7 0 0) 13) = Some (7, FormatDataRequest 13)"
    by (simp add: client_msg_def client_callbacks header_def)
  show ?thesis
    by (simp add: win_callback_delivers [OF m] channel_of_def demo_channels_eq)
qed

text \<open>
  Connection 0 means everyone to the library, but only a new list of formats is sent to everyone; any
  other report on connection 0 is refused as long as no channel has that id.
\<close>

theorem win_broadcast:
  assumes "client_msg c = Some (0, m)" "channel_of s 0 = None"
  shows "client_callback s c =
    (if kind_of c = KFormatList then (0, s\<lparr>ch_vec := map (push_msg m) (ch_vec s)\<rparr>) else (err_send_msg, s))"
  using assms
  by (simp add: client_callback_def send_data_to_all_def send_data_def send_data_to_channel_def channel_of_def)

lemma win_broadcast_witness:
  "map mc_queue (ch_vec (snd (client_callback demo_channels (with_conn 0 demo_format_list))))
    = replicate 2 [FormatList [(13, []), (0xC004, ''FileGroupDescriptorW'')]]"
proof -
  have "client_msg (with_conn 0 demo_format_list) = Some (0, FormatList [(13, []), (0xC004, ''FileGroupDescriptorW'')])"
    "kind_of (with_conn 0 demo_format_list) = KFormatList"
    by code_simp+
  moreover have "channel_of demo_channels 0 = None" by (simp add: channel_of_def demo_channels_eq)
  ultimately show ?thesis
    by (simp add: win_broadcast demo_channels_eq push_msg_def numeral_2_eq_2)
qed

text \<open>
  Until the library has filled in its functions every message of the peer is answered with error 1,
  and once it has, the message reaches exactly its function; a result of 0 is the only success.
\<close>

theorem win_dispatch:
  "win_server_clip_file ctx conn m =
     (case server_msg conn m of
        None \<Rightarrow> 0
      | Some c \<Rightarrow> (case cx_server ctx (kind_of c) of None \<Rightarrow> 1 | Some f \<Rightarrow> f c))
   \<and> (server_clip_file_result ctx conn m = Inr () \<longleftrightarrow> win_server_clip_file ctx conn m = 0)"
  by (simp add: win_server_clip_file_def call_server_def err_server_function_none_def server_clip_file_result_def
      ret_to_result_def split: option.split)

end
