(* ===== verification/EnigoWin.thy ===== *)
theory EnigoWin
  imports Enigo "HOL-Library.Signed_Division"
begin

text \<open>
  Synthetic input on Windows (\<open>libs/enigo/src/win/win_impl.rs\<close>, \<open>keycodes.rs\<close>): the events that are handed
  to \<open>SendInput\<close>. Windows is an argument: which events it takes, its last error, its metrics and
  keyboard layouts. A character is its code point, a keyboard layout a number.
\<close>

section \<open>Events\<close>

datatype wm_flag = WmMove | WmAbsolute | WmVirtualDesk | WmLeftDown | WmLeftUp | WmMiddleDown | WmMiddleUp
  | WmRightDown | WmRightUp | WmXDown | WmXUp | WmWheel | WmHWheel

record key_event =
  ke_up :: bool
  ke_unicode :: bool
  ke_extended :: bool
  ke_vk :: u16
  ke_scan :: u16

datatype win_event = WinMouse "wm_flag list" u32 int int | WinKey key_event

text \<open>\<open>LAYOUT\<close> is a global; null until it is first needed.\<close>

record win_dev =
  wd_layout :: "nat option"
  wd_events :: "win_event list"

record win_env =
  we_takes :: "win_event \<Rightarrow> bool"
  we_last_error :: string
  we_layout :: nat
  we_scan :: "nat \<Rightarrow> u16 \<Rightarrow> u16"
  we_vk_scan :: "nat \<Rightarrow> nat \<Rightarrow> u16"
  we_key_state :: "u16 \<Rightarrow> u16"
  we_desk :: "int \<times> int \<times> int \<times> int"
  we_screen :: "nat \<times> nat"
  we_cursor :: "(int \<times> int) option"

definition send_input :: "win_env \<Rightarrow> win_event \<Rightarrow> win_dev \<Rightarrow> bool \<times> win_dev" where
  "send_input E ev w = (we_takes E ev, w\<lparr>wd_events := wd_events w @ [ev]\<rparr>)"

definition mouse_event :: "win_env \<Rightarrow> wm_flag list \<Rightarrow> u32 \<Rightarrow> int \<Rightarrow> int \<Rightarrow> win_dev \<Rightarrow> bool \<times> win_dev" where
  "mouse_event E flags data dx dy = send_input E (WinMouse flags data dx dy)"

definition keybd_event :: "win_env \<Rightarrow> bool \<Rightarrow> bool \<Rightarrow> u16 \<Rightarrow> u16 \<Rightarrow> win_dev \<Rightarrow> bool \<times> win_dev" where
  "keybd_event E up unicode vk scan w =
    (let w = (if scan = 0 \<and> wd_layout w = None then w\<lparr>wd_layout := Some (we_layout E)\<rparr> else w);
         scan = (if scan = 0 then we_scan E (the (wd_layout w)) vk else scan);
         hi = drop_bit 8 scan
     in send_input E (WinKey \<lparr>ke_up = up, ke_unicode = unicode, ke_extended = (\<not> unicode \<and> (hi = 0xE0 \<or> hi = 0xE1)),
                             ke_vk = vk, ke_scan = scan\<rparr>) w)"

section \<open>The mouse\<close>

text \<open>Arithmetic in \<open>i32\<close> (a release build); dividing by zero panics, and the division truncates.\<close>

definition to_i32 :: "int \<Rightarrow> int" where
  "to_i32 i = signed_take_bit 31 i"

definition desk_coord :: "int \<Rightarrow> int \<Rightarrow> int \<Rightarrow> int option" where
  "desk_coord x origin extent =
    (if extent = 0 then None else Some (to_i32 (to_i32 (to_i32 (x - origin) * 65535) sdiv extent)))"

definition win_mouse_move_to :: "win_env \<Rightarrow> int \<Rightarrow> int \<Rightarrow> win_dev \<Rightarrow> win_dev option" where
  "win_mouse_move_to E x y w =
    (case we_desk E of (vx, vy, cx, cy) \<Rightarrow>
       (case (desk_coord x vx cx, desk_coord y vy cy) of
          (Some dx, Some dy) \<Rightarrow> Some (snd (mouse_event E [WmMove, WmAbsolute, WmVirtualDesk] 0 dx dy w))
        | _ \<Rightarrow> None))"

definition win_mouse_move_relative :: "win_env \<Rightarrow> int \<Rightarrow> int \<Rightarrow> win_dev \<Rightarrow> win_dev" where
  "win_mouse_move_relative E x y w = snd (mouse_event E [WmMove] 0 x y w)"

definition win_button_data :: "mouse_button \<Rightarrow> u32" where
  "win_button_data b = (case b of MBack \<Rightarrow> 1 | MForward \<Rightarrow> 2 | _ \<Rightarrow> 0)"

definition win_button_down :: "mouse_button \<Rightarrow> wm_flag option" where
  "win_button_down b =
    (case b of MLeft \<Rightarrow> Some WmLeftDown | MMiddle \<Rightarrow> Some WmMiddleDown | MRight \<Rightarrow> Some WmRightDown
     | MBack \<Rightarrow> Some WmXDown | MForward \<Rightarrow> Some WmXDown | _ \<Rightarrow> None)"

definition win_button_up :: "mouse_button \<Rightarrow> wm_flag option" where
  "win_button_up b =
    (case b of MLeft \<Rightarrow> Some WmLeftUp | MMiddle \<Rightarrow> Some WmMiddleUp | MRight \<Rightarrow> Some WmRightUp
     | MBack \<Rightarrow> Some WmXUp | MForward \<Rightarrow> Some WmXUp | _ \<Rightarrow> None)"

text \<open>The error after an event that was not taken, if Windows has a text for it.\<close>

definition taken_or_error :: "win_env \<Rightarrow> bool \<Rightarrow> string + unit" where
  "taken_or_error E taken = (if \<not> taken \<and> we_last_error E \<noteq> [] then Inl (we_last_error E) else Inr ())"

definition win_mouse_down :: "win_env \<Rightarrow> mouse_button \<Rightarrow> win_dev \<Rightarrow> (string + unit) \<times> win_dev" where
  "win_mouse_down E b w =
    (case win_button_down b of
       None \<Rightarrow> (Inr (), w)
     | Some f \<Rightarrow> let (taken, w) = mouse_event E [f] (win_button_data b) 0 0 w in (taken_or_error E taken, w))"

definition win_mouse_up :: "win_env \<Rightarrow> mouse_button \<Rightarrow> win_dev \<Rightarrow> win_dev" where
  "win_mouse_up E b w =
    (case win_button_up b of None \<Rightarrow> w | Some f \<Rightarrow> snd (mouse_event E [f] (win_button_data b) 0 0 w))"

definition win_mouse_click :: "win_env \<Rightarrow> mouse_button \<Rightarrow> win_dev \<Rightarrow> win_dev" where
  "win_mouse_click E b w = win_mouse_up E b (snd (win_mouse_down E b w))"

definition win_mouse_scroll_x :: "win_env \<Rightarrow> int \<Rightarrow> win_dev \<Rightarrow> win_dev" where
  "win_mouse_scroll_x E len w = snd (mouse_event E [WmHWheel] (of_int len) 0 0 w)"

definition win_mouse_scroll_y :: "win_env \<Rightarrow> int \<Rightarrow> win_dev \<Rightarrow> win_dev" where
  "win_mouse_scroll_y E len w = snd (mouse_event E [WmWheel] (of_int len) 0 0 w)"

definition win_main_display_size :: "win_env \<Rightarrow> nat \<times> nat" where
  "win_main_display_size E = we_screen E"

definition win_mouse_location :: "win_env \<Rightarrow> int \<times> int" where
  "win_mouse_location E = (case we_cursor E of Some p \<Rightarrow> p | None \<Rightarrow> (0, 0))"

section \<open>The keyboard\<close>

definition win_keycode :: "key \<Rightarrow> u16" where
  "win_keycode key =
    (case key of
       K_Raw k \<Rightarrow> k | K_Layout _ \<Rightarrow> 0 | K_Equals \<Rightarrow> 0x3D
     | K_Alt \<Rightarrow> 0x12 | K_Backspace \<Rightarrow> 0x08 | K_CapsLock \<Rightarrow> 0x14
      | K_Control \<Rightarrow> 0xA2 | K_Delete \<Rightarrow> 0x2E | K_DownArrow \<Rightarrow> 0x28
      | K_End \<Rightarrow> 0x23 | K_Escape \<Rightarrow> 0x1B | K_F1 \<Rightarrow> 0x70
      | K_F10 \<Rightarrow> 0x79 | K_F11 \<Rightarrow> 0x7A | K_F12 \<Rightarrow> 0x7B
      | K_F2 \<Rightarrow> 0x71 | K_F3 \<Rightarrow> 0x72 | K_F4 \<Rightarrow> 0x73
      | K_F5 \<Rightarrow> 0x74 | K_F6 \<Rightarrow> 0x75 | K_F7 \<Rightarrow> 0x76
      | K_F8 \<Rightarrow> 0x77 | K_F9 \<Rightarrow> 0x78 | K_Home \<Rightarrow> 0x24
      | K_LeftArrow \<Rightarrow> 0x25 | K_Option \<Rightarrow> 0x12 | K_PageDown \<Rightarrow> 0x22
      | K_PageUp \<Rightarrow> 0x21 | K_Return \<Rightarrow> 0x0D | K_RightArrow \<Rightarrow> 0x27
      | K_Shift \<Rightarrow> 0x10 | K_Space \<Rightarrow> 0x20 | K_Tab \<Rightarrow> 0x09
      | K_UpArrow \<Rightarrow> 0x26 | K_Numpad0 \<Rightarrow> 0x60 | K_Numpad1 \<Rightarrow> 0x61
      | K_Numpad2 \<Rightarrow> 0x62 | K_Numpad3 \<Rightarrow> 0x63 | K_Numpad4 \<Rightarrow> 0x64
      | K_Numpad5 \<Rightarrow> 0x65 | K_Numpad6 \<Rightarrow> 0x66 | K_Numpad7 \<Rightarrow> 0x67
      | K_Numpad8 \<Rightarrow> 0x68 | K_Numpad9 \<Rightarrow> 0x69 | K_Cancel \<Rightarrow> 0x03
      | K_Clear \<Rightarrow> 0x0C | K_Pause \<Rightarrow> 0x13 | K_Kana \<Rightarrow> 0x15
      | K_Hangul \<Rightarrow> 0x15 | K_Junja \<Rightarrow> 0x17 | K_Final \<Rightarrow> 0x18
      | K_Hanja \<Rightarrow> 0x19 | K_Kanji \<Rightarrow> 0x19 | K_Convert \<Rightarrow> 0x1C
      | K_Select \<Rightarrow> 0x29 | K_Print \<Rightarrow> 0x2A | K_Execute \<Rightarrow> 0x2B
      | K_Snapshot \<Rightarrow> 0x2C | K_Insert \<Rightarrow> 0x2D | K_Help \<Rightarrow> 0x2F
      | K_Sleep \<Rightarrow> 0x5F | K_Separator \<Rightarrow> 0x6C | K_Mute \<Rightarrow> 0xAD
      | K_VolumeDown \<Rightarrow> 0xAE | K_VolumeUp \<Rightarrow> 0xAF | K_Scroll \<Rightarrow> 0x91
      | K_NumLock \<Rightarrow> 0x90 | K_RWin \<Rightarrow> 0x5C | K_Apps \<Rightarrow> 0x5D
      | K_Add \<Rightarrow> 0x6B | K_Multiply \<Rightarrow> 0x6A | K_Decimal \<Rightarrow> 0x6E
      | K_Subtract \<Rightarrow> 0x6D | K_Divide \<Rightarrow> 0x6F | K_NumpadEnter \<Rightarrow> 0x0D
      | K_RightShift \<Rightarrow> 0xA1 | K_RightControl \<Rightarrow> 0xA3
      | K_RightAlt \<Rightarrow> 0xA5 | K_Super \<Rightarrow> 0x5B | K_Command \<Rightarrow> 0x5B
      | K_Windows \<Rightarrow> 0x5B | K_Meta \<Rightarrow> 0x5B)"

text \<open>\<open>char::encode_utf16\<close>.\<close>

definition encode_utf16 :: "nat \<Rightarrow> u16 list" where
  "encode_utf16 c =
    (if c < 0x10000 then [of_nat c]
     else [of_nat (0xD800 + (c - 0x10000) div 0x400), of_nat (0xDC00 + (c - 0x10000) mod 0x400)])"

definition unicode_key_down :: "win_env \<Rightarrow> u16 \<Rightarrow> win_dev \<Rightarrow> win_dev" where
  "unicode_key_down E u w = snd (keybd_event E False True 0 u w)"

definition unicode_key_up :: "win_env \<Rightarrow> u16 \<Rightarrow> win_dev \<Rightarrow> win_dev" where
  "unicode_key_up E u w = snd (keybd_event E True True 0 u w)"

definition unicode_key_click :: "win_env \<Rightarrow> u16 \<Rightarrow> win_dev \<Rightarrow> win_dev" where
  "unicode_key_click E u w = unicode_key_up E u (unicode_key_down E u w)"

definition win_type_char :: "win_env \<Rightarrow> nat \<Rightarrow> win_dev \<Rightarrow> win_dev" where
  "win_type_char E c w =
    (case encode_utf16 c of
       [u] \<Rightarrow> unicode_key_click E u w
     | us \<Rightarrow> fold (unicode_key_down E) us w)"

definition win_key_sequence :: "win_env \<Rightarrow> nat list \<Rightarrow> win_dev \<Rightarrow> win_dev" where
  "win_key_sequence E chars = fold (win_type_char E) chars"

definition win_key_click :: "win_env \<Rightarrow> key \<Rightarrow> win_dev \<Rightarrow> win_dev" where
  "win_key_click E key w =
    snd (keybd_event E True False (win_keycode key) 0 (snd (keybd_event E False False (win_keycode key) 0 w)))"

definition win_key_up :: "win_env \<Rightarrow> key \<Rightarrow> win_dev \<Rightarrow> win_dev" where
  "win_key_up E key w = snd (keybd_event E True False (win_keycode key) 0 w)"

text \<open>A key that is not a character of the layout.\<close>

definition win_plain_down :: "win_env \<Rightarrow> key \<Rightarrow> win_dev \<Rightarrow> (string + unit) \<times> win_dev" where
  "win_plain_down E key w =
    (let code = win_keycode key in
     if code = 0 \<or> code = 65535 then (Inl [], w)
     else let (taken, w) = keybd_event E False False code 0 w in (taken_or_error E taken, w))"

text \<open>\<open>get_layoutdependent_keycode\<close> asks for the layout anew.\<close>

definition get_layoutdependent_keycode :: "win_env \<Rightarrow> nat \<Rightarrow> win_dev \<Rightarrow> u16 \<times> win_dev" where
  "get_layoutdependent_keycode E chr w =
    (we_vk_scan E (we_layout E) chr, w\<lparr>wd_layout := Some (we_layout E)\<rparr>)"

definition win_modifiers :: "key list" where
  "win_modifiers = [K_Shift, K_Control, K_Alt]"

fun press_modifiers :: "win_env \<Rightarrow> u16 \<Rightarrow> nat list \<Rightarrow> win_dev \<Rightarrow> (string + unit) \<times> win_dev" where
  "press_modifiers E flag [] w = (Inr (), w)"
| "press_modifiers E flag (pos # ps) w =
    (if bit flag pos then
       (case win_plain_down E (win_modifiers ! pos) w of
          (Inl e, w) \<Rightarrow> (Inl e, w)
        | (Inr _, w) \<Rightarrow> press_modifiers E flag ps w)
     else press_modifiers E flag ps w)"

fun release_modifiers :: "win_env \<Rightarrow> u16 \<Rightarrow> nat list \<Rightarrow> win_dev \<Rightarrow> win_dev" where
  "release_modifiers E flag [] w = w"
| "release_modifiers E flag (pos # ps) w =
    release_modifiers E flag ps (if bit flag (2 - pos) then win_key_up E (win_modifiers ! pos) w else w)"

definition win_layout_down :: "win_env \<Rightarrow> nat \<Rightarrow> win_dev \<Rightarrow> (string + unit) \<times> win_dev" where
  "win_layout_down E c w =
    (let (code, w) = get_layoutdependent_keycode E c w in
     if code = 0xFFFF then (Inl ''Failed to get keycode'', w)
     else
       let vk = code AND 0xFF; flag = drop_bit 8 code in
       (case press_modifiers E flag [0, 1, 2] w of
          (Inl e, w) \<Rightarrow> (Inl e, w)
        | (Inr _, w) \<Rightarrow>
            let (taken, w) = keybd_event E False False vk 0 w
            in (taken_or_error E taken, release_modifiers E flag [0, 1, 2] w)))"

definition win_key_down :: "win_env \<Rightarrow> key \<Rightarrow> win_dev \<Rightarrow> (string + unit) \<times> win_dev" where
  "win_key_down E key w = (case key of K_Layout c \<Rightarrow> win_layout_down E c w | _ \<Rightarrow> win_plain_down E key w)"

definition win_get_key_state :: "win_env \<Rightarrow> key \<Rightarrow> bool" where
  "win_get_key_state E key =
    (let x = we_key_state E (win_keycode key) in
     if key = K_CapsLock \<or> key = K_NumLock \<or> key = K_Scroll then bit x 0 else bit x 15)"

end
