(* ===== verification/EnigoWinProps.thy ===== *)
theory EnigoWinProps
  imports EnigoWin
begin

text \<open>
  What the events on Windows amount to: the text that an application receives, the keys that stay held
  after a character of the layout, and the range of coordinates.
\<close>

section \<open>Text\<close>

text \<open>How an application reads units of UTF-16.\<close>

fun decode_utf16 :: "u16 list \<Rightarrow> nat list" where
  "decode_utf16 [] = []"
| "decode_utf16 [u] = [unat u]"
| "decode_utf16 (u # v # us) =
    (if 0xD800 \<le> unat u \<and> unat u < 0xDC00 \<and> 0xDC00 \<le> unat v \<and> unat v < 0xE000
     then (0x10000 + (unat u - 0xD800) * 0x400 + (unat v - 0xDC00)) # decode_utf16 us
     else unat u # decode_utf16 (v # us))"

definition is_char :: "nat \<Rightarrow> bool" where
  "is_char c \<longleftrightarrow> 0 < c \<and> c < 0x110000 \<and> \<not> (0xD800 \<le> c \<and> c < 0xE000)"

definition typed_units :: "win_event list \<Rightarrow> u16 list" where
  "typed_units evs = concat (map (\<lambda>ev. case ev of WinKey e \<Rightarrow> if ke_unicode e \<and> \<not> ke_up e then [ke_scan e] else [] | _ \<Rightarrow> []) evs)"

lemma unat_of_nat16: "n < 65536 \<Longrightarrow> unat (of_nat n :: u16) = n"
  by (rule of_nat_inverse [OF refl]) simp

lemma utf16_units_back:
  assumes "is_char c" shows "decode_utf16 (encode_utf16 c @ us) = c # decode_utf16 us"
proof (cases "c < 0x10000")
  case True
  then have "unat (of_nat c :: u16) = c" "\<not> (0xD800 \<le> c \<and> c < 0xDC00)"
    using unat_of_nat16 [of c] assms by (auto simp: is_char_def)
  then show ?thesis using True by (cases us) (auto simp: encode_utf16_def)
next
  case False
  define d where "d = c - 0x10000"
  have d: "d < 0x100000" "c = 0x10000 + d" using False assms by (auto simp: d_def is_char_def)
  have q: "d div 1024 < 1024" "d mod 1024 < 1024" "d div 1024 * 1024 + d mod 1024 = d"
    using d(1) by simp_all
  have "unat (of_nat (0xD800 + d div 1024) :: u16) = 0xD800 + d div 1024"
    "unat (of_nat (0xDC00 + d mod 1024) :: u16) = 0xDC00 + d mod 1024"
    using q by (intro unat_of_nat16; linarith)+
  then show ?thesis using False d(2) q by (simp add: encode_utf16_def flip: d_def)
qed

lemma decode_text: "list_all is_char cs \<Longrightarrow> decode_utf16 (concat (map encode_utf16 cs)) = cs"
  by (induction cs) (simp_all add: utf16_units_back)

lemma encode_nonzero: "is_char c \<Longrightarrow> u \<in> set (encode_utf16 c) \<Longrightarrow> u \<noteq> 0"
proof -
  assume c: "is_char c" and u: "u \<in> set (encode_utf16 c)"
  have "unat u \<noteq> 0"
  proof (cases "c < 0x10000")
    case True
    then show ?thesis using c u unat_of_nat16 [of c] by (auto simp: encode_utf16_def is_char_def)
  next
    case False
    have "(c - 0x10000) div 0x400 < 1024" "(c - 0x10000) mod 0x400 < 1024" using c by (auto simp: is_char_def)
    then show ?thesis
      using False u unat_of_nat16 [of "0xD800 + (c - 0x10000) div 0x400"] unat_of_nat16 [of "0xDC00 + (c - 0x10000) mod 0x400"]
      by (auto simp: encode_utf16_def)
  qed
  then show ?thesis by auto
qed

lemma unicode_down_events:
  "u \<noteq> 0 \<Longrightarrow> wd_events (unicode_key_down E u w)
    = wd_events w @ [WinKey \<lparr>ke_up = False, ke_unicode = True, ke_extended = False, ke_vk = 0, ke_scan = u\<rparr>]"
  by (simp add: unicode_key_down_def keybd_event_def send_input_def)

lemma unicode_up_events:
  "u \<noteq> 0 \<Longrightarrow> wd_events (unicode_key_up E u w)
    = wd_events w @ [WinKey \<lparr>ke_up = True, ke_unicode = True, ke_extended = False, ke_vk = 0, ke_scan = u\<rparr>]"
  by (simp add: unicode_key_up_def keybd_event_def send_input_def)

lemma typed_append [simp]: "typed_units (a @ b) = typed_units a @ typed_units b"
  by (simp add: typed_units_def)

lemma type_char_units:
  assumes "is_char c"
  shows "typed_units (wd_events (win_type_char E c w)) = typed_units (wd_events w) @ encode_utf16 c"
  using encode_nonzero [OF assms]
  by (auto simp: win_type_char_def encode_utf16_def unicode_key_click_def unicode_down_events unicode_up_events
      typed_units_def)

text \<open>
  Text that is typed arrives as it is, letters beyond the basic plane included: decoding the units
  that were pressed gives its characters in order.
\<close>

theorem win_text_typed:
  assumes "list_all is_char chars" "wd_events w = []"
  shows "decode_utf16 (typed_units (wd_events (win_key_sequence E chars w))) = chars"
proof -
  have "typed_units (wd_events (win_key_sequence E cs v)) = typed_units (wd_events v) @ concat (map encode_utf16 cs)"
    if "list_all is_char cs" for cs v
    using that by (induction cs arbitrary: v) (simp_all add: win_key_sequence_def type_char_units)
  from this [OF assms(1)] show ?thesis using decode_text [OF assms(1)] assms(2) by (simp add: typed_units_def)
qed

definition demo_win :: win_env where
  "demo_win = \<lparr>we_takes = (\<lambda>_. True), we_last_error = [], we_layout = 9, we_scan = (\<lambda>_ _. 0x1E),
     we_vk_scan = (\<lambda>_ c. if c = 65 then 0x141 else 0xFFFF), we_key_state = (\<lambda>_. 0),
     we_desk = (-1920, 0, 3840, 1080), we_screen = (1920, 1080), we_cursor = None\<rparr>"

lemma win_text_typed_witness:
  "decode_utf16 (typed_units (wd_events (win_key_sequence demo_win [97, 0x1F600] \<lparr>wd_layout = None, wd_events = []\<rparr>)))
    = [97, 0x1F600]"
  by (rule win_text_typed) (simp_all add: is_char_def)

section \<open>Keys that are held\<close>

fun held :: "win_event list \<Rightarrow> u16 set \<Rightarrow> u16 set" where
  "held [] H = H"
| "held (WinKey e # evs) H =
    held evs (if ke_unicode e then H else if ke_up e then H - {ke_vk e} else insert (ke_vk e) H)"
| "held (WinMouse _ _ _ _ # evs) H = held evs H"

lemma held_append: "held (a @ b) H = held b (held a H)"
  by (induction a H rule: held.induct) simp_all

lemma held_press:
  "held (wd_events (snd (keybd_event E False False vk 0 w))) H = insert vk (held (wd_events w) H)"
  by (simp add: keybd_event_def send_input_def held_append Let_def)

lemma held_release:
  "held (wd_events (snd (keybd_event E True False vk 0 w))) H = held (wd_events w) H - {vk}"
  by (simp add: keybd_event_def send_input_def held_append Let_def)

lemma plain_down_taken:
  assumes "\<forall>ev. we_takes E ev" "win_keycode key \<noteq> 0" "win_keycode key \<noteq> 65535"
  shows "win_plain_down E key w = (Inr (), snd (keybd_event E False False (win_keycode key) 0 w))"
  using assms by (simp add: win_plain_down_def taken_or_error_def keybd_event_def send_input_def Let_def)

lemma modifier_codes [simp]: "win_keycode K_Shift = 0x10" "win_keycode K_Control = 0xA2" "win_keycode K_Alt = 0x12"
  by (simp_all add: win_keycode_def)

text \<open>
  A character of the layout that needs Shift but not Alt leaves Shift held, and one that needs Alt
  but not Shift leaves Alt held: the loop that releases tests the bits from the other end.
\<close>

theorem layout_modifiers_left:
  assumes "\<forall>ev. we_takes E ev" "wd_events w = []"
    and "we_vk_scan E (we_layout E) c = code" "code \<noteq> 0xFFFF" "code AND 0xFF \<notin> {0x10, 0xA2, 0x12}"
  shows "held (wd_events (snd (win_key_down E (K_Layout c) w))) {} =
    insert (code AND 0xFF)
      ((if bit code 8 \<and> \<not> bit code 10 then {0x10} else {}) \<union> (if bit code 10 \<and> \<not> bit code 8 then {0x12} else {}))"
proof -
  note plain = plain_down_taken [OF assms(1)]
  show ?thesis
    using assms(2-5)
    by (auto simp: win_key_down_def win_layout_down_def get_layoutdependent_keycode_def Let_def split_beta plain
        win_modifiers_def bit_drop_bit_eq held_press held_release win_key_up_def)
qed

lemma layout_modifiers_left_witness:
  "held (wd_events (snd (win_key_down demo_win (K_Layout 65) \<lparr>wd_layout = None, wd_events = []\<rparr>))) {} = {0x41, 0x10}"
  by (subst layout_modifiers_left [where code = "0x141"]) (simp_all add: demo_win_def bit_simps insert_commute)

text \<open>
  Releasing a character of the layout releases the key code 0: whatever is held stays held.
\<close>

theorem layout_key_stays_held:
  "held (wd_events (win_key_up E (K_Layout c) w)) {} = held (wd_events w) {} - {0}"
  by (simp add: win_key_up_def held_release win_keycode_def)

section \<open>Coordinates\<close>

lemma to_i32_id: "- 2147483648 \<le> i \<Longrightarrow> i < 2147483648 \<Longrightarrow> to_i32 i = i"
  by (simp add: to_i32_def signed_take_bit_int_eq_self_iff)

lemma desk_coord_range:
  assumes "origin \<le> x" "x < origin + extent" "extent \<le> 32768" "- 2147483648 \<le> x" "x < 2147483648" "- 2147483648 \<le> origin"
  shows "\<exists>d. desk_coord x origin extent = Some d \<and> 0 \<le> d \<and> d < 65535"
proof -
  let ?p = "x - origin"
  have p: "0 \<le> ?p" "?p < extent" "0 < extent" using assms by linarith+
  have m: "0 \<le> ?p * 65535" "?p * 65535 < extent * 65535" "?p * 65535 < 2147483648" using p assms(3) by simp_all
  have "to_i32 ?p = ?p" "to_i32 (?p * 65535) = ?p * 65535" using p m assms(3) by (intro to_i32_id; linarith)+
  moreover have "0 \<le> q * 65535 div e \<and> q * 65535 div e < 65535" if "0 \<le> q" "q < e" for q e :: int
  proof -
    have "q * 65535 div e * e \<le> q * 65535" "0 < e" using that by (simp_all add: minus_mod_eq_div_mult [symmetric])
    then have "q * 65535 div e * e < 65535 * e" using that by linarith
    then show ?thesis using that \<open>0 < e\<close> by (simp add: pos_imp_zdiv_nonneg_iff mult_less_cancel_right)
  qed
  note d = this [OF p(1,2)]
  moreover have "to_i32 (?p * 65535 div extent) = ?p * 65535 div extent" using d by (intro to_i32_id; linarith)
  moreover have "?p * 65535 sdiv extent = ?p * 65535 div extent"
    using p m by (simp add: signed_divide_int_def sgn_if)
  ultimately show ?thesis using p by (simp add: desk_coord_def)
qed

text \<open>
  Moving the mouse to a point of the desktop (of at most 32768 pixels on a side, over all monitors)
  sends coordinates from 0 to below 65535, without overflow.
\<close>

theorem mouse_in_range:
  assumes "we_desk E = (vx, vy, cx, cy)" "vx \<le> x" "x < vx + cx" "vy \<le> y" "y < vy + cy" "cx \<le> 32768" "cy \<le> 32768"
    and "- 2147483648 \<le> vx" "- 2147483648 \<le> vy" "x < 2147483648" "y < 2147483648"
  shows "\<exists>dx dy. win_mouse_move_to E x y w =
      Some (w\<lparr>wd_events := wd_events w @ [WinMouse [WmMove, WmAbsolute, WmVirtualDesk] 0 dx dy]\<rparr>)
    \<and> 0 \<le> dx \<and> dx < 65535 \<and> 0 \<le> dy \<and> dy < 65535"
proof -
  obtain dx where dx: "desk_coord x vx cx = Some dx" "0 \<le> dx" "dx < 65535"
    using desk_coord_range [of vx x cx] assms by auto
  obtain dy where dy: "desk_coord y vy cy = Some dy" "0 \<le> dy" "dy < 65535"
    using desk_coord_range [of vy y cy] assms by auto
  show ?thesis
    by (rule exI [of _ dx], rule exI [of _ dy])
      (use dx dy in \<open>simp add: win_mouse_move_to_def assms(1) mouse_event_def send_input_def\<close>)
qed

lemma mouse_in_range_witness:
  "\<exists>dx dy. win_mouse_move_to demo_win (- 1) 1079 \<lparr>wd_layout = None, wd_events = []\<rparr> =
      Some \<lparr>wd_layout = None, wd_events = [WinMouse [WmMove, WmAbsolute, WmVirtualDesk] 0 dx dy]\<rparr> \<and> dx < 65535 \<and> dy < 65535"
  using mouse_in_range [of demo_win "- 1920" 0 3840 1080 "- 1" 1079 "\<lparr>wd_layout = None, wd_events = []\<rparr>"]
  by (auto simp: demo_win_def)

end
