(* ===== verification/EnigoMac.thy ===== *)
theory EnigoMac
  imports Enigo
begin

text \<open>
  Synthetic input on macOS (\<open>libs/enigo/src/macos/macos_impl.rs\<close>, \<open>keycodes.rs\<close>): the events that are
  posted, the counting of clicks, and the key codes of characters on the current keyboard. The system is
  an argument: the pressed buttons, the display, the pointer, the keyboards and the clock; making an
  event never fails in the model when there is an event source. A character is its code point.
\<close>

section \<open>Events\<close>

datatype mac_flag = FlagAlphaShift | FlagShift | FlagControl | FlagAlternate | FlagCommand | FlagNumericPad

datatype mac_button = CgLeft | CgRight | CgCenter

datatype mac_mouse = LeftMouseDown | LeftMouseUp | RightMouseDown | RightMouseUp | OtherMouseDown | OtherMouseUp
  | LeftMouseDragged | RightMouseDragged | MouseMoved

datatype scroll_unit = ScrollPixel | ScrollLine

text \<open>
  A mouse event has the fields for the click state and the button number when they are set; an event
  that is posted has the flags unless they are ignored. Wheel events are posted without either.
\<close>

datatype mac_event =
    MacMouse mac_mouse int int mac_button "int option" "int option"
  | MacKey u16 bool
  | MacText string
  | MacWheel scroll_unit "int list"

record mac_keyboard =
  mk_name :: "string option"
  mk_translate :: "nat \<Rightarrow> nat list option"

text \<open>
  A keyboard of the system: the name of its source (none when it has none, or not as text), and what
  each key code is translated to (none when that is no valid text).
\<close>

record mac_env =
  me_pressed :: nat
  me_display :: "nat \<times> nat"
  me_pointer :: "int \<times> int"
  me_keyboard :: "mac_keyboard option"

record mac_dev =
  md_source :: bool
  md_interval :: nat
  md_last_click :: "nat option"
  md_multiple :: int
  md_ignore_flags :: bool
  md_flags :: "mac_flag set"
  md_vkeys :: "string \<rightharpoonup> (nat \<rightharpoonup> u16)"
  md_posted :: "(mac_event \<times> mac_flag set option) list"

definition mac_default :: "bool \<Rightarrow> nat \<Rightarrow> mac_dev" where
  "mac_default source interval =
    \<lparr>md_source = source, md_interval = (if interval > 0 then interval else 500), md_last_click = None, md_multiple = 1,
     md_ignore_flags = False, md_flags = {}, md_vkeys = Map.empty, md_posted = []\<rparr>"

definition set_ignore_flags :: "bool \<Rightarrow> mac_dev \<Rightarrow> mac_dev" where
  "set_ignore_flags ignore m = m\<lparr>md_ignore_flags := ignore\<rparr>"

definition reset_flag :: "mac_dev \<Rightarrow> mac_dev" where
  "reset_flag m = m\<lparr>md_flags := {}\<rparr>"

definition add_flag :: "key \<Rightarrow> mac_dev \<Rightarrow> mac_dev" where
  "add_flag key m =
    m\<lparr>md_flags := md_flags m \<union>
      (case key of K_CapsLock \<Rightarrow> {FlagAlphaShift} | K_Shift \<Rightarrow> {FlagShift} | K_Control \<Rightarrow> {FlagControl}
       | K_Alt \<Rightarrow> {FlagAlternate} | K_Meta \<Rightarrow> {FlagCommand} | K_NumLock \<Rightarrow> {FlagNumericPad} | _ \<Rightarrow> {})\<rparr>"

definition mac_post :: "mac_event \<Rightarrow> mac_dev \<Rightarrow> mac_dev" where
  "mac_post ev m = m\<lparr>md_posted := md_posted m @ [(ev, if md_ignore_flags m then None else Some (md_flags m))]\<rparr>"

text \<open>Nothing is posted without an event source.\<close>

definition with_source :: "(mac_dev \<Rightarrow> mac_dev) \<Rightarrow> mac_dev \<Rightarrow> mac_dev" where
  "with_source f m = (if md_source m then f m else m)"

section \<open>The mouse\<close>

definition mac_mouse_location :: "mac_env \<Rightarrow> int \<times> int" where
  "mac_mouse_location E = (case me_pointer E of (x, y_inv) \<Rightarrow> (x, int (snd (me_display E)) - y_inv))"

definition mac_mouse_move_to :: "mac_env \<Rightarrow> int \<Rightarrow> int \<Rightarrow> mac_dev \<Rightarrow> mac_dev" where
  "mac_mouse_move_to E x y =
    (let t = (if odd (me_pressed E) then LeftMouseDragged
              else if odd (me_pressed E div 2) then RightMouseDragged else MouseMoved)
     in with_source (mac_post (MacMouse t x y CgLeft None None)))"

definition mac_mouse_move_relative :: "mac_env \<Rightarrow> int \<Rightarrow> int \<Rightarrow> mac_dev \<Rightarrow> mac_dev" where
  "mac_mouse_move_relative E x y m =
    (let (w, h) = me_display E; (cx, cy) = mac_mouse_location E; new_x = cx + x; new_y = cy + y
     in if new_x < 0 \<or> new_x > int w \<or> new_y < 0 \<or> new_y > int h then m
        else mac_mouse_move_to E new_x new_y m)"

definition mac_button :: "bool \<Rightarrow> mouse_button \<Rightarrow> (mac_button \<times> mac_mouse \<times> int option) option" where
  "mac_button down b =
    (case b of
       MLeft \<Rightarrow> Some (CgLeft, if down then LeftMouseDown else LeftMouseUp, None)
     | MMiddle \<Rightarrow> Some (CgCenter, if down then OtherMouseDown else OtherMouseUp, None)
     | MRight \<Rightarrow> Some (CgRight, if down then RightMouseDown else RightMouseUp, None)
     | MBack \<Rightarrow> Some (CgLeft, if down then OtherMouseDown else OtherMouseUp, Some 3)
     | MForward \<Rightarrow> Some (CgLeft, if down then OtherMouseDown else OtherMouseUp, Some 4)
     | _ \<Rightarrow> None)"

definition mac_mouse_event :: "mac_env \<Rightarrow> bool \<Rightarrow> mouse_button \<Rightarrow> mac_dev \<Rightarrow> mac_dev" where
  "mac_mouse_event E down b m =
    (case mac_button down b of
       None \<Rightarrow> m
     | Some (button, t, v) \<Rightarrow>
         case mac_mouse_location E of (x, y) \<Rightarrow>
           with_source (mac_post (MacMouse t x y button (if md_multiple m > 1 then Some (md_multiple m) else None) v)) m)"

text \<open>\<open>now\<close> is in milliseconds; the elapsed time is cut to 32 bits.\<close>

definition count_click :: "nat \<Rightarrow> mac_dev \<Rightarrow> mac_dev" where
  "count_click now m =
    (let m = (case md_last_click m of
                None \<Rightarrow> m
              | Some t \<Rightarrow>
                  if (now - t) mod 2 ^ 32 \<le> md_interval m then m\<lparr>md_multiple := md_multiple m + 1\<rparr>
                  else m\<lparr>md_multiple := 1\<rparr>)
     in m\<lparr>md_last_click := Some now\<rparr>)"

definition mac_mouse_down :: "mac_env \<Rightarrow> nat \<Rightarrow> mouse_button \<Rightarrow> mac_dev \<Rightarrow> (string + unit) \<times> mac_dev" where
  "mac_mouse_down E now b m = (Inr (), mac_mouse_event E True b (count_click now m))"

definition mac_mouse_up :: "mac_env \<Rightarrow> mouse_button \<Rightarrow> mac_dev \<Rightarrow> mac_dev" where
  "mac_mouse_up E b = mac_mouse_event E False b"

definition mac_mouse_click :: "mac_env \<Rightarrow> nat \<Rightarrow> mouse_button \<Rightarrow> mac_dev \<Rightarrow> mac_dev" where
  "mac_mouse_click E now b m = mac_mouse_up E b (snd (mac_mouse_down E now b m))"

definition post_wheel :: "scroll_unit \<Rightarrow> int list \<Rightarrow> mac_dev \<Rightarrow> mac_dev" where
  "post_wheel u wheels m = m\<lparr>md_posted := md_posted m @ [(MacWheel u wheels, None)]\<rparr>"

text \<open>\<open>mouse_scroll_impl\<close>: an event for each step; one wheel vertically, the second of two horizontally.\<close>

definition mouse_scroll_impl :: "int \<Rightarrow> bool \<Rightarrow> bool \<Rightarrow> mac_dev \<Rightarrow> mac_dev" where
  "mouse_scroll_impl len is_track_pad is_horizontal =
    (let direction = (if len < 0 then 1 else - 1);
         n = (if len < 0 then neg_i32 len else len);
         u = (if is_track_pad then ScrollPixel else ScrollLine)
     in with_source (post_wheel u (if is_horizontal then [0, direction] else [direction]) ^^ nat n))"

definition mac_mouse_scroll_x :: "int \<Rightarrow> mac_dev \<Rightarrow> mac_dev" where
  "mac_mouse_scroll_x len =
    (let direction = (if len < 0 then 1 else - 1); n = (if len < 0 then neg_i32 len else len)
     in with_source (post_wheel ScrollLine [0, direction] ^^ nat n))"

definition mac_mouse_scroll_y :: "int \<Rightarrow> mac_dev \<Rightarrow> mac_dev" where
  "mac_mouse_scroll_y len =
    (let direction = (if len < 0 then 1 else - 1); n = (if len < 0 then neg_i32 len else len)
     in with_source (post_wheel ScrollLine [direction] ^^ nat n))"

section \<open>Key codes\<close>

definition no_key :: u16 where "no_key = 0xFFFF"

definition us_keys :: "(nat \<times> u16) list" where
  "us_keys =
    [(97, 0x00), (98, 0x0B), (99, 0x08), (100, 0x02), (101, 0x0E), (102, 0x03), (103, 0x05),
     (104, 0x04), (105, 0x22), (106, 0x26), (107, 0x28), (108, 0x25), (109, 0x2E), (110, 0x2D),
     (111, 0x1F), (112, 0x23), (113, 0x0C), (114, 0x0F), (115, 0x01), (116, 0x11), (117, 0x20),
     (118, 0x09), (119, 0x0D), (120, 0x07), (121, 0x10), (122, 0x06), (48, 0x1D), (49, 0x12),
     (50, 0x13), (51, 0x14), (52, 0x15), (53, 0x17), (54, 0x16), (55, 0x1A), (56, 0x1C), (57,
     0x19), (45, 0x1B), (61, 0x18), (91, 0x21), (93, 0x1E), (92, 0x2A), (59, 0x29), (39, 0x27),
     (44, 0x2B), (46, 0x2F), (47, 0x2C), (96, 0x32)]"

definition map_key_board_en :: "nat \<Rightarrow> u16" where
  "map_key_board_en ch = (case map_of us_keys ch of Some k \<Rightarrow> k | None \<Rightarrow> no_key)"

text \<open>The map of a keyboard: the first character of each of the 128 keys, in order; a later key wins.\<close>

definition get_map_step :: "(nat \<Rightarrow> nat list option) \<Rightarrow> nat \<Rightarrow> (nat \<rightharpoonup> u16) \<Rightarrow> (nat \<rightharpoonup> u16)" where
  "get_map_step translate keycode m =
    (case translate keycode of Some (c # _) \<Rightarrow> m(c \<mapsto> of_nat keycode) | _ \<Rightarrow> m)"

definition get_map :: "(nat \<Rightarrow> nat list option) \<Rightarrow> (nat \<rightharpoonup> u16)" where
  "get_map translate = fold (get_map_step translate) [0..<128] Map.empty"

text \<open>The characters that are looked up on the keyboard of the United States only: \<open>-\<close>, \<open>=\<close>, \<open>.\<close>, \<open>/\<close> and digits.\<close>

definition always_us :: "nat \<Rightarrow> bool" where
  "always_us ch \<longleftrightarrow> ch = 45 \<or> ch = 61 \<or> ch = 46 \<or> ch = 47 \<or> 48 \<le> ch \<and> ch \<le> 57"

definition map_key_board :: "mac_env \<Rightarrow> nat \<Rightarrow> mac_dev \<Rightarrow> u16 \<times> mac_dev" where
  "map_key_board E ch m =
    (if always_us ch then (map_key_board_en ch, m)
     else
       let (code, m) =
         (case me_keyboard E of
            None \<Rightarrow> (no_key, m)
          | Some k \<Rightarrow>
              (case mk_name k of
                 None \<Rightarrow> (no_key, m)
               | Some name \<Rightarrow>
                   (case md_vkeys m name of
                      Some v \<Rightarrow> (case v ch of Some c \<Rightarrow> c | None \<Rightarrow> no_key, m)
                    | None \<Rightarrow>
                        let v = get_map (mk_translate k)
                        in (case v ch of Some c \<Rightarrow> c | None \<Rightarrow> no_key, m\<lparr>md_vkeys := (md_vkeys m)(name \<mapsto> v)\<rparr>))))
       in if code \<noteq> no_key then (code, m) else (map_key_board_en ch, m))"

definition mac_keycode_of :: "key \<Rightarrow> u16" where
  "mac_keycode_of key =
    (case key of
       K_Alt \<Rightarrow> 0x3A | K_Backspace \<Rightarrow> 0x33 | K_CapsLock \<Rightarrow> 0x39
      | K_Control \<Rightarrow> 0x3B | K_Delete \<Rightarrow> 0x75 | K_DownArrow \<Rightarrow> 0x7D
      | K_End \<Rightarrow> 0x77 | K_Escape \<Rightarrow> 0x35 | K_F1 \<Rightarrow> 0x7A
      | K_F10 \<Rightarrow> 0x6D | K_F11 \<Rightarrow> 0x67 | K_F12 \<Rightarrow> 0x6F
      | K_F2 \<Rightarrow> 0x78 | K_F3 \<Rightarrow> 0x63 | K_F4 \<Rightarrow> 0x76
      | K_F5 \<Rightarrow> 0x60 | K_F6 \<Rightarrow> 0x61 | K_F7 \<Rightarrow> 0x62
      | K_F8 \<Rightarrow> 0x64 | K_F9 \<Rightarrow> 0x65 | K_Home \<Rightarrow> 0x73
      | K_LeftArrow \<Rightarrow> 0x7B | K_Option \<Rightarrow> 0x3A | K_PageDown \<Rightarrow> 0x79
      | K_PageUp \<Rightarrow> 0x74 | K_Return \<Rightarrow> 0x24 | K_RightArrow \<Rightarrow> 0x7C
      | K_Shift \<Rightarrow> 0x38 | K_Space \<Rightarrow> 0x31 | K_Tab \<Rightarrow> 0x30
      | K_UpArrow \<Rightarrow> 0x7E | K_Numpad0 \<Rightarrow> 0x52 | K_Numpad1 \<Rightarrow> 0x53
      | K_Numpad2 \<Rightarrow> 0x54 | K_Numpad3 \<Rightarrow> 0x55 | K_Numpad4 \<Rightarrow> 0x56
      | K_Numpad5 \<Rightarrow> 0x57 | K_Numpad6 \<Rightarrow> 0x58 | K_Numpad7 \<Rightarrow> 0x59
      | K_Numpad8 \<Rightarrow> 0x5B | K_Numpad9 \<Rightarrow> 0x5C | K_Mute \<Rightarrow> 0x4A
      | K_VolumeDown \<Rightarrow> 0x48 | K_VolumeUp \<Rightarrow> 0x49 | K_Help \<Rightarrow> 0x72
      | K_Snapshot \<Rightarrow> 0x69 | K_Clear \<Rightarrow> 0x47 | K_Decimal \<Rightarrow> 0x41
      | K_Multiply \<Rightarrow> 0x43 | K_Add \<Rightarrow> 0x45 | K_Divide \<Rightarrow> 0x4B
      | K_NumpadEnter \<Rightarrow> 0x4C | K_Subtract \<Rightarrow> 0x4E | K_Equals \<Rightarrow> 0x51
      | K_NumLock \<Rightarrow> 0x47 | K_RWin \<Rightarrow> 0x36 | K_RightShift \<Rightarrow> 0x3C
      | K_RightControl \<Rightarrow> 0x3E | K_RightAlt \<Rightarrow> 0x3D | K_Super \<Rightarrow> 0x37
      | K_Command \<Rightarrow> 0x37 | K_Windows \<Rightarrow> 0x37 | K_Meta \<Rightarrow> 0x37
     | _ \<Rightarrow> no_key)"

definition mac_keycode :: "mac_env \<Rightarrow> key \<Rightarrow> mac_dev \<Rightarrow> u16 \<times> mac_dev" where
  "mac_keycode E key m =
    (case key of K_Raw k \<Rightarrow> (k, m) | K_Layout c \<Rightarrow> map_key_board E c m | _ \<Rightarrow> (mac_keycode_of key, m))"

section \<open>The keyboard\<close>

text \<open>\<open>graphemes\<close> cuts the text into what is posted as one.\<close>

definition mac_key_sequence :: "(string \<Rightarrow> string list) \<Rightarrow> string \<Rightarrow> mac_dev \<Rightarrow> mac_dev" where
  "mac_key_sequence graphemes s = fold (\<lambda>g. with_source (mac_post (MacText g))) (graphemes s)"

definition mac_key_click :: "mac_env \<Rightarrow> key \<Rightarrow> mac_dev \<Rightarrow> mac_dev" where
  "mac_key_click E key m =
    (let (code, m) = mac_keycode E key m in
     if code = no_key then m
     else with_source (\<lambda>m. mac_post (MacKey code False) (mac_post (MacKey code True) m)) m)"

definition mac_key_down :: "mac_env \<Rightarrow> key \<Rightarrow> mac_dev \<Rightarrow> (string + unit) \<times> mac_dev" where
  "mac_key_down E key m =
    (let (code, m) = mac_keycode E key m in
     if code = no_key then (Inl [], m) else (Inr (), with_source (mac_post (MacKey code True)) m))"

definition mac_key_up :: "mac_env \<Rightarrow> key \<Rightarrow> mac_dev \<Rightarrow> mac_dev" where
  "mac_key_up E key m =
    (if md_source m then (let (code, m) = mac_keycode E key m in mac_post (MacKey code False) m) else m)"

definition mac_get_key_state :: "mac_env \<Rightarrow> (u16 \<Rightarrow> bool) \<Rightarrow> key \<Rightarrow> mac_dev \<Rightarrow> bool \<times> mac_dev" where
  "mac_get_key_state E pressed key m = (let (code, m) = mac_keycode E key m in (pressed code, m))"

end
