(* ===== verification/EnigoMacProps.thy ===== *)
theory EnigoMacProps
  imports EnigoMac
begin

text \<open>
  What the back end of macOS does: clicks are counted by their gaps, the cache of keyboards changes
  nothing, a character stands for the last of its keys, and the pointer stays on the display.
\<close>

section \<open>Clicks\<close>

text \<open>The gaps between presses, the latest first.\<close>

fun gaps :: "nat list \<Rightarrow> nat list" where
  "gaps (t # s # ts) = ((t - s) mod 2 ^ 32) # gaps (s # ts)"
| "gaps _ = []"

lemma count_click_snoc:
  "md_last_click (fold count_click ts m) = (if ts = [] then md_last_click m else Some (last ts))
    \<and> md_interval (fold count_click ts m) = md_interval m"
  by (induction ts rule: rev_induct) (auto simp: count_click_def Let_def split: option.splits)

lemma count_click_some:
  "md_last_click m = Some t \<Longrightarrow> md_multiple (count_click now m) =
    (if (now - t) mod 2 ^ 32 \<le> md_interval m then md_multiple m + 1 else 1)"
  by (simp add: count_click_def)

lemma clicks_counted:
  assumes "md_last_click m = None" "md_multiple m = 1"
  shows "md_multiple (fold count_click ts m) = 1 + int (length (takeWhile (\<lambda>g. g \<le> md_interval m) (gaps (rev ts))))"
proof (induction ts rule: rev_induct)
  case Nil
  then show ?case using assms by simp
next
  case (snoc t ts)
  show ?case
  proof (cases ts rule: rev_cases)
    case Nil
    then show ?thesis using assms by (simp add: count_click_def)
  next
    case (snoc ss s)
    then have "md_last_click (fold count_click ts m) = Some s" "md_interval (fold count_click ts m) = md_interval m"
      using count_click_snoc [of ts m] by simp_all
    from count_click_some [OF this(1), of t] this(2) show ?thesis
      using snoc snoc.IH by simp
  qed
qed

text \<open>
  The click state that a press is posted with is the number of presses up to it whose gaps are all
  within the double click interval, whichever buttons they are of.
\<close>

theorem mac_clicks_counted:
  assumes "i > 0" "mac_button True b = Some (button, t, v)"
  shows "last (md_posted (snd (mac_mouse_down E now b (fold count_click ts (mac_default True i))))) =
    (MacMouse t (fst (mac_mouse_location E)) (snd (mac_mouse_location E)) button
       (let n = 1 + int (length (takeWhile (\<lambda>g. g \<le> i) (gaps (rev (ts @ [now]))))) in if n > 1 then Some n else None) v,
     Some {})"
proof -
  let ?m = "mac_default True i"
  let ?m' = "count_click now (fold count_click ts ?m)"
  have rest: "md_source (fold count_click ts m) = md_source m \<and> md_ignore_flags (fold count_click ts m) = md_ignore_flags m
      \<and> md_flags (fold count_click ts m) = md_flags m" for ts m
    by (induction ts arbitrary: m) (simp_all add: count_click_def Let_def split: option.split)
  have f: "md_source ?m'" "\<not> md_ignore_flags ?m'" "md_flags ?m' = {}"
    using rest [of "ts @ [now]" ?m] by (simp_all add: mac_default_def)
  have "md_multiple ?m' = 1 + int (length (takeWhile (\<lambda>g. g \<le> i) (gaps (rev (ts @ [now])))))"
    using clicks_counted [of ?m "ts @ [now]"] assms(1) by (simp add: mac_default_def)
  then show ?thesis
    using assms(2) f
    by (simp add: mac_mouse_down_def mac_mouse_event_def with_source_def mac_post_def split_beta Let_def)
qed

definition demo_mac :: mac_env where
  "demo_mac = \<lparr>me_pressed = 0, me_display = (1440, 900), me_pointer = (100, 800),
     me_keyboard = Some \<lparr>mk_name = Some ''ABC'', mk_translate = (\<lambda>k. if k = 0 then Some [97] else if k = 65 then Some [46] else None)\<rparr>\<rparr>"

lemma mac_clicks_counted_witness:
  "last (md_posted (snd (mac_mouse_down demo_mac 1300 MLeft (fold count_click [100, 1000] (mac_default True 500))))) =
    (MacMouse LeftMouseDown 100 100 CgLeft (Some 2) None, Some {})"
  using mac_clicks_counted [of 500 MLeft CgLeft LeftMouseDown None demo_mac 1300 "[100, 1000]"]
  by (simp add: mac_button_def mac_mouse_location_def demo_mac_def)

section \<open>Keyboards\<close>

lemma get_map_fold:
  assumes "k < n" "\<exists>cs. tr k = Some (ch # cs)" "\<forall>j. k < j \<and> j < n \<longrightarrow> \<not> (\<exists>cs. tr j = Some (ch # cs))"
  shows "fold (get_map_step tr) [0..<n] Map.empty ch = Some (of_nat k)"
  using assms
proof (induction n)
  case (Suc n)
  show ?case
  proof (cases "k = n")
    case True
    then show ?thesis using Suc.prems(2) by (auto simp: get_map_step_def)
  next
    case False
    then have "fold (get_map_step tr) [0..<n] Map.empty ch = Some (of_nat k)"
      using Suc.prems by (intro Suc.IH) auto
    moreover have "\<not> (\<exists>cs. tr n = Some (ch # cs))" using Suc.prems(1,3) False by auto
    then have "get_map_step tr n f ch = f ch" for f by (auto simp: get_map_step_def split: option.splits list.splits)
    ultimately show ?thesis by simp
  qed
qed simp

text \<open>
  On a keyboard where several keys give a character, the character stands for the last of them
  (with the usual codes: the key of the number pad).
\<close>

theorem character_last_key:
  assumes "k < 128" "\<exists>cs. tr k = Some (ch # cs)" "\<forall>j. k < j \<and> j < 128 \<longrightarrow> \<not> (\<exists>cs. tr j = Some (ch # cs))"
  shows "get_map tr ch = Some (of_nat k)"
  unfolding get_map_def by (rule get_map_fold [OF assms])

lemma character_last_key_witness:
  "get_map (\<lambda>k. if k = 0x0F \<or> k = 0x45 then Some [43] else None) 43 = Some 0x45"
  using character_last_key [of "0x45" "\<lambda>k. if k = 0x0F \<or> k = 0x45 then Some [43] else None" 43] by simp

text \<open>The cache holds what the keyboards of those names translate to.\<close>

definition cache_ok :: "(string \<Rightarrow> nat \<Rightarrow> nat list option) \<Rightarrow> mac_dev \<Rightarrow> bool" where
  "cache_ok layouts m \<longleftrightarrow> (\<forall>name v. md_vkeys m name = Some v \<longrightarrow> v = get_map (layouts name))"

definition names_keyboard :: "(string \<Rightarrow> nat \<Rightarrow> nat list option) \<Rightarrow> mac_env \<Rightarrow> bool" where
  "names_keyboard layouts E \<longleftrightarrow>
    (case me_keyboard E of None \<Rightarrow> True
     | Some k \<Rightarrow> (case mk_name k of None \<Rightarrow> True | Some name \<Rightarrow> mk_translate k = layouts name))"

lemma map_key_board_cache:
  "names_keyboard layouts F \<Longrightarrow> cache_ok layouts m \<Longrightarrow> cache_ok layouts (snd (map_key_board F ch m))"
  by (auto simp: map_key_board_def names_keyboard_def cache_ok_def Let_def split: option.splits)

lemma map_key_board_same:
  assumes "names_keyboard layouts E" "cache_ok layouts m"
  shows "fst (map_key_board E ch m) = fst (map_key_board E ch (m\<lparr>md_vkeys := Map.empty\<rparr>))"
proof (cases "me_keyboard E")
  case k: (Some k)
  show ?thesis
  proof (cases "mk_name k")
    case n: (Some name)
    have "md_vkeys m name = None \<or> md_vkeys m name = Some (get_map (mk_translate k))"
      using assms k n by (cases "md_vkeys m name") (auto simp: names_keyboard_def cache_ok_def)
    then show ?thesis by (rule disjE) (simp_all add: map_key_board_def k n Let_def)
  qed (simp add: map_key_board_def k)
qed (simp add: map_key_board_def)

lemma mac_keycode_layout: "mac_keycode E (K_Layout c) m = map_key_board E c m"
  by (simp add: mac_keycode_def)

lemma mac_keycode_other:
  assumes "\<nexists>c. key = K_Layout c" shows "mac_keycode E key m = (fst (mac_keycode E key m'), m)"
  using assms by (cases key) (simp_all add: mac_keycode_def)

lemma mac_keycode_cache:
  assumes "names_keyboard layouts F" "cache_ok layouts m" shows "cache_ok layouts (snd (mac_keycode F key m))"
proof (cases "\<exists>c. key = K_Layout c")
  case True
  then show ?thesis using map_key_board_cache [OF assms] by (auto simp: mac_keycode_layout)
next
  case False
  then show ?thesis using assms(2) mac_keycode_other [OF False] by (metis snd_conv)
qed

lemma mac_keycode_same:
  assumes "names_keyboard layouts E" "cache_ok layouts m"
  shows "fst (mac_keycode E key m) = fst (mac_keycode E key (m\<lparr>md_vkeys := Map.empty\<rparr>))"
proof (cases "\<exists>c. key = K_Layout c")
  case True
  then show ?thesis using map_key_board_same [OF assms] by (auto simp: mac_keycode_layout)
next
  case False
  then show ?thesis using mac_keycode_other [OF False] by (metis fst_conv)
qed

text \<open>
  When keyboards are known by their names, the cache makes no difference: a key has the code that it
  would have with an empty cache, after any keys before it, on whatever keyboards those were typed.
\<close>

theorem keyboard_cache_transparent:
  assumes "\<forall>(F, key) \<in> set before. names_keyboard layouts F" "names_keyboard layouts E"
    and "m = fold (\<lambda>(F, key) m. snd (mac_keycode F key m)) before (mac_default True i)"
  shows "fst (mac_keycode E key m) = fst (mac_keycode E key (m\<lparr>md_vkeys := Map.empty\<rparr>))"
proof -
  have "cache_ok layouts (fold (\<lambda>(F, k) m. snd (mac_keycode F k m)) ks m)"
    if "\<forall>(F, k) \<in> set ks. names_keyboard layouts F" "cache_ok layouts m" for ks m
    using that by (induction ks arbitrary: m) (auto intro: mac_keycode_cache)
  moreover have "cache_ok layouts (mac_default True i)" by (simp add: cache_ok_def mac_default_def)
  ultimately have "cache_ok layouts m" unfolding assms(3) using assms(1) by blast
  with assms(2) show ?thesis by (rule mac_keycode_same)
qed

lemma keyboard_cache_transparent_witness:
  "fst (mac_keycode demo_mac (K_Layout 97) (snd (mac_keycode demo_mac (K_Layout 98) (mac_default True 500))))
    = fst (mac_keycode demo_mac (K_Layout 97) ((snd (mac_keycode demo_mac (K_Layout 98) (mac_default True 500)))\<lparr>md_vkeys := Map.empty\<rparr>))"
proof (rule keyboard_cache_transparent)
  have n: "names_keyboard (\<lambda>_ k. if k = 0 then Some [97] else if k = 65 then Some [46] else None) demo_mac"
    by (simp add: names_keyboard_def demo_mac_def)
  then show "\<forall>(F, key) \<in> set [(demo_mac, K_Layout 98)].
      names_keyboard (\<lambda>_ k. if k = 0 then Some [97] else if k = 65 then Some [46] else None) F" by simp
  show "names_keyboard (\<lambda>_ k. if k = 0 then Some [97] else if k = 65 then Some [46] else None) demo_mac" by (rule n)
  show "snd (mac_keycode demo_mac (K_Layout 98) (mac_default True 500))
    = fold (\<lambda>(F, key) m. snd (mac_keycode F key m)) [(demo_mac, K_Layout 98)] (mac_default True 500)" by simp
qed

section \<open>Keys\<close>

text \<open>
  The keys of the volume are exchanged: asking for less volume presses the key code 0x48, which
  \<^verbatim>\<open>keycodes.rs\<close> names as more volume, and the other way round.
\<close>

theorem volume_keys_swapped:
  "mac_key_down E K_VolumeDown m = (Inr (), with_source (mac_post (MacKey 0x48 True)) m)
    \<and> mac_key_down E K_VolumeUp m = (Inr (), with_source (mac_post (MacKey 0x49 True)) m)"
  by (simp add: mac_key_down_def mac_keycode_def mac_keycode_of_def no_key_def)

text \<open>
  A key without a code is not pressed, but releasing it posts the key code 0xFFFF.
\<close>

theorem unknown_key_released:
  assumes "fst (mac_keycode E key m) = no_key" "md_source m"
  shows "fst (mac_key_down E key m) = Inl [] \<and> md_posted (snd (mac_key_down E key m)) = md_posted (snd (mac_keycode E key m))
    \<and> mac_key_up E key m = mac_post (MacKey 0xFFFF False) (snd (mac_keycode E key m))"
  using assms by (simp add: mac_key_down_def mac_key_up_def split_beta no_key_def)

lemma unknown_key_released_witness:
  "md_posted (mac_key_up demo_mac K_Kana (mac_default True 500)) = [(MacKey 0xFFFF False, Some {})]"
  using unknown_key_released [of demo_mac K_Kana "mac_default True 500"]
  by (simp add: mac_keycode_def mac_keycode_of_def mac_default_def mac_post_def)

text \<open>
  Moving the pointer by a distance never takes it off the main display: what is posted lies on it
  (its right and lower edge included), and a move that would leave it is dropped.
\<close>

theorem relative_stays_on_display:
  "\<exists>new. md_posted (mac_mouse_move_relative E x y m) = md_posted m @ new
    \<and> (\<forall>(ev, fl) \<in> set new. \<exists>t px py. ev = MacMouse t px py CgLeft None None
          \<and> 0 \<le> px \<and> px \<le> int (fst (me_display E)) \<and> 0 \<le> py \<and> py \<le> int (snd (me_display E)))"
  by (cases "me_display E"; cases "mac_mouse_location E")
    (auto simp: mac_mouse_move_relative_def mac_mouse_move_to_def with_source_def mac_post_def Let_def not_less)

end
