(* ===== verification/PipeWire.thy ===== *)
theory PipeWire
  imports LinuxSession Convert
begin

text \<open>
  The capture of a Wayland desktop: \<open>libs/scrap/src/wayland/pipewire.rs\<close>, \<open>capturable.rs\<close> and
  \<open>common/wayland.rs\<close>. The portal of the desktop is asked for a session, its sources and a remote by
  requests whose answers come later as signals; then pictures are pulled from the stream. The portal,
  the values of D-Bus and the samples of GStreamer are arguments; \<open>usize\<close> is \<open>u64\<close> with the wrap-around
  of a release build.
\<close>

section \<open>Pictures pulled from the stream\<close>

datatype pixel_provider =
  RGB nat nat bytes | RGB0 nat nat bytes | BGR0 nat nat bytes | BGR0S nat nat nat bytes | NONE

definition provider_size :: "pixel_provider \<Rightarrow> nat \<times> nat" where
  "provider_size p =
    (case p of RGB w h _ \<Rightarrow> (w, h) | RGB0 w h _ \<Rightarrow> (w, h) | BGR0 w h _ \<Rightarrow> (w, h) | BGR0S w h _ _ \<Rightarrow> (w, h)
     | NONE \<Rightarrow> (0, 0))"

text \<open>
  What is asked of a pulled sample: its structure, the width, height and format of it, the buffer, the
  rectangle to crop (left, top, width, height) and whether the buffer can be mapped.
\<close>

record sample =
  sm_structure :: "string + unit"
  sm_width :: "string + i32"
  sm_height :: "string + i32"
  sm_format :: "string + string"
  sm_buffer :: "bytes option"
  sm_crop :: "(u32 \<times> u32 \<times> u32 \<times> u32) option"
  sm_mapped :: bool

record pw_recorder =
  pr_buffer :: "bytes option"
  pr_cropped :: bytes
  pr_fmt :: string
  pr_is_cropped :: bool
  pr_w :: u64
  pr_h :: u64
  pr_saved :: bytes

definition new_recorder :: pw_recorder where
  "new_recorder = \<lparr>pr_buffer = None, pr_cropped = [], pr_fmt = [], pr_is_cropped = False, pr_w = 0, pr_h = 0,
     pr_saved = []\<rparr>"

text \<open>\<open>PwPanic\<close> is a slice out of range.\<close>

datatype pw_fail = PwErr string | PwPanic

text \<open>A cast of \<open>i32\<close> to \<open>usize\<close>.\<close>

definition usize_of_i32 :: "i32 \<Rightarrow> u64" where
  "usize_of_i32 x = scast x"

text \<open>The rows \<open>ys\<close> of the picture, each from column \<open>x_off\<close> on.\<close>

fun crop_rows :: "bytes \<Rightarrow> u64 \<Rightarrow> u64 \<Rightarrow> u64 \<Rightarrow> u64 list \<Rightarrow> bytes option" where
  "crop_rows data w x_off w_crop [] = Some []"
| "crop_rows data w x_off w_crop (y # ys) =
    (let i = 4 * (w * y + x_off); j = i + 4 * w_crop
     in if i \<le> j \<and> unat j \<le> length data then
          map_option (\<lambda>rest. take (unat j - unat i) (drop (unat i) data) @ rest) (crop_rows data w x_off w_crop ys)
        else None)"

definition crop_lines :: "u64 \<Rightarrow> u64 \<Rightarrow> u64 list" where
  "crop_lines y_off h_crop = map of_nat [unat y_off ..< unat (y_off + h_crop)]"

text \<open>The part of \<open>capture\<close> that takes a mapped buffer over.\<close>

definition take_buffer :: "bytes \<Rightarrow> u64 \<Rightarrow> u64 \<Rightarrow> (u32 \<times> u32 \<times> u32 \<times> u32) option \<Rightarrow> pw_recorder \<Rightarrow>
    (pw_fail + unit) \<times> pw_recorder" where
  "take_buffer data w h crop r =
    (if (of_nat (length data) :: u64) \<noteq> w * h * 4 then (Inr (), r)
     else
       case crop of
         Some (x, y, wc, hc) \<Rightarrow>
           (case crop_rows data w (ucast x) (ucast wc) (crop_lines (ucast y) (ucast hc)) of
              None \<Rightarrow> (Inl PwPanic, r\<lparr>pr_cropped := []\<rparr>)
            | Some d \<Rightarrow> (Inr (), r\<lparr>pr_cropped := d, pr_w := ucast wc, pr_h := ucast hc, pr_is_cropped := True,
                                 pr_buffer := Some data\<rparr>))
       | None \<Rightarrow> (Inr (), r\<lparr>pr_w := w, pr_h := h, pr_is_cropped := False, pr_buffer := Some data\<rparr>))"

text \<open>The end of \<open>capture\<close>: what is provided from the state.\<close>

definition provide :: "pw_recorder \<Rightarrow> pw_fail + pixel_provider" where
  "provide r =
    (case pr_buffer r of
       None \<Rightarrow> Inl (PwErr ''No buffer available!'')
     | Some data \<Rightarrow>
         let buf = (if pr_is_cropped r then pr_cropped r else data) in
         if pr_fmt r = ''BGRx'' then Inr (BGR0 (unat (pr_w r)) (unat (pr_h r)) buf)
         else if pr_fmt r = ''RGBx'' then Inr (RGB0 (unat (pr_w r)) (unat (pr_h r)) buf)
         else Inl (PwErr (''Unreachable! Unknown pix_fmt, '' @ pr_fmt r)))"

text \<open>The operator \<open>?\<close> of a function with a state.\<close>

definition try_pw :: "string + 'a \<Rightarrow> 'r \<Rightarrow> ('a \<Rightarrow> (pw_fail + 'b) \<times> 'r) \<Rightarrow> (pw_fail + 'b) \<times> 'r" where
  "try_pw v r k = (case v of Inl e \<Rightarrow> (Inl (PwErr e), r) | Inr x \<Rightarrow> k x)"

definition capture_sample :: "sample \<Rightarrow> pw_recorder \<Rightarrow> (pw_fail + pixel_provider) \<times> pw_recorder" where
  "capture_sample s r =
    try_pw (sm_structure s) r (\<lambda>_. try_pw (sm_width s) r (\<lambda>w32. try_pw (sm_height s) r (\<lambda>h32.
    try_pw (sm_format s) r (\<lambda>fmt.
      let w = usize_of_i32 w32; h = usize_of_i32 h32; r = r\<lparr>pr_fmt := fmt\<rparr> in
      (case sm_buffer s of
         None \<Rightarrow> (Inl (PwErr ''Failed to get owned buffer.''), r)
       | Some data \<Rightarrow>
           let crop = (if sm_crop s = Some (0, 0, ucast w, ucast h) then None else sm_crop s) in
           if \<not> sm_mapped s then (Inl (PwErr ''Failed to map buffer.''), r)
           else
             let (same, saved) = would_block_if_equal (pr_saved r) data; r = r\<lparr>pr_saved := saved\<rparr> in
             if same then (Inr NONE, r)
             else
               (case take_buffer data w h crop r of
                  (Inl e, r) \<Rightarrow> (Inl e, r)
                | (Inr _, r) \<Rightarrow> (provide r, r)))))))"

definition capture :: "sample option \<Rightarrow> pw_recorder \<Rightarrow> (pw_fail + pixel_provider) \<times> pw_recorder" where
  "capture s r = (case s of None \<Rightarrow> (Inr NONE, r) | Some s \<Rightarrow> capture_sample s r)"

section \<open>The frames of \<open>common/wayland.rs\<close>\<close>

text \<open>\<open>PixelBuffer::new\<close> of \<open>common/x11.rs\<close> divides by the height.\<close>

definition new_pixel_buffer :: "bytes \<Rightarrow> pixfmt \<Rightarrow> nat \<Rightarrow> nat \<Rightarrow> pixel_buffer option" where
  "new_pixel_buffer d fmt w h =
    (if h = 0 then None
     else Some \<lparr>pb_len = length d, pb_stride = [length d div h], pb_fmt = fmt, pb_w = w, pb_h = h\<rparr>)"

datatype frame_result = FrameOk pixel_buffer bytes | FrameWouldBlock | FrameErr string | FramePanic

definition pixel_frame :: "bytes \<Rightarrow> pixfmt \<Rightarrow> nat \<Rightarrow> nat \<Rightarrow> frame_result" where
  "pixel_frame d fmt w h = (case new_pixel_buffer d fmt w h of None \<Rightarrow> FramePanic | Some b \<Rightarrow> FrameOk b d)"

definition wayland_frame :: "sample option \<Rightarrow> pw_recorder \<Rightarrow> frame_result \<times> pw_recorder" where
  "wayland_frame s r =
    (case capture s r of
       (Inl (PwErr e), r) \<Rightarrow> (FrameErr e, r)
     | (Inl PwPanic, r) \<Rightarrow> (FramePanic, r)
     | (Inr p, r) \<Rightarrow>
         ((case p of
             BGR0 w h x \<Rightarrow> pixel_frame x PixBGRA w h
           | RGB0 w h x \<Rightarrow> pixel_frame x PixRGBA w h
           | NONE \<Rightarrow> FrameWouldBlock
           | _ \<Rightarrow> FrameErr ''Invalid data''), r))"

section \<open>The streams in the answer of the portal\<close>

text \<open>The views of a D-Bus value (\<open>RefArg\<close>).\<close>

record 'a ref_arg =
  ra_iter :: "'a \<Rightarrow> 'a list option"
  ra_u64 :: "'a \<Rightarrow> u64 option"
  ra_i64 :: "'a \<Rightarrow> i64 option"
  ra_str :: "'a \<Rightarrow> string option"

record pw_stream =
  st_path :: u64
  st_source_type :: u64
  st_position :: "i32 \<times> i32"
  st_size :: "u64 \<times> u64"

text \<open>\<open>filter_map\<close> of an iterator, and the entries at even and at odd places.\<close>

definition filter_map :: "('a \<Rightarrow> 'b option) \<Rightarrow> 'a list \<Rightarrow> 'b list" where
  "filter_map f xs = List.map_filter f xs"

fun evens :: "'a list \<Rightarrow> 'a list" where
  "evens [] = []"
| "evens [x] = [x]"
| "evens (x # _ # xs) = x # evens xs"

definition odds :: "'a list \<Rightarrow> 'a list" where
  "odds xs = evens (tl xs)"

definition stream_attributes :: "'a ref_arg \<Rightarrow> 'a list \<Rightarrow> string \<Rightarrow> 'a option" where
  "stream_attributes A kvs = map_of (rev (zip (filter_map (ra_str A) (evens kvs)) (odds kvs)))"

text \<open>The first value inside that can be iterated, as integers: \<open>.filter_map(..).next()\<close>.\<close>

definition first_numbers :: "'a ref_arg \<Rightarrow> 'a list \<Rightarrow> i64 list option" where
  "first_numbers A vs =
    (case filter_map (ra_iter A) vs of
       [] \<Rightarrow> None
     | xs # _ \<Rightarrow> Some (map (\<lambda>x. case ra_i64 A x of None \<Rightarrow> 0 | Some n \<Rightarrow> n) xs))"

definition stream_size :: "i64 list option \<Rightarrow> u64 \<times> u64" where
  "stream_size v = (case v of Some [a, b] \<Rightarrow> (a, b) | _ \<Rightarrow> (0, 0))"

definition stream_position :: "i64 list option \<Rightarrow> i32 \<times> i32" where
  "stream_position v = (case v of Some [a, b] \<Rightarrow> (ucast a, ucast b) | _ \<Rightarrow> (0, 0))"

definition stream_of :: "'a ref_arg \<Rightarrow> 'a \<Rightarrow> pw_stream option" where
  "stream_of A v =
    (case ra_iter A v of
       Some (p # m # _) \<Rightarrow>
         Option.bind (ra_u64 A p) (\<lambda>path. Option.bind (ra_iter A m) (\<lambda>kvs.
           let attrs = stream_attributes A kvs;
               source = (case attrs ''source_type'' of None \<Rightarrow> Some 0 | Some x \<Rightarrow> ra_u64 A x)
           in Option.bind source (\<lambda>ty. Option.bind (Option.bind (attrs ''size'') (ra_iter A)) (\<lambda>sz.
                let info = \<lparr>st_path = path, st_source_type = ty, st_position = (0, 0),
                            st_size = stream_size (first_numbers A sz)\<rparr>
                in (case attrs ''position'' of
                      None \<Rightarrow> Some info
                    | Some x \<Rightarrow> map_option (\<lambda>pos. info\<lparr>st_position := stream_position (first_numbers A pos)\<rparr>)
                                 (ra_iter A x))))))
     | _ \<Rightarrow> None)"

definition streams_from_response :: "'a ref_arg \<Rightarrow> (string \<Rightarrow> 'a option) \<Rightarrow> pw_stream list" where
  "streams_from_response A results =
    (case Option.bind (results ''streams'') (ra_iter A) of
       Some (v # _) \<Rightarrow> (case ra_iter A v of None \<Rightarrow> [] | Some ss \<Rightarrow> filter_map (stream_of A) ss)
     | _ \<Rightarrow> [])"

section \<open>The conversation with the portal\<close>

text \<open>
  The calls of the portal with their arguments; \<open>AddMatch\<close> asks the bus for the signals of a request.
\<close>

datatype portal_arg = ArgStr string | ArgU32 nat

datatype portal_call =
  ScVersion
| ScCreate "(string \<times> portal_arg) list"
| RdpCreate "(string \<times> portal_arg) list"
| SelectDevices string "(string \<times> portal_arg) list"
| SelectSources string "(string \<times> portal_arg) list"
| ScStart string "(string \<times> portal_arg) list"
| RdpStart string "(string \<times> portal_arg) list"
| OpenRemote string
| AddMatch string

text \<open>What the portal answers to the last of the calls so far.\<close>

record portal =
  po_version :: "string + nat"
  po_path :: "portal_call list \<Rightarrow> string + string"
  po_fd :: "portal_call list \<Rightarrow> string + nat"
  po_match :: "portal_call list \<Rightarrow> string + unit"

text \<open>The closures handed to \<open>handle_response\<close>, with the session and whether tokens are supported.\<close>

datatype on_response =
  OnCreateSession bool | OnSelectDevices string bool | OnSelectSources string bool | OnStart string bool

record portal_state =
  ps_fd :: "nat option"
  ps_streams :: "pw_stream list"
  ps_session :: "string option"
  ps_failure :: bool
  ps_matches :: "(string \<times> on_response) list"
  ps_log :: "portal_call list"
  ps_world :: world

record 'a portal_response =
  rs_code :: nat
  rs_results :: "string \<Rightarrow> 'a option"

definition is_server_running :: "string \<Rightarrow> linux_env \<Rightarrow> bool" where
  "is_server_running app E =
    (let a = to_lowercase app in
     case le_run E ''sh'' [''-c'', ''ps aux | grep '' @ a] of
       None \<Rightarrow> False
     | Some out \<Rightarrow> contains_str (a @ '' --server'') out)"

definition ask :: "portal \<Rightarrow> portal_call \<Rightarrow> portal_state \<Rightarrow> (string + string) \<times> portal_state" where
  "ask P c st = (let log = ps_log st @ [c] in (po_path P log, st\<lparr>ps_log := log\<rparr>))"

definition handle_response :: "portal \<Rightarrow> string \<Rightarrow> on_response \<Rightarrow> portal_state \<Rightarrow> (string + unit) \<times> portal_state" where
  "handle_response P path h st =
    (let log = ps_log st @ [AddMatch path]; st = st\<lparr>ps_log := log\<rparr> in
     case po_match P log of
       Inl e \<Rightarrow> (Inl e, st)
     | Inr _ \<Rightarrow> (Inr (), st\<lparr>ps_matches := ps_matches st @ [(path, h)]\<rparr>))"

text \<open>A request and the handler for its answer.\<close>

definition request :: "portal \<Rightarrow> portal_call \<Rightarrow> on_response \<Rightarrow> portal_state \<Rightarrow> (string + unit) \<times> portal_state" where
  "request P c h st =
    (case ask P c st of (Inl e, st) \<Rightarrow> (Inl e, st) | (Inr path, st) \<Rightarrow> handle_response P path h st)"

definition RESTORE_TOKEN :: string where
  "RESTORE_TOKEN = ''restore_token''"

definition RESTORE_TOKEN_CONF_KEY :: string where
  "RESTORE_TOKEN_CONF_KEY = ''wayland-restore-token''"

definition token_args :: "world \<Rightarrow> (string \<times> portal_arg) list" where
  "token_args w =
    (let t = local_get_option w RESTORE_TOKEN_CONF_KEY in
     (if t = [] then [] else [(RESTORE_TOKEN, ArgStr t)]) @ [(''persist_mode'', ArgU32 2)])"

text \<open>The first error goes on with the response as debugging shows it.\<close>

definition on_create_session_response :: "'a ref_arg \<Rightarrow> portal \<Rightarrow> bool \<Rightarrow> bool \<Rightarrow> 'a portal_response \<Rightarrow> portal_state \<Rightarrow>
    (string + unit) \<times> portal_state" where
  "on_create_session_response A P running support r st =
    (case rs_results r ''session_handle'' of
       None \<Rightarrow> (Inl ''Failed to obtain session_handle from response: '', st)
     | Some v \<Rightarrow>
         (case ra_str A v of
            None \<Rightarrow> (Inl ''Failed to convert session_handle to string.'', st)
          | Some ses \<Rightarrow>
              let st = st\<lparr>ps_session := Some ses\<rparr> in
              if running then
                request P
                  (SelectSources ses ((if support then token_args (ps_world st) else [])
                    @ [(''handle_token'', ArgStr ''u3''), (''types'', ArgU32 1)]))
                  (OnSelectSources ses support) st
              else
                request P (SelectDevices ses [(''handle_token'', ArgStr ''u2''), (''types'', ArgU32 7)])
                  (OnSelectDevices ses support) st))"

definition on_select_devices_response :: "portal \<Rightarrow> string \<Rightarrow> bool \<Rightarrow> portal_state \<Rightarrow> (string + unit) \<times> portal_state" where
  "on_select_devices_response P session support st =
    request P (SelectSources session [(''handle_token'', ArgStr ''u3''), (''types'', ArgU32 1)])
      (OnSelectSources session support) st"

definition on_select_sources_response :: "portal \<Rightarrow> bool \<Rightarrow> string \<Rightarrow> bool \<Rightarrow> portal_state \<Rightarrow>
    (string + unit) \<times> portal_state" where
  "on_select_sources_response P running session support st =
    request P ((if running then ScStart else RdpStart) session [(''handle_token'', ArgStr ''u4'')])
      (OnStart session support) st"

definition on_start_response :: "'a ref_arg \<Rightarrow> portal \<Rightarrow> bool \<Rightarrow> string \<Rightarrow> bool \<Rightarrow> 'a portal_response \<Rightarrow> portal_state \<Rightarrow>
    (string + unit) \<times> portal_state" where
  "on_start_response A P running session support r st =
    (let st = (if running \<and> support then
                 (case Option.bind (rs_results r RESTORE_TOKEN) (ra_str A) of
                    None \<Rightarrow> st
                  | Some t \<Rightarrow> st\<lparr>ps_world := local_set_option RESTORE_TOKEN_CONF_KEY t (ps_world st)\<rparr>)
               else st);
         log = ps_log st @ [OpenRemote session];
         st = st\<lparr>ps_streams := ps_streams st @ streams_from_response A (rs_results r), ps_log := log\<rparr>
     in case po_fd P log of
          Inl e \<Rightarrow> (Inl e, st)
        | Inr fd \<Rightarrow> (Inr (), st\<lparr>ps_fd := Some fd\<rparr>))"

definition run_handler :: "'a ref_arg \<Rightarrow> portal \<Rightarrow> bool \<Rightarrow> on_response \<Rightarrow> 'a portal_response \<Rightarrow> portal_state \<Rightarrow>
    (string + unit) \<times> portal_state" where
  "run_handler A P running h r st =
    (case h of
       OnCreateSession support \<Rightarrow> on_create_session_response A P running support r st
     | OnSelectDevices s support \<Rightarrow> on_select_devices_response P s support st
     | OnSelectSources s support \<Rightarrow> on_select_sources_response P running s support st
     | OnStart s support \<Rightarrow> on_start_response A P running s support r st)"

text \<open>The closure of \<open>handle_response\<close>; the first handler for the path of the request is called.\<close>

definition deliver :: "'a ref_arg \<Rightarrow> portal \<Rightarrow> bool \<Rightarrow> string \<Rightarrow> 'a portal_response \<Rightarrow> portal_state \<Rightarrow> portal_state" where
  "deliver A P running path r st =
    (case map_of (ps_matches st) path of
       None \<Rightarrow> st
     | Some h \<Rightarrow>
         if rs_code r \<noteq> 0 then st\<lparr>ps_failure := True\<rparr>
         else
           case run_handler A P running h r st of
             (Inl _, st) \<Rightarrow> st\<lparr>ps_failure := True\<rparr>
           | (Inr _, st) \<Rightarrow> st)"

text \<open>
  What \<open>conn.process\<close> does within 100 milliseconds: fail, nothing, or deliver a signal; \<open>is_server_running\<close>
  is asked again each time.
\<close>

datatype 'a portal_event = BusError string | Idle | Response bool string "'a portal_response"

fun wait_loop :: "'a ref_arg \<Rightarrow> portal \<Rightarrow> 'a portal_event list \<Rightarrow> portal_state \<Rightarrow> (string + unit) \<times> portal_state" where
  "wait_loop A P [] st = (Inr (), st)"
| "wait_loop A P (BusError e # evs) st = (Inl e, st)"
| "wait_loop A P (Idle # evs) st =
    (if ps_fd st \<noteq> None \<or> ps_failure st then (Inr (), st) else wait_loop A P evs st)"
| "wait_loop A P (Response running path r # evs) st =
    (let st = deliver A P running path r st in
     if ps_fd st \<noteq> None \<or> ps_failure st then (Inr (), st) else wait_loop A P evs st)"

definition start_state :: "world \<Rightarrow> portal_state" where
  "start_state w = \<lparr>ps_fd = None, ps_streams = [], ps_session = None, ps_failure = False, ps_matches = [],
     ps_log = [], ps_world = w\<rparr>"

definition supports_restore_token :: "portal \<Rightarrow> bool" where
  "supports_restore_token P = (case po_version P of Inl _ \<Rightarrow> False | Inr v \<Rightarrow> 4 \<le> v)"

text \<open>
  The connection to the bus and the initialisation of GStreamer are outcomes; \<open>evs\<close> holds what arrives,
  of which the loop waits for 1800 turns.
\<close>

record pw_remote =
  pe_fd :: nat
  pe_streams :: "pw_stream list"
  pe_session :: string
  pe_support :: bool

definition capture_failed :: string where
  "capture_failed = ''Failed to obtain screen capture. You may need to upgrade the PipeWire library for better compatibility. Please check https://github.com/rustdesk/rustdesk/issues/8600#issuecomment-2254720954 for more details.''"

definition portal_result :: "portal \<Rightarrow> portal_state \<Rightarrow> string + pw_remote" where
  "portal_result P st =
    (case (ps_fd st, ps_session st) of
       (Some fd, Some session) \<Rightarrow>
         if ps_streams st \<noteq> [] then
           Inr \<lparr>pe_fd = fd, pe_streams = ps_streams st, pe_session = session, pe_support = supports_restore_token P\<rparr>
         else Inl capture_failed
     | _ \<Rightarrow> Inl capture_failed)"

definition request_remote_desktop :: "'a ref_arg \<Rightarrow> portal \<Rightarrow> string + unit \<Rightarrow> bool \<Rightarrow> 'a portal_event list \<Rightarrow> world \<Rightarrow>
    (string + pw_remote) \<times> portal_state" where
  "request_remote_desktop A P conn running evs w =
    (case conn of
       Inl e \<Rightarrow> (Inl e, start_state w)
     | Inr _ \<Rightarrow>
         let args = [(''session_handle_token'', ArgStr ''u1''), (''handle_token'', ArgStr ''u1'')];
             st = (start_state w)\<lparr>ps_log := [ScVersion]\<rparr>;
             support = supports_restore_token P
         in case request P ((if running then ScCreate else RdpCreate) args) (OnCreateSession support) st of
              (Inl e, st) \<Rightarrow> (Inl e, st)
            | (Inr _, st) \<Rightarrow>
                (case wait_loop A P (take 1800 evs) st of
                   (Inl e, st) \<Rightarrow> (Inl e, st)
                 | (Inr _, st) \<Rightarrow> (portal_result P st, st)))"

section \<open>The session that is held\<close>

record pw_capturable =
  pc_fd :: nat
  pc_path :: u64
  pc_source_type :: u64
  pc_position :: "i32 \<times> i32"
  pc_size :: "u64 \<times> u64"

text \<open>\<open>RDP_SESSION_INFO\<close> with its cell for the resolution.\<close>

record rdp_session =
  rd_remote :: pw_remote
  rd_resolution :: "(u64 \<times> u64) option"

definition is_rdp_session_hold :: "rdp_session option \<Rightarrow> bool" where
  "is_rdp_session_hold s \<longleftrightarrow> s \<noteq> None"

definition try_close_session :: "bool \<Rightarrow> rdp_session option \<Rightarrow> rdp_session option" where
  "try_close_session running s =
    (case s of
       Some i \<Rightarrow> if running \<and> pe_support (rd_remote i) then None else s
     | None \<Rightarrow> None)"

text \<open>\<open>get_res\<close>: the size in the caps of a first sample; making the recorder may fail.\<close>

definition get_res :: "string + sample option \<Rightarrow> string + u64 \<times> u64" where
  "get_res pulled =
    (case pulled of
       Inl e \<Rightarrow> Inl e
     | Inr None \<Rightarrow> Inl ''Error getting screen resolution''
     | Inr (Some s) \<Rightarrow>
         (case (sm_structure s, sm_width s, sm_height s) of
            (Inl e, _, _) \<Rightarrow> Inl e
          | (_, Inl e, _) \<Rightarrow> Inl e
          | (_, _, Inl e) \<Rightarrow> Inl e
          | (_, Inr w, Inr h) \<Rightarrow> Inr (usize_of_i32 w, usize_of_i32 h)))"

definition new_capturable :: "(pw_stream \<Rightarrow> string + sample option) \<Rightarrow> nat \<Rightarrow> pw_stream \<Rightarrow> pw_capturable" where
  "new_capturable pull fd s =
    \<lparr>pc_fd = fd, pc_path = st_path s, pc_source_type = st_source_type s, pc_position = st_position s,
     pc_size = (case get_res (pull s) of Inl _ \<Rightarrow> st_size s | Inr sz \<Rightarrow> sz)\<rparr>"

definition capturable_name :: "(u64 \<Rightarrow> string) \<Rightarrow> pw_capturable \<Rightarrow> string" where
  "capturable_name show_path c =
    ''Pipewire '' @ (if pc_source_type c = 1 then ''Desktop'' else if pc_source_type c = 2 then ''Window'' else ''Unknow'')
     @ '', path: '' @ show_path (pc_path c)"

text \<open>The resolution kept is that of the stream made last.\<close>

definition make_capturables :: "(pw_stream \<Rightarrow> string + sample option) \<Rightarrow> rdp_session \<Rightarrow> pw_capturable list \<times> rdp_session" where
  "make_capturables pull i =
    (let cs = map (new_capturable pull (pe_fd (rd_remote i))) (pe_streams (rd_remote i)) in
     (cs, if cs = [] then i else i\<lparr>rd_resolution := Some (pc_size (last cs))\<rparr>))"

text \<open>The state of the portal is returned when it was asked, with the configuration it may have changed.\<close>

definition get_capturables :: "'a ref_arg \<Rightarrow> portal \<Rightarrow> string + unit \<Rightarrow> bool \<Rightarrow> 'a portal_event list \<Rightarrow>
    (pw_stream \<Rightarrow> string + sample option) \<Rightarrow> rdp_session option \<Rightarrow> world \<Rightarrow>
    (string + pw_capturable list) \<times> rdp_session option \<times> world" where
  "get_capturables A P conn running evs pull held w =
    (case held of
       Some i \<Rightarrow> (case make_capturables pull i of (cs, i) \<Rightarrow> (Inr cs, Some i, w))
     | None \<Rightarrow>
         (case request_remote_desktop A P conn running evs w of
            (Inl e, st) \<Rightarrow> (Inl e, None, ps_world st)
          | (Inr r, st) \<Rightarrow>
              (case make_capturables pull \<lparr>rd_remote = r, rd_resolution = None\<rparr> of
                 (cs, i) \<Rightarrow> (Inr cs, Some i, ps_world st))))"

text \<open>\<open>Display\<close> of \<open>common/wayland.rs\<close>.\<close>

definition wayland_primary :: "string + pw_capturable list \<Rightarrow> string + pw_capturable" where
  "wayland_primary all = (case all of Inl e \<Rightarrow> Inl e | Inr [] \<Rightarrow> Inl ''NotFound'' | Inr (d # _) \<Rightarrow> Inr d)"

end
