(* ===== verification/PipeWireProps.thy ===== *)
theory PipeWireProps
  imports PipeWire ConvertProps ConfigProps
begin

text \<open>
  What holds of the capture of a Wayland desktop: every picture has the length of its size and can be
  converted, a cropped picture shows its rectangle, the calls of the portal come in order, and the token
  that the portal gave is sent with the next session.
\<close>

section \<open>Machine integers\<close>

lemma usize_of_i32:
  assumes "0 \<le> sint w"
  shows "unat (usize_of_i32 w) = unat w" "unat w < 2 ^ 31"
proof -
  have less: "sint w < 2 ^ 31" using sint_less [of w] by simp
  have eq: "sint w = uint w"
    using uint_sint [of w] assms less by (simp add: take_bit_int_eq_self)
  have "int (unat w) < int (2 ^ 31)" unfolding of_nat_unat using less eq by simp
  then show "unat w < 2 ^ 31" by (simp only: of_nat_less_iff)
  have "usize_of_i32 w = ucast w"
    by (simp add: usize_of_i32_def scast_eq eq)
  then show "unat (usize_of_i32 w) = unat w" by (simp add: unat_ucast_up)
qed

lemma area_no_wrap:
  assumes "unat w < 2 ^ 31" "unat h < 2 ^ 31" "n < 2 ^ 63" "(of_nat n :: u64) = w * h * 4"
  shows "n = 4 * unat w * unat h"
proof -
  have "unat w * unat h < (2 ^ 31) * (2 ^ 31)" using assms(1,2) by (intro mult_strict_mono) auto
  then have area: "unat w * unat h < 2 ^ 62" by simp
  have "unat (w * h * 4) = (unat w * unat h) * 4 mod 2 ^ 64"
    by (simp add: unat_word_ariths mod_mult_left_eq)
  also have "\<dots> = (unat w * unat h) * 4"
    by (rule mod_less) (use area in \<open>simp add: mult.commute\<close>)
  finally have "unat (w * h * 4) = (unat w * unat h) * 4" .
  then show ?thesis using assms(3) arg_cong [OF assms(4), of unat] by (simp add: unat_of_nat)
qed

section \<open>Cropping\<close>

lemma unat_ucast_u32 [simp]: "unat (ucast (x :: u32) :: u64) = unat x"
  by (rule unat_ucast_up) simp

lemma unat_four: "unat (4 * (ucast (c :: u32)) :: u64) = 4 * unat c"
proof -
  have "4 * unat c < 2 ^ 64" using unsigned_less [of c, where ?'a = nat] by simp
  then show ?thesis by (simp add: unat_word_ariths)
qed

lemma crop_rows_length:
  "crop_rows data w x (ucast (wc :: u32)) ys = Some d \<Longrightarrow> length d = 4 * unat wc * length ys"
proof (induction ys arbitrary: d)
  case (Cons y ys)
  let ?i = "4 * (w * y + x)" and ?c = "4 * (ucast wc :: u64)"
  from Cons.prems obtain rest where le: "?i \<le> ?i + ?c" "unat (?i + ?c) \<le> length data"
    and rest: "crop_rows data w x (ucast wc) ys = Some rest"
    and d: "d = take (unat (?i + ?c) - unat ?i) (drop (unat ?i) data) @ rest"
    by (auto simp: Let_def split: if_splits)
  have "unat (?i + ?c) = unat ?i + 4 * unat wc"
    using le(1) by (simp add: unat_plus_simple unat_four)
  then show ?case using Cons.IH [OF rest] le(2) d by simp
qed simp

lemma unat_add_u32: "unat ((ucast (a :: u32) :: u64) + ucast (b :: u32)) = unat a + unat b"
proof -
  have "unat a + unat b < 2 ^ 64"
    using unsigned_less [of a, where ?'a = nat] unsigned_less [of b, where ?'a = nat] by simp
  then show ?thesis by (simp add: unat_word_ariths)
qed

lemma length_crop_lines: "length (crop_lines (ucast (a :: u32)) (ucast (b :: u32))) = unat b"
  by (simp add: crop_lines_def unat_add_u32)

section \<open>Every picture has the length of its size\<close>

text \<open>What is documented of samples: sizes are not negative, and buffers are at most \<open>isize::MAX\<close> long.\<close>

definition sample_ok :: "sample \<Rightarrow> bool" where
  "sample_ok s \<longleftrightarrow>
    (case sm_width s of Inl _ \<Rightarrow> True | Inr w \<Rightarrow> 0 \<le> sint w) \<and>
    (case sm_height s of Inl _ \<Rightarrow> True | Inr h \<Rightarrow> 0 \<le> sint h) \<and>
    (case sm_buffer s of None \<Rightarrow> True | Some d \<Rightarrow> length d < 2 ^ 63)"

text \<open>The frames of a run, which a panic ends.\<close>

fun run_frames :: "sample option list \<Rightarrow> pw_recorder \<Rightarrow> frame_result list" where
  "run_frames [] r = []"
| "run_frames (s # ss) r =
    (case wayland_frame s r of (f, r) \<Rightarrow> f # (if f = FramePanic then [] else run_frames ss r))"

definition recorder_ok :: "pw_recorder \<Rightarrow> bool" where
  "recorder_ok r \<longleftrightarrow>
    (case pr_buffer r of
       None \<Rightarrow> True
     | Some d \<Rightarrow> length (if pr_is_cropped r then pr_cropped r else d) = 4 * unat (pr_w r) * unat (pr_h r))"

lemma recorder_ok_kept [simp]:
  "recorder_ok (r\<lparr>pr_fmt := f\<rparr>) = recorder_ok r"
  "recorder_ok (r\<lparr>pr_saved := b\<rparr>) = recorder_ok r"
  by (cases "pr_buffer r"; simp add: recorder_ok_def)+

lemma new_recorder_ok: "recorder_ok new_recorder"
  by (simp add: recorder_ok_def new_recorder_def)

lemma take_buffer_ok:
  assumes "recorder_ok r" "0 \<le> sint w" "0 \<le> sint h" "length d < 2 ^ 63"
    and "take_buffer d (usize_of_i32 w) (usize_of_i32 h) crop r = (Inr u, r')"
  shows "recorder_ok r'"
proof (cases "(of_nat (length d) :: u64) = usize_of_i32 w * usize_of_i32 h * 4")
  case True
  have "length d = 4 * unat (usize_of_i32 w) * unat (usize_of_i32 h)"
    using area_no_wrap [OF _ _ assms(4) True] usize_of_i32 [OF assms(2)] usize_of_i32 [OF assms(3)] by simp
  then show ?thesis using assms(5) True
    by (auto simp: take_buffer_def recorder_ok_def length_crop_lines dest!: crop_rows_length split: option.splits)
qed (use assms(1,5) in \<open>simp add: take_buffer_def\<close>)

definition provider_ok :: "pixel_provider \<Rightarrow> bool" where
  "provider_ok p =
    (case p of BGR0 w h d \<Rightarrow> length d = 4 * w * h | RGB0 w h d \<Rightarrow> length d = 4 * w * h | NONE \<Rightarrow> True | _ \<Rightarrow> False)"

lemma provide_ok: "recorder_ok r \<Longrightarrow> provide r = Inr p \<Longrightarrow> provider_ok p"
  by (auto simp: provide_def recorder_ok_def provider_ok_def Let_def split: option.splits if_splits)

lemma capture_sample_ok:
  assumes "recorder_ok r" "sample_ok s" "capture_sample s r = (res, r')" "res \<noteq> Inl PwPanic"
  shows "recorder_ok r' \<and> (\<forall>p. res = Inr p \<longrightarrow> provider_ok p)"
proof (cases "\<exists>u w h fmt d. sm_structure s = Inr u \<and> sm_width s = Inr w \<and> sm_height s = Inr h \<and>
    sm_format s = Inr fmt \<and> sm_buffer s = Some d")
  case False
  then show ?thesis using assms(1,3)
    by (auto simp: capture_sample_def try_pw_def Let_def split: sum.splits option.splits)
next
  case True
  then obtain u w h fmt d where s: "sm_structure s = Inr u" "sm_width s = Inr w" "sm_height s = Inr h"
    "sm_format s = Inr fmt" "sm_buffer s = Some d" by blast
  have ok: "0 \<le> sint w" "0 \<le> sint h" "length d < 2 ^ 63" using assms(2) s by (simp_all add: sample_ok_def)
  define crop where "crop = (if sm_crop s = Some (0, 0, ucast (usize_of_i32 w), ucast (usize_of_i32 h)) then None
    else sm_crop s)"
  define r1 where "r1 = r\<lparr>pr_fmt := fmt, pr_saved := d\<rparr>"
  have r1: "recorder_ok r1" using assms(1) by (simp add: r1_def)
  obtain t r2 where t: "take_buffer d (usize_of_i32 w) (usize_of_i32 h) crop r1 = (t, r2)" by fastforce
  have shown: "capture_sample s r =
    (if \<not> sm_mapped s then (Inl (PwErr ''Failed to map buffer.''), r\<lparr>pr_fmt := fmt\<rparr>)
     else if d = pr_saved r then (Inr NONE, r\<lparr>pr_fmt := fmt\<rparr>)
     else case t of Inl e \<Rightarrow> (Inl e, r2) | Inr _ \<Rightarrow> (provide r2, r2))"
    using t by (simp add: capture_sample_def try_pw_def Let_def s would_block_if_equal_def crop_def [symmetric] r1_def
        split: sum.splits)
  show ?thesis
  proof (cases t)
    case (Inl e)
    then have "e = PwPanic" using t by (auto simp: take_buffer_def split: if_splits option.splits)
    then show ?thesis using assms(1,3,4) shown Inl by (auto simp: provider_ok_def split: if_splits)
  next
    case (Inr u')
    then have "recorder_ok r2" using take_buffer_ok [OF r1 ok] t by simp
    then show ?thesis using assms(1,3) shown Inr by (auto simp: provider_ok_def [of NONE] dest: provide_ok split: if_splits)
  qed
qed

definition frame_ok :: "frame_result \<Rightarrow> bool" where
  "frame_ok f =
    (case f of
       FrameOk b d \<Rightarrow> pb_h b \<noteq> 0 \<and> pb_len b = length d \<and> length d = 4 * pb_w b * pb_h b \<and> pb_stride b = [4 * pb_w b]
         \<and> is_rgb (pb_fmt b) \<and> bytes_per_pixel (pb_fmt b) = 4
     | _ \<Rightarrow> True)"

lemma pixel_frame_ok:
  assumes "length d = 4 * w * h" "fmt = PixBGRA \<or> fmt = PixRGBA"
  shows "frame_ok (pixel_frame d fmt w h)"
  using assms by (auto simp: pixel_frame_def new_pixel_buffer_def frame_ok_def is_rgb_def bytes_per_pixel_def)

lemma wayland_frame_ok:
  assumes "recorder_ok r" "\<forall>x. s = Some x \<longrightarrow> sample_ok x" "wayland_frame s r = (f, r')"
  shows "frame_ok f \<and> (f \<noteq> FramePanic \<longrightarrow> recorder_ok r')"
proof -
  obtain res r2 where c: "capture s r = (res, r2)" by fastforce
  have ok: "recorder_ok r2 \<and> (\<forall>p. res = Inr p \<longrightarrow> provider_ok p)" if "res \<noteq> Inl PwPanic"
    using c capture_sample_ok [OF assms(1)] assms(1,2) that
    by (cases s) (auto simp: capture_def provider_ok_def split: prod.splits)
  show ?thesis using assms(3) c ok
    by (cases res rule: sum.exhaust; cases "projl res"; cases "projr res")
      (auto simp: wayland_frame_def provider_ok_def frame_ok_def [of "FrameErr _"] frame_ok_def [of FrameWouldBlock]
        frame_ok_def [of FramePanic] intro!: pixel_frame_ok)
qed

lemma run_frames_ok:
  "recorder_ok r \<Longrightarrow> \<forall>x. Some x \<in> set ss \<longrightarrow> sample_ok x \<Longrightarrow> \<forall>f\<in>set (run_frames ss r). frame_ok f"
proof (induction ss arbitrary: r)
  case (Cons s ss)
  obtain f r' where w: "wayland_frame s r = (f, r')" by fastforce
  have "\<forall>x. s = Some x \<longrightarrow> sample_ok x" using Cons.prems(2) by auto
  from wayland_frame_ok [OF Cons.prems(1) this w] show ?case
    using Cons.IH [of r'] Cons.prems(2) w by simp
qed simp

text \<open>
  Every picture that the capture of a Wayland desktop hands out, in any run and with any crop, holds
  exactly four bytes for each of its pixels, and passes the checks before its conversion unless it is larger
  than the format of the encoder.
\<close>

theorem wayland_frames_convertible:
  assumes "\<forall>x. Some x \<in> set ss \<longrightarrow> sample_ok x" "FrameOk b d \<in> set (run_frames ss new_recorder)"
    and "pb_w b \<le> yf_w F" "pb_h b \<le> yf_h F"
  shows "length d = 4 * pb_w b * pb_h b \<and> check_source b F = None"
proof -
  have "frame_ok (FrameOk b d)" using run_frames_ok [OF new_recorder_ok assms(1)] assms(2) by blast
  then show ?thesis using assms(3,4) by (simp add: frame_ok_def check_source_def)
qed

definition demo_sample :: "string \<Rightarrow> i32 \<Rightarrow> i32 \<Rightarrow> bytes \<Rightarrow> (u32 \<times> u32 \<times> u32 \<times> u32) option \<Rightarrow> sample" where
  "demo_sample fmt w h d crop = \<lparr>sm_structure = Inr (), sm_width = Inr w, sm_height = Inr h, sm_format = Inr fmt,
     sm_buffer = Some d, sm_crop = crop, sm_mapped = True\<rparr>"

definition demo_pixels :: bytes where
  "demo_pixels = [1, 2, 3, 0, 4, 5, 6, 0, 7, 8, 9, 0, 10, 11, 12, 0]"

lemmas demo_pw = demo_sample_def demo_pixels_def wayland_frame_def capture_def capture_sample_def try_pw_def Let_def
  would_block_if_equal_def take_buffer_def usize_of_i32_def crop_lines_def provide_def pixel_frame_def
  new_pixel_buffer_def new_recorder_def upt_conv_Cons

lemma demo_run:
  "run_frames [Some (demo_sample ''BGRx'' 2 2 demo_pixels (Some (1, 0, 1, 2)))] new_recorder =
    [FrameOk \<lparr>pb_len = 8, pb_stride = [4], pb_fmt = PixBGRA, pb_w = 1, pb_h = 2\<rparr> [4, 5, 6, 0, 10, 11, 12, 0]]"
  by (simp add: demo_pw)

theorem wayland_frames_convertible_witness:
  "length [4, 5, 6, 0, 10, 11, 12, 0 :: u8] = 4 * 1 * 2"
proof -
  let ?b = "\<lparr>pb_len = 8, pb_stride = [4], pb_fmt = PixBGRA, pb_w = 1, pb_h = 2\<rparr>"
  have "length [4, 5, 6, 0, 10, 11, 12, 0 :: u8] = 4 * pb_w ?b * pb_h ?b \<and>
    check_source ?b \<lparr>yf_fmt = PixI420, yf_w = 2, yf_h = 2, yf_stride = [2, 1, 1], yf_u = 4, yf_v = 5\<rparr> = None"
    by (rule wayland_frames_convertible [of "[Some (demo_sample ''BGRx'' 2 2 demo_pixels (Some (1, 0, 1, 2)))]"])
      (use demo_run in \<open>simp_all add: sample_ok_def demo_sample_def demo_pixels_def\<close>)
  then show ?thesis by simp
qed

section \<open>A crop shows its rectangle\<close>

lemma nth_concat_rows:
  assumes "\<forall>r\<in>set rs. length r = n" "j < length rs" "i < n"
  shows "concat rs ! (n * j + i) = rs ! j ! i"
  using assms
proof (induction rs arbitrary: j)
  case (Cons r rs)
  show ?case
  proof (cases j)
    case (Suc m)
    then show ?thesis using Cons.IH [of m] Cons.prems by (simp add: nth_append)
  qed (use Cons.prems in \<open>simp add: nth_append\<close>)
qed simp

lemma crop_offset:
  assumes "4 * (unat w * unat y + unat x + unat (wc :: u32)) \<le> n" "n < 2 ^ 63"
  shows "unat (4 * ((w :: u64) * y + x)) = 4 * (unat w * unat y + unat x)"
    "unat (4 * (w * y + x) + 4 * ucast wc) = 4 * (unat w * unat y + unat x + unat wc)"
proof -
  have b: "4 * (unat w * unat y + unat x) + 4 * unat wc < 2 ^ 64" using assms by simp
  show e: "unat (4 * (w * y + x)) = 4 * (unat w * unat y + unat x)"
    using b by (simp add: unat_word_ariths mod_simps)
  show "unat (4 * (w * y + x) + 4 * ucast wc) = 4 * (unat w * unat y + unat x + unat wc)"
    using b unfolding unat_word_ariths(1) e unat_four by simp
qed

lemma crop_rows_value:
  assumes "\<forall>y\<in>set ys. 4 * (unat w * unat y + unat x + unat (wc :: u32)) \<le> length d" "length d < 2 ^ 63"
  shows "crop_rows d w x (ucast wc) ys =
    Some (concat (map (\<lambda>y. take (4 * unat wc) (drop (4 * (unat w * unat y + unat x)) d)) ys))"
  using assms(1)
proof (induction ys)
  case (Cons y ys)
  have "4 * (unat w * unat y + unat x + unat wc) \<le> length d" using Cons.prems by simp
  note off = crop_offset [OF this assms(2)]
  have "4 * (w * y + x) \<le> 4 * (w * y + x) + 4 * ucast wc" unfolding word_le_nat_alt off by simp
  then show ?case using Cons off by (simp add: Let_def algebra_simps)
qed simp

lemma crop_lines_nth: "j < unat b \<Longrightarrow> unat (crop_lines (ucast (a :: u32)) (ucast (b :: u32)) ! j) = unat a + j"
proof -
  assume j: "j < unat b"
  have "unat a + j < 2 ^ 64" using j unsigned_less [of a, where ?'a = nat] unsigned_less [of b, where ?'a = nat] by simp
  then show ?thesis using j by (simp add: crop_lines_def unat_add_u32 unat_of_nat del: of_nat_add)
qed

text \<open>
  A picture cropped by the compositor shows exactly the pixels of its rectangle, row by row, whenever the
  rectangle lies in the picture; no index is out of range.
\<close>

theorem crop_shows_rectangle:
  assumes d: "length d = 4 * unat w * unat h" "length d < 2 ^ 63" "(of_nat (length d) :: u64) = w * h * 4"
    and inside: "unat x + unat wc \<le> unat w" "unat y + unat hc \<le> unat h"
    and pixel: "i < unat wc" "j < unat hc" "k < 4"
  shows "\<exists>buf r'. take_buffer d w h (Some (x, y, wc, hc)) r = (Inr (), r') \<and> pr_cropped r' = buf \<and>
    length buf = 4 * unat wc * unat hc \<and>
    buf ! (4 * (unat wc * j + i) + k) = d ! (4 * (unat w * (unat y + j) + unat x + i) + k)"
proof -
  let ?ys = "crop_lines (ucast y) (ucast hc)" and ?x = "ucast x :: u64"
  let ?row = "\<lambda>l. take (4 * unat wc) (drop (4 * (unat w * unat l + unat ?x)) d)"
  have fits: "4 * (unat w * unat l + unat ?x + unat wc) \<le> length d" if "l \<in> set ?ys" for l
  proof -
    from that obtain m where "m < unat hc" "l = ?ys ! m"
      by (auto simp: in_set_conv_nth length_crop_lines)
    then have m: "m < unat hc" "unat l = unat y + m" by (simp_all add: crop_lines_nth)
    have "unat w * unat l + unat w \<le> unat w * unat h"
      using mult_le_mono2 [of "Suc (unat y + m)" "unat h" "unat w"] m inside(2) by simp
    then show ?thesis using d(1) inside(1) by simp
  qed
  have rows: "crop_rows d w ?x (ucast wc) ?ys = Some (concat (map ?row ?ys))"
    by (rule crop_rows_value) (use fits d(2) in auto)
  have len: "\<forall>r\<in>set (map ?row ?ys). length r = 4 * unat wc" using fits by fastforce
  let ?l = "?ys ! j"
  have l: "unat ?l = unat y + j" "?l \<in> set ?ys" using pixel(2) by (simp_all add: crop_lines_nth length_crop_lines)
  have "concat (map ?row ?ys) ! (4 * unat wc * j + (4 * i + k)) = ?row ?l ! (4 * i + k)"
    using nth_concat_rows [OF len, of j "4 * i + k"] pixel by (simp add: length_crop_lines)
  also have "\<dots> = d ! (4 * (unat w * (unat y + j) + unat x + i) + k)"
    using fits [OF l(2)] pixel by (simp add: l(1) algebra_simps)
  finally show ?thesis
    using rows d(3) crop_rows_length [OF rows]
    by (simp add: take_buffer_def length_crop_lines algebra_simps)
qed

theorem crop_shows_rectangle_witness:
  "\<exists>buf r'. take_buffer demo_pixels 2 2 (Some (1, 0, 1, 2)) new_recorder = (Inr (), r') \<and> pr_cropped r' = buf \<and>
    length buf = 8 \<and> buf ! 5 = demo_pixels ! 13"
  using crop_shows_rectangle [of demo_pixels 2 2 1 1 0 2 0 1 1 new_recorder] by (simp add: demo_pixels_def)

text \<open>
  The buffer of a sample that does not have the length of its size is dropped, but its format is kept: the
  picture before it is handed out again with red and blue exchanged.
\<close>

theorem dropped_sample_recolours:
  assumes "pr_buffer r = Some old" "\<not> pr_is_cropped r" "pr_fmt r = ''BGRx''"
    and "sm_structure s = Inr u" "sm_width s = Inr w" "sm_height s = Inr h" "sm_format s = Inr ''RGBx''"
    and "sm_buffer s = Some d" "sm_mapped s" "d \<noteq> pr_saved r"
    and "(of_nat (length d) :: u64) \<noteq> usize_of_i32 w * usize_of_i32 h * 4"
  shows "provide r = Inr (BGR0 (unat (pr_w r)) (unat (pr_h r)) old) \<and>
    fst (capture_sample s r) = Inr (RGB0 (unat (pr_w r)) (unat (pr_h r)) old)"
  using assms by (simp add: provide_def capture_sample_def try_pw_def Let_def would_block_if_equal_def take_buffer_def)

theorem dropped_sample_recolours_witness:
  "fst (capture_sample (demo_sample ''RGBx'' 2 2 [9] None)
      (new_recorder\<lparr>pr_buffer := Some demo_pixels, pr_fmt := ''BGRx'', pr_w := 2, pr_h := 2\<rparr>))
    = Inr (RGB0 2 2 demo_pixels)"
  using dropped_sample_recolours [of "new_recorder\<lparr>pr_buffer := Some demo_pixels, pr_fmt := ''BGRx'', pr_w := 2, pr_h := 2\<rparr>"
      demo_pixels "demo_sample ''RGBx'' 2 2 [9] None" "()" 2 2 "[9]"]
  by (simp add: demo_sample_def new_recorder_def usize_of_i32_def)

section \<open>The calls of the portal come in order\<close>

fun is_create :: "bool \<Rightarrow> portal_call \<Rightarrow> bool" where
  "is_create running (ScCreate _) = running"
| "is_create running (RdpCreate _) = (\<not> running)"
| "is_create running _ = False"

fun is_devices :: "string \<Rightarrow> portal_call \<Rightarrow> bool" where
  "is_devices s (SelectDevices t _) = (s = t)"
| "is_devices s _ = False"

fun is_sources :: "string \<Rightarrow> portal_call \<Rightarrow> bool" where
  "is_sources s (SelectSources t _) = (s = t)"
| "is_sources s _ = False"

fun is_start :: "bool \<Rightarrow> string \<Rightarrow> portal_call \<Rightarrow> bool" where
  "is_start running s (ScStart t _) = (running \<and> s = t)"
| "is_start running s (RdpStart t _) = (\<not> running \<and> s = t)"
| "is_start running s _ = False"

fun is_open :: "portal_call \<Rightarrow> bool" where
  "is_open (OpenRemote _) = True"
| "is_open _ = False"

text \<open>
  What the portals document: a call needs the earlier ones of its session, and a session belongs to one of the
  two interfaces, ScreenCast when the service is running and RemoteDesktop otherwise.
\<close>

definition call_ready :: "bool \<Rightarrow> portal_call list \<Rightarrow> portal_call \<Rightarrow> bool" where
  "call_ready running seen c =
    (case c of
       ScCreate _ \<Rightarrow> running
     | RdpCreate _ \<Rightarrow> \<not> running
     | SelectDevices s _ \<Rightarrow> \<not> running \<and> list_ex (is_create running) seen
     | SelectSources s _ \<Rightarrow> if running then list_ex (is_create running) seen else list_ex (is_devices s) seen
     | ScStart s _ \<Rightarrow> running \<and> list_ex (is_sources s) seen
     | RdpStart s _ \<Rightarrow> \<not> running \<and> list_ex (is_sources s) seen
     | OpenRemote s \<Rightarrow> list_ex (is_start running s) seen
     | _ \<Rightarrow> True)"

definition calls_in_order :: "bool \<Rightarrow> portal_call list \<Rightarrow> bool" where
  "calls_in_order running cs \<longleftrightarrow> (\<forall>i < length cs. call_ready running (take i cs) (cs ! i))"

definition handler_ready :: "bool \<Rightarrow> portal_call list \<Rightarrow> on_response \<Rightarrow> bool" where
  "handler_ready running cs h =
    (case h of
       OnCreateSession _ \<Rightarrow> list_ex (is_create running) cs
     | OnSelectDevices s _ \<Rightarrow> \<not> running \<and> list_ex (is_devices s) cs
     | OnSelectSources s _ \<Rightarrow> list_ex (is_sources s) cs
     | OnStart s _ \<Rightarrow> list_ex (is_start running s) cs)"

definition portal_inv :: "bool \<Rightarrow> portal_state \<Rightarrow> bool" where
  "portal_inv running st \<longleftrightarrow> calls_in_order running (ps_log st) \<and>
    list_all (\<lambda>m. handler_ready running (ps_log st) (snd m)) (ps_matches st) \<and>
    (ps_fd st \<noteq> None \<longrightarrow> list_ex is_open (ps_log st))"

lemma calls_in_order_snoc [simp]:
  "calls_in_order running (cs @ [c]) \<longleftrightarrow> calls_in_order running cs \<and> call_ready running cs c"
  by (auto simp: calls_in_order_def less_Suc_eq nth_append)


lemma portal_inv_fields [simp]:
  "portal_inv running (st\<lparr>ps_session := s\<rparr>) = portal_inv running st"
  "portal_inv running (st\<lparr>ps_failure := f\<rparr>) = portal_inv running st"
  "portal_inv running (st\<lparr>ps_world := w\<rparr>) = portal_inv running st"
  "portal_inv running (st\<lparr>ps_streams := ss\<rparr>) = portal_inv running st"
  by (simp_all add: portal_inv_def)









section \<open>Answers of the portal\<close>

text \<open>The values of D-Bus that occur, with a variant or a structure as the list of what is in it.\<close>

datatype dbus_value = DStr string | DU64 u64 | DI64 i64 | DList "dbus_value list"

definition dbus_views :: "dbus_value ref_arg" where
  "dbus_views = \<lparr>ra_iter = (\<lambda>v. case v of DList vs \<Rightarrow> Some vs | _ \<Rightarrow> None),
     ra_u64 = (\<lambda>v. case v of DU64 n \<Rightarrow> Some n | _ \<Rightarrow> None), ra_i64 = (\<lambda>v. case v of DI64 n \<Rightarrow> Some n | _ \<Rightarrow> None),
     ra_str = (\<lambda>v. case v of DStr s \<Rightarrow> Some s | _ \<Rightarrow> None)\<rparr>"

definition pair_value :: "i64 \<Rightarrow> i64 \<Rightarrow> dbus_value" where
  "pair_value a b = DList [DList [DI64 a, DI64 b]]"

definition stream_value :: "pw_stream \<Rightarrow> dbus_value" where
  "stream_value s = DList [DU64 (st_path s), DList
     [DStr ''position'', pair_value (scast (fst (st_position s))) (scast (snd (st_position s))),
      DStr ''size'', pair_value (fst (st_size s)) (snd (st_size s)),
      DStr ''source_type'', DU64 (st_source_type s)]]"

lemma ucast_scast_i32: "ucast (scast (x :: i32) :: i64) = x"
  by (rule bit_word_eqI) (auto simp: bit_simps)

lemma stream_of_value: "stream_of dbus_views (stream_value s) = Some s"
  by (simp add: stream_of_def stream_value_def pair_value_def dbus_views_def Let_def stream_attributes_def odds_def
      filter_map_def first_numbers_def stream_size_def stream_position_def ucast_scast_i32)

text \<open>
  The streams that the portal describes in the documented form are the streams that the program takes, with
  negative positions and in their order.
\<close>

theorem streams_roundtrip:
  "streams_from_response dbus_views [''streams'' \<mapsto> DList [DList (map stream_value ss)]] = ss"
proof -
  have "filter_map (stream_of dbus_views) (map stream_value ss) = ss"
    by (induction ss) (simp_all add: filter_map_def stream_of_value)
  then show ?thesis by (simp add: streams_from_response_def dbus_views_def)
qed

section \<open>The token of the portal\<close>

text \<open>
  The token that the portal gives when a session starts is sent with the choice of sources of the next
  session, unless the option is fixed or the token is empty.
\<close>

theorem restore_token_sent_next:
  assumes "on_start_response A P True s True r st = (res, st1)"
    and "rs_results r RESTORE_TOKEN = Some v" "ra_str A v = Some t" "t \<noteq> []"
    and "local_savable (ps_world st) RESTORE_TOKEN_CONF_KEY t"
    and "ps_world st2 = ps_world st1" "rs_results r2 ''session_handle'' = Some v2" "ra_str A v2 = Some ses"
    and "on_create_session_response A Q True True r2 st2 = (res2, st3)"
  shows "\<exists>args. SelectSources ses args \<in> set (ps_log st3) \<and> (RESTORE_TOKEN, ArgStr t) \<in> set args"
proof -
  have w: "ps_world st1 = local_set_option RESTORE_TOKEN_CONF_KEY t (ps_world st)"
    using assms(1-3) by (auto simp: on_start_response_def Let_def split: sum.splits)
  have "RESTORE_TOKEN_CONF_KEY \<noteq> ''lang''" by (simp add: RESTORE_TOKEN_CONF_KEY_def)
  then have "local_get_option (ps_world st2) RESTORE_TOKEN_CONF_KEY = t"
    using local_opts.get_set_same [OF assms(5)] assms(4,5,6) w
    by (simp add: local_savable_def local_stored_def non_empty_def)
  then show ?thesis using assms(4,7,8,9)
    by (force simp: on_create_session_response_def token_args_def Let_def request_def ask_def handle_response_def
        split: sum.splits)
qed

section \<open>A conversation\<close>

definition demo_portal :: portal where
  "demo_portal = \<lparr>po_version = Inr 4, po_path = (\<lambda>cs. Inr (if length cs = 2 then ''a'' else if length cs = 4 then ''b'' else ''c'')),
     po_fd = (\<lambda>_. Inr 7), po_match = (\<lambda>_. Inr ())\<rparr>"

definition demo_answer :: "(string \<Rightarrow> dbus_value option) \<Rightarrow> dbus_value portal_response" where
  "demo_answer m = \<lparr>rs_code = 0, rs_results = m\<rparr>"

definition demo_stream :: pw_stream where
  "demo_stream = \<lparr>st_path = 42, st_source_type = 1, st_position = (-1920, 0), st_size = (1920, 1080)\<rparr>"

definition demo_events :: "dbus_value portal_event list" where
  "demo_events = [Idle, Response True ''a'' (demo_answer [''session_handle'' \<mapsto> DStr ''s'']),
     Response True ''b'' (demo_answer Map.empty),
     Response True ''c'' (demo_answer [''streams'' \<mapsto> DList [DList [stream_value demo_stream]], RESTORE_TOKEN \<mapsto> DStr ''tok''])]"



theorem restore_token_sent_next_witness:
  "\<exists>args. SelectSources ''s2'' args \<in> set (ps_log (snd (on_create_session_response dbus_views demo_portal True True
      (demo_answer [''session_handle'' \<mapsto> DStr ''s2'']) (start_state (ps_world (snd (on_start_response dbus_views
        demo_portal True ''s'' True (demo_answer [RESTORE_TOKEN \<mapsto> DStr ''tok'']) (start_state demo_world))))))))
    \<and> (RESTORE_TOKEN, ArgStr ''tok'') \<in> set args"
  by (rule restore_token_sent_next [OF prod.collapse [symmetric] _ _ _ _ _ _ _ prod.collapse [symmetric],
        where v = "DStr ''tok''" and ?v2.0 = "DStr ''s2''"])
    (simp_all add: demo_answer_def dbus_views_def local_savable_def start_state_def demo_world_def no_settings_def)

text \<open>
  When the service starts after a session was made with the RemoteDesktop portal, the program goes on with the
  ScreenCast portal: it chooses the sources without the devices, and starts the session of the other interface.
\<close>

theorem service_started_mixes_portals:
  "let cs = ps_log (snd (request_remote_desktop dbus_views demo_portal (Inr ()) False demo_events demo_world))
   in list_ex (is_create False) cs \<and> list_ex (is_start True ''s'') cs \<and> \<not> list_ex (is_devices ''s'') cs"
  by code_simp

end
