(* ===== verification/DxgiDisplays.thy ===== *)
theory DxgiDisplays
  imports Prelude "HOL-Library.Multiset"
begin

text \<open>
  The displays of Windows: the enumeration of adapters and outputs in \<open>libs/scrap/src/dxgi/mod.rs\<close>, the list
  that GDI gives, and the order that \<open>Display::all\<close> of \<open>common/dxgi.rs\<close> makes of both. DXGI is the list of its
  adapters with their outputs; a COM pointer is kept as whether it is null.
\<close>

section \<open>Displays\<close>

text \<open>A Rust \<open>i32\<close> is a word, read by \<open>sint\<close>; the sums wrap as in a release build.\<close>

record output_desc =
  od_name :: "u16 list"
  od_left :: i32
  od_top :: i32
  od_right :: i32
  od_bottom :: i32
  od_attached :: nat
  od_rotation :: nat

text \<open>The adapter and the output that the pointers of a display belong to; both are null for GDI.\<close>

record dxgi_display =
  dd_inner :: "(nat \<times> nat) option"
  dd_desc :: output_desc
  dd_gdi :: bool

definition dd_width :: "dxgi_display \<Rightarrow> i32" where
  "dd_width d = od_right (dd_desc d) - od_left (dd_desc d)"

definition dd_height :: "dxgi_display \<Rightarrow> i32" where
  "dd_height d = od_bottom (dd_desc d) - od_top (dd_desc d)"

definition dd_is_online :: "dxgi_display \<Rightarrow> bool" where
  "dd_is_online d \<longleftrightarrow> od_attached (dd_desc d) \<noteq> 0"

definition dd_origin :: "dxgi_display \<Rightarrow> i32 \<times> i32" where
  "dd_origin d = (od_left (dd_desc d), od_top (dd_desc d))"

definition dd_is_primary :: "dxgi_display \<Rightarrow> bool" where
  "dd_is_primary d \<longleftrightarrow> dd_origin d = (0, 0)"

text \<open>The name up to its first zero.\<close>

definition dd_name :: "dxgi_display \<Rightarrow> u16 list" where
  "dd_name d = takeWhile (\<lambda>x. x \<noteq> 0) (od_name (dd_desc d))"

section \<open>The enumeration by DXGI\<close>

text \<open>An output with its description, and whether it has the interface \<open>IDXGIOutput1\<close>.\<close>

record dxgi_output =
  do_desc :: output_desc
  do_output1 :: bool

type_synonym dxgi_adapters = "dxgi_output list list"

text \<open>
  The iterator: \<open>ds_adapter\<close> says that the pointer to the current adapter is not null, \<open>ds_nadapter\<close> is its
  index and \<open>ds_ndisplay\<close> the index of the next output.
\<close>

record displays =
  ds_adapter :: bool
  ds_nadapter :: nat
  ds_ndisplay :: nat

definition new_displays :: "dxgi_adapters \<Rightarrow> displays" where
  "new_displays F = \<lparr>ds_adapter = (F \<noteq> []), ds_nadapter = 0, ds_ndisplay = 0\<rparr>"

definition read_and_invalidate :: "dxgi_adapters \<Rightarrow> displays \<Rightarrow> dxgi_display option option \<times> displays" where
  "read_and_invalidate F ds =
    (if \<not> ds_adapter ds then (Some None, ds)
     else
       let outputs = F ! ds_nadapter ds; n = ds_ndisplay ds in
       if length outputs \<le> n then (None, ds\<lparr>ds_adapter := False\<rparr>)
       else
         let ds = ds\<lparr>ds_ndisplay := n + 1\<rparr> in
         if \<not> do_output1 (outputs ! n) then (None, ds\<lparr>ds_adapter := False\<rparr>)
         else (Some (Some \<lparr>dd_inner = Some (ds_nadapter ds, n), dd_desc = do_desc (outputs ! n), dd_gdi = False\<rparr>), ds))"

definition displays_next :: "dxgi_adapters \<Rightarrow> displays \<Rightarrow> dxgi_display option \<times> displays" where
  "displays_next F ds =
    (case read_and_invalidate F ds of
       (Some res, ds) \<Rightarrow> (res, ds)
     | (None, ds) \<Rightarrow>
         let n = ds_nadapter ds + 1;
             ds = ds\<lparr>ds_ndisplay := 0, ds_nadapter := n, ds_adapter := n < length F\<rparr>
         in case read_and_invalidate F ds of
              (Some res, ds) \<Rightarrow> (res, ds)
            | (None, ds) \<Rightarrow> (None, ds))"

text \<open>\<open>collect\<close>, which ends at the first \<open>None\<close>: every display found leaves fewer outputs.\<close>

definition outputs_left :: "dxgi_adapters \<Rightarrow> displays \<Rightarrow> nat" where
  "outputs_left F ds =
    (if ds_adapter ds then
       length (F ! ds_nadapter ds) - ds_ndisplay ds + length (concat (drop (ds_nadapter ds + 1) F))
     else 0)"

lemma read_and_invalidate_left:
  assumes "read_and_invalidate F ds = (r, ds')" "ds_adapter ds \<longrightarrow> ds_nadapter ds < length F"
  shows "ds_nadapter ds' = ds_nadapter ds"
    and "r = Some (Some d) \<Longrightarrow> ds_adapter ds' \<and> outputs_left F ds' < outputs_left F ds"
    and "r = None \<Longrightarrow> ds_adapter ds \<and>
      length (concat (drop (ds_nadapter ds + 1) F)) \<le> outputs_left F ds"
  using assms by (auto simp: read_and_invalidate_def Let_def outputs_left_def split: if_splits)

lemma outputs_left_adapter:
  assumes "n < length F"
  shows "outputs_left F (ds\<lparr>ds_ndisplay := 0, ds_nadapter := n, ds_adapter := True\<rparr>) = length (concat (drop n F))"
  using assms by (simp add: outputs_left_def flip: Cons_nth_drop_Suc)

lemma displays_next_left:
  assumes "displays_next F ds = (Some d, ds')" "ds_adapter ds \<longrightarrow> ds_nadapter ds < length F"
  shows "outputs_left F ds' < outputs_left F ds \<and> (ds_adapter ds' \<longrightarrow> ds_nadapter ds' < length F)"
proof -
  obtain r1 ds1 where r1: "read_and_invalidate F ds = (r1, ds1)" by fastforce
  note first = read_and_invalidate_left [OF r1 assms(2)]
  show ?thesis
  proof (cases r1)
    case (Some res)
    then have "r1 = Some (Some d)" "ds' = ds1" using assms(1) r1 by (simp_all add: displays_next_def)
    moreover from this have "ds_adapter ds" using r1 by (auto simp: read_and_invalidate_def split: if_splits)
    ultimately show ?thesis using first(1,2) assms(2) by simp
  next
    case None
    define n where "n = ds_nadapter ds + 1"
    let ?ds = "ds1\<lparr>ds_ndisplay := 0, ds_nadapter := n, ds_adapter := n < length F\<rparr>"
    obtain r2 ds2 where r2: "read_and_invalidate F ?ds = (r2, ds2)" by fastforce
    have *: "r2 = Some (Some d)" "ds' = ds2"
      using assms(1) r1 r2 None first(1) by (auto simp: displays_next_def n_def Let_def split: option.splits)
    then have n: "n < length F" using r2 by (auto simp: read_and_invalidate_def split: if_splits)
    note second = read_and_invalidate_left [OF r2]
    have "outputs_left F ds' < outputs_left F ?ds \<and> ds_nadapter ds' = n"
      using second(1,2) n * by simp
    moreover have "outputs_left F ?ds \<le> outputs_left F ds"
      using first(3) [OF None] n outputs_left_adapter [OF n, of ds1] by (simp add: n_def)
    ultimately show ?thesis using n by simp
  qed
qed

text \<open>The guard only stops for a pointer to an adapter that does not exist, which no state of the iterator has.\<close>

function collect_displays :: "dxgi_adapters \<Rightarrow> displays \<Rightarrow> dxgi_display list" where
  "collect_displays F ds =
    (if ds_adapter ds \<and> length F \<le> ds_nadapter ds then []
     else case displays_next F ds of
            (None, _) \<Rightarrow> []
          | (Some d, ds') \<Rightarrow> d # collect_displays F ds')"
  by pat_completeness auto

termination
  by (relation "measure (\<lambda>(F, ds). outputs_left F ds)") (auto dest: displays_next_left [OF sym])

declare collect_displays.simps [simp del]

definition dxgi_displays :: "string + dxgi_adapters \<Rightarrow> string + dxgi_display list" where
  "dxgi_displays factory =
    (case factory of Inl e \<Rightarrow> Inl e | Inr F \<Rightarrow> Inr (collect_displays F (new_displays F)))"

section \<open>The list of GDI\<close>

text \<open>A device of \<open>EnumDisplayDevicesW\<close> and the position and size of \<open>EnumDisplaySettingsExW\<close>, if there are any.\<close>

record gdi_device =
  gd_name :: "u16 list"
  gd_flags :: u32
  gd_mode :: "(i32 \<times> i32 \<times> u32 \<times> u32) option"

definition DISPLAY_DEVICE_ACTIVE :: u32 where
  "DISPLAY_DEVICE_ACTIVE = 1"

definition DISPLAY_DEVICE_MIRRORING_DRIVER :: u32 where
  "DISPLAY_DEVICE_MIRRORING_DRIVER = 8"

definition gdi_display :: "gdi_device \<Rightarrow> dxgi_display option" where
  "gdi_display d =
    (if gd_flags d AND DISPLAY_DEVICE_ACTIVE = 0 \<or> gd_flags d AND DISPLAY_DEVICE_MIRRORING_DRIVER > 0 then None
     else
       case gd_mode d of
         None \<Rightarrow> None
       | Some (x, y, w, h) \<Rightarrow>
           Some \<lparr>dd_inner = None,
             dd_desc = \<lparr>od_name = gd_name d, od_left = x, od_top = y, od_right = x + w, od_bottom = y + h,
                        od_attached = 1, od_rotation = 0\<rparr>,
             dd_gdi = True\<rparr>)"

definition get_from_gdi :: "gdi_device list \<Rightarrow> dxgi_display list" where
  "get_from_gdi ds = List.map_filter gdi_display ds"

section \<open>The order of \<open>Display::all\<close>\<close>

text \<open>\<open>Display::name\<close> with the conversion \<open>to_string_lossy\<close> as an argument.\<close>

type_synonym lossy = "u16 list \<Rightarrow> string"

definition display_name :: "lossy \<Rightarrow> dxgi_display \<Rightarrow> string" where
  "display_name lossy d = lossy (dd_name d)"

definition position_or_first :: "('a \<Rightarrow> bool) \<Rightarrow> 'a list \<Rightarrow> nat" where
  "position_or_first P xs = (let n = length (takeWhile (\<lambda>x. \<not> P x) xs) in if n < length xs then n else 0)"

definition remove_at :: "nat \<Rightarrow> 'a list \<Rightarrow> 'a list" where
  "remove_at n xs = take n xs @ drop (n + 1) xs"

text \<open>The loop over the names of GDI; \<open>None\<close> is the panic of \<open>remove\<close> on an empty vector.\<close>

fun reorder :: "lossy \<Rightarrow> string list \<Rightarrow> dxgi_display list \<Rightarrow> dxgi_display list option" where
  "reorder lossy [] ds = Some []"
| "reorder lossy (n # ns) ds =
    (let p = position_or_first (\<lambda>d. display_name lossy d = n) ds in
     if length ds \<le> p then None
     else map_option (\<lambda>rest. ds ! p # rest) (reorder lossy ns (remove_at p ds)))"

definition all_displays :: "lossy \<Rightarrow> gdi_device list \<Rightarrow> string + dxgi_adapters \<Rightarrow> dxgi_display list option" where
  "all_displays lossy devices factory =
    (let displays_gdi = get_from_gdi devices;
         displays_dxgi = (case dxgi_displays factory of Inl _ \<Rightarrow> [] | Inr ds \<Rightarrow> ds)
     in if displays_dxgi = [] then Some displays_gdi
        else if length displays_dxgi \<noteq> length displays_gdi then Some displays_dxgi
        else
          let names_gdi = map (display_name lossy) displays_gdi;
              names_dxgi = map (display_name lossy) displays_dxgi
          in if \<exists>n \<in> set names_gdi. n \<notin> set names_dxgi then Some displays_dxgi
             else reorder lossy names_gdi displays_dxgi)"

section \<open>What the enumeration finds\<close>

definition output_display :: "dxgi_adapters \<Rightarrow> nat \<Rightarrow> nat \<Rightarrow> dxgi_display" where
  "output_display F n i = \<lparr>dd_inner = Some (n, i), dd_desc = do_desc (F ! n ! i), dd_gdi = False\<rparr>"

text \<open>The outputs of adapter \<open>n\<close> from \<open>i\<close> on, up to the first without the interface.\<close>

definition adapter_displays :: "dxgi_adapters \<Rightarrow> nat \<Rightarrow> nat \<Rightarrow> dxgi_display list" where
  "adapter_displays F n i = map (output_display F n) (takeWhile (\<lambda>i. do_output1 (F ! n ! i)) [i ..< length (F ! n)])"

lemma read_adapter:
  assumes "ds_adapter ds"
  shows "adapter_displays F (ds_nadapter ds) (ds_ndisplay ds) = [] \<Longrightarrow> fst (read_and_invalidate F ds) = None"
    "adapter_displays F (ds_nadapter ds) (ds_ndisplay ds) = d # rest \<Longrightarrow>
      read_and_invalidate F ds = (Some (Some d), ds\<lparr>ds_ndisplay := ds_ndisplay ds + 1\<rparr>)"
  using assms
  by (cases "ds_ndisplay ds < length (F ! ds_nadapter ds)";
      auto simp: read_and_invalidate_def adapter_displays_def Let_def output_display_def upt_conv_Cons split: if_splits)+

lemma adapter_displays_Cons: "adapter_displays F n i = d # rest \<Longrightarrow> adapter_displays F n (i + 1) = rest"
  by (cases "i < length (F ! n)") (auto simp: adapter_displays_def upt_conv_Cons split: if_splits)

definition from_adapter :: "dxgi_adapters \<Rightarrow> nat \<Rightarrow> dxgi_display list" where
  "from_adapter F n = concat (takeWhile (\<lambda>x. x \<noteq> []) (map (\<lambda>m. adapter_displays F m 0) [n ..< length F]))"

lemma from_adapter_Cons:
  "n < length F \<Longrightarrow> from_adapter F n =
    (if adapter_displays F n 0 = [] then [] else adapter_displays F n 0 @ from_adapter F (n + 1))"
  by (simp add: from_adapter_def upt_conv_Cons)

lemma read_nadapter: "ds_nadapter (snd (read_and_invalidate F ds)) = ds_nadapter ds"
  by (simp add: read_and_invalidate_def Let_def)

lemma collect_from:
  "ds_adapter ds \<Longrightarrow> ds_nadapter ds < length F \<Longrightarrow>
   collect_displays F ds = adapter_displays F (ds_nadapter ds) (ds_ndisplay ds) @ from_adapter F (ds_nadapter ds + 1)"
proof (induction F ds rule: collect_displays.induct)
  case (1 F ds)
  let ?n = "ds_nadapter ds" and ?here = "adapter_displays F (ds_nadapter ds) (ds_ndisplay ds)"
  have guard: "\<not> (ds_adapter ds \<and> length F \<le> ?n)" using 1(3) by simp
  show ?case
  proof (cases ?here)
    case (Cons d rest)
    let ?ds = "ds\<lparr>ds_ndisplay := ds_ndisplay ds + 1\<rparr>"
    have next_d: "displays_next F ds = (Some d, ?ds)"
      using read_adapter(2) [OF 1(2) Cons] by (simp add: displays_next_def)
    have "collect_displays F ?ds = rest @ from_adapter F (?n + 1)"
      using 1(1) [OF guard next_d [symmetric] refl] 1(2,3) adapter_displays_Cons [OF Cons] by simp
    then show ?thesis using Cons next_d guard collect_displays.simps [of F ds] by simp
  next
    case Nil
    let ?ds1 = "snd (read_and_invalidate F ds)"
    let ?ds = "?ds1\<lparr>ds_ndisplay := 0, ds_nadapter := ?n + 1, ds_adapter := ?n + 1 < length F\<rparr>"
    have one: "displays_next F ds =
        (case read_and_invalidate F ?ds of (Some res, ds) \<Rightarrow> (res, ds) | (None, ds) \<Rightarrow> (None, ds))"
      using read_adapter(1) [OF 1(2), of F] Nil read_nadapter [of F ds]
      by (cases "read_and_invalidate F ds") (simp add: displays_next_def)
    show ?thesis
    proof (cases "?n + 1 < length F")
      case False
      then have "displays_next F ds = (None, ?ds)" by (simp add: one read_and_invalidate_def)
      then show ?thesis using False Nil guard collect_displays.simps [of F ds] by (simp add: from_adapter_def)
    next
      case True
      then have a: "ds_adapter ?ds" by simp
      show ?thesis
      proof (cases "adapter_displays F (?n + 1) 0")
        case Nil2: Nil
        then have "fst (displays_next F ds) = None"
          using read_adapter(1) [OF a, of F] read_nadapter [of F ds]
          by (cases "read_and_invalidate F ?ds") (simp add: one)
        then show ?thesis using True Nil Nil2 guard collect_displays.simps [of F ds] from_adapter_Cons [OF True]
          by (cases "displays_next F ds") simp
      next
        case (Cons d rest)
        let ?ds' = "?ds\<lparr>ds_ndisplay := 1\<rparr>"
        have next_d: "displays_next F ds = (Some d, ?ds')"
          using read_adapter(2) [OF a, of F d rest] Cons by (simp add: one)
        have "collect_displays F ?ds' = rest @ from_adapter F (?n + 2)"
          using 1(1) [OF guard next_d [symmetric] refl] True adapter_displays_Cons [OF Cons] by simp
        then show ?thesis using Nil Cons next_d guard collect_displays.simps [of F ds] from_adapter_Cons [OF True] by simp
      qed
    qed
  qed
qed

text \<open>
  C24: The enumeration gives the outputs of the first adapter and then those of the following adapters, in order,
  up to the first adapter that gives none.
\<close>

theorem displays_collected:
  "collect_displays F (new_displays F) =
    (if F = [] then [] else adapter_displays F 0 0 @
       concat (takeWhile (\<lambda>x. x \<noteq> []) (map (\<lambda>m. adapter_displays F m 0) [1 ..< length F])))"
proof (cases F)
  case Nil
  then show ?thesis
    by (simp add: new_displays_def collect_displays.simps displays_next_def read_and_invalidate_def)
next
  case Cons
  then show ?thesis using collect_from [of "new_displays F" F] by (simp add: new_displays_def from_adapter_def)
qed

text \<open>
  The displays of every adapter after one without outputs are lost, although the comment takes the later
  adapters to be empty.
\<close>

theorem displays_after_empty_adapter_lost:
  "collect_displays (a # [] # rest) (new_displays (a # [] # rest)) = adapter_displays (a # [] # rest) 0 0"
proof -
  have "adapter_displays (a # [] # rest) 1 0 = []" by (simp add: adapter_displays_def)
  then show ?thesis using collect_from [of "new_displays (a # [] # rest)" "a # [] # rest"]
      from_adapter_Cons [of 1 "a # [] # rest"] by (simp add: new_displays_def)
qed

section \<open>The order of the displays\<close>

lemma position_or_first_less: "xs \<noteq> [] \<Longrightarrow> position_or_first P xs < length xs"
  by (simp add: position_or_first_def Let_def)

lemma position_found: "x \<in> set xs \<Longrightarrow> P x \<Longrightarrow> P (xs ! position_or_first P xs)"
proof -
  assume x: "x \<in> set xs" "P x"
  then have "takeWhile (\<lambda>x. \<not> P x) xs \<noteq> xs" by (metis set_takeWhileD)
  then have less: "length (takeWhile (\<lambda>x. \<not> P x) xs) < length xs"
    by (metis length_takeWhile_le order_le_less takeWhile_eq_take take_all)
  then show ?thesis using nth_length_takeWhile [OF less] by (simp add: position_or_first_def)
qed

lemma mset_remove_at: "p < length xs \<Longrightarrow> add_mset (xs ! p) (mset (remove_at p xs)) = mset xs"
proof -
  assume "p < length xs"
  then have "mset xs = mset (take p xs @ xs ! p # drop (p + 1) xs)" by (simp add: id_take_nth_drop [symmetric])
  then show ?thesis by (simp add: remove_at_def)
qed

lemma length_remove_at: "p < length xs \<Longrightarrow> length (remove_at p xs) = length xs - 1"
  by (simp add: remove_at_def)

lemma reorder_permutes:
  "length ns = length ds \<Longrightarrow> \<exists>r. reorder lossy ns ds = Some r \<and> mset r = mset ds"
proof (induction ns arbitrary: ds)
  case (Cons n ns)
  let ?p = "position_or_first (\<lambda>d. display_name lossy d = n) ds"
  have "ds \<noteq> []" using Cons.prems by auto
  then have p: "?p < length ds" by (rule position_or_first_less)
  then have "length ns = length (remove_at ?p ds)" using Cons.prems by (simp add: length_remove_at)
  from Cons.IH [OF this] obtain r where "reorder lossy ns (remove_at ?p ds) = Some r" "mset r = mset (remove_at ?p ds)"
    by blast
  then show ?case using p mset_remove_at [OF p] by simp
qed simp

lemma reorder_names:
  "distinct ns \<Longrightarrow> set ns \<subseteq> display_name lossy ` set ds \<Longrightarrow> reorder lossy ns ds = Some r \<Longrightarrow>
   map (display_name lossy) r = ns"
proof (induction ns arbitrary: ds r)
  case (Cons n ns)
  let ?p = "position_or_first (\<lambda>d. display_name lossy d = n) ds"
  obtain x where x: "x \<in> set ds" "display_name lossy x = n" using Cons.prems(2) by auto
  have here: "display_name lossy (ds ! ?p) = n" using position_found [OF x(1), of "\<lambda>d. display_name lossy d = n"] x(2) by simp
  from Cons.prems(3) obtain rest where p: "?p < length ds" and rest: "reorder lossy ns (remove_at ?p ds) = Some rest"
    and r: "r = ds ! ?p # rest" by (auto simp: Let_def split: if_splits)
  have "set ds = insert (ds ! ?p) (set (remove_at ?p ds))"
    using arg_cong [OF mset_remove_at [OF p], of set_mset] by simp
  then have "set ns \<subseteq> display_name lossy ` set (remove_at ?p ds)" using Cons.prems(1,2) here by auto
  then show ?case using Cons.IH [OF _ _ rest] Cons.prems(1) r here by simp
qed simp

text \<open>
  The list of all displays never panics; it holds exactly the displays that DXGI found, or those of GDI when
  there are none, and it is in the order of GDI when both found the same, distinct names.
\<close>

theorem all_displays_ordered:
  "\<exists>r. all_displays lossy devices (Inr F) = Some r \<and>
     (let found = collect_displays F (new_displays F); gdi = get_from_gdi devices in
      mset r = mset (if found = [] then gdi else found) \<and>
      (found \<noteq> [] \<and> length found = length gdi \<and> distinct (map (display_name lossy) gdi) \<and>
       set (map (display_name lossy) gdi) \<subseteq> set (map (display_name lossy) found) \<longrightarrow>
       map (display_name lossy) r = map (display_name lossy) gdi))"
proof -
  let ?found = "collect_displays F (new_displays F)" and ?gdi = "get_from_gdi devices"
  let ?names = "map (display_name lossy) ?gdi"
  show ?thesis
  proof (cases "?found \<noteq> [] \<and> length ?found = length ?gdi \<and> set ?names \<subseteq> set (map (display_name lossy) ?found)")
    case True
    then obtain r where r: "reorder lossy ?names ?found = Some r" "mset r = mset ?found"
      using reorder_permutes [of ?names ?found lossy] by auto
    have "all_displays lossy devices (Inr F) = Some r"
      using True r(1) by (auto simp: all_displays_def dxgi_displays_def Let_def)
    then show ?thesis using True r reorder_names [of ?names lossy ?found r] by (auto simp: Let_def)
  next
    case False
    then have "all_displays lossy devices (Inr F) = Some (if ?found = [] then ?gdi else ?found)"
      by (auto simp: all_displays_def dxgi_displays_def Let_def)
    then show ?thesis using False by (auto simp: Let_def)
  qed
qed

definition demo_desc :: "u16 list \<Rightarrow> i32 \<Rightarrow> output_desc" where
  "demo_desc nm x = \<lparr>od_name = nm @ [0], od_left = x, od_top = 0, od_right = x + 100, od_bottom = 50, od_attached = 1,
     od_rotation = 1\<rparr>"

definition demo_adapters :: dxgi_adapters where
  "demo_adapters = [[\<lparr>do_desc = demo_desc [66] 100, do_output1 = True\<rparr>], [\<lparr>do_desc = demo_desc [65] 0, do_output1 = True\<rparr>]]"

definition demo_devices :: "gdi_device list" where
  "demo_devices = [\<lparr>gd_name = [65, 0], gd_flags = 5, gd_mode = Some (0, 0, 100, 50)\<rparr>,
     \<lparr>gd_name = [67, 0], gd_flags = 0, gd_mode = None\<rparr>,
     \<lparr>gd_name = [66, 0], gd_flags = 1, gd_mode = Some (100, 0, 100, 50)\<rparr>]"

definition demo_lossy :: lossy where
  "demo_lossy cs = map (\<lambda>c. char_of (unat c)) cs"

lemma demo_found: "collect_displays demo_adapters (new_displays demo_adapters) =
    [\<lparr>dd_inner = Some (0, 0), dd_desc = demo_desc [66] 100, dd_gdi = False\<rparr>,
     \<lparr>dd_inner = Some (1, 0), dd_desc = demo_desc [65] 0, dd_gdi = False\<rparr>]"
  by code_simp

lemma demo_gdi_names: "map (display_name demo_lossy) (get_from_gdi demo_devices) = [''A'', ''B'']"
  by code_simp

lemma demo_dxgi_names:
  "map (display_name demo_lossy) (collect_displays demo_adapters (new_displays demo_adapters)) = [''B'', ''A'']"
  by code_simp

theorem all_displays_ordered_witness:
  "\<exists>r. all_displays demo_lossy demo_devices (Inr demo_adapters) = Some r \<and> map (display_name demo_lossy) r = [''A'', ''B'']"
proof -
  have "length (get_from_gdi demo_devices) = 2" using arg_cong [OF demo_gdi_names, of length] by simp
  then show ?thesis using all_displays_ordered [of demo_lossy demo_devices demo_adapters]
    unfolding Let_def demo_gdi_names demo_dxgi_names by (auto simp: demo_found)
qed

end
