(* ===== verification/DxgiCapture.thy ===== *)
theory DxgiCapture
  imports DxgiDisplays PipeWire
begin

text \<open>
  The capturer of \<open>libs/scrap/src/dxgi/mod.rs\<close> with its fallback to GDI (\<open>gdi.rs\<close>), and the wrapper of
  \<open>common/dxgi.rs\<close>. What Windows answers is an argument of every operation; a pointer is kept as whether it
  is null, and a call through a null pointer is \<open>DxCrash\<close>. The calls that hold and release frames are kept
  in their order.
\<close>

section \<open>Errors\<close>

datatype win_kind =
  K_ConnectionReset | K_TimedOut | K_InvalidData | K_PermissionDenied | K_ConnectionRefused | K_Interrupted
| K_ConnectionAborted | K_InvalidInput | K_WouldBlock | K_AddrNotAvailable | K_Other

text \<open>\<open>wrap_hresult\<close>, with the values of the constants of Windows.\<close>

definition wrap_hresult :: "u32 \<Rightarrow> win_kind + unit" where
  "wrap_hresult x =
    (if x = 0 then Inr ()
     else Inl (if x = 0x887A0026 then K_ConnectionReset
               else if x = 0x887A0027 then K_TimedOut
               else if x = 0x887A0001 then K_InvalidData
               else if x = 0x80070005 then K_PermissionDenied
               else if x = 0x887A0004 then K_ConnectionRefused
               else if x = 0x887A0022 then K_Interrupted
               else if x = 0x887A0028 then K_ConnectionAborted
               else if x = 0x80070057 then K_InvalidInput
               else K_Other))"

section \<open>The capturer\<close>

text \<open>The pointers of \<open>Rotate\<close> and its texture with the flag that it was made.\<close>

record rotate =
  ro_context :: bool
  ro_device :: bool
  ro_enum :: bool
  ro_processor :: bool
  ro_texture :: bool
  ro_made :: bool

record capturer =
  cp_display :: dxgi_display
  cp_device :: bool
  cp_duplication :: bool
  cp_fastlane :: bool
  cp_surface :: bool
  cp_texture :: bool
  cp_w :: nat
  cp_h :: nat
  cp_gdi :: bool
  cp_gdi_buffer :: bytes
  cp_saved :: bytes
  cp_output_texture :: bool
  cp_rotate :: rotate

text \<open>
  What \<open>Capturer::new\<close> is answered: the results of the device, its description and the duplication, whether
  a capturer of GDI can be made, and whether the desktop is in the memory of the system. Without a
  duplication \<open>desc\<close> is never written: \<open>ne_garbage\<close> is what is read from it.
\<close>

record new_env =
  ne_device :: u32
  ne_desc1 :: u32
  ne_duplicate :: u32
  ne_gdi :: bool
  ne_in_memory :: bool
  ne_garbage :: bool
  ne_context :: bool
  ne_video_device :: bool
  ne_enum :: bool
  ne_caps :: bool
  ne_processor :: bool

definition processor_rotation :: "nat \<Rightarrow> nat option" where
  "processor_rotation r = (if r = 2 then Some 90 else if r = 3 then Some 180 else if r = 4 then Some 270 else None)"

definition create_rotations :: "new_env \<Rightarrow> bool \<Rightarrow> dxgi_display \<Rightarrow> rotate" where
  "create_rotations E device d =
    (let c = processor_rotation (od_rotation (dd_desc d)) \<noteq> None \<and> device \<and> ne_context E;
         v = c \<and> ne_video_device E;
         n = v \<and> ne_enum E;
         p = n \<and> ne_caps E \<and> ne_processor E
     in \<lparr>ro_context = c, ro_device = v, ro_enum = n, ro_processor = p, ro_texture = False, ro_made = False\<rparr>)"

text \<open>The sizes given to the processor: the picture that comes in is turned back.\<close>

definition rotation_sizes :: "dxgi_display \<Rightarrow> (i32 \<times> i32) \<times> (i32 \<times> i32)" where
  "rotation_sizes d =
    ((if od_rotation (dd_desc d) = 2 \<or> od_rotation (dd_desc d) = 4 then (dd_height d, dd_width d)
      else (dd_width d, dd_height d)),
     (dd_width d, dd_height d))"

definition usize :: "i32 \<Rightarrow> nat" where
  "usize x = unat (usize_of_i32 x)"

definition new_capturer :: "new_env \<Rightarrow> dxgi_display \<Rightarrow> win_kind + capturer" where
  "new_capturer E d =
    (let created = \<not> dd_gdi d \<and> ne_device E = 0;
         res = (if dd_gdi d then wrap_hresult 1
                else case wrap_hresult (ne_device E) of
                       Inl e \<Rightarrow> Inl e
                     | Inr _ \<Rightarrow> wrap_hresult (ne_desc1 E));
         (res, gdi, dup) =
           (case res of
              Inl e \<Rightarrow> if ne_gdi E then (Inr (), True, False) else (Inl e, False, False)
            | Inr _ \<Rightarrow>
                if ne_duplicate E \<noteq> 0 then
                  (if ne_gdi E then (Inr (), True, False) else (wrap_hresult (ne_duplicate E), False, False))
                else (Inr (), False, True))
     in case res of
          Inl e \<Rightarrow> Inl e
        | Inr _ \<Rightarrow>
            Inr \<lparr>cp_display = d, cp_device = created, cp_duplication = dup,
                 cp_fastlane = (if dup then ne_in_memory E else ne_garbage E), cp_surface = False, cp_texture = False,
                 cp_w = usize (dd_width d), cp_h = usize (dd_height d), cp_gdi = gdi, cp_gdi_buffer = [],
                 cp_saved = [], cp_output_texture = False, cp_rotate = create_rotations E created d\<rparr>)"

definition set_gdi :: "bool \<Rightarrow> capturer \<Rightarrow> bool \<times> capturer" where
  "set_gdi ok c = (ok, c\<lparr>cp_gdi := ok\<rparr>)"

definition cancel_gdi :: "capturer \<Rightarrow> capturer" where
  "cancel_gdi c = c\<lparr>cp_gdi_buffer := [], cp_gdi := False\<rparr>"

definition set_output_texture :: "bool \<Rightarrow> capturer \<Rightarrow> capturer" where
  "set_output_texture b c = c\<lparr>cp_output_texture := b\<rparr>"

section \<open>Frames\<close>

text \<open>
  What happens while a frame is taken. \<open>fv_pitch\<close> and \<open>fv_bits\<close> are the mapped picture, \<open>fv_gdi\<close> the picture
  of GDI, and the last fields the texture of the frame and whether the calls for its rotation succeed.
\<close>

record frame_env =
  fv_acquire :: u32
  fv_present :: int
  fv_accumulated :: nat
  fv_is_texture :: bool
  fv_create :: u32
  fv_map :: u32
  fv_pitch :: nat
  fv_bits :: bytes
  fv_gdi :: "string + bytes"
  fv_tex_size :: "nat \<times> nat"
  fv_rotated :: bool
  fv_in_view :: bool
  fv_out_view :: bool

datatype dx_call = AcquireNextFrame | ReleaseFrame | MapDesktopSurface | UnMapDesktopSurface | MapSurface | UnmapSurface

datatype 'a dx_result = DxOk 'a | DxErr win_kind | DxPanic | DxCrash

type_synonym 'a dx = "'a dx_result \<times> capturer \<times> dx_call list"

definition unmap :: "capturer \<Rightarrow> dx_call list" where
  "unmap c = ReleaseFrame # (if cp_fastlane c then [UnMapDesktopSurface] else if cp_surface c then [UnmapSurface] else [])"

text \<open>
  \<open>ohgodwhat\<close>: the texture of the frame is described, which needs it to be one, and copied into one that the
  processor can read.
\<close>

definition ohgodwhat :: "frame_env \<Rightarrow> unit dx_result" where
  "ohgodwhat E =
    (if \<not> fv_is_texture E then DxCrash
     else case wrap_hresult (fv_create E) of Inl e \<Rightarrow> DxErr e | Inr _ \<Rightarrow> DxOk ())"

definition load_frame :: "frame_env \<Rightarrow> capturer \<Rightarrow> (bytes \<times> nat) dx" where
  "load_frame E c =
    (case wrap_hresult (fv_acquire E) of
       Inl e \<Rightarrow> (DxErr e, c, [AcquireNextFrame])
     | Inr _ \<Rightarrow>
         if fv_present E = 0 then (DxErr K_WouldBlock, c, [AcquireNextFrame])
         else if cp_fastlane c then
           ((case wrap_hresult (fv_map E) of Inl e \<Rightarrow> DxErr e | Inr _ \<Rightarrow> DxOk (fv_bits E, fv_pitch E)),
            c, [AcquireNextFrame, MapDesktopSurface])
         else
           (case ohgodwhat E of
              DxOk _ \<Rightarrow>
                ((case wrap_hresult (fv_map E) of Inl e \<Rightarrow> DxErr e | Inr _ \<Rightarrow> DxOk (fv_bits E, fv_pitch E)),
                 c\<lparr>cp_surface := True\<rparr>, [AcquireNextFrame, MapSurface])
            | DxErr e \<Rightarrow> (DxErr e, c, [AcquireNextFrame])
            | DxPanic \<Rightarrow> (DxPanic, c, [AcquireNextFrame])
            | DxCrash \<Rightarrow> (DxCrash, c, [AcquireNextFrame])))"

text \<open>A call of \<open>ARGBRotate\<close>: stride of the source, stride and size of the destination, width, height and angle.\<close>

record rotate_call =
  rc_src_stride :: nat
  rc_dst_stride :: nat
  rc_dst_len :: nat
  rc_w :: nat
  rc_h :: nat
  rc_angle :: nat

definition rotation_angle :: "nat \<Rightarrow> nat option" where
  "rotation_angle r =
    (if r = 0 \<or> r = 1 then Some 0 else if r = 2 then Some 90 else if r = 3 then Some 180 else if r = 4 then Some 270
     else None)"

definition rotate_frame :: "capturer \<Rightarrow> nat \<Rightarrow> nat \<Rightarrow> rotate_call" where
  "rotate_frame c pitch angle =
    \<lparr>rc_src_stride = pitch, rc_dst_stride = 4 * cp_w c, rc_dst_len = cp_w c * cp_h c * 4,
     rc_w = (if angle = 180 then cp_w c else cp_h c), rc_h = (if angle \<noteq> 180 then cp_w c else cp_h c),
     rc_angle = angle\<rparr>"

text \<open>\<open>get_pixelbuffer\<close>, with the library's rotation of pixels as an argument.\<close>

definition get_pixelbuffer :: "(rotate_call \<Rightarrow> bytes \<Rightarrow> bytes) \<Rightarrow> frame_env \<Rightarrow> capturer \<Rightarrow> bytes dx" where
  "get_pixelbuffer argb_rotate E c =
    (if cp_gdi c then
       (case fv_gdi E of
          Inl _ \<Rightarrow> (DxErr K_Other, c, [])
        | Inr d \<Rightarrow>
            let (same, saved) = would_block_if_equal (cp_saved c) d;
                c = c\<lparr>cp_gdi_buffer := d, cp_saved := saved\<rparr>
            in (if same then DxErr K_WouldBlock else DxOk d, c, []))
     else if \<not> cp_duplication c then (DxCrash, c, [])
     else
       (case load_frame E c of
          (DxOk (bits, pitch), c', calls) \<Rightarrow>
            ((case rotation_angle (od_rotation (dd_desc (cp_display c))) of
                None \<Rightarrow> DxErr K_Other
              | Some angle \<Rightarrow>
                  if angle = 0 then
                    (if length bits < pitch * cp_h c then DxCrash else DxOk (take (pitch * cp_h c) bits))
                  else DxOk (argb_rotate (rotate_frame c pitch angle) bits)),
             c', unmap c @ calls)
        | (DxErr e, c', calls) \<Rightarrow> (DxErr e, c', unmap c @ calls)
        | (DxPanic, c', calls) \<Rightarrow> (DxPanic, c', unmap c @ calls)
        | (DxCrash, c', calls) \<Rightarrow> (DxCrash, c', unmap c @ calls)))"

datatype which_texture = NoTexture | FrameTexture | RotatedTexture

definition texture_rotation :: "nat \<Rightarrow> nat" where
  "texture_rotation r = (if r = 2 then 90 else if r = 3 then 180 else if r = 4 then 270 else 0)"

text \<open>The part of \<open>get_texture\<close> that turns the picture: the texture to give, its rotation and the new state.\<close>

definition turn_texture :: "frame_env \<Rightarrow> capturer \<Rightarrow> (which_texture \<times> nat) \<times> capturer" where
  "turn_texture E c =
    (let own = (if cp_texture c then FrameTexture else NoTexture);
         rotation = texture_rotation (od_rotation (dd_desc (cp_display c)));
         ro = cp_rotate c
     in if rotation \<noteq> 0 \<and> cp_texture c \<and> ro_context ro \<and> ro_device ro \<and> ro_enum ro \<and> ro_processor ro then
          let (w, h) = fv_tex_size E;
              (w, h) = (if rotation = 90 \<or> rotation = 270 then (h, w) else (w, h));
              ro = (if ro_made ro then ro else ro\<lparr>ro_made := True, ro_texture := fv_rotated E\<rparr>);
              c = c\<lparr>cp_rotate := ro\<rparr>
          in if ro_texture ro \<and> w = cp_w c \<and> h = cp_h c \<and> fv_in_view E \<and> fv_out_view E then ((RotatedTexture, 0), c)
             else ((own, rotation), c)
        else ((own, rotation), c))"

definition get_texture :: "frame_env \<Rightarrow> capturer \<Rightarrow> (which_texture \<times> nat) dx" where
  "get_texture E c =
    (if \<not> cp_duplication c then (DxErr K_AddrNotAvailable, c, [])
     else
       (case wrap_hresult (fv_acquire E) of
          Inl e \<Rightarrow> (DxErr e, c, [ReleaseFrame, AcquireNextFrame])
        | Inr _ \<Rightarrow>
            if fv_accumulated E = 0 \<or> fv_present E = 0 then (DxErr K_WouldBlock, c, [ReleaseFrame, AcquireNextFrame])
            else
              (case turn_texture E (c\<lparr>cp_texture := fv_is_texture E\<rparr>) of
                 (t, c) \<Rightarrow> (DxOk t, c, [ReleaseFrame, AcquireNextFrame]))))"

datatype dx_frame = DxPixels pixel_buffer bytes | DxTexture which_texture nat

definition dxgi_frame :: "(rotate_call \<Rightarrow> bytes \<Rightarrow> bytes) \<Rightarrow> frame_env \<Rightarrow> capturer \<Rightarrow> dx_frame dx" where
  "dxgi_frame argb_rotate E c =
    (if cp_output_texture c then
       (case get_texture E c of
          (DxOk (t, r), c, calls) \<Rightarrow> (DxOk (DxTexture t r), c, calls)
        | (DxErr e, c, calls) \<Rightarrow> (DxErr e, c, calls)
        | (DxPanic, c, calls) \<Rightarrow> (DxPanic, c, calls)
        | (DxCrash, c, calls) \<Rightarrow> (DxCrash, c, calls))
     else
       (case get_pixelbuffer argb_rotate E c of
          (DxOk d, c, calls) \<Rightarrow>
            ((case new_pixel_buffer d PixBGRA (cp_w c) (cp_h c) of None \<Rightarrow> DxPanic | Some b \<Rightarrow> DxOk (DxPixels b d)),
             c, calls)
        | (DxErr e, c, calls) \<Rightarrow> (DxErr e, c, calls)
        | (DxPanic, c, calls) \<Rightarrow> (DxPanic, c, calls)
        | (DxCrash, c, calls) \<Rightarrow> (DxCrash, c, calls)))"

text \<open>\<open>common/dxgi.rs\<close>: a frame that did not come in time is one to wait for.\<close>

definition capturer_frame :: "(rotate_call \<Rightarrow> bytes \<Rightarrow> bytes) \<Rightarrow> frame_env \<Rightarrow> capturer \<Rightarrow> dx_frame dx" where
  "capturer_frame argb_rotate E c =
    (case dxgi_frame argb_rotate E c of
       (DxErr K_TimedOut, c, calls) \<Rightarrow> (DxErr K_WouldBlock, c, calls)
     | r \<Rightarrow> r)"

text \<open>\<open>drop\<close> of the capturer.\<close>

definition drop_capturer :: "capturer \<Rightarrow> dx_call list" where
  "drop_capturer c = (if cp_duplication c then unmap c else [])"

section \<open>Captures by GDI\<close>

text \<open>
  \<open>CapturerGDI::new\<close> with its handles in \<open>gdi.rs\<close>: which of the calls succeed, and the handles deleted again
  when one of them fails.
\<close>

datatype gdi_handle = ScreenDC | MemoryDC | Bitmap

record gdi_env =
  ge_screen :: bool
  ge_dc :: bool
  ge_bitmap :: bool
  ge_select :: bool

definition new_gdi :: "gdi_env \<Rightarrow> u16 list \<Rightarrow> (string + unit) \<times> gdi_handle list \<times> gdi_handle list" where
  "new_gdi E nm =
    (if nm = [] then (Inl ''Empty display name'', [], [])
     else if \<not> ge_screen E then (Inl ''Failed to create dc from monitor name'', [], [])
     else if \<not> ge_dc E then (Inl ''Can't get a Windows display'', [ScreenDC], [ScreenDC])
     else if \<not> ge_bitmap E then (Inl ''Can't create a Windows buffer'', [ScreenDC, MemoryDC], [ScreenDC, MemoryDC])
     else if \<not> ge_select E then
       (Inl ''Can't select Windows buffer'', [ScreenDC, MemoryDC, Bitmap], [ScreenDC, MemoryDC, Bitmap])
     else (Inr (), [ScreenDC, MemoryDC, Bitmap], []))"

definition drop_gdi :: "gdi_handle list" where
  "drop_gdi = [ScreenDC, MemoryDC, Bitmap]"

text \<open>
  \<open>CapturerGDI::frame\<close>: the lengths of the two buffers and the calls that turn the picture upright. The sizes
  are \<open>i32\<close>; a vector of \<open>usize\<close> bytes is made from their product.
\<close>

datatype gdi_fail = GdiErr string | GdiPanic

datatype gdi_copy = MirrorRows nat nat nat | TurnAround nat nat nat

definition gdi_frame :: "bool \<Rightarrow> bool \<Rightarrow> i32 \<Rightarrow> i32 \<Rightarrow> gdi_fail + nat \<times> gdi_copy list" where
  "gdi_frame blt bits w h =
    (if \<not> blt then Inl (GdiErr ''Failed to copy screen to Windows buffer'')
     else
       let stride = w * 4; len = usize (stride * h)
       in if len = 0 then Inl GdiPanic
          else if \<not> bits then Inl (GdiErr ''GetDIBits failed'')
          else Inr (len, [MirrorRows (unat stride) (unat w) (unat h), TurnAround (unat stride) (unat w) (unat h)]))"

end
