(* ===== verification/DxgiProps.thy ===== *)
theory DxgiProps
  imports DxgiCapture PipeWireProps
begin

text \<open>
  What holds of the capture on Windows: no call goes through a null pointer while the duplication of the
  desktop stands, frames are released before the next is acquired, turned pictures stay inside their buffer
  and have the size of the display, and the handles of GDI are given back.
\<close>

section \<open>Runs of a capturer\<close>

datatype capture_op = TakeFrame frame_env | SetGdi bool | CancelGdi | SetOutputTexture bool

definition capture_step :: "(rotate_call \<Rightarrow> bytes \<Rightarrow> bytes) \<Rightarrow> capture_op \<Rightarrow> capturer \<Rightarrow> dx_frame dx_result option \<times> capturer \<times> dx_call list" where
  "capture_step rot op c =
    (case op of
       TakeFrame E \<Rightarrow> (case capturer_frame rot E c of (r, c, calls) \<Rightarrow> (Some r, c, calls))
     | SetGdi ok \<Rightarrow> (None, snd (set_gdi ok c), [])
     | CancelGdi \<Rightarrow> (None, cancel_gdi c, [])
     | SetOutputTexture b \<Rightarrow> (None, set_output_texture b c, []))"

text \<open>The answers of a run and the calls of Windows in it.\<close>

fun capture_run :: "(rotate_call \<Rightarrow> bytes \<Rightarrow> bytes) \<Rightarrow> capture_op list \<Rightarrow> capturer \<Rightarrow> dx_frame dx_result list \<times> dx_call list" where
  "capture_run rot [] c = ([], [])"
| "capture_run rot (op # ops) c =
    (case capture_step rot op c of
       (r, c, calls) \<Rightarrow>
         (case capture_run rot ops c of
            (rs, later) \<Rightarrow> ((case r of None \<Rightarrow> [] | Some r \<Rightarrow> [r]) @ rs, calls @ later)))"

text \<open>
  What Windows promises of a frame: it is a texture, and the mapped surface has the rows of the display as it is
  shown before it is turned.
\<close>

definition surface_rows :: "capturer \<Rightarrow> nat" where
  "surface_rows c =
    (if od_rotation (dd_desc (cp_display c)) = 2 \<or> od_rotation (dd_desc (cp_display c)) = 4 then cp_w c else cp_h c)"

definition frame_env_ok :: "capturer \<Rightarrow> frame_env \<Rightarrow> bool" where
  "frame_env_ok c E \<longleftrightarrow> fv_is_texture E \<and> fv_pitch E * surface_rows c \<le> length (fv_bits E)"









section \<open>No call through a null pointer\<close>







lemma new_capturer_usable: "new_capturer N d = Inr c \<Longrightarrow> cp_gdi c \<or> cp_duplication c"
  by (auto simp: new_capturer_def wrap_hresult_def Let_def split: if_splits sum.splits)

text \<open>
  A capturer that fell back to GDI when it was made works, but after \<open>cancel_gdi\<close>, or after a \<open>set_gdi\<close>
  that fails, the next frame of pixels calls through the null duplication.
\<close>

theorem cancelled_fallback_crashes:
  assumes "new_capturer N d = Inr c" "ne_duplicate N \<noteq> 0"
  shows "cp_gdi c \<and> fst (capture_run rot [CancelGdi, TakeFrame E] c) = [DxCrash]
    \<and> fst (capture_run rot [SetGdi False, TakeFrame E] c) = [DxCrash]"
proof -
  have c: "cp_gdi c" "\<not> cp_duplication c" "\<not> cp_output_texture c"
    using assms by (auto simp: new_capturer_def wrap_hresult_def Let_def split: if_splits sum.splits)
  then show ?thesis
    by (simp add: capture_step_def capturer_frame_def dxgi_frame_def get_pixelbuffer_def cancel_gdi_def set_gdi_def)
qed

section \<open>Frames are released\<close>

text \<open>The documentation asks for a \<open>ReleaseFrame\<close> between two frames that are acquired.\<close>

fun released :: "bool \<Rightarrow> dx_call list \<Rightarrow> bool" where
  "released free [] = True"
| "released free (AcquireNextFrame # cs) = (free \<and> released False cs)"
| "released free (ReleaseFrame # cs) = released True cs"
| "released free (_ # cs) = released free cs"

text \<open>The calls of one frame begin with a release whenever they acquire.\<close>

definition begins_released :: "dx_call list \<Rightarrow> bool" where
  "begins_released cs \<longleftrightarrow> cs = [] \<or> (\<exists>rest. cs = ReleaseFrame # rest \<and> released True rest)"

lemma begins_released_append: "begins_released cs \<Longrightarrow> begins_released ds \<Longrightarrow> begins_released (cs @ ds)"
proof -
  have append: "released True (rest @ ds)" if "released True rest" "begins_released ds" for rest ds
  proof -
    have "released b (rest @ ds)" if "released b rest" "begins_released ds" for b
      using that by (induction b rest rule: released.induct) (auto simp: begins_released_def)
    then show ?thesis using that by blast
  qed
  assume "begins_released cs" "begins_released ds"
  then show ?thesis using append by (auto simp: begins_released_def)
qed

lemma load_frame_calls: "load_frame E c = (r, c', calls) \<Longrightarrow> \<exists>m. calls = AcquireNextFrame # m \<and> m \<in> {[], [MapDesktopSurface], [MapSurface]}"
  by (auto simp: load_frame_def split: sum.splits if_splits dx_result.splits)

lemma get_pixelbuffer_calls: "get_pixelbuffer rot E c = (r, c', calls) \<Longrightarrow> begins_released calls"
  by (auto simp: get_pixelbuffer_def Let_def unmap_def begins_released_def
      split: sum.splits if_splits prod.splits dx_result.splits dest!: load_frame_calls)

lemma get_texture_calls: "get_texture E c = (r, c', calls) \<Longrightarrow> begins_released calls"
  by (auto simp: get_texture_def begins_released_def split: sum.splits if_splits prod.splits)

lemma dxgi_frame_calls: "dxgi_frame rot E c = (r, c', calls) \<Longrightarrow> begins_released calls"
  by (auto simp: dxgi_frame_def split: if_splits prod.splits dx_result.splits
      dest: get_pixelbuffer_calls get_texture_calls)

lemma capturer_frame_calls: "capturer_frame rot E c = (r, c', calls) \<Longrightarrow> begins_released calls"
  by (auto simp: capturer_frame_def split: prod.splits dx_result.splits win_kind.splits dest: dxgi_frame_calls)

lemma capture_run_calls: "begins_released (snd (capture_run rot ops c))"
proof (induction ops arbitrary: c)
  case (Cons op ops)
  obtain r c' calls where step: "capture_step rot op c = (r, c', calls)" by (cases "capture_step rot op c") auto
  have "begins_released calls"
    using step capturer_frame_calls
    by (auto simp: capture_step_def begins_released_def split: capture_op.splits prod.splits)
  then show ?case using step Cons.IH [of c'] begins_released_append by (auto split: prod.splits)
qed (simp add: begins_released_def)

text \<open>
  C35: In every run of a capturer a frame is released before the next is acquired, after failures and changes of
  the mode too.
\<close>

theorem frames_released:
  "released False (snd (capture_run rot ops c))"
  using capture_run_calls [of rot ops c] by (auto simp: begins_released_def)

section \<open>Turned pictures\<close>

text \<open>
  What \<open>ARGBRotate\<close> touches, as documented: \<open>rc_h\<close> rows of \<open>rc_w\<close> pixels of the source, and of the
  destination as many rows and columns, exchanged by a quarter turn. The last byte plus one.
\<close>

definition rows_end :: "nat \<Rightarrow> nat \<Rightarrow> nat \<Rightarrow> nat" where
  "rows_end stride w h = (if w = 0 \<or> h = 0 then 0 else (h - 1) * stride + 4 * w)"

definition rotate_reads :: "rotate_call \<Rightarrow> nat" where
  "rotate_reads r = rows_end (rc_src_stride r) (rc_w r) (rc_h r)"

definition rotate_writes :: "rotate_call \<Rightarrow> nat" where
  "rotate_writes r = (if rc_angle r = 180 then rows_end (rc_dst_stride r) (rc_w r) (rc_h r)
     else rows_end (rc_dst_stride r) (rc_h r) (rc_w r))"

lemma rows_end_exact: "w \<noteq> 0 \<Longrightarrow> h \<noteq> 0 \<Longrightarrow> rows_end (4 * w) w h = 4 * w * h"
  by (cases h) (simp_all add: rows_end_def)

lemma rows_end_le: "4 * w \<le> stride \<Longrightarrow> rows_end stride w h \<le> stride * h"
  by (cases h) (simp_all add: rows_end_def algebra_simps)

text \<open>
  A turned picture fills its buffer exactly and is read inside the mapped surface, for every rotation of the
  display and every pitch that holds a row.
\<close>

theorem turned_picture_inside:
  assumes "rotation_angle (od_rotation (dd_desc (cp_display c))) = Some angle" "angle \<noteq> 0" "cp_w c \<noteq> 0" "cp_h c \<noteq> 0"
    and "frame_env_ok c E" "4 * rc_w (rotate_frame c (fv_pitch E) angle) \<le> fv_pitch E"
  shows "rotate_writes (rotate_frame c (fv_pitch E) angle) = cp_w c * cp_h c * 4 \<and>
    rotate_reads (rotate_frame c (fv_pitch E) angle) \<le> length (fv_bits E)"
proof
  show "rotate_writes (rotate_frame c (fv_pitch E) angle) = cp_w c * cp_h c * 4"
    using assms(3,4) by (simp add: rotate_writes_def rotate_frame_def rows_end_exact)
  let ?r = "rotate_frame c (fv_pitch E) angle"
  have "rc_h ?r = surface_rows c"
    using assms(1,2) by (auto simp: rotate_frame_def surface_rows_def rotation_angle_def split: if_splits)
  moreover have "rc_src_stride ?r = fv_pitch E" by (simp add: rotate_frame_def)
  ultimately show "rotate_reads ?r \<le> length (fv_bits E)"
    using rows_end_le [OF assms(6), of "rc_h ?r"] assms(5) by (simp add: rotate_reads_def frame_env_ok_def)
qed

text \<open>
  A texture comes either turned, then it has the size of the display and needs no rotation, or as Windows
  gave it together with the rotation of the display that is left to do.
\<close>

theorem texture_or_rotation:
  assumes "get_texture E c = (DxOk (t, r), c', calls)"
  shows "(t = RotatedTexture \<and> r = 0 \<and> ro_texture (cp_rotate c') \<and>
      (if od_rotation (dd_desc (cp_display c)) = 3 then fv_tex_size E = (cp_w c, cp_h c)
       else fv_tex_size E = (cp_h c, cp_w c)))
    \<or> (t = (if fv_is_texture E then FrameTexture else NoTexture) \<and> r = texture_rotation (od_rotation (dd_desc (cp_display c))))"
  using assms
  by (auto simp: get_texture_def turn_texture_def Let_def texture_rotation_def split: if_splits sum.splits prod.splits)

section \<open>GDI\<close>

text \<open>
  The handles of GDI are all given back: by the constructor when it fails, whichever call it is, and by
  \<open>drop\<close> otherwise.
\<close>

theorem gdi_handles_returned:
  "case new_gdi E nm of
     (Inl _, made, deleted) \<Rightarrow> mset deleted = mset made
   | (Inr _, made, deleted) \<Rightarrow> deleted = [] \<and> mset drop_gdi = mset made"
  by (simp add: new_gdi_def drop_gdi_def)

lemma sint_nonneg: "0 \<le> sint (w :: i32) \<Longrightarrow> sint w = int (unat w)"
proof -
  assume "0 \<le> sint w"
  moreover have "sint w < 2 ^ 31" using sint_less [of w] by simp
  ultimately have "take_bit 32 (sint w) = sint w" by (intro take_bit_int_eq_self) auto
  then show ?thesis using uint_sint [of w] by simp
qed

lemma small_nonneg: "unat (w :: i32) < 2 ^ 31 \<Longrightarrow> 0 \<le> sint w"
proof -
  assume "unat w < 2 ^ 31"
  then have "int (unat w) < int (2 ^ 31)" by (simp only: of_nat_less_iff)
  then have "uint w < 2 ^ 31" by (simp only: of_nat_unat) simp
  moreover have "0 \<le> uint w" by simp
  ultimately have "signed_take_bit 31 (uint w) = uint w" by (intro signed_take_bit_int_eq_self) linarith+
  then show ?thesis by (simp add: sint_uint)
qed

text \<open>
  The two calls that turn a picture of GDI upright stay inside their buffers, for every size whose bytes an
  \<open>i32\<close> can count.
\<close>

theorem gdi_picture_inside:
  assumes "0 < sint w" "0 < sint h" "sint w * sint h * 4 < 2 ^ 31" "gdi_frame blt bits w h = Inr (len, calls)"
  shows "len = unat w * unat h * 4 \<and>
    list_all (\<lambda>c. case c of MirrorRows s w h \<Rightarrow> rows_end s w h \<le> len | TurnAround s w h \<Rightarrow> rows_end s w h \<le> len) calls"
proof -
  have nat: "sint w = int (unat w)" "sint h = int (unat h)" using assms(1,2) sint_nonneg by simp_all
  have area: "unat w * unat h * 4 < 2 ^ 31" 
  proof -
    have "int (unat w * unat h * 4) < int (2 ^ 31)" using assms(3) unfolding nat by simp
    then show ?thesis by (simp only: of_nat_less_iff)
  qed
  have pos: "unat w \<noteq> 0" "unat h \<noteq> 0" using assms(1,2) nat by linarith+
  have "unat w * 4 \<le> unat w * unat h * 4" using pos(2) by simp
  moreover have "(2 :: nat) ^ 31 < 2 ^ 32" by simp
  ultimately have "unat w * 4 < 2 ^ 32" using area by linarith
  then have stride: "unat (w * 4) = unat w * 4" by (simp add: unat_word_ariths)
  have total: "unat (w * 4 * h) = unat w * unat h * 4"
  proof -
    have "unat (w * 4 * h) = unat (w * 4) * unat h mod 2 ^ 32" using unat_word_ariths(2) [of "w * 4" h] by simp
    also have "\<dots> = unat w * unat h * 4 mod 2 ^ 32" by (simp only: stride mult.assoc mult.commute [of 4])
    also have "\<dots> = unat w * unat h * 4" using area by (intro mod_less) simp
    finally show ?thesis .
  qed
  have "usize (w * 4 * h) = unat w * unat h * 4"
    using usize_of_i32(1) [OF small_nonneg] total area by (simp add: usize_def)
  then show ?thesis using assms(4) pos rows_end_exact [OF pos]
    by (auto simp: gdi_frame_def Let_def stride mult.commute mult.left_commute split: if_splits)
qed

section \<open>Concrete captures\<close>

definition demo_display :: "nat \<Rightarrow> dxgi_display" where
  "demo_display r = \<lparr>dd_inner = Some (0, 0), dd_desc = \<lparr>od_name = [65, 0], od_left = 0, od_top = 0, od_right = 2,
     od_bottom = 1, od_attached = 1, od_rotation = r\<rparr>, dd_gdi = False\<rparr>"

definition demo_new :: "u32 \<Rightarrow> new_env" where
  "demo_new dup = \<lparr>ne_device = 0, ne_desc1 = 0, ne_duplicate = dup, ne_gdi = True, ne_in_memory = False, ne_garbage = False,
     ne_context = True, ne_video_device = True, ne_enum = True, ne_caps = True, ne_processor = True\<rparr>"

definition demo_frame :: frame_env where
  "demo_frame = \<lparr>fv_acquire = 0, fv_present = 1, fv_accumulated = 1, fv_is_texture = True, fv_create = 0, fv_map = 0,
     fv_pitch = 8, fv_bits = [1, 2, 3, 4, 5, 6, 7, 8, 9, 10, 11, 12, 13, 14, 15, 16], fv_gdi = Inl ''none'',
     fv_tex_size = (1, 2), fv_rotated = True, fv_in_view = True, fv_out_view = True\<rparr>"

definition demo_capturer :: "nat \<Rightarrow> capturer" where
  "demo_capturer r = \<lparr>cp_display = demo_display r, cp_device = True, cp_duplication = True, cp_fastlane = False,
     cp_surface = False, cp_texture = False, cp_w = 2, cp_h = 1, cp_gdi = False, cp_gdi_buffer = [], cp_saved = [],
     cp_output_texture = False, cp_rotate = create_rotations (demo_new 0) True (demo_display r)\<rparr>"

lemma demo_made: "new_capturer (demo_new 0) (demo_display r) = Inr (demo_capturer r)"
  by (simp add: new_capturer_def demo_new_def demo_display_def demo_capturer_def wrap_hresult_def Let_def usize_def
      usize_of_i32_def dd_width_def dd_height_def)


theorem cancelled_fallback_crashes_witness:
  "\<exists>c. new_capturer (demo_new 1) (demo_display 1) = Inr c \<and>
     fst (capture_run (\<lambda>_ b. b) [CancelGdi, TakeFrame demo_frame] c) = [DxCrash]"
proof -
  have "\<exists>c. new_capturer (demo_new 1) (demo_display 1) = Inr c"
    by (simp add: new_capturer_def demo_new_def demo_display_def wrap_hresult_def)
  then obtain c where c: "new_capturer (demo_new 1) (demo_display 1) = Inr c" by blast
  have "ne_duplicate (demo_new 1) \<noteq> 0" by (simp add: demo_new_def)
  from cancelled_fallback_crashes [OF c this] c show ?thesis by blast
qed

theorem turned_picture_inside_witness:
  "rotate_writes (rotate_frame (demo_capturer 2) 8 90) = 8 \<and> rotate_reads (rotate_frame (demo_capturer 2) 8 90) \<le> 16"
  using turned_picture_inside [of "demo_capturer 2" 90 demo_frame]
  by (simp add: demo_capturer_def demo_frame_def demo_display_def rotation_angle_def frame_env_ok_def surface_rows_def
      rotate_frame_def)

theorem texture_or_rotation_witness:
  "fst (get_texture demo_frame (demo_capturer 2)) = DxOk (RotatedTexture, 0)"
proof -
  obtain c' calls where g: "get_texture demo_frame (demo_capturer 2) = (DxOk (RotatedTexture, 0), c', calls)"
    by (simp add: get_texture_def turn_texture_def Let_def demo_frame_def demo_capturer_def demo_display_def
        demo_new_def wrap_hresult_def create_rotations_def processor_rotation_def texture_rotation_def)
  from texture_or_rotation [OF this] g show ?thesis by simp
qed

theorem gdi_picture_inside_witness:
  "gdi_frame True True 2 1 = Inr (8, [MirrorRows 8 2 1, TurnAround 8 2 1]) \<and> rows_end 8 2 1 \<le> 8"
proof -
  have g: "gdi_frame True True 2 1 = Inr (8, [MirrorRows 8 2 1, TurnAround 8 2 1])"
    by (simp add: gdi_frame_def usize_def usize_of_i32_def)
  have "(0 :: int) < sint (2 :: i32)" "(0 :: int) < sint (1 :: i32)" "sint (2 :: i32) * sint (1 :: i32) * 4 < 2 ^ 31"
    by simp_all
  from gdi_picture_inside [OF this g] g show ?thesis by simp
qed

end
