(* ===== verification/MagCapture.thy ===== *)
theory MagCapture
  imports DxgiCapture
begin

text \<open>
  The capture of Windows by its magnifier, \<open>libs/scrap/src/dxgi/mag.rs\<close> with \<open>CapturerMag\<close> of
  \<open>common/dxgi.rs\<close>: the library and windows it makes and gives back, and a frame, which the library hands over
  by a callback into a global buffer. What Windows answers is an argument.
\<close>

section \<open>The library\<close>

text \<open>What is held: the loaded library, its initialisation and the two windows.\<close>

datatype mag_handle = MagLibrary | MagInitialized | HostWindow | MagnifierWindow

text \<open>Whether the library, each of its five functions, and the initialisation succeed.\<close>

record mag_lib_env =
  ml_library :: bool
  ml_functions :: "bool list"
  ml_init :: bool

record mag_interface =
  mi_init_succeeded :: bool
  mi_library :: bool

definition mag_functions :: "string list" where
  "mag_functions = [''MagInitialize'', ''MagUninitialize'', ''MagSetWindowSource'', ''MagSetWindowFilterList'',
     ''MagSetImageScalingCallback'']"

text \<open>\<open>load_func\<close> for each function, up to the first that is missing.\<close>

fun load_functions :: "(string \<times> bool) list \<Rightarrow> string + unit" where
  "load_functions [] = Inr ()"
| "load_functions ((f, ok) # fs) = (if ok then load_functions fs else Inl (''Failed to GetProcAddress '' @ f))"

text \<open>\<open>MagInterface::uninit\<close>, which \<open>drop\<close> calls: the interface after it and what it gives back.\<close>

definition mag_uninit :: "mag_interface \<Rightarrow> mag_interface \<times> mag_handle list" where
  "mag_uninit m =
    (m\<lparr>mi_init_succeeded := False, mi_library := (if mi_init_succeeded m then False else mi_library m)\<rparr>,
     if mi_init_succeeded m then MagInitialized # (if mi_library m then [MagLibrary] else []) else [])"

text \<open>\<open>MagInterface::new\<close>: the result with what was made and what was given back; an error drops the interface.\<close>

definition new_mag_interface :: "mag_lib_env \<Rightarrow> (string + mag_interface) \<times> mag_handle list \<times> mag_handle list" where
  "new_mag_interface E =
    (if \<not> ml_library E then (Inl ''Failed to LoadLibraryExA Magnification.dll'', [], [])
     else
       let m = \<lparr>mi_init_succeeded = False, mi_library = True\<rparr> in
       case load_functions (zip mag_functions (ml_functions E)) of
         Inl e \<Rightarrow> (Inl e, [MagLibrary], snd (mag_uninit m))
       | Inr _ \<Rightarrow>
           if \<not> ml_init E then (Inl ''Failed to MagInitialize'', [MagLibrary], snd (mag_uninit m))
           else (Inr (m\<lparr>mi_init_succeeded := True\<rparr>), [MagLibrary, MagInitialized], []))"

definition mag_is_supported :: "mag_lib_env \<Rightarrow> bool" where
  "mag_is_supported E = (case fst (new_mag_interface E) of Inr _ \<Rightarrow> True | Inl _ \<Rightarrow> False)"

section \<open>The capturer\<close>

record rect =
  r_left :: i32
  r_top :: i32
  r_right :: i32
  r_bottom :: i32

record mag_capturer =
  mc_interface :: mag_interface
  mc_host :: bool
  mc_magnifier :: bool
  mc_rect :: rect
  mc_w :: nat
  mc_h :: nat

text \<open>The virtual screen (left, top, width, height) and what the calls of the constructor give.\<close>

datatype class_result = ClassRegistered | ClassExists | ClassFailed

record mag_env =
  me_screen :: "i32 \<times> i32 \<times> i32 \<times> i32"
  me_lib :: mag_lib_env
  me_module :: bool
  me_class :: class_result
  me_host :: bool
  me_magnifier :: bool
  me_callback :: bool

text \<open>\<open>destroy_windows\<close> and then \<open>uninit\<close>: what \<open>drop\<close> gives back.\<close>

definition destroy_windows :: "mag_capturer \<Rightarrow> mag_capturer \<times> mag_handle list" where
  "destroy_windows c =
    (c\<lparr>mc_magnifier := False, mc_host := False\<rparr>,
     (if mc_magnifier c then [MagnifierWindow] else []) @ (if mc_host c then [HostWindow] else []))"

definition drop_mag :: "mag_capturer \<Rightarrow> mag_handle list" where
  "drop_mag c = (case destroy_windows c of (c, ws) \<Rightarrow> ws @ snd (mag_uninit (mc_interface c)))"

definition inside_screen :: "i32 \<times> i32 \<times> i32 \<times> i32 \<Rightarrow> i32 \<times> i32 \<Rightarrow> nat \<Rightarrow> nat \<Rightarrow> bool" where
  "inside_screen screen origin w h =
    (case screen of (x, y, sw, sh) \<Rightarrow>
       sint (fst origin) \<ge> sint x \<and> sint (snd origin) \<ge> sint y \<and> w \<le> usize sw \<and> h \<le> usize sh)"

text \<open>A capturer that was made so far, dropped with an error.\<close>

definition mag_failed :: "string \<Rightarrow> mag_capturer \<Rightarrow> mag_handle list \<Rightarrow> (string + mag_capturer) \<times> mag_handle list \<times> mag_handle list" where
  "mag_failed e c made = (Inl e, made, drop_mag c)"

definition new_mag :: "mag_env \<Rightarrow> i32 \<times> i32 \<Rightarrow> nat \<Rightarrow> nat \<Rightarrow> (string + mag_capturer) \<times> mag_handle list \<times> mag_handle list" where
  "new_mag E origin w h =
    (if \<not> inside_screen (me_screen E) origin w h then (Inl ''Failed Check screen rect'', [], [])
     else
       (case new_mag_interface (me_lib E) of
          (Inl e, made, deleted) \<Rightarrow> (Inl e, made, deleted)
        | (Inr m, made, _) \<Rightarrow>
            let c = \<lparr>mc_interface = m, mc_host = False, mc_magnifier = False,
                     mc_rect = \<lparr>r_left = fst origin, r_top = snd origin, r_right = fst origin + of_nat w,
                                r_bottom = snd origin + of_nat h\<rparr>, mc_w = w, mc_h = h\<rparr>
            in if \<not> me_module E then mag_failed ''Failed to GetModuleHandleExA'' c made
               else if me_class E = ClassFailed then mag_failed ''Failed to RegisterClassExA'' c made
               else if \<not> me_host E then mag_failed ''Failed to CreateWindowExA host_window'' c made
               else
                 let c = c\<lparr>mc_host := True\<rparr>; made = made @ [HostWindow] in
                 if \<not> me_magnifier E then mag_failed ''Failed CreateWindowA magnifier_window'' c made
                 else
                   let c = c\<lparr>mc_magnifier := True\<rparr>; made = made @ [MagnifierWindow] in
                   if \<not> me_callback E then mag_failed ''Failed to MagSetImageScalingCallback'' c made
                   else (Inr c, made, [])))"

text \<open>\<open>exclude\<close>: the window found by its name, and by its class if that is given.\<close>

definition mag_exclude :: "(string option \<Rightarrow> string \<Rightarrow> bool) \<Rightarrow> bool \<Rightarrow> string \<Rightarrow> string \<Rightarrow> string + bool" where
  "mag_exclude find_window filter_ok cls nm =
    (if CHR 0x00 \<in> set nm then Inl ''nul byte found in provided data''
     else if \<not> find_window (if cls = [] then None else Some cls) nm then Inr False
     else if \<not> filter_ok then Inl ''Failed MagSetWindowFilterList''
     else Inr True)"

definition mag_get_rect :: "mag_capturer \<Rightarrow> (i32 \<times> i32) \<times> nat \<times> nat" where
  "mag_get_rect c = ((r_left (mc_rect c), r_top (mc_rect c)), mc_w c, mc_h c)"

section \<open>A frame\<close>

text \<open>\<open>MAG_BUFFER\<close>, and an image of the library: whether it is in the format RGBA, and its bytes.\<close>

type_synonym mag_buffer = "bool \<times> bytes"

type_synonym mag_image = "bool \<times> bytes"

definition clear_data :: "mag_buffer \<Rightarrow> mag_buffer" where
  "clear_data b = (False, [])"

text \<open>\<open>on_gag_image_scaling_callback\<close>; \<open>None\<close> is the panic on an image without bytes.\<close>

definition scaling_callback :: "mag_image \<Rightarrow> mag_buffer \<Rightarrow> (bool \<times> mag_buffer) option" where
  "scaling_callback img b =
    (let b = clear_data b in
     if \<not> fst img then Some (False, b)
     else if snd img = [] then None
     else Some (True, (True, snd img)))"

fun run_callbacks :: "mag_image list \<Rightarrow> mag_buffer \<Rightarrow> mag_buffer option" where
  "run_callbacks [] b = Some b"
| "run_callbacks (i # is) b = Option.bind (scaling_callback i b) (\<lambda>(_, b). run_callbacks is b)"

record mag_frame_env =
  mf_screen :: "i32 \<times> i32 \<times> i32 \<times> i32"
  mf_position :: bool
  mf_source :: bool
  mf_images :: "mag_image list"

datatype mag_result = MagOk bytes | MagErr string | MagPanic

definition rect_on_screen :: "i32 \<times> i32 \<times> i32 \<times> i32 \<Rightarrow> rect \<Rightarrow> bool" where
  "rect_on_screen screen r =
    (case screen of (x, y, w, h) \<Rightarrow>
       sint (r_left r) \<ge> sint x \<and> sint (r_top r) \<ge> sint y \<and> sint (r_right r) \<le> sint (x + w)
       \<and> sint (r_bottom r) \<le> sint (y + h))"

definition mag_frame :: "mag_frame_env \<Rightarrow> mag_capturer \<Rightarrow> mag_buffer \<Rightarrow> mag_result \<times> mag_buffer" where
  "mag_frame E c b =
    (let b = clear_data b in
     if \<not> rect_on_screen (mf_screen E) (mc_rect c) then (MagErr ''Failed Check screen rect'', b)
     else if \<not> mf_position E then (MagErr ''Failed SetWindowPos'', b)
     else
       case run_callbacks (mf_images E) b of
         None \<Rightarrow> (MagPanic, b)
       | Some b \<Rightarrow>
           if \<not> mf_source E then (MagErr ''Failed to MagSetWindowSource'', b)
           else if \<not> fst b then (MagErr ''No data captured by magnifier'', b)
           else (MagOk (snd b), b))"

definition mag_capturer_frame :: "mag_frame_env \<Rightarrow> mag_capturer \<Rightarrow> mag_buffer \<Rightarrow> frame_result \<times> mag_buffer" where
  "mag_capturer_frame E c b =
    (case mag_frame E c b of
       (MagErr e, b) \<Rightarrow> (FrameErr e, b)
     | (MagPanic, b) \<Rightarrow> (FramePanic, b)
     | (MagOk d, b) \<Rightarrow> (pixel_frame d PixBGRA (mc_w c) (mc_h c), b))"

section \<open>Properties\<close>

text \<open>
  A capturer of the magnifier gives back everything it made, the library only when it had been initialised:
  whatever call fails, the windows are destroyed and the initialisation is ended.
\<close>

theorem mag_given_back:
  "case new_mag E origin w h of
     (Inl _, made, deleted) \<Rightarrow> mset (filter (\<lambda>x. MagInitialized \<in> set made \<or> x \<noteq> MagLibrary) made) = mset deleted
   | (Inr c, made, deleted) \<Rightarrow> deleted = [] \<and> mset (drop_mag c) = mset made"
  by (auto simp: new_mag_def new_mag_interface_def mag_failed_def drop_mag_def destroy_windows_def mag_uninit_def Let_def
      split: sum.splits)

text \<open>
  When a function of the library is missing, or the library refuses to start, the loaded library is kept.
\<close>

theorem mag_library_kept:
  assumes "ml_library L" "fst (new_mag_interface L) = Inl e"
  shows "snd (new_mag_interface L) = ([MagLibrary], [])"
  using assms by (auto simp: new_mag_interface_def mag_uninit_def Let_def split: sum.splits if_splits)

lemma run_callbacks_last:
  "run_callbacks is b = Some (True, d) \<Longrightarrow> b = (False, []) \<Longrightarrow> is \<noteq> [] \<and> last is = (True, d) \<and> d \<noteq> []"
proof (induction "is" arbitrary: b rule: rev_induct)
  case (snoc i xs)
  have append: "run_callbacks (xs @ [i]) b = Option.bind (run_callbacks xs b) (\<lambda>b. run_callbacks [i] b)" for b
    by (induction xs arbitrary: b) (auto split: Option.bind_splits)
  then show ?case using snoc.prems
    by (cases i) (auto simp: scaling_callback_def clear_data_def Let_def split: Option.bind_splits if_splits)
qed simp

text \<open>
  A frame of the magnifier is the last image that the library handed over during this very call: nothing of
  an earlier frame is given out, whatever is in the buffer.
\<close>

theorem mag_frame_fresh:
  assumes "mag_frame E c b = (MagOk d, b')"
  shows "mf_images E \<noteq> [] \<and> last (mf_images E) = (True, d) \<and> d \<noteq> []"
  using assms run_callbacks_last [of "mf_images E" "(False, [])" d]
  by (cases b') (auto simp: mag_frame_def clear_data_def Let_def split: if_splits option.splits)

text \<open>
  The constructor compares the size of the rectangle with the size of the screen, but not where it ends: it
  accepts rectangles for which no frame is ever taken.
\<close>

theorem mag_accepted_never_captured:
  assumes "fst (new_mag E (x0, y0) w h) = Inr c" "me_screen E = (x, y, sw, sh)" "mf_screen F = me_screen E"
    and "sint (x0 + of_nat w) > sint (x + sw)"
  shows "fst (mag_frame F c b) = MagErr ''Failed Check screen rect''"
  using assms
  by (auto simp: new_mag_def Let_def mag_failed_def mag_frame_def rect_on_screen_def split: if_splits prod.splits sum.splits)

definition demo_mag_env :: mag_env where
  "demo_mag_env = \<lparr>me_screen = (0, 0, 100, 50), me_lib = \<lparr>ml_library = True, ml_functions = [True, True, True, True, True], ml_init = True\<rparr>,
     me_module = True, me_class = ClassExists, me_host = True, me_magnifier = True, me_callback = True\<rparr>"

definition demo_mag_frame :: mag_frame_env where
  "demo_mag_frame = \<lparr>mf_screen = (0, 0, 100, 50), mf_position = True, mf_source = True, mf_images = [(False, [1]), (True, [2, 3])]\<rparr>"

lemmas demo_mag = demo_mag_env_def demo_mag_frame_def new_mag_def new_mag_interface_def inside_screen_def usize_def
  usize_of_i32_def mag_functions_def Let_def mag_frame_def rect_on_screen_def clear_data_def scaling_callback_def

lemma demo_new_mag:
  "fst (new_mag demo_mag_env (x, 0) 50 50) = Inr \<lparr>mc_interface = \<lparr>mi_init_succeeded = True, mi_library = True\<rparr>,
     mc_host = True, mc_magnifier = True, mc_rect = \<lparr>r_left = x, r_top = 0, r_right = x + 50, r_bottom = 50\<rparr>,
     mc_w = 50, mc_h = 50\<rparr>" if "0 \<le> sint x"
  using that by (simp add: demo_mag)

theorem mag_library_kept_witness:
  "snd (new_mag_interface \<lparr>ml_library = True, ml_functions = [True, True, True, True, True], ml_init = False\<rparr>) = ([MagLibrary], [])"
  by (rule mag_library_kept [of _ "''Failed to MagInitialize''"]) (simp_all add: demo_mag)

theorem mag_frame_fresh_witness:
  "last (mf_images demo_mag_frame) = (True, [2, 3])"
proof -
  obtain c where c: "fst (new_mag demo_mag_env (0, 0) 50 50) = Inr c" using demo_new_mag [of 0] by simp
  then have "mc_rect c = \<lparr>r_left = 0, r_top = 0, r_right = 50, r_bottom = 50\<rparr>" using demo_new_mag [of 0] by auto
  then have "mag_frame demo_mag_frame c (True, [9]) = (MagOk [2, 3], (True, [2, 3]))"
    by (simp add: demo_mag_frame_def mag_frame_def rect_on_screen_def clear_data_def
        scaling_callback_def Let_def)
  from mag_frame_fresh [OF this] show ?thesis by simp
qed

theorem mag_accepted_never_captured_witness:
  "\<exists>c. fst (new_mag demo_mag_env (60, 0) 50 50) = Inr c \<and> fst (mag_frame demo_mag_frame c (False, [])) = MagErr ''Failed Check screen rect''"
proof -
  obtain c where c: "fst (new_mag demo_mag_env (60, 0) 50 50) = Inr c" using demo_new_mag [of 60] by simp
  from mag_accepted_never_captured [OF this, of 0 0 100 50 demo_mag_frame] c show ?thesis
    by (auto simp: demo_mag_env_def demo_mag_frame_def)
qed

end
