(* ===== verification/Keys.thy ===== *)
theory Keys
  imports PeerConfig
begin

text \<open>
  The names of the options, module \<open>keys\<close> of \<open>libs/hbb_common/src/config.rs\<close>, with the four classes they are
  put into, the fields of a peer's configuration that take their defaults from them, and the options that
  only a build can set.
\<close>

section \<open>Names\<close>

definition OPTION_VIEW_ONLY :: string where "OPTION_VIEW_ONLY = ''view_only''"
definition OPTION_SHOW_MONITORS_TOOLBAR :: string where "OPTION_SHOW_MONITORS_TOOLBAR = ''show_monitors_toolbar''"
definition OPTION_COLLAPSE_TOOLBAR :: string where "OPTION_COLLAPSE_TOOLBAR = ''collapse_toolbar''"
definition OPTION_SHOW_REMOTE_CURSOR :: string where "OPTION_SHOW_REMOTE_CURSOR = ''show_remote_cursor''"
definition OPTION_FOLLOW_REMOTE_CURSOR :: string where "OPTION_FOLLOW_REMOTE_CURSOR = ''follow_remote_cursor''"
definition OPTION_FOLLOW_REMOTE_WINDOW :: string where "OPTION_FOLLOW_REMOTE_WINDOW = ''follow_remote_window''"
definition OPTION_ZOOM_CURSOR :: string where "OPTION_ZOOM_CURSOR = ''zoom-cursor''"
definition OPTION_SHOW_QUALITY_MONITOR :: string where "OPTION_SHOW_QUALITY_MONITOR = ''show_quality_monitor''"
definition OPTION_DISABLE_AUDIO :: string where "OPTION_DISABLE_AUDIO = ''disable_audio''"
definition OPTION_ENABLE_FILE_COPY_PASTE :: string where "OPTION_ENABLE_FILE_COPY_PASTE = ''enable-file-copy-paste''"
definition OPTION_DISABLE_CLIPBOARD :: string where "OPTION_DISABLE_CLIPBOARD = ''disable_clipboard''"
definition OPTION_LOCK_AFTER_SESSION_END :: string where "OPTION_LOCK_AFTER_SESSION_END = ''lock_after_session_end''"
definition OPTION_PRIVACY_MODE :: string where "OPTION_PRIVACY_MODE = ''privacy_mode''"
definition OPTION_TOUCH_MODE :: string where "OPTION_TOUCH_MODE = ''touch-mode''"
definition OPTION_I444 :: string where "OPTION_I444 = ''i444''"
definition OPTION_REVERSE_MOUSE_WHEEL :: string where "OPTION_REVERSE_MOUSE_WHEEL = ''reverse_mouse_wheel''"
definition OPTION_SWAP_LEFT_RIGHT_MOUSE :: string where "OPTION_SWAP_LEFT_RIGHT_MOUSE = ''swap-left-right-mouse''"
definition OPTION_DISPLAYS_AS_INDIVIDUAL_WINDOWS :: string where "OPTION_DISPLAYS_AS_INDIVIDUAL_WINDOWS = ''displays_as_individual_windows''"
definition OPTION_USE_ALL_MY_DISPLAYS_FOR_THE_REMOTE_SESSION :: string where "OPTION_USE_ALL_MY_DISPLAYS_FOR_THE_REMOTE_SESSION = ''use_all_my_displays_for_the_remote_session''"
definition OPTION_VIEW_STYLE :: string where "OPTION_VIEW_STYLE = ''view_style''"
definition OPTION_SCROLL_STYLE :: string where "OPTION_SCROLL_STYLE = ''scroll_style''"
definition OPTION_IMAGE_QUALITY :: string where "OPTION_IMAGE_QUALITY = ''image_quality''"
definition OPTION_CUSTOM_IMAGE_QUALITY :: string where "OPTION_CUSTOM_IMAGE_QUALITY = ''custom_image_quality''"
definition OPTION_CUSTOM_FPS :: string where "OPTION_CUSTOM_FPS = ''custom-fps''"
definition OPTION_CODEC_PREFERENCE :: string where "OPTION_CODEC_PREFERENCE = ''codec-preference''"
definition OPTION_SYNC_INIT_CLIPBOARD :: string where "OPTION_SYNC_INIT_CLIPBOARD = ''sync-init-clipboard''"
definition OPTION_THEME :: string where "OPTION_THEME = ''theme''"
definition OPTION_LANGUAGE :: string where "OPTION_LANGUAGE = ''lang''"
definition OPTION_REMOTE_MENUBAR_DRAG_LEFT :: string where "OPTION_REMOTE_MENUBAR_DRAG_LEFT = ''remote-menubar-drag-left''"
definition OPTION_REMOTE_MENUBAR_DRAG_RIGHT :: string where "OPTION_REMOTE_MENUBAR_DRAG_RIGHT = ''remote-menubar-drag-right''"
definition OPTION_HIDE_AB_TAGS_PANEL :: string where "OPTION_HIDE_AB_TAGS_PANEL = ''hideAbTagsPanel''"
definition OPTION_ENABLE_CONFIRM_CLOSING_TABS :: string where "OPTION_ENABLE_CONFIRM_CLOSING_TABS = ''enable-confirm-closing-tabs''"
definition OPTION_ENABLE_OPEN_NEW_CONNECTIONS_IN_TABS :: string where "OPTION_ENABLE_OPEN_NEW_CONNECTIONS_IN_TABS = ''enable-open-new-connections-in-tabs''"
definition OPTION_TEXTURE_RENDER :: string where "OPTION_TEXTURE_RENDER = ''use-texture-render''"
definition OPTION_ENABLE_CHECK_UPDATE :: string where "OPTION_ENABLE_CHECK_UPDATE = ''enable-check-update''"
definition OPTION_SYNC_AB_WITH_RECENT_SESSIONS :: string where "OPTION_SYNC_AB_WITH_RECENT_SESSIONS = ''sync-ab-with-recent-sessions''"
definition OPTION_SYNC_AB_TAGS :: string where "OPTION_SYNC_AB_TAGS = ''sync-ab-tags''"
definition OPTION_FILTER_AB_BY_INTERSECTION :: string where "OPTION_FILTER_AB_BY_INTERSECTION = ''filter-ab-by-intersection''"
definition OPTION_ACCESS_MODE :: string where "OPTION_ACCESS_MODE = ''access-mode''"
definition OPTION_ENABLE_KEYBOARD :: string where "OPTION_ENABLE_KEYBOARD = ''enable-keyboard''"
definition OPTION_ENABLE_CLIPBOARD :: string where "OPTION_ENABLE_CLIPBOARD = ''enable-clipboard''"
definition OPTION_ENABLE_FILE_TRANSFER :: string where "OPTION_ENABLE_FILE_TRANSFER = ''enable-file-transfer''"
definition OPTION_ENABLE_AUDIO :: string where "OPTION_ENABLE_AUDIO = ''enable-audio''"
definition OPTION_ENABLE_TUNNEL :: string where "OPTION_ENABLE_TUNNEL = ''enable-tunnel''"
definition OPTION_ENABLE_REMOTE_RESTART :: string where "OPTION_ENABLE_REMOTE_RESTART = ''enable-remote-restart''"
definition OPTION_ENABLE_RECORD_SESSION :: string where "OPTION_ENABLE_RECORD_SESSION = ''enable-record-session''"
definition OPTION_ENABLE_BLOCK_INPUT :: string where "OPTION_ENABLE_BLOCK_INPUT = ''enable-block-input''"
definition OPTION_ALLOW_REMOTE_CONFIG_MODIFICATION :: string where "OPTION_ALLOW_REMOTE_CONFIG_MODIFICATION = ''allow-remote-config-modification''"
definition OPTION_ENABLE_LAN_DISCOVERY :: string where "OPTION_ENABLE_LAN_DISCOVERY = ''enable-lan-discovery''"
definition OPTION_DIRECT_SERVER :: string where "OPTION_DIRECT_SERVER = ''direct-server''"
definition OPTION_DIRECT_ACCESS_PORT :: string where "OPTION_DIRECT_ACCESS_PORT = ''direct-access-port''"
definition OPTION_WHITELIST :: string where "OPTION_WHITELIST = ''whitelist''"
definition OPTION_ALLOW_AUTO_DISCONNECT :: string where "OPTION_ALLOW_AUTO_DISCONNECT = ''allow-auto-disconnect''"
definition OPTION_AUTO_DISCONNECT_TIMEOUT :: string where "OPTION_AUTO_DISCONNECT_TIMEOUT = ''auto-disconnect-timeout''"
definition OPTION_ALLOW_ONLY_CONN_WINDOW_OPEN :: string where "OPTION_ALLOW_ONLY_CONN_WINDOW_OPEN = ''allow-only-conn-window-open''"
definition OPTION_ALLOW_AUTO_RECORD_INCOMING :: string where "OPTION_ALLOW_AUTO_RECORD_INCOMING = ''allow-auto-record-incoming''"
definition OPTION_ALLOW_AUTO_RECORD_OUTGOING :: string where "OPTION_ALLOW_AUTO_RECORD_OUTGOING = ''allow-auto-record-outgoing''"
definition OPTION_VIDEO_SAVE_DIRECTORY :: string where "OPTION_VIDEO_SAVE_DIRECTORY = ''video-save-directory''"
definition OPTION_ENABLE_ABR :: string where "OPTION_ENABLE_ABR = ''enable-abr''"
definition OPTION_ALLOW_REMOVE_WALLPAPER :: string where "OPTION_ALLOW_REMOVE_WALLPAPER = ''allow-remove-wallpaper''"
definition OPTION_ALLOW_ALWAYS_SOFTWARE_RENDER :: string where "OPTION_ALLOW_ALWAYS_SOFTWARE_RENDER = ''allow-always-software-render''"
definition OPTION_ALLOW_LINUX_HEADLESS :: string where "OPTION_ALLOW_LINUX_HEADLESS = ''allow-linux-headless''"
definition OPTION_ENABLE_HWCODEC :: string where "OPTION_ENABLE_HWCODEC = ''enable-hwcodec''"
definition OPTION_APPROVE_MODE :: string where "OPTION_APPROVE_MODE = ''approve-mode''"
definition OPTION_VERIFICATION_METHOD :: string where "OPTION_VERIFICATION_METHOD = ''verification-method''"
definition OPTION_CUSTOM_RENDEZVOUS_SERVER :: string where "OPTION_CUSTOM_RENDEZVOUS_SERVER = ''custom-rendezvous-server''"
definition OPTION_API_SERVER :: string where "OPTION_API_SERVER = ''api-server''"
definition OPTION_KEY :: string where "OPTION_KEY = ''key''"
definition OPTION_PRESET_ADDRESS_BOOK_NAME :: string where "OPTION_PRESET_ADDRESS_BOOK_NAME = ''preset-address-book-name''"
definition OPTION_PRESET_ADDRESS_BOOK_TAG :: string where "OPTION_PRESET_ADDRESS_BOOK_TAG = ''preset-address-book-tag''"
definition OPTION_ENABLE_DIRECTX_CAPTURE :: string where "OPTION_ENABLE_DIRECTX_CAPTURE = ''enable-directx-capture''"
definition OPTION_ENABLE_ANDROID_SOFTWARE_ENCODING_HALF_SCALE :: string where "OPTION_ENABLE_ANDROID_SOFTWARE_ENCODING_HALF_SCALE = ''enable-android-software-encoding-half-scale''"
definition OPTION_ENABLE_TRUSTED_DEVICES :: string where "OPTION_ENABLE_TRUSTED_DEVICES = ''enable-trusted-devices''"
definition OPTION_AV1_TEST :: string where "OPTION_AV1_TEST = ''av1-test''"
definition OPTION_DISPLAY_NAME :: string where "OPTION_DISPLAY_NAME = ''display-name''"
definition OPTION_DISABLE_UDP :: string where "OPTION_DISABLE_UDP = ''disable-udp''"
definition OPTION_PRESET_USERNAME :: string where "OPTION_PRESET_USERNAME = ''preset-user-name''"
definition OPTION_PRESET_STRATEGY_NAME :: string where "OPTION_PRESET_STRATEGY_NAME = ''preset-strategy-name''"
definition OPTION_REMOVE_PRESET_PASSWORD_WARNING :: string where "OPTION_REMOVE_PRESET_PASSWORD_WARNING = ''remove-preset-password-warning''"
definition OPTION_HIDE_SECURITY_SETTINGS :: string where "OPTION_HIDE_SECURITY_SETTINGS = ''hide-security-settings''"
definition OPTION_HIDE_NETWORK_SETTINGS :: string where "OPTION_HIDE_NETWORK_SETTINGS = ''hide-network-settings''"
definition OPTION_HIDE_SERVER_SETTINGS :: string where "OPTION_HIDE_SERVER_SETTINGS = ''hide-server-settings''"
definition OPTION_HIDE_PROXY_SETTINGS :: string where "OPTION_HIDE_PROXY_SETTINGS = ''hide-proxy-settings''"
definition OPTION_HIDE_USERNAME_ON_CARD :: string where "OPTION_HIDE_USERNAME_ON_CARD = ''hide-username-on-card''"
definition OPTION_HIDE_HELP_CARDS :: string where "OPTION_HIDE_HELP_CARDS = ''hide-help-cards''"
definition OPTION_DEFAULT_CONNECT_PASSWORD :: string where "OPTION_DEFAULT_CONNECT_PASSWORD = ''default-connect-password''"
definition OPTION_HIDE_TRAY :: string where "OPTION_HIDE_TRAY = ''hide-tray''"
definition OPTION_ONE_WAY_CLIPBOARD_REDIRECTION :: string where "OPTION_ONE_WAY_CLIPBOARD_REDIRECTION = ''one-way-clipboard-redirection''"
definition OPTION_ALLOW_LOGON_SCREEN_PASSWORD :: string where "OPTION_ALLOW_LOGON_SCREEN_PASSWORD = ''allow-logon-screen-password''"
definition OPTION_ONE_WAY_FILE_TRANSFER :: string where "OPTION_ONE_WAY_FILE_TRANSFER = ''one-way-file-transfer''"
definition OPTION_FLUTTER_REMOTE_MENUBAR_STATE :: string where "OPTION_FLUTTER_REMOTE_MENUBAR_STATE = ''remoteMenubarState''"
definition OPTION_FLUTTER_PEER_SORTING :: string where "OPTION_FLUTTER_PEER_SORTING = ''peer-sorting''"
definition OPTION_FLUTTER_PEER_TAB_INDEX :: string where "OPTION_FLUTTER_PEER_TAB_INDEX = ''peer-tab-index''"
definition OPTION_FLUTTER_PEER_TAB_ORDER :: string where "OPTION_FLUTTER_PEER_TAB_ORDER = ''peer-tab-order''"
definition OPTION_FLUTTER_PEER_TAB_VISIBLE :: string where "OPTION_FLUTTER_PEER_TAB_VISIBLE = ''peer-tab-visible''"
definition OPTION_FLUTTER_PEER_CARD_UI_TYLE :: string where "OPTION_FLUTTER_PEER_CARD_UI_TYLE = ''peer-card-ui-type''"
definition OPTION_FLUTTER_CURRENT_AB_NAME :: string where "OPTION_FLUTTER_CURRENT_AB_NAME = ''current-ab-name''"
definition OPTION_ALLOW_REMOTE_CM_MODIFICATION :: string where "OPTION_ALLOW_REMOTE_CM_MODIFICATION = ''allow-remote-cm-modification''"
definition OPTION_DISABLE_FLOATING_WINDOW :: string where "OPTION_DISABLE_FLOATING_WINDOW = ''disable-floating-window''"
definition OPTION_FLOATING_WINDOW_SIZE :: string where "OPTION_FLOATING_WINDOW_SIZE = ''floating-window-size''"
definition OPTION_FLOATING_WINDOW_UNTOUCHABLE :: string where "OPTION_FLOATING_WINDOW_UNTOUCHABLE = ''floating-window-untouchable''"
definition OPTION_FLOATING_WINDOW_TRANSPARENCY :: string where "OPTION_FLOATING_WINDOW_TRANSPARENCY = ''floating-window-transparency''"
definition OPTION_FLOATING_WINDOW_SVG :: string where "OPTION_FLOATING_WINDOW_SVG = ''floating-window-svg''"
definition OPTION_KEEP_SCREEN_ON :: string where "OPTION_KEEP_SCREEN_ON = ''keep-screen-on''"
definition OPTION_DISABLE_GROUP_PANEL :: string where "OPTION_DISABLE_GROUP_PANEL = ''disable-group-panel''"
definition OPTION_PRE_ELEVATE_SERVICE :: string where "OPTION_PRE_ELEVATE_SERVICE = ''pre-elevate-service''"
definition OPTION_PROXY_URL :: string where "OPTION_PROXY_URL = ''proxy-url''"
definition OPTION_PROXY_USERNAME :: string where "OPTION_PROXY_USERNAME = ''proxy-username''"
definition OPTION_PROXY_PASSWORD :: string where "OPTION_PROXY_PASSWORD = ''proxy-password''"

section \<open>Classes\<close>

definition KEYS_DISPLAY_SETTINGS :: "string list" where
  "KEYS_DISPLAY_SETTINGS =
    [OPTION_VIEW_ONLY, OPTION_SHOW_MONITORS_TOOLBAR, OPTION_COLLAPSE_TOOLBAR,
     OPTION_SHOW_REMOTE_CURSOR, OPTION_FOLLOW_REMOTE_CURSOR, OPTION_FOLLOW_REMOTE_WINDOW,
     OPTION_ZOOM_CURSOR, OPTION_SHOW_QUALITY_MONITOR, OPTION_DISABLE_AUDIO,
     OPTION_ENABLE_FILE_COPY_PASTE, OPTION_DISABLE_CLIPBOARD, OPTION_LOCK_AFTER_SESSION_END,
     OPTION_PRIVACY_MODE, OPTION_TOUCH_MODE, OPTION_I444, OPTION_REVERSE_MOUSE_WHEEL,
     OPTION_SWAP_LEFT_RIGHT_MOUSE, OPTION_DISPLAYS_AS_INDIVIDUAL_WINDOWS,
     OPTION_USE_ALL_MY_DISPLAYS_FOR_THE_REMOTE_SESSION, OPTION_VIEW_STYLE, OPTION_SCROLL_STYLE,
     OPTION_IMAGE_QUALITY, OPTION_CUSTOM_IMAGE_QUALITY, OPTION_CUSTOM_FPS, OPTION_CODEC_PREFERENCE,
     OPTION_SYNC_INIT_CLIPBOARD]"

definition KEYS_LOCAL_SETTINGS :: "string list" where
  "KEYS_LOCAL_SETTINGS =
    [OPTION_THEME, OPTION_LANGUAGE, OPTION_ENABLE_CONFIRM_CLOSING_TABS,
     OPTION_ENABLE_OPEN_NEW_CONNECTIONS_IN_TABS, OPTION_TEXTURE_RENDER,
     OPTION_SYNC_AB_WITH_RECENT_SESSIONS, OPTION_SYNC_AB_TAGS, OPTION_FILTER_AB_BY_INTERSECTION,
     OPTION_REMOTE_MENUBAR_DRAG_LEFT, OPTION_REMOTE_MENUBAR_DRAG_RIGHT, OPTION_HIDE_AB_TAGS_PANEL,
     OPTION_FLUTTER_REMOTE_MENUBAR_STATE, OPTION_FLUTTER_PEER_SORTING, OPTION_FLUTTER_PEER_TAB_INDEX,
     OPTION_FLUTTER_PEER_TAB_ORDER, OPTION_FLUTTER_PEER_TAB_VISIBLE, OPTION_FLUTTER_PEER_CARD_UI_TYLE,
     OPTION_FLUTTER_CURRENT_AB_NAME, OPTION_DISABLE_FLOATING_WINDOW, OPTION_FLOATING_WINDOW_SIZE,
     OPTION_FLOATING_WINDOW_UNTOUCHABLE, OPTION_FLOATING_WINDOW_TRANSPARENCY,
     OPTION_FLOATING_WINDOW_SVG, OPTION_KEEP_SCREEN_ON, OPTION_DISABLE_GROUP_PANEL,
     OPTION_PRE_ELEVATE_SERVICE, OPTION_ALLOW_REMOTE_CM_MODIFICATION,
     OPTION_ALLOW_AUTO_RECORD_OUTGOING, OPTION_VIDEO_SAVE_DIRECTORY]"

definition KEYS_SETTINGS :: "string list" where
  "KEYS_SETTINGS =
    [OPTION_ACCESS_MODE, OPTION_ENABLE_KEYBOARD, OPTION_ENABLE_CLIPBOARD, OPTION_ENABLE_FILE_TRANSFER,
     OPTION_ENABLE_AUDIO, OPTION_ENABLE_TUNNEL, OPTION_ENABLE_REMOTE_RESTART,
     OPTION_ENABLE_RECORD_SESSION, OPTION_ENABLE_BLOCK_INPUT, OPTION_ALLOW_REMOTE_CONFIG_MODIFICATION,
     OPTION_ENABLE_LAN_DISCOVERY, OPTION_DIRECT_SERVER, OPTION_DIRECT_ACCESS_PORT, OPTION_WHITELIST,
     OPTION_ALLOW_AUTO_DISCONNECT, OPTION_AUTO_DISCONNECT_TIMEOUT, OPTION_ALLOW_ONLY_CONN_WINDOW_OPEN,
     OPTION_ALLOW_AUTO_RECORD_INCOMING, OPTION_ENABLE_ABR, OPTION_ALLOW_REMOVE_WALLPAPER,
     OPTION_ALLOW_ALWAYS_SOFTWARE_RENDER, OPTION_ALLOW_LINUX_HEADLESS, OPTION_ENABLE_HWCODEC,
     OPTION_APPROVE_MODE, OPTION_VERIFICATION_METHOD, OPTION_PROXY_URL, OPTION_PROXY_USERNAME,
     OPTION_PROXY_PASSWORD, OPTION_CUSTOM_RENDEZVOUS_SERVER, OPTION_API_SERVER, OPTION_KEY,
     OPTION_PRESET_ADDRESS_BOOK_NAME, OPTION_PRESET_ADDRESS_BOOK_TAG, OPTION_ENABLE_DIRECTX_CAPTURE,
     OPTION_ENABLE_ANDROID_SOFTWARE_ENCODING_HALF_SCALE, OPTION_ENABLE_TRUSTED_DEVICES]"

definition KEYS_BUILDIN_SETTINGS :: "string list" where
  "KEYS_BUILDIN_SETTINGS =
    [OPTION_DISPLAY_NAME, OPTION_DISABLE_UDP, OPTION_PRESET_USERNAME, OPTION_PRESET_STRATEGY_NAME,
     OPTION_REMOVE_PRESET_PASSWORD_WARNING, OPTION_HIDE_SECURITY_SETTINGS,
     OPTION_HIDE_NETWORK_SETTINGS, OPTION_HIDE_SERVER_SETTINGS, OPTION_HIDE_PROXY_SETTINGS,
     OPTION_HIDE_USERNAME_ON_CARD, OPTION_HIDE_HELP_CARDS, OPTION_DEFAULT_CONNECT_PASSWORD,
     OPTION_HIDE_TRAY, OPTION_ONE_WAY_CLIPBOARD_REDIRECTION, OPTION_ALLOW_LOGON_SCREEN_PASSWORD,
     OPTION_ONE_WAY_FILE_TRANSFER]"

section \<open>Fields of a peer's configuration\<close>

text \<open>
  The keys behind the fields that \<open>serde_field_bool!\<close> and \<open>serde_field_string!\<close> make: a field that is not in
  the file has the default that \<open>default_bool_field\<close> or \<open>deserialize_string_field\<close> reads there.
\<close>

definition default_show_remote_cursor :: "fmt \<Rightarrow> world \<Rightarrow> bool" where
  "default_show_remote_cursor F w = default_bool_field F w ''show_remote_cursor''"

definition default_follow_remote_cursor :: "fmt \<Rightarrow> world \<Rightarrow> bool" where
  "default_follow_remote_cursor F w = default_bool_field F w ''follow_remote_cursor''"

definition default_follow_remote_window :: "fmt \<Rightarrow> world \<Rightarrow> bool" where
  "default_follow_remote_window F w = default_bool_field F w ''follow_remote_window''"

definition default_show_quality_monitor :: "fmt \<Rightarrow> world \<Rightarrow> bool" where
  "default_show_quality_monitor F w = default_bool_field F w ''show_quality_monitor''"

definition default_disable_audio :: "fmt \<Rightarrow> world \<Rightarrow> bool" where
  "default_disable_audio F w = default_bool_field F w ''disable_audio''"

definition default_enable_file_copy_paste :: "fmt \<Rightarrow> world \<Rightarrow> bool" where
  "default_enable_file_copy_paste F w = default_bool_field F w ''enable-file-copy-paste''"

definition default_disable_clipboard :: "fmt \<Rightarrow> world \<Rightarrow> bool" where
  "default_disable_clipboard F w = default_bool_field F w ''disable_clipboard''"

definition default_lock_after_session_end :: "fmt \<Rightarrow> world \<Rightarrow> bool" where
  "default_lock_after_session_end F w = default_bool_field F w ''lock_after_session_end''"

definition default_privacy_mode :: "fmt \<Rightarrow> world \<Rightarrow> bool" where
  "default_privacy_mode F w = default_bool_field F w ''privacy_mode''"

definition default_allow_swap_key :: "fmt \<Rightarrow> world \<Rightarrow> bool" where
  "default_allow_swap_key F w = default_bool_field F w ''allow_swap_key''"

definition default_view_only :: "fmt \<Rightarrow> world \<Rightarrow> bool" where
  "default_view_only F w = default_bool_field F w ''view_only''"

definition default_sync_init_clipboard :: "fmt \<Rightarrow> world \<Rightarrow> bool" where
  "default_sync_init_clipboard F w = default_bool_field F w ''sync-init-clipboard''"

definition deserialize_view_style :: "fmt \<Rightarrow> world \<Rightarrow> string option \<Rightarrow> string" where
  "deserialize_view_style F w v = deserialize_string_field F w OPTION_VIEW_STYLE v"

definition deserialize_scroll_style :: "fmt \<Rightarrow> world \<Rightarrow> string option \<Rightarrow> string" where
  "deserialize_scroll_style F w v = deserialize_string_field F w OPTION_SCROLL_STYLE v"

definition deserialize_image_quality :: "fmt \<Rightarrow> world \<Rightarrow> string option \<Rightarrow> string" where
  "deserialize_image_quality F w v = deserialize_string_field F w OPTION_IMAGE_QUALITY v"

definition deserialize_reverse_mouse_wheel :: "fmt \<Rightarrow> world \<Rightarrow> string option \<Rightarrow> string" where
  "deserialize_reverse_mouse_wheel F w v = deserialize_string_field F w OPTION_REVERSE_MOUSE_WHEEL v"

definition deserialize_displays_as_individual_windows :: "fmt \<Rightarrow> world \<Rightarrow> string option \<Rightarrow> string" where
  "deserialize_displays_as_individual_windows F w v = deserialize_string_field F w OPTION_DISPLAYS_AS_INDIVIDUAL_WINDOWS v"

definition deserialize_use_all_my_displays_for_the_remote_session :: "fmt \<Rightarrow> world \<Rightarrow> string option \<Rightarrow> string" where
  "deserialize_use_all_my_displays_for_the_remote_session F w v = deserialize_string_field F w OPTION_USE_ALL_MY_DISPLAYS_FOR_THE_REMOTE_SESSION v"

definition bool_field_keys :: "string list" where
  "bool_field_keys =
    [''show_remote_cursor'', ''follow_remote_cursor'', ''follow_remote_window'',
     ''show_quality_monitor'', ''disable_audio'', ''enable-file-copy-paste'', ''disable_clipboard'',
     ''lock_after_session_end'', ''privacy_mode'', ''allow_swap_key'', ''view_only'',
     ''sync-init-clipboard'']"

section \<open>Options of a build\<close>

definition is_disable_tcp_listen :: "world \<Rightarrow> bool" where
  "is_disable_tcp_listen w = is_some_hard_opton w ''disable-tcp-listen''"

definition is_disable_settings :: "world \<Rightarrow> bool" where
  "is_disable_settings w = is_some_hard_opton w ''disable-settings''"

definition is_disable_ab :: "world \<Rightarrow> bool" where
  "is_disable_ab w = is_some_hard_opton w ''disable-ab''"

definition is_disable_account :: "world \<Rightarrow> bool" where
  "is_disable_account w = is_some_hard_opton w ''disable-account''"

definition is_disable_installation :: "world \<Rightarrow> bool" where
  "is_disable_installation w = is_some_hard_opton w ''disable-installation''"

section \<open>Properties\<close>

definition other_defaults :: "string list" where
  "other_defaults = [''view_style'', ''scroll_style'', ''image_quality'', ''codec-preference'', ''custom_image_quality'',
     ''custom-fps'', ''enable-file-copy-paste'']"

lemma plain_option: "get_after w c key = Some v \<Longrightarrow> key \<notin> set other_defaults \<Longrightarrow> user_default_get F w c key = v"
  by (simp add: user_default_get_def other_defaults_def or_default_def)

lemma file_copy_paste: "get_after w c ''enable-file-copy-paste'' = Some v \<Longrightarrow> v = ''Y'' \<or> v = ''N'' \<Longrightarrow>
    user_default_get F w c ''enable-file-copy-paste'' = v"
  by (auto simp: user_default_get_def get_string_def)

lemma flags_plain: "list_all (\<lambda>k. k \<notin> set other_defaults \<or> k = ''enable-file-copy-paste'') bool_field_keys"
  by (simp add: bool_field_keys_def other_defaults_def)

lemma refresh_settings: "w_settings (user_default_refresh w) = w_settings w"
  by (simp add: user_default_refresh_def)

text \<open>
  Every flag of a new peer has the value that the build fixes for its display option, whatever the user chose
  and whatever is stored.
\<close>

theorem fixed_flag_wins:
  assumes "key \<in> set bool_field_keys" "overwrite_display_settings (w_settings w) key = Some v" "v = ''Y'' \<or> v = ''N''"
  shows "default_bool_field F w key \<longleftrightarrow> v = ''Y''"
proof -
  have "get_after (user_default_refresh w) c key = Some v" for c
    unfolding get_after_def refresh_settings by (rule get_or_overwrite) (rule assms(2))
  moreover have "key \<notin> set other_defaults \<or> key = ''enable-file-copy-paste''"
    using flags_plain assms(1) by (auto simp: list_all_iff)
  ultimately have "fst (user_default_read F key w) = v"
    using assms(3) plain_option file_copy_paste by (auto simp: user_default_read_def Let_def)
  then show ?thesis by (simp add: default_bool_field_def)
qed

theorem fixed_flag_wins_witness:
  "default_bool_field demo_fmt (demo_world\<lparr>w_settings := no_settings\<lparr>overwrite_display_settings := [''view_only'' \<mapsto> ''Y'']\<rparr>\<rparr>)
     ''view_only''"
  using fixed_flag_wins [of "''view_only''" "demo_world\<lparr>w_settings := no_settings\<lparr>overwrite_display_settings := [''view_only'' \<mapsto> ''Y'']\<rparr>\<rparr>" "''Y''" demo_fmt]
  by (simp add: bool_field_keys_def)

end
