(* ===== verification/Android.thy ===== *)
theory Android
  imports PipeWire
begin

text \<open>
  The Android side: frames and calls that cross the Java interface in \<open>libs/scrap/src/android/ffi.rs\<close>, the
  capturer and display of \<open>common/android.rs\<close>, and the decoder of \<open>common/mediacodec.rs\<close>. The Java objects, the
  clock and what Java answers are arguments.
\<close>

section \<open>Frames handed over by Java\<close>

text \<open>
  \<open>FrameRaw\<close>: the buffer of Java that \<open>ptr\<close> and \<open>len\<close> describe, none when it is null; times are in
  milliseconds.
\<close>

record frame_raw =
  fr_ptr :: "bytes option"
  fr_len :: nat
  fr_last_update :: int
  fr_timeout :: int
  fr_enable :: bool

definition new_frame_raw :: "int \<Rightarrow> int \<Rightarrow> frame_raw" where
  "new_frame_raw timeout now = \<lparr>fr_ptr = None, fr_len = 0, fr_last_update = now, fr_timeout = timeout, fr_enable = False\<rparr>"

definition MAX_VIDEO_FRAME_TIMEOUT :: int where
  "MAX_VIDEO_FRAME_TIMEOUT = 100"

definition MAX_AUDIO_FRAME_TIMEOUT :: int where
  "MAX_AUDIO_FRAME_TIMEOUT = 1000"

definition fr_release :: "frame_raw \<Rightarrow> frame_raw" where
  "fr_release f = f\<lparr>fr_len := 0, fr_ptr := None\<rparr>"

definition fr_set_enable :: "bool \<Rightarrow> frame_raw \<Rightarrow> frame_raw" where
  "fr_set_enable b f = f\<lparr>fr_enable := b, fr_ptr := None, fr_len := 0\<rparr>"

definition fr_update :: "bytes \<Rightarrow> int \<Rightarrow> frame_raw \<Rightarrow> frame_raw" where
  "fr_update d now f = (if \<not> fr_enable f then f else f\<lparr>fr_len := length d, fr_ptr := Some d, fr_last_update := now\<rparr>)"

text \<open>\<open>take\<close>: the new content of \<open>dst\<close> when there is a frame, and the last frame as it is remembered.\<close>

definition fr_take :: "int \<Rightarrow> bytes \<Rightarrow> frame_raw \<Rightarrow> bytes option \<times> bytes \<times> frame_raw" where
  "fr_take now last_frame f =
    (if \<not> fr_enable f then (None, last_frame, f)
     else
       case fr_ptr f of
         None \<Rightarrow> (None, last_frame, f)
       | Some buf \<Rightarrow>
           if fr_len f = 0 then (None, last_frame, f)
           else if now - fr_last_update f > fr_timeout f then (None, last_frame, f)
           else
             let slice = take (fr_len f) buf; f = fr_release f in
             if length last_frame = length slice then
               (case would_block_if_equal last_frame slice of
                  (True, l) \<Rightarrow> (None, l, f)
                | (False, l) \<Rightarrow> (Some slice, l, f))
             else (Some slice, last_frame, f))"

section \<open>The interface\<close>

text \<open>
  The globals: the virtual machine, the service and the clipboard manager as numbers of Java objects; the frames;
  the clipboards of type \<open>'c\<close> that wait for either side; the codecs; and the context of the NDK with the calls
  that set it up.
\<close>

datatype ndk_call = NdkInitialize nat nat | NdkRelease

record 'c android_state =
  as_jvm :: "nat option"
  as_service :: "nat option"
  as_clipboard_manager :: "nat option"
  as_video :: frame_raw
  as_audio :: frame_raw
  as_client_clip :: "'c option"
  as_host_clip :: "'c option"
  as_codecs :: "android_infos option"
  as_ndk :: bool
  as_ndk_calls :: "ndk_call list"

text \<open>A direct buffer of Java: none if its address or capacity cannot be had.\<close>

definition on_video_frame_update :: "bytes option \<Rightarrow> int \<Rightarrow> 'c android_state \<Rightarrow> 'c android_state" where
  "on_video_frame_update buffer now s =
    (case buffer of None \<Rightarrow> s | Some d \<Rightarrow> s\<lparr>as_video := fr_update d now (as_video s)\<rparr>)"

definition on_audio_frame_update :: "bytes option \<Rightarrow> int \<Rightarrow> 'c android_state \<Rightarrow> 'c android_state" where
  "on_audio_frame_update buffer now s =
    (case buffer of None \<Rightarrow> s | Some d \<Rightarrow> s\<lparr>as_audio := fr_update d now (as_audio s)\<rparr>)"

definition get_video_raw :: "int \<Rightarrow> bytes \<Rightarrow> 'c android_state \<Rightarrow> bytes option \<times> bytes \<times> 'c android_state" where
  "get_video_raw now last_frame s =
    (case fr_take now last_frame (as_video s) of (r, l, f) \<Rightarrow> (r, l, s\<lparr>as_video := f\<rparr>))"

definition get_audio_raw :: "int \<Rightarrow> bytes \<Rightarrow> 'c android_state \<Rightarrow> bytes option \<times> bytes \<times> 'c android_state" where
  "get_audio_raw now last_frame s =
    (case fr_take now last_frame (as_audio s) of (r, l, f) \<Rightarrow> (r, l, s\<lparr>as_audio := f\<rparr>))"

definition set_frame_raw_enable :: "string option \<Rightarrow> nat \<Rightarrow> 'c android_state \<Rightarrow> 'c android_state" where
  "set_frame_raw_enable nm v s =
    (case nm of
       None \<Rightarrow> s
     | Some n \<Rightarrow>
         if n = ''video'' then s\<lparr>as_video := fr_set_enable (v = 1) (as_video s)\<rparr>
         else if n = ''audio'' then s\<lparr>as_audio := fr_set_enable (v = 1) (as_audio s)\<rparr>
         else s)"

text \<open>The first byte says for whom; \<open>None\<close> as the result is the panic on a buffer without bytes.\<close>

definition on_clipboard_update :: "(bytes \<Rightarrow> 'c option) \<Rightarrow> bytes option \<Rightarrow> 'c android_state \<Rightarrow> 'c android_state option" where
  "on_clipboard_update parse buffer s =
    (case buffer of
       None \<Rightarrow> Some s
     | Some [] \<Rightarrow> None
     | Some (b # d) \<Rightarrow>
         (case parse d of
            None \<Rightarrow> Some s
          | Some clips \<Rightarrow> Some (if b = 1 then s\<lparr>as_client_clip := Some clips\<rparr> else s\<lparr>as_host_clip := Some clips\<rparr>)))"

definition get_clipboards :: "bool \<Rightarrow> 'c android_state \<Rightarrow> 'c option \<times> 'c android_state" where
  "get_clipboards client s =
    (if client then (as_client_clip s, s\<lparr>as_client_clip := None\<rparr>) else (as_host_clip s, s\<lparr>as_host_clip := None\<rparr>))"

definition init_ndk_context :: "nat \<Rightarrow> nat \<Rightarrow> 'c android_state \<Rightarrow> 'c android_state" where
  "init_ndk_context vm ctx s =
    s\<lparr>as_ndk := True,
      as_ndk_calls := as_ndk_calls s @ (if as_ndk s then [NdkRelease] else []) @ [NdkInitialize vm ctx]\<rparr>"

text \<open>\<open>Java_ffi_FFI_init\<close>: the machine of the call if it can be had, and a global reference to the service.\<close>

definition ffi_init :: "nat option \<Rightarrow> nat option \<Rightarrow> 'c android_state \<Rightarrow> 'c android_state" where
  "ffi_init jvm ctx s =
    (case jvm of
       None \<Rightarrow> s
     | Some vm \<Rightarrow>
         let s = (if as_jvm s = None then s\<lparr>as_jvm := Some vm\<rparr> else s) in
         case ctx of
           None \<Rightarrow> s
         | Some c \<Rightarrow> init_ndk_context vm c (s\<lparr>as_service := Some c\<rparr>))"

definition set_clipboard_manager :: "nat option \<Rightarrow> nat option \<Rightarrow> 'c android_state \<Rightarrow> 'c android_state" where
  "set_clipboard_manager jvm manager s =
    (case jvm of
       None \<Rightarrow> s
     | Some vm \<Rightarrow>
         let s = (if as_jvm s = None then s\<lparr>as_jvm := Some vm\<rparr> else s) in
         case manager of None \<Rightarrow> s | Some m \<Rightarrow> s\<lparr>as_clipboard_manager := Some m\<rparr>)"

definition jni_on_load :: "bool \<Rightarrow> nat \<Rightarrow> nat \<Rightarrow> 'c android_state \<Rightarrow> 'c android_state" where
  "jni_on_load env vm res s = (if env then init_ndk_context vm res s else s)"

definition set_codec_info :: "(string \<Rightarrow> android_infos option) \<Rightarrow> string option \<Rightarrow> 'c android_state \<Rightarrow> 'c android_state" where
  "set_codec_info parse info s =
    (case Option.bind info parse of None \<Rightarrow> s | Some i \<Rightarrow> s\<lparr>as_codecs := Some i\<rparr>)"

definition get_codec_info :: "'c android_state \<Rightarrow> android_infos option" where
  "get_codec_info s = as_codecs s"

definition clear_codec_info :: "'c android_state \<Rightarrow> 'c android_state" where
  "clear_codec_info s = s\<lparr>as_codecs := None\<rparr>"

text \<open>
  A call of a method of Java on an object: its name, signature and arguments. \<open>JniThrow\<close> is the error for an
  object that was not set; every other error is Java's.
\<close>

datatype java_value = JInt int | JBool bool | JBytes bytes | JStr string

record java_call =
  jc_object :: nat
  jc_method :: string
  jc_signature :: string
  jc_args :: "java_value list"

datatype jni_error = JniThrow int | JniOther string

type_synonym 'r java = "java_call \<Rightarrow> jni_error + 'r"

definition on_object :: "nat option \<Rightarrow> nat option \<Rightarrow> (nat \<Rightarrow> jni_error + 'r) \<Rightarrow> jni_error + 'r" where
  "on_object jvm ob call =
    (case (jvm, ob) of (Some _, Some x) \<Rightarrow> call x | _ \<Rightarrow> Inl (JniThrow (- 1)))"

definition pointer_input :: "unit java \<Rightarrow> string \<Rightarrow> int \<Rightarrow> int \<Rightarrow> int \<Rightarrow> 'c android_state \<Rightarrow> jni_error + unit" where
  "pointer_input java kind m x y s =
    on_object (as_jvm s) (as_service s) (\<lambda>ctx. java \<lparr>jc_object = ctx, jc_method = ''rustPointerInput'',
      jc_signature = ''(IIII)V'', jc_args = [JInt (if kind = ''touch'' then 0 else 1), JInt m, JInt x, JInt y]\<rparr>)"

definition java_key_event :: "unit java \<Rightarrow> bytes \<Rightarrow> 'c android_state \<Rightarrow> jni_error + unit" where
  "java_key_event java d s =
    on_object (as_jvm s) (as_service s) (\<lambda>ctx. java \<lparr>jc_object = ctx, jc_method = ''rustKeyEventInput'',
      jc_signature = ''([B)V'', jc_args = [JBytes d]\<rparr>)"

definition call_clipboard_manager :: "unit java \<Rightarrow> string \<Rightarrow> string \<Rightarrow> java_value list \<Rightarrow> 'c android_state \<Rightarrow> jni_error + unit" where
  "call_clipboard_manager java nm sig args s =
    on_object (as_jvm s) (as_clipboard_manager s) (\<lambda>cm. java \<lparr>jc_object = cm, jc_method = nm, jc_signature = sig,
      jc_args = args\<rparr>)"

definition update_clipboard :: "unit java \<Rightarrow> bytes \<Rightarrow> 'c android_state \<Rightarrow> jni_error + unit" where
  "update_clipboard java d s =
    on_object (as_jvm s) (as_clipboard_manager s) (\<lambda>cm. java \<lparr>jc_object = cm, jc_method = ''rustUpdateClipboard'',
      jc_signature = ''([B)V'', jc_args = [JBytes d]\<rparr>)"

definition enable_client_clipboard :: "unit java \<Rightarrow> bool \<Rightarrow> 'c android_state \<Rightarrow> jni_error + unit" where
  "enable_client_clipboard java b s = call_clipboard_manager java ''rustEnableClientClipboard'' ''(Z)V'' [JBool b] s"

definition get_by_name :: "string java \<Rightarrow> string \<Rightarrow> 'c android_state \<Rightarrow> jni_error + string" where
  "get_by_name java nm s =
    on_object (as_jvm s) (as_service s) (\<lambda>ctx. java \<lparr>jc_object = ctx, jc_method = ''rustGetByName'',
      jc_signature = ''(Ljava/lang/String;)Ljava/lang/String;'', jc_args = [JStr nm]\<rparr>)"

definition set_by_name :: "unit java \<Rightarrow> string \<Rightarrow> string option \<Rightarrow> string option \<Rightarrow> 'c android_state \<Rightarrow> jni_error + unit" where
  "set_by_name java nm arg1 arg2 s =
    (let arg = (\<lambda>a. JStr (case a of Some x \<Rightarrow> x | None \<Rightarrow> [])) in
     on_object (as_jvm s) (as_service s) (\<lambda>ctx. java \<lparr>jc_object = ctx, jc_method = ''rustSetByName'',
      jc_signature = ''(Ljava/lang/String;Ljava/lang/String;Ljava/lang/String;)V'',
      jc_args = [JStr nm, arg arg1, arg arg2]\<rparr>))"

section \<open>The capturer and the display\<close>

text \<open>
  The screen as Java says it: a JSON object whose fields are integers, or something else (\<open>None\<close>); a number that
  is not an integer gives no size. Casts to \<open>u16\<close> cut off.
\<close>

type_synonym screen_json = "(string \<Rightarrow> int option) option"

definition get_size :: "(string \<Rightarrow> screen_json) \<Rightarrow> jni_error + string \<Rightarrow> (u16 \<times> u16 \<times> u16) option" where
  "get_size json res =
    (case res of
       Inl _ \<Rightarrow> None
     | Inr text \<Rightarrow>
         (case json text of
            None \<Rightarrow> None
          | Some m \<Rightarrow>
              (case (m ''width'', m ''height'', m ''scale'') of
                 (Some w, Some h, Some scale) \<Rightarrow> Some (word_of_int w, word_of_int h, word_of_int scale)
               | _ \<Rightarrow> None)))"

definition size_or_default :: "(u16 \<times> u16 \<times> u16) option \<Rightarrow> u16 \<times> u16 \<times> u16" where
  "size_or_default r = (case r of Some x \<Rightarrow> x | None \<Rightarrow> (0, 0, 0))"

text \<open>\<open>Display::primary\<close> and \<open>refresh_size\<close> over the global \<open>SCREEN_SIZE\<close>; the display is its width and height.\<close>

definition android_primary :: "(u16 \<times> u16 \<times> u16) option \<Rightarrow> u16 \<times> u16 \<times> u16 \<Rightarrow> (nat \<times> nat) \<times> (u16 \<times> u16 \<times> u16)" where
  "android_primary asked screen =
    (let screen = (if fst screen = 0 \<or> fst (snd screen) = 0 then size_or_default asked else screen)
     in ((unat (fst screen), unat (fst (snd screen))), screen))"

definition refresh_size :: "(u16 \<times> u16 \<times> u16) option \<Rightarrow> u16 \<times> u16 \<times> u16" where
  "refresh_size asked = size_or_default asked"

text \<open>A product of \<open>u16\<close>, as a release build makes it.\<close>

definition fix_quality :: "u16 \<times> u16 \<times> u16 \<Rightarrow> u16" where
  "fix_quality screen = (let scale = snd (snd screen) in if scale \<le> 0 then 1 else scale * scale)"

record android_capturer =
  ac_w :: nat
  ac_h :: nat
  ac_rgba :: bytes
  ac_saved :: bytes

definition new_android_capturer :: "nat \<times> nat \<Rightarrow> android_capturer" where
  "new_android_capturer display = \<lparr>ac_w = fst display, ac_h = snd display, ac_rgba = [], ac_saved = []\<rparr>"

definition android_frame :: "int \<Rightarrow> android_capturer \<Rightarrow> 'c android_state \<Rightarrow> frame_result \<times> android_capturer \<times> 'c android_state" where
  "android_frame now c s =
    (case get_video_raw now (ac_saved c) s of
       (None, l, s) \<Rightarrow> (FrameWouldBlock, c\<lparr>ac_saved := l\<rparr>, s)
     | (Some d, l, s) \<Rightarrow> (pixel_frame d PixRGBA (ac_w c) (ac_h c), c\<lparr>ac_rgba := d, ac_saved := l\<rparr>, s))"

definition android_is_start :: "jni_error + string \<Rightarrow> bool option" where
  "android_is_start res = (case res of Inl _ \<Rightarrow> None | Inr r \<Rightarrow> Some (r = ''true''))"

section \<open>The decoder of Android\<close>

text \<open>
  One call of \<open>decode\<close>: the room of the input buffer if there is one, what queueing it gives, and the output with
  its width, height and stride as far as they are told and the length of its buffer.
\<close>

record mc_output =
  mo_w :: "i32 option"
  mo_h :: "i32 option"
  mo_stride :: "i32 option"
  mo_len :: nat

record mc_env =
  md_input :: "string + nat option"
  md_queue :: "string + unit"
  md_output :: "string + mc_output option"
  md_release :: "string + unit"

datatype mc_event = Queued nat | Converted out_fn nat nat | ReleasedOutput

type_synonym mc = "(string + bool) \<times> image_rgb \<times> mc_event list"

definition mc_give_output :: "mc_env \<Rightarrow> mc_output \<Rightarrow> image_rgb \<Rightarrow> mc_event list \<Rightarrow> mc" where
  "mc_give_output E out rgb ev =
    (case (mo_w out, mo_h out, mo_stride out) of
       (None, _, _) \<Rightarrow> (Inl ''Failed to dequeue_output_buffer, width is None'', rgb, ev)
     | (_, None, _) \<Rightarrow> (Inl ''Failed to dequeue_output_buffer, height is None'', rgb, ev)
     | (_, _, None) \<Rightarrow> (Inl ''Failed to dequeue_output_buffer, stride is None'', rgb, ev)
     | (Some w, Some h, Some _) \<Rightarrow>
         let w = usize_of_i32 w; h = usize_of_i32 h; rgb = rgb\<lparr>ir_len := unat (h * w * 4)\<rparr> in
         if ir_fmt rgb = ImgARGB then
           let ev = ev @ [Converted I420ToARGB (unat w) (unat h)] in
           (case md_release E of
              Inl e \<Rightarrow> (Inl e, rgb, ev)
            | Inr _ \<Rightarrow> (Inr True, rgb, ev @ [ReleasedOutput]))
         else (Inl ''Unsupported image format'', rgb, ev))"

definition mc_decode :: "mc_env \<Rightarrow> bytes \<Rightarrow> image_rgb \<Rightarrow> mc" where
  "mc_decode E data rgb =
    (let after_input = (\<lambda>ev.
           case md_output E of
             Inl e \<Rightarrow> (Inl e, rgb, ev)
           | Inr None \<Rightarrow> (Inr False, rgb, ev)
           | Inr (Some out) \<Rightarrow> mc_give_output E out rgb ev)
     in case md_input E of
          Inl e \<Rightarrow> (Inl e, rgb, [])
        | Inr None \<Rightarrow> after_input []
        | Inr (Some room) \<Rightarrow>
            if room < length data then (Inl ''The input data size is bigger than input buf'', rgb, [])
            else (case md_queue E of
                    Inl e \<Rightarrow> (Inl e, rgb, [])
                  | Inr _ \<Rightarrow> after_input [Queued (length data)]))"

end
