(* ===== verification/AndroidProps.thy ===== *)
theory AndroidProps
  imports Android "HOL-Library.Sublist"
begin

text \<open>
  What holds of the Android side: frames cross the interface in their order and at most once, the context of
  the NDK is set up and given back in turn, clipboards reach their side; and where the code falls short: equal
  pictures are never suppressed, a screen without a size ends the capture, and one format is never decoded.
\<close>

section \<open>Frames\<close>

datatype raw_op = RawEnable bool | RawUpdate bytes int | RawTake int bytes


definition raw_updates :: "raw_op list \<Rightarrow> bytes list" where
  "raw_updates ops = List.map_filter (\<lambda>op. case op of RawUpdate d _ \<Rightarrow> Some d | _ \<Rightarrow> None) ops"

lemma raw_updates_simps [simp]:
  "raw_updates [] = []" "raw_updates (RawEnable b # ops) = raw_updates ops"
  "raw_updates (RawUpdate d t # ops) = d # raw_updates ops" "raw_updates (RawTake now l # ops) = raw_updates ops"
  by (simp_all add: raw_updates_def)






lemma android_saved_empty:
  assumes "ac_saved c = []" "android_frame now c s = (r, c', s')"
  shows "ac_saved c' = []"
  using assms
  by (auto simp: android_frame_def get_video_raw_def fr_take_def Let_def would_block_if_equal_def
      split: if_splits option.splits prod.splits)

text \<open>The frames of a capturer between updates of Java.\<close>

fun capture_android :: "(bytes \<times> int) list \<Rightarrow> android_capturer \<Rightarrow> 'c android_state \<Rightarrow> frame_result list" where
  "capture_android [] c s = []"
| "capture_android ((d, now) # us) c s =
    (case android_frame now c (on_video_frame_update (Some d) now s) of
       (r, c, s) \<Rightarrow> r # capture_android us c s)"

text \<open>
  A capturer never finds a picture equal to the one before: the copy it compares with is only written when it
  has the length of the picture, and it starts empty. Every picture is given out, the same one again too.
\<close>

theorem equal_pictures_not_suppressed:
  assumes "fr_enable (as_video s)" "0 \<le> fr_timeout (as_video s)" "h \<noteq> 0" "\<forall>u \<in> set us. fst u \<noteq> []"
  shows "capture_android us (new_android_capturer (w, h)) s = map (\<lambda>u. pixel_frame (fst u) PixRGBA w h) us"
proof -
  have step: "android_frame now c (on_video_frame_update (Some d) now s) =
      (pixel_frame d PixRGBA (ac_w c) (ac_h c), c\<lparr>ac_rgba := d\<rparr>, s\<lparr>as_video := fr_release (fr_update d now (as_video s))\<rparr>)"
    if "ac_saved c = []" "fr_enable (as_video s)" "0 \<le> fr_timeout (as_video s)" "d \<noteq> []"
    for c now d and s :: "'c android_state"
    using that by (auto simp: android_frame_def on_video_frame_update_def get_video_raw_def fr_take_def fr_update_def Let_def
        intro: android_capturer.equality)
  have "capture_android us c s = map (\<lambda>u. pixel_frame (fst u) PixRGBA (ac_w c) (ac_h c)) us"
    if "ac_saved c = []" "fr_enable (as_video s)" "0 \<le> fr_timeout (as_video s)" "\<forall>u \<in> set us. fst u \<noteq> []"
    for c and s :: "'c android_state"
    using that
  proof (induction us arbitrary: c s)
    case (Cons u us)
    obtain d now where u: "u = (d, now)" by fastforce
    have "d \<noteq> []" using Cons.prems(4) u by simp
    note st = step [OF Cons.prems(1-3) this, of now]
    show ?case using Cons.prems Cons.IH [of "c\<lparr>ac_rgba := d\<rparr>" "s\<lparr>as_video := fr_release (fr_update d now (as_video s))\<rparr>"]
      by (simp add: u st fr_release_def fr_update_def)
  qed simp
  from this [of "new_android_capturer (w, h)" s] show ?thesis using assms by (simp add: new_android_capturer_def)
qed

text \<open>
  When Java does not tell the size of the screen, the display has no height, and the first picture that comes
  makes the capturer divide by zero.
\<close>

theorem unknown_size_panics:
  assumes "fr_take now [] (as_video s) = (Some d, l, f)"
  shows "fst (android_frame now (new_android_capturer (fst (android_primary None (0, 0, scale)))) s) = FramePanic"
  using assms by (simp add: android_frame_def get_video_raw_def new_android_capturer_def android_primary_def
      size_or_default_def pixel_frame_def new_pixel_buffer_def)

text \<open>
  The factor for the bitrate of a shrunk screen is the square of its scale, for every scale below 256; from
  256 on the product overflows.
\<close>

theorem fix_quality_square:
  assumes "0 < unat (snd (snd screen))" "unat (snd (snd screen)) < 256"
  shows "unat (fix_quality screen) = unat (snd (snd screen)) * unat (snd (snd screen)) \<and> fix_quality (w, h, 256) = 0"
proof -
  let ?s = "snd (snd screen)"
  have "unat ?s * unat ?s \<le> 255 * 255" using assms(2) by (intro mult_mono) auto
  then have "unat ?s * unat ?s < 2 ^ 16" by simp
  then have "unat (?s * ?s) = unat ?s * unat ?s" by (simp add: unat_word_ariths)
  moreover have "\<not> ?s \<le> 0" using assms(1) by (simp add: word_le_nat_alt)
  ultimately show ?thesis by (simp add: fix_quality_def Let_def)
qed

section \<open>The interface\<close>

text \<open>The NDK refuses to be initialised twice, or released when it is not.\<close>

fun ndk_paired :: "bool \<Rightarrow> ndk_call list \<Rightarrow> bool" where
  "ndk_paired up [] = True"
| "ndk_paired up (NdkInitialize _ _ # cs) = (\<not> up \<and> ndk_paired True cs)"
| "ndk_paired up (NdkRelease # cs) = (up \<and> ndk_paired False cs)"

fun ndk_up :: "bool \<Rightarrow> ndk_call list \<Rightarrow> bool" where
  "ndk_up up [] = up"
| "ndk_up up (NdkInitialize _ _ # cs) = ndk_up True cs"
| "ndk_up up (NdkRelease # cs) = ndk_up False cs"

lemma ndk_append:
  "ndk_paired up (cs @ ds) \<longleftrightarrow> ndk_paired up cs \<and> ndk_paired (ndk_up up cs) ds"
  "ndk_up up (cs @ ds) = ndk_up (ndk_up up cs) ds"
  by (induction up cs rule: ndk_paired.induct) auto

definition ndk_inv :: "'c android_state \<Rightarrow> bool" where
  "ndk_inv s \<longleftrightarrow> ndk_paired False (as_ndk_calls s) \<and> ndk_up False (as_ndk_calls s) = as_ndk s"

lemma init_ndk_inv: "ndk_inv s \<Longrightarrow> ndk_inv (init_ndk_context vm ctx s)"
  by (auto simp: ndk_inv_def init_ndk_context_def ndk_append)

lemma ndk_inv_fields [simp]:
  "ndk_inv (s\<lparr>as_jvm := x\<rparr>) = ndk_inv s" "ndk_inv (s\<lparr>as_service := y\<rparr>) = ndk_inv s"
  by (simp_all add: ndk_inv_def)

datatype start_op = FfiInit "nat option" "nat option" | JniOnLoad bool nat nat

definition start_step :: "start_op \<Rightarrow> 'c android_state \<Rightarrow> 'c android_state" where
  "start_step op s = (case op of FfiInit j c \<Rightarrow> ffi_init j c s | JniOnLoad e vm r \<Rightarrow> jni_on_load e vm r s)"

text \<open>
  However often the library is loaded and the service started, the context of the NDK is set up and released
  in turn: it is never initialised twice, nor released when there is none.
\<close>

theorem ndk_context_paired:
  assumes "\<not> as_ndk s" "as_ndk_calls s = []"
  shows "ndk_paired False (as_ndk_calls (fold start_step ops s))"
proof -
  have "ndk_inv (fold start_step ops s)" if "ndk_inv s" for s :: "'c android_state"
    using that
    by (induction ops arbitrary: s)
      (auto simp: start_step_def ffi_init_def jni_on_load_def Let_def init_ndk_inv split: start_op.splits option.splits)
  from this [of s] show ?thesis using assms by (simp add: ndk_inv_def)
qed

text \<open>
  A clipboard that Java sends for one side is what that side gets, once, and the other side's is left alone.
\<close>

theorem clipboard_reaches_side:
  assumes "parse d = Some clips" "on_clipboard_update parse (Some (b # d)) s = Some s'"
  shows "fst (get_clipboards (b = 1) s') = Some clips \<and> fst (get_clipboards (b \<noteq> 1) s') = fst (get_clipboards (b \<noteq> 1) s)
    \<and> fst (get_clipboards (b = 1) (snd (get_clipboards (b = 1) s'))) = None"
  using assms by (auto simp: on_clipboard_update_def get_clipboards_def split: if_splits)

section \<open>The decoder\<close>

text \<open>
  Both arms of the decoder are for ARGB: a picture that is wanted in ABGR is refused although it was decoded,
  and its output buffer is not given back.
\<close>

theorem abgr_never_decoded:
  assumes "ir_fmt rgb = ImgABGR" "mc_decode E d rgb = (r, rgb', ev)" "md_output E = Inr (Some out)"
  shows "r \<noteq> Inr True \<and> ReleasedOutput \<notin> set ev"
  using assms
  by (auto simp: mc_decode_def mc_give_output_def Let_def split: sum.splits option.splits if_splits)

section \<open>Concrete cases\<close>

definition demo_android :: "nat android_state" where
  "demo_android = \<lparr>as_jvm = None, as_service = None, as_clipboard_manager = None,
     as_video = fr_set_enable True (new_frame_raw MAX_VIDEO_FRAME_TIMEOUT 0), as_audio = new_frame_raw MAX_AUDIO_FRAME_TIMEOUT 0,
     as_client_clip = None, as_host_clip = Some 5, as_codecs = None, as_ndk = False, as_ndk_calls = []\<rparr>"

theorem equal_pictures_not_suppressed_witness:
  "capture_android [([1, 2, 3, 4], 10), ([1, 2, 3, 4], 20)] (new_android_capturer (1, 1)) demo_android =
    [pixel_frame [1, 2, 3, 4] PixRGBA 1 1, pixel_frame [1, 2, 3, 4] PixRGBA 1 1]"
  using equal_pictures_not_suppressed [of demo_android 1 "[([1, 2, 3, 4], 10), ([1, 2, 3, 4], 20)]" 1]
  by (simp add: demo_android_def fr_set_enable_def new_frame_raw_def MAX_VIDEO_FRAME_TIMEOUT_def)

theorem unknown_size_panics_witness:
  "fst (android_frame 1 (new_android_capturer (0, 0)) (on_video_frame_update (Some [1]) 1 demo_android)) = FramePanic"
proof -
  have "\<exists>l f. fr_take 1 [] (as_video (on_video_frame_update (Some [1]) 1 demo_android)) = (Some [1], l, f)"
    by (simp add: demo_android_def fr_set_enable_def new_frame_raw_def MAX_VIDEO_FRAME_TIMEOUT_def fr_take_def
        on_video_frame_update_def fr_update_def Let_def)
  then obtain l f where "fr_take 1 [] (as_video (on_video_frame_update (Some [1]) 1 demo_android)) = (Some [1], l, f)" by blast
  from unknown_size_panics [OF this, of 0] show ?thesis by (simp add: android_primary_def size_or_default_def)
qed

theorem fix_quality_square_witness: "unat (fix_quality (1140, 540, 2)) = 4 \<and> fix_quality (0, 0, 256) = 0"
  using fix_quality_square [of "(1140, 540, 2)" 0 0] by simp

theorem ndk_context_paired_witness:
  "ndk_paired False (as_ndk_calls (fold start_step [JniOnLoad True 1 0, FfiInit (Some 1) (Some 2), FfiInit (Some 1) (Some 3)]
     demo_android))"
  by (rule ndk_context_paired) (simp_all add: demo_android_def)

theorem clipboard_reaches_side_witness:
  "\<exists>s'. on_clipboard_update (\<lambda>d. Some (length d)) (Some [1, 7, 7]) demo_android = Some s' \<and>
     fst (get_clipboards True s') = Some 2 \<and> fst (get_clipboards False s') = Some 5"
proof -
  have "\<exists>s'. on_clipboard_update (\<lambda>d. Some (length d)) (Some [1, 7, 7]) demo_android = Some s'"
    by (simp add: on_clipboard_update_def)
  then obtain s' where s': "on_clipboard_update (\<lambda>d. Some (length d)) (Some [1, 7, 7]) demo_android = Some s'" by blast
  from clipboard_reaches_side [OF refl s'] s' show ?thesis by (simp add: get_clipboards_def demo_android_def)
qed

definition demo_codec_run :: mc_env where
  "demo_codec_run = \<lparr>md_input = Inr (Some 10), md_queue = Inr (), md_output = Inr (Some \<lparr>mo_w = Some 2, mo_h = Some 2,
     mo_stride = Some 2, mo_len = 6\<rparr>), md_release = Inr ()\<rparr>"

theorem abgr_never_decoded_witness:
  "mc_decode demo_codec_run [1] (new_image_rgb ImgABGR 1) = (Inl ''Unsupported image format'', (new_image_rgb ImgABGR 1)\<lparr>ir_len := 16\<rparr>, [Queued 1])
   \<and> ReleasedOutput \<notin> set [Queued 1]"
proof -
  have d: "mc_decode demo_codec_run [1] (new_image_rgb ImgABGR 1) =
      (Inl ''Unsupported image format'', (new_image_rgb ImgABGR 1)\<lparr>ir_len := 16\<rparr>, [Queued 1])"
    by (simp add: mc_decode_def mc_give_output_def demo_codec_run_def new_image_rgb_def usize_of_i32_def)
  from abgr_never_decoded [OF _ d] d show ?thesis by (simp add: new_image_rgb_def demo_codec_run_def)
qed

end
