(* ===== verification/X11Capture.thy ===== *)
theory X11Capture
  imports PipeWire LinuxSession
begin

text \<open>
  The displays and the capture of an X11 desktop: \<open>libs/scrap/src/x11/\<close> (\<open>iter.rs\<close>, \<open>server.rs\<close>, \<open>capturer.rs\<close>,
  \<open>display.rs\<close>), \<open>common/x11.rs\<close>, and the choice between X11 and Wayland of \<open>common/linux.rs\<close>. The X server
  and its library are arguments, with the memory of a reply after it was freed: the iterator reads it.
\<close>

type_synonym i16 = "16 word"

section \<open>Displays\<close>

record x11_monitor =
  xm_name :: nat
  xm_primary :: u8
  xm_x :: i16
  xm_y :: i16
  xm_w :: u16
  xm_h :: u16

record x11_display =
  xd_default :: bool
  xd_rect :: "(i16 \<times> i16) \<times> u16 \<times> u16"
  xd_root :: nat
  xd_name :: string
  xd_fmt :: pixfmt

text \<open>
  The server: the root windows of its screens, the number of monitors in the reply for a root (\<open>None\<close>: no reply),
  the memory of that reply after \<open>free\<close>, the reply for an atom, and the depth of a root (\<open>None\<close>: no reply).
\<close>

record x11_server =
  xs_roots :: "nat list"
  xs_count :: "nat \<Rightarrow> nat option"
  xs_memory :: "nat \<Rightarrow> nat \<Rightarrow> x11_monitor"
  xs_atom :: "nat \<Rightarrow> bytes option"
  xs_depth :: "nat \<Rightarrow> nat option"

text \<open>\<open>CString::new\<close> refuses a zero byte; \<open>lossy\<close> is \<open>to_string_lossy\<close>.\<close>

definition get_atom_name :: "(bytes \<Rightarrow> string) \<Rightarrow> x11_server \<Rightarrow> nat \<Rightarrow> string" where
  "get_atom_name lossy S atom =
    (if atom = 0 then ''''
     else case xs_atom S atom of None \<Rightarrow> '''' | Some v \<Rightarrow> if 0 \<in> set v then '''' else lossy v)"

definition get_pixfmt :: "x11_server \<Rightarrow> nat \<Rightarrow> pixfmt option" where
  "get_pixfmt S win =
    (case xs_depth S win of
       None \<Rightarrow> None
     | Some d \<Rightarrow> if d = 16 then Some PixRGB565LE else if d = 32 then Some PixBGRA else None)"

definition or_bgra :: "pixfmt option \<Rightarrow> pixfmt" where
  "or_bgra f = (case f of Some f \<Rightarrow> f | None \<Rightarrow> PixBGRA)"

definition x11_display_of :: "(bytes \<Rightarrow> string) \<Rightarrow> x11_server \<Rightarrow> nat \<Rightarrow> x11_monitor \<Rightarrow> x11_display" where
  "x11_display_of lossy S win mon =
    \<lparr>xd_default = (xm_primary mon \<noteq> 0), xd_rect = ((xm_x mon, xm_y mon), xm_w mon, xm_h mon), xd_root = win,
     xd_name = get_atom_name lossy S (xm_name mon), xd_fmt = or_bgra (get_pixfmt S win)\<rparr>"

section \<open>The iterator\<close>

text \<open>What happens to the replies with monitors, each named by its root window.\<close>

datatype reply_event = Received nat | Freed nat | ReadMonitor nat nat

text \<open>
  The screens left, and the iterator over the monitors of the current screen: how many remain, the place of the
  next in the memory of the reply, and the root window.
\<close>

record x11_iter =
  xi_outer :: "nat list"
  xi_inner :: "(nat \<times> nat \<times> nat) option"
  xi_events :: "reply_event list"

text \<open>\<open>next_screen\<close>; without a reply its null pointer is read, which is \<open>None\<close> here.\<close>

definition next_screen :: "x11_server \<Rightarrow> x11_iter \<Rightarrow> x11_iter option" where
  "next_screen S it =
    (case xi_outer it of
       [] \<Rightarrow> Some (it\<lparr>xi_inner := None\<rparr>)
     | win # rest \<Rightarrow>
         (case xs_count S win of
            None \<Rightarrow> None
          | Some n \<Rightarrow> Some \<lparr>xi_outer = rest, xi_inner = Some (n, 0, win),
              xi_events = xi_events it @ [Received win, Freed win]\<rparr>))"

definition new_x11_iter :: "x11_server \<Rightarrow> x11_iter option" where
  "new_x11_iter S = next_screen S \<lparr>xi_outer = xs_roots S, xi_inner = None, xi_events = []\<rparr>"

definition screens_left :: "x11_iter \<Rightarrow> nat" where
  "screens_left it = length (xi_outer it) + (case xi_inner it of None \<Rightarrow> 0 | Some _ \<Rightarrow> 1)"

lemma next_screen_left: "next_screen S it = Some it' \<Longrightarrow> xi_inner it = Some p \<Longrightarrow> screens_left it' < screens_left it"
  by (auto simp: next_screen_def screens_left_def split: list.splits option.splits)

text \<open>\<open>DisplayIter::next\<close>, where an inner \<open>None\<close> is a crash and the display comes with the iterator after it.\<close>

function x11_next :: "(bytes \<Rightarrow> string) \<Rightarrow> x11_server \<Rightarrow> x11_iter \<Rightarrow> (x11_display option \<times> x11_iter) option" where
  "x11_next lossy S it =
    (case xi_inner it of
       None \<Rightarrow> Some (None, it)
     | Some (n, i, win) \<Rightarrow>
         if n \<noteq> 0
         then Some (Some (x11_display_of lossy S win (xs_memory S win i)),
                it\<lparr>xi_inner := Some (n - 1, i + 1, win), xi_events := xi_events it @ [ReadMonitor win i]\<rparr>)
         else (case next_screen S it of None \<Rightarrow> None | Some it' \<Rightarrow> x11_next lossy S it'))"
  by pat_completeness auto
termination by (relation "measure (\<lambda>(_, _, it). screens_left it)") (auto dest: next_screen_left)

declare x11_next.simps [simp del]

text \<open>The monitors an iterator still has, which bounds its use.\<close>

definition count_or_zero :: "x11_server \<Rightarrow> nat \<Rightarrow> nat" where
  "count_or_zero S win = (case xs_count S win of Some n \<Rightarrow> n | None \<Rightarrow> 0)"

definition monitors_left :: "x11_server \<Rightarrow> x11_iter \<Rightarrow> nat" where
  "monitors_left S it =
    (case xi_inner it of None \<Rightarrow> 0 | Some (n, _, _) \<Rightarrow> n + sum_list (map (count_or_zero S) (xi_outer it)))"

lemma next_screen_monitors:
  "next_screen S it = Some it' \<Longrightarrow> xi_inner it = Some (0, i, win) \<Longrightarrow> monitors_left S it' = monitors_left S it"
  by (auto simp: next_screen_def monitors_left_def count_or_zero_def split: list.splits option.splits)

lemma x11_next_monitors: "x11_next lossy S it = Some (Some d, it') \<Longrightarrow> monitors_left S it' < monitors_left S it"
proof (induction lossy S it rule: x11_next.induct)
  case (1 lossy S it)
  show ?case
  proof (cases "xi_inner it")
    case None
    then show ?thesis using "1.prems" by (simp add: x11_next.simps [of lossy S it])
  next
    case (Some p)
    obtain n i win where p: "p = (n, i, win)" by (cases p)
    show ?thesis
    proof (cases "n = 0")
      case True
      then obtain it2 where n: "next_screen S it = Some it2"
        using "1.prems" Some p by (auto simp: x11_next.simps [of lossy S it] split: option.splits)
      then have "monitors_left S it' < monitors_left S it2"
        using "1.IH" [OF Some p [symmetric] refl _ n] "1.prems" Some p True by (simp add: x11_next.simps [of lossy S it])
      then show ?thesis using next_screen_monitors [OF n] Some p True by simp
    next
      case False
      then show ?thesis using "1.prems" Some p
        by (auto simp: x11_next.simps [of lossy S it] monitors_left_def)
    qed
  qed
qed

text \<open>All that is left, as \<open>collect\<close> takes it, and the first that is the default, as \<open>find\<close>.\<close>

function x11_collect :: "(bytes \<Rightarrow> string) \<Rightarrow> x11_server \<Rightarrow> x11_iter \<Rightarrow> (x11_display list \<times> reply_event list) option" where
  "x11_collect lossy S it =
    (case x11_next lossy S it of
       None \<Rightarrow> None
     | Some (None, it') \<Rightarrow> Some ([], xi_events it')
     | Some (Some d, it') \<Rightarrow>
         (case x11_collect lossy S it' of None \<Rightarrow> None | Some (ds, es) \<Rightarrow> Some (d # ds, es)))"
  by pat_completeness auto
termination by (relation "measure (\<lambda>(_, S, it). monitors_left S it)") (auto dest: x11_next_monitors)

function x11_find_default :: "(bytes \<Rightarrow> string) \<Rightarrow> x11_server \<Rightarrow> x11_iter \<Rightarrow> x11_display option option" where
  "x11_find_default lossy S it =
    (case x11_next lossy S it of
       None \<Rightarrow> None
     | Some (None, _) \<Rightarrow> Some None
     | Some (Some d, it') \<Rightarrow> if xd_default d then Some (Some d) else x11_find_default lossy S it')"
  by pat_completeness auto
termination by (relation "measure (\<lambda>(_, S, it). monitors_left S it)") (auto dest: x11_next_monitors)

declare x11_collect.simps [simp del] x11_find_default.simps [simp del]

section \<open>The connection\<close>

datatype x11_error = XGeneric | XUnsupportedExtension | XInsufficientMemory | XRequestTooLong | XParseError | XInvalidScreen

definition x11_error_of :: "i32 \<Rightarrow> x11_error" where
  "x11_error_of x =
    (if x = 2 then XUnsupportedExtension else if x = 3 then XInsufficientMemory else if x = 4 then XRequestTooLong
     else if x = 5 then XParseError else if x = 6 then XInvalidScreen else XGeneric)"

text \<open>\<open>Server::connect\<close>: the server behind the connection when \<open>xcb_connection_has_error\<close> gives zero.\<close>

definition x11_connect :: "i32 \<Rightarrow> x11_server \<Rightarrow> x11_error + x11_server" where
  "x11_connect err S = (if err \<noteq> 0 then Inl (x11_error_of err) else Inr S)"

text \<open>Whether there is a reply, and an error with it.\<close>

definition check_x11_shm_available :: "bool \<Rightarrow> bool \<Rightarrow> x11_error + unit" where
  "check_x11_shm_available reply err =
    (if \<not> reply then Inl XUnsupportedExtension else if \<not> err then Inr () else Inl XGeneric)"

text \<open>\<open>Display::primary\<close> and \<open>Display::all\<close> of \<open>common/x11.rs\<close>; \<open>None\<close> is a crash.\<close>

definition or_first :: "x11_display option \<Rightarrow> x11_display option \<Rightarrow> x11_display option" where
  "or_first a b = (case a of Some d \<Rightarrow> Some d | None \<Rightarrow> b)"

definition x11_primary :: "(bytes \<Rightarrow> string) \<Rightarrow> x11_error + x11_server \<Rightarrow> (string + x11_display) option" where
  "x11_primary lossy conn =
    (case conn of
       Inl _ \<Rightarrow> Some (Inl ''ConnectionRefused'')
     | Inr S \<Rightarrow>
         Option.bind (new_x11_iter S) (\<lambda>it.
         Option.bind (x11_next lossy S it) (\<lambda>(best, it).
         Option.bind
           (if map_option xd_default best = Some False
            then map_option (\<lambda>found. or_first found best) (x11_find_default lossy S it)
            else Some best)
           (\<lambda>best. Some (case best of Some d \<Rightarrow> Inr d | None \<Rightarrow> Inl ''NotFound'')))))"

definition x11_all :: "(bytes \<Rightarrow> string) \<Rightarrow> x11_error + x11_server \<Rightarrow> (string + x11_display list) option" where
  "x11_all lossy conn =
    (case conn of
       Inl _ \<Rightarrow> Some (Inl ''ConnectionRefused'')
     | Inr S \<Rightarrow>
         Option.bind (new_x11_iter S) (\<lambda>it. map_option (\<lambda>(ds, _). Inr ds) (x11_collect lossy S it)))"

end
