(* ===== verification/X11Props.thy ===== *)
theory X11Props
  imports X11Capture
begin

text \<open>
  The capturer of X11 over its shared memory, the choice between X11 and Wayland, and what the displays and pictures
  of an X11 desktop are.
\<close>

section \<open>The capturer\<close>

datatype shm_event = ShmGet | ShmAttach | XcbAttach | XcbDetach | ShmDetach | ShmRemove

text \<open>The attached segment is kept by its contents.\<close>

record x11_capturer =
  xc_display :: x11_display
  xc_buffer :: bytes
  xc_saved :: bytes

definition xd_width :: "x11_display \<Rightarrow> nat" where
  "xd_width d = unat (fst (snd (xd_rect d)))"

definition xd_height :: "x11_display \<Rightarrow> nat" where
  "xd_height d = unat (snd (snd (xd_rect d)))"

definition xd_origin :: "x11_display \<Rightarrow> i32 \<times> i32" where
  "xd_origin d = (scast (fst (fst (xd_rect d))), scast (snd (fst (xd_rect d))))"

definition x11_size :: "x11_display \<Rightarrow> nat" where
  "x11_size d = xd_width d * xd_height d * bytes_per_pixel (xd_fmt d)"

text \<open>
  \<open>Capturer::new\<close>, given whether \<open>shmget\<close> and \<open>shmat\<close> succeed; a new segment is zero. A product of two \<open>u16\<close> and
  at most four fits \<open>usize\<close>.
\<close>

definition new_x11_capturer :: "bool \<Rightarrow> bool \<Rightarrow> x11_display \<Rightarrow> (string + x11_capturer) \<times> shm_event list" where
  "new_x11_capturer got attached d =
    (if \<not> got then (Inl ''last_os_error'', [])
     else if \<not> attached then (Inl ''last_os_error'', [ShmGet])
     else (Inr \<lparr>xc_display = d, xc_buffer = replicate (x11_size d) 0, xc_saved = []\<rparr>,
           [ShmGet, ShmAttach, XcbAttach]))"

definition drop_x11_capturer :: "x11_capturer \<Rightarrow> shm_event list" where
  "drop_x11_capturer c = [XcbDetach, ShmDetach, ShmRemove]"

text \<open>The server writes its picture to the start of the segment, when it answers; the answer is not looked at.\<close>

definition get_image :: "bytes option \<Rightarrow> x11_capturer \<Rightarrow> x11_capturer" where
  "get_image img c =
    (case img of
       None \<Rightarrow> c
     | Some p \<Rightarrow> c\<lparr>xc_buffer := take (length (xc_buffer c)) p @ drop (length p) (xc_buffer c)\<rparr>)"

definition x11_frame :: "bytes option \<Rightarrow> x11_capturer \<Rightarrow> frame_result \<times> x11_capturer" where
  "x11_frame img c =
    (let c = get_image img c; (same, saved) = would_block_if_equal (xc_saved c) (xc_buffer c);
         c = c\<lparr>xc_saved := saved\<rparr>
     in (if same then FrameWouldBlock
         else pixel_frame (xc_buffer c) (xd_fmt (xc_display c)) (xd_width (xc_display c)) (xd_height (xc_display c)), c))"

section \<open>Either desktop\<close>

datatype linux_display = DisplayX11 x11_display | DisplayWayland pw_capturable

definition linux_primary :: "linux_env \<Rightarrow> (string + x11_display) option \<Rightarrow> string + pw_capturable \<Rightarrow> (string + linux_display) option" where
  "linux_primary E x w =
    (if is_x11_or_headless E then map_option (map_sum id DisplayX11) x
     else Some (map_sum id DisplayWayland w))"

definition linux_all :: "linux_env \<Rightarrow> (string + x11_display list) option \<Rightarrow> string + pw_capturable list \<Rightarrow> (string + linux_display list) option" where
  "linux_all E x w =
    (if is_x11_or_headless E then map_option (map_sum id (map DisplayX11)) x
     else Some (map_sum id (map DisplayWayland) w))"

definition linux_width :: "linux_display \<Rightarrow> nat" where
  "linux_width d = (case d of DisplayX11 d \<Rightarrow> xd_width d | DisplayWayland c \<Rightarrow> unat (fst (pc_size c)))"

definition linux_height :: "linux_display \<Rightarrow> nat" where
  "linux_height d = (case d of DisplayX11 d \<Rightarrow> xd_height d | DisplayWayland c \<Rightarrow> unat (snd (pc_size c)))"

definition linux_origin :: "linux_display \<Rightarrow> i32 \<times> i32" where
  "linux_origin d = (case d of DisplayX11 d \<Rightarrow> xd_origin d | DisplayWayland c \<Rightarrow> pc_position c)"

definition linux_is_primary :: "linux_display \<Rightarrow> bool" where
  "linux_is_primary d = (case d of DisplayX11 d \<Rightarrow> xd_default d | DisplayWayland _ \<Rightarrow> False)"

definition linux_name :: "linux_display \<Rightarrow> string" where
  "linux_name d = (case d of DisplayX11 d \<Rightarrow> xd_name d | DisplayWayland _ \<Rightarrow> '''')"

text \<open>A capturer of either, and its frame with what the desktop it belongs to gives.\<close>

datatype linux_capturer = CapturerX11 x11_capturer | CapturerWayland pw_recorder

definition linux_frame :: "bytes option \<Rightarrow> sample option \<Rightarrow> linux_capturer \<Rightarrow> frame_result \<times> linux_capturer" where
  "linux_frame img s c =
    (case c of
       CapturerX11 c \<Rightarrow> map_prod id CapturerX11 (x11_frame img c)
     | CapturerWayland r \<Rightarrow> map_prod id CapturerWayland (wayland_frame s r))"

section \<open>What an iterator gives\<close>

definition screen_displays :: "(bytes \<Rightarrow> string) \<Rightarrow> x11_server \<Rightarrow> nat \<Rightarrow> nat \<Rightarrow> nat \<Rightarrow> x11_display list" where
  "screen_displays lossy S win i n = map (\<lambda>j. x11_display_of lossy S win (xs_memory S win j)) [i..<i + n]"

definition iter_displays :: "(bytes \<Rightarrow> string) \<Rightarrow> x11_server \<Rightarrow> x11_iter \<Rightarrow> x11_display list" where
  "iter_displays lossy S it =
    (case xi_inner it of
       None \<Rightarrow> []
     | Some (n, i, win) \<Rightarrow> screen_displays lossy S win i n
         @ concat (map (\<lambda>w. screen_displays lossy S w 0 (count_or_zero S w)) (xi_outer it)))"

definition all_answered :: "x11_server \<Rightarrow> nat list \<Rightarrow> bool" where
  "all_answered S ws \<longleftrightarrow> (\<forall>w\<in>set ws. xs_count S w \<noteq> None)"

text \<open>Every monitor is read after the reply it lies in was freed.\<close>

definition reads_freed :: "reply_event list \<Rightarrow> bool" where
  "reads_freed es \<longleftrightarrow> (\<forall>i<length es. \<forall>w j. es ! i = ReadMonitor w j \<longrightarrow> Freed w \<in> set (take i es))"

definition iter_freed :: "x11_iter \<Rightarrow> bool" where
  "iter_freed it \<longleftrightarrow> reads_freed (xi_events it) \<and>
    (\<forall>n i w. xi_inner it = Some (n, i, w) \<longrightarrow> Freed w \<in> set (xi_events it))"

lemma screen_displays_0 [simp]: "screen_displays lossy S w i 0 = []"
  by (simp add: screen_displays_def)

lemma screen_displays_Suc:
  "screen_displays lossy S w i (Suc n) = x11_display_of lossy S w (xs_memory S w i) # screen_displays lossy S w (Suc i) n"
  by (simp add: screen_displays_def upt_rec)

lemma reads_freed_append:
  assumes "reads_freed es" "\<And>w j. ReadMonitor w j \<in> set fs \<Longrightarrow> Freed w \<in> set es"
  shows "reads_freed (es @ fs)"
  unfolding reads_freed_def
proof (intro allI impI)
  fix i w j assume i: "i < length (es @ fs)" and e: "(es @ fs) ! i = ReadMonitor w j"
  show "Freed w \<in> set (take i (es @ fs))"
  proof (cases "i < length es")
    case True
    then show ?thesis using assms(1) e by (auto simp: reads_freed_def nth_append)
  next
    case False
    then have "ReadMonitor w j \<in> set fs" using i e by (auto simp: nth_append in_set_conv_nth intro!: exI [of _ "i - length es"])
    then show ?thesis using assms(2) False by simp
  qed
qed

lemma next_screen_freed: "next_screen S it = Some it' \<Longrightarrow> iter_freed it \<Longrightarrow> iter_freed it'"
  by (auto simp: next_screen_def iter_freed_def split: list.splits option.splits intro!: reads_freed_append)

lemma next_screen_answered:
  assumes "all_answered S (xi_outer it)" "xi_inner it = None \<or> xi_inner it = Some (0, i, w)"
  obtains it' where "next_screen S it = Some it'" "all_answered S (xi_outer it')"
    "xi_inner it \<noteq> None \<longrightarrow> iter_displays lossy S it' = iter_displays lossy S it"
  using assms by (cases "xi_outer it")
    (force simp: next_screen_def all_answered_def iter_displays_def count_or_zero_def)+

text \<open>One call takes the first display off those that are left.\<close>

lemma x11_next_displays:
  assumes "all_answered S (xi_outer it)" "iter_freed it"
  shows "\<exists>it'. x11_next lossy S it =
      Some (case iter_displays lossy S it of [] \<Rightarrow> None | d # _ \<Rightarrow> Some d, it')
    \<and> iter_displays lossy S it' = tl (iter_displays lossy S it) \<and> all_answered S (xi_outer it') \<and> iter_freed it'"
  using assms
proof (induction lossy S it rule: x11_next.induct)
  case (1 lossy S it)
  show ?case
  proof (cases "xi_inner it")
    case None
    then show ?thesis using "1.prems" by (simp add: x11_next.simps [of lossy S it] iter_displays_def)
  next
    case (Some p)
    obtain n i w where p: "p = (n, i, w)" by (cases p)
    show ?thesis
    proof (cases n)
      case 0
      obtain it2 where n: "next_screen S it = Some it2" "all_answered S (xi_outer it2)"
        "xi_inner it \<noteq> None \<longrightarrow> iter_displays lossy S it2 = iter_displays lossy S it"
        using next_screen_answered [OF "1.prems"(1), of i w lossy] Some p 0 by auto
      then show ?thesis using "1.IH" [OF Some p [symmetric] refl _ n(1)] next_screen_freed [OF n(1) "1.prems"(2)]
          "1.prems" Some p 0 by (simp add: x11_next.simps [of lossy S it])
    next
      case (Suc k)
      have "reads_freed (xi_events it @ [ReadMonitor w i])"
        using "1.prems"(2) Some p by (auto simp: iter_freed_def intro!: reads_freed_append)
      then show ?thesis using "1.prems" Some p Suc
        by (simp add: x11_next.simps [of lossy S it] iter_displays_def [of _ _ it] screen_displays_Suc)
          (auto simp: iter_displays_def iter_freed_def)
    qed
  qed
qed

lemma x11_collect_displays:
  assumes "all_answered S (xi_outer it)" "iter_freed it"
  shows "\<exists>es. x11_collect lossy S it = Some (iter_displays lossy S it, es) \<and> reads_freed es"
  using assms
proof (induction "iter_displays lossy S it" arbitrary: it)
  case Nil
  then show ?case using x11_next_displays [OF Nil.prems, of lossy]
    by (auto simp: x11_collect.simps [of lossy S it] iter_freed_def)
next
  case (Cons d ds)
  obtain it' where "x11_next lossy S it = Some (Some d, it')" "iter_displays lossy S it' = ds"
    "all_answered S (xi_outer it')" "iter_freed it'"
    using x11_next_displays [OF Cons.prems, of lossy] by (auto simp: Cons.hyps(2) [symmetric])
  then show ?case using Cons.hyps(1) [of it'] Cons.hyps(2) [symmetric] by (auto simp: x11_collect.simps [of lossy S it])
qed


definition server_displays :: "(bytes \<Rightarrow> string) \<Rightarrow> x11_server \<Rightarrow> x11_display list" where
  "server_displays lossy S =
    concat (map (\<lambda>w. screen_displays lossy S w 0 (count_or_zero S w)) (xs_roots S))"

lemma new_iter_displays:
  assumes "all_answered S (xs_roots S)"
  obtains it where "new_x11_iter S = Some it" "all_answered S (xi_outer it)" "iter_freed it"
    "iter_displays lossy S it = server_displays lossy S"
  using assms by (cases "xs_roots S")
    (force simp: new_x11_iter_def next_screen_def all_answered_def iter_displays_def count_or_zero_def
      iter_freed_def reads_freed_def server_displays_def nth_Cons')+

section \<open>Properties\<close>


text \<open>
  C40: The iterator over the displays frees each reply of the server before it reads the monitors in it: in every
  complete iteration each monitor is read after the \<open>free\<close> of its reply.
\<close>

theorem monitors_read_after_free:
  assumes "all_answered S (xs_roots S)" "new_x11_iter S = Some it"
  shows "\<exists>ds es. x11_collect lossy S it = Some (ds, es) \<and> reads_freed es"
  using new_iter_displays [OF assms(1), of lossy] x11_collect_displays assms(2) by (metis option.inject)

definition demo_monitor :: "u8 \<Rightarrow> x11_monitor" where
  "demo_monitor p = \<lparr>xm_name = 0, xm_primary = p, xm_x = 0, xm_y = 0, xm_w = 2, xm_h = 1\<rparr>"

definition demo_x11 :: x11_server where
  "demo_x11 = \<lparr>xs_roots = [7, 8], xs_count = (\<lambda>w. Some (if w = 7 then 1 else 2)),
     xs_memory = (\<lambda>w i. demo_monitor (if w = 8 \<and> i = 1 then 1 else 0)), xs_atom = (\<lambda>_. None),
     xs_depth = (\<lambda>_. Some 24)\<rparr>"

lemma demo_x11_answered: "all_answered demo_x11 (xs_roots demo_x11)"
  by (simp add: demo_x11_def all_answered_def)



theorem monitors_read_after_free_witness:
  "\<exists>ds es. x11_collect (\<lambda>_. '''') demo_x11 \<lparr>xi_outer = [8], xi_inner = Some (1, 0, 7), xi_events = [Received 7, Freed 7]\<rparr>
    = Some (ds, es) \<and> reads_freed es"
  by (rule monitors_read_after_free [OF demo_x11_answered])
    (simp add: new_x11_iter_def next_screen_def demo_x11_def)

text \<open>The frames of a run, one for each answer of the server.\<close>

fun run_x11 :: "bytes option list \<Rightarrow> x11_capturer \<Rightarrow> frame_result list" where
  "run_x11 [] c = []"
| "run_x11 (img # imgs) c = (case x11_frame img c of (f, c) \<Rightarrow> f # run_x11 imgs c)"

fun pictures :: "frame_result list \<Rightarrow> bytes list" where
  "pictures [] = []"
| "pictures (FrameOk _ p # fs) = p # pictures fs"
| "pictures (_ # fs) = pictures fs"

definition x11_frame_ok :: "x11_display \<Rightarrow> frame_result \<Rightarrow> bool" where
  "x11_frame_ok d f =
    (case f of
       FrameOk b p \<Rightarrow> length p = x11_size d \<and> pb_len b = x11_size d \<and> pb_stride b = [xd_width d * bytes_per_pixel (xd_fmt d)]
         \<and> pb_w b = xd_width d \<and> pb_h b = xd_height d \<and> pb_fmt b = xd_fmt d
     | FrameWouldBlock \<Rightarrow> True
     | _ \<Rightarrow> False)"

lemma get_image_simps [simp]:
  "length (xc_buffer (get_image img c)) = length (xc_buffer c)"
  "xc_display (get_image img c) = xc_display c" "xc_saved (get_image img c) = xc_saved c"
  by (auto simp: get_image_def split: option.splits)

lemma x11_frame_keeps:
  assumes "x11_frame img c = (f, c')"
  shows "xc_display c' = xc_display c" "length (xc_buffer c') = length (xc_buffer c)"
  using assms by (auto simp: x11_frame_def Let_def split: prod.splits)

lemma x11_frame_cases:
  assumes "x11_frame img c = (f, c')" "length (xc_buffer c) = x11_size (xc_display c)" "xd_height (xc_display c) \<noteq> 0"
  shows "(f = FrameWouldBlock \<and> xc_saved c' = xc_saved c) \<or>
    (\<exists>b. f = FrameOk b (xc_saved c') \<and> xc_saved c' \<noteq> xc_saved c \<and> x11_frame_ok (xc_display c) f)"
  using assms
  by (auto simp: x11_frame_def Let_def would_block_if_equal_def pixel_frame_def new_pixel_buffer_def x11_frame_ok_def
      x11_size_def split: if_splits)

lemma run_x11_ok:
  assumes "length (xc_buffer c) = x11_size (xc_display c)" "xd_height (xc_display c) \<noteq> 0"
  shows "(\<forall>f\<in>set (run_x11 imgs c). x11_frame_ok (xc_display c) f) \<and>
    distinct_adj (xc_saved c # pictures (run_x11 imgs c))"
  using assms
proof (induction imgs arbitrary: c)
  case (Cons img imgs)
  obtain f c' where f: "x11_frame img c = (f, c')" by fastforce
  have "(\<forall>f\<in>set (run_x11 imgs c'). x11_frame_ok (xc_display c) f) \<and>
      distinct_adj (xc_saved c' # pictures (run_x11 imgs c'))"
    using Cons.IH [of c'] Cons.prems x11_frame_keeps [OF f] by simp
  then show ?case using x11_frame_cases [OF f Cons.prems] f by (auto simp: x11_frame_ok_def)
qed simp

text \<open>
  Every picture the X11 capturer hands out in any run holds exactly the bytes of its display in its format,
  whatever the server writes or leaves out; a frame that is not a picture is \<open>WouldBlock\<close>, and no two successive
  pictures are equal.
\<close>

theorem x11_pictures_exact:
  assumes "fst (new_x11_capturer True True d) = Inr c" "xd_height d \<noteq> 0"
  shows "(\<forall>f\<in>set (run_x11 imgs c). x11_frame_ok d f) \<and> distinct_adj (pictures (run_x11 imgs c))"
proof -
  have c: "xc_display c = d" "length (xc_buffer c) = x11_size d"
    using assms(1) by (auto simp: new_x11_capturer_def)
  from run_x11_ok [of c imgs] c assms(2) show ?thesis by (cases "pictures (run_x11 imgs c)") auto
qed

theorem x11_pictures_exact_witness:
  "(\<forall>f\<in>set (run_x11 [None, Some [1, 2, 3]] \<lparr>xc_display = x11_display_of (\<lambda>_. '''') demo_x11 7 (demo_monitor 0),
      xc_buffer = replicate 8 0, xc_saved = []\<rparr>). x11_frame_ok (x11_display_of (\<lambda>_. '''') demo_x11 7 (demo_monitor 0)) f) \<and>
   distinct_adj (pictures (run_x11 [None, Some [1, 2, 3]] \<lparr>xc_display = x11_display_of (\<lambda>_. '''') demo_x11 7 (demo_monitor 0),
      xc_buffer = replicate 8 0, xc_saved = []\<rparr>))"
  by (rule x11_pictures_exact)
    (simp_all add: new_x11_capturer_def x11_size_def xd_width_def xd_height_def x11_display_of_def demo_monitor_def
      get_pixfmt_def demo_x11_def or_bgra_def bytes_per_pixel_def)

text \<open>
  A picture the X server does not deliver goes unnoticed: the answer is never looked at, so the capturer gives
  \<open>WouldBlock\<close>, as for a screen that did not change, and before the first answer a black picture.
\<close>

theorem lost_picture_unnoticed:
  "fst (x11_frame None (snd (x11_frame img c))) = FrameWouldBlock \<and>
   fst (x11_frame None \<lparr>xc_display = d, xc_buffer = replicate (Suc n) 0, xc_saved = []\<rparr>) =
     pixel_frame (replicate (Suc n) 0) (xd_fmt d) (xd_width d) (xd_height d)"
  by (simp add: x11_frame_def Let_def would_block_if_equal_def get_image_def)

text \<open>
  A capturer that is made and dropped gives its segment back: detached by the server, detached here and removed.
  When the segment cannot be attached it is never removed.
\<close>

theorem shm_segment_given_back:
  "(case new_x11_capturer got attached d of
     (Inr c, es) \<Rightarrow> es @ drop_x11_capturer c = [ShmGet, ShmAttach, XcbAttach, XcbDetach, ShmDetach, ShmRemove]
   | (Inl _, es) \<Rightarrow> es = (if got then [ShmGet] else []))"
  by (simp add: new_x11_capturer_def drop_x11_capturer_def)

end
