(* ===== verification/Quartz.thy ===== *)
theory Quartz
  imports PipeWire
begin

text \<open>
  The displays and the capture of macOS: \<open>libs/scrap/src/quartz/\<close> (\<open>display.rs\<close>, \<open>config.rs\<close>, \<open>frame.rs\<close>,
  \<open>capturer.rs\<close>) and \<open>common/quartz.rs\<close>. A stream of the system hands over surfaces by a callback; a frame holds its
  surface, counted and locked, until it is dropped. What the system answers and the surfaces are arguments.
\<close>

section \<open>Displays\<close>

text \<open>Sizes are in points; \<open>scale\<close> is the backing factor, kept only when it is above one and retina is enabled.\<close>

definition quartz_scale :: "bool \<Rightarrow> rat \<Rightarrow> rat" where
  "quartz_scale enable_retina s = (if s > 1 \<and> enable_retina then s else 1)"

text \<open>\<open>round\<close> of a product that is not negative, with halves upwards; the product of \<open>f64\<close> is taken as exact.\<close>

definition quartz_scaled :: "bool \<Rightarrow> rat \<Rightarrow> nat \<Rightarrow> nat" where
  "quartz_scaled enable_retina factor w =
    (let s = quartz_scale enable_retina factor in if s > 1 then nat \<lfloor>of_nat w * s + 1 / 2\<rfloor> else w)"

definition MAX_DISPLAYS :: nat where
  "MAX_DISPLAYS = 16"

text \<open>\<open>online\<close>: the system fills the array of sixteen with the first displays it has.\<close>

definition quartz_online :: "string + nat list \<Rightarrow> string + nat list" where
  "quartz_online listed = (case listed of Inl e \<Rightarrow> Inl e | Inr ids \<Rightarrow> Inr (take MAX_DISPLAYS ids))"

definition quartz_all :: "string + nat list \<Rightarrow> string + nat list" where
  "quartz_all listed = (case quartz_online listed of Inl _ \<Rightarrow> Inl ''Other'' | Inr ds \<Rightarrow> Inr ds)"

record quartz_config =
  qc_cursor :: bool
  qc_letterbox :: bool
  qc_throttle :: rat
  qc_queue_length :: int

definition default_quartz_config :: quartz_config where
  "default_quartz_config = \<lparr>qc_cursor = False, qc_letterbox = True, qc_throttle = 0, qc_queue_length = 3\<rparr>"

datatype config_value = ConfigBool bool | ConfigFloat rat | ConfigInt int

text \<open>The dictionary of \<open>build\<close>, by the names of its keys.\<close>

definition build_config :: "quartz_config \<Rightarrow> (string \<times> config_value) list" where
  "build_config c =
    [(''kCGDisplayStreamShowCursor'', ConfigBool (qc_cursor c)),
     (''kCGDisplayStreamPreserveAspectRatio'', ConfigBool (qc_letterbox c)),
     (''kCGDisplayStreamMinimumFrameTime'', ConfigFloat (qc_throttle c)),
     (''kCGDisplayStreamQueueDepth'', ConfigInt (qc_queue_length c))]"

section \<open>Frames\<close>

text \<open>A surface: its allocation, and where plane 0 starts in it with the bytes of a row.\<close>

record surface =
  su_id :: nat
  su_bytes :: bytes
  su_plane0 :: nat
  su_stride :: nat

record quartz_frame =
  qf_surface :: surface
  qf_inner :: bytes
  qf_bgra :: bytes
  qf_stride :: nat

datatype surface_event = Retain nat | IncrementUse nat | LockRead nat | UnlockRead nat | DecrementUse nat | Release nat

definition new_quartz_frame :: "surface \<Rightarrow> quartz_frame \<times> surface_event list" where
  "new_quartz_frame s =
    (\<lparr>qf_surface = s, qf_inner = su_bytes s, qf_bgra = [], qf_stride = 0\<rparr>,
     [Retain (su_id s), IncrementUse (su_id s), LockRead (su_id s)])"

definition drop_quartz_frame :: "quartz_frame \<Rightarrow> surface_event list" where
  "drop_quartz_frame f =
    (let i = su_id (qf_surface f) in [UnlockRead i, DecrementUse i, Release i])"

definition drop_cell :: "quartz_frame option \<Rightarrow> surface_event list" where
  "drop_cell c = (case c of None \<Rightarrow> [] | Some f \<Rightarrow> drop_quartz_frame f)"

text \<open>\<open>surface_to_bgra\<close> copies \<open>h\<close> rows from plane 0; a read past the allocation is \<open>None\<close>.\<close>

definition surface_to_bgra :: "nat \<Rightarrow> quartz_frame \<Rightarrow> quartz_frame option" where
  "surface_to_bgra h f =
    (let s = qf_surface f; n = su_stride s * h in
     if su_plane0 s + n \<le> length (su_bytes s)
     then Some (f\<lparr>qf_stride := su_stride s, qf_bgra := take n (drop (su_plane0 s) (su_bytes s))\<rparr>)
     else None)"

section \<open>The stream\<close>

datatype frame_status = FrameComplete | FrameIdle | FrameBlank | Stopped

datatype stream_event = QueueCreated | ConfigReleased | StreamCreated | StreamStopped | StreamReleased | QueueReleased

text \<open>\<open>quartz::Capturer::new\<close>, given the result of \<open>CGDisplayStreamStart\<close>.\<close>

definition new_stream :: "string + unit \<Rightarrow> (string + unit) \<times> stream_event list" where
  "new_stream started = (started, [QueueCreated, StreamCreated, ConfigReleased])"

text \<open>
  The loop of \<open>drop\<close>: each turn looks at the flag and then sleeps while callbacks arrive. The list has the statuses
  that arrive in each turn, and the result is whether the loop ended in these turns.
\<close>

fun wait_stopped :: "frame_status list list \<Rightarrow> bool \<Rightarrow> bool" where
  "wait_stopped turns stopped =
    (if stopped then True
     else case turns of [] \<Rightarrow> False | sts # turns \<Rightarrow> wait_stopped turns (stopped \<or> Stopped \<in> set sts))"

declare wait_stopped.simps [simp del]

definition drop_stream :: "frame_status list list \<Rightarrow> bool \<Rightarrow> stream_event list option" where
  "drop_stream turns stopped =
    (if wait_stopped turns stopped then Some [StreamStopped, StreamReleased, QueueReleased] else None)"

text \<open>
  The capturer of \<open>common/quartz.rs\<close>: the cell shared with the callback, the allocation compared last, the flag, and
  the frame its user still has.
\<close>

record quartz_capturer =
  qz_cell :: "quartz_frame option"
  qz_saved :: bytes
  qz_stopped :: bool
  qz_given :: "quartz_frame option"
  qz_w :: nat
  qz_h :: nat

definition new_quartz :: "nat \<Rightarrow> nat \<Rightarrow> quartz_capturer" where
  "new_quartz w h = \<lparr>qz_cell = None, qz_saved = [], qz_stopped = False, qz_given = None, qz_w = w, qz_h = h\<rparr>"

text \<open>The callback: the new frame is made before the cell is taken and the old one dropped.\<close>

definition on_status :: "frame_status \<Rightarrow> surface \<Rightarrow> quartz_capturer \<Rightarrow> quartz_capturer \<times> surface_event list" where
  "on_status st s q =
    (if st = Stopped then (q\<lparr>qz_stopped := True\<rparr>, [])
     else if st = FrameComplete
     then (case new_quartz_frame s of (f, es) \<Rightarrow> (q\<lparr>qz_cell := Some f\<rparr>, es @ drop_cell (qz_cell q)))
     else (q, []))"

text \<open>What the attempt to lock the cell gives.\<close>

datatype try_lock = Locked | LockBusy | LockPoisoned

definition quartz_picture :: "nat \<Rightarrow> nat \<Rightarrow> quartz_frame \<Rightarrow> frame_result" where
  "quartz_picture w h f =
    FrameOk \<lparr>pb_len = length (qf_bgra f), pb_stride = [qf_stride f], pb_fmt = PixBGRA, pb_w = w, pb_h = h\<rparr> (qf_bgra f)"

text \<open>\<open>TraitCapturer::frame\<close>; \<open>None\<close> is a read outside the surface. The frame of the call before is dropped by then.\<close>

definition quartz_take :: "try_lock \<Rightarrow> quartz_capturer \<Rightarrow> (frame_result \<times> quartz_capturer \<times> surface_event list) option" where
  "quartz_take l q =
    (case l of
       LockBusy \<Rightarrow> Some (FrameWouldBlock, q, [])
     | LockPoisoned \<Rightarrow> Some (FrameErr ''Other'', q, [])
     | Locked \<Rightarrow>
         (case qz_cell q of
            None \<Rightarrow> Some (FrameWouldBlock, q, [])
          | Some f \<Rightarrow>
              let (same, saved) = would_block_if_equal (qz_saved q) (qf_inner f);
                  q = q\<lparr>qz_cell := None, qz_saved := saved\<rparr>
              in if same then Some (FrameWouldBlock, q, drop_quartz_frame f)
                 else (case surface_to_bgra (qz_h q) f of
                         None \<Rightarrow> None
                       | Some f \<Rightarrow> Some (quartz_picture (qz_w q) (qz_h q) f, q\<lparr>qz_given := Some f\<rparr>, []))))"

definition drop_given :: "quartz_capturer \<Rightarrow> quartz_capturer \<times> surface_event list" where
  "drop_given q = (q\<lparr>qz_given := None\<rparr>, drop_cell (qz_given q))"

definition quartz_frame_of :: "try_lock \<Rightarrow> quartz_capturer \<Rightarrow> (frame_result \<times> quartz_capturer \<times> surface_event list) option" where
  "quartz_frame_of l q =
    (case drop_given q of (q, es) \<Rightarrow> map_option (\<lambda>(r, q, es'). (r, q, es @ es')) (quartz_take l q))"

text \<open>Dropping the capturer stops the stream and then drops the cell.\<close>

definition drop_quartz :: "quartz_capturer \<Rightarrow> surface_event list" where
  "drop_quartz q = drop_cell (qz_given q) @ drop_cell (qz_cell q)"

section \<open>A session\<close>

datatype quartz_step = Callback frame_status surface | TakeFrame try_lock

definition quartz_step :: "quartz_step \<Rightarrow> quartz_capturer \<Rightarrow> (frame_result list \<times> quartz_capturer \<times> surface_event list) option" where
  "quartz_step st q =
    (case st of
       Callback s u \<Rightarrow> (case on_status s u q of (q, es) \<Rightarrow> Some ([], q, es))
     | TakeFrame l \<Rightarrow> map_option (\<lambda>(r, q, es). ([r], q, es)) (quartz_frame_of l q))"

fun run_quartz :: "quartz_step list \<Rightarrow> quartz_capturer \<Rightarrow> (frame_result list \<times> quartz_capturer \<times> surface_event list) option" where
  "run_quartz [] q = Some ([], q, [])"
| "run_quartz (st # sts) q =
    Option.bind (quartz_step st q) (\<lambda>(rs, q, es).
    Option.bind (run_quartz sts q) (\<lambda>(rs', q, es'). Some (rs @ rs', q, es @ es')))"

section \<open>What is held\<close>

text \<open>Every count, use and lock of a surface is given back.\<close>

definition balanced :: "nat \<Rightarrow> surface_event list \<Rightarrow> bool" where
  "balanced i es \<longleftrightarrow>
    count_list es (LockRead i) = count_list es (UnlockRead i) \<and>
    count_list es (IncrementUse i) = count_list es (DecrementUse i) \<and>
    count_list es (Retain i) = count_list es (Release i)"

text \<open>How many surfaces are locked after some events.\<close>

definition lock_change :: "surface_event \<Rightarrow> int" where
  "lock_change e = (case e of LockRead _ \<Rightarrow> 1 | UnlockRead _ \<Rightarrow> - 1 | _ \<Rightarrow> 0)"

definition locked_after :: "surface_event list \<Rightarrow> int" where
  "locked_after es = sum_list (map lock_change es)"

definition held :: "nat \<Rightarrow> quartz_frame option \<Rightarrow> nat" where
  "held i c = (case c of None \<Rightarrow> 0 | Some f \<Rightarrow> if su_id (qf_surface f) = i then 1 else 0)"

definition accounted :: "nat \<Rightarrow> nat \<Rightarrow> surface_event list \<Rightarrow> nat \<Rightarrow> bool" where
  "accounted i m es n \<longleftrightarrow>
    m + count_list es (LockRead i) = count_list es (UnlockRead i) + n \<and>
    m + count_list es (IncrementUse i) = count_list es (DecrementUse i) + n \<and>
    m + count_list es (Retain i) = count_list es (Release i) + n"

lemma accounted_append: "accounted i m es n \<Longrightarrow> accounted i n fs k \<Longrightarrow> accounted i m (es @ fs) k"
  by (simp add: accounted_def)

lemma accounted_Nil [simp]: "accounted i m [] n \<longleftrightarrow> m = n"
  by (auto simp: accounted_def)

lemma accounted_drop_cell: "accounted i (held i c + n) (drop_cell c) n"
  by (auto simp: accounted_def held_def drop_cell_def drop_quartz_frame_def Let_def split: option.split)

definition in_state :: "nat \<Rightarrow> quartz_capturer \<Rightarrow> nat" where
  "in_state i q = held i (qz_cell q) + held i (qz_given q)"

lemma surface_to_bgra_surface: "surface_to_bgra h f = Some f' \<Longrightarrow> qf_surface f' = qf_surface f"
  by (auto simp: surface_to_bgra_def Let_def split: if_splits)

lemma on_status_accounted: "on_status st s q = (q', es) \<Longrightarrow> accounted i (in_state i q) es (in_state i q')"
  by (cases "qz_cell q") (auto simp: on_status_def in_state_def held_def new_quartz_frame_def accounted_def
    drop_cell_def drop_quartz_frame_def Let_def split: if_splits)

lemma quartz_take_accounted:
  assumes "quartz_take l q = Some (r, q', es)" "qz_given q = None"
  shows "accounted i (in_state i q) es (in_state i q')"
  using assms by (cases "qz_cell q")
    (auto simp: quartz_take_def in_state_def held_def accounted_def drop_quartz_frame_def Let_def would_block_if_equal_def
      dest: surface_to_bgra_surface split: try_lock.splits if_splits option.splits)

lemma drop_given_accounted: "drop_given q = (q', es) \<Longrightarrow> accounted i (in_state i q) es (in_state i q')"
  using accounted_drop_cell [of i "qz_given q" "held i (qz_cell q)"]
  by (auto simp: drop_given_def in_state_def held_def [of _ None] add.commute)

lemma quartz_step_accounted:
  assumes "quartz_step st q = Some (rs, q', es)"
  shows "accounted i (in_state i q) es (in_state i q')"
proof (cases st)
  case (Callback s u)
  then show ?thesis using assms by (auto simp: quartz_step_def dest: on_status_accounted split: prod.splits)
next
  case (TakeFrame l)
  obtain q1 es1 where d: "drop_given q = (q1, es1)" by fastforce
  then have "qz_given q1 = None" by (auto simp: drop_given_def)
  then show ?thesis using assms TakeFrame d drop_given_accounted [OF d] quartz_take_accounted [of l q1]
    by (auto simp: quartz_step_def quartz_frame_of_def intro: accounted_append [where n = "in_state i q1"])
qed

lemma run_quartz_accounted:
  "run_quartz sts q = Some (rs, q', es) \<Longrightarrow> accounted i (in_state i q) es (in_state i q')"
proof (induction sts arbitrary: q rs es)
  case (Cons st sts)
  then show ?case
    by (fastforce simp: bind_eq_Some_conv intro: accounted_append quartz_step_accounted)
qed simp

lemma drop_quartz_accounted: "accounted i (in_state i q) (drop_quartz q) 0"
  using accounted_append [OF accounted_drop_cell [of i "qz_given q" "held i (qz_cell q)"]
      accounted_drop_cell [of i "qz_cell q" 0, simplified]]
  by (simp add: in_state_def drop_quartz_def add.commute)

text \<open>The number of locked surfaces stays between bounds all along.\<close>

definition stays :: "int \<Rightarrow> surface_event list \<Rightarrow> bool" where
  "stays d es \<longleftrightarrow> (\<forall>k. 0 \<le> d + locked_after (take k es) \<and> d + locked_after (take k es) \<le> 3)"

lemma stays_Cons: "stays d (e # es) \<longleftrightarrow> 0 \<le> d \<and> d \<le> 3 \<and> stays (d + lock_change e) es"
proof
  assume a: "stays d (e # es)"
  have "stays (d + lock_change e) es" unfolding stays_def
  proof
    fix k
    show "0 \<le> d + lock_change e + locked_after (take k es) \<and> d + lock_change e + locked_after (take k es) \<le> 3"
      using a [unfolded stays_def, rule_format, of "Suc k"] by (simp add: locked_after_def algebra_simps)
  qed
  then show "0 \<le> d \<and> d \<le> 3 \<and> stays (d + lock_change e) es"
    using a [unfolded stays_def, rule_format, of 0] by (simp add: locked_after_def)
next
  assume a: "0 \<le> d \<and> d \<le> 3 \<and> stays (d + lock_change e) es"
  show "stays d (e # es)" unfolding stays_def
  proof
    fix k
    show "0 \<le> d + locked_after (take k (e # es)) \<and> d + locked_after (take k (e # es)) \<le> 3"
      using a by (cases k) (auto simp: stays_def locked_after_def algebra_simps)
  qed
qed

lemma stays_Nil: "stays d [] \<longleftrightarrow> 0 \<le> d \<and> d \<le> 3"
  by (simp add: stays_def locked_after_def)

lemma stays_append: "stays d (es @ fs) \<longleftrightarrow> stays d es \<and> stays (d + locked_after es) fs"
  by (induction es arbitrary: d) (auto simp: stays_Cons stays_Nil locked_after_def algebra_simps,
    auto simp: stays_def locked_after_def dest: spec [of _ 0])

definition holding :: "quartz_capturer \<Rightarrow> int" where
  "holding q = (if qz_cell q = None then 0 else 1) + (if qz_given q = None then 0 else 1)"

lemma holding_range: "0 \<le> holding q" "holding q \<le> 2"
  by (auto simp: holding_def)

lemma locked_drop_cell: "locked_after (drop_cell c) = (if c = None then 0 else - 1)"
  by (auto simp: locked_after_def drop_cell_def drop_quartz_frame_def Let_def lock_change_def split: option.split)

lemma stays_drop_cell: "stays d (drop_cell c) \<longleftrightarrow> 0 \<le> d + locked_after (drop_cell c) \<and> 0 \<le> d \<and> d \<le> 3"
  by (auto simp: locked_after_def drop_cell_def drop_quartz_frame_def Let_def lock_change_def stays_Cons stays_Nil
      split: option.split)

lemma locked_append [simp]: "locked_after (es @ fs) = locked_after es + locked_after fs"
  by (simp add: locked_after_def)

text \<open>A step leaves as many surfaces locked as there are frames, and is between its bounds meanwhile.\<close>

definition steps_to :: "quartz_capturer \<Rightarrow> surface_event list \<Rightarrow> quartz_capturer \<Rightarrow> bool" where
  "steps_to q es q' \<longleftrightarrow> stays (holding q) es \<and> holding q + locked_after es = holding q'"

lemma steps_to_append: "steps_to q es q1 \<Longrightarrow> steps_to q1 fs q' \<Longrightarrow> steps_to q (es @ fs) q'"
  by (simp add: steps_to_def stays_append)

lemma steps_to_Nil: "holding q = holding q' \<Longrightarrow> steps_to q [] q'"
  using holding_range [of q] by (auto simp: steps_to_def stays_Nil locked_after_def)

lemma on_status_holding: "on_status st s q = (q', es) \<Longrightarrow> steps_to q es q'"
  by (cases "qz_cell q"; cases "qz_given q")
    (auto simp: on_status_def holding_def new_quartz_frame_def steps_to_def stays_Cons stays_Nil locked_after_def
      drop_cell_def drop_quartz_frame_def Let_def lock_change_def split: if_splits)

lemma drop_given_holding: "drop_given q = (q', es) \<Longrightarrow> steps_to q es q'"
  by (auto simp: drop_given_def steps_to_def stays_drop_cell locked_drop_cell holding_def)

lemma quartz_take_holding:
  assumes "quartz_take l q = Some (r, q', es)" "qz_given q = None"
  shows "steps_to q es q'"
  using assms by (cases "qz_cell q")
    (auto simp: quartz_take_def holding_def steps_to_def stays_Cons stays_Nil locked_after_def lock_change_def
      drop_quartz_frame_def Let_def split: try_lock.splits if_splits option.splits prod.splits)

lemma quartz_step_holding:
  assumes "quartz_step st q = Some (rs, q', es)"
  shows "steps_to q es q'"
proof (cases st)
  case (Callback s u)
  then show ?thesis using assms by (auto simp: quartz_step_def dest: on_status_holding split: prod.splits)
next
  case (TakeFrame l)
  obtain q1 es1 where d: "drop_given q = (q1, es1)" by fastforce
  then have "qz_given q1 = None" by (auto simp: drop_given_def)
  then show ?thesis using assms TakeFrame d drop_given_holding [OF d] quartz_take_holding [of l q1]
    by (auto simp: quartz_step_def quartz_frame_of_def intro: steps_to_append)
qed

lemma run_quartz_holding: "run_quartz sts q = Some (rs, q', es) \<Longrightarrow> steps_to q es q'"
proof (induction sts arbitrary: q rs es)
  case (Cons st sts)
  then show ?case by (fastforce simp: bind_eq_Some_conv intro: steps_to_append quartz_step_holding)
qed (simp add: steps_to_Nil)

end
