(* ===== verification/QuartzProps.thy ===== *)
theory QuartzProps
  imports Quartz
begin

text \<open>
  What the capture of macOS keeps: surfaces are given back, at most as many are locked as the queue has, and the
  pictures are the rows of the surface that came last.
\<close>

section \<open>Pictures\<close>

text \<open>The surfaces of the stream have the rows that are copied.\<close>

definition surface_fits :: "nat \<Rightarrow> surface \<Rightarrow> bool" where
  "surface_fits h s \<longleftrightarrow> su_plane0 s + su_stride s * h \<le> length (su_bytes s)"

definition rows_of :: "nat \<Rightarrow> surface \<Rightarrow> bytes" where
  "rows_of h s = take (su_stride s * h) (drop (su_plane0 s) (su_bytes s))"

definition picture_of :: "nat \<Rightarrow> nat \<Rightarrow> surface \<Rightarrow> frame_result" where
  "picture_of w h s = FrameOk \<lparr>pb_len = su_stride s * h, pb_stride = [su_stride s], pb_fmt = PixBGRA, pb_w = w, pb_h = h\<rparr>
     (rows_of h s)"

text \<open>The surface of the last complete frame among callbacks.\<close>

fun last_complete :: "(frame_status \<times> surface) list \<Rightarrow> surface option \<Rightarrow> surface option" where
  "last_complete [] s = s"
| "last_complete ((st, u) # cbs) s = last_complete cbs (if st = FrameComplete then Some u else s)"

definition cell_surface :: "quartz_capturer \<Rightarrow> surface option" where
  "cell_surface q = map_option qf_surface (qz_cell q)"

definition cell_plain :: "quartz_capturer \<Rightarrow> bool" where
  "cell_plain q \<longleftrightarrow> (\<forall>f. qz_cell q = Some f \<longrightarrow> qf_inner f = su_bytes (qf_surface f))"

definition same_sizes :: "quartz_capturer \<Rightarrow> quartz_capturer \<Rightarrow> bool" where
  "same_sizes q q' \<longleftrightarrow> qz_w q' = qz_w q \<and> qz_h q' = qz_h q"

lemma same_sizes_trans: "same_sizes q q1 \<Longrightarrow> same_sizes q1 q2 \<Longrightarrow> same_sizes q q2"
  by (simp add: same_sizes_def)

lemma surface_to_bgra_fits:
  "surface_fits h (qf_surface f) \<Longrightarrow> surface_to_bgra h f =
    Some (f\<lparr>qf_stride := su_stride (qf_surface f), qf_bgra := rows_of h (qf_surface f)\<rparr>)"
  by (simp add: surface_to_bgra_def surface_fits_def rows_of_def Let_def)

lemma length_rows_of: "surface_fits h s \<Longrightarrow> length (rows_of h s) = su_stride s * h"
  by (simp add: rows_of_def surface_fits_def)

lemma on_status_cell:
  assumes "on_status st s q = (q', es)" "cell_plain q"
  shows "cell_plain q' \<and> same_sizes q q' \<and> qz_saved q' = qz_saved q \<and>
    cell_surface q' = (if st = FrameComplete then Some s else cell_surface q)"
  using assms
  by (auto simp: on_status_def cell_plain_def same_sizes_def cell_surface_def new_quartz_frame_def split: if_splits)

text \<open>What one call gives when the surface in the cell fits.\<close>

lemma quartz_frame_of_cell:
  assumes "cell_plain q" "\<forall>s. cell_surface q = Some s \<longrightarrow> surface_fits (qz_h q) s"
  shows "\<exists>r q' es. quartz_frame_of l q = Some (r, q', es) \<and> cell_plain q' \<and> same_sizes q q' \<and>
    (\<forall>s. cell_surface q' = Some s \<longrightarrow> cell_surface q = Some s) \<and>
    (r = FrameWouldBlock \<or> r = FrameErr ''Other'' \<or>
      (\<exists>s. cell_surface q = Some s \<and> r = picture_of (qz_w q) (qz_h q) s))"
  using assms by (cases l; cases "qz_cell q")
    (auto simp: quartz_frame_of_def drop_given_def quartz_take_def cell_plain_def same_sizes_def cell_surface_def
      would_block_if_equal_def surface_to_bgra_fits quartz_picture_def picture_of_def length_rows_of)

definition steps_fit :: "nat \<Rightarrow> quartz_step list \<Rightarrow> bool" where
  "steps_fit h sts \<longleftrightarrow> (\<forall>st s. Callback st s \<in> set sts \<longrightarrow> surface_fits h s)"

definition frame_fits :: "nat \<Rightarrow> nat \<Rightarrow> surface set \<Rightarrow> frame_result \<Rightarrow> bool" where
  "frame_fits w h ss r \<longleftrightarrow>
    r = FrameWouldBlock \<or> r = FrameErr ''Other'' \<or> (\<exists>s\<in>ss. r = picture_of w h s)"

definition surfaces_of :: "quartz_step list \<Rightarrow> surface set" where
  "surfaces_of sts = {s. \<exists>st. Callback st s \<in> set sts}"

lemma run_quartz_fits:
  assumes "cell_plain q" "steps_fit (qz_h q) sts"
    and "\<forall>s. cell_surface q = Some s \<longrightarrow> s \<in> ss \<and> surface_fits (qz_h q) s" "surfaces_of sts \<subseteq> ss"
  shows "\<exists>rs q' es. run_quartz sts q = Some (rs, q', es) \<and> (\<forall>r\<in>set rs. frame_fits (qz_w q) (qz_h q) ss r)"
  using assms
proof (induction sts arbitrary: q)
  case (Cons st sts)
  have "\<exists>rs q1 es. quartz_step st q = Some (rs, q1, es) \<and> cell_plain q1 \<and> same_sizes q q1 \<and>
      (\<forall>s. cell_surface q1 = Some s \<longrightarrow> s \<in> ss \<and> surface_fits (qz_h q) s) \<and>
      (\<forall>r\<in>set rs. frame_fits (qz_w q) (qz_h q) ss r)"
  proof (cases st)
    case (Callback fs s)
    obtain q1 es where c: "on_status fs s q = (q1, es)" by fastforce
    have "s \<in> ss" "surface_fits (qz_h q) s"
      using Cons.prems(2,4) Callback by (auto simp: steps_fit_def surfaces_of_def)
    then show ?thesis using c Callback on_status_cell [OF c Cons.prems(1)] Cons.prems(3)
      by (auto simp: quartz_step_def)
  next
    case (TakeFrame l)
    then show ?thesis using quartz_frame_of_cell [OF Cons.prems(1), of l] Cons.prems(3)
      by (fastforce simp: quartz_step_def frame_fits_def)
  qed
  then obtain rs q1 es where s: "quartz_step st q = Some (rs, q1, es)" "cell_plain q1" "same_sizes q q1"
    "\<forall>s. cell_surface q1 = Some s \<longrightarrow> s \<in> ss \<and> surface_fits (qz_h q) s" "\<forall>r\<in>set rs. frame_fits (qz_w q) (qz_h q) ss r"
    by blast
  have "steps_fit (qz_h q1) sts" "surfaces_of sts \<subseteq> ss"
    using Cons.prems(2,4) s(3) by (auto simp: steps_fit_def surfaces_of_def same_sizes_def)
  then show ?case using Cons.IH [OF s(2)] s by (fastforce simp: same_sizes_def)
qed simp

section \<open>Properties\<close>

text \<open>
  C37: In every session of callbacks and frames, each surface that was retained, counted and locked is given back
  when the capturer is dropped, and never are more surfaces locked at a time than the queue of the stream has.
\<close>

theorem surfaces_given_back:
  assumes "run_quartz sts (new_quartz w h) = Some (rs, q, es)"
  shows "balanced i (es @ drop_quartz q) \<and>
    0 \<le> locked_after (take k es) \<and> locked_after (take k es) \<le> qc_queue_length default_quartz_config"
proof -
  have "accounted i (in_state i (new_quartz w h)) (es @ drop_quartz q) 0"
    using accounted_append [OF run_quartz_accounted [OF assms] drop_quartz_accounted] .
  moreover have "stays 0 es"
    using run_quartz_holding [OF assms] by (simp add: steps_to_def holding_def new_quartz_def)
  ultimately show ?thesis
    by (simp add: accounted_def balanced_def in_state_def new_quartz_def held_def stays_def default_quartz_config_def)
qed

definition demo_surface :: "nat \<Rightarrow> surface" where
  "demo_surface i = \<lparr>su_id = i, su_bytes = [of_nat i, 1, 2, 3, 4, 5, 6, 7, 8], su_plane0 = 1, su_stride = 4\<rparr>"

definition demo_quartz :: "quartz_step list" where
  "demo_quartz = [Callback FrameComplete (demo_surface 1), TakeFrame Locked, Callback FrameComplete (demo_surface 2),
     Callback FrameIdle (demo_surface 3), Callback FrameComplete (demo_surface 4), TakeFrame Locked]"

lemmas quartz_run_simps = demo_quartz_def demo_surface_def quartz_step_def on_status_def new_quartz_frame_def
  quartz_frame_of_def drop_given_def quartz_take_def would_block_if_equal_def surface_to_bgra_def quartz_picture_def
  new_quartz_def drop_cell_def drop_quartz_frame_def Let_def

lemma demo_quartz_run: "\<exists>q. run_quartz demo_quartz (new_quartz 1 2) =
  Some ([picture_of 1 2 (demo_surface 1), picture_of 1 2 (demo_surface 4)], q,
   [Retain 1, IncrementUse 1, LockRead 1, Retain 2, IncrementUse 2, LockRead 2, Retain 4, IncrementUse 4, LockRead 4,
    UnlockRead 2, DecrementUse 2, Release 2, UnlockRead 1, DecrementUse 1, Release 1])"
  by (simp add: quartz_run_simps picture_of_def rows_of_def)

theorem surfaces_given_back_witness:
  "\<exists>rs q es. run_quartz demo_quartz (new_quartz 1 2) = Some (rs, q, es) \<and> balanced 4 (es @ drop_quartz q) \<and>
    locked_after (take 9 es) = 3"
proof -
  obtain rs q es where r: "run_quartz demo_quartz (new_quartz 1 2) = Some (rs, q, es)"
    "locked_after (take 9 es) = 3"
    using demo_quartz_run by (fastforce simp: locked_after_def lock_change_def)
  from surfaces_given_back [OF r(1), of 4 9] r show ?thesis by blast
qed

text \<open>
  When the surfaces have the rows of the display, a session never reads outside of one, and each picture it hands
  out is the rows of plane 0 of a surface that was delivered, with the stride of that surface.
\<close>

theorem quartz_pictures_rows:
  assumes "steps_fit h sts"
  shows "\<exists>rs q es. run_quartz sts (new_quartz w h) = Some (rs, q, es) \<and>
    (\<forall>r\<in>set rs. frame_fits w h (surfaces_of sts) r)"
  using run_quartz_fits [of "new_quartz w h" sts "surfaces_of sts"] assms
  by (simp add: new_quartz_def cell_plain_def cell_surface_def)

theorem quartz_pictures_rows_witness:
  "\<exists>rs q es. run_quartz demo_quartz (new_quartz 1 2) = Some (rs, q, es) \<and>
    (\<forall>r\<in>set rs. frame_fits 1 2 (surfaces_of demo_quartz) r)"
  by (rule quartz_pictures_rows) (auto simp: steps_fit_def demo_quartz_def demo_surface_def surface_fits_def)

text \<open>The callbacks between two frames.\<close>

fun run_quartz_callbacks :: "(frame_status \<times> surface) list \<Rightarrow> quartz_capturer \<Rightarrow> quartz_capturer" where
  "run_quartz_callbacks [] q = q"
| "run_quartz_callbacks ((st, s) # cbs) q = run_quartz_callbacks cbs (fst (on_status st s q))"

lemma run_quartz_callbacks_cell:
  "cell_plain q \<Longrightarrow> cell_plain (run_quartz_callbacks cbs q) \<and> same_sizes q (run_quartz_callbacks cbs q) \<and>
    qz_saved (run_quartz_callbacks cbs q) = qz_saved q \<and>
    cell_surface (run_quartz_callbacks cbs q) = last_complete cbs (cell_surface q)"
proof (induction cbs arbitrary: q)
  case (Cons cb cbs)
  obtain st s where cb: "cb = (st, s)" by fastforce
  obtain q1 es where o: "on_status st s q = (q1, es)" by fastforce
  from Cons.IH [of q1] on_status_cell [OF o Cons.prems] show ?case by (auto simp: cb o same_sizes_def)
qed (simp add: same_sizes_def)

text \<open>
  Of the surfaces delivered between two frames the last complete one is handed out, and only when its allocation
  differs from the one compared before; the others are dropped unseen.
\<close>

theorem latest_surface_taken:
  assumes "last_complete cbs None = Some s" "surface_fits h s" "su_bytes s \<noteq> []"
  shows "map_option fst (quartz_frame_of Locked (run_quartz_callbacks cbs (new_quartz w h))) = Some (picture_of w h s) \<and>
    map_option (\<lambda>(_, q, _). map_option fst (quartz_frame_of Locked (fst (on_status FrameComplete s q))))
      (quartz_frame_of Locked (run_quartz_callbacks cbs (new_quartz w h))) = Some (Some FrameWouldBlock)"
proof -
  define q where "q = run_quartz_callbacks cbs (new_quartz w h)"
  have q: "cell_plain q" "same_sizes (new_quartz w h) q" "qz_saved q = []" "cell_surface q = Some s"
    using run_quartz_callbacks_cell [of "new_quartz w h" cbs] assms(1)
    by (auto simp: q_def cell_plain_def cell_surface_def new_quartz_def)
  then obtain f where f: "qz_cell q = Some f" "qf_surface f = s" "qf_inner f = su_bytes s"
    by (auto simp: cell_surface_def cell_plain_def)
  have h: "qz_h q = h" "qz_w q = w" using q(2) by (auto simp: same_sizes_def new_quartz_def)
  show ?thesis unfolding q_def [symmetric] using f h q(3) assms(2,3)
    by (simp add: quartz_frame_of_def drop_given_def quartz_take_def would_block_if_equal_def surface_to_bgra_fits
        quartz_picture_def picture_of_def length_rows_of on_status_def new_quartz_frame_def)
qed

theorem latest_surface_taken_witness:
  "map_option fst (quartz_frame_of Locked (run_quartz_callbacks [(FrameComplete, demo_surface 1), (FrameComplete, demo_surface 2),
      (FrameIdle, demo_surface 3)] (new_quartz 1 2))) = Some (picture_of 1 2 (demo_surface 2))"
  using latest_surface_taken [of "[(FrameComplete, demo_surface 1), (FrameComplete, demo_surface 2),
      (FrameIdle, demo_surface 3)]" "demo_surface 2" 2 1]
  by (simp add: surface_fits_def demo_surface_def)

lemma wait_stopped_iff: "wait_stopped turns stopped \<longleftrightarrow> stopped \<or> (\<exists>sts\<in>set turns. Stopped \<in> set sts)"
  by (induction turns arbitrary: stopped) (auto simp: wait_stopped.simps [of _ stopped for stopped] wait_stopped.simps)

text \<open>
  Dropping a capturer ends exactly when the callback was or is called with \<open>Stopped\<close>, and then gives back the
  stream and its queue; without that callback it waits forever.
\<close>

theorem drop_waits_for_stopped:
  "drop_stream turns stopped =
    (if stopped \<or> (\<exists>sts\<in>set turns. Stopped \<in> set sts) then Some [StreamStopped, StreamReleased, QueueReleased] else None)"
  by (simp add: drop_stream_def wait_stopped_iff)

text \<open>A stream that does not start is an error which leaves the queue and the stream behind.\<close>

theorem failed_start_leaks:
  "fst (new_stream (Inl e)) = Inl e \<and> StreamCreated \<in> set (snd (new_stream (Inl e))) \<and>
    QueueCreated \<in> set (snd (new_stream (Inl e))) \<and>
    set (snd (new_stream (Inl e))) \<inter> {StreamReleased, QueueReleased} = {}"
  by (simp add: new_stream_def)

end
