(* ===== verification/VirtualDisplay.thy ===== *)
theory VirtualDisplay
  imports Prelude
begin

text \<open>
  The virtual displays of Windows: the library \<open>libs/virtual_display/dylib/src/lib.rs\<close> over its driver, and
  \<open>libs/virtual_display/src/lib.rs\<close>, which loads that library and remembers the monitors it plugged in. The driver is
  an argument: each call of it succeeds or fails with a message.
\<close>

section \<open>The library over the driver\<close>

datatype driver_call =
    DeviceCreate
  | DeviceClose u64
  | InstallUpdate string
  | Uninstall string
  | MonitorPlugIn u32 u32 u32
  | MonitorPlugOut u32
  | MonitorModesUpdate u32 "(u32 \<times> u32 \<times> u32) list"

text \<open>
  What a call gives: success, with the handle of a new device or whether a reboot is required, or a failure with the
  last message, which may not be valid UTF-8.
\<close>

datatype driver_answer = DriverOk u64 bool | DriverFailed "string option"

text \<open>The driver, the directory of the executable when it has one, and whether a path exists.\<close>

record driver =
  dr_call :: "driver_call \<Rightarrow> driver_answer"
  dr_exe_parent :: "string + string option"
  dr_exists :: "string \<Rightarrow> bool"

definition DRIVER_INSTALL_PATH :: string where
  "DRIVER_INSTALL_PATH = ''RustDeskIddDriver/RustDeskIddDriver.inf''"

definition last_msg :: "string option \<Rightarrow> string" where
  "last_msg m = (case m of Some m \<Rightarrow> m | None \<Rightarrow> ''invalid utf-8'')"

definition get_driver_install_abs_path :: "driver \<Rightarrow> string + string" where
  "get_driver_install_abs_path D =
    (case dr_exe_parent D of
       Inl e \<Rightarrow> Inl e
     | Inr None \<Rightarrow> Inl ''Invalid exe parent''
     | Inr (Some dir) \<Rightarrow>
         let p = dir @ ''/'' @ DRIVER_INSTALL_PATH in
         if dr_exists D p then Inr p else Inl (DRIVER_INSTALL_PATH @ '' not exists''))"

text \<open>The device is the global \<open>H_SW_DEVICE\<close>; zero is none.\<close>

definition dylib_is_device_created :: "u64 \<Rightarrow> bool" where
  "dylib_is_device_created dev \<longleftrightarrow> dev \<noteq> 0"

text \<open>Each operation gives its result, the device after it and the calls it made.\<close>

definition dylib_create_device :: "driver \<Rightarrow> u64 \<Rightarrow> (string + unit) \<times> u64 \<times> driver_call list" where
  "dylib_create_device D dev =
    (if dylib_is_device_created dev then (Inr (), dev, [])
     else case dr_call D DeviceCreate of
            DriverOk h _ \<Rightarrow> (Inr (), h, [DeviceCreate])
          | DriverFailed m \<Rightarrow> (Inl (last_msg m), dev, [DeviceCreate]))"

definition dylib_close_device :: "u64 \<Rightarrow> u64 \<times> driver_call list" where
  "dylib_close_device dev = (0, [DeviceClose dev])"

text \<open>The result of installing has whether a reboot is required.\<close>

definition dylib_install_update_driver :: "driver \<Rightarrow> u64 \<Rightarrow> (string + bool) \<times> u64 \<times> driver_call list" where
  "dylib_install_update_driver D dev =
    (case dylib_create_device D dev of
       (Inl e, dev, cs) \<Rightarrow> (Inl e, dev, cs)
     | (Inr _, dev, cs) \<Rightarrow>
         (case get_driver_install_abs_path D of
            Inl e \<Rightarrow> (Inl e, dev, cs)
          | Inr p \<Rightarrow>
              (case dr_call D (InstallUpdate p) of
                 DriverOk _ reboot \<Rightarrow> (Inr reboot, dev, cs @ [InstallUpdate p])
               | DriverFailed m \<Rightarrow> (Inl (last_msg m), dev, cs @ [InstallUpdate p]))))"

definition dylib_uninstall_driver :: "driver \<Rightarrow> (string + bool) \<times> driver_call list" where
  "dylib_uninstall_driver D =
    (case get_driver_install_abs_path D of
       Inl e \<Rightarrow> (Inl e, [])
     | Inr p \<Rightarrow>
         (case dr_call D (Uninstall p) of
            DriverOk _ reboot \<Rightarrow> (Inr reboot, [Uninstall p])
          | DriverFailed m \<Rightarrow> (Inl (last_msg m), [Uninstall p])))"

text \<open>Plugging in and out, and new modes, are each one call.\<close>

definition call_driver :: "driver \<Rightarrow> driver_call \<Rightarrow> string + unit" where
  "call_driver D c = (case dr_call D c of DriverOk _ _ \<Rightarrow> Inr () | DriverFailed m \<Rightarrow> Inl (last_msg m))"

definition dylib_plug_in_monitor :: "driver \<Rightarrow> u32 \<Rightarrow> u32 \<Rightarrow> u32 \<Rightarrow> string + unit" where
  "dylib_plug_in_monitor D i edid retries = call_driver D (MonitorPlugIn i edid retries)"

definition dylib_plug_out_monitor :: "driver \<Rightarrow> u32 \<Rightarrow> string + unit" where
  "dylib_plug_out_monitor D i = call_driver D (MonitorPlugOut i)"

definition dylib_update_monitor_modes :: "driver \<Rightarrow> u32 \<Rightarrow> (u32 \<times> u32 \<times> u32) list \<Rightarrow> string + unit" where
  "dylib_update_monitor_modes D i modes = call_driver D (MonitorModesUpdate i modes)"

section \<open>The wrapper\<close>

text \<open>
  The wrapper: whether the library was loaded and which methods it has, \<open>MONITOR_INDICES\<close>, and the device inside the
  library with the calls made to the driver so far.
\<close>

record vd_state =
  vd_loaded :: bool
  vd_methods :: "string list"
  vd_indices :: "u32 set"
  vd_device :: u64
  vd_calls :: "driver_call list"

definition vd_methods_names :: "string list" where
  "vd_methods_names = [''get_driver_install_path'', ''is_device_created'', ''close_device'', ''download_driver'',
     ''create_device'', ''install_update_driver'', ''uninstall_driver'', ''plug_in_monitor'', ''plug_out_monitor'',
     ''update_monitor_modes'']"

text \<open>\<open>LibWrapper::new\<close>, given whether the library opens and which symbols it has.\<close>

definition new_lib_wrapper :: "bool \<Rightarrow> (string \<Rightarrow> bool) \<Rightarrow> vd_state" where
  "new_lib_wrapper opens symbols =
    \<lparr>vd_loaded = opens, vd_methods = (if opens then filter symbols vd_methods_names else []), vd_indices = {},
     vd_device = 0, vd_calls = []\<rparr>"

definition has_method :: "vd_state \<Rightarrow> string \<Rightarrow> bool" where
  "has_method s f \<longleftrightarrow> f \<in> set (vd_methods s)"

definition not_found :: "string \<Rightarrow> string" where
  "not_found f = f @ '' method not found''"

definition vd_is_device_created :: "vd_state \<Rightarrow> bool" where
  "vd_is_device_created s \<longleftrightarrow> has_method s ''is_device_created'' \<and> dylib_is_device_created (vd_device s)"

definition vd_close_device :: "vd_state \<Rightarrow> vd_state" where
  "vd_close_device s =
    (if has_method s ''close_device''
     then (case dylib_close_device (vd_device s) of (dev, cs) \<Rightarrow> s\<lparr>vd_device := dev, vd_calls := vd_calls s @ cs\<rparr>)
     else s)"

definition vd_create_device :: "driver \<Rightarrow> vd_state \<Rightarrow> (string + unit) \<times> vd_state" where
  "vd_create_device D s =
    (if has_method s ''create_device''
     then (case dylib_create_device D (vd_device s) of
             (r, dev, cs) \<Rightarrow> (r, s\<lparr>vd_device := dev, vd_calls := vd_calls s @ cs\<rparr>))
     else (Inl (not_found ''create_device''), s))"

definition vd_install_update_driver :: "driver \<Rightarrow> vd_state \<Rightarrow> (string + bool) \<times> vd_state" where
  "vd_install_update_driver D s =
    (if has_method s ''install_update_driver''
     then (case dylib_install_update_driver D (vd_device s) of
             (r, dev, cs) \<Rightarrow> (r, s\<lparr>vd_device := dev, vd_calls := vd_calls s @ cs\<rparr>))
     else (Inl (not_found ''install_update_driver''), s))"

definition vd_uninstall_driver :: "driver \<Rightarrow> vd_state \<Rightarrow> (string + bool) \<times> vd_state" where
  "vd_uninstall_driver D s =
    (if has_method s ''uninstall_driver''
     then (case dylib_uninstall_driver D of (r, cs) \<Rightarrow> (r, s\<lparr>vd_calls := vd_calls s @ cs\<rparr>))
     else (Inl (not_found ''uninstall_driver''), s))"

definition plug_in_monitor :: "driver \<Rightarrow> u32 \<Rightarrow> vd_state \<Rightarrow> (string + unit) \<times> vd_state" where
  "plug_in_monitor D i s =
    (if i \<in> vd_indices s then (Inr (), s)
     else if \<not> has_method s ''plug_in_monitor'' then (Inl (not_found ''plug_in_monitor''), s)
     else
       let s = s\<lparr>vd_calls := vd_calls s @ [MonitorPlugIn i 0 20]\<rparr> in
       case dylib_plug_in_monitor D i 0 20 of
         Inl e \<Rightarrow> (Inl e, s)
       | Inr _ \<Rightarrow> (Inr (), s\<lparr>vd_indices := insert i (vd_indices s)\<rparr>))"

definition plug_out_monitor :: "driver \<Rightarrow> u32 \<Rightarrow> vd_state \<Rightarrow> (string + unit) \<times> vd_state" where
  "plug_out_monitor D i s =
    (if \<not> has_method s ''plug_out_monitor'' then (Inl (not_found ''plug_out_monitor''), s)
     else
       let s = s\<lparr>vd_calls := vd_calls s @ [MonitorPlugOut i]\<rparr> in
       case dylib_plug_out_monitor D i of
         Inl e \<Rightarrow> (Inl e, s)
       | Inr _ \<Rightarrow> (Inr (), s\<lparr>vd_indices := vd_indices s - {i}\<rparr>))"

definition update_monitor_modes :: "driver \<Rightarrow> u32 \<Rightarrow> (u32 \<times> u32 \<times> u32) list \<Rightarrow> vd_state \<Rightarrow> (string + unit) \<times> vd_state" where
  "update_monitor_modes D i modes s =
    (if \<not> has_method s ''update_monitor_modes'' then (Inl (not_found ''update_monitor_modes''), s)
     else (dylib_update_monitor_modes D i modes, s\<lparr>vd_calls := vd_calls s @ [MonitorModesUpdate i modes]\<rparr>))"

section \<open>Runs\<close>

datatype vd_op = PlugIn u32 | PlugOut u32 | UpdateModes u32 "(u32 \<times> u32 \<times> u32) list" | Create | Close

text \<open>Each operation of a run with the driver as it is then.\<close>

definition vd_step :: "driver \<times> vd_op \<Rightarrow> vd_state \<Rightarrow> vd_state" where
  "vd_step x s =
    (case x of
       (D, PlugIn i) \<Rightarrow> snd (plug_in_monitor D i s)
     | (D, PlugOut i) \<Rightarrow> snd (plug_out_monitor D i s)
     | (D, UpdateModes i modes) \<Rightarrow> snd (update_monitor_modes D i modes s)
     | (D, Create) \<Rightarrow> snd (vd_create_device D s)
     | (D, Close) \<Rightarrow> vd_close_device s)"

definition run_vd :: "(driver \<times> vd_op) list \<Rightarrow> vd_state \<Rightarrow> vd_state" where
  "run_vd xs s = fold vd_step xs s"

text \<open>What an operation does to a monitor when the driver is asked each time: the reference.\<close>

definition plugged_step :: "driver \<times> vd_op \<Rightarrow> u32 set \<Rightarrow> u32 set" where
  "plugged_step x ps =
    (case x of
       (D, PlugIn i) \<Rightarrow> if i \<in> ps \<or> \<not> isl (call_driver D (MonitorPlugIn i 0 20)) then insert i ps else ps
     | (D, PlugOut i) \<Rightarrow> if \<not> isl (call_driver D (MonitorPlugOut i)) then ps - {i} else ps
     | _ \<Rightarrow> ps)"

definition all_methods :: "vd_state \<Rightarrow> bool" where
  "all_methods s \<longleftrightarrow> set vd_methods_names \<subseteq> set (vd_methods s)"

lemma vd_step_indices:
  assumes "all_methods s"
  shows "vd_indices (vd_step x s) = plugged_step x (vd_indices s) \<and> all_methods (vd_step x s)"
proof -
  have m: "''plug_in_monitor'' \<in> set (vd_methods s)" "''plug_out_monitor'' \<in> set (vd_methods s)"
    using assms by (auto simp: all_methods_def vd_methods_names_def)
  obtain D op where x: "x = (D, op)" by fastforce
  show ?thesis
  proof (cases op)
    case (PlugIn i)
    then show ?thesis using m assms x
      by (cases "call_driver D (MonitorPlugIn i 0 20)")
        (auto simp: vd_step_def plugged_step_def plug_in_monitor_def dylib_plug_in_monitor_def has_method_def
          all_methods_def Let_def)
  next
    case (PlugOut i)
    then show ?thesis using m assms x
      by (cases "call_driver D (MonitorPlugOut i)")
        (auto simp: vd_step_def plugged_step_def plug_out_monitor_def dylib_plug_out_monitor_def has_method_def
          all_methods_def Let_def)
  qed (use assms x in \<open>auto simp: vd_step_def plugged_step_def update_monitor_modes_def vd_create_device_def
    vd_close_device_def all_methods_def split: prod.splits\<close>)
qed

lemma run_vd_indices: "all_methods s \<Longrightarrow> vd_indices (run_vd xs s) = fold plugged_step xs (vd_indices s)"
  using vd_step_indices by (induction xs arbitrary: s) (auto simp: run_vd_def)

section \<open>Properties\<close>

text \<open>
  The remembered monitors are, after any run, those whose last successful call of the driver plugged them in, and
  a monitor that is remembered is not plugged in again: the call succeeds without the driver.
\<close>

theorem indices_are_plugged:
  assumes "all_methods s" "vd_indices s = {}"
  shows "vd_indices (run_vd xs s) = fold plugged_step xs {} \<and>
    (\<forall>i\<in>vd_indices (run_vd xs s). plug_in_monitor D i (run_vd xs s) = (Inr (), run_vd xs s))"
  using run_vd_indices [OF assms(1), of xs] assms(2) by (simp add: plug_in_monitor_def)

definition demo_driver :: "bool \<Rightarrow> driver" where
  "demo_driver ok = \<lparr>dr_call = (\<lambda>_. if ok then DriverOk 5 False else DriverFailed (Some ''busy'')),
     dr_exe_parent = Inr (Some ''C:''), dr_exists = (\<lambda>_. True)\<rparr>"

definition demo_vd :: vd_state where
  "demo_vd = new_lib_wrapper True (\<lambda>_. True)"

lemma demo_vd_methods: "all_methods demo_vd" "vd_indices demo_vd = {}"
  by (simp_all add: demo_vd_def new_lib_wrapper_def all_methods_def)

theorem indices_are_plugged_witness:
  "vd_indices (run_vd [(demo_driver True, PlugIn 1), (demo_driver True, PlugIn 2), (demo_driver False, PlugOut 1),
     (demo_driver True, PlugOut 2)] demo_vd) = {1}"
  using indices_are_plugged [OF demo_vd_methods, of "[(demo_driver True, PlugIn 1), (demo_driver True, PlugIn 2),
     (demo_driver False, PlugOut 1), (demo_driver True, PlugOut 2)]"]
  by (simp add: plugged_step_def call_driver_def demo_driver_def)

text \<open>
  Closing the device does not forget the monitors: one that was plugged in before is reported as plugged in after
  the device was closed, and created again, without any call of the driver.
\<close>

theorem replug_after_close_does_nothing:
  assumes "i \<in> vd_indices s"
  shows "plug_in_monitor D i (snd (vd_create_device D (vd_close_device s))) =
    (Inr (), snd (vd_create_device D (vd_close_device s)))"
  using assms by (auto simp: plug_in_monitor_def vd_create_device_def vd_close_device_def split: prod.splits)

theorem replug_after_close_does_nothing_witness:
  "1 \<in> vd_indices (run_vd [(demo_driver True, Create), (demo_driver True, PlugIn 1)] demo_vd) \<and>
   vd_calls (snd (plug_in_monitor (demo_driver True) 1 (snd (vd_create_device (demo_driver True)
     (vd_close_device (run_vd [(demo_driver True, Create), (demo_driver True, PlugIn 1)] demo_vd)))))) =
     [DeviceCreate, MonitorPlugIn 1 0 20, DeviceClose 5, DeviceCreate]"
proof -
  let ?s = "run_vd [(demo_driver True, Create), (demo_driver True, PlugIn 1)] demo_vd"
  have s: "1 \<in> vd_indices ?s" "vd_device ?s = 5" "vd_calls ?s = [DeviceCreate, MonitorPlugIn 1 0 20]"
    "vd_methods ?s = vd_methods_names"
    by (simp_all add: run_vd_def vd_step_def vd_create_device_def dylib_create_device_def dylib_is_device_created_def
        plug_in_monitor_def dylib_plug_in_monitor_def call_driver_def demo_driver_def demo_vd_def new_lib_wrapper_def
        has_method_def vd_methods_names_def)
  show ?thesis using replug_after_close_does_nothing [OF s(1), of "demo_driver True"] s
    by (simp add: vd_create_device_def vd_close_device_def dylib_close_device_def dylib_create_device_def
        dylib_is_device_created_def has_method_def vd_methods_names_def demo_driver_def)
qed

text \<open>
  The driver is installed only for a device: a successful installation leaves a device created, made now or
  before, and calls the driver with the path under the directory of the executable.
\<close>

theorem installed_for_device:
  assumes "dylib_install_update_driver D dev = (Inr reboot, dev', cs)"
    and "\<And>h r. dr_call D DeviceCreate = DriverOk h r \<Longrightarrow> h \<noteq> 0"
  shows "dylib_is_device_created dev' \<and>
    (\<exists>p. get_driver_install_abs_path D = Inr p \<and> dr_exists D p \<and>
      cs = (if dylib_is_device_created dev then [] else [DeviceCreate]) @ [InstallUpdate p])"
  using assms
  by (auto simp: dylib_install_update_driver_def dylib_create_device_def dylib_is_device_created_def
      get_driver_install_abs_path_def Let_def split: if_splits sum.splits option.splits driver_answer.splits)

theorem installed_for_device_witness:
  "dylib_is_device_created (fst (snd (dylib_install_update_driver (demo_driver True) 0)))"
proof -
  obtain dev' cs where i: "dylib_install_update_driver (demo_driver True) 0 = (Inr False, dev', cs)"
    by (simp add: dylib_install_update_driver_def dylib_create_device_def dylib_is_device_created_def
        get_driver_install_abs_path_def demo_driver_def)
  have "dylib_is_device_created dev'"
    using installed_for_device [OF i] by (simp add: demo_driver_def)
  then show ?thesis by (simp add: i)
qed

end
