(* ===== verification/CpuMonitor.thy ===== *)
theory CpuMonitor
  imports Complex_Main Prelude
begin

text \<open>
  The watch over the processor of \<open>libs/hbb_common/src/platform/windows.rs\<close>: samples every two seconds, of which the
  mean of a minute is published. A sample is an argument; the doubles are exact rationals here.
\<close>

section \<open>The loop\<close>

text \<open>A turn waits for a sample: the wait fails, or the counter has no value, or it has one.\<close>

datatype cpu_sample = WaitFailed | CounterFailed | CpuValue rat

record cpu_monitor =
  cm_queue :: "rat list"
  cm_recent :: "bool list"
  cm_published :: "rat option"

definition new_cpu_monitor :: cpu_monitor where
  "new_cpu_monitor = \<lparr>cm_queue = [], cm_recent = [], cm_published = None\<rparr>"

definition pop_at_31 :: "'a list \<Rightarrow> 'a list" where
  "pop_at_31 xs = (if length xs = 31 then tl xs else xs)"

definition cpu_mean :: "rat list \<Rightarrow> rat" where
  "cpu_mean xs = sum_list xs / of_nat (length xs)"

text \<open>The head of a turn, which trims and publishes, and then the sample.\<close>

definition cpu_head :: "cpu_monitor \<Rightarrow> cpu_monitor" where
  "cpu_head m =
    (let queue = pop_at_31 (cm_queue m); recent = pop_at_31 (cm_recent m) in
     \<lparr>cm_queue = queue, cm_recent = recent,
      cm_published = (if length queue > 0 \<and> length (filter id recent) > length queue div 2
        then Some (cpu_mean queue) else None)\<rparr>)"

definition cpu_sampled :: "cpu_sample \<Rightarrow> cpu_monitor \<Rightarrow> cpu_monitor" where
  "cpu_sampled s m =
    (case s of
       CpuValue v \<Rightarrow> m\<lparr>cm_queue := cm_queue m @ [v], cm_recent := cm_recent m @ [True]\<rparr>
     | _ \<Rightarrow> m\<lparr>cm_recent := cm_recent m @ [False]\<rparr>)"

definition cpu_turn :: "cpu_sample \<Rightarrow> cpu_monitor \<Rightarrow> cpu_monitor" where
  "cpu_turn s m = cpu_sampled s (cpu_head m)"

text \<open>
  The set-up before the loop: whether each call succeeds, in order. What it made is closed again when one fails: the
  query, and the event.
\<close>

datatype cpu_handle = PdhQuery | PdhEvent

definition cpu_setup :: "bool \<Rightarrow> bool \<Rightarrow> bool \<Rightarrow> bool \<Rightarrow> bool \<Rightarrow> bool \<times> cpu_handle list" where
  "cpu_setup opened added collected event ex =
    (if \<not> opened then (False, [])
     else if \<not> added then (False, [PdhQuery])
     else if \<not> collected then (False, [PdhQuery])
     else if \<not> event then (False, [PdhQuery])
     else if \<not> ex then (False, [PdhEvent, PdhQuery])
     else (True, []))"

text \<open>The published value with its age in seconds, which readers take only under thirty seconds.\<close>

definition cpu_uage_one_minute :: "(rat \<times> nat) option \<Rightarrow> rat option" where
  "cpu_uage_one_minute v = (case v of Some (v, age) \<Rightarrow> if age < 30 then Some v else None | None \<Rightarrow> None)"

definition sync_cpu_usage :: "rat option \<Rightarrow> (rat \<times> nat) option" where
  "sync_cpu_usage usage = (case usage of Some v \<Rightarrow> Some (v, 0) | None \<Rightarrow> None)"

text \<open>\<open>is_windows_version_or_greater\<close> over \<open>VerifyVersionInfoW\<close>; the service pack is cut to sixteen bits.\<close>

definition is_windows_version_or_greater ::
    "(u32 \<Rightarrow> u32 \<Rightarrow> u32 \<Rightarrow> u16 \<Rightarrow> u16 \<Rightarrow> bool) \<Rightarrow> u32 \<Rightarrow> u32 \<Rightarrow> u32 \<Rightarrow> u32 \<Rightarrow> u32 \<Rightarrow> bool" where
  "is_windows_version_or_greater verify major minor build sp_major sp_minor =
    verify major minor build (ucast sp_major) (ucast sp_minor)"

section \<open>The mean of the last values\<close>

definition last_n :: "nat \<Rightarrow> 'a list \<Rightarrow> 'a list" where
  "last_n n xs = drop (length xs - n) xs"

fun values_of :: "cpu_sample list \<Rightarrow> rat list" where
  "values_of [] = []"
| "values_of (CpuValue v # ss) = v # values_of ss"
| "values_of (_ # ss) = values_of ss"

definition has_value :: "cpu_sample \<Rightarrow> bool" where
  "has_value s = (case s of CpuValue _ \<Rightarrow> True | _ \<Rightarrow> False)"

lemma has_value_simps [simp]: "has_value (CpuValue v)" "\<not> has_value WaitFailed" "\<not> has_value CounterFailed"
  by (simp_all add: has_value_def)

text \<open>The reference: what is published after some samples.\<close>

definition published_spec :: "cpu_sample list \<Rightarrow> rat option" where
  "published_spec ss =
    (let q = last_n 30 (values_of ss) in
     if q \<noteq> [] \<and> length (filter has_value (last_n 30 ss)) > length q div 2 then Some (cpu_mean q) else None)"

lemma length_last_n [simp]: "length (last_n n xs) = min n (length xs)"
  by (simp add: last_n_def)

lemma pop_last_n: "pop_at_31 (last_n 30 xs @ [x]) = last_n 30 (xs @ [x])"
proof (cases "length xs < 30")
  case False
  have "tl (drop (length xs - 30) xs @ [x]) = drop (Suc (length xs - 30)) xs @ [x]"
    using False by (cases "drop (length xs - 30) xs") (auto simp: drop_Suc drop_tl tl_drop [symmetric])
  moreover have "Suc (length xs - 30) = length xs - 29" using False by arith
  ultimately show ?thesis using False by (simp add: pop_at_31_def last_n_def)
qed (simp add: pop_at_31_def last_n_def)

lemma values_of_append: "values_of (ss @ [s]) = values_of ss @ (case s of CpuValue v \<Rightarrow> [v] | _ \<Rightarrow> [])"
  by (induction ss rule: values_of.induct) (auto split: cpu_sample.splits)

lemma last_n_map: "last_n n (map f xs) = map f (last_n n xs)"
  by (simp add: last_n_def drop_map)

lemma pop_last_n_id: "pop_at_31 (last_n 30 xs) = last_n 30 xs"
proof -
  have "length (last_n 30 xs) \<noteq> 31" by simp
  then show ?thesis unfolding pop_at_31_def by (rule if_not_P)
qed

lemma cpu_run_state:
  "cpu_head (fold cpu_turn ss new_cpu_monitor) =
    \<lparr>cm_queue = last_n 30 (values_of ss), cm_recent = last_n 30 (map has_value ss), cm_published = published_spec ss\<rparr>"
proof (induction ss rule: rev_induct)
  case Nil
  show ?case by (simp add: cpu_head_def new_cpu_monitor_def pop_at_31_def last_n_def published_spec_def)
next
  case (snoc s ss)
  have "filter id (map has_value xs) = map has_value (filter has_value xs)" for xs
    by (induction xs) auto
  then have pub: "published_spec ss' =
    (let q = last_n 30 (values_of ss') in
     if q \<noteq> [] \<and> length (filter id (last_n 30 (map has_value ss'))) > length q div 2 then Some (cpu_mean q) else None)" for ss'
    by (simp add: published_spec_def last_n_map)
  have "fold cpu_turn (ss @ [s]) new_cpu_monitor = cpu_sampled s (cpu_head (fold cpu_turn ss new_cpu_monitor))"
    by (simp add: cpu_turn_def)
  then show ?case unfolding snoc.IH
    by (cases s) (simp_all add: cpu_sampled_def cpu_head_def Let_def pop_last_n pop_last_n_id
        values_of_append pub)
qed

section \<open>Properties\<close>

text \<open>
  C39: In every run the loop publishes the mean of the last thirty values, and only when more of the last thirty turns
  had a value than half of those values; otherwise it publishes nothing.
\<close>

theorem cpu_usage_mean_of_last:
  "cm_published (cpu_head (fold cpu_turn ss new_cpu_monitor)) = published_spec ss"
  by (simp add: cpu_run_state)

lemma values_of_length: "length (values_of ss) = length (filter has_value ss)"
  by (induction ss rule: values_of.induct) (auto simp: has_value_def)

text \<open>When the counter fails for a minute, that is for thirty turns, the value that was published is withdrawn.\<close>

theorem cpu_usage_withdrawn:
  assumes "\<not> list_ex has_value fs" "length fs = 30"
  shows "cm_published (cpu_head (fold cpu_turn (ss @ fs) new_cpu_monitor)) = None"
proof -
  have "last_n 30 (ss @ fs) = fs" using assms(2) by (simp add: last_n_def)
  moreover have "filter has_value fs = []" using assms(1) by (auto simp: filter_empty_conv list_ex_iff)
  ultimately show ?thesis unfolding cpu_run_state by (simp add: published_spec_def Let_def)
qed

theorem cpu_usage_withdrawn_witness:
  "cm_published (cpu_head (fold cpu_turn ([CpuValue 50] @ replicate 30 WaitFailed) new_cpu_monitor)) = None"
  by (rule cpu_usage_withdrawn) (simp_all add: list_ex_iff has_value_def)

end
