(* ===== verification/SoftCodecs.thy ===== *)
theory SoftCodecs
  imports Encoders Convert Codec ConfigProps
begin

text \<open>
  The rest of the software codecs of \<open>libs/scrap/src/common/\<close>: the controls that \<open>aom.rs\<close> sets, the format of its and
  libvpx's pictures, the decoders of both, the test of AV1 in \<open>codec.rs\<close>, and the process of \<open>hwcodec.rs\<close> that checks the
  hardware. The libraries, clocks and processes are arguments.
\<close>

section \<open>Calls of the libraries\<close>

text \<open>A call that gives an error code, and one that gives a pointer; a zero pointer is the error.\<close>

datatype scrap_error = FailedCall int | BadPtr

definition call_code :: "int \<Rightarrow> scrap_error + unit" where
  "call_code e = (if e \<noteq> 0 then Inl (FailedCall e) else Inr ())"

definition call_ptr :: "nat \<Rightarrow> scrap_error + nat" where
  "call_ptr p = (if p = 0 then Inl BadPtr else Inr p)"

section \<open>Controls of libaom\<close>

text \<open>The argument of the variadic \<open>aom_codec_control\<close>, with its type in the call.\<close>

datatype ctl_arg = CtlInt nat | CtlDouble nat | CtlContentScreen | CtlSuperblock superblock_size

fun log2_ceil_from :: "nat \<Rightarrow> nat \<Rightarrow> nat \<Rightarrow> nat" where
  "log2_ceil_from 0 n k = k"
| "log2_ceil_from (Suc fuel) n k = (if n \<le> 2 ^ k then k else log2_ceil_from fuel n (Suc k))"

text \<open>\<open>log2().ceil()\<close> of a number of threads from 1 to 64, for which the double is exact.\<close>

definition log2_ceil :: "nat \<Rightarrow> nat" where
  "log2_ceil n = log2_ceil_from n n 0"

definition zero_controls :: "string list \<Rightarrow> (string \<times> ctl_arg) list" where
  "zero_controls names = map (\<lambda>n. (n, CtlInt 0)) names"

text \<open>\<open>set_controls\<close>: the controls in order; an error of one is logged and the next is set.\<close>

definition aom_controls :: "enc_cfg \<Rightarrow> (string \<times> ctl_arg) list" where
  "aom_controls cfg =
    [(''AOME_SET_CPUUSED'', CtlInt (get_cpu_speed (ec_w cfg) (ec_h cfg))),
     (''AV1E_SET_ENABLE_CDEF'', CtlInt 1)]
    @ zero_controls [''AV1E_SET_ENABLE_TPL_MODEL'', ''AV1E_SET_DELTAQ_MODE'', ''AV1E_SET_ENABLE_ORDER_HINT'']
    @ [(''AV1E_SET_AQ_MODE'', CtlInt 3), (''AOME_SET_MAX_INTRA_BITRATE_PCT'', CtlInt 300),
       (''AV1E_SET_COEFF_COST_UPD_FREQ'', CtlInt 3), (''AV1E_SET_MODE_COST_UPD_FREQ'', CtlInt 3),
       (''AV1E_SET_MV_COST_UPD_FREQ'', CtlInt 3), (''AV1E_SET_TUNE_CONTENT'', CtlContentScreen),
       (''AV1E_SET_ENABLE_PALETTE'', CtlInt 1),
       (if ec_threads cfg = 4 \<and> ec_w cfg = 640 \<and> (ec_h cfg = 360 \<or> ec_h cfg = 480)
        then ''AV1E_SET_TILE_ROWS'' else ''AV1E_SET_TILE_COLUMNS'', CtlDouble (log2_ceil (ec_threads cfg))),
       (''AV1E_SET_ROW_MT'', CtlInt 1)]
    @ zero_controls [''AV1E_SET_ENABLE_OBMC'', ''AV1E_SET_NOISE_SENSITIVITY'', ''AV1E_SET_ENABLE_WARPED_MOTION'',
        ''AV1E_SET_ENABLE_GLOBAL_MOTION'', ''AV1E_SET_ENABLE_REF_FRAME_MVS'']
    @ [(''AV1E_SET_SUPERBLOCK_SIZE'', CtlSuperblock (get_super_block_size (ec_w cfg) (ec_h cfg) (ec_threads cfg)))]
    @ zero_controls [''AV1E_SET_ENABLE_CFL_INTRA'', ''AV1E_SET_ENABLE_SMOOTH_INTRA'', ''AV1E_SET_ENABLE_ANGLE_DELTA'',
        ''AV1E_SET_ENABLE_FILTER_INTRA'']
    @ [(''AV1E_SET_INTRA_DEFAULT_TX_ONLY'', CtlInt 1), (''AV1E_SET_DISABLE_TRELLIS_QUANT'', CtlInt 1)]
    @ zero_controls [''AV1E_SET_ENABLE_DIST_WTD_COMP'', ''AV1E_SET_ENABLE_DIFF_WTD_COMP'', ''AV1E_SET_ENABLE_DUAL_FILTER'',
        ''AV1E_SET_ENABLE_INTERINTRA_COMP'', ''AV1E_SET_ENABLE_INTERINTRA_WEDGE'', ''AV1E_SET_ENABLE_INTRA_EDGE_FILTER'',
        ''AV1E_SET_ENABLE_INTRABC'', ''AV1E_SET_ENABLE_MASKED_COMP'', ''AV1E_SET_ENABLE_PAETH_INTRA'',
        ''AV1E_SET_ENABLE_QM'', ''AV1E_SET_ENABLE_RECT_PARTITIONS'', ''AV1E_SET_ENABLE_RESTORATION'',
        ''AV1E_SET_ENABLE_SMOOTH_INTERINTRA'', ''AV1E_SET_ENABLE_TX64'']
    @ [(''AV1E_SET_MAX_REFERENCE_FRAMES'', CtlInt 3)]"

section \<open>The format of pictures\<close>

text \<open>What \<open>aom_img_wrap\<close> and \<open>vpx_img_wrap\<close> give: sizes, strides and the addresses of the planes.\<close>

record wrapped_img =
  wi_w :: nat
  wi_h :: nat
  wi_stride :: "nat list"
  wi_planes :: "nat \<times> nat \<times> nat"

definition soft_yuvfmt :: "(bool \<Rightarrow> nat \<Rightarrow> nat \<Rightarrow> nat \<Rightarrow> wrapped_img) \<Rightarrow> nat \<Rightarrow> nat \<Rightarrow> bool \<Rightarrow> yuv_format" where
  "soft_yuvfmt wrap w h i444 =
    (let img = wrap i444 w h 64; (y, u, v) = wi_planes img in
     \<lparr>yf_fmt = (if i444 then PixI444 else PixI420), yf_w = wi_w img, yf_h = wi_h img, yf_stride = wi_stride img,
      yf_u = u - y, yf_v = v - y\<rparr>)"

section \<open>Decoders\<close>

text \<open>
  The library: the address of its interface for a codec (zero: none), the codes of its calls, and the images it has
  after some data, \<open>None\<close> being the flush.
\<close>

record 'i soft_dec_lib =
  dl_interface :: "codec_format \<Rightarrow> nat"
  dl_init :: "nat \<Rightarrow> int"
  dl_decode :: "bytes option \<Rightarrow> int \<times> 'i list"
  dl_destroy :: int

definition new_soft_decoder :: "'i soft_dec_lib \<Rightarrow> codec_format \<Rightarrow> nat \<Rightarrow> scrap_error + unit" where
  "new_soft_decoder L fmt threads =
    (case call_ptr (dl_interface L fmt) of
       Inl e \<Rightarrow> Inl e
     | Inr _ \<Rightarrow> call_code (dl_init L threads))"

text \<open>\<open>decode\<close> and \<open>flush\<close> with the iterator over the frames, used to its end.\<close>

definition soft_decode :: "'i soft_dec_lib \<Rightarrow> bytes option \<Rightarrow> scrap_error + 'i list" where
  "soft_decode L d = (case call_code (fst (dl_decode L d)) of Inl e \<Rightarrow> Inl e | Inr _ \<Rightarrow> Inr (snd (dl_decode L d)))"

text \<open>\<open>drop\<close> panics when the codec is not destroyed.\<close>

definition drop_soft_decoder :: "'i soft_dec_lib \<Rightarrow> unit option" where
  "drop_soft_decoder L = (if dl_destroy L \<noteq> 0 then None else Some ())"

section \<open>The test of AV1\<close>

text \<open>
  The picture of a frame: a block of 300 by 300 that moves, in a picture of 1920 by 1080. The value of a point comes
  from the number of the frame and noise, by arithmetic in \<open>f32\<close> that is an argument.
\<close>

definition fake_origin :: "nat \<Rightarrow> nat \<times> nat" where
  "fake_origin i = ((i * 50) mod (1920 - 300), (i * 50) mod (1080 - 300))"

definition fake_index :: "nat \<Rightarrow> nat \<Rightarrow> nat \<Rightarrow> nat" where
  "fake_index i y x = (case fake_origin i of (x0, y0) \<Rightarrow> ((y0 + y) * 1920 + x0 + x) * 4)"

definition fake_point :: "(nat \<Rightarrow> nat \<Rightarrow> u8) \<Rightarrow> (nat \<Rightarrow> nat \<Rightarrow> nat) \<Rightarrow> nat \<Rightarrow> nat \<times> nat \<Rightarrow> bytes \<Rightarrow> bytes" where
  "fake_point val noise i p b =
    (case p of (y, x) \<Rightarrow>
       let index = fake_index i y x; v = val i (noise y x) in
       if index + 3 < length b then b[index := v, index + 1 := v, index + 2 := v, index + 3 := 255] else b)"

definition fake_bgra :: "(nat \<Rightarrow> nat \<Rightarrow> u8) \<Rightarrow> (nat \<Rightarrow> nat \<Rightarrow> nat) \<Rightarrow> nat \<Rightarrow> bytes" where
  "fake_bgra val noise i =
    fold (fake_point val noise i) (List.product [0..<300] [0..<300]) (replicate (1920 * 1080 * 4) 0)"

text \<open>
  What the test finds: whether the encoder is made, and for each of the ten frames whether the picture was converted,
  whether it was encoded, and how long that took in nanoseconds.
\<close>

record av1_frame =
  av_converted :: bool
  av_encoded :: bool
  av_nanos :: nat

fun av1_times :: "nat \<Rightarrow> av1_frame list \<Rightarrow> nat \<Rightarrow> nat \<Rightarrow> (nat \<times> nat) option" where
  "av1_times i [] key rest = Some (key, rest)"
| "av1_times i (f # fs) key rest =
    (if \<not> av_converted f then None
     else if \<not> av_encoded f \<and> i = 0 then None
     else if i = 0 then av1_times (Suc i) fs (av_nanos f) rest
     else av1_times (Suc i) fs key (rest + av_nanos f))"

definition millis :: "nat \<Rightarrow> nat" where
  "millis n = n * 1000000"

definition av1_fast :: "bool \<Rightarrow> av1_frame list \<Rightarrow> bool" where
  "av1_fast made frames =
    (if \<not> made then False
     else case av1_times 0 frames 0 0 of
            None \<Rightarrow> False
          | Some (key, rest) \<Rightarrow> key < millis 90 \<and> rest div (10 - 1) < millis 30)"

text \<open>\<open>test_av1\<close> with the flag of its \<open>Once\<close>, and the thread run to its end.\<close>

definition test_av1 :: "env \<Rightarrow> codec_env \<Rightarrow> bool \<Rightarrow> av1_frame list \<Rightarrow> bool \<times> world \<Rightarrow> bool \<times> world" where
  "test_av1 E V made frames s =
    (case s of (once, w) \<Rightarrow>
       if disable_av1 V \<or> get_option w ''av1-test'' \<noteq> [] then (once, w)
       else if once then (once, w)
       else (True, set_option E ''av1-test'' (if av1_fast made frames then ''Y'' else ''N'') w))"

section \<open>The process that checks the hardware\<close>

datatype check_event = SpawnCheck | SleepMillis nat | TryWait | KillChild | WaitChild

text \<open>\<open>try_wait\<close>: an exit status, none yet, or an error.\<close>

datatype try_wait = Exited | StillRunning | WaitError

fun check_turns :: "try_wait list \<Rightarrow> nat \<Rightarrow> check_event list" where
  "check_turns ans 0 = []"
| "check_turns ans (Suc n) =
    (case ans of
       [] \<Rightarrow> SleepMillis 1000 # TryWait # check_turns [] n
     | a # ans \<Rightarrow> SleepMillis 1000 # TryWait # (if a = Exited then [] else check_turns ans n))"

text \<open>The answers in the loop, where a list that ends goes on with \<open>StillRunning\<close>, and the answer after it.\<close>

definition check_process :: "bool \<Rightarrow> bool \<Rightarrow> try_wait list \<Rightarrow> try_wait \<Rightarrow> check_event list" where
  "check_process exe spawned ans after =
    (if \<not> exe \<or> \<not> spawned then []
     else SpawnCheck # check_turns ans 30 @ [KillChild, SleepMillis 30, TryWait]
       @ (if after = StillRunning then [WaitChild] else []))"

text \<open>Whether the thread is started: the option, a configuration that is not set yet, and the flag of \<open>Once\<close>.\<close>

definition start_check_process :: "bool \<Rightarrow> bool \<Rightarrow> bool \<Rightarrow> bool \<times> bool" where
  "start_check_process enabled set_already once =
    (if \<not> enabled \<or> set_already then (False, once) else (\<not> once, True))"

section \<open>Properties\<close>

text \<open>
  \<open>set_controls\<close> passes a \<open>double\<close> for the number of tiles, and for no other control, where libaom reads an integer
  from the variable arguments; it selects rows only for four threads at 640 by 360 or 480.
\<close>

theorem tile_control_gets_double:
  "filter (\<lambda>c. case snd c of CtlDouble _ \<Rightarrow> True | _ \<Rightarrow> False) (aom_controls cfg) =
    [(if ec_threads cfg = 4 \<and> ec_w cfg = 640 \<and> (ec_h cfg = 360 \<or> ec_h cfg = 480)
      then ''AV1E_SET_TILE_ROWS'' else ''AV1E_SET_TILE_COLUMNS'', CtlDouble (log2_ceil (ec_threads cfg)))]"
  by (simp add: aom_controls_def zero_controls_def)

lemma log2_ceil_from: "n \<le> 2 ^ (k + fuel) \<Longrightarrow> n \<le> 2 ^ log2_ceil_from fuel n k \<and> k \<le> log2_ceil_from fuel n k \<and>
    (\<forall>j. k \<le> j \<and> n \<le> 2 ^ j \<longrightarrow> log2_ceil_from fuel n k \<le> j)"
proof (induction fuel arbitrary: k)
  case (Suc fuel)
  show ?case
  proof (cases "n \<le> 2 ^ k")
    case False
    have i: "n \<le> 2 ^ log2_ceil_from fuel n (Suc k)" "Suc k \<le> log2_ceil_from fuel n (Suc k)"
      "\<And>j. Suc k \<le> j \<Longrightarrow> n \<le> 2 ^ j \<Longrightarrow> log2_ceil_from fuel n (Suc k) \<le> j"
      using Suc.IH [of "Suc k"] Suc.prems by auto
    have "Suc k \<le> j" if "k \<le> j" "n \<le> 2 ^ j" for j using that False by (cases "j = k") auto
    with i False show ?thesis by simp
  qed simp
qed simp

text \<open>
  The number of tiles is the least power of two that is enough for the threads: its logarithm is the least whose
  power is not below them.
\<close>

theorem log2_ceil_least:
  "n \<le> 2 ^ log2_ceil n \<and> (\<forall>j. n \<le> 2 ^ j \<longrightarrow> log2_ceil n \<le> j)"
proof -
  have "n \<le> 2 ^ (0 + n)" using less_exp [of n] by (simp add: less_imp_le)
  from log2_ceil_from [OF this] show ?thesis by (simp add: log2_ceil_def)
qed

theorem log2_ceil_least_witness: "log2_ceil 5 \<le> 3 \<and> 5 \<le> (2::nat) ^ log2_ceil 5"
  using log2_ceil_least [of 5] by simp

text \<open>
  The pictures of the test of AV1 are filled inside: every point of the moving block lies in the picture, so its
  test of the index never fails, and different points have different places.
\<close>

theorem fake_block_inside:
  assumes "x < 300" "y < 300" "x' < 300" "y' < 300"
  shows "fake_index i y x + 3 < 1920 * 1080 * 4 \<and>
    (fake_index i y x = fake_index i y' x' \<longrightarrow> x = x' \<and> y = y')"
proof -
  obtain x0 y0 where o: "fake_origin i = (x0, y0)" "x0 < 1620" "y0 < 780" by (auto simp: fake_origin_def)
  have "(y0 + y) * 1920 \<le> 1078 * 1920" using o(3) assms(2) by (intro mult_right_mono) auto
  moreover have "x = x' \<and> y = y'" if "(y0 + y) * 1920 + (x0 + x) = (y0 + y') * 1920 + (x0 + x')"
  proof -
    have less: "x0 + x < 1920" "x0 + x' < 1920" using o(2) assms by auto
    have "((y0 + y) * 1920 + (x0 + x)) div 1920 = y0 + y" "((y0 + y') * 1920 + (x0 + x')) div 1920 = y0 + y'"
      using less by simp_all
    then have "y0 + y = y0 + y'" unfolding that by (rule trans [OF sym])
    then show ?thesis using that by simp
  qed
  ultimately show ?thesis using o assms by (auto simp: fake_index_def)
qed

theorem fake_block_inside_witness: "fake_index 9 299 299 + 3 < 1920 * 1080 * 4"
  using fake_block_inside [of 299 299 0 0 9] by simp

lemma av1_times_rest:
  "0 < i \<Longrightarrow> av1_times i fs key rest =
    (if list_all av_converted fs then Some (key, rest + sum_list (map av_nanos fs)) else None)"
  by (induction i fs key rest rule: av1_times.induct) auto

text \<open>
  AV1 passes the test exactly when the encoder is made, every picture is converted, the first frame is encoded in
  less than 90 ms, and the mean of the nine others is less than 30 ms, whether these are encoded or not.
\<close>

theorem av1_fast_iff:
  assumes "length frames = 10"
  shows "av1_fast made frames \<longleftrightarrow>
    made \<and> list_all av_converted frames \<and> av_encoded (hd frames) \<and> av_nanos (hd frames) < millis 90 \<and>
    sum_list (map av_nanos (tl frames)) < 9 * millis 30"
proof -
  obtain f fs where f: "frames = f # fs" using assms by (cases frames) auto
  have "n div 9 < m \<longleftrightarrow> n < 9 * m" for n m :: nat using div_less_iff_less_mult [of 9 n m] by (simp add: mult.commute)
  then show ?thesis using f by (auto simp: av1_fast_def av1_times_rest)
qed

definition demo_av1 :: "nat \<Rightarrow> av1_frame list" where
  "demo_av1 n = (let f = \<lparr>av_converted = True, av_encoded = True, av_nanos = n\<rparr> in [f, f, f, f, f, f, f, f, f, f])"

theorem av1_fast_iff_witness: "av1_fast True (demo_av1 20000000) \<and> \<not> av1_fast True (demo_av1 30000000)"
  using av1_fast_iff [of "demo_av1 20000000" True] av1_fast_iff [of "demo_av1 30000000" True]
  by (simp add: millis_def demo_av1_def Let_def)

text \<open>
  The result of the test is kept: when it ran, the option \<open>av1-test\<close> reads as its result, and no later run, in this
  process or another one with that configuration, tests again.
\<close>

theorem av1_tested_once:
  assumes "\<not> disable_av1 V" "get_option w ''av1-test'' = []"
    and "overwrite_settings (w_settings w) ''av1-test'' = None" "default_settings (w_settings w) ''av1-test'' = None"
  shows "\<exists>w'. test_av1 E V made frames (False, w) = (True, w') \<and>
    get_option w' ''av1-test'' = (if av1_fast made frames then ''Y'' else ''N'') \<and>
    (\<forall>once made' frames'. test_av1 E V made' frames' (once, w') = (once, w'))"
proof -
  have "get_option (set_option E ''av1-test'' v w) ''av1-test'' = v" if "v \<noteq> []" for v
    using cfg_opts.get_set_same [of w "''av1-test''" v E] assms(3,4) that by (simp add: savable_def non_empty_def)
  then show ?thesis using assms(1,2) by (simp add: test_av1_def)
qed

theorem av1_tested_once_witness:
  "\<exists>w'. test_av1 demo_env demo_codec_env False [] (False, demo_world) = (True, w') \<and> get_option w' ''av1-test'' = ''N''"
proof -
  have "\<not> disable_av1 demo_codec_env" by (simp add: disable_av1_def demo_codec_env_def)
  moreover have "get_option demo_world ''av1-test'' = []"
    by (simp add: get_option_def demo_world_def default_config2_def get_or_def or_default_def no_settings_def)
  moreover have "overwrite_settings (w_settings demo_world) ''av1-test'' = None"
    "default_settings (w_settings demo_world) ''av1-test'' = None"
    by (simp_all add: demo_world_def no_settings_def)
  ultimately obtain w' where "test_av1 demo_env demo_codec_env False [] (False, demo_world) = (True, w')"
    "get_option w' ''av1-test'' = (if av1_fast False [] then ''Y'' else ''N'')"
    using av1_tested_once [of demo_codec_env demo_world demo_env False "[]"] by blast
  then show ?thesis by (simp add: av1_fast_def)
qed

fun slept :: "check_event list \<Rightarrow> nat" where
  "slept [] = 0"
| "slept (SleepMillis n # es) = n + slept es"
| "slept (_ # es) = slept es"

lemma slept_append [simp]: "slept (es @ fs) = slept es + slept fs"
  by (induction es rule: slept.induct) auto

lemma slept_check_turns: "slept (check_turns ans n) \<le> 1000 * n"
  by (induction ans n rule: check_turns.induct) (auto split: list.splits)

text \<open>
  The process that checks the hardware is killed after at most thirty seconds and thirty milliseconds, and is then
  waited for unless it has exited already or asking fails.
\<close>

theorem check_process_ends:
  "slept (check_process exe spawned ans after) \<le> 30030 \<and>
    (SpawnCheck \<in> set (check_process exe spawned ans after) \<longrightarrow>
      KillChild \<in> set (check_process exe spawned ans after) \<and>
      (WaitChild \<in> set (check_process exe spawned ans after) \<or> after = Exited \<or> after = WaitError))"
proof -
  have "slept (check_turns ans 30) \<le> 30000" using slept_check_turns [of ans 30] by simp
  then show ?thesis by (cases after) (auto simp: check_process_def)
qed

theorem check_process_ends_witness: "KillChild \<in> set (check_process True True [] StillRunning)"
  using check_process_ends [of True True "[]" StillRunning] by (simp add: check_process_def)

end
