(* ===== verification/PortableRun.thy ===== *)
theory PortableRun
  imports Portable
begin

text \<open>
  The rest of the launcher on Windows: the whole of \<open>main\<close> with the process it starts, the copy of the runtime
  broker, and the pictures of the splash window (\<open>libs/portable/src/main.rs\<close> and \<open>ui.rs\<close>). Windows, its processes and
  its windows are arguments.
\<close>

section \<open>Starting the program\<close>

record command =
  co_program :: string
  co_args :: "string list"
  co_env :: "(string \<times> string) list"
  co_no_window :: bool

text \<open>
  \<open>execute\<close> on Windows: the command that is started, and the process that may come to the foreground; \<open>spawned\<close> is
  the id of the process when it starts.
\<close>

definition execute :: "string \<Rightarrow> string \<Rightarrow> string list \<Rightarrow> bool \<Rightarrow> u32 option \<Rightarrow> command \<times> u32 option" where
  "execute exe_name path args ui spawned =
    (\<lparr>co_program = path, co_args = args,
      co_env = (if ui then [(''SET_FOREGROUND_WINDOW'', ''1'')] else []) @ [(''RUSTDESK_APPNAME'', exe_name)],
      co_no_window = True\<rparr>,
     if ui then spawned else None)"

section \<open>The runtime broker\<close>

definition RUNTIME_BROKER_EXE :: string where
  "RUNTIME_BROKER_EXE = ''C:'' @ [CHR 0x5C] @ ''Windows'' @ [CHR 0x5C] @ ''System32'' @ [CHR 0x5C] @ ''RuntimeBroker.exe''"

definition WIN_TOPMOST_INJECTED_PROCESS_EXE :: string where
  "WIN_TOPMOST_INJECTED_PROCESS_EXE = ''RuntimeBroker_rustdesk.exe''"

datatype broker_event = KillBroker | CopyBroker

text \<open>\<open>copy_runtime_broker\<close>; \<open>readable\<close> tells whether a file that exists can be read, and a missing source is not copied.\<close>

definition copy_runtime_broker :: "(bytes \<Rightarrow> string) \<Rightarrow> (string \<Rightarrow> bool) \<Rightarrow> string \<Rightarrow> pdisk \<Rightarrow> broker_event list \<times> pdisk" where
  "copy_runtime_broker md5 readable dir d =
    (let tgt = path_join dir WIN_TOPMOST_INJECTED_PROCESS_EXE;
         rd = (\<lambda>p. if readable p then pk_files d p else None);
         same = (case (rd RUNTIME_BROKER_EXE, rd tgt) of (Some a, Some b) \<Rightarrow> md5 a = md5 b | _ \<Rightarrow> False)
     in if pk_files d tgt \<noteq> None \<and> same then ([], d)
        else ([KillBroker, CopyBroker],
              case rd RUNTIME_BROKER_EXE of Some a \<Rightarrow> fs_write tgt a d | None \<Rightarrow> d))"

section \<open>The launcher\<close>

text \<open>\<open>setup\<close> on Windows shows the splash window when it clears or updates, unless there are arguments.\<close>

definition shows_splash :: "(bytes \<Rightarrow> string option) \<Rightarrow> string option \<Rightarrow> string \<Rightarrow> bool \<Rightarrow> string list \<Rightarrow> pdisk \<Rightarrow> bool" where
  "shows_splash read_text meta dir clear args d \<longleftrightarrow>
    (clear \<or> \<not> fst (is_timestamp_matches read_text meta dir 0 d)) \<and> args = []"

text \<open>
  \<open>main\<close>: nothing without the data directory, else the splash window, the command, the process allowed in front, what
  was done with the broker, and the disk. The arguments that decide on the window are those before they are replaced.
\<close>

record launch =
  la_splash :: bool
  la_command :: command
  la_foreground :: "u32 option"
  la_broker :: "broker_event list"
  la_disk :: pdisk

definition portable_main ::
  "packed_libs \<Rightarrow> (bytes \<Rightarrow> string option) \<Rightarrow> (string \<Rightarrow> bool) \<Rightarrow> string option \<Rightarrow> binary_data list \<times> string \<Rightarrow>
    string option \<Rightarrow> string \<Rightarrow> string list \<Rightarrow> (command \<Rightarrow> u32 option) \<Rightarrow> string \<Rightarrow> pdisk \<Rightarrow> launch option" where
  "portable_main P read_text readable meta reader data_dir arg_exe args spawn exe_name d =
    (case data_dir of
       None \<Rightarrow> None
     | Some data \<Rightarrow>
         let dir = path_join data ''rustdesk'';
             (clear, args') = main_args arg_exe args;
             ui = shows_splash read_text meta dir clear args d;
             (path, d) = portable_setup P read_text meta reader dir clear d;
             (broker, d) = copy_runtime_broker (pl_md5_hex P) readable dir d;
             (cmd, front) = execute exe_name path args' ui (spawn (fst (execute exe_name path args' ui None)))
         in Some \<lparr>la_splash = ui, la_command = cmd, la_foreground = front, la_broker = broker, la_disk = d\<rparr>)"

section \<open>The splash window\<close>

text \<open>\<open>update_gif\<close> over the number of pictures: the picture shown, and the index after it; none is an error.\<close>

definition update_gif :: "nat \<Rightarrow> nat \<Rightarrow> (nat \<times> nat) option" where
  "update_gif n idx = (if n = 0 then None else Some (idx mod n, (idx mod n + 1) mod n))"

fun gif_ticks :: "nat \<Rightarrow> nat \<Rightarrow> nat \<Rightarrow> nat list" where
  "gif_ticks n 0 idx = []"
| "gif_ticks n (Suc k) idx = (case update_gif n idx of None \<Rightarrow> [] | Some (shown, idx) \<Rightarrow> shown # gif_ticks n k idx)"

lemma gif_ticks_from:
  assumes "0 < n" "idx < n"
  shows "gif_ticks n k idx = map (\<lambda>j. (idx + j) mod n) [0..<k]"
  using assms(2)
proof (induction k arbitrary: idx)
  case (Suc k)
  have "((idx + 1) mod n + j) mod n = (idx + Suc j) mod n" for j by (simp add: mod_simps)
  then have "gif_ticks n k ((idx + 1) mod n) = map (\<lambda>j. (idx + Suc j) mod n) [0..<k]"
    using Suc.IH [of "(idx + 1) mod n"] assms(1) by simp
  moreover have "[0..<Suc k] = 0 # map Suc [0..<k]" by (simp add: map_Suc_upt upt_conv_Cons)
  ultimately show ?case using Suc.prems assms(1) by (simp add: update_gif_def comp_def)
qed simp

section \<open>Properties\<close>

text \<open>The splash window goes through its pictures in order and again from the first, at every tick one.\<close>

theorem splash_cycles:
  assumes "0 < n"
  shows "gif_ticks n k 0 = map (\<lambda>j. j mod n) [0..<k]"
  using gif_ticks_from [of n 0 k] assms by simp

theorem splash_cycles_witness: "gif_ticks 3 5 0 = [0, 1, 2, 0, 1]"
  using splash_cycles [of 3 5] by (simp add: upt_rec)

text \<open>
  When the broker of Windows can be read and its copy written, the copy has its digest afterwards, and another
  start then neither kills nor copies.
\<close>

theorem broker_copied_once:
  assumes "pk_files d RUNTIME_BROKER_EXE = Some a" "readable RUNTIME_BROKER_EXE"
    and "readable (path_join dir WIN_TOPMOST_INJECTED_PROCESS_EXE)" "pk_writable d (path_join dir WIN_TOPMOST_INJECTED_PROCESS_EXE)"
    and "path_join dir WIN_TOPMOST_INJECTED_PROCESS_EXE \<noteq> RUNTIME_BROKER_EXE"
  shows "(\<exists>b. pk_files (snd (copy_runtime_broker md5 readable dir d)) (path_join dir WIN_TOPMOST_INJECTED_PROCESS_EXE) = Some b \<and> md5 b = md5 a) \<and>
    copy_runtime_broker md5 readable dir (snd (copy_runtime_broker md5 readable dir d)) =
      ([], snd (copy_runtime_broker md5 readable dir d))"
  using assms by (auto simp: copy_runtime_broker_def Let_def fs_write_def split: option.splits)

definition demo_broker_disk :: pdisk where
  "demo_broker_disk = \<lparr>pk_files = (\<lambda>p. if p = RUNTIME_BROKER_EXE then Some [1] else None), pk_writable = (\<lambda>_. True)\<rparr>"

theorem broker_copied_once_witness:
  "fst (copy_runtime_broker (\<lambda>b. map (\<lambda>x. CHR ''x'') b) (\<lambda>_. True) ''D''
     (snd (copy_runtime_broker (\<lambda>b. map (\<lambda>x. CHR ''x'') b) (\<lambda>_. True) ''D'' demo_broker_disk))) = []"
proof -
  have "path_join ''D'' WIN_TOPMOST_INJECTED_PROCESS_EXE \<noteq> RUNTIME_BROKER_EXE"
    by (simp add: WIN_TOPMOST_INJECTED_PROCESS_EXE_def RUNTIME_BROKER_EXE_def path_join_def)
  then show ?thesis
    using broker_copied_once [of demo_broker_disk "[1]" "\<lambda>_. True" "''D''" "\<lambda>b. map (\<lambda>x. CHR ''x'') b"]
    by (simp add: demo_broker_disk_def)
qed

text \<open>
  The launcher starts the packed program under the data directory, with the arguments it was given itself unless
  its own name asks to install or for quick support, and only without arguments shows the splash window, for which
  alone the process is let to the foreground.
\<close>

theorem launcher_starts_program:
  "portable_main P read_text readable meta (files, exe) (Some data) arg_exe args spawn exe_name d = Some l \<Longrightarrow>
    co_program (la_command l) = path_join (path_join data ''rustdesk'') exe \<and>
    (args \<noteq> [] \<longrightarrow> co_args (la_command l) = args \<and> \<not> la_splash l) \<and>
    (args = [] \<longrightarrow> co_args (la_command l) \<in> {[], [''--install''], [''--quick_support'']}) \<and>
    (''RUSTDESK_APPNAME'', exe_name) \<in> set (co_env (la_command l)) \<and>
    la_foreground l = (if la_splash l then spawn (la_command l) else None)"
  by (auto simp: portable_main_def Let_def portable_setup_def main_args_def execute_def shows_splash_def
      split: prod.splits if_splits)

theorem launcher_starts_program_witness:
  "\<exists>l. portable_main demo_libs (\<lambda>_. None) (\<lambda>_. True) None ([], ''app.exe'') (Some ''L'') ''qs.exe'' [''-x''] (\<lambda>_. Some 7) ''qs.exe''
     demo_broker_disk = Some l \<and> co_args (la_command l) = [''-x''] \<and> \<not> la_splash l"
proof -
  obtain l where l: "portable_main demo_libs (\<lambda>_. None) (\<lambda>_. True) None ([], ''app.exe'') (Some ''L'') ''qs.exe'' [''-x'']
     (\<lambda>_. Some 7) ''qs.exe'' demo_broker_disk = Some l"
    by (simp add: portable_main_def Let_def case_prod_beta)
  from launcher_starts_program [OF l] l show ?thesis by auto
qed

end
