(* ===== verification/KeyboardMode.thy ===== *)
theory KeyboardMode
  imports Main
begin

text \<open>The modes of the keyboard with their names, \<open>libs/hbb_common/src/keyboard.rs\<close>.\<close>

datatype keyboard_mode = Legacy | MapMode | Translate | AutoMode

definition show_keyboard_mode :: "keyboard_mode \<Rightarrow> string" where
  "show_keyboard_mode k =
    (case k of Legacy \<Rightarrow> ''legacy'' | MapMode \<Rightarrow> ''map'' | Translate \<Rightarrow> ''translate'' | AutoMode \<Rightarrow> ''auto'')"

definition parse_keyboard_mode :: "string \<Rightarrow> keyboard_mode option" where
  "parse_keyboard_mode s =
    (if s = ''legacy'' then Some Legacy else if s = ''map'' then Some MapMode
     else if s = ''translate'' then Some Translate else if s = ''auto'' then Some AutoMode else None)"

definition keyboard_modes :: "keyboard_mode list" where
  "keyboard_modes = [Legacy, MapMode, Translate, AutoMode]"

text \<open>
  The names and the modes determine each other: a name is read as a mode exactly when it is the name
  of that mode, and \<open>iter\<close> has every mode once.
\<close>

theorem keyboard_mode_names:
  "parse_keyboard_mode s = Some k \<longleftrightarrow> s = show_keyboard_mode k"
  by (cases k) (auto simp: parse_keyboard_mode_def show_keyboard_mode_def)

lemma keyboard_modes_all: "set keyboard_modes = UNIV \<and> distinct keyboard_modes"
proof -
  have "k \<in> set keyboard_modes" for k by (cases k) (simp_all add: keyboard_modes_def)
  then show ?thesis by (auto simp: keyboard_modes_def)
qed

end
