(* ===== verification/Capturers.thy ===== *)
theory Capturers
  imports ConvertProps PipeWireProps X11Props QuartzProps MagCapture DxgiProps AndroidProps SoftCodecs
begin

text \<open>
  The interface \<open>TraitCapturer\<close> of \<open>libs/scrap/src/common/mod.rs\<close>, which all captures of the screen provide and the
  conversion for the encoders uses: a picture has the bytes it says it has, and its rows lie in them. Each capture
  of the model provides it, and what the conversion does with their pictures is proved once.
\<close>

section \<open>The interface\<close>

definition picture_honest :: "pixel_buffer \<Rightarrow> bytes \<Rightarrow> bool" where
  "picture_honest b p \<longleftrightarrow> pb_len b = length p \<and> (\<exists>s. pb_stride b = [s] \<and> s * pb_h b \<le> length p)"

text \<open>The frames of a run; it ends with a panic, and with a step that is undefined.\<close>

fun frames_run :: "('i \<Rightarrow> 's \<Rightarrow> (frame_result \<times> 's) option) \<Rightarrow> 'i list \<Rightarrow> 's \<Rightarrow> frame_result list" where
  "frames_run step [] s = []"
| "frames_run step (i # is) s =
    (case step i s of
       None \<Rightarrow> []
     | Some (r, s) \<Rightarrow> r # (if r = FramePanic then [] else frames_run step is s))"

locale trait_capturer =
  fixes next_frame :: "'i \<Rightarrow> 's \<Rightarrow> (frame_result \<times> 's) option"
  assumes honest: "next_frame i s = Some (FrameOk b p, s') \<Longrightarrow> picture_honest b p"
begin

lemma run_honest: "FrameOk b p \<in> set (frames_run next_frame is s) \<Longrightarrow> picture_honest b p"
  by (induction "is" arbitrary: s) (auto dest: honest honest [OF sym] split: option.splits if_splits)

lemma run_converts:
  assumes "FrameOk b p \<in> set (frames_run next_frame is s)" "touches_within touch" "layout_ok F" "cv_calls st = []"
  shows "pb_len b = length p \<and> fst (convert_to_yuv ok b F st) \<noteq> Inl ConvPanic \<and>
    conv_safe touch b (convert_to_yuv ok b F st)"
proof -
  obtain s where h: "pb_len b = length p" "pb_stride b = [s]"
    using run_honest [OF assms(1)] by (auto simp: picture_honest_def)
  show ?thesis
  proof (cases "check_source b F")
    case None
    from convert_safe_if_checked [OF assms(2,3,4) None] h show ?thesis
      by (auto simp: conv_safe_def split: prod.splits)
  next
    case (Some e)
    then have "e \<noteq> ConvPanic" using check_source_panic h by auto
    then show ?thesis using Some h assms(4) by (simp add: convert_to_yuv_def conv_safe_def)
  qed
qed

end

section \<open>Its providers\<close>

lemma pixel_frame_honest: "pixel_frame d fmt w h = FrameOk b p \<Longrightarrow> picture_honest b p"
  by (auto simp: pixel_frame_def new_pixel_buffer_def picture_honest_def split: option.splits if_splits)

definition x11_next_frame :: "bytes option \<Rightarrow> x11_capturer \<Rightarrow> (frame_result \<times> x11_capturer) option" where
  "x11_next_frame img c = Some (x11_frame img c)"

interpretation x11_cap: trait_capturer x11_next_frame
  by unfold_locales
    (auto simp: x11_next_frame_def x11_frame_def Let_def split: prod.splits if_splits dest: pixel_frame_honest)

definition wayland_next_frame :: "sample option \<Rightarrow> pw_recorder \<Rightarrow> (frame_result \<times> pw_recorder) option" where
  "wayland_next_frame s r = Some (wayland_frame s r)"

interpretation wayland_cap: trait_capturer wayland_next_frame
  by unfold_locales
    (auto simp: wayland_next_frame_def wayland_frame_def
      split: prod.splits sum.splits pw_fail.splits pixel_provider.splits dest: pixel_frame_honest)

text \<open>The callbacks since the frame before, and the lock.\<close>

definition quartz_next_frame ::
  "(frame_status \<times> surface) list \<times> try_lock \<Rightarrow> quartz_capturer \<Rightarrow> (frame_result \<times> quartz_capturer) option" where
  "quartz_next_frame i q =
    map_option (\<lambda>(r, q, _). (r, q)) (quartz_frame_of (snd i) (run_quartz_callbacks (fst i) q))"

lemma surface_to_bgra_length: "surface_to_bgra h f = Some f' \<Longrightarrow> qf_stride f' * h = length (qf_bgra f')"
  by (auto simp: surface_to_bgra_def Let_def split: if_splits)

interpretation quartz_cap: trait_capturer quartz_next_frame
  by unfold_locales
    (auto simp: quartz_next_frame_def quartz_frame_of_def quartz_take_def drop_given_def Let_def quartz_picture_def
      picture_honest_def surface_to_bgra_length split: try_lock.splits option.splits prod.splits if_splits)

definition mag_next_frame :: "mag_frame_env \<Rightarrow> mag_capturer \<times> mag_buffer \<Rightarrow> (frame_result \<times> mag_capturer \<times> mag_buffer) option" where
  "mag_next_frame E s = (case mag_capturer_frame E (fst s) (snd s) of (r, b) \<Rightarrow> Some (r, fst s, b))"

interpretation mag_cap: trait_capturer mag_next_frame
  by unfold_locales
    (auto simp: mag_next_frame_def mag_capturer_frame_def split: prod.splits mag_result.splits dest: pixel_frame_honest)

text \<open>The state that Java changes comes with each call.\<close>

definition android_next_frame :: "int \<times> 'c android_state \<Rightarrow> android_capturer \<Rightarrow> (frame_result \<times> android_capturer) option" where
  "android_next_frame i c = (case android_frame (fst i) c (snd i) of (r, c, _) \<Rightarrow> Some (r, c))"

interpretation android_cap: trait_capturer android_next_frame
  by unfold_locales
    (auto simp: android_next_frame_def android_frame_def split: prod.splits option.splits dest: pixel_frame_honest)

text \<open>A texture is not converted, and counts as no picture here.\<close>

definition dx_picture :: "dx_frame dx_result \<Rightarrow> frame_result" where
  "dx_picture r =
    (case r of
       DxOk (DxPixels b p) \<Rightarrow> FrameOk b p
     | DxOk (DxTexture _ _) \<Rightarrow> FrameErr ''texture''
     | DxErr K_WouldBlock \<Rightarrow> FrameWouldBlock
     | DxErr _ \<Rightarrow> FrameErr ''error''
     | _ \<Rightarrow> FramePanic)"

definition dxgi_next_frame :: "(rotate_call \<Rightarrow> bytes \<Rightarrow> bytes) \<times> frame_env \<Rightarrow> capturer \<Rightarrow> (frame_result \<times> capturer) option" where
  "dxgi_next_frame i c = (case capturer_frame (fst i) (snd i) c of (r, c, _) \<Rightarrow> Some (dx_picture r, c))"

lemma dxgi_pixels_honest:
  assumes "capturer_frame rot E c = (DxOk (DxPixels b p), c', calls)"
  shows "picture_honest b p"
proof -
  obtain r c1 cs where d: "dxgi_frame rot E c = (r, c1, cs)" by (cases "dxgi_frame rot E c") auto
  then have "r = DxOk (DxPixels b p)"
    using assms by (auto simp: capturer_frame_def split: dx_result.splits win_kind.splits)
  then show ?thesis using d
    by (auto simp: dxgi_frame_def new_pixel_buffer_def picture_honest_def split: if_splits prod.splits dx_result.splits option.splits)
qed

interpretation dxgi_cap: trait_capturer dxgi_next_frame
  by unfold_locales
    (auto simp: dxgi_next_frame_def dx_picture_def dest: dxgi_pixels_honest
      split: prod.splits dx_result.splits dx_frame.splits win_kind.splits)

section \<open>Whichever is used\<close>

datatype 'c capture_input =
    InX11 "bytes option"
  | InWayland "sample option"
  | InQuartz "(frame_status \<times> surface) list \<times> try_lock"
  | InMag mag_frame_env
  | InAndroid "int \<times> 'c android_state"
  | InDxgi "(rotate_call \<Rightarrow> bytes \<Rightarrow> bytes) \<times> frame_env"

datatype any_capturer =
    CapX11 x11_capturer
  | CapWayland pw_recorder
  | CapQuartz quartz_capturer
  | CapMag "mag_capturer \<times> mag_buffer"
  | CapAndroid android_capturer
  | CapDxgi capturer

fun any_next_frame :: "'c capture_input \<Rightarrow> any_capturer \<Rightarrow> (frame_result \<times> any_capturer) option" where
  "any_next_frame (InX11 i) (CapX11 c) = map_option (map_prod id CapX11) (x11_next_frame i c)"
| "any_next_frame (InWayland i) (CapWayland c) = map_option (map_prod id CapWayland) (wayland_next_frame i c)"
| "any_next_frame (InQuartz i) (CapQuartz c) = map_option (map_prod id CapQuartz) (quartz_next_frame i c)"
| "any_next_frame (InMag i) (CapMag c) = map_option (map_prod id CapMag) (mag_next_frame i c)"
| "any_next_frame (InAndroid i) (CapAndroid c) = map_option (map_prod id CapAndroid) (android_next_frame i c)"
| "any_next_frame (InDxgi i) (CapDxgi c) = map_option (map_prod id CapDxgi) (dxgi_next_frame i c)"
| "any_next_frame _ _ = None"

interpretation any_cap: trait_capturer any_next_frame
proof
  fix i :: "'c capture_input" and s s' b p
  assume "any_next_frame i s = Some (FrameOk b p, s')"
  then show "picture_honest b p"
    by (cases "(i, s)" rule: any_next_frame.cases)
      (auto dest: x11_cap.honest wayland_cap.honest quartz_cap.honest mag_cap.honest android_cap.honest dxgi_cap.honest)
qed

section \<open>To the encoder\<close>

text \<open>When libyuv takes every call, a picture that passes the checks is converted.\<close>

lemma convert_succeeds:
  assumes "layout_ok F" "cv_calls st = []" "check_source b F = None" "is_rgb (pb_fmt b)"
    and "yf_fmt F = PixI420 \<or> yf_fmt F = PixI444"
  shows "\<exists>st'. convert_to_yuv (\<lambda>_. True) b F st = (Inr (), st')"
proof -
  have "conv_safe documented b (convert_to_yuv (\<lambda>_. True) b F st)"
    by (rule convert_safe_if_checked [OF documented_within assms(1,2,3)])
  then have n: "fst (convert_to_yuv (\<lambda>_. True) b F st) \<noteq> Inl ConvPanic" by (auto simp: conv_safe_def split: prod.splits)
  have "fst (convert_to_yuv (\<lambda>_. True) b F st) \<in> {Inr (), Inl ConvPanic}"
    using assms(3,4,5)
    by (auto simp: convert_to_yuv_def is_rgb_def to_i420_def to_i444_def call_yuv_def conv_done_def expand_565_def Let_def
        split: list.splits)
  with n show ?thesis by (cases "convert_to_yuv (\<lambda>_. True) b F st") auto
qed

lemma x11_picture_checked:
  assumes "x11_frame_ok d (FrameOk b p)" "is_rgb (xd_fmt d)" "xd_width d \<le> yf_w F" "xd_height d \<le> yf_h F"
  shows "check_source b F = None \<and> is_rgb (pb_fmt b)"
  using assms by (auto simp: x11_frame_ok_def check_source_def x11_size_def)

lemma x11_display_rgb: "is_rgb (xd_fmt (x11_display_of lossy S win mon))"
  by (auto simp: x11_display_of_def is_rgb_def or_bgra_def get_pixfmt_def split: option.splits)

lemma frames_run_x11: "frames_run x11_next_frame imgs c = run_x11 imgs c" if "xd_height (xc_display c) \<noteq> 0"
  using that
proof (induction imgs arbitrary: c)
  case (Cons img imgs)
  obtain f c' where f: "x11_frame img c = (f, c')" by fastforce
  have "f \<noteq> FramePanic" using f Cons.prems
    by (auto simp: x11_frame_def Let_def pixel_frame_def new_pixel_buffer_def split: prod.splits if_splits)
  then show ?case using f Cons.IH [of c'] Cons.prems x11_frame_keeps(1) [OF f] by (simp add: x11_next_frame_def)
qed simp

end
