(* ===== verification/EncodeScreen.thy ===== *)
theory EncodeScreen
  imports Capturers
begin

text \<open>
  From the screen to the encoder: captures of every system with the conversion of \<open>convert.rs\<close>, and the capture of an
  X11 desktop through the conversion into a software encoder.
\<close>

section \<open>Every capture\<close>

text \<open>
  C18: Whatever the system under any of the captures answers, in any run, a picture that is handed out has the bytes it
  says it has, and its conversion for an encoder neither indexes outside a slice nor lets libyuv leave the picture or
  the buffers it is given.
\<close>

theorem captured_pictures_convert_safely:
  assumes "FrameOk b p \<in> set (frames_run any_next_frame is c)" "touches_within touch" "layout_ok F"
  shows "pb_len b = length p \<and>
    (let (r, st) = convert_to_yuv ok b F \<lparr>cv_dst = 0, cv_mid = 0, cv_calls = []\<rparr>
     in r \<noteq> Inl ConvPanic \<and> (\<forall>call\<in>set (cv_calls st). call_safe touch b st call))"
  using any_cap.run_converts [OF assms, of "\<lparr>cv_dst = 0, cv_mid = 0, cv_calls = []\<rparr>" ok]
  by (simp add: conv_safe_def list_all_iff split_beta Let_def)

definition demo_screen :: x11_display where
  "demo_screen = \<lparr>xd_default = True, xd_rect = ((0, 0), 2, 1), xd_root = 7, xd_name = [], xd_fmt = PixBGRA\<rparr>"

definition demo_x11_capturer :: x11_capturer where
  "demo_x11_capturer = \<lparr>xc_display = demo_screen, xc_buffer = [0, 0, 0, 0, 0, 0, 0, 0], xc_saved = []\<rparr>"

definition demo_picture :: pixel_buffer where
  "demo_picture = \<lparr>pb_len = 8, pb_stride = [8], pb_fmt = PixBGRA, pb_w = 2, pb_h = 1\<rparr>"

lemma demo_screen_run:
  "FrameOk demo_picture [9, 0, 0, 0, 0, 0, 0, 0] \<in>
    set (frames_run x11_next_frame [None, Some [9]] demo_x11_capturer)"
  "FrameOk demo_picture [9, 0, 0, 0, 0, 0, 0, 0] \<in>
    set (frames_run any_next_frame [InX11 None, InX11 (Some [9]) :: unit capture_input] (CapX11 demo_x11_capturer))"
  by (simp_all add: x11_next_frame_def x11_frame_def demo_x11_capturer_def demo_screen_def demo_picture_def get_image_def
      would_block_if_equal_def pixel_frame_def new_pixel_buffer_def xd_width_def xd_height_def Let_def)

theorem captured_pictures_convert_safely_witness:
  "pb_len demo_picture = length [9, 0, 0, 0, 0, 0, 0, 0 :: u8] \<and>
    fst (convert_to_yuv (\<lambda>_. True) demo_picture demo_layout \<lparr>cv_dst = 0, cv_mid = 0, cv_calls = []\<rparr>) \<noteq> Inl ConvPanic"
proof -
  have "layout_ok demo_layout" by (simp add: layout_ok_def demo_layout_def)
  from captured_pictures_convert_safely [OF demo_screen_run(2) documented_within this, of "\<lambda>_. True"]
  show ?thesis by (simp add: split_beta Let_def)
qed

section \<open>An X11 desktop\<close>

text \<open>
  C8: A whole way of the video: for a display that the iterator over the X server found, every picture of every run of
  its capturer is converted, when libyuv takes the calls, to a layout at least as large, and a software encoder
  of the size of the display takes the result, of whatever length the conversion made it.
\<close>

theorem x11_screen_encoded:
  assumes "d = x11_display_of lossy S win mon" "xd_height d \<noteq> 0" "fst (new_x11_capturer True True d) = Inr c"
    and "FrameOk b p \<in> set (frames_run x11_next_frame imgs c)"
    and "layout_ok F" "yf_fmt F = (if so_i444 e then PixI444 else PixI420)"
    and "xd_width d \<le> yf_w F" "xd_height d \<le> yf_h F" "so_width e = xd_width d" "so_height e = xd_height d"
  shows "\<exists>st. convert_to_yuv (\<lambda>_. True) b F \<lparr>cv_dst = 0, cv_mid = 0, cv_calls = []\<rparr> = (Inr (), st) \<and>
    (\<forall>yuv. length yuv = cv_dst st \<longrightarrow>
      soft_encode lib e pts yuv = map_sum id encode_frames (sl_encode lib pts yuv))"
proof -
  have c: "xc_display c = d" "length (xc_buffer c) = x11_size d"
    using assms(3) by (auto simp: new_x11_capturer_def)
  then have "x11_frame_ok d (FrameOk b p)"
    using run_x11_ok [of c imgs] assms(2,4) by (simp add: frames_run_x11)
  from x11_picture_checked [OF this _ assms(7,8)] x11_display_rgb assms(1)
  have checked: "check_source b F = None" "is_rgb (pb_fmt b)" by auto
  obtain st where st: "convert_to_yuv (\<lambda>_. True) b F \<lparr>cv_dst = 0, cv_mid = 0, cv_calls = []\<rparr> = (Inr (), st)"
    using convert_succeeds [OF assms(5) _ checked, of "\<lparr>cv_dst = 0, cv_mid = 0, cv_calls = []\<rparr>"] assms(6)
    by (auto split: if_splits)
  from converted_accepted [OF assms(5,6) _ _ st, of _ lib pts] assms(7-10) st show ?thesis by auto
qed

lemma replicate_8: "replicate 8 x = [x, x, x, x, x, x, x, x]"
  by (simp add: eval_nat_numeral)

theorem x11_screen_encoded_witness:
  "\<exists>st. convert_to_yuv (\<lambda>_. True) demo_picture demo_layout \<lparr>cv_dst = 0, cv_mid = 0, cv_calls = []\<rparr> = (Inr (), st)"
proof -
  let ?d = "x11_display_of (\<lambda>_. '''') demo_x11 7 (demo_monitor 1)"
  let ?e = "\<lparr>so_cfg = vpx_enc_cfg None demo_lerp 4 demo_vpx False, so_width = 2, so_height = 1, so_i444 = False\<rparr>"
  have d: "?d = demo_screen"
    by (simp add: x11_display_of_def demo_x11_def demo_monitor_def demo_screen_def get_atom_name_def get_pixfmt_def or_bgra_def)
  have new: "fst (new_x11_capturer True True ?d) = Inr demo_x11_capturer"
    by (simp add: d new_x11_capturer_def demo_x11_capturer_def x11_size_def xd_width_def xd_height_def demo_screen_def
        bytes_per_pixel_def replicate_8)
  show ?thesis
    using x11_screen_encoded [OF refl _ new demo_screen_run(1), of demo_layout ?e demo_soft 0]
    by (auto simp: d demo_screen_def xd_width_def xd_height_def layout_ok_def demo_layout_def)
qed

end
