(* ===== verification/Spec2Isabelle.thy ===== *)
theory Spec2Isabelle
  imports Prelude StrUtil BytesCodec AddrMangle PasswordSecurity Options Config ConfigOps
    ConfigProps Access PeerConfig AddressBook Tcp NetUtil IpStr Proxy NetConn LinuxSession
    FileTransfer FileTransferProps FileTree FileTreeProps Codec ClipMsg FuseFs FuseProps FileGroup
    FileGroupProps UriList ClipServe ClipServeProps Enigo EnigoProps Portable Recorder Encoders
    HwEncoders HwEncoderProps HwConfigProps Convert ConvertProps WinClip EnigoWin EnigoWinProps
    EnigoMac EnigoMacProps PipeWire PipeWireProps DxgiDisplays DxgiCapture DxgiProps MagCapture Keys
    Android AndroidProps X11Capture X11Props Quartz QuartzProps VirtualDisplay CpuMonitor SoftCodecs
    PortableRun KeyboardMode Capturers EncodeScreen
begin

section \<open>The Rust core of the trading client\<close>

text \<open>
  The repository is a Flutter trading client (Dart under \<open>lib/\<close>) around the Rust libraries of a
  remote desktop (\<open>libs/\<close>): \<open>hbb_common\<close> (wire protocol, configuration, passwords, file transfer),
  \<open>clipboard\<close> (files copied between machines), \<open>scrap\<close> (screen capture and video codecs), \<open>enigo\<close>
  (synthetic input), \<open>portable\<close> (the self-extracting launcher) and \<open>virtual_display\<close>. This library
  models the logic of the Rust part that decides something: what is sent, stored, accepted, refused
  or chosen. Each theory follows one source file or a part of it, definition by definition.

  \<^bold>\<open>How the parts interact.\<close> A connection is chosen from address strings (\<open>socket_client.rs\<close>), opened
  as a framed stream (\<open>tcp.rs\<close>) whose packets are cut by the codec (\<open>bytes_codec.rs\<close>) and sealed with
  a key per session. The configuration (\<open>config.rs\<close>) keeps options, peers and secrets in files, the
  secrets encrypted by \<open>password_security.rs\<close>, which also decides which password admits a peer.
  Over the stream run the file transfer jobs (\<open>fs.rs\<close>), the video, whose codec is negotiated between
  all decoders (\<open>codec.rs\<close>), and the clipboard messages: one side offers files
  (\<open>local_file.rs\<close>), the other mounts them as a file system (\<open>fuse.rs\<close>) and reads their contents over
  the service of \<open>platform/unix/mod.rs\<close>, which also watches and sets the desktop's clipboard. The video comes
  from a capture of the screen (\<open>x11/\<close>, \<open>wayland/\<close>, \<open>quartz/\<close>, \<open>dxgi/\<close>, \<open>android/\<close>), whose pictures are
  converted (\<open>convert.rs\<close>), encoded (\<open>vpxcodec.rs\<close>, \<open>aom.rs\<close>, \<open>hwcodec.rs\<close>, \<open>vram.rs\<close>) and may be recorded
  (\<open>record.rs\<close>); the input of the other side is typed and clicked by \<open>enigo\<close>.
\<close>

section \<open>Theories and sources\<close>

text \<open>
  \<^bold>\<open>Shared.\<close>
  \<^item> \<open>Prelude\<close>, \<open>StrUtil\<close>: machine integers and byte strings, the string operations of the Rust
    library that the sources call, and the lemmas shared by all components.

  \<^bold>\<open>Network\<close> (\<open>libs/hbb_common/src\<close>).
  \<^item> \<open>BytesCodec\<close> (\<open>bytes_codec.rs\<close>): \<open>decode\<close> and \<open>encode\<close> over the codec's state and buffer; packets
    survive any chunking of the bytes, and nothing beyond the packet limit is returned.
  \<^item> \<open>Tcp\<close> (\<open>tcp.rs\<close>): the encrypted stream. The cryptography is the record \<open>crypto\<close> with the law that opening
    undoes sealing; the locale \<open>framing\<close> is what the channel needs of the codec, which interprets it.
  \<^item> \<open>AddrMangle\<close>, \<open>NetUtil\<close>, \<open>IpStr\<close>, \<open>NetConn\<close>, \<open>Proxy\<close> (\<open>lib.rs\<close>, \<open>socket_client.rs\<close>, \<open>udp.rs\<close>, \<open>proxy.rs\<close>):
    obfuscated addresses, classes of address strings, the choice of a connection, sockets, and the tunnels through
    HTTP and SOCKS proxies.

  \<^bold>\<open>Configuration\<close> (\<open>config.rs\<close>, \<open>password_security.rs\<close>).
  \<^item> \<open>Options\<close>, \<open>Config\<close>, \<open>ConfigOps\<close>, \<open>ConfigProps\<close>, \<open>Keys\<close>: layers of options (locale \<open>option_layer\<close>,
    interpreted by the global, the local and the Flutter options and by the user defaults), the globals and their
    files, and the names of the options.
  \<^item> \<open>PeerConfig\<close>, \<open>AddressBook\<close>: the files of the peers, the user defaults, and the encrypted caches (locale
    \<open>cache_file\<close>, interpreted by the address book and the group).
  \<^item> \<open>PasswordSecurity\<close>, \<open>Access\<close>: stored secrets and who is let in.

  \<^bold>\<open>Files\<close> (\<open>fs.rs\<close>, \<open>compress.rs\<close>).
  \<^item> \<open>FileTransfer\<close>, \<open>FileTransferProps\<close>: reading and writing jobs and their composition over the wire.
  \<^item> \<open>FileTree\<close>, \<open>FileTreeProps\<close>: lists of directories, the removal of empty ones as a refinement of pruning a
    tree, and the arrival of a whole directory.

  \<^bold>\<open>Clipboard\<close> (\<open>libs/clipboard/src\<close>).
  \<^item> \<open>ClipMsg\<close>, \<open>FileGroup\<close>, \<open>FileGroupProps\<close>, \<open>FuseFs\<close>, \<open>FuseProps\<close>, \<open>UriList\<close>, \<open>ClipServe\<close>,
    \<open>ClipServeProps\<close>: messages and channels, the list of offered files, the file system of the pasted files
    with its step relation, the clipboards of the desktops and the service that joins them (locale
    \<open>content_server\<close>, interpreted by the service).
  \<^item> \<open>WinClip\<close>: the messages between Rust and the C library of Windows.

  \<^bold>\<open>Video\<close> (\<open>libs/scrap/src\<close>).
  \<^item> \<open>Codec\<close>: negotiation of the encoder and dispatch of the decoder; \<open>Encoders\<close>, \<open>HwEncoders\<close>, \<open>HwEncoderProps\<close>,
    \<open>HwConfigProps\<close>, \<open>SoftCodecs\<close>: the encoders (locale \<open>encoder_api\<close>, interpreted by each), the software decoders,
    the configuration of the hardware, the test of AV1 and the process that checks the hardware.
  \<^item> \<open>Convert\<close>, \<open>ConvertProps\<close>: the calls of libyuv for captured and decoded pictures, with the buffers they touch.
  \<^item> \<open>PipeWire\<close>, \<open>PipeWireProps\<close> (Wayland), \<open>X11Capture\<close>, \<open>X11Props\<close>, \<open>Quartz\<close>, \<open>QuartzProps\<close> (macOS),
    \<open>DxgiDisplays\<close>, \<open>DxgiCapture\<close>, \<open>DxgiProps\<close>, \<open>MagCapture\<close> (Windows), \<open>Android\<close>, \<open>AndroidProps\<close>: displays,
    the captures with the handles they hold, and their frames.
  \<^item> \<open>Capturers\<close>, \<open>EncodeScreen\<close>: the interface of all captures (locale \<open>trait_capturer\<close>, interpreted by each) and
    its client, the conversion; and the way of a picture from an X11 display to the encoder.
  \<^item> \<open>Recorder\<close>: the recording of a session.

  \<^bold>\<open>Input and the rest.\<close>
  \<^item> \<open>Enigo\<close>, \<open>EnigoProps\<close> (key sequences and Linux; locale \<open>event_keyboard\<close>), \<open>EnigoWin\<close>, \<open>EnigoWinProps\<close>,
    \<open>EnigoMac\<close>, \<open>EnigoMacProps\<close>, \<open>KeyboardMode\<close>: synthetic input and the text that arrives.
  \<^item> \<open>LinuxSession\<close>, \<open>CpuMonitor\<close> (\<open>hbb_common/src/platform\<close>): the session of the seat, crashes, and the usage of
    the processor on Windows.
  \<^item> \<open>Portable\<close>, \<open>PortableRun\<close> (\<open>libs/portable\<close>): the archive, the installation and the start of the launcher.
  \<^item> \<open>VirtualDisplay\<close> (\<open>libs/virtual_display\<close>): the virtual displays of Windows over their driver.
\<close>

section \<open>How the code is modelled\<close>

text \<open>
  Structures are records, enumerations datatypes; integers whose width matters are words, the others natural numbers
  with their bounds stated. State is passed explicitly, an error is the left of a sum or an own result type with
  values for a panic and for undefined behaviour (a null pointer, memory that was freed, an index out of bounds).
  Files, processes, clocks, operating systems, cryptography, compression and the codec libraries are arguments: what
  a property needs of them is a named hypothesis. Resources that are made and given back, and calls into libraries, are
  lists of events in their order, over which the safety properties are stated.

  Loops are structural recursions or functions with a measure; loops that wait for the world run over the list of what
  the world answers, and a property says when they end: the loop of the desktop portal takes the events of at most its
  1800 turns of 100 ms, the check of the hardware at most 30 turns of a second, and the end of a macOS stream waits for
  one callback. Functions with fuel (collecting the files below a directory, copying a pasted file, the logarithm of the
  number of tiles) take the depth or the size of their data, and lemmas show that this is enough.

  The groups of lemmas follow the components: each has its invariants with their preservation, the meaning of its
  operations, and what its clients need; theories whose names end in \<open>Props\<close> hold the properties of the theory before.
  The properties show what a component promises (packets arrive, files arrive, recordings play, pictures are converted
  inside their buffers, resources are given back), and some show where the code falls short of it.
\<close>

section \<open>Not modelled\<close>

text \<open>
  \<^item> The Flutter client under \<open>lib/\<close>, the runners of its platforms, scripts, assets, and the generated code of the
    message definitions (\<open>protos/\<close>), which other parts only carry.
  \<^item> The C library of the Windows clipboard (\<open>windows/wf_cliprdr.c\<close>), of which the Rust side is \<open>WinClip\<close>.
  \<^item> Declarations of foreign functions (\<open>x11/ffi.rs\<close>, \<open>quartz/ffi.rs\<close>, \<open>win10/idd.rs\<close>, \<open>scrap/src/bindings/\<close>), the generated D-Bus
    interfaces (\<open>wayland/*_portal.rs\<close>), and build scripts, examples and tests.
  \<^item> The layout of the splash window (\<open>portable/src/ui.rs\<close>) and the dialog of macOS (\<open>platform/macos.rs\<close>), which are user
    interface, and \<open>mem.rs\<close>, an allocation.
  \<^item> Contention on locks: each operation of the models is one step, except where the code's own interleaving is the
    point (frames of Android and macOS, the service of the clipboard, callbacks of the magnifier).
  \<^item> Arithmetic of floating point, where an argument stands for it (interpolated quantizers) or rational numbers do
    (scales of macOS, means of the processor), as each theory says.
  \<^item> The file clipboard of Linux and macOS is behind the feature \<open>unix-file-copy-paste\<close>, which does not compile at this
    commit; its models follow the text of the sources.
\<close>

end
